(* ===== verification/Prelude.thy ===== *)
theory Prelude
  imports Complex_Main "HOL-Library.AList" "HOL-Library.Sublist" "HOL-Library.Multiset"
    "HOL-Library.Char_ord" "HOL-Library.List_Lexorder"
begin

text \<open>
  Shared vocabulary of the development.

  A Python \<open>str\<close> is represented by its UTF-8 encoding, a HOL \<open>string\<close> (a list of bytes).
  Equality, concatenation, prefix tests, splitting at an ASCII character and the code-point order are
  the same on the encoding as on the text; \<open>s.encode("utf-8")\<close> is the identity; \<open>len(s)\<close> and
  slices, which count code points, are \<open>py_len\<close> and \<open>py_take\<close>. Case folding and white space are
  modelled for ASCII.

  A Python value that came out of \<open>json.loads\<close> is a \<open>json\<close>; floats are real numbers. A
  \<open>dict\<close> is an association list in insertion order, whose keys are distinct.
\<close>

named_theorems dict_simps \<open>lookup after an update of a dictionary\<close>
named_theorems step_simps \<open>one-step unfolding of the operations of a component\<close>

subsection \<open>Strings\<close>

definition is_cont :: "char \<Rightarrow> bool" where
  "is_cont c \<longleftrightarrow> (of_char c :: nat) div 64 = 2"

definition py_len :: "string \<Rightarrow> nat" where
  "py_len s = length (filter (\<lambda>c. \<not> is_cont c) s)"

fun py_take :: "nat \<Rightarrow> string \<Rightarrow> string" where
  "py_take n [] = []"
| "py_take n (c # cs) =
     (if is_cont c then c # py_take n cs
      else case n of 0 \<Rightarrow> [] | Suc m \<Rightarrow> c # py_take m cs)"

definition is_space :: "char \<Rightarrow> bool" where
  "is_space c \<longleftrightarrow> (let n = (of_char c :: nat) in n = 32 \<or> (9 \<le> n \<and> n \<le> 13) \<or> (28 \<le> n \<and> n \<le> 31))"

definition lstrip :: "string \<Rightarrow> string" where
  "lstrip s = dropWhile is_space s"

definition strip :: "string \<Rightarrow> string" where
  "strip s = rev (dropWhile is_space (rev (lstrip s)))"

definition lower_char :: "char \<Rightarrow> char" where
  "lower_char c = (let n = (of_char c :: nat) in if 65 \<le> n \<and> n \<le> 90 then char_of (n + 32) else c)"

definition lower :: "string \<Rightarrow> string" where
  "lower s = map lower_char s"

definition is_digit :: "char \<Rightarrow> bool" where
  "is_digit c \<longleftrightarrow> (let n = (of_char c :: nat) in 48 \<le> n \<and> n \<le> 57)"

definition is_hex_lower :: "char \<Rightarrow> bool" where
  "is_hex_lower c \<longleftrightarrow> is_digit c \<or> (let n = (of_char c :: nat) in 97 \<le> n \<and> n \<le> 102)"

text \<open>\<open>str.partition(c)\<close> for a one-character separator, and \<open>str.split(c)\<close>.\<close>

definition partition_char :: "char \<Rightarrow> string \<Rightarrow> string \<times> string" where
  "partition_char c s = (takeWhile (\<lambda>x. x \<noteq> c) s, drop 1 (dropWhile (\<lambda>x. x \<noteq> c) s))"

fun split_char :: "char \<Rightarrow> string \<Rightarrow> string list" where
  "split_char c [] = [[]]"
| "split_char c (x # xs) =
     (if x = c then [] # split_char c xs
      else case split_char c xs of [] \<Rightarrow> [[x]] | w # ws \<Rightarrow> (x # w) # ws)"

fun join :: "string \<Rightarrow> string list \<Rightarrow> string" where
  "join sep [] = []"
| "join sep [x] = x"
| "join sep (x # y # ys) = x @ sep @ join sep (y # ys)"

text \<open>Decimal notation of an integer, \<open>str(n)\<close> and \<open>f"{n}"\<close>, and its reader \<open>int(s)\<close>.\<close>

fun nat_digits :: "nat \<Rightarrow> string" where
  "nat_digits n = (if n < 10 then [char_of (48 + n)] else nat_digits (n div 10) @ [char_of (48 + n mod 10)])"

declare nat_digits.simps [simp del]

definition str_int :: "int \<Rightarrow> string" where
  "str_int i = (if i < 0 then ''-'' @ nat_digits (nat (- i)) else nat_digits (nat i))"

definition digit_val :: "char \<Rightarrow> nat" where
  "digit_val c = of_char c - 48"

definition nat_of_digits :: "string \<Rightarrow> nat" where
  "nat_of_digits s = foldl (\<lambda>n c. 10 * n + digit_val c) 0 s"

definition parse_nat :: "string \<Rightarrow> nat option" where
  "parse_nat s = (if s \<noteq> [] \<and> list_all is_digit s then Some (nat_of_digits s) else None)"

definition parse_int :: "string \<Rightarrow> int option" where
  "parse_int s =
     (case s of c # cs \<Rightarrow>
        (if c = CHR ''-'' then map_option (\<lambda>n. - int n) (parse_nat cs) else map_option int (parse_nat s))
      | [] \<Rightarrow> None)"

lemma nat_digits_nonempty [simp]: "nat_digits n \<noteq> []"
  by (subst nat_digits.simps) simp

lemma of_char_digit: "(d::nat) < 10 \<Longrightarrow> (of_char (char_of (48 + d) :: char) :: nat) = 48 + d"
  by (simp add: of_char_of)

lemma is_digit_char_of: "(d::nat) < 10 \<Longrightarrow> is_digit (char_of (48 + d))"
  by (simp add: is_digit_def of_char_digit Let_def)

lemma nat_digits_all: "list_all is_digit (nat_digits n)"
proof (induction n rule: nat_digits.induct)
  case (1 n)
  show ?case
  proof (cases "n < 10")
    case True
    then show ?thesis by (subst nat_digits.simps) (simp add: is_digit_char_of)
  next
    case False
    with "1.IH" show ?thesis by (subst nat_digits.simps) (simp add: is_digit_char_of)
  qed
qed

lemma nat_of_digits_snoc: "nat_of_digits (s @ [c]) = 10 * nat_of_digits s + digit_val c"
  by (simp add: nat_of_digits_def)

lemma nat_of_digits_nat_digits: "nat_of_digits (nat_digits n) = n"
proof (induction n rule: nat_digits.induct)
  case (1 n)
  show ?case
  proof (cases "n < 10")
    case True
    then show ?thesis
      by (subst nat_digits.simps) (simp add: nat_of_digits_def digit_val_def of_char_digit)
  next
    case False
    then have "nat_digits n = nat_digits (n div 10) @ [char_of (48 + n mod 10)]"
      by (subst nat_digits.simps) simp
    then show ?thesis
      using "1.IH" [OF False] by (simp add: nat_of_digits_snoc digit_val_def of_char_digit)
  qed
qed

lemma parse_nat_nat_digits [simp]: "parse_nat (nat_digits n) = Some n"
  by (simp add: parse_nat_def nat_digits_all nat_of_digits_nat_digits)

lemma digit_not_minus: "is_digit c \<Longrightarrow> c \<noteq> CHR ''-''"
  by (auto simp: is_digit_def Let_def)

lemma hd_nat_digits: "nat_digits n = c # cs \<Longrightarrow> c \<noteq> CHR ''-''"
  using nat_digits_all [of n] digit_not_minus by auto

lemma parse_int_str_int [simp]: "parse_int (str_int i) = Some i"
proof (cases "i < 0")
  case True
  then show ?thesis by (simp add: parse_int_def str_int_def)
next
  case False
  obtain c cs where c: "nat_digits (nat i) = c # cs"
    by (cases "nat_digits (nat i)") auto
  have "parse_nat (c # cs) = Some (nat i)" using c parse_nat_nat_digits [of "nat i"] by simp
  with False c hd_nat_digits [OF c] show ?thesis by (simp add: parse_int_def str_int_def)
qed

lemma digit_not_colon: "is_digit c \<Longrightarrow> c \<noteq> CHR '':''"
  by (auto simp: is_digit_def Let_def)

lemma set_nat_digits: "c \<in> set (nat_digits n) \<Longrightarrow> is_digit c"
  using nat_digits_all [of n] by (simp add: list_all_iff)

lemma nat_digits_no_colon [simp]: "CHR '':'' \<notin> set (nat_digits n)"
  using set_nat_digits digit_not_colon by blast

lemma str_int_no_colon: "CHR '':'' \<notin> set (str_int i)"
  by (simp add: str_int_def)

lemma split_char_nonempty [simp]: "split_char c s \<noteq> []"
  by (induction s) (auto split: list.splits)

lemma split_char_no: "c \<notin> set s \<Longrightarrow> split_char c s = [s]"
  by (induction s) auto

lemma split_char_append: "c \<notin> set s \<Longrightarrow> split_char c (s @ c # t) = s # split_char c t"
  by (induction s) auto

lemma partition_char_append:
  "c \<notin> set s \<Longrightarrow> partition_char c (s @ c # t) = (s, t)"
  by (auto simp: partition_char_def takeWhile_tail dropWhile_append)

lemma partition_char_no: "c \<notin> set s \<Longrightarrow> partition_char c s = (s, [])"
proof -
  assume "c \<notin> set s"
  then have all: "\<forall>x \<in> set s. x \<noteq> c" by auto
  then have "dropWhile (\<lambda>x. x \<noteq> c) s = []" and "takeWhile (\<lambda>x. x \<noteq> c) s = s"
    by (simp_all only: dropWhile_eq_Nil_conv takeWhile_eq_all_conv)
  then show ?thesis by (simp only: partition_char_def drop_Nil)
qed

lemma py_len_le: "py_len s \<le> length s"
  by (simp add: py_len_def)

lemma py_len_py_take: "py_len (py_take n s) \<le> n"
  by (induction n s rule: py_take.induct) (auto simp: py_len_def split: nat.splits)

lemma prefix_py_take: "prefix (py_take n s) s"
  by (induction n s rule: py_take.induct) (auto split: nat.splits)

subsection \<open>JSON values\<close>

datatype json =
    JNull
  | JBool bool
  | JInt int
  | JFloat real
  | JStr string
  | JList "json list"
  | JObj "(string \<times> json) list"

type_synonym dict = "(string \<times> json) list"

text \<open>Python's truth value of an object.\<close>

fun truthy :: "json \<Rightarrow> bool" where
  "truthy JNull = False"
| "truthy (JBool b) = b"
| "truthy (JInt i) = (i \<noteq> 0)"
| "truthy (JFloat r) = (r \<noteq> 0)"
| "truthy (JStr s) = (s \<noteq> [])"
| "truthy (JList xs) = (xs \<noteq> [])"
| "truthy (JObj kvs) = (kvs \<noteq> [])"

definition py_or :: "json \<Rightarrow> json \<Rightarrow> json" where
  "py_or a b = (if truthy a then a else b)"

definition dget :: "dict \<Rightarrow> string \<Rightarrow> json \<Rightarrow> json" where
  "dget d k v = (case map_of d k of None \<Rightarrow> v | Some x \<Rightarrow> x)"

definition dset :: "string \<Rightarrow> json \<Rightarrow> dict \<Rightarrow> dict" where
  "dset k v d = AList.update k v d"

definition dpop :: "string \<Rightarrow> dict \<Rightarrow> dict" where
  "dpop k d = AList.delete k d"

text \<open>Keep the keys that satisfy a predicate, in order: \<open>{k: v for k, v in d.items() if p(k)}\<close>.\<close>

definition dfilter :: "(string \<Rightarrow> bool) \<Rightarrow> dict \<Rightarrow> dict" where
  "dfilter p d = filter (\<lambda>kv. p (fst kv)) d"

text \<open>\<open>str(v)\<close> where \<open>str_of\<close> renders the values that are no text.\<close>

definition text_of :: "(json \<Rightarrow> string) \<Rightarrow> json \<Rightarrow> string" where
  "text_of str_of j = (case j of JStr s \<Rightarrow> s | _ \<Rightarrow> str_of j)"

lemma dget_Nil [simp]: "dget [] k v = v"
  by (simp add: dget_def)

lemma dget_Cons [simp]: "dget ((a, x) # d) k v = (if k = a then x else dget d k v)"
  by (simp add: dget_def)

lemma dget_dset [simp, dict_simps]:
  "dget (dset k x d) k' v = (if k' = k then x else dget d k' v)"
  by (simp add: dget_def dset_def update_conv)

lemma dget_dpop [simp, dict_simps]:
  "dget (dpop k d) k' v = (if k' = k then v else dget d k' v)"
  by (simp add: dget_def dpop_def delete_conv)

lemma map_of_filter_fst:
  "map_of (filter (\<lambda>kv. p (fst kv)) d) k = (if p k then map_of d k else None)"
  by (induction d) auto

lemma dget_dfilter [simp, dict_simps]:
  "dget (dfilter p d) k v = (if p k then dget d k v else v)"
  by (simp add: dget_def dfilter_def map_of_filter_fst)

lemma keys_dfilter: "fst ` set (dfilter p d) = {k \<in> fst ` set d. p k}"
  by (auto simp: dfilter_def)

lemma dfilter_dfilter: "dfilter p (dfilter q d) = dfilter (\<lambda>k. p k \<and> q k) d"
  by (simp add: dfilter_def conj_commute)

subsection \<open>Lists\<close>

lemma sum_list_map_filter_le:
  "(\<And>x. x \<in> set xs \<Longrightarrow> 0 \<le> (f x :: int)) \<Longrightarrow> sum_list (map f (filter p xs)) \<le> sum_list (map f xs)"
proof (induction xs)
  case Nil
  then show ?case by simp
next
  case (Cons x xs)
  then have "sum_list (map f (filter p xs)) \<le> sum_list (map f xs)" by simp
  moreover have "0 \<le> f x" using Cons.prems by simp
  ultimately show ?case by simp
qed

lemma update_new_key: "k \<notin> fst ` set al \<Longrightarrow> AList.update k v al = al @ [(k, v)]"
  by (induction al) auto

lemma subseq_distinct: "subseq xs ys \<Longrightarrow> distinct ys \<Longrightarrow> distinct xs"
  by (induction rule: list_emb.induct) (auto dest: list_emb_set)

lemma find_SomeD: "find P xs = Some x \<Longrightarrow> x \<in> set xs \<and> P x"
  by (induction xs) (auto split: if_splits)

lemma find_NoneD: "find P xs = None \<Longrightarrow> x \<in> set xs \<Longrightarrow> \<not> P x"
  by (induction xs) (auto split: if_splits)

lemma sum_list_map_nonneg:
  "(\<And>x. x \<in> set xs \<Longrightarrow> 0 \<le> (f x :: int)) \<Longrightarrow> 0 \<le> sum_list (map f xs)"
  by (induction xs) force+

lemma sum_list_drop_mono:
  assumes "\<And>x. x \<in> set xs \<Longrightarrow> 0 \<le> (f x :: int)" and "i \<le> j"
  shows "sum_list (map f (drop j xs)) \<le> sum_list (map f (drop i xs))"
proof -
  have "drop i xs = take (j - i) (drop i xs) @ drop j xs"
    using assms(2) by (metis append_take_drop_id drop_drop le_add_diff_inverse2)
  then have "sum_list (map f (drop i xs)) =
      sum_list (map f (take (j - i) (drop i xs))) + sum_list (map f (drop j xs))"
    by (metis map_append sum_list_append)
  moreover have "0 \<le> sum_list (map f (take (j - i) (drop i xs)))"
    by (rule sum_list_map_nonneg) (meson assms(1) in_set_dropD in_set_takeD)
  ultimately show ?thesis by simp
qed

subsection \<open>Numbers as Python reads them\<close>

text \<open>\<open>int(s)\<close>: surrounding white space, a sign and single underscores between digits are accepted; more
  than 4300 digits are not.\<close>

definition py_int :: "string \<Rightarrow> int option" where
  "py_int s =
     (let t = strip s;
          neg = (t \<noteq> [] \<and> hd t = CHR ''-'');
          body = (if t \<noteq> [] \<and> (hd t = CHR ''-'' \<or> hd t = CHR ''+'') then tl t else t);
          parts = split_char (CHR ''_'') body;
          digits = concat parts
      in if list_all (\<lambda>p. p \<noteq> [] \<and> list_all is_digit p) parts \<and> length digits \<le> 4300
         then Some (if neg then - int (nat_of_digits digits) else int (nat_of_digits digits)) else None)"

lemma length_nat_digits: "n < 10 ^ Suc k \<Longrightarrow> length (nat_digits n) \<le> Suc k"
proof (induction k arbitrary: n)
  case 0
  then show ?case by (subst nat_digits.simps) simp
next
  case (Suc k)
  show ?case
  proof (cases "n < 10")
    case True
    then show ?thesis by (subst nat_digits.simps) simp
  next
    case False
    have "n div 10 < 10 ^ Suc k" using Suc.prems by (simp add: less_mult_imp_div_less mult.commute)
    then have "length (nat_digits (n div 10)) \<le> Suc k" by (rule Suc.IH)
    then show ?thesis using False by (subst nat_digits.simps) simp
  qed
qed

lemma digit_facts: "is_digit c \<Longrightarrow> \<not> is_space c \<and> c \<noteq> CHR ''_'' \<and> c \<noteq> CHR ''-'' \<and> c \<noteq> CHR ''+''"
  by (auto simp: is_digit_def is_space_def Let_def)

lemma dropWhile_digits: "list_all is_digit s \<Longrightarrow> dropWhile is_space s = s"
  using digit_facts by (cases s) auto

lemma strip_digits: "list_all is_digit s \<Longrightarrow> strip s = s"
  unfolding strip_def lstrip_def by (simp add: dropWhile_digits)

lemma py_int_digits:
  assumes "list_all is_digit ds" "ds \<noteq> []" "length ds \<le> 4300"
  shows "py_int ds = Some (int (nat_of_digits ds))"
proof -
  have hd: "is_digit (hd ds)" using assms(1,2) by (cases ds) simp_all
  have one: "split_char (CHR ''_'') ds = [ds]" using assms(1) digit_facts by (intro split_char_no) (auto simp: list_all_iff)
  have sign: "hd ds \<noteq> CHR ''-''" "hd ds \<noteq> CHR ''+''" using digit_facts [OF hd] by simp_all
  show ?thesis using assms by (simp add: py_int_def strip_digits Let_def sign one)
qed

lemma strip_number: "s \<noteq> [] \<Longrightarrow> \<not> is_space (hd s) \<Longrightarrow> \<not> is_space (List.last s) \<Longrightarrow> strip s = s"
proof -
  assume s: "s \<noteq> []" "\<not> is_space (hd s)" "\<not> is_space (List.last s)"
  have "dropWhile is_space s = s" using s(1,2) by (cases s) auto
  moreover have "dropWhile is_space (rev s) = rev s" using s(1,3) by (cases s rule: rev_cases) auto
  ultimately show ?thesis by (simp add: strip_def lstrip_def)
qed

lemma py_int_str_int:
  assumes "\<bar>i\<bar> < 2 ^ 63"
  shows "py_int (str_int i) = Some i"
proof -
  define n where "n = nat \<bar>i\<bar>"
  have n: "n < 10 ^ Suc 18" using assms by (simp add: n_def)
  have digits: "list_all is_digit (nat_digits n)" "nat_digits n \<noteq> []" "length (nat_digits n) \<le> 4300"
    using length_nat_digits [OF n] by (simp_all add: nat_digits_all)
  show ?thesis
  proof (cases "i < 0")
    case False
    then have "str_int i = nat_digits n" "i = int n" by (simp_all add: str_int_def n_def)
    then show ?thesis using py_int_digits [OF digits] by (simp add: nat_of_digits_nat_digits)
  next
    case True
    then have s: "str_int i = CHR ''-'' # nat_digits n" "i = - int n" by (simp_all add: str_int_def n_def)
    have "\<not> is_space (List.last (nat_digits n))"
      using digits(1,2) digit_facts last_in_set by (metis list_all_iff)
    then have "strip (CHR ''-'' # nat_digits n) = CHR ''-'' # nat_digits n"
      using digits(2) by (intro strip_number) (simp_all add: is_space_def Let_def)
    moreover have "split_char (CHR ''_'') (nat_digits n) = [nat_digits n]"
      using digits(1) digit_facts by (intro split_char_no) (auto simp: list_all_iff)
    ultimately have "py_int (CHR ''-'' # nat_digits n) = Some (- int n)"
      using digits by (simp add: py_int_def Let_def nat_of_digits_nat_digits)
    then show ?thesis using s by simp
  qed
qed

end
