(* ===== verification/Exceptions.thy ===== *)
theory Exceptions
  imports Prelude
begin

text \<open>
  Exceptions and the result type \<open>'a res\<close> of code that can raise: \<open>Inl\<close> the exception,
  \<open>Inr\<close> the value.

  \<open>exc_class\<close> holds the classes of \<open>src/botflow/common/exceptions.py\<close>, the
  \<open>StrategyError\<close> of \<open>pipeline/base.py\<close> and the Python and FastAPI classes the code catches or
  raises; \<open>is_subclass\<close> is the class hierarchy, which \<open>except\<close> clauses test. The routing code
  attaches three attributes to an exception in flight (\<open>attempts\<close>, \<open>used_model_id\<close>,
  \<open>used_provider_id\<close>); they are fields here, \<open>None\<close> while unset. The text of exceptions that
  Python itself raises is not modelled (it is empty).
\<close>

datatype exc_class =
    BotflowError | NoAvailableModelError | AllModelsCooldownError | ProviderError
  | ConfigurationError | StrategyError
  | TimeoutExc | StopAsyncIterationExc | ValueErrorExc | TypeErrorExc | KeyErrorExc
  | AttributeErrorExc | IndexErrorExc | AssertionErrorExc | OSErrorExc | FileNotFoundExc | HTTPException
  | OtherException string

fun parent_class :: "exc_class \<Rightarrow> exc_class option" where
  "parent_class NoAvailableModelError = Some BotflowError"
| "parent_class AllModelsCooldownError = Some NoAvailableModelError"
| "parent_class ProviderError = Some BotflowError"
| "parent_class ConfigurationError = Some BotflowError"
| "parent_class FileNotFoundExc = Some OSErrorExc"
| "parent_class TimeoutExc = Some OSErrorExc"
| "parent_class _ = None"

text \<open>\<open>is_subclass c d\<close>: an \<open>except d\<close> clause catches an instance of \<open>c\<close>. The chain of parents has
  length at most three.\<close>

definition is_subclass :: "exc_class \<Rightarrow> exc_class \<Rightarrow> bool" where
  "is_subclass c d \<longleftrightarrow>
     c = d \<or> parent_class c = Some d \<or>
     (case parent_class c of None \<Rightarrow> False | Some p \<Rightarrow> parent_class p = Some d)"

fun class_name :: "exc_class \<Rightarrow> string" where
  "class_name BotflowError = ''BotflowError''"
| "class_name NoAvailableModelError = ''NoAvailableModelError''"
| "class_name AllModelsCooldownError = ''AllModelsCooldownError''"
| "class_name ProviderError = ''ProviderError''"
| "class_name ConfigurationError = ''ConfigurationError''"
| "class_name StrategyError = ''StrategyError''"
| "class_name TimeoutExc = ''TimeoutError''"
| "class_name StopAsyncIterationExc = ''StopAsyncIteration''"
| "class_name ValueErrorExc = ''ValueError''"
| "class_name TypeErrorExc = ''TypeError''"
| "class_name KeyErrorExc = ''KeyError''"
| "class_name AttributeErrorExc = ''AttributeError''"
| "class_name IndexErrorExc = ''IndexError''"
| "class_name AssertionErrorExc = ''AssertionError''"
| "class_name OSErrorExc = ''OSError''"
| "class_name FileNotFoundExc = ''FileNotFoundError''"
| "class_name HTTPException = ''HTTPException''"
| "class_name (OtherException n) = n"

text \<open>One failed upstream attempt, the dictionaries the engine appends to \<open>attempts\<close>.\<close>

record attempt =
  at_group_id :: int
  at_model_id :: "int option"
  at_provider_id :: "int option"
  at_stage :: string
  at_endpoint_idx :: int
  at_attempt_no :: int
  at_error_type :: string
  at_error_message :: string
  at_duration_ms :: int

record exc =
  exc_class :: exc_class
  exc_msg :: string
  exc_status :: "int option"
  exc_attempts :: "attempt list option"
  exc_used_model :: "int option"
  exc_used_provider :: "int option"

definition mk_exc :: "exc_class \<Rightarrow> string \<Rightarrow> exc" where
  "mk_exc c m = \<lparr>exc_class = c, exc_msg = m, exc_status = None, exc_attempts = None,
     exc_used_model = None, exc_used_provider = None\<rparr>"

definition raised_by_python :: "exc_class \<Rightarrow> exc" where
  "raised_by_python c = mk_exc c []"

definition http_error :: "int \<Rightarrow> string \<Rightarrow> exc" where
  "http_error status detail = (mk_exc HTTPException detail)\<lparr>exc_status := Some status\<rparr>"

definition catches :: "exc_class list \<Rightarrow> exc \<Rightarrow> bool" where
  "catches cs e \<longleftrightarrow> list_ex (is_subclass (exc_class e)) cs"

definition exc_type_name :: "exc \<Rightarrow> string" where
  "exc_type_name e = class_name (exc_class e)"

lemma mk_exc_simps [simp]:
  "exc_class (mk_exc c m) = c" "exc_msg (mk_exc c m) = m" "exc_status (mk_exc c m) = None"
  "exc_attempts (mk_exc c m) = None" "exc_used_model (mk_exc c m) = None"
  "exc_used_provider (mk_exc c m) = None"
  by (simp_all add: mk_exc_def)

lemma exc_class_raised [simp]: "exc_class (raised_by_python c) = c"
  by (simp add: raised_by_python_def)

subsection \<open>Results\<close>

type_synonym 'a res = "exc + 'a"

fun bindE :: "'a res \<Rightarrow> ('a \<Rightarrow> 'b res) \<Rightarrow> 'b res" where
  "bindE (Inl e) f = Inl e"
| "bindE (Inr x) f = f x"

fun mapE :: "('a \<Rightarrow> 'b res) \<Rightarrow> 'a list \<Rightarrow> 'b list res" where
  "mapE f [] = Inr []"
| "mapE f (x # xs) = bindE (f x) (\<lambda>y. bindE (mapE f xs) (\<lambda>ys. Inr (y # ys)))"

definition concat_mapE :: "('a \<Rightarrow> 'b list res) \<Rightarrow> 'a list \<Rightarrow> 'b list res" where
  "concat_mapE f xs = bindE (mapE f xs) (\<lambda>yss. Inr (concat yss))"

lemma bindE_eq_Inr: "bindE m f = Inr y \<longleftrightarrow> (\<exists>x. m = Inr x \<and> f x = Inr y)"
  by (cases m) auto

lemma bindE_eq_Inl: "bindE m f = Inl e \<longleftrightarrow> m = Inl e \<or> (\<exists>x. m = Inr x \<and> f x = Inl e)"
  by (cases m) auto

lemma bindE_Inr_right [simp]: "bindE m Inr = m"
  by (cases m) auto

lemma bindE_cong [fundef_cong]:
  "m = m' \<Longrightarrow> (\<And>x. m' = Inr x \<Longrightarrow> f x = g x) \<Longrightarrow> bindE m f = bindE m' g"
  by (cases m') auto

lemma mapE_cong [fundef_cong]:
  "xs = ys \<Longrightarrow> (\<And>x. x \<in> set ys \<Longrightarrow> f x = g x) \<Longrightarrow> mapE f xs = mapE g ys"
proof (induction ys arbitrary: xs)
  case Nil
  then show ?case by simp
next
  case (Cons y ys)
  then have "mapE f ys = mapE g ys" and "f y = g y" by auto
  with Cons.prems show ?case by simp
qed

lemma mapE_Inr: "(\<And>x. x \<in> set xs \<Longrightarrow> f x = Inr (g x)) \<Longrightarrow> mapE f xs = Inr (map g xs)"
  by (induction xs) auto

lemma mapE_Inr_iff: "(\<exists>ys. mapE f xs = Inr ys) \<longleftrightarrow> (\<forall>x \<in> set xs. \<exists>y. f x = Inr y)"
  by (induction xs) (auto simp: bindE_eq_Inr)

lemma mapE_length: "mapE f xs = Inr ys \<Longrightarrow> length ys = length xs"
  by (induction xs arbitrary: ys) (auto simp: bindE_eq_Inr)

lemma mapE_append:
  "mapE f (xs @ ys) = bindE (mapE f xs) (\<lambda>us. bindE (mapE f ys) (\<lambda>vs. Inr (us @ vs)))"
proof (induction xs)
  case Nil
  then show ?case by (cases "mapE f ys") auto
next
  case (Cons x xs)
  show ?case
  proof (cases "f x")
    case (Inl e)
    then show ?thesis by simp
  next
    case (Inr b)
    with Cons show ?thesis by (cases "mapE f xs"; cases "mapE f ys") auto
  qed
qed

subsection \<open>Operations of Python values that can raise\<close>

text \<open>\<open>x.get(k, d)\<close>: an attribute error unless \<open>x\<close> is a dict.\<close>

fun jget :: "json \<Rightarrow> string \<Rightarrow> json \<Rightarrow> json res" where
  "jget (JObj d) k v = Inr (dget d k v)"
| "jget _ k v = Inl (raised_by_python AttributeErrorExc)"

text \<open>A method of \<open>str\<close> called on \<open>x\<close>: an attribute error unless \<open>x\<close> is a str.\<close>

fun as_str :: "json \<Rightarrow> string res" where
  "as_str (JStr s) = Inr s"
| "as_str _ = Inl (raised_by_python AttributeErrorExc)"

text \<open>An element of \<open>sep.join(xs)\<close> or an operand of \<open>str + x\<close>: a type error unless a str.\<close>

fun need_str :: "json \<Rightarrow> string res" where
  "need_str (JStr s) = Inr s"
| "need_str _ = Inl (raised_by_python TypeErrorExc)"

text \<open>\<open>for x in v\<close>: lists give their elements, dicts their keys, strings their characters.\<close>

fun jiter :: "json \<Rightarrow> json list res" where
  "jiter (JList xs) = Inr xs"
| "jiter (JObj d) = Inr (map (\<lambda>kv. JStr (fst kv)) d)"
| "jiter (JStr s) = Inr (map (\<lambda>c. JStr [c]) s)"
| "jiter _ = Inl (raised_by_python TypeErrorExc)"

end
