(* ===== verification/Context.thy ===== *)
theory Context
  imports Exceptions
begin

text \<open>
  Context window management, \<open>src/botflow/common/context.py\<close>.

  Parameters: \<open>so\<close> is Python's \<open>str()\<close> on a JSON value, \<open>bpe\<close> the \<open>tiktoken\<close>
  encoder's \<open>encode_ordinary\<close>. The code relies on one documented fact of the encoder, that a
  token covers at least one byte, \<open>token_covers_byte bpe\<close>. A string is the bytes of its UTF-8 text, so
  \<open>length\<close> is \<open>len(text.encode("utf-8"))\<close>; a Python string with a lone surrogate has no such text
  (\<open>encode\<close> raises) and is outside the model.
\<close>

definition token_covers_byte :: "(string \<Rightarrow> nat list) \<Rightarrow> bool" where
  "token_covers_byte bpe \<longleftrightarrow> (\<forall>s. length (bpe s) \<le> length s)"

text \<open>The text parts of a content list; a part's \<open>"text"\<close> that is not a str fails in \<open>join\<close>.\<close>

fun text_part :: "json \<Rightarrow> json list" where
  "text_part (JObj d) = (if dget d ''type'' JNull = JStr ''text'' then [dget d ''text'' (JStr [])] else [])"
| "text_part _ = []"

definition extract_text :: "(json \<Rightarrow> string) \<Rightarrow> json \<Rightarrow> string res" where
  "extract_text so content =
     (case content of
        JStr s \<Rightarrow> Inr s
      | JList items \<Rightarrow>
          bindE (mapE need_str (concat (map text_part items))) (\<lambda>parts. Inr (join '' '' parts))
      | _ \<Rightarrow> Inr (if truthy content then so content else []))"

text \<open>Role and extracted text of a message, the two strings both token counts read.\<close>

definition role_and_text :: "(json \<Rightarrow> string) \<Rightarrow> dict \<Rightarrow> (string \<times> string) res" where
  "role_and_text so msg =
     bindE (extract_text so (py_or (dget msg ''content'' (JStr [])) (JStr []))) (\<lambda>text.
     bindE (as_str (dget msg ''role'' (JStr []))) (\<lambda>role. Inr (role, text)))"

definition message_overhead :: int where
  "message_overhead = 1"

definition token_upper_bound :: "(json \<Rightarrow> string) \<Rightarrow> dict list \<Rightarrow> int res" where
  "token_upper_bound so messages =
     bindE (mapE (role_and_text so) messages) (\<lambda>rts.
       Inr (sum_list (map (\<lambda>(role, text). int (length role) + int (length text) + message_overhead) rts)))"

definition estimate_tokens :: "(json \<Rightarrow> string) \<Rightarrow> (string \<Rightarrow> nat list) \<Rightarrow> dict list \<Rightarrow> int res" where
  "estimate_tokens so bpe messages =
     bindE (mapE (role_and_text so) messages) (\<lambda>rts.
       Inr (sum_list (map (\<lambda>(role, text).
              int (length (bpe role)) + int (length (bpe text)) + message_overhead) rts)))"

text \<open>The binary search of \<open>truncate_to_context_window\<close>, over its variables \<open>low\<close>, \<open>high\<close>
  and \<open>best\<close>; \<open>fits mid\<close> is the test of the loop body.\<close>

function search_best :: "(int \<Rightarrow> bool res) \<Rightarrow> int \<Rightarrow> int \<Rightarrow> int \<Rightarrow> int res" where
  "search_best fits low high best =
     (if low \<le> high then
        let mid = (low + high) div 2 in
        bindE (fits mid) (\<lambda>ok.
          if ok then search_best fits (mid + 1) high mid
          else search_best fits low (mid - 1) best)
      else Inr best)"
  by pat_completeness auto
termination
  by (relation "measure (\<lambda>(fits, low, high, best). nat (high - low + 1))") auto

declare search_best.simps [simp del]

definition is_system :: "dict \<Rightarrow> bool" where
  "is_system m \<longleftrightarrow> dget m ''role'' JNull = JStr ''system''"

definition last_n :: "int \<Rightarrow> 'a list \<Rightarrow> 'a list" where
  "last_n n xs = drop (length xs - nat n) xs"

definition completion_reserve :: "int option \<Rightarrow> int" where
  "completion_reserve max_tokens = (case max_tokens of None \<Rightarrow> 1024 | Some n \<Rightarrow> if n = 0 then 1024 else n)"

definition window_limit :: "int \<Rightarrow> int option \<Rightarrow> int" where
  "window_limit context_window max_tokens = max (context_window - completion_reserve max_tokens) 1"

definition truncate_to_context_window ::
  "(json \<Rightarrow> string) \<Rightarrow> (string \<Rightarrow> nat list) \<Rightarrow> dict list \<Rightarrow> int \<Rightarrow> int option \<Rightarrow> dict list res" where
  "truncate_to_context_window so bpe messages context_window max_tokens =
     (if context_window \<le> 0 then Inr messages
      else
        let limit = window_limit context_window max_tokens in
        bindE (token_upper_bound so messages) (\<lambda>bound.
        if bound \<le> limit then Inr messages
        else
          let system = filter is_system messages;
              history = filter (\<lambda>m. \<not> is_system m) messages in
          bindE (search_best
                   (\<lambda>mid. bindE (estimate_tokens so bpe (system @ last_n mid history)) (\<lambda>n. Inr (n \<le> limit)))
                   0 (int (length history)) 0) (\<lambda>best.
          if best = 0 \<and> system \<noteq> [] then Inr system
          else if best = 0 then Inr (if messages = [] then messages else [last messages])
          else Inr (system @ last_n best history))))"

subsection \<open>Costs of well-formed messages\<close>

text \<open>A message both counts accept: its role is a str and its text parts are strs.\<close>

definition wf_message :: "(json \<Rightarrow> string) \<Rightarrow> dict \<Rightarrow> bool" where
  "wf_message so m \<longleftrightarrow> (\<exists>rt. role_and_text so m = Inr rt)"

definition rt_of :: "(json \<Rightarrow> string) \<Rightarrow> dict \<Rightarrow> string \<times> string" where
  "rt_of so m = (case role_and_text so m of Inr rt \<Rightarrow> rt | Inl _ \<Rightarrow> ([], []))"

definition msg_tokens :: "(json \<Rightarrow> string) \<Rightarrow> (string \<Rightarrow> nat list) \<Rightarrow> dict \<Rightarrow> int" where
  "msg_tokens so bpe m =
     int (length (bpe (fst (rt_of so m)))) + int (length (bpe (snd (rt_of so m)))) + message_overhead"

definition msg_bytes :: "(json \<Rightarrow> string) \<Rightarrow> dict \<Rightarrow> int" where
  "msg_bytes so m = int (length (fst (rt_of so m))) + int (length (snd (rt_of so m))) + message_overhead"

lemma mapE_role_and_text:
  "list_all (wf_message so) ms \<Longrightarrow> mapE (role_and_text so) ms = Inr (map (rt_of so) ms)"
  by (rule mapE_Inr) (auto simp: list_all_iff wf_message_def rt_of_def)

lemma estimate_tokens_wf:
  "list_all (wf_message so) ms \<Longrightarrow> estimate_tokens so bpe ms = Inr (sum_list (map (msg_tokens so bpe) ms))"
  by (simp add: estimate_tokens_def mapE_role_and_text msg_tokens_def [abs_def] comp_def case_prod_beta)

lemma token_upper_bound_wf:
  "list_all (wf_message so) ms \<Longrightarrow> token_upper_bound so ms = Inr (sum_list (map (msg_bytes so) ms))"
  by (simp add: token_upper_bound_def mapE_role_and_text msg_bytes_def [abs_def] comp_def case_prod_beta)

lemma token_upper_bound_Inr_wf: "token_upper_bound so ms = Inr b \<Longrightarrow> list_all (wf_message so) ms"
proof -
  assume "token_upper_bound so ms = Inr b"
  then have "\<exists>ys. mapE (role_and_text so) ms = Inr ys" by (auto simp: token_upper_bound_def bindE_eq_Inr)
  then show ?thesis by (simp add: mapE_Inr_iff list_all_iff wf_message_def)
qed

lemma msg_tokens_nonneg: "0 \<le> msg_tokens so bpe m"
  by (simp add: msg_tokens_def message_overhead_def)

lemma sum_tokens_le_bytes:
  assumes "token_covers_byte bpe"
  shows "sum_list (map (msg_tokens so bpe) ms) \<le> sum_list (map (msg_bytes so) ms)"
proof (rule sum_list_mono)
  fix m
  have "\<And>s. int (length (bpe s)) \<le> int (length s)" using assms by (simp add: token_covers_byte_def)
  from this [of "fst (rt_of so m)"] this [of "snd (rt_of so m)"]
  show "msg_tokens so bpe m \<le> msg_bytes so m" by (simp add: msg_tokens_def msg_bytes_def)
qed

subsection \<open>The binary search\<close>

text \<open>For a test that never raises and is downward closed, the loop returns the largest accepted
  value of its range, or keeps \<open>best\<close> when none is accepted.\<close>

lemma search_best_largest:
  assumes fits: "\<And>m. low \<le> m \<Longrightarrow> m \<le> high \<Longrightarrow> fits m = Inr (ok m)"
    and mono: "\<And>m m'. 0 \<le> m \<Longrightarrow> m \<le> m' \<Longrightarrow> ok m' \<Longrightarrow> ok m"
    and pos: "low = best + 1 \<or> low = 0 \<and> best = 0" "0 \<le> best" "best = 0 \<or> ok best"
    and range: "low \<le> high + 1" "high \<le> n"
    and above: "\<And>m. high < m \<Longrightarrow> m \<le> n \<Longrightarrow> \<not> ok m"
  shows "\<exists>b. search_best fits low high best = Inr b \<and> 0 \<le> b \<and> (b = 0 \<or> b \<le> n) \<and> (b = 0 \<or> ok b) \<and>
           (\<forall>m. b < m \<and> m \<le> n \<longrightarrow> \<not> ok m)"
  using fits pos range above
proof (induction "nat (high - low + 1)" arbitrary: low high best rule: less_induct)
  case less
  show ?case
  proof (cases "low \<le> high")
    case False
    have "\<forall>m. best < m \<and> m \<le> n \<longrightarrow> \<not> ok m"
      using False less.prems(2,5,7) by auto
    moreover have "best = 0 \<or> best \<le> n" using less.prems(2,5,6) False by auto
    ultimately show ?thesis using False less.prems(3,4) by (simp add: search_best.simps)
  next
    case True
    define mid where "mid = (low + high) div 2"
    have mid: "low \<le> mid" "mid \<le> high" "0 \<le> mid"
      using True less.prems(2,3) by (auto simp: mid_def)
    have step: "search_best fits low high best =
        (if ok mid then search_best fits (mid + 1) high mid else search_best fits low (mid - 1) best)"
      using True less.prems(1) [OF mid(1,2)] by (subst search_best.simps) (simp add: mid_def Let_def)
    show ?thesis
    proof (cases "ok mid")
      case ok: True
      have "\<exists>b. search_best fits (mid + 1) high mid = Inr b \<and> 0 \<le> b \<and> (b = 0 \<or> b \<le> n) \<and>
          (b = 0 \<or> ok b) \<and> (\<forall>m. b < m \<and> m \<le> n \<longrightarrow> \<not> ok m)"
        using less.prems mid ok by (intro less.hyps) auto
      with ok step show ?thesis by simp
    next
      case notok: False
      have "\<not> ok m" if "mid - 1 < m" for m
        using mono [of mid m] mid(3) notok that by auto
      then have "\<exists>b. search_best fits low (mid - 1) best = Inr b \<and> 0 \<le> b \<and> (b = 0 \<or> b \<le> n) \<and>
          (b = 0 \<or> ok b) \<and> (\<forall>m. b < m \<and> m \<le> n \<longrightarrow> \<not> ok m)"
        using less.prems mid by (intro less.hyps) auto
      with notok step show ?thesis by simp
    qed
  qed
qed

subsection \<open>What truncation promises\<close>

text \<open>Tokens of a list of messages, as a total function on well-formed ones.\<close>

definition tokens :: "(json \<Rightarrow> string) \<Rightarrow> (string \<Rightarrow> nat list) \<Rightarrow> dict list \<Rightarrow> int" where
  "tokens so bpe ms = sum_list (map (msg_tokens so bpe) ms)"

lemma tokens_append [simp]: "tokens so bpe (xs @ ys) = tokens so bpe xs + tokens so bpe ys"
  by (simp add: tokens_def)

lemma tokens_nonneg: "0 \<le> tokens so bpe ms"
  by (simp add: tokens_def sum_list_map_nonneg msg_tokens_nonneg)

lemma tokens_last_n_mono:
  assumes "0 \<le> m" and "m \<le> m'"
  shows "tokens so bpe (last_n m xs) \<le> tokens so bpe (last_n m' xs)"
  unfolding tokens_def last_n_def
  by (rule sum_list_drop_mono) (use assms in \<open>auto simp: msg_tokens_nonneg\<close>)

lemma wf_last_n: "list_all P xs \<Longrightarrow> list_all P (last_n n xs)"
  by (auto simp: list_all_iff last_n_def dest: in_set_dropD)

lemma set_last_n: "set (last_n n xs) \<subseteq> set xs"
  by (simp add: last_n_def set_drop_subset)

lemma last_n_all: "int (length xs) \<le> n \<Longrightarrow> last_n n xs = xs"
  by (simp add: last_n_def)

lemma last_n_0 [simp]: "last_n 0 xs = []"
  by (simp add: last_n_def)

lemma suffix_last_n: "suffix (last_n n xs) xs"
  by (simp add: last_n_def suffix_drop)

text \<open>The search of \<open>truncate_to_context_window\<close> on well-formed messages: it finds the largest number of
  recent messages that still fits next to the system messages.\<close>

lemma truncation_search:
  assumes wf: "list_all (wf_message so) messages"
  defines "system \<equiv> filter is_system messages"
    and "history \<equiv> filter (\<lambda>m. \<not> is_system m) messages"
  shows "\<exists>b. search_best
      (\<lambda>mid. bindE (estimate_tokens so bpe (system @ last_n mid history)) (\<lambda>n. Inr (n \<le> limit)))
      0 (int (length history)) 0 = Inr b \<and> 0 \<le> b \<and> (b = 0 \<or> b \<le> int (length history)) \<and>
      (b = 0 \<or> tokens so bpe (system @ last_n b history) \<le> limit) \<and>
      (\<forall>m. b < m \<and> m \<le> int (length history) \<longrightarrow> \<not> tokens so bpe (system @ last_n m history) \<le> limit)"
proof (rule search_best_largest)
  fix m :: int
  have "list_all (wf_message so) (system @ last_n m history)"
    using wf set_last_n [of m history] by (auto simp: list_all_iff system_def history_def)
  then show "bindE (estimate_tokens so bpe (system @ last_n m history)) (\<lambda>n. Inr (n \<le> limit)) =
      Inr (tokens so bpe (system @ last_n m history) \<le> limit)"
    by (simp add: estimate_tokens_wf tokens_def)
next
  fix m m' :: int
  assume "0 \<le> m" "m \<le> m'" and "tokens so bpe (system @ last_n m' history) \<le> limit"
  then show "tokens so bpe (system @ last_n m history) \<le> limit"
    using tokens_last_n_mono [of m m' so bpe history] by simp
qed auto

text \<open>The four ways \<open>truncate_to_context_window\<close> can end on well-formed messages, with \<open>limit\<close> tokens
  to spend: everything fits; a longest suffix of the history fits behind the system messages; no
  recent message fits, and the system messages are sent alone; or there are none, and the last
  message is sent alone.\<close>

definition truncation_outcome ::
  "(json \<Rightarrow> string) \<Rightarrow> (string \<Rightarrow> nat list) \<Rightarrow> int \<Rightarrow> dict list \<Rightarrow> dict list \<Rightarrow> bool" where
  "truncation_outcome so bpe limit messages r =
     (let system = filter is_system messages; history = filter (\<lambda>m. \<not> is_system m) messages in
        (r = messages \<and> tokens so bpe r \<le> limit) \<or>
        (\<exists>n. 0 < n \<and> n \<le> int (length history) \<and> r = system @ last_n n history \<and> tokens so bpe r \<le> limit \<and>
             (n = int (length history) \<or> limit < tokens so bpe (system @ last_n (n + 1) history))) \<or>
        ((history = [] \<or> limit < tokens so bpe (system @ last_n 1 history)) \<and>
         (if system \<noteq> [] then r = system else messages \<noteq> [] \<and> r = [last messages])))"

text \<open>C36: for well-formed messages and a positive context window, truncation never raises, and its
  result is within the token budget and keeps the longest suffix of the conversation that fits
  behind the system messages; only when not even one message fits does it send the system messages
  (or, without any, the last message) alone. The byte-count shortcut is part of the claim: the
  messages it lets through unchanged are within the budget.\<close>

theorem truncate_keeps_longest_fitting_suffix:
  assumes wf: "list_all (wf_message so) messages"
    and "0 < context_window"
    and bpe: "token_covers_byte bpe"
  shows "\<exists>r. truncate_to_context_window so bpe messages context_window max_tokens = Inr r \<and>
           truncation_outcome so bpe (window_limit context_window max_tokens) messages r"
proof -
  define limit where "limit = window_limit context_window max_tokens"
  define system where "system = filter is_system messages"
  define history where "history = filter (\<lambda>m. \<not> is_system m) messages"
  obtain b where b: "search_best
      (\<lambda>mid. bindE (estimate_tokens so bpe (system @ last_n mid history)) (\<lambda>n. Inr (n \<le> limit)))
      0 (int (length history)) 0 = Inr b" "0 \<le> b" "b = 0 \<or> b \<le> int (length history)"
    "b = 0 \<or> tokens so bpe (system @ last_n b history) \<le> limit"
    "\<forall>m. b < m \<and> m \<le> int (length history) \<longrightarrow> \<not> tokens so bpe (system @ last_n m history) \<le> limit"
    using truncation_search [OF wf, of bpe limit] unfolding system_def history_def by blast
  have pos: "1 \<le> limit" by (simp add: limit_def window_limit_def)
  show ?thesis
  proof (cases "sum_list (map (msg_bytes so) messages) \<le> limit")
    case True
    then have "tokens so bpe messages \<le> limit"
      using sum_tokens_le_bytes [OF bpe, of so messages] by (simp add: tokens_def)
    with True assms(2) show ?thesis
      by (simp add: truncate_to_context_window_def token_upper_bound_wf [OF wf] limit_def [symmetric]
          truncation_outcome_def Let_def)
  next
    case False
    then have ne: "messages \<noteq> []" using pos by auto
    have eq: "truncate_to_context_window so bpe messages context_window max_tokens =
        (if b = 0 \<and> system \<noteq> [] then Inr system else if b = 0 then Inr [last messages]
         else Inr (system @ last_n b history))"
      using False assms(2) b(1) ne
      by (simp add: truncate_to_context_window_def token_upper_bound_wf [OF wf] limit_def [symmetric]
          system_def history_def Let_def)
    have none: "history = [] \<or> limit < tokens so bpe (system @ last_n 1 history)" if "b = 0"
      using b(5) that by (cases history) (auto simp: not_le)
    have longest: "b = int (length history) \<or> limit < tokens so bpe (system @ last_n (b + 1) history)"
      if "b \<noteq> 0" using b(5) [rule_format, of "b + 1"] b(3) that by (cases "b = int (length history)") (auto simp: not_le)
    show ?thesis
    proof (cases "b = 0")
      case True
      with eq none ne show ?thesis
        by (auto simp: truncation_outcome_def Let_def limit_def [symmetric] system_def history_def)
    next
      case nz: False
      have "truncation_outcome so bpe limit messages (system @ last_n b history)"
        unfolding truncation_outcome_def Let_def system_def [symmetric] history_def [symmetric]
        using nz longest b(2,3,4) by (intro disjI2 disjI1 exI [of _ b]) auto
      with nz eq show ?thesis by (simp add: limit_def)
    qed
  qed
qed

definition sample_chat :: "dict list" where
  "sample_chat =
     [[(''role'', JStr ''system''), (''content'', JStr ''be brief'')],
      [(''role'', JStr ''user''), (''content'', JStr ''first question'')],
      [(''role'', JStr ''assistant''), (''content'', JStr ''an answer'')],
      [(''role'', JStr ''user''), (''content'', JStr ''more'')]]"

theorem truncate_keeps_longest_fitting_suffix_witness:
  "list_all (wf_message (\<lambda>_. [])) sample_chat \<and> token_covers_byte (map of_char) \<and>
   (\<exists>r. truncate_to_context_window (\<lambda>_. []) (map of_char) sample_chat 1054 None = Inr r \<and>
     truncation_outcome (\<lambda>_. []) (map of_char) 30 sample_chat r)"
proof -
  have wf: "list_all (wf_message (\<lambda>_. [])) sample_chat"
    by (simp add: sample_chat_def wf_message_def role_and_text_def extract_text_def py_or_def)
  have b: "token_covers_byte (map of_char)" by (simp add: token_covers_byte_def)
  show ?thesis
    using wf b truncate_keeps_longest_fitting_suffix [OF wf _ b, of 1054 None]
    by (simp add: window_limit_def completion_reserve_def)
qed

text \<open>A concrete run of the same conversation: the two oldest turns are dropped.\<close>

lemma sample_chat_truncated:
  "truncate_to_context_window (\<lambda>_. []) (map of_char) sample_chat 1054 None =
     Inr [hd sample_chat, last sample_chat]"
  by (simp add: truncate_to_context_window_def sample_chat_def window_limit_def completion_reserve_def
      token_upper_bound_def estimate_tokens_def role_and_text_def extract_text_def py_or_def
      message_overhead_def is_system_def search_best.simps last_n_def)

end
