(* ===== verification/Converters.thy ===== *)
theory Converters
  imports Exceptions
begin

text \<open>
  Multimodal content converters, \<open>src/botflow/common/content_converters.py\<close>: OpenAI to Anthropic
  content blocks and back, OpenAI to Gemini parts, and the data-URI helpers. Contents are JSON
  values, so a block that is not a dict, or a URL that is not a str, raises as in Python.
  The parameter \<open>so\<close> is Python's \<open>str()\<close>, used by an f-string on a value that is not a str.
\<close>

definition fmt :: "(json \<Rightarrow> string) \<Rightarrow> json \<Rightarrow> string" where
  "fmt so v = (case v of JStr s \<Rightarrow> s | _ \<Rightarrow> so v)"

lemma fmt_JStr [simp]: "fmt so (JStr s) = s"
  by (simp add: fmt_def)

subsection \<open>Data URIs\<close>

definition parse_data_uri :: "string \<Rightarrow> (string \<times> string) option" where
  "parse_data_uri url =
     (if \<not> prefix ''data:'' url then None
      else
        let (header, b64) = partition_char CHR '','' url;
            mime_part = (if CHR '':'' \<in> set header then snd (partition_char CHR '':'' header) else ''text/plain'');
            mime_type = hd (split_char CHR '';'' mime_part)
        in Some (mime_type, b64))"

definition anthropic_source :: "string \<Rightarrow> string \<Rightarrow> json" where
  "anthropic_source mime_type b64 =
     JObj [(''type'', JStr ''base64''), (''media_type'', JStr mime_type), (''data'', JStr b64)]"

definition parse_data_uri_to_anthropic_source :: "string \<Rightarrow> json option" where
  "parse_data_uri_to_anthropic_source url =
     (case parse_data_uri url of
        None \<Rightarrow> None
      | Some (mime_type, b64) \<Rightarrow>
          if \<not> prefix ''image/'' mime_type then None else Some (anthropic_source mime_type b64))"

definition anthropic_source_to_data_uri :: "(json \<Rightarrow> string) \<Rightarrow> json \<Rightarrow> string option res" where
  "anthropic_source_to_data_uri so source =
     bindE (jget source ''type'' JNull) (\<lambda>ty.
     if ty \<noteq> JStr ''base64'' then Inr None
     else
       bindE (jget source ''media_type'' (JStr ''image/png'')) (\<lambda>media_type.
       bindE (jget source ''data'' (JStr [])) (\<lambda>data.
       if \<not> truthy data then Inr None
       else Inr (Some (''data:'' @ fmt so media_type @ '';base64,'' @ fmt so data)))))"

subsection \<open>OpenAI to Anthropic\<close>

definition tool_result_block :: "json \<Rightarrow> json list res" where
  "tool_result_block block =
     bindE (jget block ''tool_use_id'' (JStr [])) (\<lambda>i.
     bindE (jget block ''content'' (JStr [])) (\<lambda>c.
     Inr [JObj [(''type'', JStr ''tool_result''), (''tool_use_id'', i), (''content'', c)]]))"

definition tool_use_block :: "json \<Rightarrow> json list res" where
  "tool_use_block block =
     bindE (jget block ''id'' (JStr [])) (\<lambda>i.
     bindE (jget block ''name'' (JStr [])) (\<lambda>n.
     bindE (jget block ''input'' (JObj [])) (\<lambda>x.
     Inr [JObj [(''type'', JStr ''tool_use''), (''id'', i), (''name'', n), (''input'', x)]])))"

definition text_block :: "json \<Rightarrow> json list res" where
  "text_block block =
     bindE (jget block ''text'' (JStr [])) (\<lambda>t. Inr [JObj [(''type'', JStr ''text''), (''text'', t)]])"

text \<open>The URL of an \<open>image_url\<close> block; it is used as a str.\<close>

definition image_url_of :: "json \<Rightarrow> string res" where
  "image_url_of block =
     bindE (jget block ''image_url'' (JObj [])) (\<lambda>image_url.
     bindE (jget image_url ''url'' (JStr [])) as_str)"

definition openai_to_anthropic_block :: "json \<Rightarrow> json list res" where
  "openai_to_anthropic_block block =
     bindE (jget block ''type'' (JStr [])) (\<lambda>block_type.
     if block_type = JStr ''text'' then text_block block
     else if block_type = JStr ''image_url'' then
       bindE (image_url_of block) (\<lambda>url.
         Inr (case parse_data_uri_to_anthropic_source url of
                None \<Rightarrow> []
              | Some source \<Rightarrow> [JObj [(''type'', JStr ''image''), (''source'', source)]]))
     else if block_type = JStr ''image'' then Inr [block]
     else if block_type = JStr ''tool_result'' then tool_result_block block
     else if block_type = JStr ''tool_use'' then tool_use_block block
     else Inr [])"

definition openai_to_anthropic_content :: "json \<Rightarrow> json list res" where
  "openai_to_anthropic_content content =
     (case content of
        JStr s \<Rightarrow> Inr [JObj [(''type'', JStr ''text''), (''text'', JStr s)]]
      | _ \<Rightarrow> bindE (jiter content) (concat_mapE openai_to_anthropic_block))"

subsection \<open>Anthropic to OpenAI\<close>

text \<open>One block gives the blocks appended for it and whether \<open>has_non_text\<close> is set.\<close>

definition anthropic_to_openai_block :: "(json \<Rightarrow> string) \<Rightarrow> json \<Rightarrow> (json list \<times> bool) res" where
  "anthropic_to_openai_block so block =
     bindE (jget block ''type'' (JStr [])) (\<lambda>block_type.
     if block_type = JStr ''text'' then bindE (text_block block) (\<lambda>b. Inr (b, False))
     else if block_type = JStr ''image'' then
       bindE (jget block ''source'' (JObj [])) (\<lambda>source.
       bindE (anthropic_source_to_data_uri so source) (\<lambda>uri.
       Inr (case uri of
              None \<Rightarrow> ([], False)
            | Some u \<Rightarrow> ([JObj [(''type'', JStr ''image_url''),
                               (''image_url'', JObj [(''url'', JStr u)])]], True))))
     else if block_type = JStr ''tool_use'' then bindE (tool_use_block block) (\<lambda>b. Inr (b, True))
     else if block_type = JStr ''tool_result'' then bindE (tool_result_block block) (\<lambda>b. Inr (b, True))
     else Inr ([], False))"

definition block_text :: "json \<Rightarrow> string res" where
  "block_text b = bindE (jget b ''text'' JNull) need_str"

definition anthropic_to_openai_content :: "(json \<Rightarrow> string) \<Rightarrow> json \<Rightarrow> json res" where
  "anthropic_to_openai_content so content =
     (case content of
        JStr s \<Rightarrow> Inr (JStr s)
      | _ \<Rightarrow>
          bindE (jiter content) (\<lambda>items.
          bindE (mapE (anthropic_to_openai_block so) items) (\<lambda>rs.
          let blocks = concat (map fst rs); has_non_text = list_ex snd rs in
          if blocks = [] then Inr (JStr [])
          else if \<not> has_non_text then
            bindE (mapE block_text blocks) (\<lambda>ts. Inr (JStr (join [CHR 0x0A] ts)))
          else Inr (JList blocks))))"

subsection \<open>OpenAI to Google\<close>

definition openai_to_google_part :: "json \<Rightarrow> json list res" where
  "openai_to_google_part block =
     bindE (jget block ''type'' (JStr [])) (\<lambda>block_type.
     if block_type = JStr ''text'' then
       bindE (jget block ''text'' (JStr [])) (\<lambda>t. Inr [JObj [(''text'', t)]])
     else if block_type = JStr ''image_url'' then
       bindE (image_url_of block) (\<lambda>url.
       Inr (case parse_data_uri url of
              Some (mime_type, b64) \<Rightarrow>
                [JObj [(''inline_data'', JObj [(''mime_type'', JStr mime_type), (''data'', JStr b64)])]]
            | None \<Rightarrow> [JObj [(''file_data'', JObj [(''file_uri'', JStr url)])]]))
     else Inr [])"

definition openai_to_google_parts :: "json \<Rightarrow> json list res" where
  "openai_to_google_parts content =
     (case content of
        JStr s \<Rightarrow> Inr [JObj [(''text'', JStr s)]]
      | _ \<Rightarrow>
          bindE (jiter content) (\<lambda>items.
          bindE (concat_mapE openai_to_google_part items) (\<lambda>parts.
          Inr (if parts \<noteq> [] then parts else [JObj [(''text'', JStr [])]]))))"

subsection \<open>The abstract content and its renderings\<close>

text \<open>What the three formats can all say: the abstract specification of the converters.\<close>

datatype part =
    PText string
  | PImage string string   \<comment> \<open>media type, base64 data\<close>
  | PToolUse json json json
  | PToolResult json json

definition data_uri :: "string \<Rightarrow> string \<Rightarrow> string" where
  "data_uri mt d = ''data:'' @ mt @ '';base64,'' @ d"

fun as_openai :: "part \<Rightarrow> json" where
  "as_openai (PText t) = JObj [(''type'', JStr ''text''), (''text'', JStr t)]"
| "as_openai (PImage mt d) =
     JObj [(''type'', JStr ''image_url''), (''image_url'', JObj [(''url'', JStr (data_uri mt d))])]"
| "as_openai (PToolUse i n x) = JObj [(''type'', JStr ''tool_use''), (''id'', i), (''name'', n), (''input'', x)]"
| "as_openai (PToolResult i c) =
     JObj [(''type'', JStr ''tool_result''), (''tool_use_id'', i), (''content'', c)]"

fun as_anthropic :: "part \<Rightarrow> json" where
  "as_anthropic (PImage mt d) = JObj [(''type'', JStr ''image''), (''source'', anthropic_source mt d)]"
| "as_anthropic p = as_openai p"

fun is_text_part :: "part \<Rightarrow> bool" where
  "is_text_part (PText _) = True"
| "is_text_part _ = False"

fun text_of_part :: "part \<Rightarrow> string" where
  "text_of_part (PText t) = t"
| "text_of_part _ = []"

text \<open>An image can travel through a data URI when its media type is an image type without the
  separators of the URI syntax and its data is not empty.\<close>

fun wf_part :: "part \<Rightarrow> bool" where
  "wf_part (PImage mt d) =
     (prefix ''image/'' mt \<and> CHR '','' \<notin> set mt \<and> CHR '';'' \<notin> set mt \<and> d \<noteq> [])"
| "wf_part _ = True"

lemma parse_data_uri_data_uri:
  assumes "CHR '','' \<notin> set mt" "CHR '';'' \<notin> set mt"
  shows "parse_data_uri (data_uri mt d) = Some (mt, d)"
proof -
  have split: "data_uri mt d = (''data:'' @ mt @ '';base64'') @ CHR '','' # d"
    by (simp add: data_uri_def)
  have part: "partition_char CHR '','' (data_uri mt d) = (''data:'' @ mt @ '';base64'', d)"
    unfolding split by (rule partition_char_append) (use assms in auto)
  have rest: "partition_char CHR '':'' (''data:'' @ mt @ '';base64'') = (''data'', mt @ '';base64'')"
    using partition_char_append [of "CHR '':''" "''data''" "mt @ '';base64''"] by simp
  have hd: "split_char CHR '';'' (mt @ '';base64'') = mt # split_char CHR '';'' ''base64''"
    using split_char_append [OF assms(2), of "''base64''"] by simp
  have "prefix ''data:'' (data_uri mt d)" by (simp add: data_uri_def)
  then show ?thesis
    by (simp add: parse_data_uri_def part rest [simplified] hd [simplified])
qed

lemma parse_source_data_uri:
  "wf_part (PImage mt d) \<Longrightarrow> parse_data_uri_to_anthropic_source (data_uri mt d) = Some (anthropic_source mt d)"
  by (simp add: parse_data_uri_to_anthropic_source_def parse_data_uri_data_uri)

lemma source_to_data_uri:
  "d \<noteq> [] \<Longrightarrow> anthropic_source_to_data_uri so (anthropic_source mt d) = Inr (Some (data_uri mt d))"
  by (simp add: anthropic_source_to_data_uri_def anthropic_source_def data_uri_def)

lemmas block_simps = text_block_def tool_use_block_def tool_result_block_def image_url_of_def

lemma openai_to_anthropic_part:
  "wf_part p \<Longrightarrow> openai_to_anthropic_block (as_openai p) = Inr [as_anthropic p]"
  by (cases p) (simp_all add: openai_to_anthropic_block_def block_simps parse_source_data_uri)

lemma anthropic_to_openai_part:
  "wf_part p \<Longrightarrow> anthropic_to_openai_block so (as_anthropic p) = Inr ([as_openai p], \<not> is_text_part p)"
  by (cases p) (simp_all add: anthropic_to_openai_block_def block_simps source_to_data_uri)

lemma concat_map_singleton [simp]: "concat (map (\<lambda>x. [f x]) xs) = map f xs"
  by (induction xs) auto

lemma block_text_parts:
  "list_all is_text_part ps \<Longrightarrow> mapE block_text (map as_openai ps) = Inr (map text_of_part ps)"
proof (induction ps)
  case (Cons p ps)
  then show ?case by (cases p) (simp_all add: block_text_def)
qed simp

text \<open>On well-formed content the OpenAI-to-Anthropic converter renders every part of the
  abstract content in Anthropic's format, in order, and drops or raises nothing.\<close>

lemma openai_to_anthropic_renders:
  assumes "list_all wf_part ps"
  shows "openai_to_anthropic_content (JList (map as_openai ps)) = Inr (map as_anthropic ps)"
proof -
  have "mapE openai_to_anthropic_block (map as_openai ps) = Inr (map (\<lambda>p. [as_anthropic p]) ps)"
    using assms by (induction ps) (simp_all add: openai_to_anthropic_part)
  then show ?thesis by (simp add: openai_to_anthropic_content_def concat_mapE_def)
qed

lemma anthropic_to_openai_renders:
  assumes "list_all wf_part ps"
  shows "anthropic_to_openai_content so (JList (map as_anthropic ps)) =
     Inr (if list_all is_text_part ps then JStr (join [CHR 0x0A] (map text_of_part ps))
          else JList (map as_openai ps))"
proof -
  have rs: "mapE (anthropic_to_openai_block so) (map as_anthropic ps) =
      Inr (map (\<lambda>p. ([as_openai p], \<not> is_text_part p)) ps)"
    using assms by (induction ps) (simp_all add: anthropic_to_openai_part)
  have "list_ex snd (map (\<lambda>p. ([as_openai p], \<not> is_text_part p)) ps) \<longleftrightarrow> \<not> list_all is_text_part ps"
    by (induction ps) auto
  with rs show ?thesis
    by (auto simp: anthropic_to_openai_content_def Let_def comp_def block_text_parts)
qed

text \<open>What a block says: fields of other names are ignored, an image counts when its data is in the block
  itself, and a block of any other type says nothing.\<close>

fun str_value :: "json \<Rightarrow> string" where
  "str_value (JStr s) = s"
| "str_value _ = []"

fun dict_value :: "json \<Rightarrow> dict" where
  "dict_value (JObj d) = d"
| "dict_value _ = []"

fun is_str :: "json \<Rightarrow> bool" where
  "is_str (JStr s) = True"
| "is_str _ = False"

fun is_dict :: "json \<Rightarrow> bool" where
  "is_dict (JObj d) = True"
| "is_dict _ = False"

definition kind_of :: "dict \<Rightarrow> json" where
  "kind_of d = dget d ''type'' (JStr [])"

definition text_value_of :: "dict \<Rightarrow> json" where
  "text_value_of d = dget d ''text'' (JStr [])"

definition link_of :: "dict \<Rightarrow> json" where
  "link_of d = dget (dict_value (dget d ''image_url'' (JObj []))) ''url'' (JStr [])"

definition source_of :: "dict \<Rightarrow> dict" where
  "source_of d = dict_value (dget d ''source'' (JObj []))"

definition said :: "dict \<Rightarrow> part list" where
  "said d =
     (if kind_of d = JStr ''text'' then [PText (str_value (text_value_of d))]
      else if kind_of d = JStr ''image_url'' then
        (case parse_data_uri (str_value (link_of d)) of
           Some (mt, b64) \<Rightarrow> if prefix ''image/'' mt \<and> b64 \<noteq> [] then [PImage mt b64] else []
         | None \<Rightarrow> [])
      else if kind_of d = JStr ''image'' then
        (let b64 = str_value (dget (source_of d) ''data'' (JStr [])) in
         if dget (source_of d) ''type'' JNull = JStr ''base64'' \<and> b64 \<noteq> []
         then [PImage (str_value (dget (source_of d) ''media_type'' (JStr ''image/png''))) b64] else [])
      else if kind_of d = JStr ''tool_use'' then
        [PToolUse (dget d ''id'' (JStr [])) (dget d ''name'' (JStr [])) (dget d ''input'' (JObj []))]
      else if kind_of d = JStr ''tool_result'' then
        [PToolResult (dget d ''tool_use_id'' (JStr [])) (dget d ''content'' (JStr []))]
      else [])"

text \<open>The values that the converters use as strings and dictionaries are such values.\<close>

definition readable :: "dict \<Rightarrow> bool" where
  "readable d \<longleftrightarrow>
     (if kind_of d = JStr ''text'' then is_str (text_value_of d)
      else if kind_of d = JStr ''image_url'' then is_dict (dget d ''image_url'' (JObj [])) \<and> is_str (link_of d)
      else if kind_of d = JStr ''image'' then
        is_dict (dget d ''source'' (JObj [])) \<and> is_str (dget (source_of d) ''data'' (JStr [])) \<and>
        is_str (dget (source_of d) ''media_type'' (JStr ''image/png''))
      else True)"

lemma is_strD: "is_str v \<Longrightarrow> v = JStr (str_value v)"
  by (cases v) auto

lemma is_dictD: "is_dict v \<Longrightarrow> v = JObj (dict_value v)"
  by (cases v) auto

text \<open>A block that is rendered for Anthropic and read back says what it said.\<close>

definition returns :: "(json \<Rightarrow> string) \<Rightarrow> json list \<Rightarrow> part list \<Rightarrow> bool" where
  "returns so bs ps \<longleftrightarrow>
     (\<exists>rs. mapE (anthropic_to_openai_block so) bs = Inr rs \<and> concat (map fst rs) = map as_openai ps \<and>
        (list_ex snd rs \<longleftrightarrow> \<not> list_all is_text_part ps))"

lemma returns_append: "returns so bs ps \<Longrightarrow> returns so cs qs \<Longrightarrow> returns so (bs @ cs) (ps @ qs)"
  by (fastforce simp: returns_def mapE_append)

lemma returns_Nil [simp]: "returns so [] []"
  by (simp add: returns_def)

lemma returns_part: "anthropic_to_openai_block so b = Inr (map as_openai ps, \<not> list_all is_text_part ps) \<Longrightarrow> returns so [b] ps"
  by (simp add: returns_def)

lemma said_text:
  assumes "readable d" "kind_of d = JStr ''text''"
  shows "\<exists>bs. openai_to_anthropic_block (JObj d) = Inr bs \<and> returns so bs (said d)"
proof -
  obtain t where "dget d ''text'' (JStr []) = JStr t"
    using assms by (auto simp: readable_def text_value_of_def dest: is_strD)
  then show ?thesis using assms(2)
    by (auto simp: openai_to_anthropic_block_def block_simps kind_of_def text_value_of_def said_def anthropic_to_openai_block_def
        intro!: returns_part)
qed

lemma said_link:
  assumes "readable d" "kind_of d = JStr ''image_url''"
  shows "\<exists>bs. openai_to_anthropic_block (JObj d) = Inr bs \<and> returns so bs (said d)"
proof -
  obtain iu url where iu: "dget d ''image_url'' (JObj []) = JObj iu" and url: "dget iu ''url'' (JStr []) = JStr url"
    using assms by (auto simp: readable_def link_of_def dest!: is_strD is_dictD)
  show ?thesis
  proof (cases "parse_data_uri url")
    case (Some mb)
    obtain mt b64 where mb: "mb = (mt, b64)" by (cases mb)
    have "returns so [JObj [(''type'', JStr ''image''), (''source'', anthropic_source mt b64)]]
        (if b64 \<noteq> [] then [PImage mt b64] else [])"
      by (rule returns_part)
        (simp add: anthropic_to_openai_block_def anthropic_source_to_data_uri_def anthropic_source_def data_uri_def)
    then show ?thesis using assms(2) iu url Some mb
      by (cases "b64 = []")
        (simp_all add: openai_to_anthropic_block_def block_simps kind_of_def link_of_def said_def
          parse_data_uri_to_anthropic_source_def)
  qed (use assms(2) iu url in \<open>simp add: openai_to_anthropic_block_def block_simps kind_of_def link_of_def said_def
        parse_data_uri_to_anthropic_source_def\<close>)
qed

lemma said_image:
  assumes "readable d" "kind_of d = JStr ''image''"
  shows "\<exists>bs. openai_to_anthropic_block (JObj d) = Inr bs \<and> returns so bs (said d)"
proof -
  obtain s where s: "dget d ''source'' (JObj []) = JObj s"
    using assms by (auto simp: readable_def dest!: is_dictD)
  obtain mt b64 where "dget s ''data'' (JStr []) = JStr b64" "dget s ''media_type'' (JStr ''image/png'') = JStr mt"
    using assms s by (auto simp: readable_def source_of_def dest!: is_strD)
  then have "returns so [JObj d] (said d)" using assms(2) s
    by (intro returns_part) (simp add: anthropic_to_openai_block_def anthropic_source_to_data_uri_def kind_of_def said_def source_of_def
        data_uri_def)
  then show ?thesis using assms(2) by (simp add: openai_to_anthropic_block_def kind_of_def)
qed

lemma said_other:
  assumes "kind_of d \<notin> {JStr ''text'', JStr ''image_url'', JStr ''image''}"
  shows "\<exists>bs. openai_to_anthropic_block (JObj d) = Inr bs \<and> returns so bs (said d)"
  using assms
  by (auto simp: openai_to_anthropic_block_def block_simps kind_of_def said_def anthropic_to_openai_block_def intro!: returns_part)

lemma said_block: "readable d \<Longrightarrow> \<exists>bs. openai_to_anthropic_block (JObj d) = Inr bs \<and> returns so bs (said d)"
  using said_text said_link said_image said_other [of d so] by blast

lemma concat_mapE_Cons: "concat_mapE f (x # xs) = bindE (f x) (\<lambda>ys. bindE (concat_mapE f xs) (\<lambda>zs. Inr (ys @ zs)))"
  by (cases "f x"; cases "mapE f xs") (simp_all add: concat_mapE_def)

lemma said_blocks:
  "list_all readable ds \<Longrightarrow>
   \<exists>bs. concat_mapE openai_to_anthropic_block (map JObj ds) = Inr bs \<and> returns so bs (concat (map said ds))"
proof (induction ds)
  case Nil
  show ?case by (simp add: concat_mapE_def)
next
  case (Cons d ds)
  obtain bs cs where "openai_to_anthropic_block (JObj d) = Inr bs" "returns so bs (said d)"
      "concat_mapE openai_to_anthropic_block (map JObj ds) = Inr cs" "returns so cs (concat (map said ds))"
    using Cons said_block [of d so] by auto
  then show ?case by (intro exI [of _ "bs @ cs"]) (simp add: concat_mapE_Cons returns_append)
qed

text \<open>The abstract content in OpenAI's format, a plain string when all of it is text.\<close>

definition openai_content :: "part list \<Rightarrow> json" where
  "openai_content ps =
     (if list_all is_text_part ps then JStr (join [CHR 0x0A] (map text_of_part ps)) else JList (map as_openai ps))"

lemma returned_content:
  assumes "returns so bs ps"
  shows "anthropic_to_openai_content so (JList bs) = Inr (openai_content ps)"
proof -
  obtain rs where "mapE (anthropic_to_openai_block so) bs = Inr rs" "concat (map fst rs) = map as_openai ps"
      "list_ex snd rs \<longleftrightarrow> \<not> list_all is_text_part ps"
    using assms by (auto simp: returns_def)
  then show ?thesis
    by (cases "ps = []") (auto simp: anthropic_to_openai_content_def Let_def openai_content_def block_text_parts simp del: concat_eq_Nil_conv)
qed

text \<open>A block as the converters write it: it says its part.\<close>

lemma canonical_block:
  "wf_part p \<Longrightarrow> \<exists>d. as_openai p = JObj d \<and> readable d \<and> said d = [p]"
  by (cases p) (simp_all add: said_def readable_def kind_of_def text_value_of_def link_of_def parse_data_uri_data_uri)

text \<open>C37: OpenAI to Anthropic and back. Whatever blocks the content has, with values of the right types, what
  comes back is what they say, in order: text, tool blocks and images whose data is in the block. So the
  converters lose exactly the fields that neither format knows, the images behind a link, those without data
  and the blocks of other types. Blocks that are text only come back as one string, their texts joined by
  line breaks. A plain string comes back as it is, and so do blocks in the form that the converters write
  themselves, if one of them is no text.\<close>

theorem openai_anthropic_round_trip:
  "(list_all readable ds \<longrightarrow>
      bindE (openai_to_anthropic_content (JList (map JObj ds))) (\<lambda>bs. anthropic_to_openai_content so (JList bs)) =
      Inr (openai_content (concat (map said ds)))) \<and>
   bindE (openai_to_anthropic_content (JStr text)) (\<lambda>bs. anthropic_to_openai_content so (JList bs)) = Inr (JStr text) \<and>
   (list_all wf_part ps \<and> \<not> list_all is_text_part ps \<longrightarrow>
      bindE (openai_to_anthropic_content (JList (map as_openai ps))) (\<lambda>bs. anthropic_to_openai_content so (JList bs)) =
      Inr (JList (map as_openai ps)))"
proof (intro conjI impI)
  assume "list_all readable ds"
  from said_blocks [OF this, of so]
  show "bindE (openai_to_anthropic_content (JList (map JObj ds))) (\<lambda>bs. anthropic_to_openai_content so (JList bs)) =
      Inr (openai_content (concat (map said ds)))"
    by (auto simp: openai_to_anthropic_content_def dest: returned_content)
next
  show "bindE (openai_to_anthropic_content (JStr text)) (\<lambda>bs. anthropic_to_openai_content so (JList bs)) = Inr (JStr text)"
    by (simp add: openai_to_anthropic_content_def anthropic_to_openai_content_def anthropic_to_openai_block_def block_simps
        block_text_def)
next
  assume "list_all wf_part ps \<and> \<not> list_all is_text_part ps"
  then show "bindE (openai_to_anthropic_content (JList (map as_openai ps))) (\<lambda>bs. anthropic_to_openai_content so (JList bs)) =
      Inr (JList (map as_openai ps))"
    by (simp add: openai_to_anthropic_renders anthropic_to_openai_renders)
qed

theorem openai_anthropic_round_trip_witness:
  "bindE (openai_to_anthropic_content (JList [
       JObj [(''type'', JStr ''text''), (''text'', JStr ''a''), (''cache'', JBool True)],
       JObj [(''type'', JStr ''image_url''), (''image_url'', JObj [(''url'', JStr ''https://x/y.png'')])],
       JObj [(''type'', JStr ''image_url''), (''image_url'', JObj [(''url'', JStr ''data:image/png;base64,iVBO''), (''detail'', JStr ''low'')])]]))
     (\<lambda>bs. anthropic_to_openai_content (\<lambda>_. []) (JList bs)) =
   Inr (JList [JObj [(''type'', JStr ''text''), (''text'', JStr ''a'')],
       JObj [(''type'', JStr ''image_url''), (''image_url'', JObj [(''url'', JStr ''data:image/png;base64,iVBO'')])]])"
proof -
  let ?ds = "[[(''type'', JStr ''text''), (''text'', JStr ''a''), (''cache'', JBool True)],
       [(''type'', JStr ''image_url''), (''image_url'', JObj [(''url'', JStr ''https://x/y.png'')])],
       [(''type'', JStr ''image_url''), (''image_url'', JObj [(''url'', JStr ''data:image/png;base64,iVBO''), (''detail'', JStr ''low'')])]]"
  have ok: "list_all readable ?ds" by code_simp
  have says: "openai_content (concat (map said ?ds)) =
      JList [JObj [(''type'', JStr ''text''), (''text'', JStr ''a'')],
        JObj [(''type'', JStr ''image_url''), (''image_url'', JObj [(''url'', JStr ''data:image/png;base64,iVBO'')])]]"
    by code_simp
  have "bindE (openai_to_anthropic_content (JList (map JObj ?ds))) (\<lambda>bs. anthropic_to_openai_content (\<lambda>_. []) (JList bs)) =
      Inr (openai_content (concat (map said ?ds)))"
    using openai_anthropic_round_trip [of ?ds "\<lambda>_. []" "[]" "[]"] ok by blast
  then show ?thesis unfolding says by simp
qed

text \<open>Gemini parts of the same content: a text part and an image part each give one part, tool parts
  give none.\<close>

fun as_google :: "part \<Rightarrow> json list" where
  "as_google (PText t) = [JObj [(''text'', JStr t)]]"
| "as_google (PImage mt d) =
     [JObj [(''inline_data'', JObj [(''mime_type'', JStr mt), (''data'', JStr d)])]]"
| "as_google _ = []"

lemma openai_to_google_part_as: "wf_part p \<Longrightarrow> openai_to_google_part (as_openai p) = Inr (as_google p)"
  by (cases p) (simp_all add: openai_to_google_part_def block_simps parse_data_uri_data_uri)

lemma openai_to_google_parts_as:
  assumes "list_all wf_part ps"
  shows "openai_to_google_parts (JList (map as_openai ps)) =
     Inr (let parts = concat (map as_google ps) in
          if parts \<noteq> [] then parts else [JObj [(''text'', JStr [])]])"
proof -
  have "mapE openai_to_google_part (map as_openai ps) = Inr (map as_google ps)"
    using assms by (induction ps) (simp_all add: openai_to_google_part_as)
  then show ?thesis by (simp add: openai_to_google_parts_def concat_mapE_def Let_def)
qed

end
