(* ===== verification/Tables.thy ===== *)
theory Tables
  imports Exceptions
begin

text \<open>
  SQLite tables as the storage layer of \<open>src/botflow/storage/db.py\<close> uses them.

  A table with an \<open>INTEGER PRIMARY KEY AUTOINCREMENT\<close> is the list of its rows in rowid order, each
  with its id, and the largest id ever handed out. A stored entity that the code passes around is the
  pair of its id and its columns. \<open>sql_like\<close> is SQLite's \<open>LIKE\<close> (\<open>%\<close> and \<open>_\<close> wild cards, ASCII case
  folding). A statement that would break a constraint of the schema raises an \<open>IntegrityError\<close> and
  changes nothing: \<open>check_constraint\<close>.
\<close>

record 'r table =
  rows :: "(int \<times> 'r) list"
  seq :: int

definition empty_table :: "'r table" where
  "empty_table = \<lparr>rows = [], seq = 0\<rparr>"

definition insert_row :: "'r \<Rightarrow> 'r table \<Rightarrow> int \<times> 'r table" where
  "insert_row r t = (seq t + 1, t\<lparr>rows := rows t @ [(seq t + 1, r)], seq := seq t + 1\<rparr>)"

definition update_rows :: "(int \<times> 'r \<Rightarrow> bool) \<Rightarrow> ('r \<Rightarrow> 'r) \<Rightarrow> 'r table \<Rightarrow> 'r table" where
  "update_rows p f t = t\<lparr>rows := map (\<lambda>ir. if p ir then (fst ir, f (snd ir)) else ir) (rows t)\<rparr>"

definition delete_rows :: "(int \<times> 'r \<Rightarrow> bool) \<Rightarrow> 'r table \<Rightarrow> 'r table" where
  "delete_rows p t = t\<lparr>rows := filter (\<lambda>ir. \<not> p ir) (rows t)\<rparr>"

definition count_rows :: "(int \<times> 'r \<Rightarrow> bool) \<Rightarrow> 'r table \<Rightarrow> nat" where
  "count_rows p t = length (filter p (rows t))"

definition lookup_row :: "'r table \<Rightarrow> int \<Rightarrow> 'r option" where
  "lookup_row t i = map_of (rows t) i"

definition get_row :: "'r table \<Rightarrow> int \<Rightarrow> (int \<times> 'r) option" where
  "get_row t i = map_option (\<lambda>r. (i, r)) (lookup_row t i)"

definition integrity_error :: exc where
  "integrity_error = raised_by_python (OtherException ''IntegrityError'')"

definition check_constraint :: "bool \<Rightarrow> 'a \<Rightarrow> 'a res" where
  "check_constraint ok x = (if ok then Inr x else Inl integrity_error)"

definition unique_on :: "('r \<Rightarrow> 'k) \<Rightarrow> 'r table \<Rightarrow> bool" where
  "unique_on f t \<longleftrightarrow> distinct (map (\<lambda>ir. f (snd ir)) (rows t))"

fun like_chars :: "string \<Rightarrow> string \<Rightarrow> bool" where
  "like_chars [] s = (s = [])"
| "like_chars (p # ps) s =
     (if p = CHR ''%'' then list_ex (\<lambda>n. like_chars ps (drop n s)) [0..<Suc (length s)]
      else case s of [] \<Rightarrow> False | c # cs \<Rightarrow> (p = CHR ''_'' \<or> p = c) \<and> like_chars ps cs)"

definition sql_like :: "string \<Rightarrow> string \<Rightarrow> bool" where
  "sql_like pat s = like_chars (lower pat) (lower s)"

subsection \<open>Well-formed tables\<close>

definition wf_table :: "'r table \<Rightarrow> bool" where
  "wf_table t \<longleftrightarrow> sorted_wrt (<) (map fst (rows t)) \<and> (\<forall>ir \<in> set (rows t). fst ir \<le> seq t)"

lemma wf_empty_table [simp]: "wf_table empty_table"
  by (simp add: wf_table_def empty_table_def)

lemma wf_insert_row [simp]: "wf_table t \<Longrightarrow> wf_table (snd (insert_row r t))"
  by (fastforce simp: wf_table_def insert_row_def sorted_wrt_append)

lemma map_fst_update_rows [simp]: "map fst (rows (update_rows p f t)) = map fst (rows t)"
  by (simp add: update_rows_def comp_def if_distrib cong: if_cong)

lemma seq_update_rows [simp]: "seq (update_rows p f t) = seq t"
  by (simp add: update_rows_def)

lemma wf_table_ids: "wf_table t \<longleftrightarrow> sorted_wrt (<) (map fst (rows t)) \<and> (\<forall>i \<in> set (map fst (rows t)). i \<le> seq t)"
  by (auto simp: wf_table_def)

lemma wf_update_rows [simp]: "wf_table (update_rows p f t) = wf_table t"
  by (simp only: wf_table_ids map_fst_update_rows seq_update_rows)

lemma wf_delete_rows [simp]: "wf_table t \<Longrightarrow> wf_table (delete_rows p t)"
  by (auto simp: wf_table_def delete_rows_def sorted_wrt_map sorted_wrt_filter)

lemma wf_table_distinct: "wf_table t \<Longrightarrow> distinct (map fst (rows t))"
  by (simp add: wf_table_def strict_sorted_iff)

lemma seq_delete_rows [simp]: "seq (delete_rows p t) = seq t"
  by (simp add: delete_rows_def)

lemma lookup_insert_row:
  assumes "wf_table t"
  shows "lookup_row (snd (insert_row r t)) i = (if i = fst (insert_row r t) then Some r else lookup_row t i)"
proof -
  have "seq t + 1 \<notin> fst ` set (rows t)"
    using assms by (fastforce simp: wf_table_def)
  then have "map_of (rows t) (seq t + 1) = None" by (simp add: map_of_eq_None_iff)
  then show ?thesis by (auto simp: lookup_row_def insert_row_def map_add_def split: option.splits)
qed

lemma lookup_in_rows: "wf_table t \<Longrightarrow> lookup_row t i = Some r \<longleftrightarrow> (i, r) \<in> set (rows t)"
  by (simp add: lookup_row_def wf_table_distinct)

lemma lookup_update_rows:
  "lookup_row (update_rows (\<lambda>ir. q (fst ir)) f t) i = (if q i then map_option f (lookup_row t i) else lookup_row t i)"
proof -
  have "map_of (map (\<lambda>ir. if q (fst ir) then (fst ir, f (snd ir)) else ir) rs) i =
      (if q i then map_option f (map_of rs i) else map_of rs i)" for rs
    by (induction rs) auto
  then show ?thesis by (simp add: lookup_row_def update_rows_def)
qed

lemma lookup_delete_rows:
  "lookup_row (delete_rows (\<lambda>ir. q (fst ir)) t) i = (if q i then None else lookup_row t i)"
  by (simp add: lookup_row_def delete_rows_def map_of_filter_fst [of "\<lambda>i. \<not> q i"])

lemma set_delete_rows [simp]: "set (rows (delete_rows p t)) = {ir \<in> set (rows t). \<not> p ir}"
  by (auto simp: delete_rows_def)

lemma set_insert_row [simp]: "set (rows (snd (insert_row r t))) = insert (seq t + 1, r) (set (rows t))"
  by (auto simp: insert_row_def)

lemma unique_delete_rows [simp]: "unique_on f t \<Longrightarrow> unique_on f (delete_rows p t)"
  by (simp add: unique_on_def delete_rows_def distinct_map_filter)

lemma unique_on_eq: "unique_on f t \<Longrightarrow> x \<in> set (rows t) \<Longrightarrow> y \<in> set (rows t) \<Longrightarrow> f (snd x) = f (snd y) \<Longrightarrow> x = y"
  unfolding unique_on_def distinct_map inj_on_def by blast

lemma check_constraint_Inr [simp]: "check_constraint ok x = Inr y \<longleftrightarrow> ok \<and> y = x"
  by (auto simp: check_constraint_def)

lemma check_constraint_Inl [simp]: "check_constraint ok x = Inl e \<longleftrightarrow> \<not> ok \<and> e = integrity_error"
  by (auto simp: check_constraint_def)

text \<open>A pattern that ends in the wild card and has no other is a prefix test.\<close>

lemma like_chars_prefix:
  "\<lbrakk>CHR ''%'' \<notin> set p; CHR ''_'' \<notin> set p\<rbrakk> \<Longrightarrow> like_chars (p @ ''%'') s \<longleftrightarrow> prefix p s"
proof (induction p arbitrary: s)
  case Nil
  then show ?case by (auto simp: list_ex_iff intro: bexI [of _ "length s"])
next
  case (Cons c p)
  then show ?case by (cases s) auto
qed

end
