(* ===== verification/Cooldown.thy ===== *)
theory Cooldown
  imports Exceptions
begin

text \<open>
  The cooldown manager, \<open>CooldownState\<close> and \<open>CooldownManager\<close> of
  \<open>src/botflow/router.py\<close>, with the save and restore of its active entries that
  \<open>core.py\<close> runs every five minutes and at start-up.

  The manager is the dict \<open>_states\<close> in insertion order. Every operation that reads a clock takes
  the reading as an argument: \<open>now\<close> and \<open>mono_now\<close> are \<open>time.monotonic()\<close>, \<open>wall\<close> is
  \<open>time.time()\<close>, both real numbers of seconds. Log lines are left out.
\<close>

record cooldown_state =
  consecutive_failures :: int
  cooldown_until :: real

type_synonym model_key = "int \<times> int"
type_synonym cooldown_mgr = "(model_key \<times> cooldown_state) list"

definition fresh_state :: cooldown_state where
  "fresh_state = \<lparr>consecutive_failures = 0, cooldown_until = 0\<rparr>"

definition record_success :: "int \<Rightarrow> int \<Rightarrow> cooldown_mgr \<Rightarrow> cooldown_mgr" where
  "record_success gid mid m =
     (case map_of m (gid, mid) of
        None \<Rightarrow> m
      | Some st \<Rightarrow> AList.update (gid, mid) (st\<lparr>consecutive_failures := 0, cooldown_until := 0\<rparr>) m)"

definition record_failure :: "real \<Rightarrow> int \<Rightarrow> int \<Rightarrow> int \<Rightarrow> int \<Rightarrow> cooldown_mgr \<Rightarrow> cooldown_mgr" where
  "record_failure now gid mid threshold seconds m =
     (let st0 = (case map_of m (gid, mid) of None \<Rightarrow> fresh_state | Some st \<Rightarrow> st);
          st1 = st0\<lparr>consecutive_failures := consecutive_failures st0 + 1\<rparr>;
          st2 = (if consecutive_failures st1 \<ge> threshold
                 then st1\<lparr>cooldown_until := now + of_int seconds\<rparr> else st1)
      in AList.update (gid, mid) st2 m)"

text \<open>The answer, and the manager after an expired entry was reset.\<close>

definition is_on_cooldown :: "real \<Rightarrow> cooldown_mgr \<Rightarrow> model_key \<Rightarrow> bool \<times> cooldown_mgr" where
  "is_on_cooldown now m key =
     (case map_of m key of
        None \<Rightarrow> (False, m)
      | Some st \<Rightarrow>
          if cooldown_until st = 0 then (False, m)
          else if now \<ge> cooldown_until st then
            (False, AList.update key (st\<lparr>consecutive_failures := 0, cooldown_until := 0\<rparr>) m)
          else (True, m))"

definition get_failure_count :: "cooldown_mgr \<Rightarrow> model_key \<Rightarrow> int" where
  "get_failure_count m key = (case map_of m key of None \<Rightarrow> 0 | Some st \<Rightarrow> consecutive_failures st)"

record saved_cooldown =
  sc_group_id :: int
  sc_model_id :: int
  sc_failures :: int
  sc_until :: real

definition get_all_active_cooldowns :: "real \<Rightarrow> real \<Rightarrow> cooldown_mgr \<Rightarrow> saved_cooldown list" where
  "get_all_active_cooldowns mono_now wall m =
     map (\<lambda>((gid, mid), st).
            \<lparr>sc_group_id = gid, sc_model_id = mid, sc_failures = consecutive_failures st,
             sc_until = wall + (cooldown_until st - mono_now)\<rparr>)
         (filter (\<lambda>(key, st). cooldown_until st > mono_now) m)"

definition restore_state :: "real \<Rightarrow> real \<Rightarrow> saved_cooldown \<Rightarrow> cooldown_mgr \<Rightarrow> cooldown_mgr" where
  "restore_state mono_now wall s m =
     (let remaining = sc_until s - wall in
      if remaining \<le> 0 then m
      else AList.update (sc_group_id s, sc_model_id s)
             \<lparr>consecutive_failures = sc_failures s, cooldown_until = mono_now + remaining\<rparr> m)"

text \<open>The start-up loop of \<open>core.lifespan\<close>: every saved entry is restored in turn.\<close>

definition restore_all :: "real \<Rightarrow> real \<Rightarrow> saved_cooldown list \<Rightarrow> cooldown_mgr \<Rightarrow> cooldown_mgr" where
  "restore_all mono_now wall ss m = fold (restore_state mono_now wall) ss m"

subsection \<open>The abstract view: which models are blocked\<close>

text \<open>A model is blocked at \<open>now\<close> while its entry has a deadline that lies ahead.\<close>

definition blocked :: "real \<Rightarrow> cooldown_mgr \<Rightarrow> model_key \<Rightarrow> bool" where
  "blocked now m key =
     (case map_of m key of None \<Rightarrow> False | Some st \<Rightarrow> cooldown_until st \<noteq> 0 \<and> now < cooldown_until st)"

lemma map_of_record_success:
  "map_of (record_success gid mid m) key =
     (if key = (gid, mid) then map_option (\<lambda>st. st\<lparr>consecutive_failures := 0, cooldown_until := 0\<rparr>) (map_of m key)
      else map_of m key)"
  by (auto simp: record_success_def update_conv split: option.splits)

lemma blocked_record_success [step_simps]:
  "blocked now (record_success gid mid m) key \<longleftrightarrow> key \<noteq> (gid, mid) \<and> blocked now m key"
  by (auto simp: blocked_def map_of_record_success split: option.splits)

lemma map_of_record_failure:
  "map_of (record_failure now gid mid thr secs m) key =
     (if key = (gid, mid) then
        Some (let n = get_failure_count m key + 1 in
              \<lparr>consecutive_failures = n,
               cooldown_until = (if n \<ge> thr then now + of_int secs
                                 else case map_of m key of None \<Rightarrow> 0 | Some st \<Rightarrow> cooldown_until st)\<rparr>)
      else map_of m key)"
  by (auto simp: record_failure_def update_conv get_failure_count_def Let_def fresh_state_def split: option.splits)

lemma failure_count_record_failure [step_simps]:
  "get_failure_count (record_failure now gid mid thr secs m) key =
     get_failure_count m key + (if key = (gid, mid) then 1 else 0)"
  by (simp add: get_failure_count_def map_of_record_failure Let_def)

lemma failure_count_record_success [step_simps]:
  "get_failure_count (record_success gid mid m) key = (if key = (gid, mid) then 0 else get_failure_count m key)"
  by (auto simp: get_failure_count_def map_of_record_success split: option.splits)

lemma fst_is_on_cooldown: "fst (is_on_cooldown now m key) = blocked now m key"
  by (auto simp: is_on_cooldown_def blocked_def split: option.splits)

lemma blocked_snd_is_on_cooldown: "blocked now (snd (is_on_cooldown now m key)) key' = blocked now m key'"
  by (auto simp: is_on_cooldown_def blocked_def update_conv split: option.splits)

subsection \<open>The interface the routing code uses\<close>

text \<open>A check of one key that answers the abstract predicate and may tidy the state, but never changes
  what any later check answers at the same instant.\<close>

locale availability =
  fixes check :: "'m \<Rightarrow> 'k \<Rightarrow> bool \<times> 'm"
    and busy :: "'m \<Rightarrow> 'k \<Rightarrow> bool"
  assumes check_answer: "fst (check m k) = busy m k"
    and check_keeps: "busy (snd (check m k)) k' = busy m k'"
begin

fun select_free :: "('a \<Rightarrow> 'k) \<Rightarrow> 'a list \<Rightarrow> 'm \<Rightarrow> 'a list \<times> 'm" where
  "select_free key [] m = ([], m)"
| "select_free key (x # xs) m =
     (let (b, m1) = check m (key x); (ys, m2) = select_free key xs m1 in (if b then ys else x # ys, m2))"

lemma select_free_filter: "fst (select_free key xs m) = filter (\<lambda>x. \<not> busy m (key x)) xs"
proof (induction xs arbitrary: m)
  case (Cons x xs)
  have "fst (select_free key xs (snd (check m (key x)))) = filter (\<lambda>x. \<not> busy m (key x)) xs"
    by (simp add: Cons.IH check_keeps)
  then show ?case using check_answer [of m "key x"] by (auto simp: Let_def case_prod_beta)
qed simp

lemma select_free_keeps: "busy (snd (select_free key xs m)) k = busy m k"
  by (induction xs arbitrary: m) (auto simp: Let_def case_prod_beta check_keeps)

end

interpretation cooldown: availability "is_on_cooldown now" "blocked now" for now
  by unfold_locales (simp_all add: fst_is_on_cooldown blocked_snd_is_on_cooldown)

subsection \<open>Failures in a row\<close>

text \<open>Failures of one model at the given times, with no success and no check in between.\<close>

fun fail_at :: "int \<Rightarrow> int \<Rightarrow> int \<Rightarrow> int \<Rightarrow> real list \<Rightarrow> cooldown_mgr \<Rightarrow> cooldown_mgr" where
  "fail_at gid mid thr secs [] m = m"
| "fail_at gid mid thr secs (t # ts) m = fail_at gid mid thr secs ts (record_failure t gid mid thr secs m)"

lemma fail_at_append:
  "fail_at gid mid thr secs (ts @ us) m = fail_at gid mid thr secs us (fail_at gid mid thr secs ts m)"
  by (induction ts arbitrary: m) auto

lemma failure_count_fail_at:
  "get_failure_count (fail_at gid mid thr secs ts m) (gid, mid) = get_failure_count m (gid, mid) + int (length ts)"
  by (induction ts arbitrary: m) (simp_all add: step_simps)

lemma until_fail_at:
  assumes "get_failure_count m (gid, mid) = 0" "map_of m (gid, mid) = None \<or> cooldown_until (the (map_of m (gid, mid))) = 0"
    and "ts \<noteq> []"
  shows "map_of (fail_at gid mid thr secs ts m) (gid, mid) =
     Some \<lparr>consecutive_failures = int (length ts),
           cooldown_until = (if int (length ts) \<ge> thr then last ts + of_int secs else 0)\<rparr>"
  using assms(3)
proof (induction ts rule: rev_induct)
  case (snoc t ts)
  show ?case
  proof (cases "ts = []")
    case True
    with assms(1,2) show ?thesis
      by (auto simp: map_of_record_failure Let_def split: option.splits)
  next
    case False
    then have ih: "map_of (fail_at gid mid thr secs ts m) (gid, mid) =
        Some \<lparr>consecutive_failures = int (length ts),
              cooldown_until = (if int (length ts) \<ge> thr then last ts + of_int secs else 0)\<rparr>"
      by (rule snoc.IH)
    then show ?thesis
      by (auto simp: fail_at_append map_of_record_failure Let_def get_failure_count_def)
  qed
qed simp

text \<open>C19: the threshold rule. A model with no failures on record that then fails at the times
  \<open>ts\<close> in a row is blocked at time \<open>t\<close> exactly when the number of failures reached the threshold
  and \<open>t\<close> lies before the last failure plus the cooldown; earlier failures do not matter, and every
  further failure moves the deadline. (Clock readings and cooldowns are positive.)\<close>

theorem cooldown_after_failures_in_a_row:
  assumes "map_of m (gid, mid) = None \<or> map_of m (gid, mid) = Some fresh_state"
    and "ts \<noteq> []" and "0 < last ts" and "0 \<le> secs"
  shows "fst (is_on_cooldown t (fail_at gid mid thr secs ts m) (gid, mid)) \<longleftrightarrow>
           int (length ts) \<ge> thr \<and> t < last ts + of_int secs"
proof -
  have "map_of (fail_at gid mid thr secs ts m) (gid, mid) =
     Some \<lparr>consecutive_failures = int (length ts),
           cooldown_until = (if int (length ts) \<ge> thr then last ts + of_int secs else 0)\<rparr>"
    by (rule until_fail_at) (use assms in \<open>auto simp: get_failure_count_def fresh_state_def\<close>)
  moreover have "last ts + of_int secs \<noteq> 0"
    using assms(3,4) by (metis add_pos_nonneg less_irrefl of_int_0_le_iff)
  ultimately show ?thesis by (simp add: fst_is_on_cooldown blocked_def)
qed

theorem cooldown_after_failures_in_a_row_witness:
  "fst (is_on_cooldown 70 (fail_at 1 7 3 60 [10, 20, 30] []) (1, 7)) \<and>
   \<not> fst (is_on_cooldown 91 (fail_at 1 7 3 60 [10, 20, 30] []) (1, 7))"
  using cooldown_after_failures_in_a_row [of "[]" 1 7 "[10, 20, 30]" 60 70 3]
    cooldown_after_failures_in_a_row [of "[]" 1 7 "[10, 20, 30]" 60 91 3] by simp

subsection \<open>Save and restore\<close>

definition wf_mgr :: "cooldown_mgr \<Rightarrow> bool" where
  "wf_mgr m \<longleftrightarrow> distinct (map fst m)"

lemma wf_mgr_ops [simp]:
  "wf_mgr []"
  "wf_mgr m \<Longrightarrow> wf_mgr (record_success gid mid m)"
  "wf_mgr m \<Longrightarrow> wf_mgr (record_failure now gid mid thr secs m)"
  "wf_mgr m \<Longrightarrow> wf_mgr (snd (is_on_cooldown now m key))"
  "wf_mgr m \<Longrightarrow> wf_mgr (restore_state mono_now wall s m)"
  by (auto simp: wf_mgr_def record_success_def record_failure_def is_on_cooldown_def restore_state_def
      Let_def distinct_update split: option.splits)

definition sc_key :: "saved_cooldown \<Rightarrow> model_key" where
  "sc_key s = (sc_group_id s, sc_model_id s)"

text \<open>Restoring entries whose keys are distinct into a manager that has none of them.\<close>

lemma map_of_restore_all:
  assumes "distinct (map sc_key ss)"
  shows "map_of (restore_all mono_now wall ss m) key =
     (case find (\<lambda>s. sc_key s = key \<and> sc_until s > wall) ss of
        None \<Rightarrow> map_of m key
      | Some s \<Rightarrow> Some \<lparr>consecutive_failures = sc_failures s, cooldown_until = mono_now + (sc_until s - wall)\<rparr>)"
  using assms
proof (induction ss arbitrary: m)
  case Nil
  then show ?case by (simp add: restore_all_def)
next
  case (Cons s ss)
  have step: "restore_all mono_now wall (s # ss) m = restore_all mono_now wall ss (restore_state mono_now wall s m)"
    by (simp add: restore_all_def)
  have none: "find (\<lambda>s. sc_key s = key \<and> sc_until s > wall) ss = None" if "sc_key s = key"
  proof -
    have "sc_key s' \<noteq> key" if "s' \<in> set ss" for s'
      using Cons.prems \<open>sc_key s = key\<close> that by (metis distinct.simps(2) image_eqI list.set_map list.simps(9))
    then show ?thesis by (auto simp: find_None_iff)
  qed
  show ?case
    unfolding step using Cons.prems none
    by (auto simp: Cons.IH restore_state_def Let_def update_conv sc_key_def [symmetric] split: option.splits)
qed

definition saved :: "real \<Rightarrow> real \<Rightarrow> model_key \<times> cooldown_state \<Rightarrow> saved_cooldown" where
  "saved mono_now wall kv = \<lparr>sc_group_id = fst (fst kv), sc_model_id = snd (fst kv),
     sc_failures = consecutive_failures (snd kv), sc_until = wall + (cooldown_until (snd kv) - mono_now)\<rparr>"

lemma get_all_active_cooldowns_saved:
  "get_all_active_cooldowns mono_now wall m =
     map (saved mono_now wall) (filter (\<lambda>kv. cooldown_until (snd kv) > mono_now) m)"
  by (auto simp: get_all_active_cooldowns_def saved_def case_prod_beta')

lemma sc_key_saved [simp]: "sc_key (saved mono_now wall kv) = fst kv"
  by (simp add: saved_def sc_key_def)

lemma sc_until_saved [simp]: "sc_until (saved mono_now wall kv) = wall + (cooldown_until (snd kv) - mono_now)"
  by (simp add: saved_def)

lemma distinct_saved_keys: "wf_mgr m \<Longrightarrow> distinct (map sc_key (get_all_active_cooldowns mono_now wall m))"
  by (simp add: get_all_active_cooldowns_saved wf_mgr_def distinct_map_filter comp_def)

lemma find_saved:
  "wf_mgr m \<Longrightarrow>
   find (\<lambda>s. sc_key s = key \<and> sc_until s > wall') (get_all_active_cooldowns mono_now wall m) =
     (case map_of m key of
        None \<Rightarrow> None
      | Some st \<Rightarrow>
          if cooldown_until st > mono_now \<and> wall + (cooldown_until st - mono_now) > wall'
          then Some (saved mono_now wall (key, st)) else None)"
proof (induction m)
  case Nil
  then show ?case by (simp add: get_all_active_cooldowns_saved)
next
  case (Cons kv m)
  have "wf_mgr m" and "fst kv = key \<Longrightarrow> map_of m key = None"
    using Cons.prems by (auto simp: wf_mgr_def map_of_eq_None_iff)
  with Cons.IH show ?case
    by (cases kv) (auto simp: get_all_active_cooldowns_saved)
qed

text \<open>Cooldowns survive a restart. Take the entries saved at monotonic time \<open>mono_now\<close> and wall time
  \<open>wall\<close>, and restore them into an empty manager in a new process whose monotonic clock reads
  \<open>mono_now'\<close> when the wall clock reads \<open>wall'\<close> (not earlier than the save). A model is then blocked
  \<open>d\<close> seconds after the restart exactly when the old manager would have blocked it at the same
  wall time, although the two monotonic clocks have nothing in common.\<close>

lemma saved_cooldowns_block:
  assumes "wf_mgr m" and "wall \<le> wall'" and "0 \<le> d" and "0 < mono_now" and "0 < mono_now'"
  shows "fst (is_on_cooldown (mono_now' + d)
               (restore_all mono_now' wall' (get_all_active_cooldowns mono_now wall m) []) (gid, mid)) \<longleftrightarrow>
         fst (is_on_cooldown (mono_now + (wall' + d - wall)) m (gid, mid))"
  using assms(2-)
  by (cases "map_of m (gid, mid)")
    (auto simp: fst_is_on_cooldown blocked_def map_of_restore_all [OF distinct_saved_keys [OF assms(1)]]
      find_saved [OF assms(1)] saved_def)

end
