(* ===== verification/Store.thy ===== *)
theory Store
  imports Tables Cooldown
begin

text \<open>
  The data model of \<open>src/botflow/storage/models.py\<close> and the \<open>Database\<close> class of
  \<open>src/botflow/storage/db.py\<close>: configuration values, cooldown rows, providers, models, groups and
  the group-model association. Columns that hold JSON text (\<open>extra_config\<close>, \<open>params\<close>) are held
  parsed, since every value the code reads from them was written with \<open>json.dumps\<close>. The time stamps of
  providers, models, groups and configuration values are kept in seconds; \<open>sql_now\<close> is what
  \<open>datetime('now')\<close> shows when a statement runs, a clock that the operations read and never set. The
  \<open>created_at\<close> of memberships and client keys, which is never written again, is left out. Rows without an
  \<open>ORDER BY\<close> come in rowid order, and an \<open>ORDER BY\<close> is a stable sort.
\<close>

record provider =
  p_name :: string
  p_provider_type :: string
  p_api_key :: string
  p_base_url :: string
  p_extra_config :: dict
  p_is_enabled :: bool
  p_created_at :: int
  p_updated_at :: int

record model =
  m_name :: string
  m_provider_id :: int
  m_display_name :: string
  m_api_format :: string
  m_max_retries :: int
  m_cooldown_seconds :: int
  m_cooldown_failure_threshold :: int
  m_extra_config :: dict
  m_is_enabled :: bool
  m_context_window :: int
  m_created_at :: int
  m_updated_at :: int

record model_group =
  g_name :: string
  g_description :: string
  g_type :: string
  g_params :: dict
  g_is_enabled :: bool
  g_fallback_group_id :: "int option"
  g_created_at :: int
  g_updated_at :: int

record group_model =
  gm_group_id :: int
  gm_model_id :: int
  gm_weight :: real
  gm_is_enabled :: bool

record model_detail =
  d_id :: int
  d_group_id :: int
  d_model_id :: int
  d_weight :: real
  d_is_enabled :: bool
  d_model_name :: string
  d_display_name :: string
  d_api_format :: string
  d_provider_id :: int
  d_provider_name :: string
  d_provider_type :: string
  d_max_retries :: int
  d_cooldown_seconds :: int
  d_cooldown_failure_threshold :: int
  d_context_window :: int
  d_proxy :: string
  d_extra_config :: dict

record call_log =
  cl_api_key_id :: "int option"
  cl_group_id :: "int option"
  cl_model_id :: "int option"
  cl_provider_id :: "int option"
  cl_request_body :: "string option"
  cl_response_body :: "string option"
  cl_status :: string
  cl_error_type :: "string option"
  cl_error_message :: "string option"
  cl_traceback :: "string option"
  cl_request_id :: "string option"
  cl_duration_ms :: "int option"
  cl_prompt_tokens :: json
  cl_completion_tokens :: json
  cl_cache_tokens :: json
  cl_total_tokens :: json
  cl_tool_calls :: "string option"
  cl_cost :: "real option"
  cl_created_at :: string

record call_attempt =
  ca_request_id :: "string option"
  ca_attempt :: attempt
  ca_created_at :: string

record api_key =
  ak_key_hash :: string
  ak_label :: string
  ak_is_enabled :: bool

record db =
  config :: "(string \<times> (string \<times> int)) list"
  providers :: "provider table"
  models :: "model table"
  model_groups :: "model_group table"
  group_models :: "group_model table"
  call_logs :: "call_log table"
  call_attempts :: "call_attempt table"
  api_keys :: "api_key table"
  daily_summaries :: "(string \<times> (string \<times> string)) list"
  raw_sessions :: "(string \<times> string) list"
  sql_now :: int

definition empty_db :: db where
  "empty_db = \<lparr>config = [], providers = empty_table, models = empty_table, model_groups = empty_table,
     group_models = empty_table, call_logs = empty_table, call_attempts = empty_table,
     api_keys = empty_table, daily_summaries = [], raw_sessions = [], sql_now = 0\<rparr>"

subsection \<open>Configuration values\<close>

definition get_config :: "string \<Rightarrow> db \<Rightarrow> string option" where
  "get_config k db = map_option fst (map_of (config db) k)"

text \<open>\<open>now\<close> is \<open>datetime('now')\<close> in seconds.\<close>

definition set_config :: "int \<Rightarrow> string \<Rightarrow> string \<Rightarrow> db \<Rightarrow> db" where
  "set_config now k v db = db\<lparr>config := AList.update k (v, now) (config db)\<rparr>"

definition cleanup_config_by_prefix :: "real \<Rightarrow> string \<Rightarrow> int \<Rightarrow> db \<Rightarrow> nat \<times> db" where
  "cleanup_config_by_prefix time pat older_than db =
     (let cutoff = time - of_int older_than;
          old = (\<lambda>(k, v, updated_at). sql_like pat k \<and> updated_at < \<lfloor>cutoff\<rfloor>)
      in (length (filter old (config db)), db\<lparr>config := filter (\<lambda>kv. \<not> old kv) (config db)\<rparr>))"

subsection \<open>Cooldown rows\<close>

definition cooldown_row_key :: "saved_cooldown \<Rightarrow> string" where
  "cooldown_row_key s = ''cooldown:'' @ str_int (sc_group_id s) @ '':'' @ str_int (sc_model_id s)"

definition cooldown_row_value :: "saved_cooldown \<Rightarrow> json" where
  "cooldown_row_value s = JObj [(''failures'', JInt (sc_failures s)), (''cooldown_until'', JFloat (sc_until s))]"

definition save_cooldown_state :: "(json \<Rightarrow> string) \<Rightarrow> int \<Rightarrow> saved_cooldown list \<Rightarrow> db \<Rightarrow> db" where
  "save_cooldown_state dumps now ss db =
     fold (\<lambda>s. set_config now (cooldown_row_key s) (dumps (cooldown_row_value s))) ss db"

record loaded_cooldown =
  lc_group_id :: int
  lc_model_id :: int
  lc_failures :: json
  lc_until :: json

text \<open>One row; a row that does not parse is skipped.\<close>

definition load_cooldown_row :: "(string \<Rightarrow> json option) \<Rightarrow> string \<Rightarrow> string \<Rightarrow> loaded_cooldown list" where
  "load_cooldown_row loads key val =
     (case split_char (CHR '':'') key of
        [_, g, m] \<Rightarrow>
          (case (py_int g, py_int m, loads val) of
             (Some gid, Some mid, Some (JObj d)) \<Rightarrow>
               (case (map_of d ''failures'', map_of d ''cooldown_until'') of
                  (Some f, Some u) \<Rightarrow> [\<lparr>lc_group_id = gid, lc_model_id = mid, lc_failures = f, lc_until = u\<rparr>]
                | _ \<Rightarrow> [])
           | _ \<Rightarrow> [])
      | _ \<Rightarrow> [])"

definition load_cooldown_states :: "(string \<Rightarrow> json option) \<Rightarrow> db \<Rightarrow> loaded_cooldown list" where
  "load_cooldown_states loads db =
     concat (map (\<lambda>(k, v, _). load_cooldown_row loads k v)
       (filter (\<lambda>(k, _). sql_like ''cooldown:%'' k) (config db)))"

definition clear_cooldown_states :: "db \<Rightarrow> db" where
  "clear_cooldown_states db = db\<lparr>config := filter (\<lambda>(k, _). \<not> sql_like ''cooldown:%'' k) (config db)\<rparr>"

subsection \<open>Providers\<close>

text \<open>The \<open>INSERT\<close> does not name the time stamps, which take their default.\<close>

definition create_provider :: "provider \<Rightarrow> db \<Rightarrow> (int \<times> db) res" where
  "create_provider p db =
     (let (i, t) = insert_row (p\<lparr>p_created_at := sql_now db, p_updated_at := sql_now db\<rparr>) (providers db)
      in check_constraint (unique_on p_name t) (i, db\<lparr>providers := t\<rparr>))"

text \<open>One item of the \<open>updates\<close> dictionary; the last constructor is a key that is no column.\<close>

datatype provider_update =
    SetPName string | SetPType string | SetPApiKey string | SetPBaseUrl string
  | SetPExtraConfig dict | SetPIsEnabled bool | SetPOther string

fun apply_provider_update :: "provider_update \<Rightarrow> provider \<Rightarrow> provider" where
  "apply_provider_update (SetPName x) p = p\<lparr>p_name := x\<rparr>"
| "apply_provider_update (SetPType x) p = p\<lparr>p_provider_type := x\<rparr>"
| "apply_provider_update (SetPApiKey x) p = p\<lparr>p_api_key := x\<rparr>"
| "apply_provider_update (SetPBaseUrl x) p = p\<lparr>p_base_url := x\<rparr>"
| "apply_provider_update (SetPExtraConfig x) p = p\<lparr>p_extra_config := x\<rparr>"
| "apply_provider_update (SetPIsEnabled x) p = p\<lparr>p_is_enabled := x\<rparr>"
| "apply_provider_update (SetPOther _) p = p"

fun first_other :: "provider_update list \<Rightarrow> string option" where
  "first_other [] = None"
| "first_other (SetPOther k # us) = Some k"
| "first_other (_ # us) = first_other us"

definition update_provider :: "int \<Rightarrow> provider_update list \<Rightarrow> db \<Rightarrow> db res" where
  "update_provider pid us db =
     (case first_other us of
        Some k \<Rightarrow> Inl (mk_exc ValueErrorExc (''Invalid column for provider update: '' @ k))
      | None \<Rightarrow>
          let t = update_rows (\<lambda>ir. fst ir = pid) (\<lambda>p. (fold apply_provider_update us p)\<lparr>p_updated_at := sql_now db\<rparr>) (providers db)
          in check_constraint (unique_on p_name t) (db\<lparr>providers := t\<rparr>))"

text \<open>The foreign keys cascade: the provider's models go, and their group memberships with them.\<close>

definition delete_models_where :: "(int \<times> model \<Rightarrow> bool) \<Rightarrow> db \<Rightarrow> db" where
  "delete_models_where p db =
     db\<lparr>models := delete_rows p (models db),
        group_models := delete_rows (\<lambda>gm. \<exists>m \<in> set (rows (models db)). p m \<and> fst m = gm_model_id (snd gm))
                          (group_models db)\<rparr>"

definition delete_provider :: "int \<Rightarrow> db \<Rightarrow> nat \<times> db" where
  "delete_provider pid db =
     (count_rows (\<lambda>ir. fst ir = pid) (providers db),
      delete_models_where (\<lambda>m. m_provider_id (snd m) = pid)
        (db\<lparr>providers := delete_rows (\<lambda>ir. fst ir = pid) (providers db)\<rparr>))"

definition get_provider :: "int \<Rightarrow> db \<Rightarrow> (int \<times> provider) option" where
  "get_provider pid db = get_row (providers db) pid"

definition list_providers :: "bool \<Rightarrow> db \<Rightarrow> (int \<times> provider) list" where
  "list_providers enabled_only db =
     sort_key (\<lambda>ip. p_name (snd ip)) (filter (\<lambda>ip. enabled_only \<longrightarrow> p_is_enabled (snd ip)) (rows (providers db)))"

subsection \<open>Models\<close>

definition models_ok :: "db \<Rightarrow> bool" where
  "models_ok db \<longleftrightarrow> unique_on (\<lambda>m. (m_name m, m_provider_id m)) (models db) \<and>
     (\<forall>im \<in> set (rows (models db)). lookup_row (providers db) (m_provider_id (snd im)) \<noteq> None)"

text \<open>The \<open>INSERT\<close> does not name \<open>context_window\<close> and the time stamps, which take their default.\<close>

definition create_model :: "model \<Rightarrow> db \<Rightarrow> (int \<times> db) res" where
  "create_model m db =
     (let (i, t) = insert_row (m\<lparr>m_context_window := 0, m_created_at := sql_now db, m_updated_at := sql_now db\<rparr>) (models db);
          db' = db\<lparr>models := t\<rparr>
      in check_constraint (models_ok db') (i, db'))"

datatype model_update =
    SetMName string | SetMDisplayName string | SetMApiFormat string | SetMMaxRetries int
  | SetMCooldownSeconds int | SetMCooldownThreshold int | SetMExtraConfig dict | SetMIsEnabled bool
  | SetMOther string

fun apply_model_update :: "model_update \<Rightarrow> model \<Rightarrow> model" where
  "apply_model_update (SetMName x) m = m\<lparr>m_name := x\<rparr>"
| "apply_model_update (SetMDisplayName x) m = m\<lparr>m_display_name := x\<rparr>"
| "apply_model_update (SetMApiFormat x) m = m\<lparr>m_api_format := x\<rparr>"
| "apply_model_update (SetMMaxRetries x) m = m\<lparr>m_max_retries := x\<rparr>"
| "apply_model_update (SetMCooldownSeconds x) m = m\<lparr>m_cooldown_seconds := x\<rparr>"
| "apply_model_update (SetMCooldownThreshold x) m = m\<lparr>m_cooldown_failure_threshold := x\<rparr>"
| "apply_model_update (SetMExtraConfig x) m = m\<lparr>m_extra_config := x\<rparr>"
| "apply_model_update (SetMIsEnabled x) m = m\<lparr>m_is_enabled := x\<rparr>"
| "apply_model_update (SetMOther _) m = m"

fun first_other_model :: "model_update list \<Rightarrow> string option" where
  "first_other_model [] = None"
| "first_other_model (SetMOther k # us) = Some k"
| "first_other_model (_ # us) = first_other_model us"

definition update_model :: "int \<Rightarrow> model_update list \<Rightarrow> db \<Rightarrow> db res" where
  "update_model mid us db =
     (case first_other_model us of
        Some k \<Rightarrow> Inl (mk_exc ValueErrorExc (''Invalid column for model update: '' @ k))
      | None \<Rightarrow>
          let db' = db\<lparr>models := update_rows (\<lambda>ir. fst ir = mid)
                (\<lambda>m. (fold apply_model_update us m)\<lparr>m_updated_at := sql_now db\<rparr>) (models db)\<rparr>
          in check_constraint (models_ok db') db')"

definition delete_model :: "int \<Rightarrow> db \<Rightarrow> nat \<times> db" where
  "delete_model mid db =
     (count_rows (\<lambda>ir. fst ir = mid) (models db), delete_models_where (\<lambda>m. fst m = mid) db)"

definition get_model :: "int \<Rightarrow> db \<Rightarrow> (int \<times> model) option" where
  "get_model mid db = get_row (models db) mid"

definition find_model :: "string \<Rightarrow> int \<Rightarrow> db \<Rightarrow> (int \<times> model) option" where
  "find_model name pid db = find (\<lambda>im. m_name (snd im) = name \<and> m_provider_id (snd im) = pid) (rows (models db))"

definition upsert_model :: "model \<Rightarrow> db \<Rightarrow> (int \<times> db) res" where
  "upsert_model m db =
     (case find_model (m_name m) (m_provider_id m) db of
        Some (i, _) \<Rightarrow>
          Inr (i, db\<lparr>models := update_rows (\<lambda>ir. fst ir = i)
            (\<lambda>r. m\<lparr>m_name := m_name r, m_provider_id := m_provider_id r, m_context_window := m_context_window r,
                   m_created_at := m_created_at r, m_updated_at := sql_now db\<rparr>)
            (models db)\<rparr>)
      | None \<Rightarrow> create_model m db)"

definition list_models :: "int option \<Rightarrow> bool \<Rightarrow> db \<Rightarrow> (int \<times> model) list" where
  "list_models pid enabled_only db =
     sort_key (\<lambda>im. m_name (snd im))
       (filter (\<lambda>im. (case pid of None \<Rightarrow> True | Some p \<Rightarrow> m_provider_id (snd im) = p) \<and>
                     (enabled_only \<longrightarrow> m_is_enabled (snd im))) (rows (models db)))"

subsection \<open>Groups\<close>

text \<open>The \<open>INSERT\<close> does not name \<open>fallback_group_id\<close>, which stays NULL, and the time stamps.\<close>

definition create_group :: "model_group \<Rightarrow> db \<Rightarrow> (int \<times> db) res" where
  "create_group g db =
     (let (i, t) = insert_row (g\<lparr>g_fallback_group_id := None, g_created_at := sql_now db, g_updated_at := sql_now db\<rparr>)
            (model_groups db)
      in check_constraint (unique_on g_name t) (i, db\<lparr>model_groups := t\<rparr>))"

datatype group_update =
    SetGName string | SetGDescription string | SetGIsEnabled bool | SetGFallback "int option"
  | SetGType string | SetGParams dict | SetGOther string

fun apply_group_update :: "group_update \<Rightarrow> model_group \<Rightarrow> model_group" where
  "apply_group_update (SetGName x) g = g\<lparr>g_name := x\<rparr>"
| "apply_group_update (SetGDescription x) g = g\<lparr>g_description := x\<rparr>"
| "apply_group_update (SetGIsEnabled x) g = g\<lparr>g_is_enabled := x\<rparr>"
| "apply_group_update (SetGFallback x) g = g\<lparr>g_fallback_group_id := x\<rparr>"
| "apply_group_update (SetGType x) g = g\<lparr>g_type := x\<rparr>"
| "apply_group_update (SetGParams x) g = g\<lparr>g_params := x\<rparr>"
| "apply_group_update (SetGOther _) g = g"

fun first_other_group :: "group_update list \<Rightarrow> string option" where
  "first_other_group [] = None"
| "first_other_group (SetGOther k # us) = Some k"
| "first_other_group (_ # us) = first_other_group us"

definition update_group :: "int \<Rightarrow> group_update list \<Rightarrow> db \<Rightarrow> db res" where
  "update_group gid us db =
     (case first_other_group us of
        Some k \<Rightarrow> Inl (mk_exc ValueErrorExc (''Invalid column for group update: '' @ k))
      | None \<Rightarrow>
          let t = update_rows (\<lambda>ir. fst ir = gid) (\<lambda>g. (fold apply_group_update us g)\<lparr>g_updated_at := sql_now db\<rparr>) (model_groups db)
          in check_constraint (unique_on g_name t) (db\<lparr>model_groups := t\<rparr>))"

definition delete_group :: "int \<Rightarrow> db \<Rightarrow> nat \<times> db" where
  "delete_group gid db =
     (count_rows (\<lambda>ir. fst ir = gid) (model_groups db),
      db\<lparr>group_models := delete_rows (\<lambda>gm. gm_group_id (snd gm) = gid) (group_models db),
         model_groups := delete_rows (\<lambda>ir. fst ir = gid) (model_groups db)\<rparr>)"

definition get_group :: "int \<Rightarrow> db \<Rightarrow> (int \<times> model_group) option" where
  "get_group gid db = get_row (model_groups db) gid"

definition list_groups :: "bool \<Rightarrow> db \<Rightarrow> (int \<times> model_group) list" where
  "list_groups enabled_only db =
     sort_key (\<lambda>ig. g_name (snd ig)) (filter (\<lambda>ig. enabled_only \<longrightarrow> g_is_enabled (snd ig)) (rows (model_groups db)))"

definition find_groups_by_model_name :: "string \<Rightarrow> bool \<Rightarrow> db \<Rightarrow> (int \<times> model_group) list" where
  "find_groups_by_model_name name enabled_only db =
     sort_key (\<lambda>ig. g_name (snd ig))
       (filter (\<lambda>ig. list_ex (\<lambda>gm. gm_group_id (snd gm) = fst ig \<and>
            (case lookup_row (models db) (gm_model_id (snd gm)) of
               None \<Rightarrow> False
             | Some m \<Rightarrow> m_name m = name \<and>
                 (enabled_only \<longrightarrow> g_is_enabled (snd ig) \<and> gm_is_enabled (snd gm) \<and> m_is_enabled m)))
          (rows (group_models db))) (rows (model_groups db)))"

text \<open>The names of the models of one group in the joined rows, and the group entries of
  \<open>list_groups_with_models\<close>: a group with no joined row does not appear.\<close>

definition joined_model_names :: "bool \<Rightarrow> db \<Rightarrow> int \<times> model_group \<Rightarrow> string list" where
  "joined_model_names enabled_only db ig =
     sort (concat (map (\<lambda>gm.
       if gm_group_id (snd gm) \<noteq> fst ig then []
       else case lookup_row (models db) (gm_model_id (snd gm)) of
              None \<Rightarrow> []
            | Some m \<Rightarrow>
                (case lookup_row (providers db) (m_provider_id m) of
                   None \<Rightarrow> []
                 | Some p \<Rightarrow>
                     if enabled_only \<longrightarrow> g_is_enabled (snd ig) \<and> gm_is_enabled (snd gm) \<and> m_is_enabled m \<and> p_is_enabled p
                     then [m_name m] else [])) (rows (group_models db))))"

definition list_groups_with_models :: "bool \<Rightarrow> db \<Rightarrow> ((int \<times> model_group) \<times> string list) list" where
  "list_groups_with_models enabled_only db =
     filter (\<lambda>gn. snd gn \<noteq> [])
       (map (\<lambda>ig. (ig, joined_model_names enabled_only db ig))
         (sort_key (\<lambda>ig. g_name (snd ig)) (rows (model_groups db))))"

subsection \<open>Group members\<close>

definition group_models_ok :: "db \<Rightarrow> bool" where
  "group_models_ok db \<longleftrightarrow> unique_on (\<lambda>gm. (gm_group_id gm, gm_model_id gm)) (group_models db) \<and>
     (\<forall>gm \<in> set (rows (group_models db)). lookup_row (model_groups db) (gm_group_id (snd gm)) \<noteq> None \<and>
        lookup_row (models db) (gm_model_id (snd gm)) \<noteq> None)"

text \<open>\<open>INSERT OR REPLACE\<close>: a row with the same pair is deleted first.\<close>

definition add_model_to_group :: "int \<Rightarrow> int \<Rightarrow> real \<Rightarrow> db \<Rightarrow> (int \<times> db) res" where
  "add_model_to_group gid mid weight db =
     (let t0 = delete_rows (\<lambda>gm. gm_group_id (snd gm) = gid \<and> gm_model_id (snd gm) = mid) (group_models db);
          (i, t) = insert_row \<lparr>gm_group_id = gid, gm_model_id = mid, gm_weight = weight, gm_is_enabled = True\<rparr> t0;
          db' = db\<lparr>group_models := t\<rparr>
      in check_constraint (group_models_ok db') (i, db'))"

definition remove_model_from_group :: "int \<Rightarrow> int \<Rightarrow> db \<Rightarrow> db" where
  "remove_model_from_group gid mid db =
     db\<lparr>group_models := delete_rows (\<lambda>gm. gm_group_id (snd gm) = gid \<and> gm_model_id (snd gm) = mid) (group_models db)\<rparr>"

definition update_model_weight :: "int \<Rightarrow> int \<Rightarrow> real \<Rightarrow> db \<Rightarrow> db" where
  "update_model_weight gid mid weight db =
     db\<lparr>group_models := update_rows (\<lambda>gm. gm_group_id (snd gm) = gid \<and> gm_model_id (snd gm) = mid)
          (\<lambda>r. r\<lparr>gm_weight := weight\<rparr>) (group_models db)\<rparr>"

text \<open>The joined row; a \<open>proxy\<close> that is not a string fails the validation of the result type.\<close>

definition detail_of :: "int \<times> group_model \<Rightarrow> int \<times> model \<Rightarrow> int \<times> provider \<Rightarrow> model_detail res" where
  "detail_of gm m p =
     (case dget (m_extra_config (snd m)) ''proxy'' (JStr '''') of
        JStr proxy \<Rightarrow> Inr
          \<lparr>d_id = fst gm, d_group_id = gm_group_id (snd gm), d_model_id = gm_model_id (snd gm),
           d_weight = gm_weight (snd gm), d_is_enabled = gm_is_enabled (snd gm), d_model_name = m_name (snd m),
           d_display_name = m_display_name (snd m), d_api_format = m_api_format (snd m),
           d_provider_id = m_provider_id (snd m), d_provider_name = p_name (snd p),
           d_provider_type = p_provider_type (snd p), d_max_retries = m_max_retries (snd m),
           d_cooldown_seconds = m_cooldown_seconds (snd m),
           d_cooldown_failure_threshold = m_cooldown_failure_threshold (snd m),
           d_context_window = m_context_window (snd m), d_proxy = proxy,
           d_extra_config = m_extra_config (snd m)\<rparr>
      | _ \<Rightarrow> Inl (raised_by_python (OtherException ''ValidationError'')))"

definition join_row :: "bool \<Rightarrow> db \<Rightarrow> int \<times> group_model \<Rightarrow>
    ((int \<times> group_model) \<times> (int \<times> model) \<times> (int \<times> provider)) list" where
  "join_row enabled_only db gm =
     (case get_model (gm_model_id (snd gm)) db of
        None \<Rightarrow> []
      | Some m \<Rightarrow>
          (case get_provider (m_provider_id (snd m)) db of
             None \<Rightarrow> []
           | Some p \<Rightarrow>
               if enabled_only \<longrightarrow> gm_is_enabled (snd gm) \<and> m_is_enabled (snd m) \<and> p_is_enabled (snd p)
               then [(gm, m, p)] else []))"

definition joined_rows :: "int \<Rightarrow> bool \<Rightarrow> db \<Rightarrow> ((int \<times> group_model) \<times> (int \<times> model) \<times> (int \<times> provider)) list" where
  "joined_rows gid enabled_only db =
     concat (map (join_row enabled_only db) (filter (\<lambda>gm. gm_group_id (snd gm) = gid) (rows (group_models db))))"

definition get_group_models :: "int \<Rightarrow> bool \<Rightarrow> db \<Rightarrow> model_detail list res" where
  "get_group_models gid enabled_only db =
     mapE (\<lambda>(gm, m, p). detail_of gm m p)
       (sort_key (\<lambda>(gm, _). - gm_weight (snd gm)) (joined_rows gid enabled_only db))"

end
