(* ===== verification/Selection.thy ===== *)
theory Selection
  imports Store
begin

text \<open>
  Weighted random selection and the retry rule of \<open>src/botflow/router.py\<close>.

  \<open>uniform a b w\<close> is \<open>random.uniform(a, b)\<close>: the number drawn and the world after the draw. The
  regular expression of the retry rule, \<open>HTTP\s+(\d{3})\b\<close>, is a scan of the message; a byte of a
  character outside ASCII counts as a word character.
\<close>

type_synonym 'w uniform = "real \<Rightarrow> real \<Rightarrow> 'w \<Rightarrow> real \<times> 'w"

subsection \<open>Weighted random selection\<close>

definition total_weight :: "model_detail list \<Rightarrow> real" where
  "total_weight ms = sum_list (map d_weight (filter (\<lambda>m. d_weight m > 0) ms))"

text \<open>The loop, with the sum so far: \<open>None\<close> when it runs off the end.\<close>

fun pick_by_weight :: "real \<Rightarrow> real \<Rightarrow> model_detail list \<Rightarrow> model_detail option" where
  "pick_by_weight r cumulative [] = None"
| "pick_by_weight r cumulative (m # ms) =
     (if d_weight m \<le> 0 then pick_by_weight r cumulative ms
      else if r < cumulative + d_weight m then Some m
      else pick_by_weight r (cumulative + d_weight m) ms)"

definition no_weight_error :: exc where
  "no_weight_error = mk_exc NoAvailableModelError ''No available models (total weight is 0 or negative)''"

definition weighted_random_select :: "'w uniform \<Rightarrow> model_detail list \<Rightarrow> 'w \<Rightarrow> model_detail res \<times> 'w" where
  "weighted_random_select uniform ms w =
     (if total_weight ms \<le> 0 then (Inl no_weight_error, w)
      else let (r, w') = uniform 0 (total_weight ms) w in
        (Inr (case pick_by_weight r 0 ms of Some m \<Rightarrow> m | None \<Rightarrow> last ms), w'))"

lemma pick_by_weight_mem: "pick_by_weight r c ms = Some m \<Longrightarrow> m \<in> set ms \<and> d_weight m > 0"
  by (induction r c ms rule: pick_by_weight.induct) (auto split: if_splits)

lemma total_weight_Nil [simp]: "total_weight [] = 0"
  by (simp add: total_weight_def)

lemma total_weight_Cons [simp]: "total_weight (m # ms) = max 0 (d_weight m) + total_weight ms"
  by (simp add: total_weight_def)

lemma total_weight_nonneg: "0 \<le> total_weight ms"
  by (induction ms) auto

lemma total_weight_pos: "m \<in> set ms \<Longrightarrow> d_weight m > 0 \<Longrightarrow> total_weight ms > 0"
  using total_weight_nonneg by (induction ms) (auto simp: add_pos_nonneg add_nonneg_pos)

lemma weighted_random_select_mem:
  "weighted_random_select u ms w = (Inr m, w') \<Longrightarrow> m \<in> set ms"
proof -
  assume sel: "weighted_random_select u ms w = (Inr m, w')"
  then have "ms \<noteq> []" by (auto simp: weighted_random_select_def)
  with sel show ?thesis
    by (auto simp: weighted_random_select_def Let_def split: if_splits prod.splits option.splits
        dest: pick_by_weight_mem)
qed

text \<open>The loop of \<open>weighted_random_order\<close>: \<open>remaining.remove\<close> drops the first equal element.\<close>

function order_remaining :: "'w uniform \<Rightarrow> model_detail list \<Rightarrow> 'w \<Rightarrow> model_detail list res \<times> 'w" where
  "order_remaining u remaining w =
     (if remaining = [] then (Inr [], w)
      else case weighted_random_select u remaining w of
             (Inl e, w') \<Rightarrow> (Inl e, w')
           | (Inr m, w') \<Rightarrow>
               (case order_remaining u (remove1 m remaining) w' of
                  (Inl e, w'') \<Rightarrow> (Inl e, w'')
                | (Inr ms, w'') \<Rightarrow> (Inr (m # ms), w'')))"
  by pat_completeness auto
termination
  by (relation "measure (\<lambda>(_, ms, _). length ms)")
    (auto simp: length_remove1 dest!: weighted_random_select_mem [OF sym] intro: diff_less length_pos_if_in_set)

declare order_remaining.simps [simp del]

definition weighted_random_order :: "'w uniform \<Rightarrow> model_detail list \<Rightarrow> 'w \<Rightarrow> model_detail list res \<times> 'w" where
  "weighted_random_order u ms w =
     (let remaining = filter (\<lambda>m. d_weight m > 0) ms in
      if remaining = [] then (Inl no_weight_error, w) else order_remaining u remaining w)"

text \<open>The positive weights of the first \<open>i\<close> models.\<close>

definition weight_before :: "model_detail list \<Rightarrow> nat \<Rightarrow> real" where
  "weight_before ms i = total_weight (take i ms)"

lemma pick_by_weight_interval:
  assumes "i < length ms" "d_weight (ms ! i) > 0"
    and "c + weight_before ms i \<le> r" "r < c + weight_before ms i + d_weight (ms ! i)"
  shows "pick_by_weight r c ms = Some (ms ! i)"
  using assms
proof (induction ms arbitrary: i c)
  case (Cons m ms)
  show ?case
  proof (cases i)
    case 0
    with Cons.prems show ?thesis by (simp add: weight_before_def)
  next
    case (Suc j)
    have "c + max 0 (d_weight m) + weight_before ms j \<le> r"
      and "r < c + max 0 (d_weight m) + weight_before ms j + d_weight (ms ! j)"
      using Cons.prems Suc by (simp_all add: weight_before_def add.assoc)
    moreover have "0 \<le> weight_before ms j" by (simp add: weight_before_def total_weight_nonneg)
    ultimately show ?thesis
      using Cons.IH [of j "c + max 0 (d_weight m)"] Cons.prems Suc by (auto simp: max_def split: if_splits)
  qed
qed simp

text \<open>The draw is proportional to the weights. Cut the interval from 0 to the total of the positive
  weights into consecutive pieces, one per model with positive weight, each as long as its weight: a
  draw in the piece of a model selects this model.\<close>

lemma weighted_select_interval:
  assumes "i < length ms" and "d_weight (ms ! i) > 0"
    and "uniform 0 (total_weight ms) w = (r, w')"
    and "weight_before ms i \<le> r" and "r < weight_before ms i + d_weight (ms ! i)"
  shows "weighted_random_select uniform ms w = (Inr (ms ! i), w')"
  using assms pick_by_weight_interval [of i ms 0 r] total_weight_pos [of "ms ! i" ms]
  by (simp add: weighted_random_select_def not_le [symmetric])

definition with_weight :: "int \<Rightarrow> real \<Rightarrow> model_detail" where
  "with_weight i x = \<lparr>d_id = i, d_group_id = 1, d_model_id = i, d_weight = x, d_is_enabled = True,
     d_model_name = ''m'', d_display_name = '''', d_api_format = '''', d_provider_id = i, d_provider_name = ''p'',
     d_provider_type = ''openai'', d_max_retries = 1, d_cooldown_seconds = 60, d_cooldown_failure_threshold = 3,
     d_context_window = 0, d_proxy = '''', d_extra_config = []\<rparr>"

lemma order_remaining_perm:
  "\<forall>m \<in> set ms. d_weight m > 0 \<Longrightarrow> \<exists>os w'. order_remaining u ms w = (Inr os, w') \<and> mset os = mset ms"
proof (induction u ms w rule: order_remaining.induct)
  case (1 u ms w)
  show ?case
  proof (cases "ms = []")
    case True
    then show ?thesis by (simp add: order_remaining.simps)
  next
    case False
    then have "total_weight ms > 0" using "1.prems" by (metis list.set_sel(1) total_weight_pos)
    then obtain m w1 where sel: "weighted_random_select u ms w = (Inr m, w1)"
      by (fastforce simp: weighted_random_select_def Let_def split: prod.splits)
    have "\<forall>m' \<in> set (remove1 m ms). d_weight m' > 0" using "1.prems" by (meson notin_set_remove1)
    then obtain os w2 where "order_remaining u (remove1 m ms) w1 = (Inr os, w2)" "mset os = mset (remove1 m ms)"
      using "1.IH" [OF False sel [symmetric] refl] by blast
    moreover from this have "mset (m # os) = mset ms"
      using weighted_random_select_mem [OF sel] by simp
    ultimately show ?thesis
      by (subst order_remaining.simps) (simp add: False sel)
  qed
qed

lemma weighted_random_order_perm:
  assumes "m \<in> set ms" and "d_weight m > 0"
  shows "\<exists>os w'. weighted_random_order u ms w = (Inr os, w') \<and> mset os = mset (filter (\<lambda>m. d_weight m > 0) ms)"
proof -
  have "filter (\<lambda>m. d_weight m > 0) ms \<noteq> []" using assms by (auto simp: filter_empty_conv)
  then show ?thesis
    using order_remaining_perm [of "filter (\<lambda>m. d_weight m > 0) ms" u w]
    by (simp add: weighted_random_order_def)
qed

text \<open>Sampling without replacement. The loop always ends; when some model has a positive weight the
  order it returns is a permutation of the models with positive weight, whatever the draws are.\<close>

lemma weighted_random_order_permutes:
  assumes "m \<in> set ms" and "d_weight m > 0"
  shows "\<exists>os w'. weighted_random_order u ms w = (Inr os, w') \<and> mset os = mset (filter (\<lambda>m. d_weight m > 0) ms)"
  using assms by (rule weighted_random_order_perm)

subsection \<open>The retry rule\<close>

definition retryable_status_codes :: "int list" where
  "retryable_status_codes = [429, 500, 502, 503, 504]"

fun contains :: "string \<Rightarrow> string \<Rightarrow> bool" where
  "contains p [] = (p = [])"
| "contains p (c # cs) = (prefix p (c # cs) \<or> contains p cs)"

definition is_word_char :: "char \<Rightarrow> bool" where
  "is_word_char c \<longleftrightarrow> (let n = (of_char c :: nat) in
     is_digit c \<or> c = CHR ''_'' \<or> (65 \<le> n \<and> n \<le> 90) \<or> (97 \<le> n \<and> n \<le> 122) \<or> 128 \<le> n)"

text \<open>The three digits that follow \<open>HTTP\<close> and white space at the start of the string, when a word ends
  after them.\<close>

definition http_status_here :: "string \<Rightarrow> string option" where
  "http_status_here s =
     (if \<not> prefix ''HTTP'' s then None
      else let rest = drop 4 s; rest' = dropWhile is_space rest; ds = take 3 rest'; after = drop 3 rest' in
        if rest' \<noteq> rest \<and> length ds = 3 \<and> list_all is_digit ds \<and>
           (after = [] \<or> \<not> is_word_char (hd after))
        then Some ds else None)"

fun search_http_status :: "string \<Rightarrow> string option" where
  "search_http_status [] = None"
| "search_http_status (c # cs) =
     (case http_status_here (c # cs) of Some ds \<Rightarrow> Some ds | None \<Rightarrow> search_http_status cs)"

definition is_retryable_error :: "exc \<Rightarrow> bool" where
  "is_retryable_error e \<longleftrightarrow>
     (case exc_status e of Some n \<Rightarrow> n \<in> set retryable_status_codes | None \<Rightarrow> False) \<or>
     (case search_http_status (exc_msg e) of
        Some ds \<Rightarrow> int (nat_of_digits ds) \<in> set retryable_status_codes
      | None \<Rightarrow> False) \<or>
     contains ''timeout'' (lower (exc_msg e)) \<or> contains ''timed out'' (lower (exc_msg e))"

text \<open>\<open>exponential_backoff\<close> with its default base 1 and ceiling 30: the delay, the draw of the jitter and
  the sleep.\<close>

definition backoff_delay :: "nat \<Rightarrow> real" where
  "backoff_delay attempt = min (1 * 2 ^ attempt) 30"

definition exponential_backoff :: "'w uniform \<Rightarrow> (real \<Rightarrow> 'w \<Rightarrow> 'w) \<Rightarrow> nat \<Rightarrow> 'w \<Rightarrow> 'w" where
  "exponential_backoff uniform sleep attempt w =
     (let (jitter, w') = uniform 0 (backoff_delay attempt * (1 / 10)) w in
      sleep (backoff_delay attempt + jitter) w')"

end
