(* ===== verification/Pool.thy ===== *)
theory Pool
  imports Store
begin

text \<open>
  The provider instances of \<open>src/botflow/router.py\<close>: their cache, and the deferred close of
  instances that were replaced.

  An instance carries the number of its construction as its identity. \<open>now\<close> is \<open>time.time()\<close>,
  which the cache compares; \<open>loop_now\<close> is the clock of the event loop, which \<open>asyncio.sleep\<close> counts
  on; \<open>running\<close> tells whether an event loop runs in the calling thread. A task of \<open>_close_tasks\<close> is
  the instance with the loop time at which its sleep ends.
\<close>

datatype provider_class = OpenAICompatProvider | DeepSeekProvider | AnthropicProvider | GoogleProvider

definition provider_type_map :: "(string \<times> provider_class) list" where
  "provider_type_map =
     [(''openai'', OpenAICompatProvider), (''azure'', OpenAICompatProvider), (''ollama'', OpenAICompatProvider),
      (''vllm'', OpenAICompatProvider), (''deepseek'', DeepSeekProvider), (''anthropic'', AnthropicProvider),
      (''google'', GoogleProvider)]"

record provider_inst =
  pi_id :: nat
  pi_class :: provider_class
  pi_api_key :: string
  pi_base_url :: string
  pi_extra_config :: dict

type_synonym cache_key = "int \<times> string \<times> string"

record pool =
  provider_cache :: "(cache_key \<times> (provider_inst \<times> real)) list"
  pending_closes :: "provider_inst list"
  close_tasks :: "(provider_inst \<times> real) list"
  closed_insts :: "nat list"
  next_inst :: nat

definition empty_pool :: pool where
  "empty_pool = \<lparr>provider_cache = [], pending_closes = [], close_tasks = [], closed_insts = [], next_inst = 0\<rparr>"

definition provider_cache_ttl :: real where
  "provider_cache_ttl = 300"

definition stale_close_grace :: real where
  "stale_close_grace = 300"

definition spawn_delayed_close :: "real \<Rightarrow> provider_inst \<Rightarrow> pool \<Rightarrow> pool" where
  "spawn_delayed_close loop_now i p = p\<lparr>close_tasks := close_tasks p @ [(i, loop_now + stale_close_grace)]\<rparr>"

text \<open>The \<open>while\<close> loop takes the queued instances from the front until none is left.\<close>

definition retire_provider :: "bool \<Rightarrow> real \<Rightarrow> provider_inst \<Rightarrow> pool \<Rightarrow> pool" where
  "retire_provider running loop_now i p =
     (if pi_id i \<in> set (closed_insts p) then p
      else if \<not> running then p\<lparr>pending_closes := pending_closes p @ [i]\<rparr>
      else spawn_delayed_close loop_now i
             (fold (spawn_delayed_close loop_now) (pending_closes p) (p\<lparr>pending_closes := []\<rparr>)))"

text \<open>The tasks whose sleep is over at \<open>loop_now\<close> close their instance and are discarded.\<close>

definition delayed_close :: "real \<Rightarrow> pool \<Rightarrow> pool" where
  "delayed_close loop_now p =
     p\<lparr>close_tasks := filter (\<lambda>tk. loop_now < snd tk) (close_tasks p),
       closed_insts := closed_insts p @ map (\<lambda>tk. pi_id (fst tk)) (filter (\<lambda>tk. snd tk \<le> loop_now) (close_tasks p))\<rparr>"

text \<open>A newly constructed instance takes its place in the cache, and the one it replaces is retired.\<close>

definition store_instance :: "bool \<Rightarrow> real \<Rightarrow> real \<Rightarrow> cache_key \<Rightarrow> provider_inst \<Rightarrow> pool \<Rightarrow> pool" where
  "store_instance running now loop_now key inst p =
     (let p1 = p\<lparr>next_inst := next_inst p + 1\<rparr>;
          p2 = (case map_of (provider_cache p) key of
                  None \<Rightarrow> p1 | Some (old, _) \<Rightarrow> retire_provider running loop_now old p1)
      in p2\<lparr>provider_cache := AList.update key (inst, now) (provider_cache p2)\<rparr>)"

text \<open>What the constructors of the providers do before they build a client: trailing slashes are cut from the
  address, and DeepSeek has an address of its own and asks for a key. The client DeepSeek builds at once is
  taken to be built.\<close>

definition rstrip_slash :: "string \<Rightarrow> string" where
  "rstrip_slash s = rev (dropWhile (\<lambda>c. c = CHR ''/'') (rev s))"

definition init_base_url :: "provider_class \<Rightarrow> string \<Rightarrow> string" where
  "init_base_url cls base_url =
     (let url = rstrip_slash base_url in
      if cls = DeepSeekProvider \<and> url = [] then ''https://api.deepseek.com'' else url)"

definition init_error :: "provider_class \<Rightarrow> string \<Rightarrow> exc option" where
  "init_error cls api_key =
     (if cls = DeepSeekProvider \<and> api_key = []
      then Some (mk_exc ValueErrorExc (''DeepSeekProvider requires a non-empty api_key. '' @
             ''Set DEEPSEEK_API_KEY or pass api_key in provider config.''))
      else None)"

definition create_instance ::
    "bool \<Rightarrow> real \<Rightarrow> real \<Rightarrow> cache_key \<Rightarrow> string \<Rightarrow> string \<Rightarrow> dict \<Rightarrow> pool \<Rightarrow> provider_inst res \<times> pool" where
  "create_instance running now loop_now key api_key base_url merged p =
     (let resolved_type = fst (snd key) in
      case map_of provider_type_map resolved_type of
        None \<Rightarrow> (Inl (mk_exc ValueErrorExc (''Unsupported provider type: '' @ resolved_type)), p)
      | Some cls \<Rightarrow>
          (case init_error cls api_key of
             Some e \<Rightarrow> (Inl e, p)
           | None \<Rightarrow>
               let inst = \<lparr>pi_id = next_inst p, pi_class = cls, pi_api_key = api_key,
                           pi_base_url = init_base_url cls base_url, pi_extra_config = merged\<rparr>
               in (Inr inst, store_instance running now loop_now key inst p)))"

definition get_cached_provider ::
    "bool \<Rightarrow> real \<Rightarrow> real \<Rightarrow> int \<Rightarrow> string \<Rightarrow> string \<Rightarrow> string \<Rightarrow> dict \<Rightarrow> string \<Rightarrow> string \<Rightarrow>
       pool \<Rightarrow> provider_inst res \<times> pool" where
  "get_cached_provider running now loop_now provider_id provider_type api_key base_url extra_config api_format proxy p =
     (let resolved_type = (if api_format \<noteq> [] then api_format else provider_type);
          key = (provider_id, resolved_type, proxy);
          merged = (if proxy \<noteq> [] then dset ''proxy'' (JStr proxy) extra_config else extra_config);
          create = create_instance running now loop_now key api_key base_url merged p
      in case map_of (provider_cache p) key of
           Some (inst, create_time) \<Rightarrow> if now - create_time < provider_cache_ttl then (Inr inst, p) else create
         | None \<Rightarrow> create)"

definition retire_all :: "bool \<Rightarrow> real \<Rightarrow> (cache_key \<times> (provider_inst \<times> real)) list \<Rightarrow> pool \<Rightarrow> pool" where
  "retire_all running loop_now entries p = fold (\<lambda>(_, inst, _). retire_provider running loop_now inst) entries p"

text \<open>\<open>invalidate_provider_cache\<close>; the second form also serves \<open>invalidate_all_caches\<close>.\<close>

definition invalidate_provider :: "bool \<Rightarrow> real \<Rightarrow> int \<Rightarrow> pool \<Rightarrow> pool" where
  "invalidate_provider running loop_now pid p =
     fold (\<lambda>(key, inst, _) p. retire_provider running loop_now inst (p\<lparr>provider_cache := AList.delete key (provider_cache p)\<rparr>))
       (filter (\<lambda>(key, _). fst key = pid) (provider_cache p)) p"

definition invalidate_all_providers :: "bool \<Rightarrow> real \<Rightarrow> pool \<Rightarrow> pool" where
  "invalidate_all_providers running loop_now p =
     (retire_all running loop_now (provider_cache p) p)\<lparr>provider_cache := []\<rparr>"

subsection \<open>No instance is lost\<close>

text \<open>Where the instances are: cached, queued, waiting for their close, or closed.\<close>

definition cached_ids :: "(cache_key \<times> (provider_inst \<times> real)) list \<Rightarrow> nat list" where
  "cached_ids c = map (\<lambda>e. pi_id (fst (snd e))) c"

definition whereabouts :: "pool \<Rightarrow> nat list" where
  "whereabouts p = cached_ids (provider_cache p) @ map pi_id (pending_closes p) @
     map (\<lambda>tk. pi_id (fst tk)) (close_tasks p) @ closed_insts p"

definition wf_pool :: "pool \<Rightarrow> bool" where
  "wf_pool p \<longleftrightarrow> distinct (map fst (provider_cache p)) \<and> mset (whereabouts p) = mset [0..<next_inst p]"

inductive pool_step :: "pool \<times> real \<Rightarrow> pool \<times> real \<Rightarrow> bool" where
  step_time: "t \<le> t' \<Longrightarrow> pool_step (p, t) (delayed_close t' p, t')"
| step_get: "get_cached_provider running now t pid pt ak bu ec af px p = (r, p') \<Longrightarrow> pool_step (p, t) (p', t)"
| step_invalidate: "pool_step (p, t) (invalidate_provider running t pid p, t)"
| step_invalidate_all: "pool_step (p, t) (invalidate_all_providers running t p, t)"

lemma spawn_fields [simp]:
  "provider_cache (spawn_delayed_close t i p) = provider_cache p"
  "closed_insts (spawn_delayed_close t i p) = closed_insts p"
  "next_inst (spawn_delayed_close t i p) = next_inst p"
  "pending_closes (spawn_delayed_close t i p) = pending_closes p"
  "close_tasks (spawn_delayed_close t i p) = close_tasks p @ [(i, t + stale_close_grace)]"
  by (simp_all add: spawn_delayed_close_def)

lemma fold_spawn_fields [simp]:
  "provider_cache (fold (spawn_delayed_close t) is p) = provider_cache p"
  "closed_insts (fold (spawn_delayed_close t) is p) = closed_insts p"
  "next_inst (fold (spawn_delayed_close t) is p) = next_inst p"
  "pending_closes (fold (spawn_delayed_close t) is p) = pending_closes p"
  "close_tasks (fold (spawn_delayed_close t) is p) = close_tasks p @ map (\<lambda>i. (i, t + stale_close_grace)) is"
  by (induction "is" arbitrary: p) simp_all

lemma retire_fields [simp]:
  "provider_cache (retire_provider running t i p) = provider_cache p"
  "closed_insts (retire_provider running t i p) = closed_insts p"
  "next_inst (retire_provider running t i p) = next_inst p"
  by (simp_all add: retire_provider_def)

lemma whereabouts_retire:
  "pi_id i \<notin> set (closed_insts p) \<Longrightarrow>
   mset (whereabouts (retire_provider running t i p)) = add_mset (pi_id i) (mset (whereabouts p))"
  by (simp add: whereabouts_def retire_provider_def comp_def image_mset.compositionality ac_simps)

lemma fold_retire_fields [simp]:
  "provider_cache (retire_all running t es p) = provider_cache p"
  "closed_insts (retire_all running t es p) = closed_insts p"
  "next_inst (retire_all running t es p) = next_inst p"
  unfolding retire_all_def by (induction es arbitrary: p) (auto simp: case_prod_beta)

lemma whereabouts_retire_all:
  "set (cached_ids es) \<inter> set (closed_insts p) = {} \<Longrightarrow>
   mset (whereabouts (retire_all running t es p)) = mset (whereabouts p) + mset (cached_ids es)"
proof (induction es arbitrary: p)
  case Nil
  then show ?case by (simp add: retire_all_def cached_ids_def)
next
  case (Cons e es)
  have "retire_all running t (e # es) p = retire_all running t es (retire_provider running t (fst (snd e)) p)"
    by (simp add: retire_all_def case_prod_beta)
  with Cons show ?case by (simp add: cached_ids_def whereabouts_retire)
qed

lemma whereabouts_distinct: "wf_pool p \<Longrightarrow> distinct (whereabouts p)"
  unfolding wf_pool_def using mset_eq_imp_distinct_iff distinct_upt by blast

lemma cached_not_closed: "wf_pool p \<Longrightarrow> set (cached_ids (provider_cache p)) \<inter> set (closed_insts p) = {}"
  using whereabouts_distinct [of p] by (auto simp: whereabouts_def)

lemma whereabouts_set_cache:
  "mset (whereabouts (p\<lparr>provider_cache := c\<rparr>)) + mset (cached_ids (provider_cache p)) =
     mset (whereabouts p) + mset (cached_ids c)"
  by (simp add: whereabouts_def)

lemma wf_delayed_close:
  assumes "wf_pool p"
  shows "wf_pool (delayed_close t p)"
proof -
  have "mset (map (\<lambda>tk. pi_id (fst tk)) tks) = mset (map (\<lambda>tk. pi_id (fst tk)) (filter (\<lambda>tk. t < snd tk) tks)) +
      mset (map (\<lambda>tk. pi_id (fst tk)) (filter (\<lambda>tk. snd tk \<le> t) tks))" for tks :: "(provider_inst \<times> real) list"
    by (induction tks) auto
  from this [of "close_tasks p"] show ?thesis
    using assms unfolding wf_pool_def whereabouts_def delayed_close_def
    by (simp del: mset_map add: ac_simps)
qed

lemma cached_ids_delete:
  "distinct (map fst c) \<Longrightarrow> map_of c k = Some (i, t) \<Longrightarrow>
   mset (cached_ids c) = add_mset (pi_id i) (mset (cached_ids (AList.delete k c)))"
proof (induction c)
  case (Cons e c)
  have "fst e = k \<Longrightarrow> AList.delete k c = c"
    using Cons.prems(1) by (simp add: AList.delete_idem)
  with Cons show ?case by (auto simp: cached_ids_def)
qed simp

lemma cached_ids_update:
  "mset (cached_ids (AList.update k (i, t) c)) + (case map_of c k of None \<Rightarrow> {#} | Some (old, _) \<Rightarrow> {#pi_id old#}) =
     add_mset (pi_id i) (mset (cached_ids c))"
  by (induction c) (auto simp: cached_ids_def split: option.splits)

lemma wf_store_instance:
  assumes "wf_pool p" and "pi_id inst = next_inst p"
  shows "wf_pool (store_instance running now lt key inst p)"
proof -
  define p2 where p2: "p2 = (case map_of (provider_cache p) key of None \<Rightarrow> p\<lparr>next_inst := next_inst p + 1\<rparr>
        | Some (old, _) \<Rightarrow> retire_provider running lt old (p\<lparr>next_inst := next_inst p + 1\<rparr>))"
  have store: "store_instance running now lt key inst p = p2\<lparr>provider_cache := AList.update key (inst, now) (provider_cache p2)\<rparr>"
    by (simp only: store_instance_def p2 Let_def)
  have cache: "provider_cache p2 = provider_cache p" "next_inst p2 = Suc (next_inst p)"
    unfolding p2 by (auto split: option.splits)
  have "mset (whereabouts p2) = mset (whereabouts p) +
      (case map_of (provider_cache p) key of None \<Rightarrow> {#} | Some (old, _) \<Rightarrow> {#pi_id old#})"
  proof (cases "map_of (provider_cache p) key")
    case None
    then show ?thesis unfolding p2 by (simp add: whereabouts_def)
  next
    case (Some a)
    obtain old ct where a: "a = (old, ct)" by (cases a)
    have "pi_id old \<in> set (cached_ids (provider_cache p))"
      using Some a by (force simp: cached_ids_def dest: map_of_SomeD)
    then have "pi_id old \<notin> set (closed_insts p)" using cached_not_closed [OF assms(1)] by blast
    then show ?thesis unfolding p2 using Some a by (simp add: whereabouts_retire) (simp add: whereabouts_def)
  qed
  moreover have "mset (whereabouts (p2\<lparr>provider_cache := AList.update key (inst, now) (provider_cache p2)\<rparr>)) +
      mset (cached_ids (provider_cache p)) =
      mset (whereabouts p2) + mset (cached_ids (AList.update key (inst, now) (provider_cache p)))"
    using whereabouts_set_cache [where p = p2 and c = "AList.update key (inst, now) (provider_cache p2)"] by (simp add: cache)
  ultimately have "mset (whereabouts (p2\<lparr>provider_cache := AList.update key (inst, now) (provider_cache p2)\<rparr>)) +
      mset (cached_ids (provider_cache p)) =
      add_mset (next_inst p) (mset (whereabouts p)) + mset (cached_ids (provider_cache p))"
    using cached_ids_update [of key inst now "provider_cache p"] assms(2)
    by (simp add: ac_simps)
  then have "mset (whereabouts (p2\<lparr>provider_cache := AList.update key (inst, now) (provider_cache p2)\<rparr>)) =
      mset [0..<Suc (next_inst p)]"
    using assms(1) by (simp add: wf_pool_def)
  then show ?thesis unfolding store using assms(1) by (simp add: wf_pool_def cache distinct_update)
qed

lemma get_cached_provider_cases:
  "snd (get_cached_provider running now lt pid pt ak bu ec af px p) = p \<or>
   (\<exists>key m. snd (get_cached_provider running now lt pid pt ak bu ec af px p) =
     snd (create_instance running now lt key ak bu m p))"
  by (auto simp: get_cached_provider_def Let_def split: option.splits)

lemma wf_get_cached_provider:
  assumes "wf_pool p" and "get_cached_provider running now lt pid pt ak bu ec af px p = (r, p')"
  shows "wf_pool p'"
proof -
  have "wf_pool (snd (create_instance running now lt key ak bu m p))" for key m
    using assms(1) by (auto simp: create_instance_def Let_def wf_store_instance split: option.splits)
  then show ?thesis
    using assms get_cached_provider_cases [of running now lt pid pt ak bu ec af px p] by (metis snd_conv)
qed

lemma wf_invalidate_all: "wf_pool p \<Longrightarrow> wf_pool (invalidate_all_providers running t p)"
proof -
  assume wf: "wf_pool p"
  let ?q = "retire_all running t (provider_cache p) p"
  have "mset (whereabouts ?q) = mset (whereabouts p) + mset (cached_ids (provider_cache p))"
    by (rule whereabouts_retire_all) (rule cached_not_closed [OF wf])
  moreover have "mset (whereabouts (?q\<lparr>provider_cache := []\<rparr>)) + mset (cached_ids (provider_cache p)) = mset (whereabouts ?q)"
    using whereabouts_set_cache [where p = "?q" and c = "[]"] by (simp add: cached_ids_def)
  ultimately show ?thesis using wf by (simp add: wf_pool_def invalidate_all_providers_def)
qed

lemma wf_drop_entry:
  assumes "wf_pool p" "map_of (provider_cache p) key = Some (inst, ct)"
  shows "wf_pool (retire_provider running t inst (p\<lparr>provider_cache := AList.delete key (provider_cache p)\<rparr>))"
proof -
  let ?p = "p\<lparr>provider_cache := AList.delete key (provider_cache p)\<rparr>"
  have "pi_id inst \<in> set (cached_ids (provider_cache p))"
    using assms(2) by (force simp: cached_ids_def dest: map_of_SomeD)
  then have "pi_id inst \<notin> set (closed_insts p)" using cached_not_closed [OF assms(1)] by blast
  then have "mset (whereabouts (retire_provider running t inst ?p)) = add_mset (pi_id inst) (mset (whereabouts ?p))"
    by (simp add: whereabouts_retire)
  moreover have "distinct (map fst (provider_cache p))" using assms(1) by (simp add: wf_pool_def)
  ultimately show ?thesis
    using assms whereabouts_set_cache [where p = p and c = "AList.delete key (provider_cache p)"]
      cached_ids_delete [of "provider_cache p" key inst ct]
    by (simp add: wf_pool_def distinct_delete)
qed

lemma wf_invalidate_provider: "wf_pool p \<Longrightarrow> wf_pool (invalidate_provider running t pid p)"
proof -
  assume wf: "wf_pool p"
  let ?f = "\<lambda>(key, inst, _) p. retire_provider running t inst (p\<lparr>provider_cache := AList.delete key (provider_cache p)\<rparr>)"
  have "wf_pool (fold ?f es q)"
    if "wf_pool q" "distinct (map fst es)" "\<forall>e \<in> set es. map_of (provider_cache q) (fst e) = Some (snd e)" for es q
    using that
  proof (induction es arbitrary: q)
    case (Cons e es)
    obtain key inst ct where e: "e = (key, inst, ct)" by (cases e) auto
    have "wf_pool (?f e q)" using Cons.prems e by (auto intro: wf_drop_entry)
    moreover have "provider_cache (?f e q) = AList.delete key (provider_cache q)" by (simp add: e)
    then have "\<forall>e' \<in> set es. map_of (provider_cache (?f e q)) (fst e') = Some (snd e')"
      using Cons.prems(2,3) by (auto simp: e delete_conv image_iff)
    ultimately show ?case using Cons by simp
  qed simp
  moreover have "distinct (map fst (filter (\<lambda>(key, _). fst key = pid) (provider_cache p)))"
    using wf by (simp add: wf_pool_def distinct_map_filter)
  moreover have "\<forall>e \<in> set (filter (\<lambda>(key, _). fst key = pid) (provider_cache p)).
      map_of (provider_cache p) (fst e) = Some (snd e)"
    using wf by (auto simp: wf_pool_def)
  ultimately show ?thesis using wf unfolding invalidate_provider_def by blast
qed

lemma retire_keeps_task:
  "tk \<in> set (close_tasks p) \<Longrightarrow> tk \<in> set (close_tasks (retire_provider running t i p))"
  by (simp add: retire_provider_def)

lemma create_keeps_task:
  "tk \<in> set (close_tasks p) \<Longrightarrow> tk \<in> set (close_tasks (snd (create_instance running now lt key ak bu m p)))"
  by (auto simp: create_instance_def store_instance_def Let_def retire_keeps_task split: option.splits)

lemma invalidate_keeps_task:
  "tk \<in> set (close_tasks p) \<Longrightarrow> tk \<in> set (close_tasks (invalidate_provider running t pid p))"
proof -
  have "tk \<in> set (close_tasks q) \<Longrightarrow> tk \<in> set (close_tasks (fold
      (\<lambda>(key, inst, _) p. retire_provider running t inst (p\<lparr>provider_cache := AList.delete key (provider_cache p)\<rparr>)) es q))" for es q
    by (induction es arbitrary: q) (auto simp: retire_keeps_task)
  then show "tk \<in> set (close_tasks p) \<Longrightarrow> ?thesis" by (simp add: invalidate_provider_def)
qed

lemma invalidate_all_keeps_task:
  "tk \<in> set (close_tasks p) \<Longrightarrow> tk \<in> set (close_tasks (invalidate_all_providers running t p))"
proof -
  have "tk \<in> set (close_tasks q) \<Longrightarrow> tk \<in> set (close_tasks (retire_all running t es q))" for es q
    unfolding retire_all_def by (induction es arbitrary: q) (auto simp: retire_keeps_task)
  then show "tk \<in> set (close_tasks p) \<Longrightarrow> ?thesis" by (simp add: invalidate_all_providers_def)
qed

lemma get_cached_keeps_task:
  "tk \<in> set (close_tasks p) \<Longrightarrow>
   tk \<in> set (close_tasks (snd (get_cached_provider running now lt pid pt ak bu ec af px p)))"
  using get_cached_provider_cases [of running now lt pid pt ak bu ec af px p] by (metis create_keeps_task)

inductive_cases pool_stepE: "pool_step (p, t) (p', t')"

lemma pool_step_keeps_task:
  "pool_step (p, t) (p', t') \<Longrightarrow> tk \<in> set (close_tasks p) \<Longrightarrow> t' < snd tk \<Longrightarrow> tk \<in> set (close_tasks p')"
  by (erule pool_stepE)
    (simp_all add: delayed_close_def invalidate_keeps_task invalidate_all_keeps_task, metis get_cached_keeps_task snd_conv)

lemma pool_step_time: "pool_step (p, t) (p', t') \<Longrightarrow> t \<le> t'"
  by (induction "(p, t)" "(p', t')" rule: pool_step.induct) auto

lemma wf_pool_step: "pool_step (p, t) (p', t') \<Longrightarrow> wf_pool p \<Longrightarrow> wf_pool p'"
  by (induction "(p, t)" "(p', t')" rule: pool_step.induct)
    (auto intro: wf_delayed_close wf_get_cached_provider wf_invalidate_provider wf_invalidate_all)

text \<open>C35: no provider instance leaks. In every pool that lookups, invalidations and the passing of time
  can produce from an empty one, each instance ever constructed is in exactly one place: in the cache, in
  the queue of instances retired outside an event loop, in a task that will close it, or closed; so no
  instance is dropped without a close and none is closed while the cache still hands it out.\<close>

theorem no_provider_instance_is_lost:
  assumes "pool_step\<^sup>*\<^sup>* (empty_pool, t0) (p, t)"
  shows "mset (whereabouts p) = mset [0..<next_inst p] \<and>
    set (cached_ids (provider_cache p)) \<inter> set (closed_insts p) = {}"
proof -
  have "wf_pool (fst (empty_pool, t0))" by (simp add: wf_pool_def whereabouts_def empty_pool_def cached_ids_def)
  with assms have "wf_pool (fst (p, t))"
    by (induction rule: rtranclp_induct) (auto intro: wf_pool_step)
  then show ?thesis using cached_not_closed by (auto simp: wf_pool_def)
qed

theorem no_provider_instance_is_lost_witness:
  "mset (whereabouts (delayed_close 400 (invalidate_all_providers True 0
     (snd (get_cached_provider True 0 0 1 ''openai'' ''k'' ''u'' [] '''' ''''   empty_pool))))) = mset [0..<1]"
proof -
  let ?p1 = "snd (get_cached_provider True 0 0 1 ''openai'' ''k'' ''u'' [] '''' ''''   empty_pool)"
  let ?p3 = "delayed_close 400 (invalidate_all_providers True 0 ?p1)"
  have "pool_step (empty_pool, 0) (?p1, 0)" by (rule step_get) (rule prod.collapse [symmetric])
  moreover have "pool_step (?p1, 0) (invalidate_all_providers True 0 ?p1, 0)" by (rule step_invalidate_all)
  moreover have "pool_step (invalidate_all_providers True 0 ?p1, 0) (?p3, 400)" by (rule step_time) simp
  ultimately have "pool_step\<^sup>*\<^sup>* (empty_pool, 0) (?p3, 400)"
    by (meson converse_rtranclp_into_rtranclp rtranclp.rtrancl_refl)
  moreover have "next_inst ?p3 = 1"
    by (simp add: get_cached_provider_def create_instance_def store_instance_def empty_pool_def provider_type_map_def init_error_def
        delayed_close_def invalidate_all_providers_def Let_def)
  ultimately show ?thesis using no_provider_instance_is_lost [of 0 ?p3 400] by simp
qed

text \<open>The grace period. A provider instance that is waiting to be closed at \<open>due\<close> is still waiting,
  and not closed, at every later state whose clock reads less than \<open>due\<close>; a retirement inside an event
  loop sets \<open>due\<close> to 300 seconds from now. So requests in flight keep their connection pool that long.\<close>

lemma retired_instance_keeps_grace:
  assumes "pi_id i \<notin> set (closed_insts p)" and "wf_pool (retire_provider True t i p)"
    and "pool_step\<^sup>*\<^sup>* (retire_provider True t i p, t) (p', t')" and "t' < t + 300"
  shows "(i, t + 300) \<in> set (close_tasks p') \<and> pi_id i \<notin> set (closed_insts p')"
proof -
  have "wf_pool (fst (p', t')) \<and> (snd (p', t') < t + 300 \<longrightarrow> (i, t + 300) \<in> set (close_tasks (fst (p', t'))))"
    using assms(3)
  proof (induction rule: rtranclp_induct)
    case base
    then show ?case using assms(1,2) by (simp add: retire_provider_def stale_close_grace_def)
  next
    case (step y z)
    then show ?case
      using pool_step_keeps_task [of "fst y" "snd y" "fst z" "snd z" "(i, t + 300)"]
        pool_step_time [of "fst y" "snd y" "fst z" "snd z"] wf_pool_step [of "fst y" "snd y" "fst z" "snd z"] by auto
  qed
  then have wf: "wf_pool p'" and task: "(i, t + 300) \<in> set (close_tasks p')" using assms(4) by auto
  have "pi_id i \<in> set (map (\<lambda>tk. pi_id (fst tk)) (close_tasks p'))" using task by force
  then have "pi_id i \<notin> set (closed_insts p')"
    using whereabouts_distinct [OF wf] by (auto simp: whereabouts_def)
  with task show ?thesis by simp
qed

definition sample_inst :: provider_inst where
  "sample_inst = \<lparr>pi_id = 0, pi_class = OpenAICompatProvider, pi_api_key = ''k'', pi_base_url = ''u'', pi_extra_config = []\<rparr>"

end
