(* ===== verification/Gateway.thy ===== *)
theory Gateway
  imports Context Selection Pool
begin

text \<open>
  The state of the running gateway and the shared helpers of the routing pipeline: \<open>load_endpoints\<close> and
  the provider semaphores of \<open>src/botflow/router.py\<close>, and \<open>src/botflow/pipeline/_shared.py\<close>.

  What lies outside the program is an environment \<open>'w env\<close>, a record of functions on an abstract world
  \<open>'w\<close>: the clocks, the random numbers, sleeping, the upstream calls, the client's connection, the
  tokenizer and \<open>str()\<close> of a JSON value. The clocks are read-only; the world changes where the code
  awaits. An upstream stream answers at its first pull with the finite list of chunks it is going to send
  and the exception it ends with, if any; \<open>e_wait\<close> is the wait for one more chunk. The code runs one
  request at a time: a semaphore keeps its count of free permits and never has to wait.

  A function that can raise returns \<open>'a res\<close> together with the new state.
\<close>

record endpoint =
  ep_detail :: model_detail
  ep_provider :: provider_inst

definition ep_model_id :: "endpoint \<Rightarrow> int" where
  "ep_model_id ep = d_model_id (ep_detail ep)"

definition ep_provider_id :: "endpoint \<Rightarrow> int" where
  "ep_provider_id ep = d_provider_id (ep_detail ep)"

definition ep_cooldown_threshold :: "endpoint \<Rightarrow> int" where
  "ep_cooldown_threshold ep = d_cooldown_failure_threshold (ep_detail ep)"

definition ep_cooldown_seconds :: "endpoint \<Rightarrow> int" where
  "ep_cooldown_seconds ep = d_cooldown_seconds (ep_detail ep)"

definition ep_max_retries :: "endpoint \<Rightarrow> int" where
  "ep_max_retries ep = d_max_retries (ep_detail ep)"

text \<open>The arguments of an upstream call; \<open>JNull\<close> is a temperature of \<open>None\<close>.\<close>

record call_args =
  ca_messages :: "dict list"
  ca_model :: string
  ca_temperature :: json
  ca_max_tokens :: "int option"
  ca_kwargs :: dict

record 'w env =
  e_wall :: "'w \<Rightarrow> real"
  e_mono :: "'w \<Rightarrow> real"
  e_uniform :: "'w uniform"
  e_sleep :: "real \<Rightarrow> 'w \<Rightarrow> 'w"
  e_chat :: "provider_inst \<Rightarrow> call_args \<Rightarrow> 'w \<Rightarrow> dict res \<times> 'w"
  e_stream :: "provider_inst \<Rightarrow> call_args \<Rightarrow> 'w \<Rightarrow> (dict list \<times> exc option) \<times> 'w"
  e_wait :: "'w \<Rightarrow> 'w"
  e_disconnected :: "'w \<Rightarrow> bool \<times> 'w"
  e_encode :: "string \<Rightarrow> nat list"
  e_str :: "json \<Rightarrow> string"
  e_sem_size :: int

record 'w gw =
  gw_cooldown :: cooldown_mgr
  gw_semaphores :: "(int \<times> int option) list"
  gw_pool :: pool
  gw_endpoint_cache :: "(int \<times> (endpoint list \<times> real)) list"
  gw_counters :: "(int \<times> int) list"
  gw_group_cache :: "(int \<times> ((int \<times> model_group) \<times> real)) list"
  gw_db :: db
  gw_world :: 'w

abbreviation wall_now :: "'w env \<Rightarrow> 'w gw \<Rightarrow> real" where
  "wall_now env g \<equiv> e_wall env (gw_world g)"

abbreviation mono_now :: "'w env \<Rightarrow> 'w gw \<Rightarrow> real" where
  "mono_now env g \<equiv> e_mono env (gw_world g)"

subsection \<open>Cached lookups\<close>

text \<open>The look-up that the caches share: an entry younger than the time to live.\<close>

definition ttl_get :: "real \<Rightarrow> real \<Rightarrow> 'k \<Rightarrow> ('k \<times> ('v \<times> real)) list \<Rightarrow> 'v option" where
  "ttl_get ttl now k c =
     (case map_of c k of Some (v, t) \<Rightarrow> if now - t < ttl then Some v else None | None \<Rightarrow> None)"

definition endpoint_cache_ttl :: real where
  "endpoint_cache_ttl = 60"

text \<open>One row of \<open>get_group_models\<close>: its provider is read again and skipped when missing or disabled.\<close>

fun build_endpoints :: "'w env \<Rightarrow> model_detail list \<Rightarrow> 'w gw \<Rightarrow> endpoint list res \<times> 'w gw" where
  "build_endpoints env [] g = (Inr [], g)"
| "build_endpoints env (m # ms) g =
     (case get_provider (d_provider_id m) (gw_db g) of
        None \<Rightarrow> build_endpoints env ms g
      | Some (pid, p) \<Rightarrow>
          if \<not> p_is_enabled p then build_endpoints env ms g
          else
            (case get_cached_provider True (wall_now env g) (mono_now env g) pid (p_provider_type p) (p_api_key p)
                    (p_base_url p) (p_extra_config p) (d_api_format m) (d_proxy m) (gw_pool g) of
               (Inl e, pl) \<Rightarrow> (Inl e, g\<lparr>gw_pool := pl\<rparr>)
             | (Inr inst, pl) \<Rightarrow>
                 (case build_endpoints env ms (g\<lparr>gw_pool := pl\<rparr>) of
                    (Inl e, g') \<Rightarrow> (Inl e, g')
                  | (Inr eps, g') \<Rightarrow> (Inr (\<lparr>ep_detail = m, ep_provider = inst\<rparr> # eps), g'))))"

definition load_endpoints :: "'w env \<Rightarrow> int \<Rightarrow> 'w gw \<Rightarrow> endpoint list res \<times> 'w gw" where
  "load_endpoints env gid g =
     (case ttl_get endpoint_cache_ttl (wall_now env g) gid (gw_endpoint_cache g) of
        Some eps \<Rightarrow> (Inr eps, g)
      | None \<Rightarrow>
          (case get_group_models gid True (gw_db g) of
             Inl e \<Rightarrow> (Inl e, g)
           | Inr ms \<Rightarrow>
               (case build_endpoints env ms g of
                  (Inl e, g') \<Rightarrow> (Inl e, g')
                | (Inr eps, g') \<Rightarrow>
                    (Inr eps, g'\<lparr>gw_endpoint_cache :=
                       AList.update gid (eps, wall_now env g) (gw_endpoint_cache g')\<rparr>))))"

definition invalidate_endpoint_cache :: "int \<Rightarrow> 'w gw \<Rightarrow> 'w gw" where
  "invalidate_endpoint_cache gid g = g\<lparr>gw_endpoint_cache := AList.delete gid (gw_endpoint_cache g)\<rparr>"

text \<open>\<open>invalidate_provider_cache\<close>: one provider, or all of them for \<open>None\<close>.\<close>

definition invalidate_provider_cache :: "'w env \<Rightarrow> int option \<Rightarrow> 'w gw \<Rightarrow> 'w gw" where
  "invalidate_provider_cache env pid g =
     g\<lparr>gw_pool := (case pid of
          None \<Rightarrow> invalidate_all_providers True (mono_now env g) (gw_pool g)
        | Some i \<Rightarrow> invalidate_provider True (mono_now env g) i (gw_pool g))\<rparr>"

definition invalidate_all_caches :: "'w env \<Rightarrow> 'w gw \<Rightarrow> 'w gw" where
  "invalidate_all_caches env g =
     g\<lparr>gw_endpoint_cache := [], gw_pool := invalidate_all_providers True (mono_now env g) (gw_pool g)\<rparr>"

subsection \<open>Semaphores\<close>

text \<open>Whether the provider is limited, and the table afterwards: an entry \<open>None\<close> means unlimited.\<close>

definition ensure_provider_semaphore :: "int \<Rightarrow> int \<Rightarrow> (int \<times> int option) list \<Rightarrow> bool \<times> (int \<times> int option) list" where
  "ensure_provider_semaphore pid permits sems =
     (case map_of sems pid of
        Some (Some _) \<Rightarrow> (True, sems)
      | _ \<Rightarrow> if permits \<le> 0 then (False, AList.update pid None sems)
             else (True, AList.update pid (Some permits) sems))"

definition add_permits :: "int \<Rightarrow> int \<Rightarrow> (int \<times> int option) list \<Rightarrow> (int \<times> int option) list" where
  "add_permits n pid sems = AList.update pid (map_option (\<lambda>k. k + n) (the (map_of sems pid))) sems"

definition acquire :: "bool \<Rightarrow> int \<Rightarrow> 'w gw \<Rightarrow> 'w gw" where
  "acquire limited pid g = (if limited then g\<lparr>gw_semaphores := add_permits (- 1) pid (gw_semaphores g)\<rparr> else g)"

definition release :: "bool \<Rightarrow> int \<Rightarrow> 'w gw \<Rightarrow> 'w gw" where
  "release limited pid g = (if limited then g\<lparr>gw_semaphores := add_permits 1 pid (gw_semaphores g)\<rparr> else g)"

definition ensure_semaphore :: "'w env \<Rightarrow> int \<Rightarrow> 'w gw \<Rightarrow> bool \<times> 'w gw" where
  "ensure_semaphore env pid g =
     (let (limited, sems) = ensure_provider_semaphore pid (e_sem_size env) (gw_semaphores g)
      in (limited, g\<lparr>gw_semaphores := sems\<rparr>))"

subsection \<open>Filtering, parameters and truncation\<close>

definition check_cooldown :: "'w env \<Rightarrow> int \<Rightarrow> 'w gw \<Rightarrow> endpoint \<Rightarrow> bool \<times> 'w gw" where
  "check_cooldown env gid g ep =
     (let (b, m) = is_on_cooldown (mono_now env g) (gw_cooldown g) (gid, ep_model_id ep) in (b, g\<lparr>gw_cooldown := m\<rparr>))"

fun filter_available :: "'w env \<Rightarrow> endpoint list \<Rightarrow> int \<Rightarrow> 'w gw \<Rightarrow> endpoint list \<times> 'w gw" where
  "filter_available env [] gid g = ([], g)"
| "filter_available env (ep # eps) gid g =
     (let (b, g1) = check_cooldown env gid g ep; (av, g2) = filter_available env eps gid g1
      in (if b then av else ep # av, g2))"

text \<open>A key to strip that is not hashable raises a \<open>TypeError\<close>; keys of other types match no name.\<close>

fun strip_key :: "json \<Rightarrow> string list res" where
  "strip_key (JStr s) = Inr [s]"
| "strip_key (JList _) = Inl (raised_by_python TypeErrorExc)"
| "strip_key (JObj _) = Inl (raised_by_python TypeErrorExc)"
| "strip_key _ = Inr []"

definition reasoning_keys :: "string list" where
  "reasoning_keys = [''reasoning_effort'', ''reasoning_content'']"

definition apply_model_extra_config :: "dict \<Rightarrow> dict \<Rightarrow> dict res" where
  "apply_model_extra_config kwargs cfg =
     bindE (case dget cfg ''strip_params'' JNull of JList ks \<Rightarrow> concat_mapE strip_key ks | _ \<Rightarrow> Inr []) (\<lambda>explicit.
     let strip_keys = explicit
           @ (if dget cfg ''reasoning_mode'' JNull = JStr ''off'' then reasoning_keys else [])
           @ (if dget kwargs ''reasoning_mode'' JNull = JStr ''off'' then reasoning_keys else [])
     in Inr (dfilter (\<lambda>k. k \<notin> set strip_keys) kwargs))"

definition truncate_messages ::
    "'w env \<Rightarrow> dict list \<Rightarrow> endpoint list \<Rightarrow> int option \<Rightarrow> dict list res" where
  "truncate_messages env msgs eps max_tokens =
     (case filter (\<lambda>n. n > 0) (map (\<lambda>ep. d_context_window (ep_detail ep)) eps) of
        [] \<Rightarrow> Inr msgs
      | n # ns \<Rightarrow> truncate_to_context_window (e_str env) (e_encode env) msgs (fold min ns n) max_tokens)"

subsection \<open>One endpoint, with retries\<close>

definition on_cooldown_success :: "int \<Rightarrow> endpoint \<Rightarrow> 'w gw \<Rightarrow> 'w gw" where
  "on_cooldown_success gid ep g = g\<lparr>gw_cooldown := record_success gid (ep_model_id ep) (gw_cooldown g)\<rparr>"

definition on_cooldown_failure :: "'w env \<Rightarrow> int \<Rightarrow> endpoint \<Rightarrow> 'w gw \<Rightarrow> 'w gw" where
  "on_cooldown_failure env gid ep g =
     g\<lparr>gw_cooldown := record_failure (mono_now env g) gid (ep_model_id ep) (ep_cooldown_threshold ep)
         (ep_cooldown_seconds ep) (gw_cooldown g)\<rparr>"

definition back_off :: "'w env \<Rightarrow> nat \<Rightarrow> 'w gw \<Rightarrow> 'w gw" where
  "back_off env attempt g =
     g\<lparr>gw_world := exponential_backoff (e_uniform env) (e_sleep env) attempt (gw_world g)\<rparr>"

definition upstream_chat :: "'w env \<Rightarrow> bool \<Rightarrow> endpoint \<Rightarrow> call_args \<Rightarrow> 'w gw \<Rightarrow> dict res \<times> 'w gw" where
  "upstream_chat env limited ep args g =
     (let g1 = acquire limited (ep_provider_id ep) g;
          (r, w) = e_chat env (ep_provider ep) args (gw_world g1)
      in (r, release limited (ep_provider_id ep) (g1\<lparr>gw_world := w\<rparr>)))"

definition routing_info :: "endpoint \<Rightarrow> json" where
  "routing_info ep = JObj [(''model_id'', JInt (ep_model_id ep)), (''provider_id'', JInt (ep_provider_id ep))]"

text \<open>The loop over the attempts, of which \<open>n\<close> are left.\<close>

fun attempt_chat :: "'w env \<Rightarrow> bool \<Rightarrow> endpoint \<Rightarrow> call_args \<Rightarrow> int \<Rightarrow> nat \<Rightarrow> nat \<Rightarrow> exc option \<Rightarrow> 'w gw \<Rightarrow>
    (dict option \<times> exc option) \<times> 'w gw" where
  "attempt_chat env limited ep args gid 0 attempt last_error g = ((None, last_error), g)"
| "attempt_chat env limited ep args gid (Suc n) attempt last_error g =
     (case upstream_chat env limited ep args g of
        (Inr d, g1) \<Rightarrow> ((Some (dset ''_routing'' (routing_info ep) d), None), on_cooldown_success gid ep g1)
      | (Inl e, g1) \<Rightarrow>
          if is_retryable_error e \<and> n > 0
          then attempt_chat env limited ep args gid n (Suc attempt) (Some e) (back_off env attempt g1)
          else ((None, Some e), g1))"

definition call_llm :: "'w env \<Rightarrow> endpoint \<Rightarrow> dict list \<Rightarrow> int \<Rightarrow> json \<Rightarrow> int option \<Rightarrow> dict \<Rightarrow> 'w gw \<Rightarrow>
    (dict option \<times> exc option) res \<times> 'w gw" where
  "call_llm env ep msgs gid temperature max_tokens kwargs g =
     (case apply_model_extra_config kwargs (d_extra_config (ep_detail ep)) of
        Inl e \<Rightarrow> (Inl e, g)
      | Inr kw \<Rightarrow>
          let (limited, g0) = ensure_semaphore env (ep_provider_id ep) g;
              args = \<lparr>ca_messages = msgs, ca_model = d_model_name (ep_detail ep), ca_temperature = temperature,
                      ca_max_tokens = max_tokens, ca_kwargs = kw\<rparr>
          in case attempt_chat env limited ep args gid (nat (ep_max_retries ep)) 0 None g0 of
               ((Some d, err), g1) \<Rightarrow> (Inr (Some d, err), g1)
             | ((None, err), g1) \<Rightarrow> (Inr (None, err), on_cooldown_failure env gid ep g1))"

subsection \<open>What the helpers keep\<close>

text \<open>The free permits of the semaphores, which a call must give back.\<close>

definition permits :: "(int \<times> int option) list \<Rightarrow> int \<Rightarrow> int option" where
  "permits sems pid = (case map_of sems pid of Some (Some n) \<Rightarrow> Some n | _ \<Rightarrow> None)"

lemma permits_add [simp]:
  "map_of sems pid \<noteq> None \<Longrightarrow>
   permits (add_permits n pid sems) pid' = (if pid' = pid then map_option (\<lambda>k. k + n) (permits sems pid) else permits sems pid')"
  by (auto simp: permits_def add_permits_def update_conv split: option.splits)

lemma add_permits_defined [simp]: "map_of (add_permits n pid sems) pid' = None \<longleftrightarrow> pid' \<noteq> pid \<and> map_of sems pid' = None"
  by (simp add: add_permits_def update_conv)

lemma add_permits_defined' [simp]:
  "(\<exists>y. map_of (add_permits n pid sems) pid' = Some y) \<longleftrightarrow> pid' = pid \<or> (\<exists>y. map_of sems pid' = Some y)"
  by (simp add: add_permits_def update_conv)

lemma gw_release [simp]:
  "gw_cooldown (release b pid g) = gw_cooldown g" "gw_world (release b pid g) = gw_world g"
  "gw_pool (release b pid g) = gw_pool g" "gw_db (release b pid g) = gw_db g"
  "gw_endpoint_cache (release b pid g) = gw_endpoint_cache g" "gw_counters (release b pid g) = gw_counters g"
  "gw_group_cache (release b pid g) = gw_group_cache g"
  by (simp_all add: release_def)

lemma gw_acquire [simp]:
  "gw_cooldown (acquire b pid g) = gw_cooldown g" "gw_world (acquire b pid g) = gw_world g"
  "gw_pool (acquire b pid g) = gw_pool g" "gw_db (acquire b pid g) = gw_db g"
  "gw_endpoint_cache (acquire b pid g) = gw_endpoint_cache g" "gw_counters (acquire b pid g) = gw_counters g"
  "gw_group_cache (acquire b pid g) = gw_group_cache g"
  by (simp_all add: acquire_def)

text \<open>The states a routing step may move to: the database, the caches, the counters and the pool stay,
  no permit is lost, and only the cooldowns, the semaphore table and the world change.\<close>

definition same_permits :: "'w gw \<Rightarrow> 'w gw \<Rightarrow> bool" where
  "same_permits g g' \<longleftrightarrow>
     (\<forall>pid n. permits (gw_semaphores g) pid = Some n \<longrightarrow> permits (gw_semaphores g') pid = Some n) \<and>
     (\<forall>pid. map_of (gw_semaphores g) pid \<noteq> None \<longrightarrow> map_of (gw_semaphores g') pid \<noteq> None)"

definition same_tables :: "'w gw \<Rightarrow> 'w gw \<Rightarrow> bool" where
  "same_tables g g' \<longleftrightarrow> gw_pool g' = gw_pool g \<and> gw_db g' = gw_db g \<and> gw_endpoint_cache g' = gw_endpoint_cache g \<and>
     gw_counters g' = gw_counters g \<and> gw_group_cache g' = gw_group_cache g"

definition call_frame :: "'w gw \<Rightarrow> 'w gw \<Rightarrow> bool" where
  "call_frame g g' \<longleftrightarrow> same_permits g g' \<and> same_tables g g'"

lemma call_frame_refl [simp, intro]: "call_frame g g"
  by (simp add: call_frame_def same_permits_def same_tables_def)

lemma call_frame_trans: "call_frame g g' \<Longrightarrow> call_frame g' g'' \<Longrightarrow> call_frame g g''"
  unfolding call_frame_def same_permits_def same_tables_def by fastforce

lemma call_frame_world [simp]: "call_frame g (g'\<lparr>gw_world := w\<rparr>) = call_frame g g'"
  by (simp add: call_frame_def same_permits_def same_tables_def)

lemma call_frame_cooldown [simp]: "call_frame g (g'\<lparr>gw_cooldown := m\<rparr>) = call_frame g g'"
  by (simp add: call_frame_def same_permits_def same_tables_def)

lemma call_frame_success [simp]: "call_frame g (on_cooldown_success gid ep g') = call_frame g g'"
  by (simp add: on_cooldown_success_def)

lemma call_frame_failure [simp]: "call_frame g (on_cooldown_failure env gid ep g') = call_frame g g'"
  by (simp add: on_cooldown_failure_def)

lemma call_frame_back_off [simp]: "call_frame g (back_off env n g') = call_frame g g'"
  by (simp add: back_off_def)

lemma ensure_semaphore_frame:
  "ensure_semaphore env pid g = (limited, g') \<Longrightarrow>
   call_frame g g' \<and> map_of (gw_semaphores g') pid \<noteq> None \<and> gw_world g' = gw_world g \<and> gw_cooldown g' = gw_cooldown g"
  by (auto simp: ensure_semaphore_def ensure_provider_semaphore_def call_frame_def same_permits_def same_tables_def
      permits_def update_conv split: option.splits if_splits)

lemma call_frame_defined: "call_frame g g' \<Longrightarrow> map_of (gw_semaphores g) pid \<noteq> None \<Longrightarrow> map_of (gw_semaphores g') pid \<noteq> None"
  by (simp add: call_frame_def same_permits_def)

lemma release_acquire_frame:
  "map_of (gw_semaphores g) pid \<noteq> None \<Longrightarrow> call_frame g (release b pid ((acquire b pid g)\<lparr>gw_world := w\<rparr>))"
  by (auto simp: call_frame_def same_permits_def same_tables_def acquire_def release_def option.map_comp comp_def)

lemma upstream_chat_frame:
  "map_of (gw_semaphores g) (ep_provider_id ep) \<noteq> None \<Longrightarrow> call_frame g (snd (upstream_chat env b ep args g))"
  by (simp add: upstream_chat_def Let_def case_prod_beta release_acquire_frame)

lemma attempt_chat_frame:
  "map_of (gw_semaphores g) (ep_provider_id ep) \<noteq> None \<Longrightarrow>
   call_frame g (snd (attempt_chat env b ep args gid n k err0 g))"
proof (induction n arbitrary: k err0 g)
  case (Suc n)
  obtain r g1 where up: "upstream_chat env b ep args g = (r, g1)" by (cases "upstream_chat env b ep args g")
  have fr: "call_frame g g1" using upstream_chat_frame [OF Suc.prems, of env b args] by (simp add: up)
  then have "map_of (gw_semaphores g1) (ep_provider_id ep) \<noteq> None" using Suc.prems by (rule call_frame_defined)
  moreover have "gw_semaphores (back_off env k g1) = gw_semaphores g1" by (simp add: back_off_def)
  ultimately have "call_frame (back_off env k g1) (snd (attempt_chat env b ep args gid n (Suc k) (Some e) (back_off env k g1)))" for e
    by (intro Suc.IH) simp
  moreover have "call_frame g (back_off env k g1)" using fr by simp
  ultimately have "call_frame g (snd (attempt_chat env b ep args gid n (Suc k) (Some e) (back_off env k g1)))" for e
    using call_frame_trans by blast
  then show ?case using fr by (auto simp: up split: sum.splits)
qed simp

lemma call_llm_frame:
  "call_frame g (snd (call_llm env ep msgs gid temperature max_tokens kwargs g))"
proof (cases "apply_model_extra_config kwargs (d_extra_config (ep_detail ep))")
  case (Inl e)
  then show ?thesis by (simp add: call_llm_def)
next
  case (Inr kw)
  obtain limited g0 where sem: "ensure_semaphore env (ep_provider_id ep) g = (limited, g0)"
    by (cases "ensure_semaphore env (ep_provider_id ep) g")
  let ?args = "\<lparr>ca_messages = msgs, ca_model = d_model_name (ep_detail ep), ca_temperature = temperature,
                ca_max_tokens = max_tokens, ca_kwargs = kw\<rparr>"
  have "call_frame g0 (snd (attempt_chat env limited ep ?args gid (nat (ep_max_retries ep)) 0 None g0))"
    using ensure_semaphore_frame [OF sem] by (intro attempt_chat_frame) simp
  then have "call_frame g (snd (attempt_chat env limited ep ?args gid (nat (ep_max_retries ep)) 0 None g0))"
    using ensure_semaphore_frame [OF sem] call_frame_trans by blast
  then show ?thesis
    by (auto simp: call_llm_def Inr sem Let_def split: prod.splits option.splits)
qed

text \<open>No permit leaks. Whatever the upstream does (answers, raises, is retried), a call to one endpoint
  gives back every semaphore permit it took and touches neither the database, nor the caches, nor the
  round-robin counters.\<close>

lemma call_llm_returns_permits:
  "call_frame g (snd (call_llm env ep msgs gid temperature max_tokens kwargs g))"
  by (rule call_llm_frame)

subsection \<open>The retry policy\<close>

text \<open>How often the upstream is called: the attempts end at the first answer, at the first error that is
  not retryable, or when \<open>n\<close> calls were made. The specification runs over the list of upstream answers.\<close>

fun retry_outcome :: "exc option \<Rightarrow> dict res list \<Rightarrow> (dict option \<times> exc option) \<times> nat" where
  "retry_outcome err0 [] = ((None, err0), 0)"
| "retry_outcome err0 (Inr d # rs) = ((Some d, None), 1)"
| "retry_outcome err0 (Inl e # rs) =
     (if is_retryable_error e \<and> rs \<noteq> [] then (let (r, k) = retry_outcome (Some e) rs in (r, Suc k))
      else ((None, Some e), 1))"

text \<open>The first \<open>n\<close> answers of an upstream that is called again and again, with the back-off between.\<close>

fun upstream_answers :: "'w env \<Rightarrow> bool \<Rightarrow> endpoint \<Rightarrow> call_args \<Rightarrow> nat \<Rightarrow> nat \<Rightarrow> 'w gw \<Rightarrow> dict res list" where
  "upstream_answers env b ep args 0 k g = []"
| "upstream_answers env b ep args (Suc n) k g =
     (let (r, g1) = upstream_chat env b ep args g in r # upstream_answers env b ep args n (Suc k) (back_off env k g1))"

lemma length_upstream_answers [simp]: "length (upstream_answers env b ep args n k g) = n"
  by (induction n arbitrary: k g) (auto simp: case_prod_beta Let_def)

lemma attempt_chat_outcome:
  "fst (attempt_chat env b ep args gid n k err0 g) =
     (let ((d, err), _) = retry_outcome err0 (upstream_answers env b ep args n k g)
      in (map_option (dset ''_routing'' (routing_info ep)) d, err))"
proof (induction n arbitrary: k err0 g)
  case (Suc n)
  obtain r g1 where up: "upstream_chat env b ep args g = (r, g1)" by (cases "upstream_chat env b ep args g")
  have "upstream_answers env b ep args n (Suc k) (back_off env k g1) \<noteq> [] \<longleftrightarrow> n > 0"
    by (metis length_0_conv length_upstream_answers neq0_conv)
  then show ?case
    using Suc.IH [of "Suc k" _ "back_off env k g1"]
    by (cases r) (auto simp: up Let_def case_prod_beta split: prod.splits)
qed simp

lemma gw_cooldown_upstream [simp]: "gw_cooldown (snd (upstream_chat env b ep args g)) = gw_cooldown g"
  by (simp add: upstream_chat_def Let_def case_prod_beta)

lemma attempt_chat_cooldown:
  "gw_cooldown (snd (attempt_chat env b ep args gid n k err0 g)) =
     (if fst (fst (attempt_chat env b ep args gid n k err0 g)) = None then gw_cooldown g
      else record_success gid (ep_model_id ep) (gw_cooldown g))"
proof (induction n arbitrary: k err0 g)
  case (Suc n)
  obtain r g1 where up: "upstream_chat env b ep args g = (r, g1)" by (cases "upstream_chat env b ep args g")
  have cd: "gw_cooldown g1 = gw_cooldown g" using gw_cooldown_upstream [of env b ep args g] by (simp add: up)
  have "gw_cooldown (back_off env k g1) = gw_cooldown g" using cd by (simp add: back_off_def)
  then show ?case
    using Suc.IH [of "Suc k" _ "back_off env k g1"] cd by (auto simp: up on_cooldown_success_def split: sum.splits)
qed simp

lemma retry_outcome_calls: "snd (retry_outcome err0 rs) \<le> length rs"
  by (induction err0 rs rule: retry_outcome.induct) (auto simp: Let_def case_prod_beta)

text \<open>C6: the call of one endpoint. With the upstream answers \<open>rs\<close> that as many calls as the model's
  \<open>max_retries\<close> would give, the call returns the first answer that follows only retryable errors, with its
  routing entry, and otherwise the first error that is not retryable or else the last one; never more
  than \<open>max_retries\<close> answers count. A success clears the failure count of this model, a failure
  raises it by one, however many attempts it took, and no other model's cooldown entry changes.\<close>

theorem call_llm_spec:
  assumes "apply_model_extra_config kwargs (d_extra_config (ep_detail ep)) = Inr kw"
    and "ensure_semaphore env (ep_provider_id ep) g = (limited, g0)"
    and "args = \<lparr>ca_messages = msgs, ca_model = d_model_name (ep_detail ep), ca_temperature = temperature,
                ca_max_tokens = max_tokens, ca_kwargs = kw\<rparr>"
    and "rs = upstream_answers env limited ep args (nat (ep_max_retries ep)) 0 g0"
    and "retry_outcome None rs = ((d, err), calls)"
  shows "fst (call_llm env ep msgs gid temperature max_tokens kwargs g) =
           Inr (map_option (dset ''_routing'' (routing_info ep)) d, err) \<and>
    calls \<le> nat (ep_max_retries ep) \<and>
    get_failure_count (gw_cooldown (snd (call_llm env ep msgs gid temperature max_tokens kwargs g))) (gid, ep_model_id ep) =
      (if d = None then get_failure_count (gw_cooldown g) (gid, ep_model_id ep) + 1 else 0) \<and>
    (\<forall>key. key \<noteq> (gid, ep_model_id ep) \<longrightarrow>
      map_of (gw_cooldown (snd (call_llm env ep msgs gid temperature max_tokens kwargs g))) key = map_of (gw_cooldown g) key)"
proof -
  let ?r = "attempt_chat env limited ep args gid (nat (ep_max_retries ep)) 0 None g0"
  obtain d' err' g1 where r: "?r = ((d', err'), g1)" by (metis prod.collapse)
  have out: "d' = map_option (dset ''_routing'' (routing_info ep)) d" "err' = err"
    using attempt_chat_outcome [of env limited ep args gid "nat (ep_max_retries ep)" 0 None g0] r assms(4,5)
    by (simp_all add: Let_def)
  have cd: "gw_cooldown g1 = (if d' = None then gw_cooldown g else record_success gid (ep_model_id ep) (gw_cooldown g))"
    using attempt_chat_cooldown [of env limited ep args gid "nat (ep_max_retries ep)" 0 None g0]
      ensure_semaphore_frame [OF assms(2)] by (simp add: r)
  have call: "call_llm env ep msgs gid temperature max_tokens kwargs g =
      (Inr (d', err'), if d' = None then on_cooldown_failure env gid ep g1 else g1)"
    using r by (cases d') (simp_all add: call_llm_def assms(1,2) Let_def flip: assms(3))
  have "calls \<le> nat (ep_max_retries ep)"
    using retry_outcome_calls [of None rs] assms(4,5) by simp
  then show ?thesis
    using out cd by (simp add: call step_simps on_cooldown_failure_def map_of_record_failure map_of_record_success)
qed

definition sample_endpoint :: endpoint where
  "sample_endpoint = \<lparr>ep_detail = (with_weight 7 1)\<lparr>d_max_retries := 3\<rparr>, ep_provider = sample_inst\<rparr>"

text \<open>An upstream that fails with HTTP 503 until the world counts 2; the world counts calls and sleeps.\<close>

definition flaky_env :: "int env" where
  "flaky_env = \<lparr>e_wall = of_int, e_mono = of_int, e_uniform = (\<lambda>a b w. (a, w)), e_sleep = (\<lambda>t w. w + 1),
     e_chat = (\<lambda>inst args w. (if w < 2 then Inl (mk_exc ProviderError ''HTTP 503'') else Inr [(''ok'', JBool True)], w + 1)),
     e_stream = (\<lambda>inst args w. (([], None), w)), e_wait = id, e_disconnected = (\<lambda>w. (False, w)),
     e_encode = (\<lambda>s. []), e_str = (\<lambda>v. []), e_sem_size = 2\<rparr>"

definition empty_gw :: "'w \<Rightarrow> 'w gw" where
  "empty_gw w = \<lparr>gw_cooldown = [], gw_semaphores = [], gw_pool = empty_pool, gw_endpoint_cache = [],
     gw_counters = [], gw_group_cache = [], gw_db = empty_db, gw_world = w\<rparr>"

lemma http_503_retryable: "is_retryable_error (mk_exc ProviderError ''HTTP 503'')"
  by (simp add: is_retryable_error_def http_status_here_def Let_def is_space_def is_digit_def retryable_status_codes_def
      nat_of_digits_def digit_val_def)

theorem call_llm_spec_witness:
  "fst (call_llm flaky_env sample_endpoint [] 1 JNull None [] (empty_gw 0)) =
     Inr (Some [(''ok'', JBool True), (''_routing'', routing_info sample_endpoint)], None)"
proof -
  let ?args = "\<lparr>ca_messages = [], ca_model = d_model_name (ep_detail sample_endpoint), ca_temperature = JNull,
                ca_max_tokens = None, ca_kwargs = []\<rparr>"
  obtain limited g0 where sem: "ensure_semaphore flaky_env (ep_provider_id sample_endpoint) (empty_gw 0) = (limited, g0)"
    by (cases "ensure_semaphore flaky_env (ep_provider_id sample_endpoint) (empty_gw 0)")
  then have g0: "gw_world g0 = 0" using ensure_semaphore_frame [OF sem] by (simp add: empty_gw_def)
  have three: "nat (ep_max_retries sample_endpoint) = Suc (Suc (Suc 0))"
    by (simp add: ep_max_retries_def sample_endpoint_def with_weight_def)
  have out: "retry_outcome None (upstream_answers flaky_env limited sample_endpoint ?args (nat (ep_max_retries sample_endpoint)) 0 g0) =
      ((Some [(''ok'', JBool True)], None), 2)"
    unfolding three
    by (simp add: upstream_chat_def Let_def case_prod_beta g0 flaky_env_def back_off_def exponential_backoff_def
        http_503_retryable)
  have kw: "apply_model_extra_config [] (d_extra_config (ep_detail sample_endpoint)) = Inr []"
    by (simp add: apply_model_extra_config_def sample_endpoint_def with_weight_def dfilter_def)
  show ?thesis
    using call_llm_spec [OF kw sem refl refl out] by (simp add: dset_def)
qed

subsection \<open>Filtering\<close>

text \<open>The filter is the client of the cooldown interface: at one instant it keeps exactly the endpoints
  that are not blocked, in order, whatever entries it resets on the way.\<close>

lemma filter_available_select:
  "filter_available env eps gid g =
     (fst (cooldown.select_free (mono_now env g) (\<lambda>ep. (gid, ep_model_id ep)) eps (gw_cooldown g)),
      g\<lparr>gw_cooldown := snd (cooldown.select_free (mono_now env g) (\<lambda>ep. (gid, ep_model_id ep)) eps (gw_cooldown g))\<rparr>)"
  by (induction eps arbitrary: g) (simp_all add: check_cooldown_def Let_def case_prod_beta)

lemma filter_available_eq:
  "fst (filter_available env eps gid g) =
     filter (\<lambda>ep. \<not> blocked (mono_now env g) (gw_cooldown g) (gid, ep_model_id ep)) eps"
  by (simp add: filter_available_select cooldown.select_free_filter)

lemma filter_available_frame: "call_frame g (snd (filter_available env eps gid g))"
  by (simp add: filter_available_select)

lemma gw_world_filter_available [simp]: "gw_world (snd (filter_available env eps gid g)) = gw_world g"
  by (simp add: filter_available_select)

end
