(* ===== verification/Strategies.thy ===== *)
theory Strategies
  imports Gateway
begin

text \<open>
  The routing strategies of \<open>src/botflow/pipeline/strategies.py\<close> and the strategy base class of
  \<open>src/botflow/pipeline/base.py\<close>.

  A strategy turns the endpoints of a group into a queue, the order in which the engine tries them. The
  registry maps the names the modules register to the strategies; \<open>langgraph\<close> is registered too, but
  its selection always raises.
\<close>

record route_result =
  rr_endpoints :: "endpoint list"
  rr_messages :: "dict list"
  rr_temperature :: json
  rr_max_tokens :: "int option"
  rr_extra_kwargs :: dict

type_synonym 'w select = "dict list \<Rightarrow> int \<Rightarrow> json \<Rightarrow> int option \<Rightarrow> dict \<Rightarrow> 'w gw \<Rightarrow> route_result res \<times> 'w gw"

text \<open>The opening of every strategy: load, filter, and the two errors.\<close>

definition available_endpoints :: "'w env \<Rightarrow> int \<Rightarrow> 'w gw \<Rightarrow> endpoint list res \<times> 'w gw" where
  "available_endpoints env gid g =
     (case load_endpoints env gid g of
        (Inl e, g1) \<Rightarrow> (Inl e, g1)
      | (Inr eps, g1) \<Rightarrow>
          if eps = [] then (Inl (mk_exc NoAvailableModelError (''Group '' @ str_int gid @ '' has no enabled models'')), g1)
          else let (av, g2) = filter_available env eps gid g1 in
            if av = [] then (Inl (mk_exc AllModelsCooldownError (''Group '' @ str_int gid @ '': all models on cooldown'')), g2)
            else (Inr av, g2))"

text \<open>The closing of every strategy: truncate the messages for all available endpoints.\<close>

definition finish_selection :: "'w env \<Rightarrow> dict list \<Rightarrow> endpoint list \<Rightarrow> endpoint list \<Rightarrow> json \<Rightarrow> int option \<Rightarrow> dict \<Rightarrow>
    'w gw \<Rightarrow> route_result res \<times> 'w gw" where
  "finish_selection env msgs available queue temperature max_tokens kwargs g =
     (case truncate_messages env msgs available max_tokens of
        Inl e \<Rightarrow> (Inl e, g)
      | Inr truncated \<Rightarrow>
          (Inr \<lparr>rr_endpoints = queue, rr_messages = truncated, rr_temperature = temperature,
                rr_max_tokens = max_tokens, rr_extra_kwargs = kwargs\<rparr>, g))"

text \<open>\<open>next(ep for ep in available if ep.model_id == i)\<close>, for an \<open>i\<close> that occurs.\<close>

definition endpoint_of :: "endpoint list \<Rightarrow> int \<Rightarrow> endpoint" where
  "endpoint_of available i = hd (filter (\<lambda>ep. ep_model_id ep = i) available)"

definition random_queue :: "'w env \<Rightarrow> endpoint list \<Rightarrow> 'w \<Rightarrow> endpoint list res \<times> 'w" where
  "random_queue env available w =
     (case weighted_random_select (e_uniform env) (map ep_detail available) w of
        (Inl e, w1) \<Rightarrow> (Inl e, w1)
      | (Inr selected, w1) \<Rightarrow>
          let primary = endpoint_of available (d_model_id selected);
              remaining = filter (\<lambda>ep. ep_model_id ep \<noteq> d_model_id selected) available
          in if remaining = [] then (Inr [primary], w1)
             else (case weighted_random_order (e_uniform env) (map ep_detail remaining) w1 of
                     (Inl e, w2) \<Rightarrow> (Inl e, w2)
                   | (Inr ordered_rest, w2) \<Rightarrow>
                       (Inr (primary # map (\<lambda>d. endpoint_of available (d_model_id d)) ordered_rest), w2)))"

definition select_random_weights :: "'w env \<Rightarrow> 'w select" where
  "select_random_weights env msgs gid temperature max_tokens kwargs g =
     (case available_endpoints env gid g of
        (Inl e, g1) \<Rightarrow> (Inl e, g1)
      | (Inr available, g1) \<Rightarrow>
          (case random_queue env available (gw_world g1) of
             (Inl e, w) \<Rightarrow> (Inl e, g1\<lparr>gw_world := w\<rparr>)
           | (Inr queue, w) \<Rightarrow>
               finish_selection env msgs available queue temperature max_tokens kwargs (g1\<lparr>gw_world := w\<rparr>)))"

definition by_weight :: "endpoint list \<Rightarrow> endpoint list" where
  "by_weight eps = sort_key (\<lambda>ep. - d_weight (ep_detail ep)) eps"

text \<open>The index the counter selects among \<open>n\<close> endpoints, and the next value of the counter.\<close>

definition rr_step :: "int \<Rightarrow> int \<Rightarrow> int \<times> int" where
  "rr_step n idx = (idx mod n, (idx + 1) mod (n * 1000))"

definition rotate_to :: "nat \<Rightarrow> endpoint list \<Rightarrow> endpoint list" where
  "rotate_to i eps = eps ! i # map (\<lambda>j. eps ! j) (filter (\<lambda>j. j \<noteq> i) [0..<length eps])"

definition select_round_robin :: "'w env \<Rightarrow> 'w select" where
  "select_round_robin env msgs gid temperature max_tokens kwargs g =
     (case available_endpoints env gid g of
        (Inl e, g1) \<Rightarrow> (Inl e, g1)
      | (Inr av, g1) \<Rightarrow>
          let available = by_weight av;
              idx = (case map_of (gw_counters g1) gid of None \<Rightarrow> 0 | Some c \<Rightarrow> c);
              (selected_idx, counter) = rr_step (int (length available)) idx
          in finish_selection env msgs available (rotate_to (nat selected_idx) available) temperature max_tokens kwargs
               (g1\<lparr>gw_counters := AList.update gid counter (gw_counters g1)\<rparr>))"

definition select_sequential :: "'w env \<Rightarrow> 'w select" where
  "select_sequential env msgs gid temperature max_tokens kwargs g =
     (case available_endpoints env gid g of
        (Inl e, g1) \<Rightarrow> (Inl e, g1)
      | (Inr av, g1) \<Rightarrow>
          finish_selection env msgs (by_weight av) (by_weight av) temperature max_tokens kwargs g1)"

definition select_langgraph :: "'w env \<Rightarrow> 'w select" where
  "select_langgraph env msgs gid temperature max_tokens kwargs g =
     (Inl (mk_exc StrategyError ''LangGraphStrategy overrides execute(); select_endpoints is not used''), g)"

definition strategy_registry :: "'w env \<Rightarrow> (string \<times> 'w select) list" where
  "strategy_registry env =
     [(''random_weights'', select_random_weights env), (''round_robin'', select_round_robin env),
      (''sequential'', select_sequential env), (''langgraph'', select_langgraph env)]"

definition register_strategy :: "string \<Rightarrow> 's \<Rightarrow> (string \<times> 's) list \<Rightarrow> (string \<times> 's) list res" where
  "register_strategy name cls registry =
     (if map_of registry name \<noteq> None
      then Inl (mk_exc ValueErrorExc (''Strategy '' @ [CHR 0x27] @ name @ [CHR 0x27] @ '' already registered''))
      else Inr (registry @ [(name, cls)]))"

text \<open>\<open>BaseStrategy.execute\<close>: the first endpoint of the queue that answers.\<close>

fun execute_queue :: "'w env \<Rightarrow> int \<Rightarrow> route_result \<Rightarrow> endpoint list \<Rightarrow> 'w gw \<Rightarrow> dict res \<times> 'w gw" where
  "execute_queue env gid rr [] g =
     (Inl (mk_exc ProviderError (''All endpoints failed in strategy for group '' @ str_int gid)), g)"
| "execute_queue env gid rr (ep # eps) g =
     (case call_llm env ep (rr_messages rr) gid (rr_temperature rr) (rr_max_tokens rr) (rr_extra_kwargs rr) g of
        (Inl e, g1) \<Rightarrow> (Inl e, g1)
      | (Inr (Some d, _), g1) \<Rightarrow> (Inr d, g1)
      | (Inr (None, _), g1) \<Rightarrow> execute_queue env gid rr eps g1)"

definition execute :: "'w env \<Rightarrow> 'w select \<Rightarrow> dict list \<Rightarrow> int \<Rightarrow> json \<Rightarrow> int option \<Rightarrow> dict \<Rightarrow>
    'w gw \<Rightarrow> dict res \<times> 'w gw" where
  "execute env select msgs gid temperature max_tokens kwargs g =
     (case select msgs gid temperature max_tokens kwargs g of
        (Inl e, g1) \<Rightarrow> (Inl e, g1)
      | (Inr rr, g1) \<Rightarrow> execute_queue env gid rr (rr_endpoints rr) g1)"

end
