(* ===== verification/Engine.thy ===== *)
theory Engine
  imports Strategies
begin

text \<open>
  The routing engine, \<open>src/botflow/pipeline/langgraph_engine.py\<close>: the helpers, the direct (fast) path that
  \<open>run\<close> takes for one group, and the event generator of the streaming mode.

  An asynchronous generator is a value of type \<open>gen\<close>, the point where it is suspended: \<open>gen_next\<close> resumes
  it up to its next \<open>yield\<close> and \<open>gen_close\<close> is \<open>aclose()\<close>. So the polls of the client's connection, the
  waits and the work of the consumer between two events come in the order of the code.
  The result of a chat call keeps the audit trail \<open>_attempts\<close> in a field of its own.
\<close>

subsection \<open>Strategy selection\<close>

definition quote :: "string \<Rightarrow> string" where
  "quote s = [CHR 0x27] @ s @ [CHR 0x27]"

definition build_strategy :: "'w env \<Rightarrow> int \<times> model_group \<Rightarrow> 'w select res" where
  "build_strategy env grp =
     (let strategy_name = (if g_type (snd grp) = [] then ''random_weights'' else g_type (snd grp)) in
      if strategy_name = ''langgraph'' then
        Inl (mk_exc ConfigurationError (''LangGraph strategy is a multi-step workflow and cannot be used '' @
          ''with route()/run(). Use LangGraphStrategy.execute() directly.''))
      else case map_of (strategy_registry env) strategy_name of
             None \<Rightarrow> Inl (mk_exc ConfigurationError (''Unknown strategy: '' @ quote strategy_name @ ''. Available: '' @
                       join '', '' (sort (map fst (strategy_registry env)))))
           | Some select \<Rightarrow> Inr select)"

definition select_for_group :: "'w env \<Rightarrow> int \<times> model_group \<Rightarrow> dict list \<Rightarrow> json \<Rightarrow> int option \<Rightarrow> dict \<Rightarrow> 'w gw \<Rightarrow>
    route_result res \<times> 'w gw" where
  "select_for_group env grp msgs temperature max_tokens extra g =
     (case build_strategy env grp of
        Inl e \<Rightarrow> (Inl e, g)
      | Inr select \<Rightarrow> select msgs (fst grp) temperature max_tokens extra g)"

subsection \<open>Errors\<close>

text \<open>The value the graph leaves in \<open>error\<close>.\<close>

datatype raw_error = NoError | RawExc exc | RawDict dict | RawText string

definition raise_routing_error :: "raw_error \<Rightarrow> exc \<Rightarrow> attempt list option \<Rightarrow> int option \<Rightarrow> int option \<Rightarrow> exc" where
  "raise_routing_error raw default_exc attempts used_model used_provider =
     (let e = (case raw of RawExc x \<Rightarrow> if is_subclass (exc_class x) BotflowError then x else default_exc | _ \<Rightarrow> default_exc);
          e1 = (case attempts of None \<Rightarrow> e | Some as \<Rightarrow> e\<lparr>exc_attempts := Some as\<rparr>)
      in if used_model \<noteq> None \<or> used_provider \<noteq> None
         then e1\<lparr>exc_used_model := used_model, exc_used_provider := used_provider\<rparr> else e1)"

definition error_message :: "(json \<Rightarrow> string) \<Rightarrow> raw_error \<Rightarrow> string" where
  "error_message str_of raw =
     (let msg = (case raw of RawExc x \<Rightarrow> exc_msg x
                 | RawDict d \<Rightarrow> str_of (py_or (dget d ''message'' JNull) (JStr ''''))
                 | RawText s \<Rightarrow> s | NoError \<Rightarrow> '''')
      in if msg = '''' then ''no result'' else msg)"

definition resolve_temperature :: "json \<Rightarrow> endpoint \<Rightarrow> json" where
  "resolve_temperature request_temperature ep =
     (if request_temperature \<noteq> JNull then request_temperature
      else case dget (d_extra_config (ep_detail ep)) ''temperature'' JNull of
             JInt i \<Rightarrow> JFloat (of_int i) | JFloat r \<Rightarrow> JFloat r | _ \<Rightarrow> JNull)"

text \<open>\<open>int((t1 - t0) * 1000)\<close>: truncation towards zero.\<close>

definition millis :: "real \<Rightarrow> real \<Rightarrow> int" where
  "millis t0 t1 = (let x = (t1 - t0) * 1000 in if x \<ge> 0 then \<lfloor>x\<rfloor> else \<lceil>x\<rceil>)"

definition attempt_row :: "int \<Rightarrow> endpoint \<Rightarrow> string \<Rightarrow> nat \<Rightarrow> int \<Rightarrow> string \<Rightarrow> string \<Rightarrow> int \<Rightarrow> attempt" where
  "attempt_row gid ep stage idx no etype emsg ms =
     \<lparr>at_group_id = gid, at_model_id = Some (ep_model_id ep), at_provider_id = Some (ep_provider_id ep),
      at_stage = stage, at_endpoint_idx = int idx, at_attempt_no = no, at_error_type = etype,
      at_error_message = emsg, at_duration_ms = ms\<rparr>"

definition call_attempt_row :: "int \<Rightarrow> endpoint \<Rightarrow> nat \<Rightarrow> exc option \<Rightarrow> int \<Rightarrow> attempt" where
  "call_attempt_row gid ep idx err ms =
     attempt_row gid ep ''call'' idx (ep_max_retries ep)
       (case err of Some e \<Rightarrow> exc_type_name e | None \<Rightarrow> ''UnknownError'')
       (case err of Some e \<Rightarrow> exc_msg e | None \<Rightarrow> ''All retries exhausted'') ms"

subsection \<open>Chat: the fast path\<close>

record chat_result =
  cr_response :: dict
  cr_attempts :: "attempt list"

text \<open>One endpoint of the queue, with the clock read before and after.\<close>

definition timed_call :: "'w env \<Rightarrow> int \<Rightarrow> dict list \<Rightarrow> json \<Rightarrow> int option \<Rightarrow> dict \<Rightarrow> endpoint \<Rightarrow> 'w gw \<Rightarrow>
    ((dict option \<times> exc option) res \<times> int) \<times> 'w gw" where
  "timed_call env gid msgs temperature max_tokens extra ep g =
     (let (r, g1) = call_llm env ep msgs gid (resolve_temperature temperature ep) max_tokens extra g
      in ((r, millis (mono_now env g) (mono_now env g1)), g1))"

definition all_failed_message :: string where
  "all_failed_message = ''All endpoints in group failed''"

fun run_queue_fast :: "'w env \<Rightarrow> int \<Rightarrow> dict list \<Rightarrow> json \<Rightarrow> int option \<Rightarrow> dict \<Rightarrow> nat \<Rightarrow> endpoint list \<Rightarrow> attempt list \<Rightarrow>
    int option \<Rightarrow> int option \<Rightarrow> 'w gw \<Rightarrow> chat_result res \<times> 'w gw" where
  "run_queue_fast env gid msgs temperature max_tokens extra idx [] attempts last_model last_provider g =
     (Inl ((mk_exc ProviderError all_failed_message)\<lparr>exc_attempts := Some attempts, exc_used_model := last_model,
             exc_used_provider := last_provider\<rparr>), g)"
| "run_queue_fast env gid msgs temperature max_tokens extra idx (ep # eps) attempts last_model last_provider g =
     (case timed_call env gid msgs temperature max_tokens extra ep g of
        ((Inl e, _), g1) \<Rightarrow> (Inl e, g1)
      | ((Inr (Some d, _), _), g1) \<Rightarrow> (Inr \<lparr>cr_response = d, cr_attempts = attempts\<rparr>, g1)
      | ((Inr (None, err), ms), g1) \<Rightarrow>
          run_queue_fast env gid msgs temperature max_tokens extra (Suc idx) eps
            (attempts @ [call_attempt_row gid ep idx err ms]) (Some (ep_model_id ep)) (Some (ep_provider_id ep)) g1)"

definition run_one_fast :: "'w env \<Rightarrow> int \<times> model_group \<Rightarrow> json \<Rightarrow> int option \<Rightarrow> dict \<Rightarrow> route_result \<Rightarrow> 'w gw \<Rightarrow>
    chat_result res \<times> 'w gw" where
  "run_one_fast env grp temperature max_tokens extra preselected g =
     run_queue_fast env (fst grp) (rr_messages preselected) temperature max_tokens extra 0
       (rr_endpoints preselected) [] None None g"

subsection \<open>Streaming: the first chunk\<close>

datatype acquired = NoChunk | FirstChunk dict "dict list" "exc option" bool

definition stream_args :: "dict list \<Rightarrow> json \<Rightarrow> int option \<Rightarrow> dict \<Rightarrow> endpoint \<Rightarrow> call_args" where
  "stream_args msgs temperature max_tokens extra ep =
     \<lparr>ca_messages = msgs, ca_model = d_model_name (ep_detail ep), ca_temperature = resolve_temperature temperature ep,
      ca_max_tokens = max_tokens, ca_kwargs = extra\<rparr>"

text \<open>\<open>semaphore_guarded_stream\<close> and the first \<open>__anext__\<close>: a stream that ends or raises at once gives its
  permit back.\<close>

definition open_stream :: "'w env \<Rightarrow> endpoint \<Rightarrow> call_args \<Rightarrow> 'w gw \<Rightarrow> (acquired \<times> exc option) \<times> 'w gw" where
  "open_stream env ep args g =
     (let (limited, g0) = ensure_semaphore env (ep_provider_id ep) g;
          g1 = acquire limited (ep_provider_id ep) g0;
          ((chunks, en), w) = e_stream env (ep_provider ep) args (gw_world g1);
          g2 = g1\<lparr>gw_world := w\<rparr>
      in case chunks of
           c # rest \<Rightarrow> ((FirstChunk c rest en limited, None), g2)
         | [] \<Rightarrow> ((NoChunk, en), release limited (ep_provider_id ep) g2))"

definition stream_row :: "int \<Rightarrow> endpoint \<Rightarrow> nat \<Rightarrow> string \<Rightarrow> string \<Rightarrow> attempt" where
  "stream_row gid ep attempt etype emsg = attempt_row gid ep ''stream'' 0 (int attempt + 1) etype emsg 0"

text \<open>The attempts on one endpoint, of which \<open>n\<close> are left.\<close>

fun first_chunk :: "'w env \<Rightarrow> int \<Rightarrow> endpoint \<Rightarrow> call_args \<Rightarrow> nat \<Rightarrow> nat \<Rightarrow> attempt list \<Rightarrow> 'w gw \<Rightarrow>
    acquired \<times> attempt list \<times> 'w gw" where
  "first_chunk env gid ep args 0 attempt attempts g = (NoChunk, attempts, g)"
| "first_chunk env gid ep args (Suc n) attempt attempts g =
     (case open_stream env ep args g of
        ((FirstChunk c rest en limited, _), g1) \<Rightarrow> (FirstChunk c rest en limited, attempts, g1)
      | ((NoChunk, None), g1) \<Rightarrow>
          (NoChunk, attempts @ [stream_row gid ep attempt ''EmptyStream''
             (d_model_name (ep_detail ep) @ '' returned an empty stream'')], on_cooldown_failure env gid ep g1)
      | ((NoChunk, Some e), g1) \<Rightarrow>
          if is_subclass (exc_class e) TimeoutExc then
            (let attempts1 = attempts @ [stream_row gid ep attempt ''TimeoutError''
                   (d_model_name (ep_detail ep) @ '' timed out waiting for first chunk'')]
             in if n > 0 then first_chunk env gid ep args n (Suc attempt) attempts1 (back_off env attempt g1)
                else (NoChunk, attempts1, g1))
          else
            (let attempts1 = attempts @ [stream_row gid ep attempt (exc_type_name e) (exc_msg e)]
             in if is_retryable_error e \<and> n > 0
                then first_chunk env gid ep args n (Suc attempt) attempts1 (back_off env attempt g1)
                else (NoChunk, attempts1, g1)))"

text \<open>The walk along the queue up to the first endpoint that sends a chunk.\<close>

fun acquire_stream :: "'w env \<Rightarrow> int \<Rightarrow> dict list \<Rightarrow> json \<Rightarrow> int option \<Rightarrow> dict \<Rightarrow> endpoint list \<Rightarrow> attempt list \<Rightarrow>
    int option \<Rightarrow> int option \<Rightarrow> 'w gw \<Rightarrow>
    (endpoint \<times> acquired) option \<times> attempt list \<times> (int option \<times> int option) \<times> 'w gw" where
  "acquire_stream env gid msgs temperature max_tokens extra [] attempts last_model last_provider g =
     (None, attempts, (last_model, last_provider), g)"
| "acquire_stream env gid msgs temperature max_tokens extra (ep # eps) attempts last_model last_provider g =
     (case first_chunk env gid ep (stream_args msgs temperature max_tokens extra ep)
             (nat (max (ep_max_retries ep) 1)) 0 attempts g of
        (NoChunk, attempts1, g1) \<Rightarrow>
          acquire_stream env gid msgs temperature max_tokens extra eps attempts1
            (Some (ep_model_id ep)) (Some (ep_provider_id ep)) g1
      | (got, attempts1, g1) \<Rightarrow> (Some (ep, got), attempts1, (last_model, last_provider), g1))"

subsection \<open>Streaming: the event generator\<close>

text \<open>The final state event: \<open>sf_result\<close> tells whether \<open>result\<close> is set.\<close>

record stream_final =
  sf_result :: bool
  sf_stream_started :: bool
  sf_recoverable :: bool
  sf_used_model :: "int option"
  sf_used_provider :: "int option"
  sf_attempts :: "attempt list"

datatype event = ChunkEv dict | StateEv stream_final

datatype gen =
    GStart int "dict list" json "int option" dict "endpoint list"
  | GStream endpoint "dict list" "exc option" bool "attempt list"
  | GEnd

definition committed :: "bool \<Rightarrow> endpoint \<Rightarrow> attempt list \<Rightarrow> stream_final" where
  "committed ok ep attempts =
     \<lparr>sf_result = ok, sf_stream_started = True, sf_recoverable = False, sf_used_model = Some (ep_model_id ep),
      sf_used_provider = Some (ep_provider_id ep), sf_attempts = attempts\<rparr>"

definition group_failed :: "int option \<times> int option \<Rightarrow> attempt list \<Rightarrow> stream_final" where
  "group_failed last_used attempts =
     \<lparr>sf_result = False, sf_stream_started = False, sf_recoverable = True, sf_used_model = fst last_used,
      sf_used_provider = snd last_used, sf_attempts = attempts\<rparr>"

text \<open>\<open>request is not None and await request.is_disconnected()\<close>. Starlette's poll answers a boolean; one
  that raised inside the generator would be caught there and end it with the state of an answer \<open>gone\<close>. A
  poll of the driver that raises is not modelled.\<close>

definition poll :: "'w env \<Rightarrow> bool \<Rightarrow> 'w gw \<Rightarrow> bool \<times> 'w gw" where
  "poll env has_request g =
     (if has_request then (let (gone, w) = e_disconnected env (gw_world g) in (gone, g\<lparr>gw_world := w\<rparr>)) else (False, g))"

definition wait_chunk :: "'w env \<Rightarrow> 'w gw \<Rightarrow> 'w gw" where
  "wait_chunk env g = g\<lparr>gw_world := e_wait env (gw_world g)\<rparr>"

definition offer_chunk :: "'w env \<Rightarrow> bool \<Rightarrow> endpoint \<Rightarrow> dict \<Rightarrow> dict list \<Rightarrow> exc option \<Rightarrow> bool \<Rightarrow> attempt list \<Rightarrow> 'w gw \<Rightarrow>
    event option \<times> gen \<times> 'w gw" where
  "offer_chunk env has_request ep c rest en limited attempts g =
     (let (gone, g1) = poll env has_request g in
      if gone then (Some (StateEv (committed False ep attempts)), GEnd, release limited (ep_provider_id ep) g1)
      else (Some (ChunkEv c), GStream ep rest en limited attempts, g1))"

fun gen_next :: "'w env \<Rightarrow> bool \<Rightarrow> gen \<Rightarrow> 'w gw \<Rightarrow> event option \<times> gen \<times> 'w gw" where
  "gen_next env has_request GEnd g = (None, GEnd, g)"
| "gen_next env has_request (GStart gid msgs temperature max_tokens extra eps) g =
     (case acquire_stream env gid msgs temperature max_tokens extra eps [] None None g of
        (Some (ep, FirstChunk c rest en limited), attempts, _, g1) \<Rightarrow>
          offer_chunk env has_request ep c rest en limited attempts (on_cooldown_success gid ep g1)
      | (_, attempts, last_used, g1) \<Rightarrow> (Some (StateEv (group_failed last_used attempts)), GEnd, g1))"
| "gen_next env has_request (GStream ep rest en limited attempts) g =
     (let g1 = wait_chunk env g in
      case rest of
        c # cs \<Rightarrow> offer_chunk env has_request ep c cs en limited attempts g1
      | [] \<Rightarrow> (Some (StateEv (committed (en = None) ep attempts)), GEnd, release limited (ep_provider_id ep) g1))"

fun gen_close :: "gen \<Rightarrow> 'w gw \<Rightarrow> 'w gw" where
  "gen_close (GStream ep rest en limited attempts) g = release limited (ep_provider_id ep) g"
| "gen_close _ g = g"

definition run_stream_fast :: "int \<times> model_group \<Rightarrow> json \<Rightarrow> int option \<Rightarrow> dict \<Rightarrow> route_result \<Rightarrow> gen" where
  "run_stream_fast grp temperature max_tokens extra preselected =
     GStart (fst grp) (rr_messages preselected) temperature max_tokens extra (rr_endpoints preselected)"

text \<open>The distance of a generator from its end.\<close>

fun gen_phase :: "gen \<Rightarrow> nat" where
  "gen_phase (GStart _ _ _ _ _ _) = 2" | "gen_phase (GStream _ _ _ _ _) = 1" | "gen_phase GEnd = 0"

fun gen_left :: "gen \<Rightarrow> nat" where
  "gen_left (GStream _ rest _ _ _) = length rest" | "gen_left _ = 0"

lemma gen_next_decreases:
  "gen_next env req gn g = (Some ev, gn1, g1) \<Longrightarrow>
   gen_phase gn1 < gen_phase gn \<or> gen_phase gn1 = gen_phase gn \<and> gen_left gn1 < gen_left gn"
  by (cases gn) (auto simp: offer_chunk_def Let_def split: prod.splits option.splits acquired.splits list.splits if_splits)

subsection \<open>The entry points\<close>

definition run_chat :: "'w env \<Rightarrow> int \<times> model_group \<Rightarrow> dict list \<Rightarrow> json \<Rightarrow> int option \<Rightarrow> dict \<Rightarrow> 'w gw \<Rightarrow>
    chat_result res \<times> 'w gw" where
  "run_chat env grp msgs temperature max_tokens kwargs g =
     (case select_for_group env grp msgs temperature max_tokens kwargs g of
        (Inl e, g1) \<Rightarrow> (Inl e, g1)
      | (Inr preselected, g1) \<Rightarrow> run_one_fast env grp temperature max_tokens kwargs preselected g1)"

definition run_stream :: "'w env \<Rightarrow> int \<times> model_group \<Rightarrow> dict list \<Rightarrow> json \<Rightarrow> int option \<Rightarrow> dict \<Rightarrow> 'w gw \<Rightarrow>
    gen res \<times> 'w gw" where
  "run_stream env grp msgs temperature max_tokens kwargs g =
     (case select_for_group env grp msgs temperature max_tokens kwargs g of
        (Inl e, g1) \<Rightarrow> (Inl e, g1)
      | (Inr preselected, g1) \<Rightarrow> (Inr (run_stream_fast grp temperature max_tokens kwargs preselected), g1))"

definition group_cache_ttl :: real where
  "group_cache_ttl = 60"

definition load_group :: "'w env \<Rightarrow> int \<Rightarrow> 'w gw \<Rightarrow> (int \<times> model_group) res \<times> 'w gw" where
  "load_group env gid g =
     (case ttl_get group_cache_ttl (wall_now env g) gid (gw_group_cache g) of
        Some grp \<Rightarrow> (Inr grp, g)
      | None \<Rightarrow>
          (case get_group gid (gw_db g) of
             None \<Rightarrow> (Inl (mk_exc ConfigurationError (''Group '' @ str_int gid @ '' not found'')), g)
           | Some grp \<Rightarrow>
               (Inr grp, g\<lparr>gw_group_cache := AList.update gid (grp, wall_now env g) (gw_group_cache g)\<rparr>)))"

end
