(* ===== verification/Graph.thy ===== *)
theory Graph
  imports Engine
begin

text \<open>
  The LangGraph path of \<open>src/botflow/pipeline/langgraph_engine.py\<close>: the nodes and edges of the routing
  graph, and \<open>_run_one\<close>, \<open>_run_stream\<close> and \<open>route\<close>, which run it.

  LangGraph itself is a library. Its executor is a parameter \<open>invoke\<close>; what the code relies on is
  the hypothesis \<open>executes_graph\<close>: running from a node runs this node, then goes on at the node the edges
  name, and ends at \<open>END\<close> or when a node raises. A node returns the state with its update merged in.
  \<open>rs_emitted\<close> are the chunks a node handed to the stream writer, which exists in streaming runs only.
\<close>

datatype node = SelectEndpoints | TryCall | TryStream | FinalizeError

datatype node_result = ChatDict dict | StreamOk | ErrorBody string

record route_state =
  rs_messages :: "dict list"
  rs_temperature :: json
  rs_max_tokens :: "int option"
  rs_extra_kwargs :: dict
  rs_group :: "int \<times> model_group"
  rs_stream :: bool
  rs_endpoints :: "endpoint list"
  rs_current_ep_idx :: nat
  rs_truncated :: "dict list"
  rs_attempts :: "attempt list"
  rs_result :: "node_result option"
  rs_recoverable :: "bool option"
  rs_error :: raw_error
  rs_used_model :: "int option"
  rs_used_provider :: "int option"
  rs_stream_started :: bool
  rs_emitted :: "dict list"

subsection \<open>The nodes\<close>

definition recoverable_classes :: "exc_class list" where
  "recoverable_classes = [AllModelsCooldownError, NoAvailableModelError, ProviderError]"

definition select_node :: "'w env \<Rightarrow> route_state \<Rightarrow> 'w gw \<Rightarrow> route_state res \<times> 'w gw" where
  "select_node env s g =
     (if rs_endpoints s \<noteq> [] then (Inr s, g)
      else case select_for_group env (rs_group s) (rs_messages s) (rs_temperature s) (rs_max_tokens s) (rs_extra_kwargs s) g of
             (Inl e, g1) \<Rightarrow>
               (Inr (s\<lparr>rs_error := RawExc e, rs_recoverable := Some (catches recoverable_classes e)\<rparr>), g1)
           | (Inr rr, g1) \<Rightarrow>
               (Inr (s\<lparr>rs_endpoints := rr_endpoints rr, rs_current_ep_idx := 0, rs_truncated := rr_messages rr\<rparr>), g1))"

text \<open>The loop of \<open>try_call\<close> over the endpoints from index \<open>idx\<close> on.\<close>

function call_loop :: "'w env \<Rightarrow> route_state \<Rightarrow> nat \<Rightarrow> attempt list \<Rightarrow> int option \<Rightarrow> int option \<Rightarrow> 'w gw \<Rightarrow>
    route_state res \<times> 'w gw" where
  "call_loop env s idx attempts last_model last_provider g =
     (if idx < length (rs_endpoints s) then
        let ep = rs_endpoints s ! idx; gid = fst (rs_group s) in
        case timed_call env gid (rs_truncated s) (rs_temperature s) (rs_max_tokens s) (rs_extra_kwargs s) ep g of
          ((Inl e, _), g1) \<Rightarrow> (Inl e, g1)
        | ((Inr (Some d, _), _), g1) \<Rightarrow>
            (let routing = (case dget d ''_routing'' (JObj []) of JObj r \<Rightarrow> r | _ \<Rightarrow> []) in
             (Inr (s\<lparr>rs_result := Some (ChatDict d), rs_error := NoError, rs_recoverable := Some False,
                rs_used_model := (case dget routing ''model_id'' JNull of JInt i \<Rightarrow> Some i | _ \<Rightarrow> None),
                rs_used_provider := (case dget routing ''provider_id'' JNull of JInt i \<Rightarrow> Some i | _ \<Rightarrow> None),
                rs_endpoints := [], rs_current_ep_idx := 0, rs_attempts := attempts\<rparr>), g1))
        | ((Inr (None, err), ms), g1) \<Rightarrow>
            call_loop env s (Suc idx) (attempts @ [call_attempt_row gid ep idx err ms])
              (Some (ep_model_id ep)) (Some (ep_provider_id ep)) g1
      else
        (Inr (s\<lparr>rs_endpoints := [], rs_current_ep_idx := 0, rs_attempts := attempts,
            rs_used_model := last_model, rs_used_provider := last_provider,
            rs_error := (if rs_error s \<noteq> NoError then rs_error s else RawText all_failed_message),
            rs_recoverable := (if rs_error s \<noteq> NoError
              then (case rs_recoverable s of None \<Rightarrow> Some True | r \<Rightarrow> r) else Some True)\<rparr>), g))"
  by pat_completeness auto
termination by (relation "measure (\<lambda>(env, s, idx, _). length (rs_endpoints s) - idx)") auto

declare call_loop.simps [simp del]

definition try_call :: "'w env \<Rightarrow> route_state \<Rightarrow> 'w gw \<Rightarrow> route_state res \<times> 'w gw" where
  "try_call env s g =
     call_loop env s (rs_current_ep_idx s) (rs_attempts s) (rs_used_model s) (rs_used_provider s) g"

text \<open>\<open>try_stream\<close> has its own copy of the first-chunk loop, which keeps \<open>last_model_id\<close> and
  \<open>last_provider_id\<close> in every handler. The loop's variables are the attempts and the last endpoint used.\<close>

type_synonym trail = "attempt list \<times> int option \<times> int option"

definition node_stream_failed :: "int \<Rightarrow> endpoint \<Rightarrow> nat \<Rightarrow> string \<Rightarrow> string \<Rightarrow> trail \<Rightarrow> trail" where
  "node_stream_failed gid ep attempt etype emsg tr =
     (fst tr @ [attempt_row gid ep ''stream'' 0 (int attempt + 1) etype emsg 0], Some (ep_model_id ep), Some (ep_provider_id ep))"

text \<open>\<open>for attempt in range(max_retries)\<close>, from \<open>attempt\<close> on.\<close>

function node_first_chunk :: "'w env \<Rightarrow> int \<Rightarrow> endpoint \<Rightarrow> call_args \<Rightarrow> int \<Rightarrow> nat \<Rightarrow> trail \<Rightarrow> 'w gw \<Rightarrow> acquired \<times> trail \<times> 'w gw" where
  "node_first_chunk env gid ep args max_retries attempt tr g =
     (if int attempt < max_retries then
        (case open_stream env ep args g of
           ((FirstChunk c rest en limited, _), g1) \<Rightarrow> (FirstChunk c rest en limited, tr, g1)
         | ((NoChunk, Some e), g1) \<Rightarrow>
             if is_subclass (exc_class e) TimeoutExc then
               (let tr1 = node_stream_failed gid ep attempt ''TimeoutError''
                      (d_model_name (ep_detail ep) @ '' timed out waiting for first chunk'') tr
                in if int attempt < max_retries - 1
                   then node_first_chunk env gid ep args max_retries (Suc attempt) tr1 (back_off env attempt g1)
                   else (NoChunk, tr1, g1))
             else
               (let retryable = is_subclass (exc_class e) TimeoutExc \<or> is_retryable_error e;
                    tr1 = node_stream_failed gid ep attempt (exc_type_name e) (exc_msg e) tr
                in if retryable \<and> int attempt < max_retries - 1
                   then node_first_chunk env gid ep args max_retries (Suc attempt) tr1 (back_off env attempt g1)
                   else (NoChunk, tr1, g1))
         | ((NoChunk, None), g1) \<Rightarrow>
             (NoChunk, node_stream_failed gid ep attempt ''EmptyStream'' (d_model_name (ep_detail ep) @ '' returned an empty stream'') tr,
              on_cooldown_failure env gid ep g1))
      else (NoChunk, tr, g))"
  by pat_completeness auto
termination by (relation "measure (\<lambda>(env, gid, ep, args, m, attempt, tr, g). nat (m - int attempt))") auto

declare node_first_chunk.simps [simp del]

text \<open>The loop over the endpoints, up to the one that sends a chunk.\<close>

fun node_acquire :: "'w env \<Rightarrow> route_state \<Rightarrow> endpoint list \<Rightarrow> trail \<Rightarrow> 'w gw \<Rightarrow>
    (endpoint \<times> dict \<times> dict list \<times> exc option \<times> bool) option \<times> trail \<times> 'w gw" where
  "node_acquire env s [] tr g = (None, tr, g)"
| "node_acquire env s (ep # eps) tr g =
     (case node_first_chunk env (fst (rs_group s)) ep
             \<lparr>ca_messages = rs_truncated s, ca_model = d_model_name (ep_detail ep),
              ca_temperature = resolve_temperature (rs_temperature s) ep, ca_max_tokens = rs_max_tokens s,
              ca_kwargs = rs_extra_kwargs s\<rparr>
             (max (ep_max_retries ep) 1) 0 tr g of
        (FirstChunk c rest en limited, tr1, g1) \<Rightarrow> (Some (ep, c, rest, en, limited), tr1, g1)
      | (NoChunk, tr1, g1) \<Rightarrow> node_acquire env s eps tr1 g1)"

text \<open>The chunks of an open stream, pushed to the writer one by one: what was emitted, and whether the
  stream ended by itself.\<close>

fun push_chunks :: "'w env \<Rightarrow> bool \<Rightarrow> endpoint \<Rightarrow> dict list \<Rightarrow> exc option \<Rightarrow> bool \<Rightarrow> dict list \<Rightarrow> 'w gw \<Rightarrow>
    (dict list \<times> bool) \<times> 'w gw" where
  "push_chunks env has_request ep [] en limited emitted g =
     ((emitted, en = None), release limited (ep_provider_id ep) g)"
| "push_chunks env has_request ep (c # cs) en limited emitted g =
     (let (gone, g1) = poll env has_request g in
      if gone then ((emitted, False), release limited (ep_provider_id ep) g1)
      else push_chunks env has_request ep cs en limited (emitted @ [c]) (wait_chunk env g1))"

definition try_stream :: "'w env \<Rightarrow> bool \<Rightarrow> bool \<Rightarrow> route_state \<Rightarrow> 'w gw \<Rightarrow> route_state res \<times> 'w gw" where
  "try_stream env has_request has_writer s g =
     (case node_acquire env s (rs_endpoints s) (rs_attempts s, rs_used_model s, rs_used_provider s) g of
        (Some (ep, c, rest, en, limited), (attempts, _), g1) \<Rightarrow>
          (let ((emitted, ok), g2) = push_chunks env has_request ep (c # rest) en limited []
                 (on_cooldown_success (fst (rs_group s)) ep g1)
           in (Inr (s\<lparr>rs_result := (if ok then Some StreamOk else rs_result s), rs_stream_started := True,
                 rs_recoverable := Some False, rs_used_model := Some (ep_model_id ep),
                 rs_used_provider := Some (ep_provider_id ep), rs_attempts := attempts, rs_endpoints := [],
                 rs_current_ep_idx := 0, rs_emitted := (if has_writer then emitted else [])\<rparr>), g2))
      | (None, (attempts, lm, lp), g1) \<Rightarrow>
          (Inr (s\<lparr>rs_endpoints := [], rs_current_ep_idx := 0, rs_attempts := attempts, rs_used_model := lm,
             rs_used_provider := lp,
             rs_recoverable := (case rs_recoverable s of None \<Rightarrow> Some True | r \<Rightarrow> r)\<rparr>), g1))"

definition finalize_error :: "(json \<Rightarrow> string) \<Rightarrow> route_state \<Rightarrow> route_state" where
  "finalize_error str_of s =
     (let msg = (case rs_error s of RawExc e \<Rightarrow> exc_msg e
                 | RawDict d \<Rightarrow> str_of (dget d ''message'' (JStr ''Routing failed''))
                 | RawText t \<Rightarrow> if t = '''' then ''Routing failed'' else t
                 | NoError \<Rightarrow> ''Routing failed'')
      in s\<lparr>rs_result := Some (ErrorBody msg)\<rparr>)"

subsection \<open>The edges\<close>

fun next_node :: "node \<Rightarrow> route_state \<Rightarrow> node option" where
  "next_node SelectEndpoints s =
     Some (if rs_error s \<noteq> NoError then FinalizeError else if rs_stream s then TryStream else TryCall)"
| "next_node TryCall s = (if rs_result s \<noteq> None then None else Some FinalizeError)"
| "next_node TryStream s = None"
| "next_node FinalizeError s = None"

definition run_node :: "'w env \<Rightarrow> bool \<Rightarrow> bool \<Rightarrow> node \<Rightarrow> route_state \<Rightarrow> 'w gw \<Rightarrow> route_state res \<times> 'w gw" where
  "run_node env has_request has_writer n s g =
     (case n of SelectEndpoints \<Rightarrow> select_node env s g
      | TryCall \<Rightarrow> try_call env s g
      | TryStream \<Rightarrow> try_stream env has_request has_writer s g
      | FinalizeError \<Rightarrow> (Inr (finalize_error (e_str env) s), g))"

type_synonym 'w executor = "bool \<Rightarrow> bool \<Rightarrow> node \<Rightarrow> route_state \<Rightarrow> 'w gw \<Rightarrow> route_state res \<times> 'w gw"

text \<open>What LangGraph documents of a compiled graph.\<close>

definition executes_graph :: "'w env \<Rightarrow> 'w executor \<Rightarrow> bool" where
  "executes_graph env invoke \<longleftrightarrow>
     (\<forall>req wr n s g. invoke req wr n s g =
        (case run_node env req wr n s g of
           (Inl e, g1) \<Rightarrow> (Inl e, g1)
         | (Inr s1, g1) \<Rightarrow> (case next_node n s1 of None \<Rightarrow> (Inr s1, g1) | Some n1 \<Rightarrow> invoke req wr n1 s1 g1)))"

subsection \<open>Running the graph\<close>

definition initial_state :: "int \<times> model_group \<Rightarrow> dict list \<Rightarrow> bool \<Rightarrow> json \<Rightarrow> int option \<Rightarrow> dict \<Rightarrow>
    route_result option \<Rightarrow> route_state" where
  "initial_state grp msgs stream temperature max_tokens extra preselected =
     \<lparr>rs_messages = msgs, rs_temperature = temperature, rs_max_tokens = max_tokens, rs_extra_kwargs = extra,
      rs_group = grp, rs_stream = stream,
      rs_endpoints = (case preselected of Some rr \<Rightarrow> rr_endpoints rr | None \<Rightarrow> []), rs_current_ep_idx = 0,
      rs_truncated = (case preselected of Some rr \<Rightarrow> rr_messages rr | None \<Rightarrow> []), rs_attempts = [],
      rs_result = None, rs_recoverable = None, rs_error = NoError, rs_used_model = None, rs_used_provider = None,
      rs_stream_started = False, rs_emitted = []\<rparr>"

text \<open>\<open>dict(final["result"])\<close>, for the three shapes of a result.\<close>

definition result_dict :: "node_result \<Rightarrow> dict" where
  "result_dict r = (case r of ChatDict d \<Rightarrow> d | StreamOk \<Rightarrow> [(''stream'', JStr ''ok'')]
     | ErrorBody m \<Rightarrow> [(''error'', JObj [(''message'', JStr m), (''type'', JStr ''server_error'')])])"

definition final_error :: "(json \<Rightarrow> string) \<Rightarrow> route_state \<Rightarrow> exc" where
  "final_error str_of s =
     raise_routing_error (rs_error s) (mk_exc ProviderError (error_message str_of (rs_error s)))
       (Some (rs_attempts s)) (rs_used_model s) (rs_used_provider s)"

definition run_one :: "'w env \<Rightarrow> 'w executor \<Rightarrow> int \<times> model_group \<Rightarrow> dict list \<Rightarrow> json \<Rightarrow> int option \<Rightarrow> bool \<Rightarrow> dict \<Rightarrow>
    route_result option \<Rightarrow> 'w gw \<Rightarrow> chat_result res \<times> 'w gw" where
  "run_one env invoke grp msgs temperature max_tokens has_request extra preselected g =
     (case invoke has_request False SelectEndpoints
             (initial_state grp msgs False temperature max_tokens extra preselected) g of
        (Inl e, g1) \<Rightarrow> (Inl e, g1)
      | (Inr final, g1) \<Rightarrow>
          (case (rs_error final, rs_result final) of
             (NoError, Some r) \<Rightarrow> (Inr \<lparr>cr_response = result_dict r, cr_attempts = rs_attempts final\<rparr>, g1)
           | _ \<Rightarrow> (Inl (final_error (e_str env) final), g1)))"

text \<open>The events of \<open>_run_stream\<close>, in order, and the error it raises instead of the last one.\<close>

definition final_of :: "route_state \<Rightarrow> stream_final" where
  "final_of s = \<lparr>sf_result = (rs_result s \<noteq> None), sf_stream_started = rs_stream_started s,
     sf_recoverable = (rs_recoverable s = Some True), sf_used_model = rs_used_model s,
     sf_used_provider = rs_used_provider s, sf_attempts = rs_attempts s\<rparr>"

definition run_stream_graph :: "'w env \<Rightarrow> 'w executor \<Rightarrow> int \<times> model_group \<Rightarrow> dict list \<Rightarrow> json \<Rightarrow> int option \<Rightarrow> bool \<Rightarrow>
    dict \<Rightarrow> route_result option \<Rightarrow> 'w gw \<Rightarrow> (event list \<times> exc option) \<times> 'w gw" where
  "run_stream_graph env invoke grp msgs temperature max_tokens has_request extra preselected g =
     (case invoke has_request True SelectEndpoints
             (initial_state grp msgs True temperature max_tokens extra preselected) g of
        (Inl e, g1) \<Rightarrow> (([], Some e), g1)
      | (Inr final, g1) \<Rightarrow>
          if rs_error final \<noteq> NoError
          then ((map ChunkEv (rs_emitted final), Some (final_error (e_str env) final)), g1)
          else ((map ChunkEv (rs_emitted final) @ [StateEv (final_of final)], None), g1))"

subsection \<open>The legacy entry\<close>

text \<open>\<open>route\<close>: the group fallback loop. \<open>fuel\<close> bounds the number of groups tried; the loop leaves at the
  third.\<close>

fun route_loop :: "nat \<Rightarrow> 'w env \<Rightarrow> 'w executor \<Rightarrow> int \<times> model_group \<Rightarrow> int list \<Rightarrow> dict list \<Rightarrow> json \<Rightarrow> int option \<Rightarrow> dict \<Rightarrow>
    'w gw \<Rightarrow> (chat_result res \<times> 'w gw) option" where
  "route_loop 0 env invoke primary visited msgs temperature max_tokens kwargs g = None"
| "route_loop (Suc fuel) env invoke primary visited msgs temperature max_tokens kwargs g =
     (case run_one env invoke primary msgs temperature max_tokens False kwargs None g of
        (Inr r, g1) \<Rightarrow> Some (Inr r, g1)
      | (Inl e, g1) \<Rightarrow>
          if \<not> catches recoverable_classes e then Some (Inl e, g1)
          else case g_fallback_group_id (snd primary) of
                 None \<Rightarrow> Some (Inl e, g1)
               | Some fb \<Rightarrow>
                   if fb \<in> set visited then Some (Inl (mk_exc ProviderError ''No fallback group available''), g1)
                   else if length visited \<ge> 3 then Some (Inl (mk_exc ProviderError ''Fallback chain too deep''), g1)
                   else (case load_group env fb g1 of
                           (Inl e2, g2) \<Rightarrow> Some (Inl e2, g2)
                         | (Inr grp, g2) \<Rightarrow>
                             route_loop fuel env invoke grp (List.insert (fst grp) visited) msgs temperature max_tokens kwargs g2))"

definition route :: "'w env \<Rightarrow> 'w executor \<Rightarrow> int \<times> model_group \<Rightarrow> dict list \<Rightarrow> json \<Rightarrow> int option \<Rightarrow> dict \<Rightarrow> 'w gw \<Rightarrow>
    (chat_result res \<times> 'w gw) option" where
  "route env invoke grp msgs temperature max_tokens kwargs g =
     route_loop 3 env invoke grp [fst grp] msgs temperature max_tokens kwargs g"

end
