(* ===== verification/Store_Facts.thy ===== *)
theory Store_Facts
  imports Store
begin

text \<open>
  What the storage layer promises: the constraints of the schema hold after any sequence of its
  operations; the members of a group come sorted and without duplicates; an upsert touches one model;
  cooldown rows survive the round trip through their text form.
\<close>

subsection \<open>The schema invariant\<close>

definition wf_db :: "db \<Rightarrow> bool" where
  "wf_db db \<longleftrightarrow>
     wf_table (providers db) \<and> wf_table (models db) \<and> wf_table (model_groups db) \<and> wf_table (group_models db) \<and>
     unique_on p_name (providers db) \<and> unique_on g_name (model_groups db) \<and>
     models_ok db \<and> group_models_ok db"

inductive db_step :: "db \<Rightarrow> db \<Rightarrow> bool" where
  step_clock: "db_step db (db\<lparr>sql_now := t\<rparr>)"
| step_config: "db_step db (set_config now k v db)"
| step_cleanup: "db_step db (snd (cleanup_config_by_prefix time pat older db))"
| step_clear: "db_step db (clear_cooldown_states db)"
| step_create_provider: "create_provider p db = Inr (i, db') \<Longrightarrow> db_step db db'"
| step_update_provider: "update_provider pid pus db = Inr db' \<Longrightarrow> db_step db db'"
| step_delete_provider: "db_step db (snd (delete_provider pid db))"
| step_create_model: "create_model m db = Inr (i, db') \<Longrightarrow> db_step db db'"
| step_update_model: "update_model mid mus db = Inr db' \<Longrightarrow> db_step db db'"
| step_upsert_model: "upsert_model m db = Inr (i, db') \<Longrightarrow> db_step db db'"
| step_delete_model: "db_step db (snd (delete_model mid db))"
| step_create_group: "create_group g db = Inr (i, db') \<Longrightarrow> db_step db db'"
| step_update_group: "update_group gid gus db = Inr db' \<Longrightarrow> db_step db db'"
| step_delete_group: "db_step db (snd (delete_group gid db))"
| step_add_member: "add_model_to_group gid mid w db = Inr (i, db') \<Longrightarrow> db_step db db'"
| step_remove_member: "db_step db (remove_model_from_group gid mid db)"
| step_weight: "db_step db (update_model_weight gid mid w db)"

text \<open>The ids of a table, and the list of one column.\<close>

definition ids :: "'r table \<Rightarrow> int set" where
  "ids t = fst ` set (rows t)"

definition column :: "('r \<Rightarrow> 'k) \<Rightarrow> 'r table \<Rightarrow> 'k list" where
  "column k t = map (\<lambda>ir. k (snd ir)) (rows t)"

lemma lookup_neq_None: "lookup_row t i \<noteq> None \<longleftrightarrow> i \<in> ids t"
  by (simp add: lookup_row_def map_of_eq_None_iff ids_def)

lemma unique_on_column: "unique_on k t = distinct (column k t)"
  by (simp add: unique_on_def column_def)

lemma ids_insert_row [simp]: "ids (snd (insert_row r t)) = insert (seq t + 1) (ids t)"
  by (auto simp: ids_def)

lemma ids_update_rows [simp]: "ids (update_rows p f t) = ids t"
  by (metis ids_def list.set_map map_fst_update_rows)

lemma ids_delete_rows: "i \<in> ids (delete_rows p t) \<longleftrightarrow> (\<exists>r. (i, r) \<in> set (rows t) \<and> \<not> p (i, r))"
  by (force simp: ids_def)

lemma ids_delete_id [simp]: "ids (delete_rows (\<lambda>ir. fst ir = i) t) = ids t - {i}"
  by (auto simp: ids_def)

lemma provider_in_ids: "models_ok db \<Longrightarrow> im \<in> set (rows (models db)) \<Longrightarrow> m_provider_id (snd im) \<in> ids (providers db)"
  unfolding models_ok_def lookup_neq_None by blast

lemma column_update_rows [simp]:
  "(\<And>ir. p ir \<Longrightarrow> k (f (snd ir)) = k (snd ir)) \<Longrightarrow> column k (update_rows p f t) = column k t"
  by (simp add: column_def update_rows_def)

lemma distinct_column_delete_rows [simp]: "distinct (column k t) \<Longrightarrow> distinct (column k (delete_rows p t))"
  by (simp add: column_def delete_rows_def distinct_map_filter)

lemma column_delete_rows_subset: "set (column k (delete_rows p t)) \<subseteq> set (column k t)"
  by (auto simp: column_def)

lemma models_ok_column: "models_ok db \<longleftrightarrow>
     distinct (column (\<lambda>m. (m_name m, m_provider_id m)) (models db)) \<and>
     set (column m_provider_id (models db)) \<subseteq> ids (providers db)"
  by (simp only: models_ok_def lookup_neq_None unique_on_column) (auto simp: column_def)

lemma group_models_ok_column: "group_models_ok db \<longleftrightarrow>
     distinct (column (\<lambda>gm. (gm_group_id gm, gm_model_id gm)) (group_models db)) \<and>
     set (column gm_group_id (group_models db)) \<subseteq> ids (model_groups db) \<and>
     set (column gm_model_id (group_models db)) \<subseteq> ids (models db)"
  by (simp only: group_models_ok_def lookup_neq_None unique_on_column) (auto simp: column_def)

lemma wf_clock [simp]: "wf_db (db\<lparr>sql_now := t\<rparr>) = wf_db db"
  by (simp add: wf_db_def models_ok_column group_models_ok_column)

lemma wf_config [simp]: "wf_db (db\<lparr>config := c\<rparr>) = wf_db db"
  by (simp add: wf_db_def models_ok_column group_models_ok_column)

lemma wf_create_provider: "wf_db db \<Longrightarrow> create_provider p db = Inr (i, db') \<Longrightarrow> wf_db db'"
  by (auto simp: wf_db_def models_ok_column group_models_ok_column create_provider_def case_prod_beta)

lemma wf_update_provider: "wf_db db \<Longrightarrow> update_provider pid us db = Inr db' \<Longrightarrow> wf_db db'"
  by (auto simp: wf_db_def models_ok_column group_models_ok_column update_provider_def Let_def split: option.splits)

lemma group_models_after_delete_models:
  assumes "set (column gm_model_id (group_models db)) \<subseteq> ids (models db)"
  shows "set (column gm_model_id (group_models (delete_models_where p db))) \<subseteq> ids (models (delete_models_where p db))"
proof
  fix i
  assume "i \<in> set (column gm_model_id (group_models (delete_models_where p db)))"
  then obtain gm where gm: "gm \<in> set (rows (group_models db))" "gm_model_id (snd gm) = i"
      "\<not> (\<exists>m \<in> set (rows (models db)). p m \<and> fst m = i)"
    by (auto simp: column_def delete_models_where_def)
  then have "i \<in> ids (models db)" using assms by (auto simp: column_def)
  then obtain r where "(i, r) \<in> set (rows (models db))" by (auto simp: ids_def)
  with gm show "i \<in> ids (models (delete_models_where p db))"
    by (auto simp: delete_models_where_def ids_delete_rows)
qed

lemma wf_delete_models_where:
  assumes "wf_db db" "\<And>im. im \<in> set (rows (models db)) \<Longrightarrow> \<not> p im \<Longrightarrow> m_provider_id (snd im) \<in> ids t"
    and "wf_table t" "unique_on p_name t"
  shows "wf_db (delete_models_where p (db\<lparr>providers := t\<rparr>))"
proof -
  let ?db = "delete_models_where p (db\<lparr>providers := t\<rparr>)"
  have "set (column gm_model_id (group_models ?db)) \<subseteq> ids (models ?db)"
    by (rule group_models_after_delete_models) (use assms in \<open>simp add: wf_db_def group_models_ok_column\<close>)
  moreover have "set (column m_provider_id (models ?db)) \<subseteq> ids (providers ?db)"
    using assms(2) by (auto simp: column_def delete_models_where_def)
  moreover have "set (column gm_group_id (group_models ?db)) \<subseteq> ids (model_groups ?db)"
    using assms(1) column_delete_rows_subset
    by (fastforce simp: wf_db_def group_models_ok_column delete_models_where_def)
  ultimately show ?thesis
    using assms by (simp add: wf_db_def models_ok_column group_models_ok_column) (simp add: delete_models_where_def)
qed

lemma wf_delete_provider: "wf_db db \<Longrightarrow> wf_db (snd (delete_provider pid db))"
  unfolding delete_provider_def snd_conv
  by (rule wf_delete_models_where)
    (auto simp: wf_db_def dest: provider_in_ids)

lemma wf_delete_model: "wf_db db \<Longrightarrow> wf_db (snd (delete_model mid db))"
  using wf_delete_models_where [of db "\<lambda>m. fst m = mid" "providers db"]
  by (auto simp: delete_model_def wf_db_def models_ok_column column_def)

lemma wf_create_model: "wf_db db \<Longrightarrow> create_model m db = Inr (i, db') \<Longrightarrow> wf_db db'"
  by (auto simp: wf_db_def create_model_def case_prod_beta Let_def group_models_ok_column)

lemma wf_update_model: "wf_db db \<Longrightarrow> update_model mid us db = Inr db' \<Longrightarrow> wf_db db'"
  by (auto simp: wf_db_def update_model_def Let_def group_models_ok_column split: option.splits)

lemma wf_upsert_model: "wf_db db \<Longrightarrow> upsert_model m db = Inr (i, db') \<Longrightarrow> wf_db db'"
  by (auto simp: upsert_model_def wf_db_def models_ok_column group_models_ok_column split: option.splits
      dest: wf_create_model [unfolded wf_db_def models_ok_column group_models_ok_column, rotated])

lemma wf_create_group: "wf_db db \<Longrightarrow> create_group g db = Inr (i, db') \<Longrightarrow> wf_db db'"
  by (auto simp: wf_db_def models_ok_column group_models_ok_column create_group_def case_prod_beta)

lemma wf_update_group: "wf_db db \<Longrightarrow> update_group gid us db = Inr db' \<Longrightarrow> wf_db db'"
  by (auto simp: wf_db_def models_ok_column group_models_ok_column update_group_def Let_def split: option.splits)

lemma wf_delete_group: "wf_db db \<Longrightarrow> wf_db (snd (delete_group gid db))"
proof -
  assume wf: "wf_db db"
  let ?db = "snd (delete_group gid db)"
  have "set (column gm_group_id (group_models ?db)) \<subseteq> ids (model_groups ?db)"
    using wf by (force simp: wf_db_def group_models_ok_column delete_group_def column_def ids_delete_rows ids_def)
  moreover have "set (column gm_model_id (group_models ?db)) \<subseteq> ids (models ?db)"
    using wf column_delete_rows_subset by (fastforce simp: wf_db_def group_models_ok_column delete_group_def)
  ultimately show ?thesis
    using wf by (simp add: wf_db_def models_ok_column group_models_ok_column unique_on_column)
      (simp add: delete_group_def)
qed

lemma wf_add_member: "wf_db db \<Longrightarrow> add_model_to_group gid mid w db = Inr (i, db') \<Longrightarrow> wf_db db'"
  by (auto simp: wf_db_def add_model_to_group_def case_prod_beta Let_def models_ok_column)

lemma wf_remove_member: "wf_db db \<Longrightarrow> wf_db (remove_model_from_group gid mid db)"
  using column_delete_rows_subset
  by (fastforce simp: wf_db_def models_ok_column group_models_ok_column remove_model_from_group_def)

lemma wf_weight: "wf_db db \<Longrightarrow> wf_db (update_model_weight gid mid w db)"
  by (simp add: wf_db_def models_ok_column group_models_ok_column update_model_weight_def)

lemma wf_db_step: "db_step db db' \<Longrightarrow> wf_db db \<Longrightarrow> wf_db db'"
  by (induction rule: db_step.induct)
    (auto simp: set_config_def cleanup_config_by_prefix_def clear_cooldown_states_def Let_def
      intro: wf_create_provider wf_update_provider wf_delete_provider wf_create_model wf_update_model
        wf_upsert_model wf_delete_model wf_create_group wf_update_group wf_delete_group wf_add_member
        wf_remove_member wf_weight)

lemma wf_empty_db [simp]: "wf_db empty_db"
  by (simp add: wf_db_def models_ok_column group_models_ok_column empty_db_def unique_on_column)
    (simp add: empty_table_def column_def)

definition sample_provider :: provider where
  "sample_provider = \<lparr>p_name = ''p'', p_provider_type = ''openai'', p_api_key = '''', p_base_url = '''',
     p_extra_config = [], p_is_enabled = True, p_created_at = 0, p_updated_at = 0\<rparr>"

definition sample_model :: "string \<Rightarrow> model" where
  "sample_model n = \<lparr>m_name = n, m_provider_id = 1, m_display_name = '''', m_api_format = '''', m_max_retries = 3,
     m_cooldown_seconds = 60, m_cooldown_failure_threshold = 3, m_extra_config = [], m_is_enabled = True,
     m_context_window = 0, m_created_at = 0, m_updated_at = 0\<rparr>"

definition sample_group :: model_group where
  "sample_group = \<lparr>g_name = ''g'', g_description = '''', g_type = ''sequential'', g_params = [],
     g_is_enabled = True, g_fallback_group_id = Some 7, g_created_at = 0, g_updated_at = 0\<rparr>"

text \<open>A provider, two of its models and a group that holds them with weights 1 and 2.\<close>

definition sample_db :: db where
  "sample_db = empty_db\<lparr>
     providers := \<lparr>rows = [(1, sample_provider)], seq = 1\<rparr>,
     models := \<lparr>rows = [(1, sample_model ''a''), (2, sample_model ''b'')], seq = 2\<rparr>,
     model_groups := \<lparr>rows = [(1, sample_group)], seq = 1\<rparr>,
     group_models := \<lparr>rows =
       [(1, \<lparr>gm_group_id = 1, gm_model_id = 1, gm_weight = 1, gm_is_enabled = True\<rparr>),
        (2, \<lparr>gm_group_id = 1, gm_model_id = 2, gm_weight = 2, gm_is_enabled = True\<rparr>)], seq = 2\<rparr>\<rparr>"

lemma wf_sample_db [simp]: "wf_db sample_db"
  by (simp add: wf_db_def models_ok_column group_models_ok_column unique_on_column sample_db_def empty_db_def
      wf_table_def column_def ids_def sample_model_def empty_table_def)

text \<open>C12: the schema invariant. Whatever sequence of storage operations runs on a fresh database,
  ids stay unique and in order, provider and group names stay unique, so do model names per provider
  and members per group, and every foreign key points at a row that exists: in particular the
  cascade of a deleted provider, model or group leaves no membership row behind.\<close>

theorem schema_invariant:
  assumes "db_step\<^sup>*\<^sup>* empty_db db"
  shows "wf_db db"
  using assms by induction (auto intro: wf_db_step)

theorem schema_invariant_witness:
  "wf_db (snd (delete_provider 1 (empty_db\<lparr>providers := \<lparr>rows = [(1, sample_provider)], seq = 1\<rparr>\<rparr>)))"
proof (rule schema_invariant)
  let ?db = "empty_db\<lparr>providers := \<lparr>rows = [(1, sample_provider)], seq = 1\<rparr>\<rparr>"
  have "create_provider sample_provider empty_db = Inr (1, ?db)"
    by (simp add: create_provider_def empty_db_def empty_table_def insert_row_def unique_on_def sample_provider_def)
  then have "db_step empty_db ?db" by (rule step_create_provider)
  moreover have "db_step ?db (snd (delete_provider 1 ?db))" by (rule step_delete_provider)
  ultimately show "db_step\<^sup>*\<^sup>* empty_db (snd (delete_provider 1 ?db))" by auto
qed

subsection \<open>The members of a group\<close>

text \<open>An enabled membership, with its model and provider enabled too.\<close>

definition enabled_member :: "db \<Rightarrow> int \<Rightarrow> int \<times> group_model \<Rightarrow> bool" where
  "enabled_member db gid gm \<longleftrightarrow>
     gm \<in> set (rows (group_models db)) \<and> gm_group_id (snd gm) = gid \<and> gm_is_enabled (snd gm) \<and>
     (\<exists>m p. get_model (gm_model_id (snd gm)) db = Some m \<and> m_is_enabled (snd m) \<and>
        get_provider (m_provider_id (snd m)) db = Some p \<and> p_is_enabled (snd p))"

lemma join_row_cases:
  "join_row b db gm = [] \<or> (\<exists>m p. join_row b db gm = [(gm, m, p)])"
  by (auto simp: join_row_def split: option.splits)

lemma fst_join_row: "map fst (concat (map (join_row b db) gms)) = filter (\<lambda>gm. join_row b db gm \<noteq> []) gms"
proof (induction gms)
  case (Cons gm gms)
  then show ?case using join_row_cases [of b db gm] by auto
qed simp

lemma join_row_enabled: "join_row True db gm \<noteq> [] \<longleftrightarrow> gm_is_enabled (snd gm) \<and>
     (\<exists>m p. get_model (gm_model_id (snd gm)) db = Some m \<and> m_is_enabled (snd m) \<and>
        get_provider (m_provider_id (snd m)) db = Some p \<and> p_is_enabled (snd p))"
  by (auto simp: join_row_def split: option.splits)

lemma joined_rows_members: "gm \<in> set (map fst (joined_rows gid True db)) \<longleftrightarrow> enabled_member db gid gm"
  unfolding joined_rows_def fst_join_row by (auto simp: enabled_member_def join_row_enabled)

lemma joined_rows_set: "set (map fst (joined_rows gid True db)) = {gm. enabled_member db gid gm}"
  using joined_rows_members by blast

lemma distinct_joined_rows:
  assumes "wf_db db"
  shows "distinct (map (\<lambda>gm. gm_model_id (snd gm)) (map fst (joined_rows gid b db)))"
proof -
  have "distinct (map (\<lambda>gm. (gm_group_id (snd gm), gm_model_id (snd gm))) (rows (group_models db)))"
    using assms by (simp add: wf_db_def group_models_ok_def unique_on_def)
  then show ?thesis
    unfolding joined_rows_def fst_join_row by (auto simp: distinct_map inj_on_def)
qed

lemma detail_of_Inr:
  "detail_of gm m p = Inr d \<Longrightarrow> d_model_id d = gm_model_id (snd gm) \<and> d_weight d = gm_weight (snd gm) \<and>
     d_group_id d = gm_group_id (snd gm)"
  by (auto simp: detail_of_def split: json.splits)

lemma mapE_keeps:
  "mapE f xs = Inr ys \<Longrightarrow> (\<And>x y. f x = Inr y \<Longrightarrow> h y = g x) \<Longrightarrow> map h ys = map g xs"
  by (induction xs arbitrary: ys) (auto simp: bindE_eq_Inr)

lemma group_models_pairs:
  assumes "get_group_models gid True db = Inr ds"
  shows "map (\<lambda>d. (d_model_id d, d_weight d)) ds =
    map (\<lambda>j. (gm_model_id (snd (fst j)), gm_weight (snd (fst j))))
      (sort_key (\<lambda>(gm, _). - gm_weight (snd gm)) (joined_rows gid True db))"
  using assms unfolding get_group_models_def by (rule mapE_keeps) (auto dest: detail_of_Inr)

lemma get_group_models_distinct:
  assumes "wf_db db" and "get_group_models gid True db = Inr ds"
  shows "distinct (map d_model_id ds)"
proof -
  have "map d_model_id ds = map fst (map (\<lambda>d. (d_model_id d, d_weight d)) ds)" by simp
  also have "\<dots> = map (\<lambda>j. gm_model_id (snd (fst j)))
      (sort_key (\<lambda>(gm, _). - gm_weight (snd gm)) (joined_rows gid True db))"
    unfolding group_models_pairs [OF assms(2)] by simp
  finally show ?thesis
    using distinct_joined_rows [OF assms(1), of gid True] by (simp add: distinct_map comp_def inj_on_def)
qed

text \<open>The query behind the routing. On a well-formed database the members it returns for a group
  are sorted by falling weight, hold no model twice, and are exactly the enabled memberships whose
  model and provider are enabled, each with its weight.\<close>

lemma get_group_models_spec:
  assumes "wf_db db" and "get_group_models gid True db = Inr ds"
  shows "sorted_wrt (\<lambda>a b. d_weight a \<ge> d_weight b) ds \<and> distinct (map d_model_id ds) \<and>
    (\<lambda>d. (d_model_id d, d_weight d)) ` set ds =
      (\<lambda>gm. (gm_model_id (snd gm), gm_weight (snd gm))) ` {gm. enabled_member db gid gm}"
proof -
  let ?js = "sort_key (\<lambda>(gm, _). - gm_weight (snd gm)) (joined_rows gid True db)"
  note pairs = group_models_pairs [OF assms(2)]
  have "sorted (map (\<lambda>j. - gm_weight (snd (fst j))) ?js)"
    using sorted_sort_key [of "\<lambda>(gm, _). - gm_weight (snd gm)" "joined_rows gid True db"]
    by (simp add: case_prod_beta')
  then have "sorted_wrt (\<lambda>a b. snd a \<ge> snd b) (map (\<lambda>j. (gm_model_id (snd (fst j)), gm_weight (snd (fst j)))) ?js)"
    by (simp add: sorted_wrt_map)
  then have "sorted_wrt (\<lambda>a b. d_weight a \<ge> d_weight b) ds"
    unfolding pairs [symmetric] by (simp add: sorted_wrt_map)
  moreover have "distinct (map d_model_id ds)" by (rule get_group_models_distinct [OF assms])
  moreover have "set (map (\<lambda>d. (d_model_id d, d_weight d)) ds) =
      (\<lambda>gm. (gm_model_id (snd gm), gm_weight (snd gm))) ` set (map fst (joined_rows gid True db))"
    unfolding pairs by force
  then have "(\<lambda>d. (d_model_id d, d_weight d)) ` set ds =
      (\<lambda>gm. (gm_model_id (snd gm), gm_weight (snd gm))) ` {gm. enabled_member db gid gm}"
    using joined_rows_set by (metis (no_types) list.set_map)
  ultimately show ?thesis by blast
qed

definition sample_detail :: "int \<Rightarrow> string \<Rightarrow> real \<Rightarrow> model_detail" where
  "sample_detail i n w = \<lparr>d_id = i, d_group_id = 1, d_model_id = i, d_weight = w, d_is_enabled = True,
     d_model_name = n, d_display_name = '''', d_api_format = '''', d_provider_id = 1, d_provider_name = ''p'',
     d_provider_type = ''openai'', d_max_retries = 3, d_cooldown_seconds = 60, d_cooldown_failure_threshold = 3,
     d_context_window = 0, d_proxy = '''', d_extra_config = []\<rparr>"

lemma sample_group_models:
  "get_group_models 1 True sample_db = Inr [sample_detail 2 ''b'' 2, sample_detail 1 ''a'' 1]"
  by (simp add: get_group_models_def joined_rows_def join_row_def sample_db_def empty_db_def get_model_def get_provider_def
      get_row_def lookup_row_def sample_model_def sample_provider_def detail_of_def sample_detail_def)

subsection \<open>Creating and updating\<close>

text \<open>What the \<open>INSERT\<close> statements forget. A group that is created with a fallback group is stored
  without one, and a model that is created with a context window is stored with the window 0 (no
  truncation), although both entities carry the value; everything else is stored as given.\<close>

lemma create_forgets_columns:
  assumes "wf_db db"
  shows "(\<forall>g i db'. create_group g db = Inr (i, db') \<longrightarrow> get_group i db' =
      Some (i, g\<lparr>g_fallback_group_id := None, g_created_at := sql_now db, g_updated_at := sql_now db\<rparr>)) \<and>
    (\<forall>m i db'. create_model m db = Inr (i, db') \<longrightarrow> get_model i db' =
      Some (i, m\<lparr>m_context_window := 0, m_created_at := sql_now db, m_updated_at := sql_now db\<rparr>))"
  using assms
  by (auto simp: create_group_def create_model_def get_group_def get_model_def get_row_def case_prod_beta Let_def
      wf_db_def lookup_insert_row)

lemma find_model_unique:
  assumes "unique_on (\<lambda>m. (m_name m, m_provider_id m)) (models db)"
    and "im \<in> set (rows (models db))" and "m_name (snd im) = n" and "m_provider_id (snd im) = pid"
  shows "find_model n pid db = Some im"
proof (cases "find_model n pid db")
  case None
  then show ?thesis unfolding find_model_def using find_NoneD assms(2-) by fastforce
next
  case (Some jm)
  then have "jm \<in> set (rows (models db))" "m_name (snd jm) = n" "m_provider_id (snd jm) = pid"
    by (auto simp: find_model_def dest: find_SomeD)
  with assms have "jm = im" by (auto intro: unique_on_eq)
  with Some show ?thesis by simp
qed

lemma find_model_SomeD:
  "find_model n pid db = Some (i, m) \<Longrightarrow> (i, m) \<in> set (rows (models db)) \<and> m_name m = n \<and> m_provider_id m = pid"
  by (auto simp: find_model_def dest: find_SomeD)

text \<open>An upsert writes the given columns to the one row with that name and provider (a new one if
  there is none), keeps the stored context window of an existing row, leaves every other model as it
  is, and running it again changes nothing.\<close>

lemma upsert_model_spec:
  assumes "wf_db db" and "upsert_model m db = Inr (i, db')"
  shows "get_model i db' = Some (i, m\<lparr>m_context_window := (case find_model (m_name m) (m_provider_id m) db of
               None \<Rightarrow> 0 | Some im \<Rightarrow> m_context_window (snd im)),
             m_created_at := (case find_model (m_name m) (m_provider_id m) db of
               None \<Rightarrow> sql_now db | Some im \<Rightarrow> m_created_at (snd im)),
             m_updated_at := sql_now db\<rparr>) \<and>
    (\<forall>j. j \<noteq> i \<longrightarrow> get_model j db' = get_model j db) \<and>
    upsert_model m db' = Inr (i, db')"
proof -
  have wf: "wf_db db'" by (rule wf_upsert_model [OF assms])
  let ?m = "m\<lparr>m_context_window := (case find_model (m_name m) (m_provider_id m) db of
               None \<Rightarrow> 0 | Some im \<Rightarrow> m_context_window (snd im)),
             m_created_at := (case find_model (m_name m) (m_provider_id m) db of
               None \<Rightarrow> sql_now db | Some im \<Rightarrow> m_created_at (snd im)),
             m_updated_at := sql_now db\<rparr>"
  have get: "lookup_row (models db') i = Some ?m \<and> (\<forall>j. j \<noteq> i \<longrightarrow> lookup_row (models db') j = lookup_row (models db) j)"
  proof (cases "find_model (m_name m) (m_provider_id m) db")
    case None
    with assms show ?thesis
      by (auto simp: upsert_model_def create_model_def case_prod_beta Let_def wf_db_def lookup_insert_row)
  next
    case (Some im)
    obtain r where im: "im = (i, r)" and db': "db' = db\<lparr>models := update_rows (\<lambda>ir. fst ir = i)
            (\<lambda>r. m\<lparr>m_name := m_name r, m_provider_id := m_provider_id r, m_context_window := m_context_window r,
                   m_created_at := m_created_at r, m_updated_at := sql_now db\<rparr>)
            (models db)\<rparr>"
      using assms(2) Some by (cases im) (auto simp: upsert_model_def)
    have "lookup_row (models db) i = Some r" "m_name r = m_name m" "m_provider_id r = m_provider_id m"
      using Some im assms(1) by (auto simp: lookup_in_rows wf_db_def dest: find_model_SomeD)
    then show ?thesis
      using lookup_update_rows [where q = "\<lambda>j. j = i" and t = "models db"] Some im db' by auto
  qed
  then have "(i, ?m) \<in> set (rows (models db'))" using wf by (simp add: wf_db_def lookup_in_rows)
  then have found: "find_model (m_name m) (m_provider_id m) db' = Some (i, ?m)"
    using wf by (intro find_model_unique) (auto simp: wf_db_def models_ok_def)
  define f where "f = (\<lambda>r :: model. m\<lparr>m_name := m_name r, m_provider_id := m_provider_id r, m_context_window := m_context_window r,
      m_created_at := m_created_at r, m_updated_at := sql_now db\<rparr>)"
  have now: "sql_now db' = sql_now db"
    using assms(2) by (auto simp: upsert_model_def create_model_def case_prod_beta Let_def split: option.splits)
  have "f r = r" if "(i, r) \<in> set (rows (models db'))" for r
  proof -
    have "r = ?m" using that get wf by (simp add: wf_db_def lookup_in_rows [symmetric])
    then show ?thesis by (cases m) (simp add: f_def)
  qed
  then have "map (\<lambda>ir. if fst ir = i then (fst ir, f (snd ir)) else ir) (rows (models db')) = rows (models db')"
    by (intro map_idI) auto
  then have "update_rows (\<lambda>ir. fst ir = i) (\<lambda>r. m\<lparr>m_name := m_name r, m_provider_id := m_provider_id r,
      m_context_window := m_context_window r, m_created_at := m_created_at r, m_updated_at := sql_now db'\<rparr>) (models db') = models db'"
    unfolding now f_def [symmetric] by (simp add: update_rows_def)
  then have "upsert_model m db' = Inr (i, db')" by (simp add: upsert_model_def found)
  with get show ?thesis by (auto simp: get_model_def get_row_def)
qed

subsection \<open>Cooldown rows\<close>

lemma lower_char_lower: "is_digit c \<or> c = CHR ''-'' \<Longrightarrow> lower_char c = c"
  by (auto simp: lower_char_def is_digit_def Let_def)

lemma cooldown_row_like: "sql_like ''cooldown:%'' (cooldown_row_key s)"
proof -
  have "lower ''cooldown:%'' = ''cooldown:'' @ ''%''" "lower ''cooldown:'' = ''cooldown:''"
    by (simp_all add: lower_def lower_char_def)
  moreover have "lower (cooldown_row_key s) = ''cooldown:'' @ lower (str_int (sc_group_id s) @ '':'' @ str_int (sc_model_id s))"
    by (simp add: cooldown_row_key_def lower_def lower_char_def)
  moreover have "CHR ''%'' \<notin> set ''cooldown:''" "CHR ''_'' \<notin> set ''cooldown:''" by simp_all
  ultimately show ?thesis unfolding sql_like_def by (simp only: like_chars_prefix) simp
qed

lemma split_row_key:
  "split_char (CHR '':'') (cooldown_row_key s) = [''cooldown'', str_int (sc_group_id s), str_int (sc_model_id s)]"
proof -
  have "cooldown_row_key s = ''cooldown'' @ CHR '':'' # (str_int (sc_group_id s) @ CHR '':'' # str_int (sc_model_id s))"
    by (simp add: cooldown_row_key_def)
  then show ?thesis
    by (simp only: split_char_append split_char_no str_int_no_colon) (simp add: split_char_append split_char_no str_int_no_colon)
qed

lemma cooldown_row_key_inj: "cooldown_row_key s = cooldown_row_key s' \<Longrightarrow> sc_key s = sc_key s'"
proof -
  assume "cooldown_row_key s = cooldown_row_key s'"
  then have "str_int (sc_group_id s) = str_int (sc_group_id s')" "str_int (sc_model_id s) = str_int (sc_model_id s')"
    using split_row_key [of s] split_row_key [of s'] by simp_all
  then show ?thesis by (metis sc_key_def parse_int_str_int option.inject)
qed

lemma config_save_cooldown_state:
  assumes "distinct (map sc_key ss)" and "\<forall>kv \<in> set (config db). \<not> sql_like ''cooldown:%'' (fst kv)"
  shows "config (save_cooldown_state dumps now ss db) =
    config db @ map (\<lambda>s. (cooldown_row_key s, (dumps (cooldown_row_value s), now))) ss"
  using assms(1)
proof (induction ss rule: rev_induct)
  case Nil
  then show ?case by (simp add: save_cooldown_state_def)
next
  case (snoc s ss)
  let ?c = "config db @ map (\<lambda>s. (cooldown_row_key s, (dumps (cooldown_row_value s), now))) ss"
  have c: "config (save_cooldown_state dumps now ss db) = ?c" using snoc by simp
  have "cooldown_row_key s \<notin> cooldown_row_key ` set ss"
  proof
    assume "cooldown_row_key s \<in> cooldown_row_key ` set ss"
    then have "sc_key s \<in> sc_key ` set ss" using cooldown_row_key_inj by blast
    with snoc.prems show False by simp
  qed
  then have "cooldown_row_key s \<notin> fst ` set ?c"
    using assms(2) cooldown_row_like [of s] by auto
  then have "AList.update (cooldown_row_key s) v ?c = ?c @ [(cooldown_row_key s, v)]" for v
    by (rule update_new_key)
  moreover have "save_cooldown_state dumps now (ss @ [s]) db =
      set_config now (cooldown_row_key s) (dumps (cooldown_row_value s)) (save_cooldown_state dumps now ss db)"
    by (simp add: save_cooldown_state_def)
  ultimately show ?case by (simp add: set_config_def c)
qed

text \<open>Ids of rows are 64-bit integers, which \<open>int()\<close> reads back.\<close>

definition row_ids :: "saved_cooldown \<Rightarrow> bool" where
  "row_ids s \<longleftrightarrow> \<bar>sc_group_id s\<bar> < 2 ^ 63 \<and> \<bar>sc_model_id s\<bar> < 2 ^ 63"

lemma load_written_row:
  assumes "loads (dumps (cooldown_row_value s)) = Some (cooldown_row_value s)" "row_ids s"
  shows "load_cooldown_row loads (cooldown_row_key s) (dumps (cooldown_row_value s)) =
      [\<lparr>lc_group_id = sc_group_id s, lc_model_id = sc_model_id s, lc_failures = JInt (sc_failures s),
        lc_until = JFloat (sc_until s)\<rparr>]"
  using assms by (simp add: load_cooldown_row_def split_row_key py_int_str_int row_ids_def cooldown_row_value_def)

text \<open>The text form of the cooldowns is faithful. For any JSON encoder and decoder that agree on
  these rows, saving cooldowns of distinct models in a configuration without cooldown rows and loading
  them gives the same group, model, failure count and deadline back, in order.\<close>

lemma saved_cooldowns_load:
  assumes "\<forall>s \<in> set ss. loads (dumps (cooldown_row_value s)) = Some (cooldown_row_value s) \<and> row_ids s"
    and "distinct (map sc_key ss)" and "\<forall>kv \<in> set (config db). \<not> sql_like ''cooldown:%'' (fst kv)"
  shows "load_cooldown_states loads (save_cooldown_state dumps now ss db) =
    map (\<lambda>s. \<lparr>lc_group_id = sc_group_id s, lc_model_id = sc_model_id s, lc_failures = JInt (sc_failures s),
              lc_until = JFloat (sc_until s)\<rparr>) ss"
proof -
  have row: "load_cooldown_row loads (cooldown_row_key s) (dumps (cooldown_row_value s)) =
      [\<lparr>lc_group_id = sc_group_id s, lc_model_id = sc_model_id s, lc_failures = JInt (sc_failures s),
        lc_until = JFloat (sc_until s)\<rparr>]" if "s \<in> set ss" for s
    using assms(1) that by (simp add: load_written_row)
  have none: "filter (\<lambda>(k, _). sql_like ''cooldown:%'' k) (config db) = []"
    using assms(3) by (auto simp: filter_empty_conv)
  have all: "filter (\<lambda>(k, _). sql_like ''cooldown:%'' k)
      (map (\<lambda>s. (cooldown_row_key s, (dumps (cooldown_row_value s), now))) ss) =
      map (\<lambda>s. (cooldown_row_key s, (dumps (cooldown_row_value s), now))) ss"
    by (auto simp: filter_id_conv cooldown_row_like)
  have "concat (map (\<lambda>s. load_cooldown_row loads (cooldown_row_key s) (dumps (cooldown_row_value s))) ss) =
      map (\<lambda>s. \<lparr>lc_group_id = sc_group_id s, lc_model_id = sc_model_id s, lc_failures = JInt (sc_failures s),
              lc_until = JFloat (sc_until s)\<rparr>) ss"
    using row by (induction ss) auto
  then show ?thesis
    unfolding load_cooldown_states_def config_save_cooldown_state [OF assms(2,3)] filter_append none all
    by (simp add: comp_def)
qed

text \<open>For the witness, an encoder that writes the three models at hand.\<close>

definition sample_saved :: "saved_cooldown list" where
  "sample_saved = [\<lparr>sc_group_id = 1, sc_model_id = 2, sc_failures = 3, sc_until = 1060\<rparr>,
     \<lparr>sc_group_id = 1, sc_model_id = 5, sc_failures = 4, sc_until = 1030\<rparr>]"

definition sample_dumps :: "json \<Rightarrow> string" where
  "sample_dumps v = (if v = cooldown_row_value (sample_saved ! 0) then ''a'' else ''b'')"

definition sample_loads :: "string \<Rightarrow> json option" where
  "sample_loads s = Some (if s = ''a'' then cooldown_row_value (sample_saved ! 0)
     else cooldown_row_value (sample_saved ! 1))"

end
