(* ===== verification/Strategy_Facts.thy ===== *)
theory Strategy_Facts
  imports Strategies Store_Facts
begin

text \<open>
  What the strategies promise the engine, as the locale \<open>routing_strategy\<close>: a queue that is not empty,
  holds no model twice and only endpoints that are enabled and off cooldown. It is interpreted on the
  three built-in strategies.
\<close>

subsection \<open>Loading\<close>

text \<open>The endpoint cache only ever holds lists without duplicates.\<close>

definition wf_gw :: "'w gw \<Rightarrow> bool" where
  "wf_gw g \<longleftrightarrow> wf_db (gw_db g) \<and>
     (\<forall>gid eps t. map_of (gw_endpoint_cache g) gid = Some (eps, t) \<longrightarrow> distinct (map ep_model_id eps))"

lemma wf_gw_other [simp]:
  "wf_gw (g\<lparr>gw_pool := pl\<rparr>) = wf_gw g" "wf_gw (g\<lparr>gw_cooldown := m\<rparr>) = wf_gw g"
  "wf_gw (g\<lparr>gw_world := w\<rparr>) = wf_gw g" "wf_gw (g\<lparr>gw_counters := c\<rparr>) = wf_gw g"
  by (simp_all add: wf_gw_def)

lemma wf_gw_cache:
  "wf_gw g \<Longrightarrow> distinct (map ep_model_id eps) \<Longrightarrow>
   wf_gw (g\<lparr>gw_endpoint_cache := AList.update gid (eps, t) (gw_endpoint_cache g)\<rparr>)"
  by (simp add: wf_gw_def update_conv)

lemma same_permits_other [simp]:
  "same_permits g (g'\<lparr>gw_pool := pl\<rparr>) = same_permits g g'" "same_permits g (g'\<lparr>gw_cooldown := m\<rparr>) = same_permits g g'"
  "same_permits g (g'\<lparr>gw_world := w\<rparr>) = same_permits g g'" "same_permits g (g'\<lparr>gw_counters := c\<rparr>) = same_permits g g'"
  "same_permits g (g'\<lparr>gw_endpoint_cache := ec\<rparr>) = same_permits g g'" "same_permits g g"
  by (simp_all add: same_permits_def)

lemma build_endpoints_subseq:
  "build_endpoints env ms g = (Inr eps, g') \<Longrightarrow> subseq (map ep_detail eps) ms"
  by (induction ms arbitrary: g eps g') (fastforce split: option.splits prod.splits sum.splits if_splits)+

lemma build_endpoints_frame: "\<exists>pl. snd (build_endpoints env ms g) = g\<lparr>gw_pool := pl\<rparr>"
proof (induction ms arbitrary: g)
  case Nil
  have "g = g\<lparr>gw_pool := gw_pool g\<rparr>" by simp
  then show ?case by (metis build_endpoints.simps(1) snd_conv)
next
  case (Cons m ms)
  have step: "\<exists>pl. snd (build_endpoints env ms (g\<lparr>gw_pool := q\<rparr>)) = g\<lparr>gw_pool := pl\<rparr>" for q
    using Cons [of "g\<lparr>gw_pool := q\<rparr>"] by simp
  show ?case
  proof (cases "get_provider (d_provider_id m) (gw_db g)")
    case None
    then show ?thesis using Cons by simp
  next
    case (Some ip)
    obtain pid p where ip: "ip = (pid, p)" by (cases ip)
    obtain r q where get: "get_cached_provider True (wall_now env g) (mono_now env g) pid (p_provider_type p) (p_api_key p)
        (p_base_url p) (p_extra_config p) (d_api_format m) (d_proxy m) (gw_pool g) = (r, q)"
      by (metis prod.collapse)
    obtain r' g' where b: "build_endpoints env ms (g\<lparr>gw_pool := q\<rparr>) = (r', g')" by (metis prod.collapse)
    show ?thesis
      using Cons [of g] step [of q] Some ip get b by (cases r; cases r') auto
  qed
qed

lemma load_endpoints_spec:
  assumes "wf_gw g" "load_endpoints env gid g = (r, g')"
  shows "wf_gw g' \<and> same_permits g g' \<and> gw_db g' = gw_db g \<and> gw_cooldown g' = gw_cooldown g \<and>
    gw_counters g' = gw_counters g \<and> gw_world g' = gw_world g \<and> (\<forall>eps. r = Inr eps \<longrightarrow> distinct (map ep_model_id eps))"
proof (cases "ttl_get endpoint_cache_ttl (wall_now env g) gid (gw_endpoint_cache g)")
  case (Some eps)
  then obtain t where "map_of (gw_endpoint_cache g) gid = Some (eps, t)"
    by (auto simp: ttl_get_def split: option.splits if_splits)
  then have "distinct (map ep_model_id eps)" using assms(1) unfolding wf_gw_def by blast
  with assms Some show ?thesis by (auto simp: load_endpoints_def)
next
  case None
  show ?thesis
  proof (cases "get_group_models gid True (gw_db g)")
    case (Inl e)
    with assms None show ?thesis by (auto simp: load_endpoints_def)
  next
    case (Inr ms)
    have ids: "distinct (map d_model_id ms)"
      using get_group_models_distinct Inr assms(1) by (auto simp: wf_gw_def)
    obtain r1 g1 where b: "build_endpoints env ms g = (r1, g1)" by (metis prod.collapse)
    obtain pl where g1: "g1 = g\<lparr>gw_pool := pl\<rparr>" using build_endpoints_frame [of env ms g] b by auto
    have "distinct (map ep_model_id eps)" if "r1 = Inr eps" for eps
    proof -
      have "subseq (map ep_detail eps) ms" using build_endpoints_subseq b that by blast
      then have "subseq (map d_model_id (map ep_detail eps)) (map d_model_id ms)" by (rule subseq_map)
      then have "distinct (map d_model_id (map ep_detail eps))" using ids subseq_distinct by blast
      then show ?thesis by (simp add: ep_model_id_def [abs_def] comp_def)
    qed
    moreover have "wf_gw g1" using assms(1) by (simp add: g1)
    ultimately show ?thesis
      using assms(2) None Inr b wf_gw_cache [of g1] by (cases r1) (auto simp: load_endpoints_def g1)
  qed
qed

lemma filter_available_cooldown:
  "filter_available env eps gid g = (av, g') \<Longrightarrow>
   av = filter (\<lambda>ep. \<not> blocked (mono_now env g) (gw_cooldown g) (gid, ep_model_id ep)) eps \<and>
   (\<forall>key. blocked (mono_now env g) (gw_cooldown g') key = blocked (mono_now env g) (gw_cooldown g) key)"
  using filter_available_eq [of env eps gid g]
  by (auto simp: filter_available_select cooldown.select_free_keeps)

text \<open>What holds of the endpoints a strategy starts from.\<close>

lemma available_endpoints_spec:
  assumes "wf_gw g" "available_endpoints env gid g = (r, g')"
  shows "wf_gw g' \<and> same_permits g g' \<and> gw_db g' = gw_db g \<and> gw_counters g' = gw_counters g \<and> gw_world g' = gw_world g"
    and "r = Inr av \<Longrightarrow> av \<noteq> [] \<and> distinct (map ep_model_id av) \<and>
      (\<forall>ep \<in> set av. \<not> blocked (mono_now env g) (gw_cooldown g) (gid, ep_model_id ep))"
proof -
  obtain r1 g1 where load: "load_endpoints env gid g = (r1, g1)" by (metis prod.collapse)
  note l = load_endpoints_spec [OF assms(1) load]
  obtain av2 g2 where fil: "filter_available env (projr r1) gid g1 = (av2, g2)" by (metis prod.collapse)
  have g2: "g2 = g1\<lparr>gw_cooldown := gw_cooldown g2\<rparr>"
    using fil by (auto simp: filter_available_select)
  have wf2: "wf_gw (g1\<lparr>gw_cooldown := m\<rparr>) = wf_gw g1" "same_permits g (g1\<lparr>gw_cooldown := m\<rparr>) = same_permits g g1" for m
    by (simp_all add: wf_gw_def same_permits_def)
  have g': "g' = g1 \<or> g' = g2"
    using assms(2) load fil by (auto simp: available_endpoints_def split: sum.splits if_splits)
  then show "wf_gw g' \<and> same_permits g g' \<and> gw_db g' = gw_db g \<and> gw_counters g' = gw_counters g \<and> gw_world g' = gw_world g"
    using l g2 wf2 by (metis gw.select_convs gw.update_convs(1) gw.surjective)
  assume "r = Inr av"
  then obtain eps where "r1 = Inr eps" "av = av2" "av \<noteq> []"
    using assms(2) load fil by (auto simp: available_endpoints_def split: sum.splits if_splits)
  then show "av \<noteq> [] \<and> distinct (map ep_model_id av) \<and>
      (\<forall>ep \<in> set av. \<not> blocked (mono_now env g) (gw_cooldown g) (gid, ep_model_id ep))"
    using filter_available_cooldown [OF fil] l by (auto simp: distinct_map_filter)
qed

subsection \<open>The queues\<close>

lemma endpoint_of_unique:
  assumes "distinct (map ep_model_id av)" "ep \<in> set av"
  shows "endpoint_of av (ep_model_id ep) = ep"
proof -
  have "ep \<in> set (filter (\<lambda>x. ep_model_id x = ep_model_id ep) av)" using assms(2) by simp
  then have "endpoint_of av (ep_model_id ep) \<in> set (filter (\<lambda>x. ep_model_id x = ep_model_id ep) av)"
    unfolding endpoint_of_def by (metis empty_iff hd_in_set list.set(1))
  then show ?thesis using assms by (auto simp: distinct_map inj_on_def)
qed

lemma detail_positive [simp]: "filter (\<lambda>m. d_weight m > 0) (map ep_detail eps) = map ep_detail (filter (\<lambda>ep. d_weight (ep_detail ep) > 0) eps)"
  by (induction eps) auto

text \<open>The queue of the weighted random strategy: a first endpoint, and the others of positive weight.\<close>

lemma random_queue_spec:
  assumes "distinct (map ep_model_id av)" "random_queue env av w = (Inr queue, w')"
  shows "\<exists>primary. primary \<in> set av \<and> mset queue = add_mset primary
    (mset (filter (\<lambda>ep. d_weight (ep_detail ep) > 0) (filter (\<lambda>ep. ep_model_id ep \<noteq> ep_model_id primary) av)))"
proof -
  obtain sel w1 where sel: "weighted_random_select (e_uniform env) (map ep_detail av) w = (Inr sel, w1)"
    using assms(2) by (auto simp: random_queue_def split: prod.splits sum.splits)
  obtain primary where p: "primary \<in> set av" "sel = ep_detail primary"
    using weighted_random_select_mem [OF sel] by auto
  have id: "d_model_id (ep_detail ep) = ep_model_id ep" for ep by (simp add: ep_model_id_def)
  note sel = sel [unfolded p(2)]
  have first: "endpoint_of av (ep_model_id primary) = primary" using assms(1) p(1) by (rule endpoint_of_unique)
  let ?rem = "filter (\<lambda>ep. ep_model_id ep \<noteq> ep_model_id primary) av"
  let ?pos = "filter (\<lambda>ep. d_weight (ep_detail ep) > 0) ?rem"
  show ?thesis
  proof (cases "?rem = []")
    case True
    then show ?thesis using assms(2) p by (intro exI [of _ primary]) (simp add: random_queue_def sel id first Let_def)
  next
    case False
    obtain r w2 where order: "weighted_random_order (e_uniform env) (map ep_detail ?rem) w1 = (r, w2)"
      by (metis prod.collapse)
    obtain rest where r: "r = Inr rest" and q: "queue = primary # map (\<lambda>d. endpoint_of av (d_model_id d)) rest"
      using assms(2) False by (cases r) (auto simp: random_queue_def sel id first Let_def order)
    have "mset rest = mset (map ep_detail ?pos)"
    proof -
      have "?pos \<noteq> []" using order r by (auto simp: weighted_random_order_def)
      then obtain m where "m \<in> set (map ep_detail ?rem)" "d_weight m > 0"
        by (auto simp: filter_empty_conv)
      then show ?thesis
        using weighted_random_order_perm [of m "map ep_detail ?rem" "e_uniform env" w1] order r by auto
    qed
    then have "mset (map (\<lambda>d. endpoint_of av (d_model_id d)) rest) =
        mset (map (\<lambda>d. endpoint_of av (d_model_id d)) (map ep_detail ?pos))"
      by (simp only: mset_map)
    also have "map (\<lambda>d. endpoint_of av (d_model_id d)) (map ep_detail ?pos) = ?pos"
      using endpoint_of_unique [OF assms(1)] by (auto simp: ep_model_id_def [abs_def] intro!: map_idI)
    finally show ?thesis using p q by (intro exI [of _ primary]) simp
  qed
qed

lemma random_queue_positive:
  assumes "distinct (map ep_model_id av)" "av \<noteq> []" "\<forall>ep \<in> set av. d_weight (ep_detail ep) > 0"
  shows "\<exists>queue w'. random_queue env av w = (Inr queue, w') \<and> mset queue = mset av"
proof -
  have "total_weight (map ep_detail av) > 0"
    using assms by (auto intro!: total_weight_pos [of "ep_detail (hd av)"])
  then obtain sel w1 where sel: "weighted_random_select (e_uniform env) (map ep_detail av) w = (Inr sel, w1)"
    by (fastforce simp: weighted_random_select_def Let_def split: prod.splits)
  let ?rem = "filter (\<lambda>ep. ep_model_id ep \<noteq> d_model_id sel) av"
  have "\<exists>queue w'. random_queue env av w = (Inr queue, w')"
  proof (cases "?rem = []")
    case True
    then show ?thesis by (simp add: random_queue_def sel Let_def)
  next
    case False
    then have "ep_detail (hd ?rem) \<in> set (map ep_detail ?rem)" "d_weight (ep_detail (hd ?rem)) > 0"
      using assms(3) hd_in_set [OF False] by auto
    from weighted_random_order_perm [OF this, of "e_uniform env" w1]
    obtain os w2 where "weighted_random_order (e_uniform env) (map ep_detail ?rem) w1 = (Inr os, w2)"
      by (elim exE conjE)
    with False show ?thesis by (simp add: random_queue_def sel Let_def)
  qed
  then obtain queue w' where q: "random_queue env av w = (Inr queue, w')" by blast
  obtain primary where "primary \<in> set av" and m: "mset queue = add_mset primary
    (mset (filter (\<lambda>ep. d_weight (ep_detail ep) > 0) (filter (\<lambda>ep. ep_model_id ep \<noteq> ep_model_id primary) av)))"
    using random_queue_spec [OF assms(1) q] by blast
  have "filter (\<lambda>ep. d_weight (ep_detail ep) > 0) (filter (\<lambda>ep. ep_model_id ep \<noteq> ep_model_id primary) av) =
      filter (\<lambda>ep. ep \<noteq> primary) av"
    unfolding filter_filter using assms(1,3) \<open>primary \<in> set av\<close>
    by (intro filter_cong) (auto simp: distinct_map inj_on_def)
  moreover have "distinct av" using assms(1) by (simp add: distinct_map)
  then have "remove1 primary av = filter (\<lambda>ep. primary \<noteq> ep) av"
    by (simp add: distinct_remove1_removeAll removeAll_filter_not_eq)
  then have "remove1 primary av = filter (\<lambda>ep. ep \<noteq> primary) av"
    by (simp add: eq_commute)
  then have "mset av = add_mset primary (mset (filter (\<lambda>ep. ep \<noteq> primary) av))"
    using \<open>primary \<in> set av\<close> by (metis insert_DiffM mset_remove1 set_mset_mset)
  ultimately show ?thesis using q m by auto
qed

lemma filter_upt_neq:
  assumes "i < n"
  shows "filter (\<lambda>j. j \<noteq> i) [0..<n] = [0..<i] @ [Suc i..<n]" and "mset [0..<n] = add_mset i (mset (filter (\<lambda>j. j \<noteq> i) [0..<n]))"
proof -
  obtain k where k: "n = i + Suc k" using less_imp_Suc_add [OF assms] by auto
  have "[0..<n] = [0..<i] @ i # [Suc i..<n]"
    using upt_add_eq_append [of 0 i "Suc k"] by (simp add: k upt_conv_Cons del: upt_Suc)
  moreover have "filter (\<lambda>j. j \<noteq> i) [0..<i] = [0..<i]" "filter (\<lambda>j. j \<noteq> i) [Suc i..<n] = [Suc i..<n]"
    by (simp_all add: filter_id_conv)
  ultimately show f: "filter (\<lambda>j. j \<noteq> i) [0..<n] = [0..<i] @ [Suc i..<n]" by simp
  show "mset [0..<n] = add_mset i (mset (filter (\<lambda>j. j \<noteq> i) [0..<n]))"
    unfolding f using \<open>[0..<n] = _\<close> by (simp del: mset_upt)
qed

lemma mset_rotate_to: "i < length eps \<Longrightarrow> mset (rotate_to i eps) = mset eps"
proof -
  assume i: "i < length eps"
  then have "mset (map ((!) eps) [0..<length eps]) = mset (map ((!) eps) (i # filter (\<lambda>j. j \<noteq> i) [0..<length eps]))"
    by (simp only: filter_upt_neq(2) [OF i] mset_map mset.simps image_mset_add_mset)
  then show ?thesis by (simp add: map_nth rotate_to_def)
qed

lemma mset_by_weight [simp]: "mset (by_weight eps) = mset eps"
  by (simp add: by_weight_def)

lemma length_by_weight [simp]: "length (by_weight eps) = length eps"
  by (simp add: by_weight_def)

lemma finish_selection_Inr:
  "finish_selection env msgs av queue t mt kw g = (Inr rr, g') \<longleftrightarrow>
   (\<exists>m. truncate_messages env msgs av mt = Inr m \<and> g' = g \<and>
     rr = \<lparr>rr_endpoints = queue, rr_messages = m, rr_temperature = t, rr_max_tokens = mt, rr_extra_kwargs = kw\<rparr>)"
  by (auto simp: finish_selection_def split: sum.splits)

lemma snd_finish_selection [simp]: "snd (finish_selection env msgs av queue t mt kw g) = g"
  by (simp add: finish_selection_def split: sum.splits)

lemma distinct_ids_mset:
  "mset xs = mset ys \<Longrightarrow> distinct (map ep_model_id xs) = distinct (map ep_model_id ys)"
  by (metis mset_eq_imp_distinct_iff mset_map)

lemma random_queue_ok:
  assumes "distinct (map ep_model_id av)" "random_queue env av w = (Inr queue, w')"
  shows "queue \<noteq> [] \<and> distinct (map ep_model_id queue) \<and> set queue \<subseteq> set av"
proof -
  obtain primary where p: "primary \<in> set av" and m: "mset queue = mset (primary #
    filter (\<lambda>ep. d_weight (ep_detail ep) > 0) (filter (\<lambda>ep. ep_model_id ep \<noteq> ep_model_id primary) av))"
    using random_queue_spec [OF assms] by auto
  have "distinct (map ep_model_id queue)"
    unfolding distinct_ids_mset [OF m] using assms(1) by (auto simp: distinct_map_filter)
  moreover have "set queue \<subseteq> set av" using mset_eq_setD [OF m] p by auto
  ultimately show ?thesis using m by auto
qed

subsection \<open>The contract\<close>

locale routing_strategy =
  fixes env :: "'w env" and select :: "'w select"
  assumes select_queue: "wf_gw g \<Longrightarrow> select msgs gid t mt kw g = (Inr rr, g') \<Longrightarrow>
      \<exists>av g1. available_endpoints env gid g = (Inr av, g1) \<and> rr_endpoints rr \<noteq> [] \<and>
        distinct (map ep_model_id (rr_endpoints rr)) \<and> set (rr_endpoints rr) \<subseteq> set av"
    and select_arguments: "select msgs gid t mt kw g = (Inr rr, g') \<Longrightarrow>
      rr_temperature rr = t \<and> rr_max_tokens rr = mt \<and> rr_extra_kwargs rr = kw"
    and select_frame: "wf_gw g \<Longrightarrow> wf_gw (snd (select msgs gid t mt kw g)) \<and>
      same_permits g (snd (select msgs gid t mt kw g)) \<and> gw_db (snd (select msgs gid t mt kw g)) = gw_db g"
begin

lemma queue_not_blocked:
  assumes "wf_gw g" "select msgs gid t mt kw g = (Inr rr, g')" "ep \<in> set (rr_endpoints rr)"
  shows "\<not> blocked (mono_now env g) (gw_cooldown g) (gid, ep_model_id ep)"
  using select_queue [OF assms(1,2)] available_endpoints_spec(2) [OF assms(1)] assms(3) by blast

lemma execute_queue_answer:
  "execute_queue env gid rr eps g = (Inr d, g') \<Longrightarrow>
   \<exists>ep \<in> set eps. \<exists>g1 g2 err. call_llm env ep (rr_messages rr) gid (rr_temperature rr) (rr_max_tokens rr)
     (rr_extra_kwargs rr) g1 = (Inr (Some d, err), g2)"
proof (induction eps arbitrary: g)
  case (Cons ep eps)
  obtain r g1 where c: "call_llm env ep (rr_messages rr) gid (rr_temperature rr) (rr_max_tokens rr)
     (rr_extra_kwargs rr) g = (r, g1)" by (metis prod.collapse)
  show ?case
  proof (cases r)
    case (Inl e)
    then show ?thesis using Cons.prems c by simp
  next
    case (Inr a)
    obtain d' err where a: "a = (d', err)" by (cases a)
    show ?thesis
    proof (cases d')
      case None
      then have "execute_queue env gid rr eps g1 = (Inr d, g')" using Cons.prems c Inr a by simp
      then show ?thesis using Cons.IH by auto
    next
      case (Some d2)
      then have "d2 = d" using Cons.prems c Inr a by simp
      then show ?thesis using c Inr a Some by auto
    qed
  qed
qed simp

lemma execute_answer:
  assumes "wf_gw g" "execute env select msgs gid t mt kw g = (Inr d, g')"
  shows "\<exists>ep m g1 g2 err. \<not> blocked (mono_now env g) (gw_cooldown g) (gid, ep_model_id ep) \<and>
    call_llm env ep m gid t mt kw g1 = (Inr (Some d, err), g2)"
proof -
  obtain rr g1 where sel: "select msgs gid t mt kw g = (Inr rr, g1)"
      and ex: "execute_queue env gid rr (rr_endpoints rr) g1 = (Inr d, g')"
    using assms(2) by (auto simp: execute_def split: prod.splits sum.splits)
  from execute_queue_answer [OF ex] obtain ep g2 g3 err where ep: "ep \<in> set (rr_endpoints rr)"
      and call: "call_llm env ep (rr_messages rr) gid (rr_temperature rr) (rr_max_tokens rr) (rr_extra_kwargs rr) g2
        = (Inr (Some d, err), g3)" by blast
  then show ?thesis
    using queue_not_blocked [OF assms(1) sel ep] select_arguments [OF sel] by metis
qed

end

lemma select_random_weights_cases:
  assumes "wf_gw g"
  shows "select_random_weights env msgs gid t mt kw g = (Inr rr, g') \<Longrightarrow>
      \<exists>av g1. available_endpoints env gid g = (Inr av, g1) \<and> rr_endpoints rr \<noteq> [] \<and>
        distinct (map ep_model_id (rr_endpoints rr)) \<and> set (rr_endpoints rr) \<subseteq> set av"
    and "wf_gw (snd (select_random_weights env msgs gid t mt kw g)) \<and>
      same_permits g (snd (select_random_weights env msgs gid t mt kw g)) \<and>
      gw_db (snd (select_random_weights env msgs gid t mt kw g)) = gw_db g"
proof -
  obtain r g1 where av: "available_endpoints env gid g = (r, g1)" by (metis prod.collapse)
  note spec = available_endpoints_spec [OF assms av]
  show "wf_gw (snd (select_random_weights env msgs gid t mt kw g)) \<and>
      same_permits g (snd (select_random_weights env msgs gid t mt kw g)) \<and>
      gw_db (snd (select_random_weights env msgs gid t mt kw g)) = gw_db g"
    using spec(1) by (simp add: select_random_weights_def av split: sum.splits prod.splits)
  assume sel: "select_random_weights env msgs gid t mt kw g = (Inr rr, g')"
  then obtain eps queue w where r: "r = Inr eps" and q: "random_queue env eps (gw_world g1) = (Inr queue, w)"
      and rr: "rr_endpoints rr = queue"
    by (auto simp: select_random_weights_def av finish_selection_Inr split: sum.splits prod.splits)
  show "\<exists>av g1. available_endpoints env gid g = (Inr av, g1) \<and> rr_endpoints rr \<noteq> [] \<and>
        distinct (map ep_model_id (rr_endpoints rr)) \<and> set (rr_endpoints rr) \<subseteq> set av"
    using random_queue_ok [OF _ q] spec(2) [OF r] av r rr by auto
qed

lemma queue_of_permutation:
  assumes "wf_gw g" "available_endpoints env gid g = (Inr av, g1)" "mset queue = mset av"
  shows "queue \<noteq> [] \<and> distinct (map ep_model_id queue) \<and> set queue \<subseteq> set av"
  using available_endpoints_spec(2) [OF assms(1,2) refl] distinct_ids_mset [OF assms(3)] mset_eq_setD [OF assms(3)] assms(3)
  by auto

lemma select_sequential_queue:
  assumes "select_sequential env msgs gid t mt kw g = (Inr rr, g')"
  shows "\<exists>av g1. available_endpoints env gid g = (Inr av, g1) \<and> rr_endpoints rr = by_weight av"
  using assms by (auto simp: select_sequential_def finish_selection_Inr split: sum.splits prod.splits)

lemma select_round_robin_queue:
  assumes "wf_gw g" "select_round_robin env msgs gid t mt kw g = (Inr rr, g')"
  shows "\<exists>av g1 idx. available_endpoints env gid g = (Inr av, g1) \<and>
    idx = (case map_of (gw_counters g) gid of None \<Rightarrow> 0 | Some c \<Rightarrow> c) \<and>
    rr_endpoints rr = rotate_to (nat (idx mod int (length av))) (by_weight av) \<and>
    map_of (gw_counters g') gid = Some ((idx + 1) mod (int (length av) * 1000))"
proof -
  obtain r g1 where av: "available_endpoints env gid g = (r, g1)" by (metis prod.collapse)
  have "gw_counters g1 = gw_counters g" using available_endpoints_spec(1) [OF assms(1) av] by simp
  with assms(2) av show ?thesis
    by (auto simp: select_round_robin_def rr_step_def Let_def finish_selection_Inr update_conv split: sum.splits)
qed

lemma rotate_to_permutation:
  assumes "av \<noteq> []" "0 \<le> i"
  shows "mset (rotate_to (nat (i mod int (length av))) (by_weight av)) = mset av"
proof -
  have "nat (i mod int (length av)) < length (by_weight av)"
    using assms by (simp add: nat_less_iff)
  then show ?thesis by (simp add: mset_rotate_to)
qed

lemma rotate_to_permutation_any:
  assumes "av \<noteq> []"
  shows "mset (rotate_to (nat (i mod int (length av))) (by_weight av)) = mset av"
proof -
  have "0 \<le> i mod int (length av)" "i mod int (length av) < int (length av)" using assms by simp_all
  then have "nat (i mod int (length av)) < length (by_weight av)" by (simp add: nat_less_iff)
  then show ?thesis by (simp add: mset_rotate_to)
qed

lemma select_frames:
  assumes "wf_gw g"
  shows "wf_gw (snd (select_sequential env msgs gid t mt kw g)) \<and>
      same_permits g (snd (select_sequential env msgs gid t mt kw g)) \<and>
      gw_db (snd (select_sequential env msgs gid t mt kw g)) = gw_db g"
    and "wf_gw (snd (select_round_robin env msgs gid t mt kw g)) \<and>
      same_permits g (snd (select_round_robin env msgs gid t mt kw g)) \<and>
      gw_db (snd (select_round_robin env msgs gid t mt kw g)) = gw_db g"
proof -
  obtain r g1 where av: "available_endpoints env gid g = (r, g1)" by (metis prod.collapse)
  note spec = available_endpoints_spec(1) [OF assms av]
  then show "wf_gw (snd (select_sequential env msgs gid t mt kw g)) \<and>
      same_permits g (snd (select_sequential env msgs gid t mt kw g)) \<and>
      gw_db (snd (select_sequential env msgs gid t mt kw g)) = gw_db g"
    by (simp add: select_sequential_def av split: sum.splits)
  from spec show "wf_gw (snd (select_round_robin env msgs gid t mt kw g)) \<and>
      same_permits g (snd (select_round_robin env msgs gid t mt kw g)) \<and>
      gw_db (snd (select_round_robin env msgs gid t mt kw g)) = gw_db g"
    by (simp add: select_round_robin_def av Let_def case_prod_beta split: sum.splits)
qed

lemma select_round_robin_ok:
  assumes "wf_gw g" "select_round_robin env msgs gid t mt kw g = (Inr rr, g')"
  shows "\<exists>av g1. available_endpoints env gid g = (Inr av, g1) \<and> rr_endpoints rr \<noteq> [] \<and>
        distinct (map ep_model_id (rr_endpoints rr)) \<and> set (rr_endpoints rr) \<subseteq> set av"
  using select_round_robin_queue [OF assms] queue_of_permutation [OF assms(1)] available_endpoints_spec(2) [OF assms(1)]
    rotate_to_permutation_any by metis

lemma select_sequential_ok:
  assumes "wf_gw g" "select_sequential env msgs gid t mt kw g = (Inr rr, g')"
  shows "\<exists>av g1. available_endpoints env gid g = (Inr av, g1) \<and> rr_endpoints rr \<noteq> [] \<and>
        distinct (map ep_model_id (rr_endpoints rr)) \<and> set (rr_endpoints rr) \<subseteq> set av"
  using select_sequential_queue [OF assms(2)] queue_of_permutation [OF assms(1)] by (metis mset_by_weight)

lemma select_arguments:
  "select_random_weights env msgs gid t mt kw g = (Inr rr, g') \<Longrightarrow>
     rr_temperature rr = t \<and> rr_max_tokens rr = mt \<and> rr_extra_kwargs rr = kw"
  "select_round_robin env msgs gid t mt kw g = (Inr rr, g') \<Longrightarrow>
     rr_temperature rr = t \<and> rr_max_tokens rr = mt \<and> rr_extra_kwargs rr = kw"
  "select_sequential env msgs gid t mt kw g = (Inr rr, g') \<Longrightarrow>
     rr_temperature rr = t \<and> rr_max_tokens rr = mt \<and> rr_extra_kwargs rr = kw"
  by (auto simp: select_random_weights_def select_round_robin_def select_sequential_def finish_selection_Inr Let_def
      split: sum.splits prod.splits)

interpretation random_weights: routing_strategy env "select_random_weights env" for env :: "'w env"
  by unfold_locales (rule select_random_weights_cases select_arguments; assumption)+

interpretation round_robin: routing_strategy env "select_round_robin env" for env :: "'w env"
  by unfold_locales (rule select_round_robin_ok select_arguments select_frames; assumption)+

interpretation sequential: routing_strategy env "select_sequential env" for env :: "'w env"
  by unfold_locales (rule select_sequential_ok select_arguments select_frames; assumption)+

subsection \<open>Properties of the strategies\<close>

lemma registered_strategy:
  assumes "map_of (strategy_registry env) name = Some select"
  shows "routing_strategy env select \<or> select = select_langgraph env"
  using assms random_weights.routing_strategy_axioms round_robin.routing_strategy_axioms sequential.routing_strategy_axioms
  by (auto simp: strategy_registry_def split: if_splits)

text \<open>C7: every registered strategy hands the engine a sound queue. On a gateway whose database and cache
  are well-formed, a selection that succeeds gives a queue that is not empty, in which no model comes
  twice and no endpoint is on cooldown at that moment; it leaves the database and every semaphore permit as
  they were and keeps the gateway well-formed.\<close>

theorem strategy_queue_sound:
  assumes "wf_gw g" and "map_of (strategy_registry env) name = Some select"
    and "select msgs gid t mt kw g = (Inr rr, g')"
  shows "rr_endpoints rr \<noteq> [] \<and> distinct (map ep_model_id (rr_endpoints rr)) \<and>
    (\<forall>ep \<in> set (rr_endpoints rr). \<not> blocked (mono_now env g) (gw_cooldown g) (gid, ep_model_id ep)) \<and>
    gw_db g' = gw_db g \<and> same_permits g g' \<and> wf_gw g'"
proof -
  have contract: "routing_strategy env select"
    using registered_strategy [OF assms(2)] assms(3) by (auto simp: select_langgraph_def)
  show ?thesis
    using routing_strategy.select_queue [OF contract assms(1,3)]
      routing_strategy.queue_not_blocked [OF contract assms(1,3)]
      routing_strategy.select_frame [OF contract assms(1), of msgs gid t mt kw] assms(3) by auto
qed

text \<open>A gateway whose cache holds two endpoints of group 1, with weights 1 and 4.\<close>

definition sample_queue :: "endpoint list" where
  "sample_queue = [\<lparr>ep_detail = with_weight 1 1, ep_provider = sample_inst\<rparr>, \<lparr>ep_detail = with_weight 2 4, ep_provider = sample_inst\<rparr>]"

definition sample_gw :: "int gw" where
  "sample_gw = (empty_gw 0)\<lparr>gw_endpoint_cache := [(1, (sample_queue, 0))]\<rparr>"

lemma wf_sample_gw: "wf_gw sample_gw"
  by (simp add: wf_gw_def sample_gw_def empty_gw_def sample_queue_def with_weight_def ep_model_id_def)

lemma sample_load: "load_endpoints flaky_env 1 sample_gw = (Inr sample_queue, sample_gw)"
  by (simp add: load_endpoints_def ttl_get_def sample_gw_def empty_gw_def flaky_env_def endpoint_cache_ttl_def)

lemma sample_filter: "filter_available flaky_env sample_queue 1 sample_gw = (sample_queue, sample_gw)"
  by (simp add: sample_queue_def check_cooldown_def is_on_cooldown_def sample_gw_def empty_gw_def)

lemma sample_available: "available_endpoints flaky_env 1 sample_gw = (Inr sample_queue, sample_gw)"
  by (simp add: available_endpoints_def sample_load sample_filter) (simp add: sample_queue_def)

lemma sample_truncate: "truncate_messages flaky_env [] (by_weight sample_queue) None = Inr []"
  "truncate_messages flaky_env [] sample_queue None = Inr []"
  by (simp_all add: truncate_messages_def sample_queue_def with_weight_def by_weight_def)

lemma sample_sequential:
  "select_sequential flaky_env [] 1 JNull None [] sample_gw =
     (Inr \<lparr>rr_endpoints = rev sample_queue, rr_messages = [], rr_temperature = JNull, rr_max_tokens = None,
           rr_extra_kwargs = []\<rparr>, sample_gw)"
  by (simp add: select_sequential_def sample_available finish_selection_def sample_truncate)
    (simp add: sample_queue_def by_weight_def with_weight_def)

theorem strategy_queue_sound_witness:
  "distinct (map ep_model_id (rev sample_queue)) \<and>
   \<not> blocked (mono_now flaky_env sample_gw) (gw_cooldown sample_gw) (1, ep_model_id (hd (rev sample_queue)))"
proof -
  have "map_of (strategy_registry flaky_env) ''sequential'' = Some (select_sequential flaky_env)"
    by (simp add: strategy_registry_def)
  from strategy_queue_sound [OF wf_sample_gw this sample_sequential] show ?thesis by (simp add: sample_queue_def)
qed

text \<open>No endpoint is forgotten. The queue of the sequential and of the round-robin strategy is a
  permutation of the available endpoints, so is the queue of the random strategy when all weights are
  positive, whatever is drawn; the sequential queue is sorted by falling weight, and endpoints of equal
  weight keep the order of the database.\<close>

lemma strategy_queue_complete:
  assumes "wf_gw g" and "available_endpoints env gid g = (Inr av, g1)"
  shows "(select_sequential env msgs gid t mt kw g = (Inr rr, g') \<longrightarrow>
      mset (rr_endpoints rr) = mset av \<and>
      sorted_wrt (\<lambda>a b. d_weight (ep_detail a) \<ge> d_weight (ep_detail b)) (rr_endpoints rr) \<and>
      (\<forall>x. filter (\<lambda>ep. d_weight (ep_detail ep) = x) (rr_endpoints rr) = filter (\<lambda>ep. d_weight (ep_detail ep) = x) av)) \<and>
    (select_round_robin env msgs gid t mt kw g = (Inr rr, g') \<longrightarrow> mset (rr_endpoints rr) = mset av) \<and>
    (select_random_weights env msgs gid t mt kw g = (Inr rr, g') \<and> (\<forall>ep \<in> set av. d_weight (ep_detail ep) > 0) \<longrightarrow>
      mset (rr_endpoints rr) = mset av)"
proof (intro conjI impI)
  note av = available_endpoints_spec(2) [OF assms refl]
  assume "select_round_robin env msgs gid t mt kw g = (Inr rr, g')"
  then show "mset (rr_endpoints rr) = mset av"
    using select_round_robin_queue [OF assms(1)] assms(2) av rotate_to_permutation_any by fastforce
next
  note av = available_endpoints_spec(2) [OF assms refl]
  assume "select_random_weights env msgs gid t mt kw g = (Inr rr, g') \<and> (\<forall>ep \<in> set av. d_weight (ep_detail ep) > 0)"
  then show "mset (rr_endpoints rr) = mset av"
    using random_queue_positive [of av env "gw_world g1"] av assms(2)
    by (auto simp: select_random_weights_def finish_selection_Inr split: sum.splits prod.splits)
next
  assume "select_sequential env msgs gid t mt kw g = (Inr rr, g')"
  then have rr: "rr_endpoints rr = by_weight av" using select_sequential_queue assms(2) by fastforce
  then show "mset (rr_endpoints rr) = mset av" by simp
  show "sorted_wrt (\<lambda>a b. d_weight (ep_detail a) \<ge> d_weight (ep_detail b)) (rr_endpoints rr)"
    using sorted_sort_key [of "\<lambda>ep. - d_weight (ep_detail ep)" av] by (simp add: rr by_weight_def sorted_map)
  show "\<forall>x. filter (\<lambda>ep. d_weight (ep_detail ep) = x) (rr_endpoints rr) = filter (\<lambda>ep. d_weight (ep_detail ep) = x) av"
  proof
    fix x
    show "filter (\<lambda>ep. d_weight (ep_detail ep) = x) (rr_endpoints rr) = filter (\<lambda>ep. d_weight (ep_detail ep) = x) av"
      using sort_key_stable [of "\<lambda>ep. - d_weight (ep_detail ep)" "- x" av] by (simp add: rr by_weight_def)
  qed
qed

subsection \<open>Round robin\<close>

text \<open>The counter after \<open>k\<close> selections among \<open>n\<close> endpoints.\<close>

definition rr_counter :: "int \<Rightarrow> int \<Rightarrow> nat \<Rightarrow> int" where
  "rr_counter n idx k = ((\<lambda>c. snd (rr_step n c)) ^^ k) idx"

lemma rr_counter_Suc [simp]: "rr_counter n idx (Suc k) = snd (rr_step n (rr_counter n idx k))"
  by (simp add: rr_counter_def)

lemma rr_counter_mod: "rr_counter n idx k mod n = (idx + int k) mod n"
proof (induction k)
  case 0
  then show ?case by (simp add: rr_counter_def)
next
  case (Suc k)
  have "rr_counter n idx (Suc k) mod n = (rr_counter n idx k + 1) mod n"
    by (simp add: rr_step_def mod_mod_cancel)
  also have "\<dots> = (idx + int k + 1) mod n" by (metis Suc mod_add_left_eq)
  finally show ?case by (simp add: ac_simps)
qed

text \<open>Round robin is fair. As long as the number \<open>n\<close> of available endpoints stays the same, any \<open>n\<close>
  selections in a row, from whatever counter and across its wrap-around at \<open>1000 n\<close>, put each position of
  the weight order first exactly once; and the counter stays below \<open>1000 n\<close>.\<close>

lemma round_robin_fair:
  assumes "0 < n"
  shows "bij_betw (\<lambda>k. fst (rr_step (int n) (rr_counter (int n) idx (start + k)))) {..<n} {0..<int n} \<and>
    (0 < k \<longrightarrow> rr_counter (int n) idx k \<in> {0..<1000 * int n})"
proof -
  have eq: "fst (rr_step (int n) (rr_counter (int n) idx j)) = (idx + int j) mod int n" for j
    by (simp add: rr_step_def rr_counter_mod)
  have "inj_on (\<lambda>k. (idx + int (start + k)) mod int n) {..<n}"
  proof (rule inj_onI)
    fix a b
    assume ab: "a \<in> {..<n}" "b \<in> {..<n}" and "(idx + int (start + a)) mod int n = (idx + int (start + b)) mod int n"
    then have "int n dvd (idx + int (start + a)) - (idx + int (start + b))"
      by (simp only: mod_eq_dvd_iff)
    then have "int n dvd int a - int b" by simp
    then have "int a - int b = 0 \<or> \<bar>int n\<bar> \<le> \<bar>int a - int b\<bar>" using dvd_imp_le_int by blast
    then show "a = b" using ab by auto
  qed
  moreover have "(\<lambda>k. (idx + int (start + k)) mod int n) ` {..<n} \<subseteq> {0..<int n}"
    using assms by auto
  ultimately have "bij_betw (\<lambda>k. (idx + int (start + k)) mod int n) {..<n} {0..<int n}"
    by (intro bij_betw_imageI card_subset_eq) (simp_all add: card_image)
  moreover have "0 < k \<Longrightarrow> rr_counter (int n) idx k \<in> {0..<1000 * int n}"
    using assms by (cases k) (simp_all add: rr_step_def mult.commute)
  ultimately show ?thesis by (simp add: eq)
qed

text \<open>The selection advances that counter. A successful round-robin selection puts first the endpoint
  whose position in the weight order is the counter's, then the others in weight order, and stores the next
  counter value for this group.\<close>

lemma round_robin_selects_counter:
  assumes "wf_gw g" and "available_endpoints env gid g = (Inr av, g1)"
    and "select_round_robin env msgs gid t mt kw g = (Inr rr, g')"
    and "idx = (case map_of (gw_counters g) gid of None \<Rightarrow> 0 | Some c \<Rightarrow> c)"
    and "rr_step (int (length av)) idx = (i, idx')"
  shows "hd (rr_endpoints rr) = by_weight av ! nat i \<and>
    tl (rr_endpoints rr) = take (nat i) (by_weight av) @ drop (Suc (nat i)) (by_weight av) \<and>
    map_of (gw_counters g') gid = Some idx'"
proof -
  note av = available_endpoints_spec(2) [OF assms(1,2) refl]
  have i: "i = idx mod int (length av)" and idx': "idx' = (idx + 1) mod (int (length av) * 1000)"
    using assms(5) by (simp_all add: rr_step_def)
  have rr: "rr_endpoints rr = rotate_to (nat i) (by_weight av)" "map_of (gw_counters g') gid = Some idx'"
    using select_round_robin_queue [OF assms(1,3)] assms(2,4) i idx' by auto
  have "0 \<le> i" "i < int (length av)" using av by (simp_all add: i)
  then have lt: "nat i < length (by_weight av)" by (simp add: nat_less_iff)
  have "filter (\<lambda>j. j \<noteq> nat i) [0..<length (by_weight av)] = [0..<nat i] @ [Suc (nat i)..<length (by_weight av)]"
    using lt by (rule filter_upt_neq)
  moreover have "map ((!) (by_weight av)) [0..<nat i] = take (nat i) (by_weight av)"
    by (rule nth_equalityI) (use lt in simp_all)
  moreover have "map ((!) (by_weight av)) [Suc (nat i)..<length (by_weight av)] = drop (Suc (nat i)) (by_weight av)"
    by (rule nth_equalityI) simp_all
  ultimately show ?thesis using rr by (simp add: rotate_to_def)
qed

lemma sample_round_robin:
  "select_round_robin flaky_env [] 1 JNull None [] (sample_gw\<lparr>gw_counters := [(1, 1999)]\<rparr>) =
     (Inr \<lparr>rr_endpoints = sample_queue, rr_messages = [], rr_temperature = JNull, rr_max_tokens = None,
           rr_extra_kwargs = []\<rparr>, sample_gw\<lparr>gw_counters := [(1, 0)]\<rparr>)"
  "available_endpoints flaky_env 1 (sample_gw\<lparr>gw_counters := [(1, 1999)]\<rparr>) = (Inr sample_queue, sample_gw\<lparr>gw_counters := [(1, 1999)]\<rparr>)"
proof -
  have "load_endpoints flaky_env 1 (sample_gw\<lparr>gw_counters := [(1, 1999)]\<rparr>) = (Inr sample_queue, sample_gw\<lparr>gw_counters := [(1, 1999)]\<rparr>)"
    by (simp add: load_endpoints_def ttl_get_def sample_gw_def empty_gw_def flaky_env_def endpoint_cache_ttl_def)
  moreover have "filter_available flaky_env sample_queue 1 (sample_gw\<lparr>gw_counters := [(1, 1999)]\<rparr>) =
      (sample_queue, sample_gw\<lparr>gw_counters := [(1, 1999)]\<rparr>)"
    by (simp add: sample_queue_def check_cooldown_def is_on_cooldown_def sample_gw_def empty_gw_def)
  ultimately show av: "available_endpoints flaky_env 1 (sample_gw\<lparr>gw_counters := [(1, 1999)]\<rparr>) =
      (Inr sample_queue, sample_gw\<lparr>gw_counters := [(1, 1999)]\<rparr>)"
    by (simp add: available_endpoints_def) (simp add: sample_queue_def)
  have "by_weight sample_queue = rev sample_queue" "rotate_to 1 (rev sample_queue) = sample_queue" "length sample_queue = 2"
    by (simp_all add: sample_queue_def by_weight_def with_weight_def rotate_to_def upt_rec)
  then show "select_round_robin flaky_env [] 1 JNull None [] (sample_gw\<lparr>gw_counters := [(1, 1999)]\<rparr>) =
     (Inr \<lparr>rr_endpoints = sample_queue, rr_messages = [], rr_temperature = JNull, rr_max_tokens = None,
           rr_extra_kwargs = []\<rparr>, sample_gw\<lparr>gw_counters := [(1, 0)]\<rparr>)"
    using sample_truncate(1)
    by (simp add: select_round_robin_def av finish_selection_def rr_step_def Let_def)
qed

subsection \<open>Weights of zero\<close>

lemma single_positive_pick:
  "filter (\<lambda>m. d_weight m > 0) ms = [p] \<Longrightarrow> 0 \<le> d_weight p \<and> total_weight ms = d_weight p \<and>
     (r < d_weight p \<longrightarrow> pick_by_weight r 0 ms = Some p)"
proof (induction ms)
  case (Cons m ms)
  show ?case
  proof (cases "d_weight m > 0")
    case True
    then have "p = m" "filter (\<lambda>m. d_weight m > 0) ms = []" using Cons.prems by auto
    moreover have "total_weight ms = 0" using \<open>filter _ ms = []\<close> by (simp add: total_weight_def)
    ultimately show ?thesis using True by simp
  next
    case False
    then show ?thesis using Cons by simp
  qed
qed simp

text \<open>A member of weight 0 takes its whole group down. If the available endpoints of a
  random-weights group are one of positive weight and at least one of weight 0 or less, every request fails
  with \<open>NoAvailableModelError\<close>, although the endpoint of positive weight was selected: ordering the
  remaining ones by weight raises, since none of them has any. (The draw is below its upper bound.)\<close>

lemma zero_weight_member_fails_group:
  assumes "wf_gw g" and "available_endpoints env gid g = (Inr av, g1)"
    and "filter (\<lambda>ep. d_weight (ep_detail ep) > 0) av = [p]" and "2 \<le> length av"
    and "\<forall>b w. 0 < b \<longrightarrow> fst (e_uniform env 0 b w) < b"
  shows "fst (select_random_weights env msgs gid t mt kw g) = Inl no_weight_error"
proof -
  note av = available_endpoints_spec(2) [OF assms(1,2) refl]
  have p: "p \<in> set av" "d_weight (ep_detail p) > 0" using assms(3) by (auto simp: filter_eq_Cons_iff)
  have single: "filter (\<lambda>m. d_weight m > 0) (map ep_detail av) = [ep_detail p]" by (simp add: assms(3))
  obtain r w' where u: "e_uniform env 0 (d_weight (ep_detail p)) (gw_world g1) = (r, w')" by (metis prod.collapse)
  then have "r < d_weight (ep_detail p)" using assms(5) p(2) by (metis fst_conv)
  then have sel: "weighted_random_select (e_uniform env) (map ep_detail av) (gw_world g1) = (Inr (ep_detail p), w')"
    using single_positive_pick [OF single, of r] p(2) u by (simp add: weighted_random_select_def)
  let ?rem = "filter (\<lambda>ep. ep_model_id ep \<noteq> d_model_id (ep_detail p)) av"
  have "?rem \<noteq> []"
  proof
    assume "?rem = []"
    then have "\<forall>ep \<in> set av. ep_model_id ep = ep_model_id p" by (auto simp: filter_empty_conv ep_model_id_def)
    then have "set (map ep_model_id av) \<subseteq> {ep_model_id p}" by auto
    then have "card (set (map ep_model_id av)) \<le> 1" by (metis card.empty card_insert_disjoint card_mono empty_iff finite.emptyI finite_insert One_nat_def)
    moreover have "card (set (map ep_model_id av)) = length av" using av distinct_card by fastforce
    ultimately show False using assms(4) by simp
  qed
  moreover have "filter (\<lambda>ep. d_weight (ep_detail ep) > 0) ?rem = []"
  proof -
    have "filter (\<lambda>ep. d_weight (ep_detail ep) > 0) ?rem = filter (\<lambda>ep. ep_model_id ep \<noteq> d_model_id (ep_detail p)) [p]"
      unfolding assms(3) [symmetric] filter_filter by (rule filter_cong) auto
    then show ?thesis by (simp add: ep_model_id_def)
  qed
  then have "weighted_random_order (e_uniform env) (map ep_detail ?rem) w' = (Inl no_weight_error, w')"
    by (simp add: weighted_random_order_def)
  ultimately show ?thesis
    using assms(2) by (simp add: select_random_weights_def random_queue_def sel Let_def)
qed

definition zero_weight_queue :: "endpoint list" where
  "zero_weight_queue = [\<lparr>ep_detail = with_weight 1 1, ep_provider = sample_inst\<rparr>, \<lparr>ep_detail = with_weight 2 0, ep_provider = sample_inst\<rparr>]"

end
