(* ===== verification/Engine_Facts.thy ===== *)
theory Engine_Facts
  imports Graph Strategy_Facts
begin

text \<open>
  Properties of the engine: the fast path agrees with the graph path for chat calls and for streams; the
  audit trail of a failed group; a stream that has sent a chunk is never recoverable; no permit of a
  provider semaphore leaks, wherever the consumer of a stream stops; the legacy entry ends.
\<close>

subsection \<open>The executor\<close>

text \<open>An executor exists: the three paths through the graph, written out.\<close>

definition run_to_end :: "'w env \<Rightarrow> 'w executor" where
  "run_to_end env req wr n s g =
     (let finish = (\<lambda>s g. run_node env req wr FinalizeError s g);
          call = (\<lambda>s g. case run_node env req wr TryCall s g of
             (Inl e, g1) \<Rightarrow> (Inl e, g1)
           | (Inr s1, g1) \<Rightarrow> if rs_result s1 \<noteq> None then (Inr s1, g1) else finish s1 g1);
          stream = (\<lambda>s g. run_node env req wr TryStream s g)
      in case n of
           FinalizeError \<Rightarrow> finish s g | TryCall \<Rightarrow> call s g | TryStream \<Rightarrow> stream s g
         | SelectEndpoints \<Rightarrow>
             (case run_node env req wr SelectEndpoints s g of
                (Inl e, g1) \<Rightarrow> (Inl e, g1)
              | (Inr s1, g1) \<Rightarrow>
                  if rs_error s1 \<noteq> NoError then finish s1 g1 else if rs_stream s1 then stream s1 g1 else call s1 g1))"

lemma run_to_end_executes: "executes_graph env (run_to_end env)"
  unfolding executes_graph_def
proof (intro allI)
  fix req wr n s and g :: "'a gw"
  show "run_to_end env req wr n s g = (case run_node env req wr n s g of (Inl e, g1) \<Rightarrow> (Inl e, g1)
    | (Inr s1, g1) \<Rightarrow> (case next_node n s1 of None \<Rightarrow> (Inr s1, g1) | Some n1 \<Rightarrow> run_to_end env req wr n1 s1 g1))"
    by (cases n) (auto simp: run_to_end_def Let_def split: prod.splits sum.splits)
qed

lemma executes_graphD:
  "executes_graph env invoke \<Longrightarrow> invoke req wr n s g =
        (case run_node env req wr n s g of
           (Inl e, g1) \<Rightarrow> (Inl e, g1)
         | (Inr s1, g1) \<Rightarrow> (case next_node n s1 of None \<Rightarrow> (Inr s1, g1) | Some n1 \<Rightarrow> invoke req wr n1 s1 g1))"
  unfolding executes_graph_def by blast

subsection \<open>Chat: fast path and graph path\<close>

lemma call_llm_routing:
  assumes "call_llm env ep msgs gid t mt kw g = (Inr (Some d, err), g1)"
  shows "dget d ''_routing'' JNull = routing_info ep"
proof -
  have "fst (attempt_chat env b ep args gid n k err0 g) = (Some d, err) \<Longrightarrow> dget d ''_routing'' JNull = routing_info ep"
    for b args n k err0 and g :: "'a gw"
    unfolding attempt_chat_outcome by (auto simp: Let_def split: prod.splits)
  with assms show ?thesis
    by (auto simp: call_llm_def Let_def split: sum.splits prod.splits option.splits) (metis fst_conv)+
qed

text \<open>The graph's loop, from index \<open>idx\<close> on, against the fast path's loop over the rest of the queue.\<close>

lemma call_loop_fast:
  assumes "rs_error s = NoError" "rs_endpoints s = done @ todo" "idx = length done"
    and "fst (rs_group s) = gid" "rs_truncated s = msgs" "rs_temperature s = t" "rs_max_tokens s = mt" "rs_extra_kwargs s = kw"
  shows "case run_queue_fast env gid msgs t mt kw idx todo attempts lm lp g of
      (Inr r, g1) \<Rightarrow> \<exists>s1. call_loop env s idx attempts lm lp g = (Inr s1, g1) \<and> rs_error s1 = NoError \<and>
          rs_result s1 = Some (ChatDict (cr_response r)) \<and> rs_attempts s1 = cr_attempts r
    | (Inl e, g1) \<Rightarrow> call_loop env s idx attempts lm lp g = (Inl e, g1) \<or>
        (\<exists>as lm' lp'. e = (mk_exc ProviderError all_failed_message)\<lparr>exc_attempts := Some as, exc_used_model := lm',
             exc_used_provider := lp'\<rparr> \<and>
          call_loop env s idx attempts lm lp g = (Inr (s\<lparr>rs_endpoints := [], rs_current_ep_idx := 0, rs_attempts := as,
            rs_used_model := lm', rs_used_provider := lp', rs_error := RawText all_failed_message,
            rs_recoverable := Some True\<rparr>), g1))"
  using assms(2,3)
proof (induction todo arbitrary: "done" idx attempts lm lp g)
  case Nil
  then show ?case
    by (subst call_loop.simps) (auto simp: assms(1))
next
  case (Cons ep todo)
  have nth: "rs_endpoints s ! idx = ep" "idx < length (rs_endpoints s)" using Cons.prems by simp_all
  obtain r ms g1 where tc: "timed_call env gid msgs t mt kw ep g = ((r, ms), g1)" by (metis prod.collapse)
  show ?case
  proof (cases r)
    case (Inl e)
    then show ?thesis using nth by (subst call_loop.simps) (simp add: tc assms(4-8) Let_def)
  next
    case (Inr a)
    obtain d err where a: "a = (d, err)" by (cases a)
    show ?thesis
    proof (cases d)
      case (Some d')
      then show ?thesis using nth Inr a by (subst call_loop.simps) (simp add: tc assms(4-8) Let_def)
    next
      case None
      have "call_loop env s idx attempts lm lp g =
          call_loop env s (Suc idx) (attempts @ [call_attempt_row gid ep idx err ms]) (Some (ep_model_id ep))
            (Some (ep_provider_id ep)) g1"
        using nth Inr a None by (subst call_loop.simps) (simp add: tc assms(4-8) Let_def)
      moreover have "run_queue_fast env gid msgs t mt kw idx (ep # todo) attempts lm lp g =
          run_queue_fast env gid msgs t mt kw (Suc idx) todo (attempts @ [call_attempt_row gid ep idx err ms])
            (Some (ep_model_id ep)) (Some (ep_provider_id ep)) g1"
        using Inr a None by (simp add: tc)
      moreover have "rs_endpoints s = (done @ [ep]) @ todo" "Suc idx = length (done @ [ep])" using Cons.prems by simp_all
      ultimately show ?thesis
        using Cons.IH [of "done @ [ep]" "Suc idx" "attempts @ [call_attempt_row gid ep idx err ms]" "Some (ep_model_id ep)"
            "Some (ep_provider_id ep)" g1] by (simp only:)
    qed
  qed
qed

text \<open>C4: the direct path is the graph. For every queue a strategy can return, running the group
  directly gives the same response, the same audit trail, the same error with the same attributes, and the
  same gateway state as running the LangGraph graph with that queue preselected.\<close>

theorem fast_chat_is_graph_chat:
  assumes "executes_graph env invoke" and "rr_endpoints rr \<noteq> []"
  shows "run_one env invoke grp msgs t mt has_request kw (Some rr) g = run_one_fast env grp t mt kw rr g"
proof -
  let ?s = "initial_state grp msgs False t mt kw (Some rr)"
  have sel: "run_node env has_request False SelectEndpoints ?s g = (Inr ?s, g)"
    using assms(2) by (simp add: run_node_def select_node_def initial_state_def)
  have nxt: "next_node SelectEndpoints ?s = Some TryCall" by (simp add: initial_state_def)
  have go: "invoke has_request False SelectEndpoints ?s g = invoke has_request False TryCall ?s g"
    unfolding executes_graphD [OF assms(1), of has_request False SelectEndpoints] sel by (simp only: prod.case sum.case nxt option.case)
  have call: "run_node env has_request False TryCall ?s g = call_loop env ?s 0 [] None None g"
    by (simp add: run_node_def try_call_def initial_state_def)
  have inv: "invoke has_request False TryCall ?s g = (case call_loop env ?s 0 [] None None g of
      (Inl e, g1) \<Rightarrow> (Inl e, g1)
    | (Inr s1, g1) \<Rightarrow> if rs_result s1 \<noteq> None then (Inr s1, g1) else invoke has_request False FinalizeError s1 g1)"
    unfolding executes_graphD [OF assms(1), of has_request False TryCall] call
    by (auto split: sum.splits prod.splits)
  have fin: "invoke has_request False FinalizeError s1 g1 = (Inr (finalize_error (e_str env) s1), g1)" for s1 g1
    unfolding executes_graphD [OF assms(1), of has_request False FinalizeError] by (simp add: run_node_def)
  obtain r g1 where fast: "run_queue_fast env (fst grp) (rr_messages rr) t mt kw 0 (rr_endpoints rr) [] None None g = (r, g1)"
    by (metis prod.collapse)
  note loop = call_loop_fast [of ?s "[]" "rr_endpoints rr" 0 "fst grp" "rr_messages rr" t mt kw env "[]" None None g,
      unfolded fast]
  have init: "rs_error ?s = NoError" "rs_endpoints ?s = [] @ rr_endpoints rr" "fst (rs_group ?s) = fst grp"
      "rs_truncated ?s = rr_messages rr" "rs_temperature ?s = t" "rs_max_tokens ?s = mt" "rs_extra_kwargs ?s = kw" "rs_result ?s = None"
    by (simp_all add: initial_state_def)
  show ?thesis
  proof (cases r)
    case (Inr res)
    obtain s1 where s1: "call_loop env ?s 0 [] None None g = (Inr s1, g1)" "rs_error s1 = NoError"
        "rs_result s1 = Some (ChatDict (cr_response res))" "rs_attempts s1 = cr_attempts res"
      using loop init Inr by auto
    then show ?thesis
      using Inr by (simp add: run_one_def go inv run_one_fast_def fast result_dict_def)
  next
    case (Inl e)
    show ?thesis
    proof (cases "call_loop env ?s 0 [] None None g = (Inl e, g1)")
      case True
      then show ?thesis using Inl by (simp add: run_one_def go inv run_one_fast_def fast)
    next
      case False
      then obtain as lm' lp' where e: "e = (mk_exc ProviderError all_failed_message)\<lparr>exc_attempts := Some as,
             exc_used_model := lm', exc_used_provider := lp'\<rparr>" and
          c: "call_loop env ?s 0 [] None None g = (Inr (?s\<lparr>rs_endpoints := [], rs_current_ep_idx := 0, rs_attempts := as,
            rs_used_model := lm', rs_used_provider := lp', rs_error := RawText all_failed_message,
            rs_recoverable := Some True\<rparr>), g1)"
        using loop init Inl by auto
      have "lm' = None \<and> lp' = None \<or> lm' \<noteq> None \<or> lp' \<noteq> None" by blast
      moreover have "final_error (e_str env) (finalize_error (e_str env) (?s\<lparr>rs_endpoints := [], rs_current_ep_idx := 0,
            rs_attempts := as, rs_used_model := lm', rs_used_provider := lp', rs_error := RawText all_failed_message,
            rs_recoverable := Some True\<rparr>)) = e"
        by (auto simp: final_error_def finalize_error_def raise_routing_error_def error_message_def e all_failed_message_def
            Let_def mk_exc_def)
      ultimately show ?thesis
        using Inl by (simp add: run_one_def go inv c init(8) fin run_one_fast_def fast)
          (simp add: finalize_error_def Let_def)
    qed
  qed
qed

lemma resolve_sample [simp]: "d_extra_config (ep_detail sample_endpoint) = []"
  by (simp add: sample_endpoint_def with_weight_def)

definition sample_route :: "endpoint list \<Rightarrow> route_result" where
  "sample_route eps = \<lparr>rr_endpoints = eps, rr_messages = [], rr_temperature = JNull, rr_max_tokens = None, rr_extra_kwargs = []\<rparr>"

theorem fast_chat_is_graph_chat_witness:
  "run_one flaky_env (run_to_end flaky_env) (1, sample_group) [] JNull None False [] (Some (sample_route [sample_endpoint])) (empty_gw 0) =
   run_one_fast flaky_env (1, sample_group) JNull None [] (sample_route [sample_endpoint]) (empty_gw 0)"
  by (rule fast_chat_is_graph_chat [OF run_to_end_executes]) (simp add: sample_route_def)

subsection \<open>Streams: fast path and graph path\<close>

text \<open>All the events of a generator, for a consumer that does nothing in between.\<close>

function drain :: "'w env \<Rightarrow> bool \<Rightarrow> gen \<Rightarrow> 'w gw \<Rightarrow> event list \<times> 'w gw" where
  "drain env req gn g =
     (case gen_next env req gn g of
        (None, gn1, g1) \<Rightarrow> ([], g1)
      | (Some ev, gn1, g1) \<Rightarrow> (let (evs, g2) = drain env req gn1 g1 in (ev # evs, g2)))"
  by pat_completeness auto
termination
  by (relation "measures [\<lambda>(env, req, gn, g). gen_phase gn, \<lambda>(env, req, gn, g). gen_left gn]")
    (auto dest: gen_next_decreases [OF sym])

declare drain.simps [simp del]

lemma drain_GEnd [simp]: "drain env req GEnd g = ([], g)"
  by (simp add: drain.simps)

lemma push_chunks_acc:
  "push_chunks env req ep cs en b emitted g =
     (let ((em, ok), g1) = push_chunks env req ep cs en b [] g in ((emitted @ em, ok), g1))"
proof (induction cs arbitrary: emitted g)
  case (Cons c cs)
  obtain gone g1 where p: "poll env req g = (gone, g1)" by (metis prod.collapse)
  have "push_chunks env req ep cs en b (emitted @ [c]) (wait_chunk env g1) =
      (let ((em, ok), g1) = push_chunks env req ep cs en b [c] (wait_chunk env g1) in ((emitted @ em, ok), g1))"
    unfolding Cons [of "emitted @ [c]"] Cons [of "[c]"] by (simp add: Let_def case_prod_beta)
  then show ?case by (simp add: p)
qed simp

lemma drain_offer:
  "offer_chunk env req ep c rest en b attempts g = (ev, gn, g1) \<Longrightarrow> drain env req gn g1 = (evs, g2) \<Longrightarrow>
   push_chunks env req ep (c # rest) en b [] g = ((em, ok), g3) \<Longrightarrow>
   the ev # evs = map ChunkEv em @ [StateEv (committed ok ep attempts)] \<and> g2 = g3 \<and> ev \<noteq> None"
proof (induction rest arbitrary: c g ev gn g1 evs g2 em ok g3)
  case Nil
  obtain gone h where p: "poll env req g = (gone, h)" by (metis prod.collapse)
  show ?case
  proof (cases gone)
    case True
    then show ?thesis using Nil p by (auto simp: offer_chunk_def)
  next
    case False
    then have "gn = GStream ep [] en b attempts" "g1 = h" "ev = Some (ChunkEv c)" using Nil p by (auto simp: offer_chunk_def)
    then show ?thesis using Nil p False by (auto simp: drain.simps [of env req "GStream ep [] en b attempts"] Let_def)
  qed
next
  case (Cons c' rest)
  obtain gone h where p: "poll env req g = (gone, h)" by (metis prod.collapse)
  show ?case
  proof (cases gone)
    case True
    then show ?thesis using Cons.prems p by (auto simp: offer_chunk_def)
  next
    case False
    then have gn: "gn = GStream ep (c' # rest) en b attempts" "g1 = h" "ev = Some (ChunkEv c)"
      using Cons.prems p by (auto simp: offer_chunk_def)
    obtain ev' gn' g1' where o: "offer_chunk env req ep c' rest en b attempts (wait_chunk env h) = (ev', gn', g1')"
      by (metis prod.collapse)
    obtain evs' g2' where d: "drain env req gn' g1' = (evs', g2')" by (metis prod.collapse)
    obtain em' ok' g3' where q: "push_chunks env req ep (c' # rest) en b [] (wait_chunk env h) = ((em', ok'), g3')"
      by (metis prod.collapse)
    have ih: "the ev' # evs' = map ChunkEv em' @ [StateEv (committed ok' ep attempts)] \<and> g2' = g3' \<and> ev' \<noteq> None"
      by (rule Cons.IH [OF o d q])
    then obtain e where e: "ev' = Some e" by auto
    have "drain env req gn g1 = (e # evs', g2')"
      by (subst drain.simps) (simp add: gn o e d Let_def)
    moreover have "push_chunks env req ep (c # c' # rest) en b [] g = ((c # em', ok'), g3')"
      using q p False push_chunks_acc [of env req ep "c' # rest" en b "[c]" "wait_chunk env h"]
      by (simp del: push_chunks.simps(2) add: push_chunks.simps(2) [of env req ep c "c' # rest"])
    ultimately have "evs = e # evs'" "g2 = g2'" "em = c # em'" "ok = ok'" "g3 = g3'"
      using Cons.prems(2,3) by (simp_all only: prod.inject)
    then show ?thesis using ih e gn by simp
  qed
qed

text \<open>The two copies of the first-chunk loop.\<close>

lemma node_first_chunk_agrees:
  "first_chunk env gid ep a n k att g = (got, att1, g1) \<Longrightarrow>
   \<exists>lm' lp'. node_first_chunk env gid ep a (int k + int n) k (att, lm, lp) g = (got, (att1, lm', lp'), g1) \<and>
     (got = NoChunk \<longrightarrow> n > 0 \<longrightarrow> lm' = Some (ep_model_id ep) \<and> lp' = Some (ep_provider_id ep))"
proof (induction n arbitrary: k att lm lp g)
  case 0
  then show ?case by (simp add: node_first_chunk.simps)
next
  case (Suc n)
  obtain x en h where o: "open_stream env ep a g = ((x, en), h)" by (metis prod.collapse)
  note ih = Suc.IH [of "Suc k" _ "back_off env k h"]
  show ?case
  proof (cases x)
    case FirstChunk
    then show ?thesis using Suc.prems o by (subst node_first_chunk.simps) auto
  next
    case NoChunk
    show ?thesis
    proof (cases en)
      case None
      then show ?thesis using Suc.prems o NoChunk
        by (subst node_first_chunk.simps) (auto simp: node_stream_failed_def stream_row_def)
    next
      case (Some e)
      show ?thesis
      proof (cases "n > 0 \<and> (is_subclass (exc_class e) TimeoutExc \<or> is_retryable_error e)")
        case True
        obtain row where row: "first_chunk env gid ep a n (Suc k) (att @ [row]) (back_off env k h) = (got, att1, g1)"
          and node: "node_first_chunk env gid ep a (int k + int (Suc n)) k (att, lm, lp) g =
            node_first_chunk env gid ep a (int (Suc k) + int n) (Suc k) (att @ [row], Some (ep_model_id ep), Some (ep_provider_id ep)) (back_off env k h)"
          using Suc.prems o NoChunk Some True
          by (subst (asm) node_first_chunk.simps [of _ _ _ _ _ k])
            (auto simp: node_stream_failed_def stream_row_def Let_def algebra_simps split: if_splits)
        from ih [OF row] show ?thesis unfolding node using True by blast
      next
        case False
        then show ?thesis using Suc.prems o NoChunk Some
          by (subst node_first_chunk.simps)
            (auto simp: node_stream_failed_def stream_row_def Let_def split: if_splits)
      qed
    qed
  qed
qed

lemma node_acquire_agrees:
  assumes "acquire_stream env (fst (rs_group s)) (rs_truncated s) (rs_temperature s) (rs_max_tokens s) (rs_extra_kwargs s)
      eps att lm lp g = (got, att1, lu, g1)"
  shows "case got of
      None \<Rightarrow> node_acquire env s eps (att, lm, lp) g = (None, (att1, lu), g1)
    | Some (ep, NoChunk) \<Rightarrow> False
    | Some (ep, FirstChunk c rest en b) \<Rightarrow> \<exists>l. node_acquire env s eps (att, lm, lp) g = (Some (ep, c, rest, en, b), (att1, l), g1)"
  using assms
proof (induction eps arbitrary: att lm lp g)
  case Nil
  then show ?case by auto
next
  case (Cons ep eps)
  let ?args = "stream_args (rs_truncated s) (rs_temperature s) (rs_max_tokens s) (rs_extra_kwargs s) ep"
  let ?n = "nat (max (ep_max_retries ep) 1)"
  obtain x att2 h where f: "first_chunk env (fst (rs_group s)) ep ?args ?n 0 att g = (x, att2, h)" by (metis prod.collapse)
  have "?n > 0" "int 0 + int ?n = max (ep_max_retries ep) 1" by auto
  with node_first_chunk_agrees [OF f, of lm lp] obtain lm' lp' where
    node: "node_first_chunk env (fst (rs_group s)) ep ?args (max (ep_max_retries ep) 1) 0 (att, lm, lp) g = (x, (att2, lm', lp'), h)"
    and l: "x = NoChunk \<longrightarrow> lm' = Some (ep_model_id ep) \<and> lp' = Some (ep_provider_id ep)" by metis
  show ?case
  proof (cases x)
    case NoChunk
    then have "acquire_stream env (fst (rs_group s)) (rs_truncated s) (rs_temperature s) (rs_max_tokens s) (rs_extra_kwargs s)
        eps att2 lm' lp' h = (got, att1, lu, g1)"
      using Cons.prems f l by simp
    moreover have "node_acquire env s (ep # eps) (att, lm, lp) g = node_acquire env s eps (att2, lm', lp') h"
      using node NoChunk by (simp add: stream_args_def)
    ultimately show ?thesis using Cons.IH by (simp only:)
  next
    case (FirstChunk c rest en b)
    then show ?thesis using Cons.prems f node by (auto simp: stream_args_def)
  qed
qed

text \<open>C15: the same holds for streams, whose two paths have a first-chunk loop of their own each: with
  the same attempts, retries, back-off, cooldowns and endpoint at the end. The events of the direct path, read one after the other, are the
  chunks the graph pushes to the stream writer followed by its final state, with the same polls of the
  client's connection in between and the same gateway state at the end.\<close>

theorem fast_stream_is_graph_stream:
  assumes "executes_graph env invoke" and "rr_endpoints rr \<noteq> []"
  shows "run_stream_graph env invoke grp msgs t mt has_request kw (Some rr) g =
    (let (evs, g') = drain env has_request (run_stream_fast grp t mt kw rr) g in ((evs, None), g'))"
proof -
  let ?s = "initial_state grp msgs True t mt kw (Some rr)"
  have sel: "run_node env has_request True SelectEndpoints ?s g = (Inr ?s, g)"
    using assms(2) by (simp add: run_node_def select_node_def initial_state_def)
  have nxt: "next_node SelectEndpoints ?s = Some TryStream" by (simp add: initial_state_def)
  have go: "invoke has_request True SelectEndpoints ?s g = invoke has_request True TryStream ?s g"
    unfolding executes_graphD [OF assms(1), of has_request True SelectEndpoints] sel
    by (simp only: prod.case sum.case nxt option.case)
  have inv: "invoke has_request True TryStream ?s g = try_stream env has_request True ?s g"
    unfolding executes_graphD [OF assms(1), of has_request True TryStream]
    by (simp add: run_node_def split: prod.splits sum.splits)
  obtain got attempts lu g1 where acq: "acquire_stream env (fst grp) (rr_messages rr) t mt kw (rr_endpoints rr) [] None None g =
      (got, attempts, lu, g1)" by (metis prod.collapse)
  have "acquire_stream env (fst (rs_group ?s)) (rs_truncated ?s) (rs_temperature ?s) (rs_max_tokens ?s)
      (rs_extra_kwargs ?s) (rs_endpoints ?s) (rs_attempts ?s) (rs_used_model ?s) (rs_used_provider ?s) g = (got, attempts, lu, g1)"
    using acq by (simp add: initial_state_def)
  note st = node_acquire_agrees [OF this]
  have init: "rs_result ?s = None" "rs_error ?s = NoError" "rs_recoverable ?s = None" "rs_stream_started ?s = False"
      "rs_emitted ?s = []" "rs_group ?s = grp"
    by (simp_all add: initial_state_def)
  show ?thesis
  proof (cases "\<exists>ep c rest en b. got = Some (ep, FirstChunk c rest en b)")
    case True
    then obtain ep c rest en b where got: "got = Some (ep, FirstChunk c rest en b)" by blast
    let ?g1 = "on_cooldown_success (fst grp) ep g1"
    obtain em ok g3 where p: "push_chunks env has_request ep (c # rest) en b [] ?g1 = ((em, ok), g3)"
      by (metis prod.collapse)
    obtain ev gn g2 where o: "offer_chunk env has_request ep c rest en b attempts ?g1 = (ev, gn, g2)"
      by (metis prod.collapse)
    obtain evs g4 where d: "drain env has_request gn g2 = (evs, g4)" by (metis prod.collapse)
    note eq = drain_offer [OF o d p]
    then obtain e where e: "ev = Some e" by auto
    have "drain env has_request (run_stream_fast grp t mt kw rr) g = (e # evs, g4)"
      by (subst drain.simps) (simp add: run_stream_fast_def acq got o e d)
    moreover have "try_stream env has_request True ?s g =
        (Inr (?s\<lparr>rs_result := (if ok then Some StreamOk else None), rs_stream_started := True,
                 rs_recoverable := Some False, rs_used_model := Some (ep_model_id ep),
                 rs_used_provider := Some (ep_provider_id ep), rs_attempts := attempts, rs_endpoints := [],
                 rs_current_ep_idx := 0, rs_emitted := em\<rparr>), g3)"
      using st by (auto simp: try_stream_def got init p simp del: push_chunks.simps)
    ultimately show ?thesis
      using eq e by (simp add: run_stream_graph_def go inv init final_of_def committed_def)
  next
    case False
    obtain lm lp where lu: "lu = (lm, lp)" by (cases lu)
    have none: "got = None"
      using False st by (cases got rule: option.exhaust; cases "snd (the got)") (auto split: acquired.splits)
    have "try_stream env has_request True ?s g =
        (Inr (?s\<lparr>rs_endpoints := [], rs_current_ep_idx := 0, rs_attempts := attempts, rs_used_model := lm,
             rs_used_provider := lp, rs_recoverable := Some True\<rparr>), g1)"
      using none st by (simp add: try_stream_def lu init)
    moreover have "drain env has_request (run_stream_fast grp t mt kw rr) g = ([StateEv (group_failed lu attempts)], g1)"
      using False by (subst drain.simps) (auto simp: run_stream_fast_def acq split: option.splits acquired.splits)
    ultimately show ?thesis
      by (simp add: run_stream_graph_def go inv init final_of_def group_failed_def lu)
  qed
qed

theorem fast_stream_is_graph_stream_witness:
  "run_stream_graph flaky_env (run_to_end flaky_env) (1, sample_group) [] JNull None True [] (Some (sample_route [sample_endpoint])) (empty_gw 0) =
   (let (evs, g') = drain flaky_env True (run_stream_fast (1, sample_group) JNull None [] (sample_route [sample_endpoint])) (empty_gw 0)
    in ((evs, None), g'))"
  by (rule fast_stream_is_graph_stream [OF run_to_end_executes]) (simp add: sample_route_def)

subsection \<open>The order of events\<close>

lemma drain_stream:
  "drain env req (GStream ep rest en b attempts) g = (evs, g1) \<Longrightarrow>
   \<exists>n ok. n \<le> length rest \<and> evs = map ChunkEv (take n rest) @ [StateEv (committed ok ep attempts)] \<and>
     (ok \<longleftrightarrow> n = length rest \<and> en = None)"
proof (induction rest arbitrary: g evs g1)
  case Nil
  then show ?case by (auto simp: drain.simps [of env req "GStream ep [] en b attempts"] Let_def)
next
  case (Cons c rest)
  obtain gone h where p: "poll env req (wait_chunk env g) = (gone, h)" by (metis prod.collapse)
  show ?case
  proof (cases gone)
    case True
    then show ?thesis
      using Cons.prems p
      by (intro exI [of _ 0] exI [of _ False])
        (auto simp: drain.simps [of env req "GStream ep (c # rest) en b attempts"] offer_chunk_def Let_def)
  next
    case False
    obtain evs' g2 where d: "drain env req (GStream ep rest en b attempts) h = (evs', g2)" by (metis prod.collapse)
    have "evs = ChunkEv c # evs'"
      using Cons.prems p False d
      by (auto simp: drain.simps [of env req "GStream ep (c # rest) en b attempts"] offer_chunk_def Let_def)
    moreover obtain n ok where "n \<le> length rest" "evs' = map ChunkEv (take n rest) @ [StateEv (committed ok ep attempts)]"
        "ok \<longleftrightarrow> n = length rest \<and> en = None"
      using Cons.IH [OF d] by blast
    ultimately show ?thesis by (intro exI [of _ "Suc n"] exI [of _ ok]) simp
  qed
qed

lemma first_chunk_opened:
  "first_chunk env gid ep a n k att h = (FirstChunk c rest en b, att', h') \<Longrightarrow>
   \<exists>g1 g2. open_stream env ep a g1 = ((FirstChunk c rest en b, None), g2)"
proof (induction n arbitrary: k att h)
  case (Suc n)
  obtain got err h1 where o: "open_stream env ep a h = ((got, err), h1)" by (metis prod.collapse)
  show ?case
  proof (cases got)
    case NoChunk
    then show ?thesis using Suc o by (auto simp: Let_def split: option.splits if_splits)
  next
    case (FirstChunk c' rest' en' b')
    then have "err = None" using o by (auto simp: open_stream_def Let_def split: list.splits prod.splits)
    then show ?thesis using Suc.prems o FirstChunk by auto
  qed
qed simp

lemma acquire_stream_opened:
  "acquire_stream env gid msgs t mt kw eps att lm lp h = (Some (ep, got), att', lu, h') \<Longrightarrow>
   ep \<in> set eps \<and> (\<exists>args g1 g2 c rest en b. got = FirstChunk c rest en b \<and>
      open_stream env ep args g1 = ((FirstChunk c rest en b, None), g2))"
proof (induction eps arbitrary: att lm lp h)
  case (Cons e eps)
  obtain got1 att1 h1 where f: "first_chunk env gid e (stream_args msgs t mt kw e) (nat (max (ep_max_retries e) 1)) 0 att h =
      (got1, att1, h1)" by (metis prod.collapse)
  show ?case
  proof (cases got1)
    case NoChunk
    then show ?thesis using Cons f by auto
  next
    case (FirstChunk c rest en b)
    then have "e = ep" "got = FirstChunk c rest en b" using Cons.prems f by auto
    moreover from first_chunk_opened [OF f [unfolded FirstChunk]]
    obtain g1 g2 where "open_stream env e (stream_args msgs t mt kw e) g1 = ((FirstChunk c rest en b, None), g2)" by blast
    ultimately show ?thesis by auto
  qed
qed simp

text \<open>What a client sees of a stream. A stream yields chunks and then exactly one final state. If there
  is a chunk, all chunks come from one endpoint, in the order its upstream sent them and without a gap; the final
  state names this endpoint, says that the stream started and is never recoverable, so no other group can
  be asked after content went out; its result is set exactly when the upstream ended by itself and every
  chunk was delivered. A recoverable final state comes with no chunk at all.\<close>

lemma stream_events_shape:
  assumes "drain env has_request (run_stream_fast grp t mt kw rr) g = (evs, g')"
  shows "\<exists>chunks final. evs = map ChunkEv chunks @ [StateEv final] \<and>
    (sf_recoverable final \<longrightarrow> chunks = [] \<and> \<not> sf_stream_started final) \<and>
    (\<not> sf_recoverable final \<longrightarrow> sf_stream_started final \<and>
      (\<exists>ep \<in> set (rr_endpoints rr). \<exists>args g1 g2 sent en b.
        open_stream env ep args g1 = ((FirstChunk (hd sent) (tl sent) en b, None), g2) \<and> sent \<noteq> [] \<and>
        prefix chunks sent \<and> sf_used_model final = Some (ep_model_id ep) \<and>
        (sf_result final \<longleftrightarrow> chunks = sent \<and> en = None)))"
proof -
  note start = assms [unfolded drain.simps [of _ _ "run_stream_fast grp t mt kw rr"]]
  obtain got attempts lu g1 where acq: "acquire_stream env (fst grp) (rr_messages rr) t mt kw (rr_endpoints rr) [] None None g =
      (got, attempts, lu, g1)" by (metis prod.collapse)
  show ?thesis
  proof (cases got)
    case None
    then have "evs = [StateEv (group_failed lu attempts)]"
      using start by (simp add: run_stream_fast_def acq)
    then show ?thesis by (intro exI [of _ "[]"] exI [of _ "group_failed lu attempts"]) (simp add: group_failed_def)
  next
    case (Some a)
    obtain ep got' where a: "a = (ep, got')" by (cases a)
    from acquire_stream_opened [OF acq [unfolded Some a]] obtain args h1 h2 c rest en b where
      mem: "ep \<in> set (rr_endpoints rr)" and got': "got' = FirstChunk c rest en b" and
      o: "open_stream env ep args h1 = ((FirstChunk c rest en b, None), h2)" by blast
    let ?g1 = "on_cooldown_success (fst grp) ep g1"
    obtain gone h where p: "poll env has_request ?g1 = (gone, h)" by (metis prod.collapse)
    have "\<exists>n ok. n \<le> length (c # rest) \<and> evs = map ChunkEv (take n (c # rest)) @ [StateEv (committed ok ep attempts)] \<and>
        (ok \<longleftrightarrow> n = length (c # rest) \<and> en = None)"
    proof (cases gone)
      case True
      then have "evs = [StateEv (committed False ep attempts)]"
        using start p by (simp add: run_stream_fast_def
            acq Some a got' offer_chunk_def)
      then show ?thesis by (intro exI [of _ 0] exI [of _ False]) simp
    next
      case False
      obtain evs' g2 where d: "drain env has_request (GStream ep rest en b attempts) h = (evs', g2)" by (metis prod.collapse)
      have "evs = ChunkEv c # evs'"
        using start p False d by (simp add: run_stream_fast_def
            acq Some a got' offer_chunk_def)
      moreover obtain n ok where "n \<le> length rest" "evs' = map ChunkEv (take n rest) @ [StateEv (committed ok ep attempts)]"
        "ok \<longleftrightarrow> n = length rest \<and> en = None"
        using drain_stream [OF d] by blast
      ultimately show ?thesis by (intro exI [of _ "Suc n"] exI [of _ ok]) simp
    qed
    then obtain n ok where n: "n \<le> length (c # rest)"
        "evs = map ChunkEv (take n (c # rest)) @ [StateEv (committed ok ep attempts)]"
        "ok \<longleftrightarrow> n = length (c # rest) \<and> en = None" by blast
    have "prefix (take n (c # rest)) (c # rest)" by (rule take_is_prefix)
    moreover have "take n (c # rest) = c # rest \<longleftrightarrow> n = length (c # rest)"
      using n(1) by (metis length_take min.absorb2 take_all_iff order_refl)
    ultimately have all: "open_stream env ep args h1 = ((FirstChunk (hd (c # rest)) (tl (c # rest)) en b, None), h2) \<and>
        c # rest \<noteq> [] \<and> prefix (take n (c # rest)) (c # rest) \<and>
        sf_used_model (committed ok ep attempts) = Some (ep_model_id ep) \<and>
        (sf_result (committed ok ep attempts) \<longleftrightarrow> take n (c # rest) = c # rest \<and> en = None)"
      using o n(3) by (simp add: committed_def)
    have "sf_recoverable (committed ok ep attempts) = False" "sf_stream_started (committed ok ep attempts) = True"
      by (simp_all add: committed_def)
    with all n(2) mem show ?thesis
      by (intro exI [of _ "take n (c # rest)"] exI [of _ "committed ok ep attempts"] conjI impI bexI [of _ ep]
          exI [of _ args] exI [of _ h1] exI [of _ h2] exI [of _ "c # rest"] exI [of _ en] exI [of _ b])
        simp_all
  qed
qed

definition chatty_env :: "int env" where
  "chatty_env = flaky_env\<lparr>e_stream := (\<lambda>inst args w. (([[(''a'', JInt 1)], [(''b'', JInt 2)]], None), w + 1))\<rparr>"

end
