(* ===== verification/Engine_Audit.thy ===== *)
theory Engine_Audit
  imports Engine_Facts
begin

text \<open>
  What holds of the engine over a whole request: the audit trail of a chat call, the permits of a stream
  whose consumer may stop anywhere, and the bound on the groups the legacy entry \<open>route\<close> visits.
\<close>

subsection \<open>The audit trail of a chat call\<close>

text \<open>The rows of the endpoints that failed, in the order of the queue.\<close>

definition failed_rows :: "int \<Rightarrow> nat \<Rightarrow> endpoint list \<Rightarrow> attempt list \<Rightarrow> bool" where
  "failed_rows gid idx eps trail \<longleftrightarrow> length trail = length eps \<and>
     (\<forall>i < length eps. \<exists>err ms. trail ! i = call_attempt_row gid (eps ! i) (idx + i) err ms)"

lemma failed_rows_Nil [simp]: "failed_rows gid idx [] trail \<longleftrightarrow> trail = []"
  by (auto simp: failed_rows_def)

lemma failed_rows_Cons:
  "failed_rows gid (Suc idx) eps trail \<Longrightarrow> failed_rows gid idx (ep # eps) (call_attempt_row gid ep idx err ms # trail)"
  by (auto simp: failed_rows_def nth_Cons split: nat.splits)

lemma timed_call_Inr:
  assumes "apply_model_extra_config kw (d_extra_config (ep_detail ep)) = Inr kw'"
  shows "\<exists>d err ms g1. timed_call env gid msgs t mt kw ep g = ((Inr (d, err), ms), g1) \<and> call_frame g g1 \<and>
    (\<forall>r. d = Some r \<longrightarrow> dget r ''_routing'' JNull = routing_info ep)"
proof -
  have "\<exists>x. fst (call_llm env ep msgs gid (resolve_temperature t ep) mt kw g) = Inr x"
    by (simp add: call_llm_def assms Let_def split: prod.splits option.splits)
  then obtain d err g1 where c: "call_llm env ep msgs gid (resolve_temperature t ep) mt kw g = (Inr (d, err), g1)"
    by (metis prod.collapse)
  have "call_frame g g1"
    using c call_llm_frame by (metis snd_conv)
  then show ?thesis using c call_llm_routing by (fastforce simp: timed_call_def)
qed

lemma run_queue_fast_audit:
  assumes "\<forall>ep \<in> set eps. \<exists>kw'. apply_model_extra_config kw (d_extra_config (ep_detail ep)) = Inr kw'"
    and "run_queue_fast env gid msgs t mt kw idx eps attempts lm lp g = (r, g')"
  shows "call_frame g g' \<and>
    (\<forall>cr. r = Inr cr \<longrightarrow> (\<exists>k < length eps. \<exists>trail. cr_attempts cr = attempts @ trail \<and>
       failed_rows gid idx (take k eps) trail \<and> dget (cr_response cr) ''_routing'' JNull = routing_info (eps ! k))) \<and>
    (\<forall>e. r = Inl e \<longrightarrow> exc_class e = ProviderError \<and> (\<exists>trail. exc_attempts e = Some (attempts @ trail) \<and>
       failed_rows gid idx eps trail) \<and>
       exc_used_model e = (if eps = [] then lm else Some (ep_model_id (last eps))))"
  using assms
proof (induction eps arbitrary: idx attempts lm lp g)
  case Nil
  then show ?case by auto
next
  case (Cons ep eps)
  obtain kw' where kw': "apply_model_extra_config kw (d_extra_config (ep_detail ep)) = Inr kw'" using Cons.prems(1) by auto
  obtain d err ms g1 where tc: "timed_call env gid msgs t mt kw ep g = ((Inr (d, err), ms), g1)" and fr: "call_frame g g1"
    and rt: "\<forall>r. d = Some r \<longrightarrow> dget r ''_routing'' JNull = routing_info ep"
    using timed_call_Inr [OF kw'] by blast
  show ?case
  proof (cases d)
    case (Some r')
    then have "r = Inr \<lparr>cr_response = r', cr_attempts = attempts\<rparr>" "g' = g1" using Cons.prems(2) tc by auto
    then show ?thesis using fr rt Some by (auto intro!: exI [of _ 0])
  next
    case None
    let ?row = "call_attempt_row gid ep idx err ms"
    have rest: "run_queue_fast env gid msgs t mt kw (Suc idx) eps (attempts @ [?row]) (Some (ep_model_id ep))
        (Some (ep_provider_id ep)) g1 = (r, g')" using Cons.prems(2) tc None by simp
    have all: "\<forall>ep \<in> set eps. \<exists>kw'. apply_model_extra_config kw (d_extra_config (ep_detail ep)) = Inr kw'"
      using Cons.prems(1) by simp
    note IH = Cons.IH [OF all rest]
    have "call_frame g g'" using IH fr call_frame_trans by blast
    moreover have "\<exists>k < length (ep # eps). \<exists>trail. cr_attempts cr = attempts @ trail \<and>
       failed_rows gid idx (take k (ep # eps)) trail \<and> dget (cr_response cr) ''_routing'' JNull = routing_info ((ep # eps) ! k)"
      if "r = Inr cr" for cr
    proof -
      from IH that obtain k trail where "k < length eps" "cr_attempts cr = (attempts @ [?row]) @ trail"
        "failed_rows gid (Suc idx) (take k eps) trail" "dget (cr_response cr) ''_routing'' JNull = routing_info (eps ! k)"
        by blast
      then show ?thesis
        by (intro exI [of _ "Suc k"] conjI exI [of _ "?row # trail"]) (simp_all add: failed_rows_Cons)
    qed
    moreover have "exc_class e = ProviderError \<and> (\<exists>trail. exc_attempts e = Some (attempts @ trail) \<and>
       failed_rows gid idx (ep # eps) trail) \<and> exc_used_model e = Some (ep_model_id (last (ep # eps)))" if "r = Inl e" for e
    proof -
      from IH that obtain trail where "exc_class e = ProviderError" "exc_attempts e = Some ((attempts @ [?row]) @ trail)"
        "failed_rows gid (Suc idx) eps trail"
        "exc_used_model e = (if eps = [] then Some (ep_model_id ep) else Some (ep_model_id (last eps)))" by blast
      then show ?thesis
        by (intro conjI exI [of _ "?row # trail"]) (simp_all add: failed_rows_Cons)
    qed
    ultimately show ?thesis by simp
  qed
qed

text \<open>C16: the audit trail of a chat call on one group. When the extra configuration of every model applies,
  the call gives back every permit, and either the endpoint at some position \<open>k\<close> of the queue
  answered, the response names it, and there is exactly one failure row for each of the \<open>k\<close> endpoints
  before it, in order; or no endpoint answered, the error is a \<open>ProviderError\<close> that carries one row for
  each endpoint of the queue and names the last one tried.\<close>

theorem chat_audit_trail:
  assumes "\<forall>ep \<in> set (rr_endpoints rr). \<exists>kw'. apply_model_extra_config kw (d_extra_config (ep_detail ep)) = Inr kw'"
    and "run_one_fast env grp t mt kw rr g = (r, g')"
  shows "call_frame g g' \<and>
    (case r of
       Inr cr \<Rightarrow> \<exists>k < length (rr_endpoints rr). failed_rows (fst grp) 0 (take k (rr_endpoints rr)) (cr_attempts cr) \<and>
         dget (cr_response cr) ''_routing'' JNull = routing_info (rr_endpoints rr ! k)
     | Inl e \<Rightarrow> exc_class e = ProviderError \<and>
         (\<exists>trail. exc_attempts e = Some trail \<and> failed_rows (fst grp) 0 (rr_endpoints rr) trail) \<and>
         (rr_endpoints rr \<noteq> [] \<longrightarrow> exc_used_model e = Some (ep_model_id (last (rr_endpoints rr)))))"
  using run_queue_fast_audit [OF assms(1) assms(2) [unfolded run_one_fast_def]] by (cases r) auto

theorem chat_audit_trail_witness:
  "case fst (run_one_fast flaky_env (1, sample_group) JNull None [] (sample_route [sample_endpoint]) (empty_gw 0)) of
     Inr cr \<Rightarrow> \<exists>k < 1. failed_rows 1 0 (take k [sample_endpoint]) (cr_attempts cr) \<and>
       dget (cr_response cr) ''_routing'' JNull = routing_info ([sample_endpoint] ! k)
   | Inl e \<Rightarrow> exc_class e = ProviderError \<and> (\<exists>trail. exc_attempts e = Some trail \<and> failed_rows 1 0 [sample_endpoint] trail)"
proof -
  have kw: "\<forall>ep \<in> set (rr_endpoints (sample_route [sample_endpoint])).
      \<exists>kw'. apply_model_extra_config [] (d_extra_config (ep_detail ep)) = Inr kw'"
    by (simp add: apply_model_extra_config_def sample_endpoint_def with_weight_def dfilter_def sample_route_def)
  show ?thesis
    using chat_audit_trail [OF kw prod.collapse [symmetric, of "run_one_fast flaky_env (1, sample_group) JNull None []
        (sample_route [sample_endpoint]) (empty_gw 0)"]]
    by (auto simp: sample_route_def split: sum.splits)
qed

subsection \<open>The permits of a stream\<close>

text \<open>What may happen to a stream: its consumer pulls the next event, or works on something else.\<close>

inductive stream_step :: "'w env \<Rightarrow> bool \<Rightarrow> gen \<times> 'w gw \<Rightarrow> gen \<times> 'w gw \<Rightarrow> bool" for env req where
  pull: "gen_next env req G g = (ev, G', g') \<Longrightarrow> stream_step env req (G, g) (G', g')"
| consumer: "stream_step env req (G, g) (G, g\<lparr>gw_world := w\<rparr>)"

inductive_cases stream_stepE: "stream_step env req (G, g) (G', g')"

text \<open>What an open stream holds: closing it would restore every permit.\<close>

definition holds_permit :: "'w gw \<Rightarrow> gen \<Rightarrow> 'w gw \<Rightarrow> bool" where
  "holds_permit g0 G g \<longleftrightarrow> call_frame g0 (gen_close G g) \<and>
     (\<forall>ep rest en limited attempts. G = GStream ep rest en limited attempts \<longrightarrow>
        map_of (gw_semaphores g) (ep_provider_id ep) \<noteq> None)"

lemma holds_permit_trans: "call_frame g0 g \<Longrightarrow> holds_permit g G g1 \<Longrightarrow> holds_permit g0 G g1"
  unfolding holds_permit_def using call_frame_trans by blast

lemma release_world: "release b pid (g\<lparr>gw_world := w\<rparr>) = (release b pid g)\<lparr>gw_world := w\<rparr>"
  by (simp add: release_def)

lemma gen_close_world: "gen_close G (g\<lparr>gw_world := w\<rparr>) = (gen_close G g)\<lparr>gw_world := w\<rparr>"
  by (cases G) (simp_all add: release_world)

lemma holds_permit_world: "holds_permit g0 G g \<Longrightarrow> holds_permit g0 G (g\<lparr>gw_world := w\<rparr>)"
  by (simp add: holds_permit_def gen_close_world)

lemma open_stream_frame:
  assumes "open_stream env ep a g = ((got, err), g1)"
  shows "(got = NoChunk \<longrightarrow> call_frame g g1) \<and>
    (\<forall>c rest en limited. got = FirstChunk c rest en limited \<longrightarrow>
       holds_permit g (GStream ep rest en limited as) g1)"
proof -
  obtain limited g0 where sem: "ensure_semaphore env (ep_provider_id ep) g = (limited, g0)" by (metis prod.collapse)
  note fr = ensure_semaphore_frame [OF sem]
  have rel: "call_frame g (release limited (ep_provider_id ep) ((acquire limited (ep_provider_id ep) g0)\<lparr>gw_world := w\<rparr>))" for w
    using fr release_acquire_frame [of g0 "ep_provider_id ep" limited w] call_frame_trans by blast
  have "map_of (gw_semaphores (acquire limited (ep_provider_id ep) g0)) (ep_provider_id ep) \<noteq> None"
    using fr by (auto simp: acquire_def)
  then show ?thesis using assms rel
    by (auto simp: open_stream_def sem Let_def holds_permit_def split: prod.splits list.splits)
qed

lemma first_chunk_frame:
  "first_chunk env gid ep a n k att g = (got, att', g1) \<Longrightarrow>
   (got = NoChunk \<longrightarrow> call_frame g g1) \<and>
   (\<forall>c rest en limited. got = FirstChunk c rest en limited \<longrightarrow> holds_permit g (GStream ep rest en limited as) g1)"
proof (induction n arbitrary: k att g)
  case (Suc n)
  obtain got1 err h where o: "open_stream env ep a g = ((got1, err), h)" by (metis prod.collapse)
  note fr = open_stream_frame [OF o]
  show ?case
  proof (cases got1)
    case (FirstChunk c rest en limited)
    then show ?thesis using fr Suc.prems o by (auto simp: holds_permit_def)
  next
    case NoChunk
    then have step: "call_frame g h" "call_frame g (back_off env k h)" using fr by simp_all
    have again: "(got = NoChunk \<longrightarrow> call_frame g g1) \<and>
        (\<forall>c rest en limited. got = FirstChunk c rest en limited \<longrightarrow> holds_permit g (GStream ep rest en limited as) g1)"
      if "first_chunk env gid ep a n (Suc k) att1 (back_off env k h) = (got, att', g1)" for att1
    proof -
      have "holds_permit g G g1" if "holds_permit (back_off env k h) G g1" for G
        using holds_permit_trans [OF step(2) that] .
      then show ?thesis using Suc.IH [OF that] call_frame_trans [OF step(2), of g1] by blast
    qed
    show ?thesis using NoChunk Suc.prems o step again
      by (cases err) (auto simp: Let_def split: if_splits)
  qed
qed simp

lemma acquire_stream_frame:
  "acquire_stream env gid msgs t mt kw eps att lm lp g = (got, att', lu, g1) \<Longrightarrow>
   (got = None \<longrightarrow> call_frame g g1) \<and>
   (\<forall>ep c rest en limited. got = Some (ep, FirstChunk c rest en limited) \<longrightarrow>
      holds_permit g (GStream ep rest en limited as) g1)"
proof (induction eps arbitrary: att lm lp g)
  case (Cons e eps)
  obtain got1 att1 h where f: "first_chunk env gid e (stream_args msgs t mt kw e) (nat (max (ep_max_retries e) 1)) 0 att g =
      (got1, att1, h)" by (metis prod.collapse)
  note fr = first_chunk_frame [OF f]
  show ?case
  proof (cases got1)
    case NoChunk
    then have fh: "call_frame g h" using fr by simp
    have "acquire_stream env gid msgs t mt kw eps att1 (Some (ep_model_id e)) (Some (ep_provider_id e)) h = (got, att', lu, g1)"
      using Cons.prems f NoChunk by simp
    note IH = Cons.IH [OF this]
    have "holds_permit g G g1" if "holds_permit h G g1" for G
      using holds_permit_trans [OF fh that] .
    then show ?thesis using IH call_frame_trans [OF fh, of g1] by blast
  next
    case (FirstChunk c rest en limited)
    then show ?thesis using Cons.prems f fr by auto
  qed
qed auto

lemma gen_close_success: "gen_close G (on_cooldown_success gid ep g) = on_cooldown_success gid ep (gen_close G g)"
  by (cases G) (simp_all add: on_cooldown_success_def release_def)

lemma holds_permit_success:
  "holds_permit g0 G g \<Longrightarrow> holds_permit g0 G (on_cooldown_success gid ep g)"
  by (simp add: holds_permit_def gen_close_success) (simp add: on_cooldown_success_def)

lemma holds_permit_closed: "holds_permit g0 GEnd g \<longleftrightarrow> call_frame g0 g"
  by (simp add: holds_permit_def)

lemma holds_permit_poll: "holds_permit g0 G g \<Longrightarrow> poll env req g = (gone, h) \<Longrightarrow> holds_permit g0 G h"
  by (cases req) (auto simp: poll_def Let_def case_prod_beta intro: holds_permit_world)

lemma offer_chunk_permit:
  assumes "holds_permit g0 (GStream ep cs en limited as) g" "offer_chunk env req ep c rest en limited attempts g = (ev, G, g1)"
  shows "holds_permit g0 G g1 \<and> (\<forall>s. ev = Some (StateEv s) \<longrightarrow> G = GEnd)"
proof -
  obtain gone h where p: "poll env req g = (gone, h)" by (metis prod.collapse)
  have "holds_permit g0 (GStream ep cs en limited as) h" using assms(1) p by (rule holds_permit_poll)
  then show ?thesis
    using assms(2) p by (auto simp: offer_chunk_def holds_permit_def split: if_splits)
qed

lemma gen_next_permit:
  assumes "holds_permit g0 G g" "gen_next env req G g = (ev, G', g')"
  shows "holds_permit g0 G' g' \<and> (\<forall>s. ev = Some (StateEv s) \<longrightarrow> G' = GEnd)"
proof (cases G)
  case (GStart gid msgs t mt kw eps)
  obtain got att lu h where acq: "acquire_stream env gid msgs t mt kw eps [] None None g = (got, att, lu, h)"
    by (metis prod.collapse)
  have g0: "call_frame g0 g" using assms(1) GStart by (simp add: holds_permit_def)
  show ?thesis
  proof (cases got)
    case None
    then show ?thesis
      using acquire_stream_frame [OF acq] assms(2) GStart acq call_frame_trans [OF g0, of h]
      by (simp add: holds_permit_closed)
  next
    case (Some a)
    obtain ep x where ax: "a = (ep, x)" by (cases a)
    from acquire_stream_opened [OF acq [unfolded Some ax]] obtain c rest en limited where
      "x = FirstChunk c rest en limited" by blast
    with Some ax have a: "got = Some (ep, FirstChunk c rest en limited)" by simp
    have "holds_permit g (GStream ep rest en limited att) h" using acquire_stream_frame [OF acq] a by blast
    then have "holds_permit g0 (GStream ep rest en limited att) h"
      by (rule holds_permit_trans [OF g0])
    then have "holds_permit g0 (GStream ep rest en limited att) (on_cooldown_success gid ep h)"
      by (rule holds_permit_success)
    moreover have "offer_chunk env req ep c rest en limited att (on_cooldown_success gid ep h) = (ev, G', g')"
      using assms(2) GStart acq a by simp
    ultimately show ?thesis by (rule offer_chunk_permit)
  qed
next
  case (GStream ep rest en limited att)
  have w: "holds_permit g0 (GStream ep rest en limited att) (wait_chunk env g)"
    using holds_permit_world [OF assms(1)] GStream by (simp add: wait_chunk_def)
  show ?thesis
  proof (cases rest)
    case Nil
    then show ?thesis using w assms(2) GStream by (auto simp: holds_permit_def Let_def)
  next
    case (Cons c cs)
    then have "offer_chunk env req ep c cs en limited att (wait_chunk env g) = (ev, G', g')"
      using assms(2) GStream by (simp add: Let_def)
    from offer_chunk_permit [OF w this] show ?thesis .
  qed
next
  case GEnd
  then show ?thesis using assms by simp
qed

text \<open>C5: no stream leaks a permit. Let the consumer of a stream pull events and work on something else in any
  order and stop after any number of steps, also in the middle of the stream, also after an upstream error
  or a disconnect: closing the generator then leaves every semaphore permit, the database, the caches and the
  counters as they were before the stream, and a stream that reached its end holds nothing even before it
  is closed.\<close>

theorem stream_returns_permits:
  assumes "(stream_step env req)\<^sup>*\<^sup>* (run_stream_fast grp t mt kw rr, g) (G, g')"
  shows "call_frame g (gen_close G g') \<and> (G = GEnd \<longrightarrow> call_frame g g')"
proof -
  have "holds_permit g (fst y) (snd y)"
    if "(stream_step env req)\<^sup>*\<^sup>* x y" "holds_permit g (fst x) (snd x)" for x y
    using that
  proof (induction rule: rtranclp_induct)
    case (step y z)
    then have IH: "holds_permit g (fst y) (snd y)" by blast
    obtain G1 g1 G2 g2 where yz: "y = (G1, g1)" "z = (G2, g2)" by (metis prod.collapse)
    have "stream_step env req (G1, g1) (G2, g2)" using step(2) yz by simp
    then show ?case
      using IH yz by (elim stream_stepE) (auto dest: gen_next_permit intro: holds_permit_world)
  qed simp
  from this [OF assms] have "holds_permit g G g'" by (simp add: holds_permit_def run_stream_fast_def)
  then show ?thesis by (auto simp: holds_permit_def)
qed

theorem stream_returns_permits_witness:
  "case gen_next chatty_env False (run_stream_fast (1, sample_group) JNull None [] (sample_route [sample_endpoint])) (empty_gw 0) of
     (ev, G, g1) \<Rightarrow> call_frame (empty_gw 0) (gen_close G g1)"
proof -
  obtain ev G g1 where n: "gen_next chatty_env False (run_stream_fast (1, sample_group) JNull None []
      (sample_route [sample_endpoint])) (empty_gw 0) = (ev, G, g1)" by (metis prod.collapse)
  have "stream_step chatty_env False (run_stream_fast (1, sample_group) JNull None [] (sample_route [sample_endpoint]), empty_gw 0)
      (G, g1)" using n by (rule stream_step.pull)
  from stream_returns_permits [OF r_into_rtranclp [of "stream_step chatty_env False", OF this]] n show ?thesis by simp
qed


subsection \<open>The legacy entry\<close>

text \<open>The group cache and the group rows answer with the group that was asked for.\<close>

definition groups_keyed :: "'w gw \<Rightarrow> bool" where
  "groups_keyed g \<longleftrightarrow> (\<forall>k grp t. map_of (gw_group_cache g) k = Some (grp, t) \<longrightarrow> fst grp = k)"

lemma get_group_id: "get_group gid db = Some grp \<Longrightarrow> fst grp = gid"
  by (auto simp: get_group_def get_row_def split: option.splits)

lemma load_group_keyed:
  assumes "groups_keyed g" "load_group env gid g = (r, g')"
  shows "groups_keyed g' \<and> (\<forall>grp. r = Inr grp \<longrightarrow> fst grp = gid)"
  using assms get_group_id
  by (auto simp: load_group_def groups_keyed_def ttl_get_def update_conv split: option.splits if_splits)

text \<open>Routing reads the database and the group cache; it changes neither.\<close>

definition same_catalog :: "'w gw \<Rightarrow> 'w gw \<Rightarrow> bool" where
  "same_catalog g g' \<longleftrightarrow> gw_db g' = gw_db g \<and> gw_group_cache g' = gw_group_cache g"

lemma same_catalog_refl [simp]: "same_catalog g g"
  by (simp add: same_catalog_def)

lemma same_catalog_trans: "same_catalog g g' \<Longrightarrow> same_catalog g' g'' \<Longrightarrow> same_catalog g g''"
  by (simp add: same_catalog_def)

lemma call_frame_catalog: "call_frame g g' \<Longrightarrow> same_catalog g g'"
  by (simp add: call_frame_def same_tables_def same_catalog_def)

lemma same_catalog_keyed: "same_catalog g g' \<Longrightarrow> groups_keyed g' = groups_keyed g"
  by (simp add: same_catalog_def groups_keyed_def)

lemma load_endpoints_catalog: "same_catalog g (snd (load_endpoints env gid g))"
proof -
  have "same_catalog g (snd (build_endpoints env ms g))" for ms
    using build_endpoints_frame [of env ms g] by (auto simp: same_catalog_def)
  then show ?thesis
    by (auto simp: load_endpoints_def same_catalog_def split: option.splits sum.splits prod.splits) (metis snd_conv)+
qed

lemma available_endpoints_catalog: "same_catalog g (snd (available_endpoints env gid g))"
proof -
  obtain r g1 where l: "load_endpoints env gid g = (r, g1)" by (metis prod.collapse)
  have "same_catalog g g1" using load_endpoints_catalog [of g env gid] l by simp
  then show ?thesis
    using l by (auto simp: available_endpoints_def Let_def filter_available_select same_catalog_def split: sum.splits)
qed

lemma select_catalog:
  "same_catalog g (snd (select_random_weights env msgs gid t mt kw g))"
  "same_catalog g (snd (select_round_robin env msgs gid t mt kw g))"
  "same_catalog g (snd (select_sequential env msgs gid t mt kw g))"
  "same_catalog g (snd (select_langgraph env msgs gid t mt kw g))"
proof -
  obtain r g1 where l: "available_endpoints env gid g = (r, g1)" by (metis prod.collapse)
  have "same_catalog g g1" using available_endpoints_catalog [of g env gid] l by simp
  then show "same_catalog g (snd (select_random_weights env msgs gid t mt kw g))"
    "same_catalog g (snd (select_round_robin env msgs gid t mt kw g))"
    "same_catalog g (snd (select_sequential env msgs gid t mt kw g))"
    using l by (auto simp: select_random_weights_def select_round_robin_def select_sequential_def Let_def case_prod_beta
        same_catalog_def split: sum.splits)
qed (simp add: select_langgraph_def)

lemma select_for_group_catalog: "same_catalog g (snd (select_for_group env grp msgs t mt kw g))"
  by (auto simp: select_for_group_def build_strategy_def strategy_registry_def Let_def select_catalog
      split: sum.splits if_splits)

lemma call_loop_catalog: "same_catalog g (snd (call_loop env s idx attempts lm lp g))"
proof (induction "length (rs_endpoints s) - idx" arbitrary: idx attempts lm lp g)
  case 0
  then show ?case by (subst call_loop.simps) simp
next
  case (Suc n)
  then have lt: "idx < length (rs_endpoints s)" and n: "n = length (rs_endpoints s) - Suc idx" by simp_all
  obtain r ms g1 where tc: "timed_call env (fst (rs_group s)) (rs_truncated s) (rs_temperature s) (rs_max_tokens s)
      (rs_extra_kwargs s) (rs_endpoints s ! idx) g = ((r, ms), g1)" by (metis prod.collapse)
  then have "call_frame g g1"
    by (auto simp: timed_call_def Let_def split: prod.splits) (metis call_llm_frame snd_conv)
  then have g1: "same_catalog g g1" by (rule call_frame_catalog)
  then have "same_catalog g (snd (call_loop env s (Suc idx) as lm' lp' g1))" for as lm' lp'
    using Suc.hyps(1) [OF n] by (rule same_catalog_trans)
  then show ?case using lt g1
    by (subst call_loop.simps) (auto simp: Let_def tc split: sum.splits option.splits)
qed

lemma run_one_catalog:
  assumes "executes_graph env invoke"
  shows "same_catalog g (snd (run_one env invoke grp msgs t mt req kw None g))"
proof -
  let ?s = "initial_state grp msgs False t mt kw None"
  obtain q g1 where pick: "select_for_group env grp msgs t mt kw g = (q, g1)" by (metis prod.collapse)
  then have g1: "same_catalog g g1" using select_for_group_catalog [of g env grp msgs t mt kw] by simp
  have "\<exists>s1. select_node env ?s g = (Inr s1, g1) \<and> \<not> rs_stream s1"
    by (cases q) (simp_all add: select_node_def initial_state_def pick)
  then obtain s1 where sel: "select_node env ?s g = (Inr s1, g1)" and stream: "\<not> rs_stream s1" by blast
  have finish: "invoke req False FinalizeError s h = (Inr (finalize_error (e_str env) s), h)" for s h
    by (subst executes_graphD [OF assms]) (simp add: run_node_def)
  have "same_catalog g (snd (invoke req False TryCall s1 g1))"
  proof -
    obtain r g2 where t: "try_call env s1 g1 = (r, g2)" by (metis prod.collapse)
    then have "same_catalog g1 g2"
      using call_loop_catalog unfolding try_call_def by (metis snd_conv)
    with g1 have "same_catalog g g2" by (rule same_catalog_trans)
    then show ?thesis
      by (subst executes_graphD [OF assms]) (auto simp: run_node_def t finish split: sum.splits)
  qed
  then have "same_catalog g (snd (invoke req False SelectEndpoints ?s g))"
    by (subst executes_graphD [OF assms]) (auto simp: run_node_def sel finish g1 stream)
  then show ?thesis
    by (auto simp: run_one_def split: prod.splits sum.splits raw_error.splits option.splits)
qed

text \<open>The legacy entry always ends. Whatever the fallback groups of the database are, also when they form
  a cycle, the loop of \<open>route\<close> reaches a result or an error after at most three groups.\<close>

lemma route_ends:
  assumes "executes_graph env invoke" "groups_keyed g"
  shows "\<exists>r g'. route env invoke grp msgs t mt kw g = Some (r, g') \<and> groups_keyed g'"
proof -
  have "\<exists>r g'. route_loop fuel env invoke grp visited msgs t mt kw g = Some (r, g') \<and> groups_keyed g'"
    if "groups_keyed g" "fuel + length visited \<ge> 4" "fuel > 0" for fuel visited grp g
    using that
  proof (induction fuel arbitrary: visited grp g)
    case (Suc fuel)
    obtain r g1 where one: "run_one env invoke grp msgs t mt False kw None g = (r, g1)" by (metis prod.collapse)
    have k1: "groups_keyed g1"
      using run_one_catalog [OF assms(1), of g grp msgs t mt False kw] Suc.prems(1) one same_catalog_keyed by fastforce
    show ?case
    proof (cases "\<exists>e fb. r = Inl e \<and> catches recoverable_classes e \<and> g_fallback_group_id (snd grp) = Some fb \<and>
        fb \<notin> set visited \<and> length visited < 3")
      case False
      then show ?thesis using one k1
        by (auto split: sum.splits option.splits)
    next
      case True
      then obtain e fb where e: "r = Inl e" "catches recoverable_classes e" "g_fallback_group_id (snd grp) = Some fb"
        "fb \<notin> set visited" "length visited < 3" by blast
      obtain q g2 where ld: "load_group env fb g1 = (q, g2)" by (metis prod.collapse)
      note keyed = load_group_keyed [OF k1 ld]
      show ?thesis
      proof (cases q)
        case (Inl e2)
        then show ?thesis using one e ld keyed by simp
      next
        case (Inr grp2)
        then have "length (List.insert (fst grp2) visited) = Suc (length visited)" using keyed e(4) by simp
        then have "\<exists>r g'. route_loop fuel env invoke grp2 (List.insert (fst grp2) visited) msgs t mt kw g2 = Some (r, g') \<and>
            groups_keyed g'"
          using Suc.prems e(5) keyed by (intro Suc.IH) auto
        then show ?thesis using one e ld Inr by simp
      qed
    qed
  qed simp
  then show ?thesis using assms(2) by (simp add: route_def)
qed

end
