(* ===== verification/Limiter.thy ===== *)
theory Limiter
  imports Exceptions
begin

text \<open>
  The rate limiter of \<open>src/botflow/core.py\<close> (\<open>RateLimitMiddleware\<close>) and the header lookup it shares with the
  authentication middleware.

  A deque with \<open>maxlen\<close> is the list of its elements, oldest first. Time stamps are real numbers, the
  parser of the query string (\<open>urllib.parse.parse_qsl\<close>) is an argument. Header names and values are
  the bytes of the ASGI scope; \<open>latin1\<close> is their decoded text.
\<close>

subsection \<open>The request\<close>

definition latin1_char :: "char \<Rightarrow> string" where
  "latin1_char c = (let n = (of_char c :: nat) in
     if n < 128 then [c] else [char_of (192 + n div 64), char_of (128 + n mod 64)])"

definition latin1 :: "string \<Rightarrow> string" where
  "latin1 bs = concat (map latin1_char bs)"

record scope =
  sc_type :: string
  sc_path :: string
  sc_headers :: "(string \<times> string) list"
  sc_query :: string
  sc_client :: "string option"

text \<open>The name is given in lower case by every caller; the first match wins.\<close>

fun asgi_header :: "(string \<times> string) list \<Rightarrow> string \<Rightarrow> string" where
  "asgi_header [] name = []"
| "asgi_header ((k, v) # hs) name = (if k = lower name then latin1 v else asgi_header hs name)"

definition bearer :: string where
  "bearer = ''Bearer ''"

definition rate_limit_key :: "(string \<Rightarrow> (string \<times> string) list) \<Rightarrow> scope \<Rightarrow> string" where
  "rate_limit_key parse_qsl sc =
     (let auth = asgi_header (sc_headers sc) ''authorization'' in
      if prefix bearer auth then drop 7 auth
      else
        let api_key = foldl (\<lambda>acc kv. if fst kv = ''api_key'' then snd kv else acc) '''' (parse_qsl (latin1 (sc_query sc))) in
        if api_key \<noteq> '''' then api_key
        else case sc_client sc of Some host \<Rightarrow> host | None \<Rightarrow> ''anonymous'')"

subsection \<open>The limiter\<close>

record limiter_config =
  max_requests :: nat
  window_seconds :: int
  max_keys :: nat

record limiter =
  rl_requests :: "(string \<times> real list) list"
  rl_last_access :: "(string \<times> real) list"
  rl_request_count :: nat

definition fresh_limiter :: limiter where
  "fresh_limiter = \<lparr>rl_requests = [], rl_last_access = [], rl_request_count = 0\<rparr>"

datatype decision = Limited int | Admitted

text \<open>\<open>deque(xs, maxlen=n)\<close> and \<open>append\<close>: the oldest elements fall out.\<close>

definition bounded :: "nat \<Rightarrow> 'a list \<Rightarrow> 'a list" where
  "bounded n xs = drop (length xs - n) xs"

definition cleanup_old_keys :: "real \<Rightarrow> limiter \<Rightarrow> limiter" where
  "cleanup_old_keys now l =
     (let stale = map fst (filter (\<lambda>kt. snd kt < now - 300) (rl_last_access l))
      in l\<lparr>rl_requests := filter (\<lambda>kd. fst kd \<notin> set stale) (rl_requests l),
           rl_last_access := filter (\<lambda>kt. fst kt \<notin> set stale) (rl_last_access l)\<rparr>)"

text \<open>The test on one key's deque. An empty deque (\<open>max_requests = 0\<close>) raises at \<open>dq[0]\<close>.\<close>

definition check_window :: "limiter_config \<Rightarrow> real \<Rightarrow> real list \<Rightarrow> (decision \<times> real list) res" where
  "check_window cfg now dq =
     (case dq of
        [] \<Rightarrow> Inl (raised_by_python IndexErrorExc)
      | oldest # _ \<Rightarrow>
          if now - of_int (window_seconds cfg) \<le> oldest \<and> length dq = max_requests cfg
          then (let x = oldest + of_int (window_seconds cfg) - now
                in Inr (Limited ((if x \<ge> 0 then \<lfloor>x\<rfloor> else \<lceil>x\<rceil>) + 1), dq))
          else Inr (Admitted, bounded (max_requests cfg) (dq @ [now])))"

definition deque_of :: "limiter_config \<Rightarrow> real \<Rightarrow> string \<Rightarrow> limiter \<Rightarrow> real list" where
  "deque_of cfg now key l =
     (case map_of (rl_requests l) key of Some dq \<Rightarrow> dq | None \<Rightarrow> bounded (max_requests cfg) [now - 1])"

definition count_request :: "limiter_config \<Rightarrow> real \<Rightarrow> limiter \<Rightarrow> limiter" where
  "count_request cfg now l =
     (let l1 = l\<lparr>rl_request_count := rl_request_count l + 1\<rparr> in
      if rl_request_count l1 mod 1000 = 0 \<and> length (rl_requests l1) > max_keys cfg then cleanup_old_keys now l1 else l1)"

definition limit_request :: "limiter_config \<Rightarrow> real \<Rightarrow> string \<Rightarrow> limiter \<Rightarrow> decision res \<times> limiter" where
  "limit_request cfg now key l =
     (let l1 = count_request cfg now l;
          dq = deque_of cfg now key l1;
          l2 = l1\<lparr>rl_requests := AList.update key dq (rl_requests l1),
                  rl_last_access := AList.update key now (rl_last_access l1)\<rparr>
      in case check_window cfg now dq of
           Inl e \<Rightarrow> (Inl e, l2)
         | Inr (d, dq') \<Rightarrow> (Inr d, l2\<lparr>rl_requests := AList.update key dq' (rl_requests l2)\<rparr>))"

text \<open>The middleware: \<open>None\<close> when the request bypasses the limiter.\<close>

definition rate_limit_middleware :: "(string \<Rightarrow> (string \<times> string) list) \<Rightarrow> limiter_config \<Rightarrow> real \<Rightarrow> scope \<Rightarrow> limiter \<Rightarrow>
    decision option res \<times> limiter" where
  "rate_limit_middleware parse_qsl cfg now sc l =
     (if sc_type sc \<noteq> ''http'' \<or> sc_path sc = ''/health'' then (Inr None, l)
      else let (r, l1) = limit_request cfg now (rate_limit_key parse_qsl sc) l
           in (case r of Inl e \<Rightarrow> Inl e | Inr d \<Rightarrow> Inr (Some d), l1))"

subsection \<open>The window of one key\<close>

lemma bounded_length [simp]: "length (bounded n xs) = min n (length xs)"
  by (simp add: bounded_def)

lemma bounded_small [simp]: "length xs \<le> n \<Longrightarrow> bounded n xs = xs"
  by (simp add: bounded_def)

lemma bounded_full: "length xs = n \<Longrightarrow> n > 0 \<Longrightarrow> bounded n (xs @ [x]) = tl xs @ [x]"
  by (cases xs) (simp_all add: bounded_def)

lemma bounded_suffix: "suffix (bounded n xs) xs"
  by (simp add: bounded_def suffix_drop)

text \<open>How many time stamps lie in the window that ends at \<open>now\<close>.\<close>

definition in_window :: "int \<Rightarrow> real \<Rightarrow> real list \<Rightarrow> nat" where
  "in_window w now ts = length (filter (\<lambda>t. now - of_int w \<le> t) ts)"

lemma in_window_append [simp]: "in_window w now (xs @ ys) = in_window w now xs + in_window w now ys"
  by (simp add: in_window_def)

lemma in_window_later: "now \<le> now' \<Longrightarrow> in_window w now' ts \<le> in_window w now ts"
  unfolding in_window_def by (induction ts) auto

text \<open>The sliding window log, the textbook limiter: it keeps every time stamp, and admits a request when
  fewer than \<open>n\<close> of them lie in the window.\<close>

definition log_admits :: "limiter_config \<Rightarrow> real \<Rightarrow> real list \<Rightarrow> bool" where
  "log_admits cfg now history \<longleftrightarrow> in_window (window_seconds cfg) now history < max_requests cfg"

fun log_run :: "limiter_config \<Rightarrow> real list \<Rightarrow> real list \<Rightarrow> bool list" where
  "log_run cfg history [] = []"
| "log_run cfg history (t # ts) =
     (if log_admits cfg t history then True # log_run cfg (history @ [t]) ts else False # log_run cfg history ts)"

fun window_run :: "limiter_config \<Rightarrow> real list \<Rightarrow> real list \<Rightarrow> bool list" where
  "window_run cfg dq [] = []"
| "window_run cfg dq (t # ts) =
     (case check_window cfg t dq of
        Inl e \<Rightarrow> []
      | Inr (Limited r, dq') \<Rightarrow> False # window_run cfg dq' ts
      | Inr (Admitted, dq') \<Rightarrow> True # window_run cfg dq' ts)"

lemma in_window_sorted_all:
  assumes "sorted (x # xs)" "now - of_int w \<le> x"
  shows "in_window w now (x # xs) = length (x # xs)"
proof -
  have "\<forall>t \<in> set (x # xs). now - of_int w \<le> t" using assms by fastforce
  then show ?thesis by (simp only: in_window_def filter_True)
qed

text \<open>The deque decides like the log, when it holds the last \<open>n\<close> time stamps of the log.\<close>

lemma bounded_window_full:
  assumes "sorted history" "n > 0" "length history \<ge> n"
  shows "now - of_int w \<le> hd (bounded n history) \<longleftrightarrow> in_window w now history \<ge> n"
proof -
  let ?pre = "take (length history - n) history"
  have split: "history = ?pre @ bounded n history" by (simp add: bounded_def)
  have len: "length (bounded n history) = n" using assms(3) by simp
  then obtain x xs where x: "bounded n history = x # xs" using assms(2) by (cases "bounded n history") auto
  have sorted: "sorted (x # xs)" and le: "\<forall>t \<in> set ?pre. t \<le> x"
    using assms(1) by (subst (asm) split, simp add: x sorted_append)+
  show ?thesis
  proof
    assume "now - of_int w \<le> hd (bounded n history)"
    then have "in_window w now (bounded n history) = n" using in_window_sorted_all [OF sorted] x len by simp
    then show "in_window w now history \<ge> n"
      using arg_cong [OF split, of "in_window w now"] by (simp only: in_window_append)
  next
    assume ge: "in_window w now history \<ge> n"
    show "now - of_int w \<le> hd (bounded n history)"
    proof (rule ccontr)
      assume no: "\<not> ?thesis"
      then have "\<not> now - of_int w \<le> x" by (simp add: x)
      then have "filter (\<lambda>t. now - of_int w \<le> t) ?pre = []" using le by (auto simp: filter_empty_conv)
      moreover have "length (filter (\<lambda>t. now - of_int w \<le> t) (x # xs)) \<le> length xs" using \<open>\<not> now - of_int w \<le> x\<close> by simp
      ultimately have "in_window w now (?pre @ x # xs) \<le> length xs" by (simp add: in_window_def)
      then have "in_window w now history \<le> length xs"
        using arg_cong [OF split, of "in_window w now"] unfolding x by simp
      then show False using ge len x by simp
    qed
  qed
qed

lemma bounded_append: "bounded n (bounded n xs @ ys) = bounded n (xs @ ys)"
  by (cases "length xs \<le> n") (auto simp: bounded_def min_def add.commute)

lemma in_window_length: "in_window w now ts \<le> length ts"
  by (simp add: in_window_def)

text \<open>C40: the deque limiter refines the sliding window log. Started on the same time stamps, with at least one
  request allowed and a clock that does not run backwards, the code's deque of at most \<open>max_requests\<close> time
  stamps takes for every sequence of requests exactly the decisions of the textbook limiter that keeps every
  time stamp.\<close>

theorem deque_refines_log:
  assumes "max_requests cfg > 0" "history \<noteq> []" "sorted (history @ ts)"
  shows "window_run cfg (bounded (max_requests cfg) history) ts = log_run cfg history ts"
  using assms(2,3)
proof (induction ts arbitrary: history)
  case (Cons t ts)
  let ?n = "max_requests cfg" and ?w = "window_seconds cfg"
  have sorted: "sorted history" using Cons.prems(2) by (simp add: sorted_append)
  obtain x xs where x: "bounded ?n history = x # xs"
  proof -
    have "length (bounded ?n history) > 0" using assms(1) Cons.prems(1) by simp
    then show thesis using that by (cases "bounded ?n history") simp_all
  qed
  have full: "length (x # xs) = ?n \<longleftrightarrow> length history \<ge> ?n"
    unfolding x [symmetric] by auto
  have limited: "(t - of_int ?w \<le> x \<and> length (x # xs) = ?n) = (\<not> log_admits cfg t history)"
  proof (cases "length history \<ge> ?n")
    case True
    then show ?thesis
      using bounded_window_full [OF sorted assms(1) True, of t ?w] full x by (simp add: log_admits_def not_less)
  next
    case False
    then show ?thesis using in_window_length [of ?w t history] full by (simp add: log_admits_def)
  qed
  show ?case
  proof (cases "log_admits cfg t history")
    case True
    then have "check_window cfg t (x # xs) = Inr (Admitted, bounded ?n (bounded ?n history @ [t]))"
      using limited by (simp add: check_window_def x)
    then have "window_run cfg (bounded ?n history) (t # ts) = True # window_run cfg (bounded ?n (history @ [t])) ts"
      by (simp add: x bounded_append [of _ history, symmetric])
    then show ?thesis using True Cons.IH [of "history @ [t]"] Cons.prems by simp
  next
    case False
    then obtain r where "check_window cfg t (x # xs) = Inr (Limited r, x # xs)"
      using limited by (auto simp: check_window_def Let_def)
    then have "window_run cfg (bounded ?n history) (t # ts) = False # window_run cfg (bounded ?n history) ts"
      by (simp add: x)
    moreover have "sorted (history @ ts)" using Cons.prems(2) by (auto simp: sorted_append)
    ultimately show ?thesis using False Cons.IH [of history] Cons.prems(1) by simp
  qed
qed simp

definition two_per_minute :: limiter_config where
  "two_per_minute = \<lparr>max_requests = 2, window_seconds = 60, max_keys = 10\<rparr>"

theorem deque_refines_log_witness:
  "window_run two_per_minute [0] [1, 2, 70, 71] = [True, False, True, True]"
proof -
  have "window_run two_per_minute [0] [1, 2, 70, 71] = log_run two_per_minute [0] [1, 2, 70, 71]"
    using deque_refines_log [of two_per_minute "[0]" "[1, 2, 70, 71]"] by (simp add: two_per_minute_def)
  then show ?thesis by (simp add: log_admits_def in_window_def two_per_minute_def)
qed


subsection \<open>The rate of a key\<close>

text \<open>Requests of several clients, with the time stamp of each; the ones that were let through.\<close>

fun limit_all :: "limiter_config \<Rightarrow> limiter \<Rightarrow> (string \<times> real) list \<Rightarrow> (string \<times> real) list \<times> limiter" where
  "limit_all cfg l [] = ([], l)"
| "limit_all cfg l ((key, t) # rs) =
     (let (r, l1) = limit_request cfg t key l;
          (adm, l2) = limit_all cfg l1 rs
      in (if r = Inr Admitted then (key, t) # adm else adm, l2))"

definition times_of :: "string \<Rightarrow> (string \<times> real) list \<Rightarrow> real list" where
  "times_of key rs = map snd (filter (\<lambda>kt. fst kt = key) rs)"

definition since :: "real \<Rightarrow> real list \<Rightarrow> nat" where
  "since c ts = length (filter (\<lambda>t. c \<le> t) ts)"

lemma times_of_simps [simp]:
  "times_of key [] = []"
  "times_of key (rs @ qs) = times_of key rs @ times_of key qs"
  "times_of key ((k, t) # rs) = (if k = key then t # times_of key rs else times_of key rs)"
  by (simp_all add: times_of_def)

lemma since_simps [simp]:
  "since c [] = 0"
  "since c (ts @ us) = since c ts + since c us"
  "since c (t # ts) = (if c \<le> t then Suc (since c ts) else since c ts)"
  by (simp_all add: since_def)

lemma since_le: "since c ts \<le> length ts"
  by (simp add: since_def)

lemma since_zero: "\<forall>t \<in> set ts. t < c \<Longrightarrow> since c ts = 0"
  by (simp add: since_def filter_empty_conv not_le)

text \<open>The deque of a key is not empty, at most full, and holds every admitted request that can still lie in
  a window; a key without a deque has no such request.\<close>

definition key_ok :: "limiter_config \<Rightarrow> real \<Rightarrow> limiter \<Rightarrow> real list \<Rightarrow> string \<Rightarrow> bool" where
  "key_ok cfg now l ts key =
     (case map_of (rl_requests l) key of
        Some dq \<Rightarrow> dq \<noteq> [] \<and> length dq \<le> max_requests cfg \<and> (\<forall>t \<in> set dq. t \<le> now) \<and>
          (\<forall>c \<ge> now - of_int (window_seconds cfg). since c ts \<le> since c dq) \<and>
          (\<exists>a \<le> now. map_of (rl_last_access l) key = Some a \<and> (\<forall>t \<in> set ts. t \<le> a))
      | None \<Rightarrow> \<forall>t \<in> set ts. t < now - 300)"

definition limiter_ok :: "limiter_config \<Rightarrow> real \<Rightarrow> limiter \<Rightarrow> (string \<times> real) list \<Rightarrow> bool" where
  "limiter_ok cfg now l adm \<longleftrightarrow> distinct (map fst (rl_last_access l)) \<and> (\<forall>key. key_ok cfg now l (times_of key adm) key)"

definition sane_config :: "limiter_config \<Rightarrow> bool" where
  "sane_config cfg \<longleftrightarrow> max_requests cfg > 0 \<and> 0 \<le> window_seconds cfg \<and> window_seconds cfg \<le> 300"

definition rate_bounded :: "limiter_config \<Rightarrow> real list \<Rightarrow> bool" where
  "rate_bounded cfg ts \<longleftrightarrow>
     (\<forall>c. length (filter (\<lambda>t. c \<le> t \<and> t \<le> c + of_int (window_seconds cfg)) ts) \<le> max_requests cfg)"

lemma key_ok_later: "key_ok cfg now l ts key \<Longrightarrow> now \<le> now' \<Longrightarrow> key_ok cfg now' l ts key"
  by (fastforce simp: key_ok_def split: option.splits)

lemma map_of_filter_keys: "map_of (filter (\<lambda>kv. fst kv \<notin> S) xs) k = (if k \<in> S then None else map_of xs k)"
  by (induction xs) auto

lemma key_ok_cleanup:
  assumes "distinct (map fst (rl_last_access l))" "key_ok cfg now l ts key" "sane_config cfg"
  shows "key_ok cfg now (cleanup_old_keys now l) ts key"
proof -
  have "key \<in> fst ` {x \<in> set (rl_last_access l). snd x < now - 300} \<Longrightarrow>
      \<exists>a < now - 300. map_of (rl_last_access l) key = Some a"
    using assms(1) by (auto simp: map_of_eq_Some_iff)
  then show ?thesis using assms(2)
    by (fastforce simp: key_ok_def cleanup_old_keys_def Let_def map_of_filter_keys split: option.splits)
qed

lemma limiter_ok_count:
  assumes "limiter_ok cfg now l adm" "sane_config cfg"
  shows "limiter_ok cfg now (count_request cfg now l) adm"
proof -
  have bump: "key_ok cfg now (l\<lparr>rl_request_count := n\<rparr>) ts key = key_ok cfg now l ts key" for n ts key
    by (simp add: key_ok_def split: option.splits)
  have "distinct (map fst (rl_last_access (cleanup_old_keys now m)))" if "distinct (map fst (rl_last_access m))" for m
    using that by (simp add: cleanup_old_keys_def Let_def distinct_map_filter)
  then show ?thesis
    using assms key_ok_cleanup [of "l\<lparr>rl_request_count := rl_request_count l + 1\<rparr>"] bump
    by (simp add: limiter_ok_def count_request_def Let_def)
qed


text \<open>What one request does to the deque of its key.\<close>

lemma check_window_cases:
  assumes "check_window cfg t dq = Inr (d, dq')" "dq \<noteq> []"
  obtains (limited) r where "d = Limited r" "dq' = dq" "t - of_int (window_seconds cfg) \<le> hd dq"
      "length dq = max_requests cfg" "r = \<lfloor>hd dq + of_int (window_seconds cfg) - t\<rfloor> + 1"
    | (admitted) "d = Admitted" "dq' = bounded (max_requests cfg) (dq @ [t])"
      "length dq = max_requests cfg \<Longrightarrow> hd dq < t - of_int (window_seconds cfg)"
  using assms by (cases dq) (auto simp: check_window_def Let_def not_le split: if_splits)

lemma check_window_total: "dq \<noteq> [] \<Longrightarrow> \<exists>d dq'. check_window cfg t dq = Inr (d, dq')"
  by (cases dq) (auto simp: check_window_def Let_def)

lemma deque_of_ok:
  assumes "key_ok cfg t l ts key" "sane_config cfg"
  defines "dq \<equiv> deque_of cfg t key l"
  shows "dq \<noteq> []" "length dq \<le> max_requests cfg" "\<forall>x \<in> set dq. x \<le> t" "\<forall>x \<in> set ts. x \<le> t"
    "c \<ge> t - of_int (window_seconds cfg) \<Longrightarrow> since c ts \<le> since c dq"
proof -
  have fresh: "bounded (max_requests cfg) [t - 1] = [t - 1]" using assms(2) by (simp add: sane_config_def)
  have old: "since c ts = 0" if "\<forall>x \<in> set ts. x < t - 300" "c \<ge> t - of_int (window_seconds cfg)" for c
    using that assms(2) by (intro since_zero) (force simp: sane_config_def)
  show "dq \<noteq> []" "length dq \<le> max_requests cfg" "\<forall>x \<in> set dq. x \<le> t" "\<forall>x \<in> set ts. x \<le> t"
    using assms by (fastforce simp: key_ok_def deque_of_def fresh sane_config_def split: option.splits)+
  show "c \<ge> t - of_int (window_seconds cfg) \<Longrightarrow> since c ts \<le> since c dq"
    using assms old by (auto simp: key_ok_def deque_of_def fresh split: option.splits)
qed

text \<open>An admitted request finds fewer than \<open>max_requests\<close> admitted requests in its window, and the new deque
  covers it.\<close>

lemma admitted_covered:
  assumes "dq \<noteq> []" "length dq \<le> n" "length dq = n \<Longrightarrow> hd dq < t - w" "n > 0" "c \<ge> t - w" "since c ts \<le> since c dq"
  shows "since c ts < n" "since c (ts @ [t]) \<le> since c (bounded n (dq @ [t]))"
proof -
  obtain x xs where dq: "dq = x # xs" using assms(1) by (cases dq) auto
  have "since c dq \<le> length xs" if "length dq = n"
    using that assms(3,5) since_le [of c xs] by (simp add: dq)
  then show "since c ts < n" using assms(2,6) since_le [of c dq] dq by fastforce
  show "since c (ts @ [t]) \<le> since c (bounded n (dq @ [t]))"
  proof (cases "length dq = n")
    case True
    then have "bounded n (dq @ [t]) = xs @ [t]" using bounded_full [OF True assms(4)] dq by simp
    then have "since c (bounded n (dq @ [t])) = since c (xs @ [t])" by simp
    moreover have "since c dq = since c xs" using assms(3,5) True by (simp add: dq)
    ultimately show ?thesis using assms(6) by simp
  next
    case False
    then show ?thesis using assms(2,6) by simp
  qed
qed

lemma limit_step:
  assumes "limiter_ok cfg now l adm" "now \<le> t" "sane_config cfg" "limit_request cfg t key l = (r, l')"
  shows "limiter_ok cfg t l' (if r = Inr Admitted then adm @ [(key, t)] else adm)"
    and "r = Inr Admitted \<Longrightarrow> c \<ge> t - of_int (window_seconds cfg) \<Longrightarrow> since c (times_of key adm) < max_requests cfg"
proof -
  define l1 where "l1 = count_request cfg t l"
  define dq where "dq = deque_of cfg t key l1"
  have "limiter_ok cfg t l adm" using assms(1) key_ok_later [OF _ assms(2)] by (auto simp: limiter_ok_def)
  then have ok: "limiter_ok cfg t l1 adm" unfolding l1_def using assms(3) by (rule limiter_ok_count)
  then have key: "key_ok cfg t l1 (times_of key adm) key" by (simp add: limiter_ok_def)
  note dq_ok = deque_of_ok [OF key assms(3), folded dq_def]
  obtain d dq' where d: "check_window cfg t dq = Inr (d, dq')" using check_window_total [OF dq_ok(1)] by blast
  let ?adm = "if r = Inr Admitted then adm @ [(key, t)] else adm"
  have r: "r = Inr d" and l': "map_of (rl_requests l') = (map_of (rl_requests l1)) (key \<mapsto> dq')"
      "map_of (rl_last_access l') = (map_of (rl_last_access l1)) (key \<mapsto> t)"
      "rl_last_access l' = AList.update key t (rl_last_access l1)"
    using assms(4) d by (auto simp: limit_request_def Let_def l1_def dq_def update_conv')
  have n: "max_requests cfg > 0" using assms(3) by (simp add: sane_config_def)
  have new: "dq' \<noteq> [] \<and> length dq' \<le> max_requests cfg \<and> (\<forall>x \<in> set dq'. x \<le> t) \<and>
      (\<forall>c \<ge> t - of_int (window_seconds cfg). since c (times_of key ?adm) \<le> since c dq')"
    using d dq_ok(1)
  proof (cases rule: check_window_cases)
    case limited
    then show ?thesis using dq_ok r by simp
  next
    case admitted
    have "length dq' > 0" using n by (simp add: admitted(2))
    then have "dq' \<noteq> []" by auto
    moreover have "length dq' \<le> max_requests cfg" by (simp add: admitted(2))
    moreover have "\<forall>x \<in> set dq'. x \<le> t"
      using dq_ok(3) by (auto simp: admitted(2) bounded_def dest: in_set_dropD)
    moreover have "since c (times_of key adm @ [t]) \<le> since c dq'" if "c \<ge> t - of_int (window_seconds cfg)" for c
      unfolding admitted(2) by (rule admitted_covered(2) [OF dq_ok(1,2) admitted(3) n that dq_ok(5) [OF that]])
    ultimately show ?thesis using r admitted(1) by simp
  qed
  have "key_ok cfg t l' (times_of k ?adm) k" for k
  proof (cases "k = key")
    case True
    then show ?thesis using new dq_ok(4) by (auto simp: key_ok_def l'(1,2))
  next
    case False
    then have "times_of k ?adm = times_of k adm" by simp
    moreover have "key_ok cfg t l' (times_of k adm) k = key_ok cfg t l1 (times_of k adm) k"
      using False by (simp add: key_ok_def l'(1,2) split: option.split)
    ultimately show ?thesis using ok by (simp add: limiter_ok_def)
  qed
  moreover have "distinct (map fst (rl_last_access l'))" using ok by (simp add: l' limiter_ok_def distinct_update)
  ultimately show "limiter_ok cfg t l' ?adm" by (simp add: limiter_ok_def)
  assume "r = Inr Admitted" "c \<ge> t - of_int (window_seconds cfg)"
  then show "since c (times_of key adm) < max_requests cfg"
    using admitted_covered(1) [OF dq_ok(1,2) _ n] dq_ok(5) r check_window_cases [OF d dq_ok(1)]
    by (metis decision.distinct(1) sum.inject(2))
qed


lemma rate_bounded_snoc:
  assumes "rate_bounded cfg ts" "\<forall>x \<in> set ts. x \<le> t"
    "\<And>c. c \<ge> t - of_int (window_seconds cfg) \<Longrightarrow> since c ts < max_requests cfg"
  shows "rate_bounded cfg (ts @ [t])"
  unfolding rate_bounded_def
proof (rule allI)
  fix c :: real
  let ?P = "\<lambda>x. c \<le> x \<and> x \<le> c + of_int (window_seconds cfg)"
  show "length (filter ?P (ts @ [t])) \<le> max_requests cfg"
  proof (cases "?P t")
    case True
    have "filter ?P ts = filter (\<lambda>x. c \<le> x) ts" using assms(2) True by (intro filter_cong) auto
    then show ?thesis using assms(3) [of c] True by (simp add: since_def)
  next
    case False
    then have "filter ?P (ts @ [t]) = filter ?P ts" by auto
    then show ?thesis using assms(1) unfolding rate_bounded_def by metis
  qed
qed

lemma limit_all_bounded:
  assumes "limiter_ok cfg now l adm" "sane_config cfg" "sorted (now # map snd rs)" "\<forall>key. rate_bounded cfg (times_of key adm)"
  shows "rate_bounded cfg (times_of key (adm @ fst (limit_all cfg l rs)))"
  using assms(1,3,4)
proof (induction rs arbitrary: now l adm)
  case (Cons kt rs)
  obtain k t where kt: "kt = (k, t)" by (cases kt)
  obtain r l1 where step: "limit_request cfg t k l = (r, l1)" by (cases "limit_request cfg t k l")
  have now: "now \<le> t" and sorted: "sorted (t # map snd rs)" using Cons.prems(2) kt by auto
  note ok = limit_step [OF Cons.prems(1) now assms(2) step]
  let ?adm = "if r = Inr Admitted then adm @ [(k, t)] else adm"
  have "rate_bounded cfg (times_of key ?adm)" for key
  proof (cases "r = Inr Admitted \<and> key = k")
    case True
    have "limiter_ok cfg t l adm" using Cons.prems(1) key_ok_later [OF _ now] by (auto simp: limiter_ok_def)
    then have "\<forall>x \<in> set (times_of k adm). x \<le> t"
      by (fastforce simp: limiter_ok_def key_ok_def split: option.splits)
    then show ?thesis using True rate_bounded_snoc Cons.prems(3) ok(2) by simp
  next
    case False
    then show ?thesis using Cons.prems(3) by auto
  qed
  then have "rate_bounded cfg (times_of key (?adm @ fst (limit_all cfg l1 rs)))"
    using Cons.IH [OF ok(1) sorted] by blast
  then show ?case by (cases "limit_all cfg l1 rs") (auto simp: kt step split: if_splits)
qed simp

lemma limiter_ok_fresh: "limiter_ok cfg now fresh_limiter []"
  by (simp add: limiter_ok_def key_ok_def fresh_limiter_def)

lemma limit_all_ok:
  assumes "limiter_ok cfg now l adm" "sane_config cfg" "sorted (now # map snd rs)"
  shows "\<exists>adm. limiter_ok cfg (last (now # map snd rs)) (snd (limit_all cfg l rs)) adm"
  using assms(1,3)
proof (induction rs arbitrary: now l adm)
  case (Cons kt rs)
  obtain k t where kt: "kt = (k, t)" by (cases kt)
  obtain r l1 where step: "limit_request cfg t k l = (r, l1)" by (cases "limit_request cfg t k l")
  have now: "now \<le> t" and sorted: "sorted (t # map snd rs)" using Cons.prems(2) kt by auto
  have "snd (limit_all cfg l (kt # rs)) = snd (limit_all cfg l1 rs)" by (simp add: kt step split: prod.split)
  then show ?case
    using Cons.IH [OF limit_step(1) [OF Cons.prems(1) now assms(2) step] sorted] by (simp add: kt)
qed auto

text \<open>C8: the rate limit holds for every key. With at least one request allowed, a window of at most five
  minutes and a clock that does not run backwards, whatever the clients send and however often the limiter
  drops idle keys, at most \<open>max_requests\<close> requests of one key are let through in any period of
  \<open>window_seconds\<close>, its two ends included.\<close>

theorem rate_limit_holds:
  assumes "sane_config cfg" "sorted (map snd rs)"
  shows "length (filter (\<lambda>t. c \<le> t \<and> t \<le> c + of_int (window_seconds cfg))
           (times_of key (fst (limit_all cfg fresh_limiter rs)))) \<le> max_requests cfg"
proof -
  obtain now where "sorted (now # map snd rs)"
    using assms(2) by (cases rs) (auto intro: that [of 0] that [of "snd (hd rs)"])
  then show ?thesis
    using limit_all_bounded [OF limiter_ok_fresh assms(1), of now rs key]
    by (simp add: rate_bounded_def del: sorted_wrt.simps)
qed

theorem rate_limit_holds_witness:
  "length (filter (\<lambda>t. 0 \<le> t \<and> t \<le> 60)
     (times_of ''a'' (fst (limit_all two_per_minute fresh_limiter [(''a'', 1), (''b'', 2), (''a'', 3), (''a'', 70)])))) \<le> 2"
  using rate_limit_holds [of two_per_minute "[(''a'', 1), (''b'', 2), (''a'', 3), (''a'', 70)]" 0 "''a''"]
  by (simp add: sane_config_def two_per_minute_def)


subsection \<open>Waiting for \<open>retry_after\<close>\<close>

text \<open>The requests of other keys leave the deque of a key alone, or drop it.\<close>

lemma count_request_deque:
  "map_of (rl_requests (count_request cfg t l)) key = map_of (rl_requests l) key \<or>
   map_of (rl_requests (count_request cfg t l)) key = None"
  by (simp add: count_request_def cleanup_old_keys_def Let_def map_of_filter_keys)

lemma limit_request_other_deque:
  assumes "key' \<noteq> key"
  shows "map_of (rl_requests (snd (limit_request cfg t key' l))) key \<in> {map_of (rl_requests l) key, None}"
  using assms count_request_deque [of cfg t l key]
  by (simp add: limit_request_def Let_def update_conv' split: sum.split prod.split)

lemma limit_all_other_deque:
  assumes "key \<notin> fst ` set rs"
  shows "map_of (rl_requests (snd (limit_all cfg l rs))) key \<in> {map_of (rl_requests l) key, None}"
  using assms
proof (induction rs arbitrary: l)
  case (Cons kt rs)
  obtain k t where kt: "kt = (k, t)" by (cases kt)
  obtain r l1 where step: "limit_request cfg t k l = (r, l1)" by (cases "limit_request cfg t k l")
  have "map_of (rl_requests l1) key \<in> {map_of (rl_requests l) key, None}"
    using limit_request_other_deque [of k key cfg t l] Cons.prems by (auto simp: kt step)
  moreover have "map_of (rl_requests (snd (limit_all cfg l1 rs))) key \<in> {map_of (rl_requests l1) key, None}"
    using Cons.IH [of l1] Cons.prems by simp
  moreover have "snd (limit_all cfg l (kt # rs)) = snd (limit_all cfg l1 rs)"
    by (simp add: kt step split: prod.split)
  ultimately show ?case by auto
qed simp

lemma limit_request_limited:
  assumes "limit_request cfg t key l = (Inr (Limited r), l')" "limiter_ok cfg now l adm" "now \<le> t" "sane_config cfg"
  obtains dq where "map_of (rl_requests l') key = Some dq" "dq \<noteq> []" "hd dq \<le> t"
    "t - of_int (window_seconds cfg) \<le> hd dq" "r = \<lfloor>hd dq + of_int (window_seconds cfg) - t\<rfloor> + 1"
proof -
  define l1 where "l1 = count_request cfg t l"
  have "limiter_ok cfg t l adm" using assms(2) key_ok_later [OF _ assms(3)] by (auto simp: limiter_ok_def)
  then have ok: "limiter_ok cfg t l1 adm" unfolding l1_def using assms(4) by (rule limiter_ok_count)
  then have key: "key_ok cfg t l1 (times_of key adm) key" by (simp add: limiter_ok_def)
  define dq where "dq = deque_of cfg t key l1"
  note dq_ok = deque_of_ok [OF key assms(4), folded dq_def]
  obtain dq' where d: "check_window cfg t dq = Inr (Limited r, dq')"
    using assms(1) by (auto simp: limit_request_def Let_def l1_def dq_def split: sum.splits prod.splits)
  have "map_of (rl_requests l') key = Some dq'"
    using assms(1) d by (auto simp: limit_request_def Let_def l1_def dq_def update_conv')
  with d dq_ok(1) show thesis
  proof (cases rule: check_window_cases)
    case limited
    then show thesis using that [of dq] \<open>map_of (rl_requests l') key = Some dq'\<close> dq_ok(1,3) by simp
  qed simp
qed

lemma limit_request_admits:
  assumes "max_requests cfg \<ge> 2"
    "\<And>dq. map_of (rl_requests l) key = Some dq \<Longrightarrow> dq \<noteq> [] \<and> hd dq < t - of_int (window_seconds cfg)"
  shows "fst (limit_request cfg t key l) = Inr Admitted"
proof -
  define dq where "dq = deque_of cfg t key (count_request cfg t l)"
  have "dq = [t - 1] \<or> dq \<noteq> [] \<and> hd dq < t - of_int (window_seconds cfg)"
    using count_request_deque [of cfg t l key] assms by (auto simp: dq_def deque_of_def split: option.splits)
  then have "\<exists>dq'. check_window cfg t dq = Inr (Admitted, dq')"
    using assms(1) by (cases dq) (auto simp: check_window_def)
  then show ?thesis by (auto simp: limit_request_def Let_def dq_def)
qed

text \<open>C39: waiting for \<open>retry_after\<close> is enough. When the limiter, at any point of its run, turns a request of a
  key away and names \<open>r\<close> seconds, then \<open>r\<close> lies between 1 and one more than the window, and the next request
  of that key that comes at least \<open>r\<close> seconds later is let through, whatever the other keys send meanwhile and
  whatever the cleanup does; at least two requests per window are needed.\<close>

theorem retry_after_suffices:
  assumes "sane_config cfg" "max_requests cfg \<ge> 2" "sorted (map snd (before @ [(key, t)]))"
    "l = snd (limit_all cfg fresh_limiter before)"
    "limit_request cfg t key l = (Inr (Limited r), l')"
    "key \<notin> fst ` set between" "t' \<ge> t + of_int r"
  shows "1 \<le> r \<and> r \<le> window_seconds cfg + 1 \<and>
    fst (limit_request cfg t' key (snd (limit_all cfg l' between))) = Inr Admitted"
proof -
  define now where "now = (if before = [] then t else snd (hd before))"
  have sorted: "sorted (now # map snd before)" and all: "\<forall>x \<in> set (now # map snd before). x \<le> t"
    using assms(3) by (cases before; fastforce simp: now_def sorted_append)+
  have le: "last (now # map snd before) \<le> t" using all by (metis last_in_set list.distinct(1))
  from sorted obtain adm where ok: "limiter_ok cfg (last (now # map snd before)) l adm"
    using limit_all_ok [OF limiter_ok_fresh assms(1)] assms(4) by blast
  obtain dq where dq: "map_of (rl_requests l') key = Some dq" "dq \<noteq> []" "hd dq \<le> t"
      "t - of_int (window_seconds cfg) \<le> hd dq" "r = \<lfloor>hd dq + of_int (window_seconds cfg) - t\<rfloor> + 1"
    using limit_request_limited [OF assms(5) ok le assms(1)] by blast
  have r: "1 \<le> r \<and> r \<le> window_seconds cfg + 1" and wait: "hd dq < t' - of_int (window_seconds cfg)"
    using dq(3-5) assms(7) by linarith+
  show ?thesis
    using r wait dq(1,2) limit_all_other_deque [OF assms(6), of cfg l'] by (auto intro!: limit_request_admits assms(2))
qed

theorem retry_after_suffices_witness:
  "fst (limit_request two_per_minute 61 ''a'' (snd (limit_all two_per_minute
     (snd (limit_request two_per_minute 2 ''a'' (snd (limit_all two_per_minute fresh_limiter [(''a'', 1)])))) [(''b'', 5)])))
   = Inr Admitted"
proof -
  let ?l = "snd (limit_all two_per_minute fresh_limiter [(''a'', 1)])"
  have "fst (limit_request two_per_minute 2 ''a'' ?l) = Inr (Limited 59)"
    by (simp add: limit_request_def count_request_def deque_of_def check_window_def fresh_limiter_def two_per_minute_def)
  then have "limit_request two_per_minute 2 ''a'' ?l = (Inr (Limited 59), snd (limit_request two_per_minute 2 ''a'' ?l))"
    by (simp add: prod_eq_iff)
  from retry_after_suffices [OF _ _ _ refl this, of "[(''b'', 5)]" 61] show ?thesis
    by (simp add: sane_config_def two_per_minute_def)
qed

end
