(* ===== verification/Auth.thy ===== *)
theory Auth
  imports Store_Facts Limiter
begin

text \<open>
  Authentication, \<open>src/botflow/auth.py\<close> without the setup token, the \<open>AuthMiddleware\<close> of
  \<open>src/botflow/core.py\<close> and the client keys of \<open>src/botflow/storage/db.py\<close>.

  The hash \<open>sha\<close> (\<open>hashlib.sha256(...).hexdigest()\<close>), the key derivation \<open>kdf\<close>
  (\<open>hashlib.pbkdf2_hmac("sha256", ...)\<close>, which takes the password, the salt and the number of
  iterations), the JSON writer and reader \<open>dumps\<close> and \<open>loads\<close> and the reader of floats \<open>float_of\<close> are
  arguments; so are the random tokens and the clock. Bytes are strings. A session row whose \<open>exp\<close> is not
  a number (NaN) is not modelled: the code writes none.
\<close>

subsection \<open>Tokens\<close>

text \<open>\<open>str.strip\<close> on the text of a header: besides the ASCII white space, Latin-1 has U+0085 and U+00A0.\<close>

fun lstrip_latin1 :: "string \<Rightarrow> string" where
  "lstrip_latin1 (c # d # s) =
     (if (of_char c :: nat) = 194 \<and> ((of_char d :: nat) = 133 \<or> (of_char d :: nat) = 160) then lstrip_latin1 s
      else if is_space c then lstrip_latin1 (d # s) else c # d # s)"
| "lstrip_latin1 [c] = (if is_space c then [] else [c])"
| "lstrip_latin1 [] = []"

fun rstrip_latin1 :: "string \<Rightarrow> string" where
  "rstrip_latin1 [] = []"
| "rstrip_latin1 (c # s) =
     (let t = lstrip_latin1 (c # s) in if t = [] then [] else c # rstrip_latin1 s)"

definition strip_latin1 :: "string \<Rightarrow> string" where
  "strip_latin1 s = rstrip_latin1 (lstrip_latin1 s)"

definition extract_token :: "string option \<Rightarrow> string option" where
  "extract_token authorization =
     (case authorization of
        None \<Rightarrow> None
      | Some a \<Rightarrow>
          if a = '''' then None
          else let (scheme, token) = partition_char (CHR '' '') a in
            if lower scheme \<noteq> ''bearer'' \<or> token = ''''
            then (if strip_latin1 a = '''' then None else Some (strip_latin1 a))
            else Some token)"

text \<open>The start of both dependencies: the parsed credentials win when they are not empty.\<close>

definition presented_token :: "string option \<Rightarrow> string option \<Rightarrow> string option" where
  "presented_token authorization credentials =
     (case credentials of
        Some c \<Rightarrow> if c \<noteq> '''' then Some c else extract_token authorization
      | None \<Rightarrow> extract_token authorization)"

definition is_ascii :: "string \<Rightarrow> bool" where
  "is_ascii s \<longleftrightarrow> list_all (\<lambda>c. (of_char c :: nat) < 128) s"

text \<open>\<open>secrets.compare_digest\<close> on two \<open>str\<close>: a type error unless both are ASCII.\<close>

definition compare_digest_str :: "string \<Rightarrow> string \<Rightarrow> bool res" where
  "compare_digest_str a b =
     (if is_ascii a \<and> is_ascii b then Inr (a = b) else Inl (raised_by_python TypeErrorExc))"

subsection \<open>Passwords\<close>

definition hex_digit :: "nat \<Rightarrow> char" where
  "hex_digit n = (if n < 10 then char_of (48 + n) else char_of (87 + n))"

definition hex_val :: "char \<Rightarrow> nat option" where
  "hex_val c = (let n = (of_char c :: nat) in
     if 48 \<le> n \<and> n \<le> 57 then Some (n - 48)
     else if 97 \<le> n \<and> n \<le> 102 then Some (n - 87)
     else if 65 \<le> n \<and> n \<le> 70 then Some (n - 55) else None)"

definition to_hex :: "string \<Rightarrow> string" where
  "to_hex bs = concat (map (\<lambda>c. [hex_digit ((of_char c :: nat) div 16), hex_digit ((of_char c :: nat) mod 16)]) bs)"

definition is_byte_space :: "char \<Rightarrow> bool" where
  "is_byte_space c \<longleftrightarrow> (let n = (of_char c :: nat) in n = 32 \<or> (9 \<le> n \<and> n \<le> 13))"

text \<open>\<open>bytes.fromhex\<close>: white space may stand between two bytes.\<close>

fun fromhex :: "string \<Rightarrow> string option" where
  "fromhex [] = Some []"
| "fromhex (c # cs) =
     (if is_byte_space c then fromhex cs
      else case cs of
        [] \<Rightarrow> None
      | d # ds \<Rightarrow>
          (case (hex_val c, hex_val d, fromhex ds) of
             (Some x, Some y, Some bs) \<Rightarrow> Some (char_of (16 * x + y) # bs)
           | _ \<Rightarrow> None))"

definition pbkdf2_iterations :: int where
  "pbkdf2_iterations = 600000"

definition pbkdf2_hmac :: "(string \<Rightarrow> string \<Rightarrow> nat \<Rightarrow> string) \<Rightarrow> string \<Rightarrow> string \<Rightarrow> int \<Rightarrow> string res" where
  "pbkdf2_hmac kdf password salt n =
     (if n < - (2 ^ 63) \<or> n > 2147483647 then Inl (raised_by_python (OtherException ''OverflowError''))
      else if n < 1 then Inl (raised_by_python ValueErrorExc)
      else Inr (kdf password salt (nat n)))"

definition pbkdf2_name :: string where
  "pbkdf2_name = ''pbkdf2_sha256''"

definition hash_password :: "(string \<Rightarrow> string \<Rightarrow> nat \<Rightarrow> string) \<Rightarrow> string \<Rightarrow> string \<Rightarrow> string" where
  "hash_password kdf salt password =
     join ''$'' [pbkdf2_name, str_int pbkdf2_iterations, to_hex salt, to_hex (kdf password salt (nat pbkdf2_iterations))]"

definition verify_password :: "(string \<Rightarrow> string \<Rightarrow> nat \<Rightarrow> string) \<Rightarrow> string \<Rightarrow> string \<Rightarrow> bool res" where
  "verify_password kdf password stored =
     (case split_char (CHR ''$'') stored of
        [algo, iters, salt_hex, hash_hex] \<Rightarrow>
          if algo \<noteq> pbkdf2_name then Inr False
          else
            (case (fromhex salt_hex, py_int iters) of
               (Some salt, Some n) \<Rightarrow>
                 (case pbkdf2_hmac kdf password salt n of
                    Inl e \<Rightarrow> if catches [ValueErrorExc, TypeErrorExc] e then Inr False else Inl e
                  | Inr dk \<Rightarrow>
                      (case fromhex hash_hex of
                         None \<Rightarrow> Inr False
                       | Some expected \<Rightarrow> Inr (dk = expected)))
             | _ \<Rightarrow> Inr False)
      | _ \<Rightarrow> Inr False)"

subsection \<open>Client keys\<close>

definition hash_key :: "(string \<Rightarrow> string) \<Rightarrow> string \<Rightarrow> string" where
  "hash_key sha raw = sha raw"

definition get_api_key :: "int \<Rightarrow> db \<Rightarrow> (int \<times> api_key) option" where
  "get_api_key kid db = get_row (api_keys db) kid"

definition get_api_key_by_hash :: "string \<Rightarrow> db \<Rightarrow> (int \<times> api_key) option" where
  "get_api_key_by_hash h db = find (\<lambda>ik. ak_key_hash (snd ik) = h) (rows (api_keys db))"

definition list_api_keys :: "db \<Rightarrow> (int \<times> api_key) list" where
  "list_api_keys db = rows (api_keys db)"

definition create_api_key :: "(string \<Rightarrow> string) \<Rightarrow> string \<Rightarrow> string \<Rightarrow> db \<Rightarrow> ((int \<times> api_key) option \<times> db) res" where
  "create_api_key sha raw label db =
     (let (i, t) = insert_row \<lparr>ak_key_hash = hash_key sha raw, ak_label = label, ak_is_enabled = True\<rparr> (api_keys db);
          db' = db\<lparr>api_keys := t\<rparr>
      in check_constraint (unique_on ak_key_hash t) (get_api_key i db', db'))"

definition update_api_key :: "int \<Rightarrow> string option \<Rightarrow> bool option \<Rightarrow> db \<Rightarrow> bool \<times> db" where
  "update_api_key kid label enabled db =
     (if label = None \<and> enabled = None then (False, db)
      else (count_rows (\<lambda>ik. fst ik = kid) (api_keys db) > 0,
            db\<lparr>api_keys := update_rows (\<lambda>ik. fst ik = kid)
              (\<lambda>r. r\<lparr>ak_label := (case label of Some l \<Rightarrow> l | None \<Rightarrow> ak_label r),
                     ak_is_enabled := (case enabled of Some b \<Rightarrow> b | None \<Rightarrow> ak_is_enabled r)\<rparr>) (api_keys db)\<rparr>))"

definition set_api_key_enabled :: "int \<Rightarrow> bool \<Rightarrow> db \<Rightarrow> bool \<times> db" where
  "set_api_key_enabled kid b db =
     (count_rows (\<lambda>ik. fst ik = kid) (api_keys db) > 0,
      db\<lparr>api_keys := update_rows (\<lambda>ik. fst ik = kid) (\<lambda>r. r\<lparr>ak_is_enabled := b\<rparr>) (api_keys db)\<rparr>)"

definition delete_api_key :: "int \<Rightarrow> db \<Rightarrow> bool \<times> db" where
  "delete_api_key kid db =
     (count_rows (\<lambda>ik. fst ik = kid) (api_keys db) > 0,
      db\<lparr>api_keys := delete_rows (\<lambda>ik. fst ik = kid) (api_keys db)\<rparr>)"

definition resolve_api_key :: "(string \<Rightarrow> string) \<Rightarrow> string \<Rightarrow> db \<Rightarrow> (int \<times> api_key) option res" where
  "resolve_api_key sha token db =
     (let configured = list_api_keys db in
      if configured \<noteq> [] then
        Inr (find (\<lambda>ik. ak_is_enabled (snd ik) \<and> ak_key_hash (snd ik) = hash_key sha token) configured)
      else case get_config ''llm_key'' db of
        None \<Rightarrow> Inr None
      | Some legacy \<Rightarrow>
          if legacy = '''' then Inr None
          else bindE (compare_digest_str token legacy) (\<lambda>same. Inr (
            if same then Some (0, \<lparr>ak_key_hash = hash_key sha token, ak_label = ''legacy'', ak_is_enabled = True\<rparr>)
            else None)))"

definition verify_llm_key :: "(string \<Rightarrow> string) \<Rightarrow> string option \<Rightarrow> string option \<Rightarrow> db \<Rightarrow> (int \<times> api_key) res" where
  "verify_llm_key sha authorization credentials db =
     (case presented_token authorization credentials of
        None \<Rightarrow> Inl (http_error 401 ''Missing API key. Provide Authorization: Bearer <key>.'')
      | Some token \<Rightarrow>
          bindE (resolve_api_key sha token db) (\<lambda>found.
            case found of
              None \<Rightarrow> Inl (http_error 401 ''Invalid or disabled API key.'')
            | Some k \<Rightarrow> Inr k))"

subsection \<open>The middleware\<close>

datatype auth_decision = Bypassed | Unauthorized string | Authenticated int

definition scope_token :: "scope \<Rightarrow> string" where
  "scope_token sc =
     (let x_api_key = asgi_header (sc_headers sc) ''x-api-key'';
          auth_header = asgi_header (sc_headers sc) ''authorization''
      in if x_api_key \<noteq> '''' then strip_latin1 x_api_key
         else if prefix bearer auth_header then strip_latin1 (drop 7 auth_header)
         else strip_latin1 auth_header)"

definition auth_middleware :: "(string \<Rightarrow> string) \<Rightarrow> scope \<Rightarrow> db \<Rightarrow> auth_decision res" where
  "auth_middleware sha sc db =
     (if sc_type sc \<noteq> ''http'' \<or> sc_path sc = ''/health'' \<or> prefix ''/admin/'' (sc_path sc) then Inr Bypassed
      else
        let token = scope_token sc in
        if token = '''' then
          Inr (Unauthorized ''Missing API key. Provide Authorization: Bearer <key> or x-api-key: <key>.'')
        else bindE (resolve_api_key sha token db) (\<lambda>found.
          case found of
            None \<Rightarrow> Inr (Unauthorized ''Invalid or disabled API key.'')
          | Some k \<Rightarrow> Inr (Authenticated (fst k))))"

subsection \<open>Sessions and the admin key\<close>

definition session_ttl_seconds :: int where
  "session_ttl_seconds = 7 * 24 * 3600"

definition session_prefix :: string where
  "session_prefix = ''admin_sess:''"

definition session_config_key :: "(string \<Rightarrow> string) \<Rightarrow> string \<Rightarrow> string" where
  "session_config_key sha token = session_prefix @ py_take 32 (sha token)"

definition session_row :: "real \<Rightarrow> string \<Rightarrow> json" where
  "session_row time username =
     JObj [(''username'', JStr username), (''exp'', JFloat (time + of_int session_ttl_seconds))]"

definition create_session :: "(string \<Rightarrow> string) \<Rightarrow> (json \<Rightarrow> string) \<Rightarrow> real \<Rightarrow> string \<Rightarrow> string \<Rightarrow> db \<Rightarrow> string \<times> db" where
  "create_session sha dumps time token username db =
     (token, set_config \<lfloor>time\<rfloor> (session_config_key sha token) (dumps (session_row time username)) db)"

text \<open>\<open>float(x)\<close>: an integer that rounds above the largest float overflows.\<close>

fun json_float :: "(string \<Rightarrow> real option) \<Rightarrow> json \<Rightarrow> real res" where
  "json_float float_of (JFloat r) = Inr r"
| "json_float float_of (JInt i) =
     (if \<bar>i\<bar> \<ge> 2 ^ 1024 - 2 ^ 970 then Inl (raised_by_python (OtherException ''OverflowError''))
      else Inr (of_int i))"
| "json_float float_of (JBool b) = Inr (if b then 1 else 0)"
| "json_float float_of (JStr s) =
     (case float_of s of Some r \<Rightarrow> Inr r | None \<Rightarrow> Inl (raised_by_python ValueErrorExc))"
| "json_float float_of _ = Inl (raised_by_python TypeErrorExc)"

fun json_item :: "json \<Rightarrow> string \<Rightarrow> json res" where
  "json_item (JObj d) k = (case map_of d k of Some v \<Rightarrow> Inr v | None \<Rightarrow> Inl (raised_by_python KeyErrorExc))"
| "json_item _ k = Inl (raised_by_python TypeErrorExc)"

definition resolve_session :: "(string \<Rightarrow> string) \<Rightarrow> (string \<Rightarrow> json option) \<Rightarrow> (string \<Rightarrow> real option) \<Rightarrow> real \<Rightarrow>
    string \<Rightarrow> db \<Rightarrow> json option res" where
  "resolve_session sha loads float_of time token db =
     (case get_config (session_config_key sha token) db of
        None \<Rightarrow> Inr None
      | Some raw \<Rightarrow>
          if raw = '''' then Inr None
          else case loads raw of
            None \<Rightarrow> Inr None
          | Some session \<Rightarrow>
              (case bindE (json_item session ''exp'') (json_float float_of) of
                 Inl e \<Rightarrow> if catches [ValueErrorExc, TypeErrorExc, KeyErrorExc] e then Inr None else Inl e
               | Inr expires \<Rightarrow> Inr (if expires < time then None else Some session)))"

definition require_admin_key :: "string \<Rightarrow> string res" where
  "require_admin_key admin_key =
     (if admin_key = '''' then Inl (http_error 500 ''Server admin key is not configured (BOTFLOW_ADMIN_KEY).'')
      else Inr admin_key)"

definition verify_admin_key :: "(string \<Rightarrow> string) \<Rightarrow> (string \<Rightarrow> json option) \<Rightarrow> (string \<Rightarrow> real option) \<Rightarrow> real \<Rightarrow> string \<Rightarrow>
    string option \<Rightarrow> string option \<Rightarrow> db \<Rightarrow> unit res" where
  "verify_admin_key sha loads float_of time configured_key authorization credentials db =
     bindE (require_admin_key configured_key) (\<lambda>admin_key.
       case presented_token authorization credentials of
         None \<Rightarrow> Inl (http_error 401 ''Invalid admin key.'')
       | Some token \<Rightarrow>
           if token = admin_key then Inr ()
           else bindE (resolve_session sha loads float_of time token db) (\<lambda>session.
             case session of
               None \<Rightarrow> Inl (http_error 401 ''Invalid admin key.'')
             | Some _ \<Rightarrow> Inr ()))"

end
