(* ===== verification/Accounts.thy ===== *)
theory Accounts
  imports Auth
begin

text \<open>
  The management account: the setup token of \<open>src/botflow/auth.py\<close> and the account endpoints of
  \<open>src/botflow/admin_api.py\<close>.

  The state is the database and the content of the token file (\<open>None\<close> when there is no file). What the
  operating system and SQLite do in one start of the server is a \<open>start_env\<close>: the random token, the
  clock, and which calls fail. \<open>str_of\<close> is Python's \<open>str\<close> on a JSON value that is not a string.
\<close>

record site =
  st_db :: db
  st_file :: "string option"

definition delete_config :: "string \<Rightarrow> db \<Rightarrow> db" where
  "delete_config k db = db\<lparr>config := filter (\<lambda>kv. fst kv \<noteq> k) (config db)\<rparr>"

definition os_error :: exc where
  "os_error = raised_by_python OSErrorExc"

subsection \<open>The setup token\<close>

definition setup_token_key :: string where
  "setup_token_key = ''admin_setup_token''"

definition generate_setup_token :: "string \<Rightarrow> string" where
  "generate_setup_token random_bytes = to_hex random_bytes"

definition is_valid_setup_token :: "string \<Rightarrow> bool" where
  "is_valid_setup_token content \<longleftrightarrow> py_len content = 32 \<and> list_all is_hex_lower content"

text \<open>How far \<open>write_setup_token_file\<close> gets: \<open>open\<close> fails, \<open>fchmod\<close> fails on the truncated file,
  \<open>write\<close> fails, or \<open>write\<close> takes the first \<open>n\<close> bytes and \<open>fsync\<close> then fails or not.\<close>

datatype write_outcome = OpenFails | ChmodFails | WriteFails | Wrote nat bool

fun write_setup_token_file :: "write_outcome \<Rightarrow> string \<Rightarrow> string option \<Rightarrow> unit res \<times> string option" where
  "write_setup_token_file OpenFails token file = (Inl os_error, file)"
| "write_setup_token_file ChmodFails token file = (Inl os_error, Some '''')"
| "write_setup_token_file WriteFails token file = (Inl os_error, Some '''')"
| "write_setup_token_file (Wrote n sync_fails) token file =
     (if sync_fails then Inl os_error else Inr (), Some (take n token))"

record start_env =
  se_random :: string
  se_time :: real
  se_read_fails :: bool
  se_unlink_fails :: bool
  se_write :: write_outcome
  se_kv_fails :: bool

definition setup_token_row :: "(string \<Rightarrow> string) \<Rightarrow> real \<Rightarrow> string \<Rightarrow> json" where
  "setup_token_row sha time token = JObj [(''hash'', JStr (sha token)), (''created_at'', JFloat time)]"

definition account_configured :: "db \<Rightarrow> bool" where
  "account_configured db \<longleftrightarrow> (case get_config ''admin_account'' db of None \<Rightarrow> False | Some raw \<Rightarrow> raw \<noteq> '''')"

text \<open>Branch 1: the account exists. The row is deleted outside the \<open>try\<close>.\<close>

definition clean_setup_token :: "start_env \<Rightarrow> site \<Rightarrow> unit res \<times> site" where
  "clean_setup_token env s =
     (if se_kv_fails env then (Inl (raised_by_python (OtherException ''OperationalError'')), s)
      else (Inr (), s\<lparr>st_db := delete_config setup_token_key (st_db s),
                      st_file := (if se_unlink_fails env then st_file s else None)\<rparr>))"

text \<open>Branches 2 and 3: a new token, the file first, then the row.\<close>

definition renew_setup_token :: "(string \<Rightarrow> string) \<Rightarrow> (json \<Rightarrow> string) \<Rightarrow> start_env \<Rightarrow> site \<Rightarrow> site" where
  "renew_setup_token sha dumps env s =
     (let token = generate_setup_token (se_random env);
          (r, file) = write_setup_token_file (se_write env) token (st_file s);
          s1 = s\<lparr>st_file := file\<rparr>
      in case r of
           Inl _ \<Rightarrow> s1
         | Inr _ \<Rightarrow>
             if se_kv_fails env then s1
             else s1\<lparr>st_db := set_config \<lfloor>se_time env\<rfloor> setup_token_key
                     (dumps (setup_token_row sha (se_time env) token)) (st_db s1)\<rparr>)"

definition token_file_usable :: "start_env \<Rightarrow> site \<Rightarrow> bool" where
  "token_file_usable env s \<longleftrightarrow>
     (case st_file s of None \<Rightarrow> False | Some content \<Rightarrow> \<not> se_read_fails env \<and> is_valid_setup_token content)"

definition ensure_setup_token :: "(string \<Rightarrow> string) \<Rightarrow> (json \<Rightarrow> string) \<Rightarrow> start_env \<Rightarrow> site \<Rightarrow> unit res \<times> site" where
  "ensure_setup_token sha dumps env s =
     (if account_configured (st_db s) then clean_setup_token env s
      else if get_config setup_token_key (st_db s) \<noteq> None \<and> token_file_usable env s then (Inr (), s)
      else (Inr (), renew_setup_token sha dumps env s))"

subsection \<open>The account\<close>

record auth_req =
  ar_token :: string
  ar_username :: string
  ar_password :: string

text \<open>The body model: the user name is stripped before its length is checked; \<open>None\<close> is a 422.\<close>

definition parse_auth_req :: "string \<Rightarrow> string \<Rightarrow> string \<Rightarrow> auth_req option" where
  "parse_auth_req token username password =
     (let u = strip username in
      if 1 \<le> py_len u \<and> py_len u \<le> 64 \<and> 8 \<le> py_len password \<and> py_len password \<le> 128
      then Some \<lparr>ar_token = token, ar_username = u, ar_password = password\<rparr> else None)"

definition account_row :: "string \<Rightarrow> string \<Rightarrow> json" where
  "account_row username pwd_hash = JObj [(''username'', JStr username), (''pwd_hash'', JStr pwd_hash)]"

definition auth_status :: "(string \<Rightarrow> json option) \<Rightarrow> (json \<Rightarrow> string) \<Rightarrow> db \<Rightarrow> bool \<times> string" where
  "auth_status loads str_of db =
     (case get_config ''admin_account'' db of
        None \<Rightarrow> (False, '''')
      | Some raw \<Rightarrow>
          if raw = '''' then (False, '''')
          else (True, case loads raw of Some (JObj d) \<Rightarrow> text_of str_of (dget d ''username'' (JStr '''')) | _ \<Rightarrow> ''''))"

definition invalid_setup_token :: exc where
  "invalid_setup_token = http_error 401 ''Invalid setup token.''"

definition stored_setup_hash :: "(string \<Rightarrow> json option) \<Rightarrow> (json \<Rightarrow> string) \<Rightarrow> string \<Rightarrow> string" where
  "stored_setup_hash loads str_of raw =
     (case loads raw of Some (JObj d) \<Rightarrow> text_of str_of (dget d ''hash'' (JStr '''')) | _ \<Rightarrow> '''')"

text \<open>\<open>salt\<close> is the random salt of the new password; \<open>unlink_fails\<close> when the file exists and cannot be
  removed, which raises after everything else is done.\<close>

definition auth_setup :: "(string \<Rightarrow> string) \<Rightarrow> (string \<Rightarrow> string \<Rightarrow> nat \<Rightarrow> string) \<Rightarrow> (json \<Rightarrow> string) \<Rightarrow>
    (string \<Rightarrow> json option) \<Rightarrow> (json \<Rightarrow> string) \<Rightarrow> real \<Rightarrow> string \<Rightarrow> bool \<Rightarrow> auth_req \<Rightarrow> site \<Rightarrow> unit res \<times> site" where
  "auth_setup sha kdf dumps loads str_of time salt unlink_fails req s =
     (if ar_token req = '''' then (Inl invalid_setup_token, s)
      else case get_config setup_token_key (st_db s) of
        None \<Rightarrow> (Inl invalid_setup_token, s)
      | Some raw \<Rightarrow>
          if raw = '''' \<or> sha (ar_token req) \<noteq> stored_setup_hash loads str_of raw
          then (Inl invalid_setup_token, s)
          else
            let db1 = set_config \<lfloor>time\<rfloor> ''admin_account''
                  (dumps (account_row (ar_username req) (hash_password kdf salt (ar_password req)))) (st_db s);
                db2 = db1\<lparr>config := filter (\<lambda>kv. \<not> sql_like ''admin_sess:%'' (fst kv)) (config db1)\<rparr>;
                s1 = s\<lparr>st_db := delete_config setup_token_key db2\<rparr>
            in if st_file s \<noteq> None \<and> unlink_fails then (Inl os_error, s1)
               else (Inr (), s1\<lparr>st_file := None\<rparr>))"

definition load_account :: "(string \<Rightarrow> json option) \<Rightarrow> db \<Rightarrow> dict option" where
  "load_account loads db =
     (case get_config ''admin_account'' db of
        None \<Rightarrow> None
      | Some raw \<Rightarrow>
          if raw = '''' then None
          else case loads raw of Some (JObj d) \<Rightarrow> Some d | _ \<Rightarrow> None)"

definition stored_pwd_hash :: "(json \<Rightarrow> string) \<Rightarrow> dict \<Rightarrow> string" where
  "stored_pwd_hash str_of account = text_of str_of (dget account ''pwd_hash'' (JStr ''''))"

definition login_ok :: "(string \<Rightarrow> string \<Rightarrow> nat \<Rightarrow> string) \<Rightarrow> (json \<Rightarrow> string) \<Rightarrow> auth_req \<Rightarrow> dict option \<Rightarrow> bool res" where
  "login_ok kdf str_of req account =
     (case account of
        None \<Rightarrow> Inr False
      | Some d \<Rightarrow>
          bindE (verify_password kdf (ar_password req) (stored_pwd_hash str_of d)) (\<lambda>pwd_ok.
            Inr (pwd_ok \<and> ar_username req = text_of str_of (dget d ''username'' (JStr '''')))))"

definition auth_login :: "(string \<Rightarrow> string) \<Rightarrow> (string \<Rightarrow> string \<Rightarrow> nat \<Rightarrow> string) \<Rightarrow> (json \<Rightarrow> string) \<Rightarrow>
    (string \<Rightarrow> json option) \<Rightarrow> (json \<Rightarrow> string) \<Rightarrow> real \<Rightarrow> string \<Rightarrow> auth_req \<Rightarrow> db \<Rightarrow> string res \<times> db" where
  "auth_login sha kdf dumps loads str_of time new_token req db =
     (let account = load_account loads db in
      case login_ok kdf str_of req account of
        Inl e \<Rightarrow> (Inl e, db)
      | Inr ok \<Rightarrow>
          if \<not> ok then (Inl (http_error 401 ''Invalid username or password.''), db)
          else
            let db1 = snd (cleanup_config_by_prefix time ''admin_sess:%'' session_ttl_seconds db)
            in case json_item (JObj (the account)) ''username'' of
                 Inl e \<Rightarrow> (Inl e, db1)
               | Inr username \<Rightarrow>
                   let (token, db2) = create_session sha dumps time new_token (text_of str_of username) db1
                   in (Inr token, db2))"

text \<open>The body is optional; a token in the header wins.\<close>

definition auth_logout :: "(string \<Rightarrow> string) \<Rightarrow> string option \<Rightarrow> string option \<Rightarrow> db \<Rightarrow> unit res \<times> db" where
  "auth_logout sha authorization body_token db =
     (let token = (case extract_token authorization of
                     Some t \<Rightarrow> t
                   | None \<Rightarrow> (case body_token of Some t \<Rightarrow> t | None \<Rightarrow> ''''))
      in if token = '''' then (Inl (http_error 401 ''Missing session token.''), db)
         else (Inr (), delete_config (session_config_key sha token) db))"

text \<open>The request model: \<open>1 \<le> len(current) \<le> 128\<close> and \<open>8 \<le> len(new) \<le> 128\<close>.\<close>

definition valid_change_password :: "string \<Rightarrow> string \<Rightarrow> bool" where
  "valid_change_password current new \<longleftrightarrow>
     1 \<le> py_len current \<and> py_len current \<le> 128 \<and> 8 \<le> py_len new \<and> py_len new \<le> 128"

definition auth_change_password :: "(string \<Rightarrow> string \<Rightarrow> nat \<Rightarrow> string) \<Rightarrow> (json \<Rightarrow> string) \<Rightarrow> (string \<Rightarrow> json option) \<Rightarrow>
    (json \<Rightarrow> string) \<Rightarrow> real \<Rightarrow> string \<Rightarrow> string \<Rightarrow> string \<Rightarrow> db \<Rightarrow> unit res \<times> db" where
  "auth_change_password kdf dumps loads str_of time salt current new db =
     (case load_account loads db of
        None \<Rightarrow> (Inl (http_error 404 ''Admin account not configured.''), db)
      | Some d \<Rightarrow>
          (case verify_password kdf current (stored_pwd_hash str_of d) of
             Inl e \<Rightarrow> (Inl e, db)
           | Inr ok \<Rightarrow>
               if \<not> ok then (Inl (http_error 401 ''Invalid current password.''), db)
               else if current = new then
                 (Inl (http_error 400 ''New password must differ from current password.''), db)
               else (Inr (), set_config \<lfloor>time\<rfloor> ''admin_account''
                       (dumps (account_row (text_of str_of (dget d ''username'' (JStr ''''))) (hash_password kdf salt new))) db)))"

end
