(* ===== verification/Auth_Facts.thy ===== *)
theory Auth_Facts
  imports Auth
begin

text \<open>
  What the authentication promises: the stored form of a password, who gets past the middleware, keys
  that were revoked.
\<close>

subsection \<open>Hexadecimal text\<close>

lemma of_char_less: "(of_char c :: nat) < 256"
  using range_nat_of_char by (metis atLeast0LessThan lessThan_iff rangeI)

lemma hex_digit_code: "n < 16 \<Longrightarrow> (of_char (hex_digit n) :: nat) = (if n < 10 then 48 + n else 87 + n)"
  by (simp add: hex_digit_def of_char_of)

lemma hex_val_digit [simp]: "n < 16 \<Longrightarrow> hex_val (hex_digit n) = Some n"
  by (auto simp: hex_val_def hex_digit_code Let_def)

lemma hex_digit_not_space [simp]: "n < 16 \<Longrightarrow> \<not> is_byte_space (hex_digit n)"
  by (auto simp: is_byte_space_def hex_digit_code Let_def)

lemma hex_digit_lower: "n < 16 \<Longrightarrow> is_hex_lower (hex_digit n)"
  by (auto simp: is_hex_lower_def is_digit_def hex_digit_code Let_def)

lemma hex_pair: "16 * ((of_char c :: nat) div 16) + (of_char c :: nat) mod 16 = of_char c"
  by simp

lemma fromhex_to_hex [simp]: "fromhex (to_hex bs) = Some bs"
proof (induction bs)
  case (Cons c bs)
  have "(of_char c :: nat) div 16 < 16" using of_char_less [of c] by (intro less_mult_imp_div_less) simp
  then show ?case using Cons.IH by (simp add: to_hex_def)
qed (simp add: to_hex_def)

lemma to_hex_lower: "c \<in> set (to_hex bs) \<Longrightarrow> is_hex_lower c"
proof -
  assume "c \<in> set (to_hex bs)"
  then obtain b where b: "c = hex_digit ((of_char b :: nat) div 16) \<or> c = hex_digit ((of_char b :: nat) mod 16)"
    by (auto simp: to_hex_def)
  have "(of_char b :: nat) div 16 < 16" using of_char_less [of b] by (intro less_mult_imp_div_less) simp
  then show ?thesis using b hex_digit_lower by auto
qed

lemma length_to_hex: "length (to_hex bs) = 2 * length bs"
  by (induction bs) (simp_all add: to_hex_def)

lemma hex_lower_no_dollar: "is_hex_lower c \<Longrightarrow> c \<noteq> CHR ''$''"
  by (auto simp: is_hex_lower_def is_digit_def Let_def)

lemma hex_lower_not_cont: "is_hex_lower c \<Longrightarrow> \<not> is_cont c"
  by (auto simp: is_hex_lower_def is_digit_def is_cont_def Let_def)

lemma to_hex_no_dollar [simp]: "CHR ''$'' \<notin> set (to_hex bs)"
  using to_hex_lower hex_lower_no_dollar by blast

subsection \<open>Passwords\<close>

lemma pbkdf2_iterations_text: "str_int pbkdf2_iterations = ''600000''"
  by (simp add: pbkdf2_iterations_def str_int_def nat_digits.simps char_of_def bit_Suc_0_iff)

lemma py_int_iterations: "py_int ''600000'' = Some 600000"
  by (simp add: py_int_def Let_def strip_def lstrip_def is_space_def is_digit_def nat_of_digits_def digit_val_def)

text \<open>Passwords round trip. For every key derivation, a password checked against its own stored form is
  accepted, and any other password is accepted exactly when its derived key, with the stored salt and
  iteration count, is the same.\<close>

lemma password_round_trip:
  "verify_password kdf other (hash_password kdf salt password) =
     Inr (kdf other salt 600000 = kdf password salt 600000)"
proof -
  have "split_char (CHR ''$'') (hash_password kdf salt password) =
      [pbkdf2_name, ''600000'', to_hex salt, to_hex (kdf password salt 600000)]"
    by (simp add: hash_password_def pbkdf2_iterations_text pbkdf2_name_def split_char_append split_char_no)
      (simp add: pbkdf2_iterations_def)
  then show ?thesis
    by (simp add: verify_password_def py_int_iterations pbkdf2_hmac_def)
qed

subsection \<open>Who gets in\<close>

lemma find_enabled_key:
  assumes "unique_on ak_key_hash t"
  shows "find (\<lambda>ik. ak_is_enabled (snd ik) \<and> ak_key_hash (snd ik) = h) (rows t) = Some ik \<longleftrightarrow>
    ik \<in> set (rows t) \<and> ak_is_enabled (snd ik) \<and> ak_key_hash (snd ik) = h" (is "?l = _ \<longleftrightarrow> ?r")
proof
  show "?l = Some ik \<Longrightarrow> ?r" using find_SomeD [of _ "rows t" ik] by auto
next
  assume r: ?r
  then obtain jk where jk: "?l = Some jk" using find_NoneD [of _ "rows t" ik] by (cases ?l) auto
  then have "jk = ik" using r find_SomeD [OF jk] unique_on_eq [OF assms, of jk ik] by auto
  then show "?l = Some ik" using jk by simp
qed

lemma resolve_api_key_Some:
  assumes "unique_on ak_key_hash (api_keys db)"
  shows "resolve_api_key sha token db = Inr (Some ik) \<longleftrightarrow>
    (if rows (api_keys db) \<noteq> []
     then ik \<in> set (rows (api_keys db)) \<and> ak_is_enabled (snd ik) \<and> ak_key_hash (snd ik) = sha token
     else token \<noteq> '''' \<and> get_config ''llm_key'' db = Some token \<and> is_ascii token \<and>
       ik = (0, \<lparr>ak_key_hash = sha token, ak_label = ''legacy'', ak_is_enabled = True\<rparr>))"
  using find_enabled_key [OF assms, of "sha token" ik]
  by (auto simp: resolve_api_key_def list_api_keys_def hash_key_def bindE_eq_Inr compare_digest_str_def
      split: option.splits if_splits)

text \<open>C10: who gets past the middleware. A request outside the health check and the management API is let
  through as the client \<open>i\<close> exactly when it presents a token, and either a registered and enabled key with
  that id has the token's hash, or no key is registered at all, \<open>i\<close> is 0 and the token is the (ASCII) legacy
  key of the configuration.\<close>

theorem middleware_admits:
  assumes "unique_on ak_key_hash (api_keys db)"
  shows "auth_middleware sha sc db = Inr (Authenticated i) \<longleftrightarrow>
    sc_type sc = ''http'' \<and> sc_path sc \<noteq> ''/health'' \<and> \<not> prefix ''/admin/'' (sc_path sc) \<and> scope_token sc \<noteq> '''' \<and>
    (if rows (api_keys db) \<noteq> []
     then \<exists>r. (i, r) \<in> set (rows (api_keys db)) \<and> ak_is_enabled r \<and> ak_key_hash r = sha (scope_token sc)
     else i = 0 \<and> get_config ''llm_key'' db = Some (scope_token sc) \<and> is_ascii (scope_token sc))"
proof (cases "sc_type sc = ''http'' \<and> sc_path sc \<noteq> ''/health'' \<and> \<not> prefix ''/admin/'' (sc_path sc) \<and> scope_token sc \<noteq> ''''")
  case True
  then have "auth_middleware sha sc db = Inr (Authenticated i) \<longleftrightarrow>
      (\<exists>r. resolve_api_key sha (scope_token sc) db = Inr (Some (i, r)))"
    by (auto simp: auth_middleware_def Let_def bindE_eq_Inr split: option.splits)
  then show ?thesis using True by (auto simp: resolve_api_key_Some [OF assms])
next
  case False
  then show ?thesis by (auto simp: auth_middleware_def Let_def)
qed

definition sample_scope :: "string \<Rightarrow> scope" where
  "sample_scope token = \<lparr>sc_type = ''http'', sc_path = ''/v1/chat/completions'',
     sc_headers = [(''authorization'', ''Bearer '' @ token)], sc_query = '''', sc_client = Some ''10.0.0.1''\<rparr>"

definition one_key_db :: db where
  "one_key_db = empty_db\<lparr>api_keys := \<lparr>rows = [(1, \<lparr>ak_key_hash = ''h:k1'', ak_label = ''a'', ak_is_enabled = True\<rparr>)], seq = 1\<rparr>\<rparr>"

theorem middleware_admits_witness:
  "auth_middleware (\<lambda>t. ''h:'' @ t) (sample_scope ''k1'') one_key_db = Inr (Authenticated 1)"
proof -
  have token: "scope_token (sample_scope ''k1'') = ''k1''" by code_simp
  show ?thesis
    using middleware_admits [of one_key_db "\<lambda>t. ''h:'' @ t" "sample_scope ''k1''" 1] token
    by (simp add: one_key_db_def unique_on_def) (simp add: sample_scope_def)
qed


subsection \<open>Revoked keys\<close>

text \<open>What the management API can do to the key table.\<close>

datatype key_op =
    CreateKey string string | UpdateKey int "string option" "bool option" | EnableKey int bool | DeleteKey int

definition key_step :: "(string \<Rightarrow> string) \<Rightarrow> key_op \<Rightarrow> db \<Rightarrow> db" where
  "key_step sha op db =
     (case op of
        CreateKey raw label \<Rightarrow> (case create_api_key sha raw label db of Inl _ \<Rightarrow> db | Inr (_, db') \<Rightarrow> db')
      | UpdateKey i l b \<Rightarrow> snd (update_api_key i l b db)
      | EnableKey i b \<Rightarrow> snd (set_api_key_enabled i b db)
      | DeleteKey i \<Rightarrow> snd (delete_api_key i db))"

text \<open>The operations that cannot give the hash \<open>h\<close> back to somebody: they neither register it again nor
  enable one of the ids \<open>I\<close>.\<close>

fun leaves_revoked :: "(string \<Rightarrow> string) \<Rightarrow> string \<Rightarrow> int set \<Rightarrow> key_op \<Rightarrow> bool" where
  "leaves_revoked sha h I (CreateKey raw label) \<longleftrightarrow> sha raw \<noteq> h"
| "leaves_revoked sha h I (UpdateKey i l b) \<longleftrightarrow> i \<notin> I \<or> b \<noteq> Some True"
| "leaves_revoked sha h I (EnableKey i b) \<longleftrightarrow> i \<notin> I \<or> \<not> b"
| "leaves_revoked sha h I (DeleteKey i) \<longleftrightarrow> True"

definition ids_of_hash :: "string \<Rightarrow> db \<Rightarrow> int set" where
  "ids_of_hash h db = fst ` {ik \<in> set (rows (api_keys db)). ak_key_hash (snd ik) = h}"

definition revoked :: "string \<Rightarrow> int set \<Rightarrow> db \<Rightarrow> bool" where
  "revoked h I db \<longleftrightarrow> (\<forall>ik \<in> set (rows (api_keys db)). ak_key_hash (snd ik) = h \<longrightarrow> fst ik \<in> I \<and> \<not> ak_is_enabled (snd ik))"

lemma revoked_update_rows:
  assumes "revoked h I db" "\<And>r. ak_key_hash (f r) = ak_key_hash r" "i \<notin> I \<or> (\<forall>r. ak_is_enabled (f r) \<longrightarrow> ak_is_enabled r)"
  shows "revoked h I (db\<lparr>api_keys := update_rows (\<lambda>ik. fst ik = i) f (api_keys db)\<rparr>)"
  using assms by (force simp: revoked_def update_rows_def)

lemma key_step_create:
  "rows (api_keys (key_step sha (CreateKey raw label) db)) \<in>
     {rows (api_keys db),
      rows (api_keys db) @ [(seq (api_keys db) + 1, \<lparr>ak_key_hash = sha raw, ak_label = label, ak_is_enabled = True\<rparr>)]}"
  by (simp add: key_step_def create_api_key_def insert_row_def check_constraint_def hash_key_def Let_def)

lemma key_step_revoked:
  assumes "revoked h I db" "leaves_revoked sha h I op"
  shows "revoked h I (key_step sha op db)"
proof (cases op)
  case (CreateKey raw label)
  then show ?thesis
    using assms key_step_create [of sha raw label db] by (auto simp: revoked_def)
next
  case (UpdateKey i l b)
  then have "i \<notin> I \<or> (\<forall>r. ak_is_enabled (r\<lparr>ak_label := (case l of Some l \<Rightarrow> l | None \<Rightarrow> ak_label r),
      ak_is_enabled := (case b of Some b \<Rightarrow> b | None \<Rightarrow> ak_is_enabled r)\<rparr>) \<longrightarrow> ak_is_enabled r)"
    using assms(2) by (auto split: option.splits)
  then show ?thesis using UpdateKey assms(1) by (auto simp: key_step_def update_api_key_def intro!: revoked_update_rows)
next
  case (EnableKey i b)
  then show ?thesis using assms by (auto simp: key_step_def set_api_key_enabled_def intro!: revoked_update_rows)
next
  case (DeleteKey i)
  then show ?thesis using assms by (auto simp: key_step_def delete_api_key_def revoked_def)
qed

lemma revoked_resolves_none:
  "revoked (sha raw) I db \<Longrightarrow> rows (api_keys db) \<noteq> [] \<Longrightarrow> resolve_api_key sha raw db = Inr None"
  by (auto simp: resolve_api_key_def list_api_keys_def hash_key_def revoked_def find_None_iff Let_def)

text \<open>A revoked key stays out. Once no row with the hash of a key is enabled (it was disabled or deleted),
  then after any sequence of operations on the key table that neither registers the same hash again nor
  enables one of its rows, the key is refused, as long as some key is registered; when the last key is
  deleted, the legacy key of the configuration is in force again.\<close>

lemma revoked_key_stays_out:
  assumes "\<And>i r. (i, r) \<in> set (rows (api_keys db)) \<Longrightarrow> ak_key_hash r = sha raw \<Longrightarrow> \<not> ak_is_enabled r"
    and "\<And>op. op \<in> set ops \<Longrightarrow> leaves_revoked sha (sha raw) (ids_of_hash (sha raw) db) op"
  defines "db' \<equiv> fold (key_step sha) ops db"
  shows "resolve_api_key sha raw db' =
    (if rows (api_keys db') \<noteq> [] then Inr None
     else case get_config ''llm_key'' db' of
       None \<Rightarrow> Inr None
     | Some legacy \<Rightarrow>
         if legacy = '''' then Inr None
         else if \<not> is_ascii raw \<or> \<not> is_ascii legacy then Inl (raised_by_python TypeErrorExc)
         else if raw = legacy then Inr (Some (0, \<lparr>ak_key_hash = sha raw, ak_label = ''legacy'', ak_is_enabled = True\<rparr>))
         else Inr None)"
proof -
  have start: "revoked (sha raw) (ids_of_hash (sha raw) db) db"
    using assms(1) by (force simp: revoked_def ids_of_hash_def)
  have "revoked h I (fold (key_step sha) ops db)" if "revoked h I db" "\<forall>op \<in> set ops. leaves_revoked sha h I op" for h I db
    using that by (induction ops arbitrary: db) (simp_all add: key_step_revoked)
  then have "revoked (sha raw) (ids_of_hash (sha raw) db) db'"
    using start assms(2) by (simp add: db'_def)
  then show ?thesis
    using revoked_resolves_none [of sha raw]
    by (auto simp: resolve_api_key_def list_api_keys_def hash_key_def compare_digest_str_def split: option.splits)
qed

end
