(* ===== verification/Account_Facts.thy ===== *)
theory Account_Facts
  imports Accounts Auth_Facts
begin

text \<open>
  What the management account promises: how long a session lives, the opening of the account and the
  agreement between the setup token's file and its row.
\<close>

subsection \<open>Rows of the configuration\<close>

definition config_ok :: "db \<Rightarrow> bool" where
  "config_ok db \<longleftrightarrow> distinct (map fst (config db))"

lemma config_ok_steps [simp]:
  "config_ok db \<Longrightarrow> config_ok (set_config now k v db)"
  "config_ok db \<Longrightarrow> config_ok (delete_config k db)"
  "config_ok db \<Longrightarrow> config_ok (snd (cleanup_config_by_prefix time pat age db))"
  "config_ok db \<Longrightarrow> config_ok (db\<lparr>config := filter P (config db)\<rparr>)"
  by (simp_all add: config_ok_def set_config_def delete_config_def cleanup_config_by_prefix_def Let_def distinct_update
      distinct_map_filter)

lemma map_of_filter_distinct:
  "distinct (map fst xs) \<Longrightarrow> map_of (filter P xs) k = (case map_of xs k of Some v \<Rightarrow> if P (k, v) then Some v else None | None \<Rightarrow> None)"
proof (induction xs)
  case (Cons kv xs)
  have "map_of (filter P xs) (fst kv) = None" using Cons.prems by (force simp: map_of_eq_None_iff)
  moreover have "map_of xs (fst kv) = None" using Cons.prems by (simp add: map_of_eq_None_iff)
  ultimately show ?case using Cons by (cases kv) (auto split: option.splits)
qed simp

lemma config_set [simp]: "map_of (config (set_config now k v db)) = (map_of (config db)) (k \<mapsto> (v, now))"
  by (simp add: set_config_def update_conv')

lemma config_delete [simp]: "map_of (config (delete_config k db)) k' = (if k' = k then None else map_of (config db) k')"
  by (simp add: delete_config_def map_of_filter_fst [of "\<lambda>x. x \<noteq> k"])

lemma config_cleanup:
  "config_ok db \<Longrightarrow> map_of (config (snd (cleanup_config_by_prefix time pat age db))) k =
     (case map_of (config db) k of
        Some (v, u) \<Rightarrow> if sql_like pat k \<and> u < \<lfloor>time - of_int age\<rfloor> then None else Some (v, u)
      | None \<Rightarrow> None)"
  by (auto simp: cleanup_config_by_prefix_def config_ok_def map_of_filter_distinct Let_def split: option.splits)

lemma like_chars_self: "CHR ''%'' \<notin> set p \<Longrightarrow> like_chars (p @ ''%'') (p @ s)"
proof (induction p)
  case Nil
  then show ?case by (auto simp: list_ex_iff intro: bexI [of _ "length s"])
qed auto

lemma session_prefix_like: "sql_like ''admin_sess:%'' (session_config_key sha token)"
proof -
  have "lower (session_config_key sha token) = ''admin_sess:'' @ lower (py_take 32 (sha token))"
    by (simp add: session_config_key_def session_prefix_def lower_def lower_char_def)
  moreover have "lower ''admin_sess:%'' = ''admin_sess:'' @ ''%''" by (simp add: lower_def lower_char_def)
  moreover have "like_chars (''admin_sess:'' @ ''%'') (''admin_sess:'' @ s)" for s
    by (rule like_chars_self) simp
  ultimately show ?thesis by (simp only: sql_like_def)
qed

lemma session_key_not_account [simp]:
  "session_config_key sha token \<noteq> ''admin_account''" "session_config_key sha token \<noteq> setup_token_key"
  "''admin_account'' \<noteq> session_config_key sha token" "setup_token_key \<noteq> session_config_key sha token"
  by (simp_all add: session_config_key_def session_prefix_def setup_token_key_def)

lemma account_not_session [simp]:
  "\<not> sql_like ''admin_sess:%'' ''admin_account''" "\<not> sql_like ''admin_sess:%'' setup_token_key"
  by (simp_all add: sql_like_def lower_def lower_char_def setup_token_key_def)


subsection \<open>The life of a session\<close>

text \<open>The requests that can change the account's rows while a session is open. The library functions are
  those of \<open>Accounts\<close>.\<close>

datatype account_op =
    Login real string auth_req
  | Logout "string option" "string option"
  | ChangePassword real string string string

definition account_step :: "(string \<Rightarrow> string) \<Rightarrow> (string \<Rightarrow> string \<Rightarrow> nat \<Rightarrow> string) \<Rightarrow> (json \<Rightarrow> string) \<Rightarrow>
    (string \<Rightarrow> json option) \<Rightarrow> (json \<Rightarrow> string) \<Rightarrow> account_op \<Rightarrow> db \<Rightarrow> db" where
  "account_step sha kdf dumps loads str_of op db =
     (case op of
        Login time new req \<Rightarrow> snd (auth_login sha kdf dumps loads str_of time new req db)
      | Logout authorization body \<Rightarrow> snd (auth_logout sha authorization body db)
      | ChangePassword time salt current new \<Rightarrow> snd (auth_change_password kdf dumps loads str_of time salt current new db))"

text \<open>The operation happens until \<open>limit\<close> and does not concern the configuration key \<open>k\<close>.\<close>

fun spares_session :: "(string \<Rightarrow> string) \<Rightarrow> string \<Rightarrow> real \<Rightarrow> account_op \<Rightarrow> bool" where
  "spares_session sha k limit (Login time new req) \<longleftrightarrow> time \<le> limit \<and> session_config_key sha new \<noteq> k"
| "spares_session sha k limit (Logout authorization body) \<longleftrightarrow>
     (case extract_token authorization of
        Some t \<Rightarrow> session_config_key sha t \<noteq> k
      | None \<Rightarrow> (case body of Some t \<Rightarrow> session_config_key sha t \<noteq> k | None \<Rightarrow> True))"
| "spares_session sha k limit (ChangePassword time salt current new) \<longleftrightarrow> True"

definition session_held :: "string \<Rightarrow> string \<Rightarrow> real \<Rightarrow> real \<Rightarrow> db \<Rightarrow> bool" where
  "session_held k raw t limit db \<longleftrightarrow> config_ok db \<and>
     (map_of (config db) k = Some (raw, \<lfloor>t\<rfloor>) \<or> map_of (config db) k = None \<and> t + of_int session_ttl_seconds < limit)"

lemma session_held_set: "session_held k raw t limit db \<Longrightarrow> k' \<noteq> k \<Longrightarrow> session_held k raw t limit (set_config now k' v db)"
  by (simp add: session_held_def)

lemma session_held_cleanup:
  assumes "session_held k raw t limit db" "time \<le> limit"
  shows "session_held k raw t limit (snd (cleanup_config_by_prefix time pat session_ttl_seconds db))"
proof -
  have "t + of_int session_ttl_seconds < limit" if "\<lfloor>t\<rfloor> < \<lfloor>time - of_int session_ttl_seconds\<rfloor>"
    using that assms(2) by linarith
  then show ?thesis using assms(1) by (auto simp: session_held_def config_cleanup split: if_splits)
qed

lemma account_step_keeps_session:
  assumes "session_held k raw t limit db" "k = session_config_key sha tok" "spares_session sha k limit op"
  shows "session_held k raw t limit (account_step sha kdf dumps loads str_of op db)"
proof (cases op)
  case (Login time new req)
  then show ?thesis using assms
    by (auto simp: account_step_def auth_login_def create_session_def Let_def intro!: session_held_set session_held_cleanup
        split: sum.split)
next
  case (Logout authorization body)
  then show ?thesis using assms
    by (auto simp: account_step_def auth_logout_def session_held_def Let_def split: option.splits)
next
  case (ChangePassword time salt current new)
  then show ?thesis using assms
    by (auto simp: account_step_def auth_change_password_def intro!: session_held_set split: option.split sum.split)
qed

text \<open>A session lives exactly until its expiry. When the JSON reader returns what the writer wrote, a
  session opened at time \<open>t\<close> is accepted at every time up to \<open>t\<close> plus seven days and refused afterwards,
  whatever logins (with their cleanup of old rows), logouts of other tokens and changes of the password
  happen in between: the cleanup never removes a session that is still valid.\<close>

lemma session_lives_until_expiry:
  assumes "config_ok db"
    and "loads (dumps (session_row t user)) = Some (session_row t user)" "dumps (session_row t user) \<noteq> ''''"
    and "\<And>op. op \<in> set ops \<Longrightarrow> spares_session sha (session_config_key sha tok) t' op"
  shows "resolve_session sha loads float_of t' tok
      (fold (account_step sha kdf dumps loads str_of) ops (snd (create_session sha dumps t tok user db))) =
    Inr (if t' \<le> t + 604800 then Some (session_row t user) else None)"
proof -
  let ?k = "session_config_key sha tok" and ?raw = "dumps (session_row t user)"
  let ?db = "fold (account_step sha kdf dumps loads str_of) ops (snd (create_session sha dumps t tok user db))"
  have held: "session_held ?k ?raw t t' (snd (create_session sha dumps t tok user db))"
    using assms(1) by (simp add: session_held_def create_session_def)
  have "session_held ?k ?raw t t' (fold (account_step sha kdf dumps loads str_of) ops db0)"
    if "session_held ?k ?raw t t' db0" "\<forall>op \<in> set ops. spares_session sha ?k t' op" for db0 ops
    using that by (induction ops arbitrary: db0) (simp_all add: account_step_keeps_session)
  then have "session_held ?k ?raw t t' ?db" using held assms(4) by blast
  then show ?thesis
    using assms(2,3)
    by (auto simp: session_held_def resolve_session_def get_config_def session_row_def session_ttl_seconds_def
        bindE.simps split: option.splits)
qed


text \<open>For the witnesses, library functions that tell the values at hand apart.\<close>

definition toy_sha :: "string \<Rightarrow> string" where
  "toy_sha t = ''s'' @ t"

definition toy_kdf :: "string \<Rightarrow> string \<Rightarrow> nat \<Rightarrow> string" where
  "toy_kdf password salt n = password @ salt"

definition toy_token :: string where
  "toy_token = to_hex (replicate 16 (CHR ''a''))"

definition toy_account :: json where
  "toy_account = account_row ''admin'' (hash_password toy_kdf ''x'' ''password'')"

definition toy_dumps :: "json \<Rightarrow> string" where
  "toy_dumps j = (if j = toy_account then ''A'' else if j = setup_token_row toy_sha 0 toy_token then ''T'' else ''S'')"

definition toy_loads :: "string \<Rightarrow> json option" where
  "toy_loads s = Some (if s = ''A'' then toy_account else if s = ''T'' then setup_token_row toy_sha 0 toy_token
     else session_row 0 ''admin'')"

lemma toy_rows:
  "toy_loads (toy_dumps toy_account) = Some toy_account" "toy_dumps j \<noteq> ''''"
  "toy_loads (toy_dumps (setup_token_row toy_sha 0 toy_token)) = Some (setup_token_row toy_sha 0 toy_token)"
  "toy_loads (toy_dumps (session_row 0 ''admin'')) = Some (session_row 0 ''admin'')"
  by (simp_all add: toy_loads_def toy_dumps_def toy_account_def account_row_def setup_token_row_def session_row_def)

subsection \<open>Opening the account\<close>

lemma toy_token_valid: "length r = 16 \<Longrightarrow> is_valid_setup_token (generate_setup_token r)"
proof -
  assume len: "length r = 16"
  have "list_all is_hex_lower (to_hex r)" using to_hex_lower by (auto simp: list_all_iff)
  moreover from this have "filter (\<lambda>c. \<not> is_cont c) (to_hex r) = to_hex r"
    using hex_lower_not_cont by (auto simp: list_all_iff filter_id_conv)
  ultimately show ?thesis using len by (simp add: is_valid_setup_token_def generate_setup_token_def py_len_def length_to_hex)
qed

lemma length_setup_token: "length (generate_setup_token r) = 2 * length r"
  by (simp add: generate_setup_token_def length_to_hex)

lemma get_config_set [simp]: "get_config k' (set_config now k v db) = (if k' = k then Some v else get_config k' db)"
  by (simp add: get_config_def)

lemma get_config_delete [simp]: "get_config k' (delete_config k db) = (if k' = k then None else get_config k' db)"
  by (simp add: get_config_def)

lemma get_config_filter: "get_config k (db\<lparr>config := filter (\<lambda>kv. p (fst kv)) (config db)\<rparr>) = (if p k then get_config k db else None)"
  by (simp add: get_config_def map_of_filter_fst)

lemma stored_setup_hash_row:
  "loads raw = Some (setup_token_row sha time token) \<Longrightarrow> stored_setup_hash loads str_of raw = sha token"
  by (simp add: stored_setup_hash_def setup_token_row_def text_of_def)

lemma renew_setup_token_ok:
  assumes "se_write env = Wrote n False" "32 \<le> n" "length (se_random env) = 16" "\<not> se_kv_fails env"
  shows "renew_setup_token sha dumps env s =
    s\<lparr>st_file := Some (generate_setup_token (se_random env)),
      st_db := set_config \<lfloor>se_time env\<rfloor> setup_token_key
        (dumps (setup_token_row sha (se_time env) (generate_setup_token (se_random env)))) (st_db s)\<rparr>"
  using assms by (simp add: renew_setup_token_def Let_def length_setup_token)

text \<open>What a successful setup leaves behind.\<close>

lemma auth_setup_ok:
  assumes "get_config setup_token_key (st_db s) = Some raw" "raw \<noteq> ''''" "ar_token req \<noteq> ''''"
    "sha (ar_token req) = stored_setup_hash loads str_of raw"
    "s' = snd (auth_setup sha kdf dumps loads str_of time salt False req s)"
  shows "fst (auth_setup sha kdf dumps loads str_of time salt False req s) = Inr ()" "st_file s' = None"
    "get_config setup_token_key (st_db s') = None"
    "get_config (session_config_key sha tok) (st_db s') = None"
    "get_config ''admin_account'' (st_db s') =
       Some (dumps (account_row (ar_username req) (hash_password kdf salt (ar_password req))))"
  using assms session_prefix_like [of sha tok]
  by (simp_all add: auth_setup_def Let_def get_config_filter [where p = "\<lambda>k. \<not> sql_like ''admin_sess:%'' k"])
    (simp_all add: setup_token_key_def)

lemma auth_login_ok:
  assumes "get_config ''admin_account'' db = Some raw" "raw \<noteq> ''''"
    "loads raw = Some (account_row user (hash_password kdf salt password))"
  shows "fst (auth_login sha kdf dumps loads str_of time new \<lparr>ar_token = token, ar_username = user', ar_password = password'\<rparr> db) =
    (if kdf password' salt 600000 = kdf password salt 600000 \<and> user' = user then Inr new
     else Inl (http_error 401 ''Invalid username or password.''))"
  using assms password_round_trip [of kdf password' salt password]
  by (simp add: auth_login_def load_account_def login_ok_def account_row_def stored_pwd_hash_def text_of_def
      create_session_def Let_def)

text \<open>C11: the account is opened once, with the token of the file. On a server without account and setup row
  whose start meets no failure, the token in the file passes \<open>auth_setup\<close>; this uses the token up (the file
  and the row are gone, every further setup is refused), ends every session, and opens the account: a login
  succeeds exactly with the user name and a password of the same derived key.\<close>

theorem account_opens_once:
  assumes "\<not> account_configured (st_db s)" "get_config setup_token_key (st_db s) = None"
    and "se_write env = Wrote n False" "32 \<le> n" "length (se_random env) = 16" "\<not> se_kv_fails env"
    and "ar_token req = generate_setup_token (se_random env)"
    and "row = setup_token_row sha (se_time env) (ar_token req)" "loads (dumps row) = Some row" "dumps row \<noteq> ''''"
    and "acc = account_row (ar_username req) (hash_password kdf salt (ar_password req))"
      "loads (dumps acc) = Some acc" "dumps acc \<noteq> ''''"
    and "s1 = snd (ensure_setup_token sha dumps env s)"
    and "auth_setup sha kdf dumps loads str_of time salt False req s1 = (r, s2)"
  shows "st_file s1 = Some (ar_token req) \<and> r = Inr () \<and> st_file s2 = None \<and>
    fst (auth_setup sha kdf dumps loads str_of time' salt' False req' s2) = Inl invalid_setup_token \<and>
    resolve_session sha loads float_of time' tok (st_db s2) = Inr None \<and>
    fst (auth_login sha kdf dumps loads str_of time' tok \<lparr>ar_token = t, ar_username = user, ar_password = password\<rparr> (st_db s2)) =
      (if kdf password salt 600000 = kdf (ar_password req) salt 600000 \<and> user = ar_username req then Inr tok
       else Inl (http_error 401 ''Invalid username or password.''))"
proof -
  have s1: "s1 = s\<lparr>st_file := Some (ar_token req), st_db := set_config \<lfloor>se_time env\<rfloor> setup_token_key (dumps row) (st_db s)\<rparr>"
    using assms(1,2,7,8,14) renew_setup_token_ok [OF assms(3-6), of sha dumps s] by (simp add: ensure_setup_token_def)
  have key: "get_config setup_token_key (st_db s1) = Some (dumps row)" by (simp add: s1)
  have token: "ar_token req \<noteq> ''''" using assms(5,7) length_setup_token [of "se_random env"] by auto
  have hash: "sha (ar_token req) = stored_setup_hash loads str_of (dumps row)"
    using stored_setup_hash_row [of loads "dumps row"] assms(8,9) by simp
  have s2: "s2 = snd (auth_setup sha kdf dumps loads str_of time salt False req s1)"
    using assms(15) by simp
  note ok = auth_setup_ok [OF key assms(10) token hash s2]
  have r: "r = Inr ()" using ok(1) assms(15) by simp
  have account: "get_config ''admin_account'' (st_db s2) = Some (dumps acc)" using ok(5) assms(11) s2 by simp
  show ?thesis
    using r ok(2-4) auth_login_ok [OF account assms(13), where user = "ar_username req" and kdf = kdf and salt = salt and password = "ar_password req"] assms(11,12)
    by (simp add: s1 s2 [symmetric] auth_setup_def resolve_session_def)
qed


definition toy_start :: start_env where
  "toy_start = \<lparr>se_random = replicate 16 (CHR ''a''), se_time = 0, se_read_fails = False, se_unlink_fails = False,
     se_write = Wrote 32 False, se_kv_fails = False\<rparr>"

definition toy_req :: auth_req where
  "toy_req = \<lparr>ar_token = toy_token, ar_username = ''admin'', ar_password = ''password''\<rparr>"

definition new_site :: site where
  "new_site = \<lparr>st_db = empty_db, st_file = None\<rparr>"

theorem account_opens_once_witness:
  "fst (auth_login toy_sha toy_kdf toy_dumps toy_loads (\<lambda>j. '''') 5 ''tok''
     \<lparr>ar_token = '''', ar_username = ''admin'', ar_password = ''password''\<rparr>
     (st_db (snd (auth_setup toy_sha toy_kdf toy_dumps toy_loads (\<lambda>j. '''') 1 ''x'' False toy_req
        (snd (ensure_setup_token toy_sha toy_dumps toy_start new_site)))))) = Inr ''tok''"
proof -
  let ?s1 = "snd (ensure_setup_token toy_sha toy_dumps toy_start new_site)"
  have site: "\<not> account_configured (st_db new_site)" "get_config setup_token_key (st_db new_site) = None"
    by (simp_all add: new_site_def account_configured_def get_config_def empty_db_def)
  have env: "se_write toy_start = Wrote 32 False" "(32::nat) \<le> 32" "length (se_random toy_start) = 16" "\<not> se_kv_fails toy_start"
    "ar_token toy_req = generate_setup_token (se_random toy_start)"
    by (simp_all add: toy_start_def toy_req_def toy_token_def generate_setup_token_def)
  have row: "setup_token_row toy_sha 0 toy_token = setup_token_row toy_sha (se_time toy_start) (ar_token toy_req)"
    and acc: "toy_account = account_row (ar_username toy_req) (hash_password toy_kdf ''x'' (ar_password toy_req))"
    by (simp_all add: toy_start_def toy_req_def toy_account_def)
  obtain r s2 where opened: "auth_setup toy_sha toy_kdf toy_dumps toy_loads (\<lambda>j. '''') 1 ''x'' False toy_req ?s1 = (r, s2)"
    by fastforce
  have "fst (auth_login toy_sha toy_kdf toy_dumps toy_loads (\<lambda>j. '''') 5 ''tok''
      \<lparr>ar_token = '''', ar_username = ''admin'', ar_password = ''password''\<rparr> (st_db s2)) = Inr ''tok''"
    using account_opens_once [OF site env row toy_rows(3) toy_rows(2) acc toy_rows(1) toy_rows(2) refl opened,
        of 5 "''x''" toy_req "\<lambda>s. None" "''tok''" "''''" "''admin''" "''password''"]
    by (simp add: toy_req_def toy_kdf_def)
  then show ?thesis by (simp add: opened)
qed

subsection \<open>The token's file and row\<close>

text \<open>The token in a usable file is the one the row speaks of.\<close>

definition setup_consistent :: "(string \<Rightarrow> string) \<Rightarrow> (string \<Rightarrow> json option) \<Rightarrow> (json \<Rightarrow> string) \<Rightarrow> site \<Rightarrow> bool" where
  "setup_consistent sha loads str_of s \<longleftrightarrow>
     (case (get_config setup_token_key (st_db s), st_file s) of
        (Some raw, Some content) \<Rightarrow> is_valid_setup_token content \<longrightarrow> stored_setup_hash loads str_of raw = sha content
      | _ \<Rightarrow> True)"

text \<open>A start whose writes are all or nothing: a failed write of the file leaves less than the token, and the
  row is written when the file was.\<close>

definition clean_failures :: "start_env \<Rightarrow> bool" where
  "clean_failures env \<longleftrightarrow> length (se_random env) = 16 \<and> \<not> se_kv_fails env \<and>
     (case se_write env of Wrote n sync_fails \<Rightarrow> n < 32 \<or> \<not> sync_fails | _ \<Rightarrow> True)"

lemma short_token_invalid: "n < 32 \<Longrightarrow> \<not> is_valid_setup_token (take n token)"
  using py_len_le [of "take n token"] by (auto simp: is_valid_setup_token_def)

definition row_readable :: "(string \<Rightarrow> string) \<Rightarrow> (json \<Rightarrow> string) \<Rightarrow> (string \<Rightarrow> json option) \<Rightarrow> start_env \<Rightarrow> bool" where
  "row_readable sha dumps loads env \<longleftrightarrow>
     (let row = setup_token_row sha (se_time env) (generate_setup_token (se_random env)) in loads (dumps row) = Some row)"

lemma start_keeps_consistent:
  assumes "setup_consistent sha loads str_of s" "clean_failures env"
    "row_readable sha dumps loads env"
  shows "setup_consistent sha loads str_of (snd (ensure_setup_token sha dumps env s))"
proof -
  let ?token = "generate_setup_token (se_random env)"
  have "loads (dumps (setup_token_row sha (se_time env) ?token)) = Some (setup_token_row sha (se_time env) ?token)"
    using assms(3) by (simp add: row_readable_def Let_def)
  then have hash: "stored_setup_hash loads str_of (dumps (setup_token_row sha (se_time env) ?token)) = sha ?token"
    by (rule stored_setup_hash_row)
  have "setup_consistent sha loads str_of (renew_setup_token sha dumps env s)"
  proof (cases "se_write env")
    case (Wrote n sync_fails)
    show ?thesis
    proof (cases "n < 32")
      case True
      then show ?thesis using Wrote short_token_invalid [OF True]
        by (simp add: renew_setup_token_def Let_def setup_consistent_def split: option.split)
    next
      case False
      then have "\<not> sync_fails" "take n (generate_setup_token (se_random env)) = generate_setup_token (se_random env)"
        using assms(2) Wrote by (auto simp: clean_failures_def length_setup_token)
      then show ?thesis using Wrote assms(2) hash
        by (simp add: renew_setup_token_def Let_def setup_consistent_def clean_failures_def)
    qed
  qed (use assms(1) in \<open>simp_all add: renew_setup_token_def setup_consistent_def is_valid_setup_token_def py_len_def
        split: option.split\<close>)
  moreover have "setup_consistent sha loads str_of (snd (clean_setup_token env s))"
    using assms(1) by (simp add: clean_setup_token_def setup_consistent_def split: option.splits)
  ultimately show ?thesis using assms(1) by (simp add: ensure_setup_token_def)
qed

text \<open>File and row of the setup token agree. Through every sequence of starts in which the file can be
  unreadable, absent or damaged and its write can fail at any call or be cut short, the token in a usable file
  stays the one whose hash the row holds, as long as a complete file is always followed by its row.\<close>

lemma setup_token_consistent:
  assumes "setup_consistent sha loads str_of s"
    and "\<And>env. env \<in> set envs \<Longrightarrow> clean_failures env"
    and "\<And>env. env \<in> set envs \<Longrightarrow> row_readable sha dumps loads env"
  shows "setup_consistent sha loads str_of (fold (\<lambda>env s. snd (ensure_setup_token sha dumps env s)) envs s)"
  using assms by (induction envs arbitrary: s) (simp_all add: start_keeps_consistent)

text \<open>A start that completes the file and not the row locks the setup out for good. When a row exists, the
  file is not usable and the new token reaches the file, but \<open>fsync\<close> or the write of the row then fails, the
  old row stays beside the new file; every later start that can read the file takes the pair for good and
  changes nothing, and the token in the file is refused.\<close>

lemma setup_token_deadlock:
  assumes "\<not> account_configured (st_db s)" "get_config setup_token_key (st_db s) = Some raw" "\<not> token_file_usable env s"
    and "se_write env = Wrote n sync_fails" "32 \<le> n" "length (se_random env) = 16" "sync_fails \<or> se_kv_fails env"
    and "\<And>env. env \<in> set envs \<Longrightarrow> \<not> se_read_fails env"
    and "ar_token req = generate_setup_token (se_random env)" "sha (ar_token req) \<noteq> stored_setup_hash loads str_of raw"
    and "s1 = fold (\<lambda>env s. snd (ensure_setup_token sha dumps env s)) envs (snd (ensure_setup_token sha dumps env s))"
  shows "st_file s1 = Some (ar_token req) \<and>
    auth_setup sha kdf dumps loads str_of time salt unlink_fails req s1 = (Inl invalid_setup_token, s1)"
proof -
  let ?s = "s\<lparr>st_file := Some (generate_setup_token (se_random env))\<rparr>"
  have "snd (ensure_setup_token sha dumps env s) = ?s"
    using assms(1-7) length_setup_token [of "se_random env"]
    by (auto simp: ensure_setup_token_def renew_setup_token_def Let_def)
  moreover have "fold (\<lambda>env s. snd (ensure_setup_token sha dumps env s)) envs ?s = ?s"
    using assms(8)
    by (induction envs) (simp_all add: ensure_setup_token_def assms(1,2) token_file_usable_def toy_token_valid [OF assms(6)])
  ultimately have s1: "s1 = ?s" using assms(11) by simp
  show ?thesis using assms(2,9,10) by (simp add: s1 auth_setup_def)
qed


definition locked_site :: site where
  "locked_site = \<lparr>st_db = set_config 0 setup_token_key ''S'' empty_db, st_file = Some ''''\<rparr>"

end
