(* ===== verification/Logs.thy ===== *)
theory Logs
  imports Store_Facts
begin

text \<open>
  Call logs: the \<open>call_logs\<close> and \<open>call_attempts\<close> tables of \<open>src/botflow/storage/db.py\<close> (lines 782 to 960)
  and the \<open>CallLogWriter\<close> of \<open>src/botflow/core.py\<close>, which buffers rows and writes them in batches.

  \<open>log_entry\<close>, \<open>log_attempt\<close> and \<open>flush\<close> are the writer as one task sees it. \<open>writer_step\<close> is the writer
  as all tasks of the event loop drive it: rows are buffered, batches are taken under the lock and
  written row by row outside of it, so several batches can be in flight, and the task that writes one may be
  cancelled. \<open>now\<close> is the text of \<open>datetime('now')\<close>; it does not change within one flush. The only error of
  an insert is a value that SQLite cannot bind; a full disk or a locked file is outside the model.
\<close>

subsection \<open>The tables\<close>

text \<open>What SQLite can bind to a column: no list, no object, no integer over 64 bits.\<close>

fun binds :: "json \<Rightarrow> bool" where
  "binds (JList xs) = False"
| "binds (JObj d) = False"
| "binds (JInt i) = (- (2 ^ 63) \<le> i \<and> i < 2 ^ 63)"
| "binds v = True"

definition storable :: "call_log \<Rightarrow> bool" where
  "storable l \<longleftrightarrow> list_all binds [cl_prompt_tokens l, cl_completion_tokens l, cl_cache_tokens l, cl_total_tokens l]"

definition bind_error :: exc where
  "bind_error = raised_by_python (OtherException ''InterfaceError'')"

definition create_call_log :: "string \<Rightarrow> call_log \<Rightarrow> db \<Rightarrow> (int \<times> db) res" where
  "create_call_log now l db =
     (if storable l
      then (let (i, t) = insert_row (l\<lparr>cl_created_at := now\<rparr>) (call_logs db) in Inr (i, db\<lparr>call_logs := t\<rparr>))
      else Inl bind_error)"

definition create_call_attempts :: "string \<Rightarrow> call_attempt list \<Rightarrow> db \<Rightarrow> nat \<times> db" where
  "create_call_attempts now as db =
     (if as = [] then (0, db)
      else (length as, db\<lparr>call_attempts := fold (\<lambda>a t. snd (insert_row (a\<lparr>ca_created_at := now\<rparr>) t)) as (call_attempts db)\<rparr>))"

definition delete_old_call_logs :: "string \<Rightarrow> db \<Rightarrow> nat \<times> db" where
  "delete_old_call_logs cutoff db =
     (let old = (\<lambda>r. cl_created_at (snd r) < cutoff)
      in (count_rows old (call_logs db), db\<lparr>call_logs := delete_rows old (call_logs db)\<rparr>))"

text \<open>\<open>LIMIT ? OFFSET ?\<close>; a negative limit is no limit.\<close>

definition page :: "int \<Rightarrow> int \<Rightarrow> 'a list \<Rightarrow> 'a list" where
  "page limit offset xs = (let ys = drop (nat offset) xs in if limit < 0 then ys else take (nat limit) ys)"

definition matches :: "'a option \<Rightarrow> 'a option \<Rightarrow> bool" where
  "matches cond col = (cond = None \<or> cond = col)"

text \<open>A query condition for each column that can be filtered. SQLite may return rows of the same second in
  any order: \<open>order\<close> is its \<open>ORDER BY\<close>.\<close>

record log_filter =
  lf_group_id :: "int option"
  lf_model_id :: "int option"
  lf_provider_id :: "int option"
  lf_api_key_id :: "int option"
  lf_status :: "string option"
  lf_error_type :: "string option"

definition log_matches :: "log_filter \<Rightarrow> call_log \<Rightarrow> bool" where
  "log_matches f l \<longleftrightarrow> matches (lf_group_id f) (cl_group_id l) \<and> matches (lf_model_id f) (cl_model_id l) \<and>
     matches (lf_provider_id f) (cl_provider_id l) \<and> matches (lf_api_key_id f) (cl_api_key_id l) \<and>
     matches (lf_status f) (Some (cl_status l)) \<and> matches (lf_error_type f) (cl_error_type l)"

type_synonym 'r order_by = "(int \<times> 'r) list \<Rightarrow> (int \<times> 'r) list"

definition orders_desc :: "('r \<Rightarrow> string) \<Rightarrow> 'r order_by \<Rightarrow> bool" where
  "orders_desc created order \<longleftrightarrow>
     (\<forall>rs. mset (order rs) = mset rs \<and> sorted_wrt (\<lambda>a b. created (snd a) \<ge> created (snd b)) (order rs))"

definition query_call_logs :: "call_log order_by \<Rightarrow> log_filter \<Rightarrow> int \<Rightarrow> int \<Rightarrow> db \<Rightarrow> (int \<times> call_log) list" where
  "query_call_logs order f limit offset db =
     page limit offset (order (filter (\<lambda>r. log_matches f (snd r)) (rows (call_logs db))))"

record attempt_filter =
  af_request_id :: "string option"
  af_model_id :: "int option"
  af_provider_id :: "int option"
  af_group_id :: "int option"
  af_error_type :: "string option"

definition attempt_matches :: "attempt_filter \<Rightarrow> call_attempt \<Rightarrow> bool" where
  "attempt_matches f a \<longleftrightarrow> matches (af_request_id f) (ca_request_id a) \<and>
     matches (af_model_id f) (at_model_id (ca_attempt a)) \<and> matches (af_provider_id f) (at_provider_id (ca_attempt a)) \<and>
     matches (af_group_id f) (Some (at_group_id (ca_attempt a))) \<and>
     matches (af_error_type f) (Some (at_error_type (ca_attempt a)))"

definition query_call_attempts :: "call_attempt order_by \<Rightarrow> attempt_filter \<Rightarrow> int \<Rightarrow> int \<Rightarrow> db \<Rightarrow> call_attempt list" where
  "query_call_attempts order f limit offset db =
     map snd (page limit offset (order (filter (\<lambda>r. attempt_matches f (snd r)) (rows (call_attempts db)))))"

subsection \<open>The writer\<close>

record log_writer =
  lw_buffer :: "call_log list"
  lw_attempts :: "call_attempt list"
  lw_max_buffer :: nat

text \<open>A row that cannot be stored ends the batch: the rows after it are lost, as the code's \<open>except\<close> only logs.\<close>

fun write_logs :: "string \<Rightarrow> call_log list \<Rightarrow> db \<Rightarrow> db" where
  "write_logs now [] db = db"
| "write_logs now (l # ls) db =
     (case create_call_log now l db of Inl _ \<Rightarrow> db | Inr (_, db') \<Rightarrow> write_logs now ls db')"

definition flush :: "string \<Rightarrow> log_writer \<Rightarrow> db \<Rightarrow> log_writer \<times> db" where
  "flush now w db =
     (if lw_buffer w = [] \<and> lw_attempts w = [] then (w, db)
      else (w\<lparr>lw_buffer := [], lw_attempts := []\<rparr>,
            snd (create_call_attempts now (lw_attempts w) (write_logs now (lw_buffer w) db))))"

definition log_entry :: "string \<Rightarrow> call_log \<Rightarrow> log_writer \<Rightarrow> db \<Rightarrow> log_writer \<times> db" where
  "log_entry now l w db =
     (let w1 = w\<lparr>lw_buffer := lw_buffer w @ [l]\<rparr>
      in if length (lw_buffer w1) \<ge> lw_max_buffer w then flush now w1 db else (w1, db))"

definition log_attempt :: "string \<Rightarrow> call_attempt \<Rightarrow> log_writer \<Rightarrow> db \<Rightarrow> log_writer \<times> db" where
  "log_attempt now a w db =
     (let w1 = w\<lparr>lw_attempts := lw_attempts w @ [a]\<rparr>
      in if length (lw_attempts w1) \<ge> lw_max_buffer w then flush now w1 db else (w1, db))"

subsection \<open>The writer as the tasks drive it\<close>

text \<open>A batch in flight: the rows that are still to be written, and whether the flush task took them.\<close>

record batch =
  ba_logs :: "call_log list"
  ba_attempts :: "call_attempt list"
  ba_of_loop :: bool

text \<open>\<open>ws_loop\<close> says that the flush task of \<open>start()\<close> runs.\<close>

record writers =
  ws_writer :: log_writer
  ws_flying :: "batch list"
  ws_loop :: bool
  ws_db :: db

text \<open>
  What a step tells: the row a request task hands to the writer, the rows that \<open>except Exception\<close> gives up,
  the batches of a task that is cancelled while it writes them, and anything else.
\<close>

datatype writer_event = Logged call_log | Attempted call_attempt | Dropped "call_log list" | Cancelled "batch list" | Worked

definition take_all :: "bool \<Rightarrow> writers \<Rightarrow> writers" where
  "take_all of_loop s = s\<lparr>ws_writer := (ws_writer s)\<lparr>lw_buffer := [], lw_attempts := []\<rparr>,
     ws_flying := ws_flying s @ [\<lparr>ba_logs = lw_buffer (ws_writer s), ba_attempts = lw_attempts (ws_writer s), ba_of_loop = of_loop\<rparr>]\<rparr>"

text \<open>
  Batches are taken by the tasks of requests that reach the threshold and by the final flush of \<open>stop()\<close>
  (\<open>take_batch\<close>), and by the flush task, one at a time (\<open>loop_takes\<close>). \<open>stop_loop\<close> is the cancellation of the
  flush task in \<open>stop()\<close>: \<open>CancelledError\<close> is no \<open>Exception\<close>, so the rows and attempts it had taken and not
  written are gone. \<open>cancel_request\<close> is the same for the task of a request.
\<close>

inductive writer_step :: "writers \<Rightarrow> writer_event \<Rightarrow> writers \<Rightarrow> bool" where
  start_loop: "\<not> ws_loop s \<Longrightarrow> writer_step s Worked (s\<lparr>ws_loop := True\<rparr>)"
| buffer_log: "writer_step s (Logged l) (s\<lparr>ws_writer := (ws_writer s)\<lparr>lw_buffer := lw_buffer (ws_writer s) @ [l]\<rparr>\<rparr>)"
| buffer_attempt: "writer_step s (Attempted a) (s\<lparr>ws_writer := (ws_writer s)\<lparr>lw_attempts := lw_attempts (ws_writer s) @ [a]\<rparr>\<rparr>)"
| take_batch: "lw_buffer (ws_writer s) \<noteq> [] \<or> lw_attempts (ws_writer s) \<noteq> [] \<Longrightarrow> writer_step s Worked (take_all False s)"
| loop_takes: "lw_buffer (ws_writer s) \<noteq> [] \<or> lw_attempts (ws_writer s) \<noteq> [] \<Longrightarrow>
    ws_loop s \<Longrightarrow> \<forall>b \<in> set (ws_flying s). \<not> ba_of_loop b \<Longrightarrow> writer_step s Worked (take_all True s)"
| write_row: "ws_flying s = bs1 @ b # bs2 \<Longrightarrow> ba_logs b = l # ls \<Longrightarrow> create_call_log now l (ws_db s) = Inr (i, db') \<Longrightarrow>
    writer_step s Worked (s\<lparr>ws_flying := bs1 @ b\<lparr>ba_logs := ls\<rparr> # bs2, ws_db := db'\<rparr>)"
| drop_rest: "ws_flying s = bs1 @ b # bs2 \<Longrightarrow> ba_logs b = l # ls \<Longrightarrow> create_call_log now l (ws_db s) = Inl e \<Longrightarrow>
    writer_step s (Dropped (l # ls)) (s\<lparr>ws_flying := bs1 @ b\<lparr>ba_logs := []\<rparr> # bs2\<rparr>)"
| write_attempts: "ws_flying s = bs1 @ b # bs2 \<Longrightarrow> ba_logs b = [] \<Longrightarrow>
    writer_step s Worked (s\<lparr>ws_flying := bs1 @ bs2, ws_db := snd (create_call_attempts now (ba_attempts b) (ws_db s))\<rparr>)"
| stop_loop: "ws_loop s \<Longrightarrow> writer_step s (Cancelled (filter ba_of_loop (ws_flying s)))
    (s\<lparr>ws_loop := False, ws_flying := filter (\<lambda>b. \<not> ba_of_loop b) (ws_flying s)\<rparr>)"
| cancel_request: "ws_flying s = bs1 @ b # bs2 \<Longrightarrow> \<not> ba_of_loop b \<Longrightarrow>
    writer_step s (Cancelled [b]) (s\<lparr>ws_flying := bs1 @ bs2\<rparr>)"

inductive writer_run :: "writers \<Rightarrow> writer_event list \<Rightarrow> writers \<Rightarrow> bool" where
  start: "writer_run s [] s"
| step: "writer_run s evs t \<Longrightarrow> writer_step t ev u \<Longrightarrow> writer_run s (evs @ [ev]) u"

subsection \<open>What is recorded\<close>

text \<open>The rows recorded so far, stored or buffered, in order and without their time stamps.\<close>

definition unstamped :: "call_log \<Rightarrow> call_log" where
  "unstamped l = l\<lparr>cl_created_at := []\<rparr>"

definition unstamped_attempt :: "call_attempt \<Rightarrow> call_attempt" where
  "unstamped_attempt a = a\<lparr>ca_created_at := []\<rparr>"

definition stored_logs :: "db \<Rightarrow> call_log list" where
  "stored_logs db = map (unstamped \<circ> snd) (rows (call_logs db))"

definition stored_attempts :: "db \<Rightarrow> call_attempt list" where
  "stored_attempts db = map (unstamped_attempt \<circ> snd) (rows (call_attempts db))"

lemma unstamped_stamp [simp]: "unstamped (l\<lparr>cl_created_at := now\<rparr>) = unstamped l"
  by (simp add: unstamped_def)

lemma unstamped_attempt_stamp [simp]: "unstamped_attempt (a\<lparr>ca_created_at := now\<rparr>) = unstamped_attempt a"
  by (simp add: unstamped_attempt_def)

lemma storable_unstamped [simp]: "storable (unstamped l) = storable l"
  by (simp add: storable_def unstamped_def)

lemma create_call_log_Inr:
  "storable l \<Longrightarrow> \<exists>i db'. create_call_log now l db = Inr (i, db') \<and> stored_logs db' = stored_logs db @ [unstamped l] \<and>
     stored_attempts db' = stored_attempts db"
  by (simp add: create_call_log_def insert_row_def stored_logs_def stored_attempts_def)

lemma create_call_log_stored:
  "create_call_log now l db = Inr (i, db') \<Longrightarrow>
   stored_logs db' = stored_logs db @ [unstamped l] \<and> stored_attempts db' = stored_attempts db"
  by (auto simp: create_call_log_def insert_row_def stored_logs_def stored_attempts_def split: if_splits)

lemma rows_fold_insert:
  "map (f \<circ> snd) (rows (fold (\<lambda>a t. snd (insert_row (g a) t)) as t)) = map (f \<circ> snd) (rows t) @ map (f \<circ> g) as"
  by (induction as arbitrary: t) (simp_all add: insert_row_def)

lemma create_call_attempts_stored:
  "stored_attempts (snd (create_call_attempts now as db)) = stored_attempts db @ map unstamped_attempt as"
  "stored_logs (snd (create_call_attempts now as db)) = stored_logs db"
  by (simp_all add: create_call_attempts_def stored_attempts_def stored_logs_def rows_fold_insert [unfolded comp_def] comp_def)

lemma write_logs_stored:
  "list_all storable ls \<Longrightarrow> stored_logs (write_logs now ls db) = stored_logs db @ map unstamped ls"
  "stored_attempts (write_logs now ls db) = stored_attempts db"
proof (induction ls arbitrary: db)
  case (Cons l ls)
  { case 1 then show ?case using Cons.IH(1) create_call_log_Inr [of l now db] by auto }
  { case 2 show ?case using Cons.IH(2) create_call_log_stored [of now l db] by (auto split: sum.splits) }
qed simp_all

definition recorded :: "log_writer \<Rightarrow> db \<Rightarrow> call_log list" where
  "recorded w db = stored_logs db @ map unstamped (lw_buffer w)"

definition recorded_attempts :: "log_writer \<Rightarrow> db \<Rightarrow> call_attempt list" where
  "recorded_attempts w db = stored_attempts db @ map unstamped_attempt (lw_attempts w)"

lemma flush_recorded:
  assumes "list_all storable (lw_buffer w)" "flush now w db = (w', db')"
  shows "recorded w' db' = recorded w db \<and> recorded_attempts w' db' = recorded_attempts w db \<and>
    list_all storable (lw_buffer w')"
  using assms
  by (auto simp: flush_def recorded_def recorded_attempts_def create_call_attempts_stored write_logs_stored split: if_splits)


lemma log_entry_recorded:
  assumes "list_all storable (lw_buffer w)" "storable l" "log_entry now l w db = (w', db')"
  shows "recorded w' db' = recorded w db @ [unstamped l] \<and> recorded_attempts w' db' = recorded_attempts w db \<and>
    list_all storable (lw_buffer w')"
  using assms flush_recorded [of "w\<lparr>lw_buffer := lw_buffer w @ [l]\<rparr>" now db w' db']
  by (auto simp: log_entry_def Let_def recorded_def recorded_attempts_def split: if_splits)

lemma log_attempt_recorded:
  assumes "list_all storable (lw_buffer w)" "log_attempt now a w db = (w', db')"
  shows "recorded w' db' = recorded w db \<and> recorded_attempts w' db' = recorded_attempts w db @ [unstamped_attempt a] \<and>
    list_all storable (lw_buffer w')"
  using assms flush_recorded [of "w\<lparr>lw_attempts := lw_attempts w @ [a]\<rparr>" now db w' db']
  by (auto simp: log_attempt_def Let_def recorded_def recorded_attempts_def split: if_splits)

subsection \<open>No row is lost\<close>

text \<open>Every row the writer is responsible for, wherever it is.\<close>

definition all_logs :: "writers \<Rightarrow> call_log multiset" where
  "all_logs s = mset (recorded (ws_writer s) (ws_db s)) +
     mset (map unstamped (concat (map ba_logs (ws_flying s))))"

definition all_attempts :: "writers \<Rightarrow> call_attempt multiset" where
  "all_attempts s = mset (recorded_attempts (ws_writer s) (ws_db s)) +
     mset (map unstamped_attempt (concat (map ba_attempts (ws_flying s))))"

text \<open>The rows that were handed to the writer in a run, and those that got lost in it.\<close>

fun handed_logs :: "writer_event \<Rightarrow> call_log list" where
  "handed_logs (Logged l) = [l]" | "handed_logs _ = []"

fun handed_attempts :: "writer_event \<Rightarrow> call_attempt list" where
  "handed_attempts (Attempted a) = [a]" | "handed_attempts _ = []"

fun lost_logs :: "writer_event \<Rightarrow> call_log list" where
  "lost_logs (Dropped ls) = ls" | "lost_logs (Cancelled bs) = concat (map ba_logs bs)" | "lost_logs _ = []"

fun lost_attempts :: "writer_event \<Rightarrow> call_attempt list" where
  "lost_attempts (Cancelled bs) = concat (map ba_attempts bs)" | "lost_attempts _ = []"

definition rows_of :: "(writer_event \<Rightarrow> call_log list) \<Rightarrow> writer_event list \<Rightarrow> call_log multiset" where
  "rows_of f evs = mset (map unstamped (concat (map f evs)))"

definition attempts_of :: "(writer_event \<Rightarrow> call_attempt list) \<Rightarrow> writer_event list \<Rightarrow> call_attempt multiset" where
  "attempts_of f evs = mset (map unstamped_attempt (concat (map f evs)))"

lemma of_run_simps [simp]:
  "rows_of f [] = {#}" "rows_of f (evs @ [ev]) = rows_of f evs + mset (map unstamped (f ev))"
  "attempts_of h [] = {#}" "attempts_of h (evs @ [ev]) = attempts_of h evs + mset (map unstamped_attempt (h ev))"
  by (simp_all add: rows_of_def attempts_of_def)

lemma mset_concat_filter:
  "mset (concat (map f (filter p bs))) + mset (concat (map f (filter (\<lambda>b. \<not> p b) bs))) = mset (concat (map f bs))"
  by (induction bs) auto

lemma flying_split:
  "mset (map g (concat (map f bs))) =
     mset (map g (concat (map f (filter p bs)))) + mset (map g (concat (map f (filter (\<lambda>b. \<not> p b) bs))))"
  unfolding mset_map [of g] mset_concat_filter [of f p bs, symmetric] by simp

lemma writer_step_conserves:
  assumes "writer_step s ev t"
  shows "all_logs t + mset (map unstamped (lost_logs ev)) = all_logs s + mset (map unstamped (handed_logs ev)) \<and>
    all_attempts t + mset (map unstamped_attempt (lost_attempts ev)) = all_attempts s + mset (map unstamped_attempt (handed_attempts ev))"
  using assms
proof cases
  case (write_row bs1 b bs2 l ls' now i db')
  then show ?thesis
    using create_call_log_stored [OF write_row(5)]
    by (auto simp: all_logs_def all_attempts_def recorded_def recorded_attempts_def)
next
  case (stop_loop)
  then show ?thesis
    using flying_split [of unstamped ba_logs "ws_flying s" ba_of_loop]
      flying_split [of unstamped_attempt ba_attempts "ws_flying s" ba_of_loop]
    by (simp add: all_logs_def all_attempts_def recorded_def recorded_attempts_def)
qed (auto simp: all_logs_def all_attempts_def recorded_def recorded_attempts_def create_call_attempts_stored take_all_def)

lemma writer_step_drops: "writer_step s (Dropped ls) t \<Longrightarrow> ls \<noteq> [] \<and> \<not> storable (hd ls)"
  by (erule writer_step.cases) (auto simp: create_call_log_def insert_row_def split: if_splits)

lemma balance_step:
  fixes a :: "'a multiset"
  assumes "a + l = t + h" "t + ll = s + hh"
  shows "a + (ll + l) = s + (hh + h)"
proof -
  have "a + (ll + l) = (a + l) + ll" by (simp add: ac_simps)
  also have "\<dots> = (t + ll) + h" unfolding assms(1) by (simp add: ac_simps)
  finally show ?thesis unfolding assms(2) by (simp add: ac_simps)
qed

text \<open>C38: the batched writer conserves rows. In every interleaving of request tasks that log, of flushes that
  take a batch, of batches that are being written, of the flush task being started and of tasks being cancelled,
  every call log and every attempt handed to the writer is in exactly one place: in the buffer, in one batch in
  flight, in the database, or lost. Rows are lost in two ways only. A call log that cannot be stored takes the
  rest of its batch with it; and a task that is cancelled while it writes a batch, as \<open>stop()\<close> does to the flush
  task, loses what it has not written yet. So when the buffer is empty and no batch is in flight, the database
  holds the rows it held before and all that were logged, except exactly these.\<close>

theorem writer_conserves_rows:
  assumes "writer_run s evs t"
  shows "all_logs t + rows_of lost_logs evs = all_logs s + rows_of handed_logs evs \<and>
    all_attempts t + attempts_of lost_attempts evs = all_attempts s + attempts_of handed_attempts evs \<and>
    (\<forall>ls. Dropped ls \<in> set evs \<longrightarrow> ls \<noteq> [] \<and> \<not> storable (hd ls)) \<and>
    (ws_flying t = [] \<and> lw_buffer (ws_writer t) = [] \<and> lw_attempts (ws_writer t) = [] \<longrightarrow>
      mset (stored_logs (ws_db t)) + rows_of lost_logs evs = all_logs s + rows_of handed_logs evs \<and>
      mset (stored_attempts (ws_db t)) + attempts_of lost_attempts evs = all_attempts s + attempts_of handed_attempts evs)"
proof -
  have "all_logs t + rows_of lost_logs evs = all_logs s + rows_of handed_logs evs \<and>
      all_attempts t + attempts_of lost_attempts evs = all_attempts s + attempts_of handed_attempts evs"
    using assms
  proof (induction rule: writer_run.induct)
    case (step s evs t ev u)
    show ?case
      using writer_step_conserves [OF step(2)] step.IH by (auto intro!: balance_step)
  qed simp
  moreover have "\<forall>ls. Dropped ls \<in> set evs \<longrightarrow> ls \<noteq> [] \<and> \<not> storable (hd ls)"
    using assms by (induction rule: writer_run.induct) (auto dest: writer_step_drops)
  ultimately show ?thesis by (auto simp: all_logs_def all_attempts_def recorded_def recorded_attempts_def)
qed

definition idle_writers :: writers where
  "idle_writers = \<lparr>ws_writer = \<lparr>lw_buffer = [], lw_attempts = [], lw_max_buffer = 100\<rparr>, ws_flying = [], ws_loop = True, ws_db = empty_db\<rparr>"

definition sample_log :: call_log where
  "sample_log = \<lparr>cl_api_key_id = None, cl_group_id = Some 1, cl_model_id = Some 7, cl_provider_id = Some 1,
     cl_request_body = None, cl_response_body = None, cl_status = ''success'', cl_error_type = None,
     cl_error_message = None, cl_traceback = None, cl_request_id = None, cl_duration_ms = Some 12,
     cl_prompt_tokens = JInt 3, cl_completion_tokens = JInt 4, cl_cache_tokens = JNull, cl_total_tokens = JInt 7,
     cl_tool_calls = None, cl_cost = None, cl_created_at = []\<rparr>"

text \<open>The witness is the loss at shutdown: a row is logged, the flush task takes it, and \<open>stop()\<close> cancels the task.\<close>

definition with_row :: writers where
  "with_row = idle_writers\<lparr>ws_writer := (ws_writer idle_writers)\<lparr>lw_buffer := [sample_log]\<rparr>\<rparr>"

definition taken_row :: batch where
  "taken_row = \<lparr>ba_logs = [sample_log], ba_attempts = [], ba_of_loop = True\<rparr>"

lemma loss_at_stop: "writer_run idle_writers [Logged sample_log, Worked, Cancelled [taken_row]] (idle_writers\<lparr>ws_loop := False\<rparr>)"
proof -
  have 1: "writer_step idle_writers (Logged sample_log) with_row"
    using writer_step.buffer_log [of idle_writers sample_log] by (simp add: with_row_def idle_writers_def)
  have 2: "writer_step with_row Worked (idle_writers\<lparr>ws_flying := [taken_row]\<rparr>)"
    using writer_step.loop_takes [of with_row] by (simp add: take_all_def with_row_def idle_writers_def taken_row_def)
  have 3: "writer_step (idle_writers\<lparr>ws_flying := [taken_row]\<rparr>) (Cancelled [taken_row]) (idle_writers\<lparr>ws_loop := False\<rparr>)"
    using writer_step.stop_loop [of "idle_writers\<lparr>ws_flying := [taken_row]\<rparr>"] by (simp add: idle_writers_def taken_row_def)
  show ?thesis
    using writer_run.step [OF writer_run.step [OF writer_run.step [OF writer_run.start 1] 2] 3] by simp
qed

theorem writer_conserves_rows_witness:
  "mset (stored_logs (ws_db (idle_writers\<lparr>ws_loop := False\<rparr>))) + {#sample_log#} = {#sample_log#}"
  using writer_conserves_rows [OF loss_at_stop]
  by (simp add: idle_writers_def rows_of_def taken_row_def sample_log_def unstamped_def all_logs_def recorded_def stored_logs_def
      empty_db_def empty_table_def)

subsection \<open>Queries\<close>

lemma page_append: "page (int m) 0 xs @ page (int k) (int m) xs = page (int m + int k) 0 xs"
  by (simp add: page_def nat_add_distrib) (simp add: take_add)

text \<open>The pages of the call log. With any \<open>ORDER BY created_at DESC\<close>, a page holds only matching rows,
  newest first; a page and the next one are the page of both sizes, so paging skips nothing and repeats
  nothing; and no matching row that a first page leaves out is newer than one it shows.\<close>

lemma call_log_pages:
  assumes "orders_desc cl_created_at order"
  shows "set (query_call_logs order f (int m) 0 db) \<subseteq> {r \<in> set (rows (call_logs db)). log_matches f (snd r)} \<and>
    sorted_wrt (\<lambda>a b. cl_created_at (snd a) \<ge> cl_created_at (snd b)) (query_call_logs order f (int m) 0 db) \<and>
    query_call_logs order f (int m) 0 db @ query_call_logs order f (int k) (int m) db =
      query_call_logs order f (int m + int k) 0 db \<and>
    (\<forall>r \<in> set (rows (call_logs db)). log_matches f (snd r) \<longrightarrow> r \<notin> set (query_call_logs order f (int m) 0 db) \<longrightarrow>
      (\<forall>q \<in> set (query_call_logs order f (int m) 0 db). cl_created_at (snd r) \<le> cl_created_at (snd q)))"
proof -
  define xs where "xs = order (filter (\<lambda>r. log_matches f (snd r)) (rows (call_logs db)))"
  have "mset xs = mset (filter (\<lambda>r. log_matches f (snd r)) (rows (call_logs db)))"
    and sorted: "sorted_wrt (\<lambda>a b. cl_created_at (snd a) \<ge> cl_created_at (snd b)) xs"
    using assms unfolding orders_desc_def xs_def by blast+
  then have set_xs: "set xs = {r \<in> set (rows (call_logs db)). log_matches f (snd r)}" by (metis set_filter set_mset_mset)
  have first: "query_call_logs order f (int m) 0 db = take m xs" by (simp add: query_call_logs_def page_def xs_def)
  have split: "sorted_wrt (\<lambda>a b. cl_created_at (snd a) \<ge> cl_created_at (snd b)) (take m xs @ drop m xs)"
    using sorted by simp
  have "\<forall>r \<in> set xs. r \<notin> set (take m xs) \<longrightarrow> (\<forall>q \<in> set (take m xs). cl_created_at (snd r) \<le> cl_created_at (snd q))"
    using split unfolding sorted_wrt_append by (metis Un_iff append_take_drop_id set_append)
  moreover have "query_call_logs order f (int m) 0 db @ query_call_logs order f (int k) (int m) db =
      query_call_logs order f (int m + int k) 0 db"
    using page_append [of m xs k] by (simp add: query_call_logs_def xs_def)
  moreover have "set (take m xs) \<subseteq> {r \<in> set (rows (call_logs db)). log_matches f (snd r)}"
    using set_take_subset [of m xs] set_xs by blast
  moreover have "sorted_wrt (\<lambda>a b. cl_created_at (snd a) \<ge> cl_created_at (snd b)) (take m xs)"
    using split unfolding sorted_wrt_append by blast
  ultimately show ?thesis unfolding first set_xs by blast
qed

definition newest_first :: "call_log order_by" where
  "newest_first rs = rev (sort_key (\<lambda>r. cl_created_at (snd r)) rs)"

lemma newest_first_orders: "orders_desc cl_created_at newest_first"
proof -
  have "sorted_wrt (\<lambda>a b. cl_created_at (snd a) \<ge> cl_created_at (snd b)) (newest_first rs)" for rs
    using sorted_sort_key [of "\<lambda>r. cl_created_at (snd r)" rs] by (simp add: newest_first_def sorted_wrt_rev sorted_wrt_map)
  then show ?thesis by (simp add: orders_desc_def newest_first_def)
qed

definition logged_db :: db where
  "logged_db = empty_db\<lparr>call_logs := \<lparr>rows = [(1, sample_log\<lparr>cl_created_at := ''1''\<rparr>), (2, sample_log\<lparr>cl_created_at := ''2''\<rparr>)], seq = 2\<rparr>\<rparr>"

definition any_log :: log_filter where
  "any_log = \<lparr>lf_group_id = None, lf_model_id = None, lf_provider_id = None, lf_api_key_id = None, lf_status = None,
     lf_error_type = None\<rparr>"

end
