(* ===== verification/Driver.thy ===== *)
theory Driver
  imports Engine Logs
begin

text \<open>
  The driver of \<open>src/botflow/core.py\<close>: resolution of the group a request names, call logging, the chat
  driver \<open>_drive_chat\<close> and the stream driver \<open>_drive_stream\<close> with their fallback over at most three
  groups, and the model list.

  A driver works on the gateway and the log writer (\<open>srv\<close>). The clock text, \<open>json.dumps\<close>, the text of a
  traceback and the transport that takes a line are parameters (\<open>drv\<close>). A streaming request is run to
  its end: its result is the list of lines it sent, and the exception that escapes it, if any. The loops
  carry fuel, one unit for each group tried. Model names are text.
\<close>

record 'w drv =
  dr_env :: "'w env"
  dr_stamp :: "'w \<Rightarrow> string"
  dr_dumps :: "json \<Rightarrow> string"
  dr_dumps_ascii :: "json \<Rightarrow> string"
  dr_traceback :: "exc \<Rightarrow> string"
  dr_send :: "string \<Rightarrow> 'w \<Rightarrow> 'w"

text \<open>The request context, \<open>_request_ctx\<close>.\<close>

record request_ctx =
  rc_api_key_id :: "int option"
  rc_request_id :: "string option"

record 'w srv =
  sv_gw :: "'w gw"
  sv_writer :: "log_writer option"

text \<open>The internal form of a request, and the dictionary that is written to the audit log.\<close>

record internal =
  in_model :: string
  in_messages :: "dict list"
  in_temperature :: json
  in_max_tokens :: "int option"
  in_stream :: bool
  in_extra :: dict
  in_json :: dict

abbreviation stamp_now :: "'w drv \<Rightarrow> 'w srv \<Rightarrow> string" where
  "stamp_now D s \<equiv> dr_stamp D (gw_world (sv_gw s))"

abbreviation clock_now :: "'w drv \<Rightarrow> 'w srv \<Rightarrow> real" where
  "clock_now D s \<equiv> mono_now (dr_env D) (sv_gw s)"

subsection \<open>Group resolution\<close>

definition safe_extra_keys :: "string list" where
  "safe_extra_keys = [''audio'', ''frequency_penalty'', ''function_call'', ''functions'',
    ''logit_bias'', ''logprobs'', ''max_completion_tokens'', ''max_tokens'',
    ''metadata'', ''modalities'', ''moderation'', ''n'', ''parallel_tool_calls'',
    ''prediction'', ''presence_penalty'', ''prompt_cache_key'',
    ''prompt_cache_retention'', ''reasoning_effort'', ''reasoning_content'',
    ''response_format'',
    ''safety_identifier'', ''seed'', ''service_tier'', ''stop'', ''store'',
    ''stream_options'', ''temperature'', ''tool_choice'', ''tools'',
    ''top_logprobs'', ''top_p'', ''user'', ''verbosity'', ''web_search_options'',
    ''extra_headers'', ''extra_query'', ''extra_body'', ''timeout'']"

definition filter_safe_extra :: "dict \<Rightarrow> dict" where
  "filter_safe_extra extra = dfilter (\<lambda>k. k \<in> set safe_extra_keys) extra"

definition get_group_id :: "string \<Rightarrow> db \<Rightarrow> int res" where
  "get_group_id model_name db =
     (let groups = list_groups True db in
      case find (\<lambda>g. g_name (snd g) = model_name) groups of
        Some g \<Rightarrow> Inr (fst g)
      | None \<Rightarrow>
          (case find_groups_by_model_name model_name True db of
             g # _ \<Rightarrow> Inr (fst g)
           | [] \<Rightarrow>
               (case groups of
                  g # _ \<Rightarrow> Inr (fst g)
                | [] \<Rightarrow> Inl (http_error 404
                    ''No enabled groups configured. Create a group via the admin API.''))))"

definition get_extra_route_params :: "internal \<Rightarrow> db \<Rightarrow> (int \<times> (int \<times> model_group) \<times> dict) res" where
  "get_extra_route_params req db =
     bindE (get_group_id (in_model req) db) (\<lambda>gid.
       case get_group gid db of
         None \<Rightarrow> Inl (mk_exc ConfigurationError (''Group '' @ str_int gid @ '' not found''))
       | Some grp \<Rightarrow> Inr (gid, grp, filter_safe_extra (in_extra req)))"

subsection \<open>Audit text\<close>

definition ellipsis :: string where
  "ellipsis = [CHR 0xE2, CHR 0x80, CHR 0xA6]"

definition newline :: string where
  "newline = [CHR 0x0A]"

definition request_summary :: "'w drv \<Rightarrow> bool \<Rightarrow> internal \<Rightarrow> string option" where
  "request_summary D full req =
     (let text = dr_dumps D (JObj (in_json req))
      in Some (if full \<or> py_len text \<le> 2000 then text else py_take 2000 text @ ellipsis @ ''[truncated]''))"

definition limit_traceback :: "string \<Rightarrow> string option" where
  "limit_traceback text =
     (if text = [] then None
      else if py_len text \<le> 4000 then Some text else Some (py_take 4000 text @ newline @ ellipsis @ ''[truncated]''))"

subsection \<open>Logging\<close>

text \<open>\<open>usage.get(k) if usage else None\<close>, for the four counts.\<close>

definition usage_tokens :: "json \<Rightarrow> (json \<times> json \<times> json \<times> json) res" where
  "usage_tokens usage =
     (if truthy usage
      then case usage of
             JObj d \<Rightarrow> Inr (dget d ''prompt_tokens'' JNull, dget d ''completion_tokens'' JNull,
                          dget d ''cache_tokens'' JNull, dget d ''total_tokens'' JNull)
           | _ \<Rightarrow> Inl (raised_by_python AttributeErrorExc)
      else Inr (JNull, JNull, JNull, JNull))"

record call_info =
  ci_group_id :: int
  ci_model_id :: "int option"
  ci_provider_id :: "int option"
  ci_request_body :: "string option"
  ci_response_body :: "string option"
  ci_status :: string
  ci_duration_ms :: int
  ci_usage :: json
  ci_error :: "(string \<times> string \<times> string option) option"

definition call_log_of :: "request_ctx \<Rightarrow> call_info \<Rightarrow> json \<times> json \<times> json \<times> json \<Rightarrow> call_log" where
  "call_log_of ctx ci counts =
     (case counts of (p, c, h, t) \<Rightarrow>
        \<lparr>cl_api_key_id = rc_api_key_id ctx, cl_group_id = Some (ci_group_id ci), cl_model_id = ci_model_id ci,
         cl_provider_id = ci_provider_id ci, cl_request_body = ci_request_body ci, cl_response_body = ci_response_body ci,
         cl_status = ci_status ci, cl_error_type = map_option fst (ci_error ci),
         cl_error_message = map_option (\<lambda>e. fst (snd e)) (ci_error ci),
         cl_traceback = (case ci_error ci of Some (_, _, tb) \<Rightarrow> tb | None \<Rightarrow> None),
         cl_request_id = rc_request_id ctx, cl_duration_ms = Some (ci_duration_ms ci),
         cl_prompt_tokens = p, cl_completion_tokens = c, cl_cache_tokens = h, cl_total_tokens = t,
         cl_tool_calls = None, cl_cost = None, cl_created_at = []\<rparr>)"

definition log_call :: "'w drv \<Rightarrow> request_ctx \<Rightarrow> call_info \<Rightarrow> 'w srv \<Rightarrow> unit res \<times> 'w srv" where
  "log_call D ctx ci s =
     (case usage_tokens (ci_usage ci) of
        Inl e \<Rightarrow> (Inl e, s)
      | Inr counts \<Rightarrow>
          let entry = call_log_of ctx ci counts; g = sv_gw s in
          case sv_writer s of
            Some w \<Rightarrow>
              (let (w', db') = log_entry (stamp_now D s) entry w (gw_db g)
               in (Inr (), s\<lparr>sv_writer := Some w', sv_gw := g\<lparr>gw_db := db'\<rparr>\<rparr>))
          | None \<Rightarrow>
              (case create_call_log (stamp_now D s) entry (gw_db g) of
                 Inl e \<Rightarrow> (Inl e, s)
               | Inr (_, db') \<Rightarrow> (Inr (), s\<lparr>sv_gw := g\<lparr>gw_db := db'\<rparr>\<rparr>)))"

definition call_attempt_of :: "request_ctx \<Rightarrow> attempt \<Rightarrow> call_attempt" where
  "call_attempt_of ctx a = \<lparr>ca_request_id = rc_request_id ctx, ca_attempt = a, ca_created_at = []\<rparr>"

definition log_one_attempt :: "'w drv \<Rightarrow> request_ctx \<Rightarrow> attempt \<Rightarrow> 'w srv \<Rightarrow> 'w srv" where
  "log_one_attempt D ctx a s =
     (case sv_writer s of
        None \<Rightarrow> s
      | Some w \<Rightarrow>
          let (w', db') = log_attempt (stamp_now D s) (call_attempt_of ctx a) w (gw_db (sv_gw s))
          in s\<lparr>sv_writer := Some w', sv_gw := (sv_gw s)\<lparr>gw_db := db'\<rparr>\<rparr>)"

definition log_attempts :: "'w drv \<Rightarrow> request_ctx \<Rightarrow> attempt list \<Rightarrow> 'w srv \<Rightarrow> 'w srv" where
  "log_attempts D ctx as s =
     (if as = [] then s
      else if sv_writer s \<noteq> None then fold (log_one_attempt D ctx) as s
      else s\<lparr>sv_gw := (sv_gw s)\<lparr>gw_db :=
             snd (create_call_attempts (stamp_now D s) (map (call_attempt_of ctx) as) (gw_db (sv_gw s)))\<rparr>\<rparr>)"

text \<open>The rows both handlers write for a failed request.\<close>

definition log_failure :: "'w drv \<Rightarrow> request_ctx \<Rightarrow> int \<Rightarrow> int option \<Rightarrow> int option \<Rightarrow> internal \<Rightarrow> attempt list \<Rightarrow> real \<Rightarrow>
    exc \<Rightarrow> 'w srv \<Rightarrow> unit res \<times> 'w srv" where
  "log_failure D ctx gid mid pid req attempts start e s =
     log_call D ctx
       \<lparr>ci_group_id = gid, ci_model_id = mid, ci_provider_id = pid, ci_request_body = request_summary D True req,
        ci_response_body = None, ci_status = ''error'', ci_duration_ms = millis start (clock_now D s), ci_usage = JNull,
        ci_error = Some (exc_type_name e, exc_msg e, limit_traceback (dr_traceback D e))\<rparr>
       (log_attempts D ctx attempts s)"

definition route_attempt :: "int \<Rightarrow> exc \<Rightarrow> attempt" where
  "route_attempt gid e =
     \<lparr>at_group_id = gid, at_model_id = None, at_provider_id = None, at_stage = ''route'', at_endpoint_idx = -1,
      at_attempt_no = 1, at_error_type = exc_type_name e, at_error_message = exc_msg e, at_duration_ms = 0\<rparr>"

subsection \<open>The chat driver\<close>

text \<open>Keyword arguments of \<open>engine.run\<close> that \<open>**safe_extra\<close> must not repeat.\<close>

definition run_parameters :: "string list" where
  "run_parameters = [''strategy'', ''group'', ''messages'', ''mode'', ''temperature'', ''max_tokens'', ''request'']"

definition repeats_parameter :: "dict \<Rightarrow> bool" where
  "repeats_parameter extra = list_ex (\<lambda>kv. fst kv \<in> set run_parameters) extra"

definition engine_chat :: "'w drv \<Rightarrow> int \<times> model_group \<Rightarrow> internal \<Rightarrow> dict \<Rightarrow> 'w srv \<Rightarrow> chat_result res \<times> 'w srv" where
  "engine_chat D grp req extra s =
     (if repeats_parameter extra then (Inl (raised_by_python TypeErrorExc), s)
      else let (r, g) = run_chat (dr_env D) grp (in_messages req) (in_temperature req) (in_max_tokens req) extra (sv_gw s)
           in (r, s\<lparr>sv_gw := g\<rparr>))"

definition routing_id :: "json \<Rightarrow> string \<Rightarrow> int option" where
  "routing_id routing k = (case routing of JObj d \<Rightarrow> (case dget d k JNull of JInt i \<Rightarrow> Some i | _ \<Rightarrow> None) | _ \<Rightarrow> None)"

definition client_response :: "string \<Rightarrow> dict \<Rightarrow> dict" where
  "client_response model_name d = dpop ''_attempts'' (dpop ''_routing'' (dset ''model'' (JStr model_name) d))"

definition success_info :: "'w drv \<Rightarrow> int \<Rightarrow> internal \<Rightarrow> chat_result \<Rightarrow> real \<Rightarrow> 'w srv \<Rightarrow> call_info" where
  "success_info D gid req cr start s =
     (let routing = dget (cr_response cr) ''_routing'' (JObj []); result = client_response (in_model req) (cr_response cr)
      in \<lparr>ci_group_id = gid, ci_model_id = routing_id routing ''model_id'',
          ci_provider_id = routing_id routing ''provider_id'', ci_request_body = request_summary D False req,
          ci_response_body = Some (py_take 500 (dr_dumps_ascii D (JObj result))), ci_status = ''success'',
          ci_duration_ms = millis start (clock_now D s), ci_usage = dget result ''usage'' (JObj []), ci_error = None\<rparr>)"

text \<open>The body of the \<open>try\<close>: its result and the attempts gathered so far.\<close>

definition chat_try :: "'w drv \<Rightarrow> request_ctx \<Rightarrow> int \<Rightarrow> int \<times> model_group \<Rightarrow> internal \<Rightarrow> dict \<Rightarrow> attempt list \<Rightarrow> real \<Rightarrow>
    'w srv \<Rightarrow> (dict res \<times> attempt list) \<times> 'w srv" where
  "chat_try D ctx gid grp req extra attempts start s =
     (case engine_chat D grp req extra s of
        (Inl e, s1) \<Rightarrow> ((Inl e, attempts), s1)
      | (Inr cr, s1) \<Rightarrow>
          let attempts1 = attempts @ cr_attempts cr in
          case log_call D ctx (success_info D gid req cr start s1) (log_attempts D ctx attempts1 s1) of
            (Inl e, s2) \<Rightarrow> ((Inl e, attempts1), s2)
          | (Inr _, s2) \<Rightarrow> ((Inr (client_response (in_model req) (cr_response cr)), attempts1), s2))"

definition max_fallback_groups :: nat where
  "max_fallback_groups = 3"

text \<open>The group to fall back to, \<open>None\<close> when the request is exhausted.\<close>

definition next_group :: "int \<times> model_group \<Rightarrow> int list \<Rightarrow> int option" where
  "next_group grp visited =
     (case g_fallback_group_id (snd grp) of
        None \<Rightarrow> None
      | Some fb \<Rightarrow> if fb \<in> set visited \<or> length visited \<ge> max_fallback_groups then None else Some fb)"

definition load_fallback :: "'w drv \<Rightarrow> int \<Rightarrow> 'w srv \<Rightarrow> (int \<times> model_group) res \<times> 'w srv" where
  "load_fallback D fb s = (let (r, g) = load_group (dr_env D) fb (sv_gw s) in (r, s\<lparr>sv_gw := g\<rparr>))"

fun chat_groups :: "nat \<Rightarrow> 'w drv \<Rightarrow> request_ctx \<Rightarrow> int \<Rightarrow> internal \<Rightarrow> dict \<Rightarrow> real \<Rightarrow> int \<times> model_group \<Rightarrow> int list \<Rightarrow>
    attempt list \<Rightarrow> 'w srv \<Rightarrow> (dict res \<times> 'w srv) option" where
  "chat_groups 0 D ctx gid req extra start grp visited attempts s = None"
| "chat_groups (Suc fuel) D ctx gid req extra start grp visited attempts s =
     (case chat_try D ctx gid grp req extra attempts start s of
        ((Inr d, _), s1) \<Rightarrow> Some (Inr d, s1)
      | ((Inl e, attempts1), s1) \<Rightarrow>
          if catches [AllModelsCooldownError, NoAvailableModelError, ProviderError] e then
            (let attempts2 = attempts1 @ (case exc_attempts e of Some as \<Rightarrow> as | None \<Rightarrow> []) in
             case next_group grp visited of
               None \<Rightarrow>
                 (case log_failure D ctx gid (exc_used_model e) (exc_used_provider e) req attempts2 start e s1 of
                    (Inl e2, s2) \<Rightarrow> Some (Inl e2, s2)
                  | (Inr _, s2) \<Rightarrow> Some (Inl e, s2))
             | Some fb \<Rightarrow>
                 (case load_fallback D fb s1 of
                    (Inl e2, s2) \<Rightarrow> Some (Inl e2, s2)
                  | (Inr grp2, s2) \<Rightarrow>
                      chat_groups fuel D ctx gid req extra start grp2 (List.insert (fst grp2) visited) attempts2 s2))
          else
            (case log_failure D ctx gid None None req (attempts1 @ [route_attempt (fst grp) e]) start e s1 of
               (Inl e2, s2) \<Rightarrow> Some (Inl e2, s2)
             | (Inr _, s2) \<Rightarrow> Some (Inl e, s2)))"

definition drive_chat :: "'w drv \<Rightarrow> request_ctx \<Rightarrow> internal \<Rightarrow> 'w srv \<Rightarrow> (dict res \<times> 'w srv) option" where
  "drive_chat D ctx req s =
     (case get_extra_route_params req (gw_db (sv_gw s)) of
        Inl e \<Rightarrow> Some (Inl e, s)
      | Inr (gid, grp, extra) \<Rightarrow>
          chat_groups max_fallback_groups D ctx gid req extra (clock_now D s) grp [fst grp] [] s)"

text \<open>\<open>_handle_chat_non_stream\<close>: every error that is not an \<open>HTTPException\<close> becomes a 502.\<close>

definition handle_chat_non_stream :: "'w drv \<Rightarrow> request_ctx \<Rightarrow> internal \<Rightarrow> (dict \<Rightarrow> dict res) \<Rightarrow> 'w srv \<Rightarrow>
    (dict res \<times> 'w srv) option" where
  "handle_chat_non_stream D ctx req format_response s =
     map_option (\<lambda>(r, s1).
       (case r of
          Inl e \<Rightarrow> Inl (if is_subclass (exc_class e) HTTPException then e else http_error 502 (exc_msg e))
        | Inr d \<Rightarrow> format_response d, s1))
       (drive_chat D ctx req s)"

subsection \<open>The stream driver\<close>

text \<open>A serializer turns a chunk into lines and the usage it carries. It may keep state, and it may raise.\<close>

type_synonym 'z serializer = "'z \<Rightarrow> dict \<Rightarrow> (string list \<times> json) res \<times> 'z"

definition send_lines :: "'w drv \<Rightarrow> string list \<Rightarrow> 'w gw \<Rightarrow> 'w gw" where
  "send_lines D lines g = g\<lparr>gw_world := fold (dr_send D) lines (gw_world g)\<rparr>"

text \<open>Where the loop over the events of one group stands.\<close>

record 'z pumped =
  pu_error :: "exc option"
  pu_final :: "stream_final option"
  pu_usage :: json
  pu_lines :: "string list"
  pu_ser :: 'z

text \<open>\<open>async for kind, payload in gen\<close>. A disconnect seen here closes the generator and drops the event.\<close>

function pump :: "'w drv \<Rightarrow> bool \<Rightarrow> 'z serializer \<Rightarrow> string \<Rightarrow> gen \<Rightarrow> 'z pumped \<Rightarrow> 'w gw \<Rightarrow> 'z pumped \<times> 'w gw" where
  "pump D has_request ser model_name G p g =
     (case gen_next (dr_env D) has_request G g of
        (None, _, g1) \<Rightarrow> (p, g1)
      | (Some ev, G1, g1) \<Rightarrow>
          let (gone, g2) = poll (dr_env D) has_request g1 in
          if gone then (p, gen_close G1 g2)
          else case ev of
            ChunkEv c \<Rightarrow>
              (case ser (pu_ser p) (dset ''model'' (JStr model_name) c) of
                 (Inl e, z) \<Rightarrow> (p\<lparr>pu_error := Some e, pu_ser := z\<rparr>, g2)
               | (Inr (lines, usage), z) \<Rightarrow>
                   pump D has_request ser model_name G1
                     (p\<lparr>pu_lines := pu_lines p @ lines, pu_ser := z,
                        pu_usage := (if truthy usage then usage else pu_usage p)\<rparr>)
                     (send_lines D lines g2))
          | StateEv f \<Rightarrow> pump D has_request ser model_name G1 (p\<lparr>pu_final := Some f\<rparr>) g2)"
  by pat_completeness auto

termination
  by (relation "measures [\<lambda>(D, req, ser, m, gn, p, g). gen_phase gn, \<lambda>(D, req, ser, m, gn, p, g). gen_left gn]")
    (auto dest: gen_next_decreases [OF sym])

declare pump.simps [simp del]

definition exhausted_message :: "int \<Rightarrow> string" where
  "exhausted_message gid = ''Group '' @ str_int gid @ '' stream exhausted, fallback''"

text \<open>The body of the \<open>try\<close>: \<open>Inr\<close> when the request is finished; the attempts and the state of the loop.\<close>

definition stream_try :: "'w drv \<Rightarrow> request_ctx \<Rightarrow> bool \<Rightarrow> 'z serializer \<Rightarrow> int \<Rightarrow> int \<times> model_group \<Rightarrow> internal \<Rightarrow> dict \<Rightarrow>
    attempt list \<Rightarrow> real \<Rightarrow> 'z pumped \<Rightarrow> 'w srv \<Rightarrow> (unit res \<times> attempt list \<times> 'z pumped) \<times> 'w srv" where
  "stream_try D ctx has_request ser gid grp req extra attempts start p0 s =
     (let p1 = p0\<lparr>pu_error := None, pu_final := None, pu_usage := JNull\<rparr> in
      if repeats_parameter extra then ((Inl (raised_by_python TypeErrorExc), attempts, p1), s)
      else case run_stream (dr_env D) grp (in_messages req) (in_temperature req) (in_max_tokens req) extra (sv_gw s) of
        (Inl e, g1) \<Rightarrow> ((Inl e, attempts, p1), s\<lparr>sv_gw := g1\<rparr>)
      | (Inr G, g1) \<Rightarrow>
          let (p, g2) = pump D has_request ser (in_model req) G p1 g1; s2 = s\<lparr>sv_gw := g2\<rparr> in
          case pu_error p of
            Some e \<Rightarrow> ((Inl e, attempts, p), s2)
          | None \<Rightarrow>
              let attempts1 = attempts @ (case pu_final p of Some f \<Rightarrow> sf_attempts f | None \<Rightarrow> []) in
              if (case pu_final p of Some f \<Rightarrow> sf_recoverable f | None \<Rightarrow> False)
              then ((Inl (mk_exc ProviderError (exhausted_message (fst grp))), attempts1, p), s2)
              else
                let ci = \<lparr>ci_group_id = gid,
                      ci_model_id = (case pu_final p of Some f \<Rightarrow> sf_used_model f | None \<Rightarrow> None),
                      ci_provider_id = (case pu_final p of Some f \<Rightarrow> sf_used_provider f | None \<Rightarrow> None),
                      ci_request_body = request_summary D False req, ci_response_body = None, ci_status = ''success'',
                      ci_duration_ms = millis start (clock_now D s2), ci_usage = pu_usage p, ci_error = None\<rparr>;
                    (r, s3) = log_call D ctx ci (log_attempts D ctx attempts1 s2)
                in ((r, attempts1, p), s3))"

definition error_line :: "'w drv \<Rightarrow> exc \<Rightarrow> string" where
  "error_line D e = ''data: '' @ dr_dumps D (JObj [(''error'', JObj [(''message'', JStr (exc_msg e)),
     (''type'', JStr ''server_error'')])]) @ newline @ newline"

text \<open>The lines of an error and the end of the stream.\<close>

definition close_with_error :: "'w drv \<Rightarrow> string \<Rightarrow> exc \<Rightarrow> 'z pumped \<Rightarrow> unit res \<times> 'w srv \<Rightarrow>
    (string list \<times> exc option) \<times> 'w srv" where
  "close_with_error D done_signal e p logged =
     (case logged of
        (Inl e2, s) \<Rightarrow> ((pu_lines p, Some e2), s)
      | (Inr _, s) \<Rightarrow>
          ((pu_lines p @ [error_line D e, done_signal], None),
           s\<lparr>sv_gw := send_lines D [error_line D e, done_signal] (sv_gw s)\<rparr>))"

fun stream_groups :: "nat \<Rightarrow> 'w drv \<Rightarrow> request_ctx \<Rightarrow> bool \<Rightarrow> 'z serializer \<Rightarrow> string \<Rightarrow> int \<Rightarrow> internal \<Rightarrow> dict \<Rightarrow> real \<Rightarrow>
    int \<times> model_group \<Rightarrow> int list \<Rightarrow> attempt list \<Rightarrow> 'z pumped \<Rightarrow> 'w srv \<Rightarrow>
    ((string list \<times> exc option) \<times> 'w srv) option" where
  "stream_groups 0 D ctx has_request ser done_signal gid req extra start grp visited attempts p s = None"
| "stream_groups (Suc fuel) D ctx has_request ser done_signal gid req extra start grp visited attempts p s =
     (case stream_try D ctx has_request ser gid grp req extra attempts start p s of
        ((Inr _, _, p1), s1) \<Rightarrow>
          Some ((pu_lines p1 @ [done_signal], None), s1\<lparr>sv_gw := send_lines D [done_signal] (sv_gw s1)\<rparr>)
      | ((Inl e, attempts1, p1), s1) \<Rightarrow>
          if catches [AllModelsCooldownError, NoAvailableModelError, ProviderError] e then
            (let attempts2 = attempts1 @ (case exc_attempts e of Some as \<Rightarrow> as | None \<Rightarrow> []) in
             case next_group grp visited of
               None \<Rightarrow>
                 Some (close_with_error D done_signal e p1
                   (log_failure D ctx gid (case pu_final p1 of Some f \<Rightarrow> sf_used_model f | None \<Rightarrow> None)
                      (case pu_final p1 of Some f \<Rightarrow> sf_used_provider f | None \<Rightarrow> None) req attempts2 start e s1))
             | Some fb \<Rightarrow>
                 (case load_fallback D fb s1 of
                    (Inl e2, s2) \<Rightarrow> Some ((pu_lines p1, Some e2), s2)
                  | (Inr grp2, s2) \<Rightarrow>
                      stream_groups fuel D ctx has_request ser done_signal gid req extra start grp2
                        (List.insert (fst grp2) visited) attempts2 p1 s2))
          else
            Some (close_with_error D done_signal e p1
              (log_failure D ctx gid None None req (attempts1 @ [route_attempt (fst grp) e]) start e s1)))"

text \<open>A request that no group can be found for raises before the first line.\<close>

definition drive_stream :: "'w drv \<Rightarrow> request_ctx \<Rightarrow> bool \<Rightarrow> 'z serializer \<Rightarrow> 'z \<Rightarrow> string \<Rightarrow> internal \<Rightarrow> 'w srv \<Rightarrow>
    ((string list \<times> exc option) \<times> 'w srv) option" where
  "drive_stream D ctx has_request ser z done_signal req s =
     (case get_extra_route_params req (gw_db (sv_gw s)) of
        Inl e \<Rightarrow> Some (([], Some e), s)
      | Inr (gid, grp, extra) \<Rightarrow>
          stream_groups max_fallback_groups D ctx has_request ser done_signal gid req extra (clock_now D s) grp [fst grp] []
            \<lparr>pu_error = None, pu_final = None, pu_usage = JNull, pu_lines = [], pu_ser = z\<rparr> s)"

end
