(* ===== verification/Protocol.thy ===== *)
theory Protocol
  imports Converters
begin

text \<open>
  The front-end protocol adapter, \<open>src/botflow/protocol_adapter.py\<close>: requests of the OpenAI, Anthropic and
  Responses APIs to the internal form, and internal responses and stream chunks back.

  Requests, responses and chunks are dictionaries; what comes in is any JSON, so a value of the wrong type
  raises as in Python. The clock in seconds is \<open>ts\<close>; \<open>hx k\<close> is the random text of \<open>_now_hex\<close> at the place
  \<open>k\<close> of a conversion (the places of one conversion are numbered apart); \<open>so\<close> is Python's
  \<open>str\<close> on a value that is not a string and \<open>loads\<close> is \<open>json.loads\<close>.
\<close>

subsection \<open>Python idioms\<close>

text \<open>The receiver of \<open>.get\<close>.\<close>

fun as_dict :: "json \<Rightarrow> dict res" where
  "as_dict (JObj d) = Inr d"
| "as_dict _ = Inl (raised_by_python AttributeErrorExc)"

text \<open>\<open>x[0]\<close> on a true value.\<close>

fun item_zero :: "json \<Rightarrow> json res" where
  "item_zero (JList (x # _)) = Inr x"
| "item_zero (JStr s) = Inr (JStr (py_take 1 s))"
| "item_zero (JObj _) = Inl (raised_by_python KeyErrorExc)"
| "item_zero (JList []) = Inl (raised_by_python IndexErrorExc)"
| "item_zero _ = Inl (raised_by_python TypeErrorExc)"

text \<open>An item that is set under a condition.\<close>

definition item_if :: "bool \<Rightarrow> string \<Rightarrow> json \<Rightarrow> dict" where
  "item_if c k v = (if c then [(k, v)] else [])"

definition str_item :: "string \<Rightarrow> string \<Rightarrow> string \<times> json" where
  "str_item k s = (k, JStr s)"

text \<open>\<open>sub in s\<close> on texts.\<close>

definition occurs_in :: "string \<Rightarrow> string \<Rightarrow> bool" where
  "occurs_in sub s \<longleftrightarrow> list_ex (\<lambda>n. prefix sub (drop n s)) [0..<Suc (length s)]"

fun safe_json_loads :: "(string \<Rightarrow> json option) \<Rightarrow> json \<Rightarrow> json" where
  "safe_json_loads loads (JStr s) =
     (if s = '''' then JObj [] else case loads s of Some v \<Rightarrow> v | None \<Rightarrow> JObj [])"
| "safe_json_loads loads _ = JObj []"

subsection \<open>Requests\<close>

definition openai_to_internal :: "dict \<Rightarrow> dict" where
  "openai_to_internal body =
     [(''messages'', dget body ''messages'' (JList [])), (''model'', dget body ''model'' (JStr '''')),
      (''temperature'', dget body ''temperature'' JNull), (''max_tokens'', dget body ''max_tokens'' JNull),
      (''stream'', dget body ''stream'' (JBool False)),
      (''extra'', JObj (dfilter (\<lambda>k. k \<notin> {''messages'', ''model'', ''temperature'', ''max_tokens'', ''stream''}) body))]"

definition system_message :: "json \<Rightarrow> json" where
  "system_message content = JObj [str_item ''role'' ''system'', (''content'', content)]"

definition convert_message :: "(json \<Rightarrow> string) \<Rightarrow> json \<Rightarrow> json res" where
  "convert_message so msg =
     bindE (as_dict msg) (\<lambda>d.
       let content = dget d ''content'' (JStr '''') in
       bindE (case content of JList _ \<Rightarrow> anthropic_to_openai_content so content | _ \<Rightarrow> Inr content) (\<lambda>c.
         Inr (JObj (dset ''content'' c d))))"

definition anthropic_to_internal :: "(json \<Rightarrow> string) \<Rightarrow> dict \<Rightarrow> dict res" where
  "anthropic_to_internal so body =
     (let messages = dget body ''messages'' (JList []); system = dget body ''system'' (JStr '''') in
      bindE (if truthy system
             then (case messages of JList ms \<Rightarrow> Inr (system_message system # ms) | _ \<Rightarrow> Inl (raised_by_python TypeErrorExc))
             else jiter messages) (\<lambda>ms.
      bindE (mapE (convert_message so) ms) (\<lambda>converted.
        Inr [(''messages'', JList converted), (''model'', dget body ''model'' (JStr '''')),
             (''temperature'', dget body ''temperature'' JNull), (''max_tokens'', dget body ''max_tokens'' (JInt 4096)),
             (''stream'', dget body ''stream'' (JBool False)),
             (''extra'', JObj (dfilter (\<lambda>k. k \<notin> {''messages'', ''model'', ''temperature'', ''max_tokens'', ''stream'', ''system''})
                body))])))"

definition part_text :: "json \<Rightarrow> json list res" where
  "part_text part =
     bindE (as_dict part) (\<lambda>d.
       if dget d ''type'' JNull = JStr ''input_text'' \<or> dget d ''type'' JNull = JStr ''text''
       then Inr [dget d ''text'' (JStr '''')] else Inr [])"

definition user_message :: "json \<Rightarrow> json \<Rightarrow> json" where
  "user_message role content = JObj [(''role'', role), (''content'', content)]"

definition responses_item :: "(json \<Rightarrow> string) \<Rightarrow> json \<Rightarrow> json res" where
  "responses_item so item =
     bindE (as_dict item) (\<lambda>d.
       let role = dget d ''role'' (JStr ''user''); content = dget d ''content'' (JStr '''') in
       case content of
         JStr s \<Rightarrow> Inr (user_message role (JStr s))
       | JList parts \<Rightarrow>
           bindE (concat_mapE part_text parts) (\<lambda>ps.
           bindE (mapE need_str ps) (\<lambda>ts. Inr (user_message role (JStr (join '' '' ts)))))
       | _ \<Rightarrow> Inr (user_message role (JStr (fmt so content))))"

definition responses_input_to_messages :: "(json \<Rightarrow> string) \<Rightarrow> json list \<Rightarrow> json \<Rightarrow> json list res" where
  "responses_input_to_messages so items instructions =
     bindE (mapE (responses_item so) items) (\<lambda>ms.
       Inr ((if truthy instructions then [system_message instructions] else []) @ ms))"

definition responses_messages :: "(json \<Rightarrow> string) \<Rightarrow> json \<Rightarrow> json \<Rightarrow> json list res" where
  "responses_messages so raw_input instructions =
     (case raw_input of
        JStr s \<Rightarrow> Inr ((if truthy instructions then [system_message instructions] else []) @
                     (if s \<noteq> '''' then [user_message (JStr ''user'') (JStr s)] else []))
      | JList items \<Rightarrow> responses_input_to_messages so items instructions
      | _ \<Rightarrow> Inr [])"

definition responses_to_internal :: "(json \<Rightarrow> string) \<Rightarrow> dict \<Rightarrow> dict res" where
  "responses_to_internal so body =
     bindE (responses_messages so (dget body ''input'' (JStr '''')) (dget body ''instructions'' (JStr ''''))) (\<lambda>messages.
       Inr [(''messages'', JList messages), (''model'', dget body ''model'' (JStr '''')),
            (''temperature'', dget body ''temperature'' JNull),
            (''max_tokens'', py_or (dget body ''max_output_tokens'' JNull) (dget body ''max_tokens'' JNull)),
            (''stream'', dget body ''stream'' (JBool False)),
            (''extra'', JObj (dfilter (\<lambda>k. k \<notin> {''input'', ''instructions'', ''model'', ''temperature'', ''max_output_tokens'',
               ''max_tokens'', ''stream''}) body))])"

subsection \<open>Responses\<close>

definition openai_choice :: "json \<Rightarrow> json res" where
  "openai_choice c =
     bindE (as_dict c) (\<lambda>cd.
     bindE (as_dict (dget cd ''message'' (JObj []))) (\<lambda>msg.
       Inr (JObj [(''index'', dget cd ''index'' (JInt 0)),
         (''message'', JObj (
            [(''role'', dget msg ''role'' (JStr ''assistant'')), (''content'', dget msg ''content'' (JStr ''''))] @
            item_if (truthy (dget msg ''tool_calls'' JNull)) ''tool_calls'' (dget msg ''tool_calls'' JNull) @
            item_if (truthy (dget msg ''function_call'' JNull)) ''function_call'' (dget msg ''function_call'' JNull) @
            item_if (dget msg ''reasoning_content'' JNull \<noteq> JNull) ''reasoning_content'' (dget msg ''reasoning_content'' JNull))),
         (''finish_reason'', dget cd ''finish_reason'' (JStr ''stop''))])))"

definition internal_to_openai :: "int \<Rightarrow> dict \<Rightarrow> dict res" where
  "internal_to_openai ts internal =
     bindE (jiter (dget internal ''choices'' (JList []))) (\<lambda>cs.
     bindE (mapE openai_choice cs) (\<lambda>choices.
       Inr ([(''id'', dget internal ''id'' (JStr '''')), str_item ''object'' ''chat.completion'', (''created'', JInt ts),
             (''model'', dget internal ''model'' (JStr '''')), (''choices'', JList choices),
             (''usage'', dget internal ''usage'' (JObj []))] @
            item_if (truthy (dget internal ''system_fingerprint'' JNull)) ''system_fingerprint''
              (dget internal ''system_fingerprint'' JNull))))"

text \<open>\<open>choices[0]\<close> when there is one that is not null, else an empty dict.\<close>

definition first_choice :: "dict \<Rightarrow> json res" where
  "first_choice internal =
     (let raw = py_or (dget internal ''choices'' JNull) (JList []) in
      if truthy raw then bindE (item_zero raw) (\<lambda>c. Inr (if c = JNull then JObj [] else c)) else Inr (JObj []))"

text \<open>The message of the first choice: content, tool calls, reasoning and finish reason.\<close>

definition reply_parts :: "dict \<Rightarrow> (json \<times> json \<times> json \<times> dict) res" where
  "reply_parts internal =
     bindE (first_choice internal) (\<lambda>c.
     bindE (as_dict c) (\<lambda>choice.
     bindE (as_dict (py_or (dget choice ''message'' JNull) (JObj []))) (\<lambda>msg.
       Inr (py_or (dget msg ''content'' JNull) (JStr ''''), py_or (dget msg ''tool_calls'' JNull) (JList []),
            dget msg ''reasoning_content'' JNull, choice))))"

definition token_counts :: "json \<Rightarrow> dict res" where
  "token_counts usage =
     bindE (as_dict usage) (\<lambda>u.
       Inr [(''input_tokens'', dget u ''prompt_tokens'' (JInt 0)), (''output_tokens'', dget u ''completion_tokens'' (JInt 0))])"

definition anthropic_tool_use :: "(string \<Rightarrow> json option) \<Rightarrow> (nat \<Rightarrow> string) \<Rightarrow> nat \<times> json \<Rightarrow> json res" where
  "anthropic_tool_use loads hx kt =
     bindE (as_dict (snd kt)) (\<lambda>tc.
     bindE (as_dict (dget tc ''function'' (JObj []))) (\<lambda>f.
       Inr (JObj [str_item ''type'' ''tool_use'', (''id'', dget tc ''id'' (JStr (''toolu_'' @ hx (fst kt)))),
         (''name'', dget f ''name'' (JStr '''')),
         (''input'', safe_json_loads loads (dget f ''arguments'' (JStr ''{}'')))])))"

definition internal_to_anthropic :: "(string \<Rightarrow> json option) \<Rightarrow> (nat \<Rightarrow> string) \<Rightarrow> dict \<Rightarrow> dict res" where
  "internal_to_anthropic loads hx internal =
     bindE (reply_parts internal) (\<lambda>(text, tool_calls, reasoning, choice).
     bindE (jiter tool_calls) (\<lambda>tcs.
     bindE (mapE (anthropic_tool_use loads hx) (enumerate 0 tcs)) (\<lambda>tools.
     bindE (token_counts (dget internal ''usage'' (JObj []))) (\<lambda>usage.
       let stop_reason = py_or (dget choice ''finish_reason'' JNull) (JStr ''end_turn'') in
       Inr [(''id'', dget internal ''id'' (JStr '''')), str_item ''type'' ''message'', str_item ''role'' ''assistant'',
            (''content'', JList (
               (if truthy reasoning then [JObj [str_item ''type'' ''thinking'', (''thinking'', reasoning)]] else []) @
               (if truthy text then [JObj [str_item ''type'' ''text'', (''text'', text)]] else []) @ tools)),
            (''model'', dget internal ''model'' (JStr '''')),
            (''stop_reason'', if truthy tool_calls \<and> stop_reason = JStr ''stop'' then JStr ''tool_use'' else stop_reason),
            (''stop_sequence'', JNull), (''usage'', JObj usage)]))))"

definition responses_function_call :: "(nat \<Rightarrow> string) \<Rightarrow> nat \<times> json \<Rightarrow> json res" where
  "responses_function_call hx kt =
     bindE (as_dict (snd kt)) (\<lambda>tc.
     bindE (as_dict (dget tc ''function'' (JObj []))) (\<lambda>f.
       Inr (JObj [(''id'', JStr (''out_'' @ hx (2 + 2 * fst kt))), str_item ''type'' ''function_call'',
         (''call_id'', dget tc ''id'' (JStr (''call_'' @ hx (3 + 2 * fst kt)))),
         (''name'', dget f ''name'' (JStr '''')), (''arguments'', dget f ''arguments'' (JStr ''{}'')),
         str_item ''status'' ''completed''])))"

definition output_text_part :: "json \<Rightarrow> json" where
  "output_text_part text = JObj [str_item ''type'' ''output_text'', (''text'', text), (''annotations'', JList [])]"

definition responses_message_item :: "string \<Rightarrow> json \<Rightarrow> json" where
  "responses_message_item i text =
     JObj [str_item ''id'' i, str_item ''type'' ''message'', str_item ''role'' ''assistant'', str_item ''status'' ''completed'',
           (''content'', JList [output_text_part text])]"

definition responses_usage :: "json \<Rightarrow> dict res" where
  "responses_usage usage =
     bindE (token_counts usage) (\<lambda>counts.
     bindE (as_dict usage) (\<lambda>u. Inr (counts @ [(''total_tokens'', dget u ''total_tokens'' (JInt 0))])))"

text \<open>\<open>hx 0\<close> and \<open>hx 1\<close> name the reasoning and the text; the value for a missing \<open>id\<close> of the response
  itself is \<open>resp\<close>.\<close>

definition internal_to_responses :: "int \<Rightarrow> (nat \<Rightarrow> string) \<Rightarrow> string \<Rightarrow> dict \<Rightarrow> dict res" where
  "internal_to_responses ts hx resp internal =
     bindE (reply_parts internal) (\<lambda>(text, tool_calls, reasoning, choice).
     bindE (jiter tool_calls) (\<lambda>tcs.
     bindE (mapE (responses_function_call hx) (enumerate 0 tcs)) (\<lambda>calls.
     bindE (responses_usage (dget internal ''usage'' (JObj []))) (\<lambda>usage.
       let incomplete = (py_or (dget choice ''finish_reason'' JNull) (JStr ''stop'') = JStr ''length'') in
       Inr [(''id'', dget internal ''id'' (JStr (''resp_'' @ resp))), str_item ''object'' ''response'', (''created_at'', JInt ts),
            str_item ''status'' (if incomplete then ''incomplete'' else ''completed''), (''error'', JNull),
            (''incomplete_details'', if incomplete then JObj [str_item ''reason'' ''max_output_tokens''] else JNull),
            (''model'', dget internal ''model'' (JStr '''')),
            (''output'', JList (
               (if truthy reasoning
                then [JObj [str_item ''id'' (''out_'' @ hx 0), str_item ''type'' ''reasoning'',
                        (''summary'', JList [JObj [str_item ''type'' ''summary_text'', (''text'', reasoning)]]),
                        str_item ''status'' ''completed'']] else []) @
               (if truthy text then [responses_message_item (''out_'' @ hx 1) text] else []) @ calls)),
            (''output_text'', if truthy text then text else JStr ''''),
            (''usage'', JObj usage), (''temperature'', JNull), (''tools'', JList [])]))))"


subsection \<open>Stream chunks\<close>

definition chunk_head :: "int \<Rightarrow> dict \<Rightarrow> dict" where
  "chunk_head ts chunk =
     [(''id'', dget chunk ''id'' (JStr '''')), str_item ''object'' ''chat.completion.chunk'', (''created'', JInt ts),
      (''model'', dget chunk ''model'' (JStr ''''))]"

definition internal_chunk_to_openai_sse :: "int \<Rightarrow> dict \<Rightarrow> dict res" where
  "internal_chunk_to_openai_sse ts chunk =
     (let choices = dget chunk ''choices'' (JList []); usage = dget chunk ''usage'' JNull in
      if \<not> truthy choices \<and> truthy usage then
        Inr (chunk_head ts chunk @ [(''choices'', JList []), (''usage'', usage)])
      else
        bindE (if truthy choices then item_zero choices else Inr (JObj [])) (\<lambda>c.
        bindE (as_dict c) (\<lambda>choice.
        bindE (as_dict (dget choice ''delta'' (JObj []))) (\<lambda>delta.
          Inr (chunk_head ts chunk @
            [(''choices'', JList [JObj [(''index'', dget choice ''index'' (JInt 0)),
               (''delta'', JObj (
                  [(''role'', dget delta ''role'' (JStr '''')), (''content'', dget delta ''content'' (JStr ''''))] @
                  item_if (truthy (dget delta ''tool_calls'' JNull)) ''tool_calls'' (dget delta ''tool_calls'' JNull) @
                  item_if (dget delta ''reasoning_content'' JNull \<noteq> JNull) ''reasoning_content''
                    (dget delta ''reasoning_content'' JNull))),
               (''finish_reason'', dget choice ''finish_reason'' JNull)]])] @
            item_if (truthy usage) ''usage'' usage)))))"

text \<open>The first choice of a chunk and its delta, \<open>None\<close> when the chunk gives no event.\<close>

definition chunk_delta :: "dict \<Rightarrow> (dict \<times> dict) option res" where
  "chunk_delta chunk =
     (let choices = py_or (dget chunk ''choices'' JNull) (JList []) in
      if \<not> truthy choices then Inr None
      else bindE (item_zero choices) (\<lambda>c.
        case c of
          JObj choice \<Rightarrow>
            bindE (as_dict (py_or (dget choice ''delta'' JNull) (JObj []))) (\<lambda>delta. Inr (Some (choice, delta)))
        | _ \<Rightarrow> Inr None))"

definition anthropic_stop_reason :: "json \<Rightarrow> json" where
  "anthropic_stop_reason finish_reason =
     (if finish_reason = JStr ''length'' then JStr ''max_tokens''
      else if finish_reason = JStr ''content_filter'' then JStr ''content_filter''
      else if finish_reason = JStr ''tool_calls'' then JStr ''tool_use''
      else JStr ''end_turn'')"

text \<open>A list or an object cannot be a key of the mapping.\<close>

fun hashable :: "json \<Rightarrow> bool" where
  "hashable (JList _) = False"
| "hashable (JObj _) = False"
| "hashable _ = True"

definition block_delta :: "json \<Rightarrow> string \<Rightarrow> string \<Rightarrow> json \<Rightarrow> json" where
  "block_delta index ty k v =
     JObj [str_item ''type'' ''content_block_delta'', (''index'', index), (''delta'', JObj [str_item ''type'' ty, (k, v)])]"

definition anthropic_tool_events :: "(nat \<Rightarrow> string) \<Rightarrow> nat \<times> json \<Rightarrow> json list res" where
  "anthropic_tool_events hx kt =
     bindE (as_dict (snd kt)) (\<lambda>tc.
     bindE (as_dict (dget tc ''function'' (JObj []))) (\<lambda>f.
       let index = dget tc ''index'' (JInt 0) in
       Inr ((if truthy (dget f ''name'' JNull)
             then [JObj [str_item ''type'' ''content_block_start'', (''index'', index),
                     (''content_block'', JObj [str_item ''type'' ''tool_use'',
                        (''id'', dget tc ''id'' (JStr (''toolu_'' @ hx (Suc (fst kt))))), (''name'', dget f ''name'' JNull)])]]
             else []) @
            (if truthy (dget f ''arguments'' JNull)
             then [block_delta index ''input_json_delta'' ''partial_json'' (dget f ''arguments'' JNull)] else []))))"

definition anthropic_finish_event :: "dict \<Rightarrow> json \<Rightarrow> json list res" where
  "anthropic_finish_event chunk finish_reason =
     (if \<not> truthy finish_reason then Inr []
      else if \<not> hashable finish_reason then Inl (raised_by_python TypeErrorExc)
      else bindE (token_counts (dget chunk ''usage'' (JObj []))) (\<lambda>usage.
        Inr [JObj [str_item ''type'' ''message_delta'',
               (''delta'', JObj [(''stop_reason'', anthropic_stop_reason finish_reason), (''stop_sequence'', JNull)]),
               (''usage'', JObj usage)]]))"

definition message_start_event :: "(nat \<Rightarrow> string) \<Rightarrow> dict \<Rightarrow> json" where
  "message_start_event hx chunk =
     JObj [str_item ''type'' ''message_start'',
       (''message'', JObj [(''id'', dget chunk ''id'' (JStr (''msg_'' @ hx 0))), str_item ''type'' ''message'',
          str_item ''role'' ''assistant'', (''content'', JList []), (''model'', dget chunk ''model'' (JStr ''''))])]"

definition internal_chunk_to_anthropic_sse :: "(nat \<Rightarrow> string) \<Rightarrow> dict \<Rightarrow> json list res" where
  "internal_chunk_to_anthropic_sse hx chunk =
     bindE (chunk_delta chunk) (\<lambda>found.
       case found of
         None \<Rightarrow> Inr []
       | Some (choice, delta) \<Rightarrow>
           let content = py_or (dget delta ''content'' JNull) (JStr '''');
               reasoning = dget delta ''reasoning_content'' JNull;
               tool_calls = dget delta ''tool_calls'' JNull;
               index = dget choice ''index'' (JInt 0)
           in bindE (if truthy tool_calls then jiter tool_calls else Inr []) (\<lambda>tcs.
              bindE (concat_mapE (anthropic_tool_events hx) (enumerate 0 tcs)) (\<lambda>tools.
              bindE (anthropic_finish_event chunk (dget choice ''finish_reason'' JNull)) (\<lambda>finish.
                Inr ((if dget delta ''role'' JNull = JStr ''assistant'' \<and> dget delta ''content'' JNull \<noteq> JNull
                      then [message_start_event hx chunk] else []) @
                     (if truthy reasoning then [block_delta index ''thinking_delta'' ''thinking'' reasoning] else []) @
                     (if truthy content then [block_delta index ''text_delta'' ''text'' content] else []) @
                     tools @ finish)))))"

definition responses_tool_events :: "(nat \<Rightarrow> string) \<Rightarrow> nat \<times> json \<Rightarrow> json list res" where
  "responses_tool_events hx kt =
     bindE (as_dict (snd kt)) (\<lambda>tc.
     bindE (as_dict (dget tc ''function'' (JObj []))) (\<lambda>f.
       Inr ((if truthy (dget f ''name'' JNull)
             then [JObj [str_item ''type'' ''response.function_call_arguments.start'',
                     str_item ''item_id'' (''out_'' @ hx (3 + fst kt)), (''output_index'', JInt 0), (''name'', dget f ''name'' JNull)]]
             else []) @
            (if truthy (dget f ''arguments'' JNull)
             then [JObj [str_item ''type'' ''response.function_call_arguments.delta'', (''output_index'', JInt 0),
                     (''arguments_delta'', dget f ''arguments'' JNull)]] else []))))"

definition responses_delta :: "string \<Rightarrow> json \<Rightarrow> json \<Rightarrow> json" where
  "responses_delta ty item delta =
     JObj [str_item ''type'' ty, (''item_id'', item), (''output_index'', JInt 0), (''content_index'', JInt 0), (''delta'', delta)]"

definition response_created_events :: "string \<Rightarrow> int \<Rightarrow> json \<Rightarrow> json list" where
  "response_created_events response_id created_at model =
     [JObj [str_item ''type'' ''response.created'',
        (''response'', JObj [str_item ''id'' response_id, str_item ''object'' ''response'', (''created_at'', JInt created_at),
           str_item ''status'' ''in_progress'', (''model'', model), (''output'', JList []), (''usage'', JNull)])],
      JObj [str_item ''type'' ''response.in_progress'',
        (''response'', JObj [str_item ''id'' response_id, str_item ''object'' ''response'', str_item ''status'' ''in_progress'',
           (''output'', JList [])])]]"

definition response_completed_events :: "(nat \<Rightarrow> string) \<Rightarrow> string \<Rightarrow> json \<Rightarrow> json list res" where
  "response_completed_events hx response_id usage =
     bindE (responses_usage usage) (\<lambda>u. Inr
       [JObj [str_item ''type'' ''response.output_item.done'', (''output_index'', JInt 0),
          (''item'', responses_message_item (''out_'' @ hx 0) (JStr ''''))],
        JObj [str_item ''type'' ''response.completed'',
          (''response'', JObj [str_item ''id'' response_id, str_item ''object'' ''response'', str_item ''status'' ''completed'',
             (''output'', JList []), (''usage'', JObj u)])]])"

definition internal_chunk_to_responses_sse :: "(nat \<Rightarrow> string) \<Rightarrow> bool \<Rightarrow> bool \<Rightarrow> string \<Rightarrow> int \<Rightarrow> dict \<Rightarrow> json list res" where
  "internal_chunk_to_responses_sse hx is_first is_last response_id created_at chunk =
     bindE (chunk_delta chunk) (\<lambda>found.
       case found of
         None \<Rightarrow> Inr []
       | Some (choice, delta) \<Rightarrow>
           let content = py_or (dget delta ''content'' JNull) (JStr '''');
               reasoning = dget delta ''reasoning_content'' JNull;
               tool_calls = dget delta ''tool_calls'' JNull
           in bindE (if truthy tool_calls then jiter tool_calls else Inr []) (\<lambda>tcs.
              bindE (concat_mapE (responses_tool_events hx) (enumerate 0 tcs)) (\<lambda>tools.
              bindE (if is_last \<or> truthy (dget choice ''finish_reason'' JNull)
                     then response_completed_events hx response_id (dget chunk ''usage'' (JObj [])) else Inr []) (\<lambda>finish.
                Inr ((if is_first then response_created_events response_id created_at (dget chunk ''model'' (JStr '''')) else []) @
                     (if truthy content
                      then [responses_delta ''response.output_text.delta''
                              (dget delta ''_item_id'' (JStr (''out_'' @ hx 1))) content] else []) @
                     (if truthy reasoning
                      then [responses_delta ''response.reasoning_summary_text.delta''
                              (dget delta ''_reasoning_item_id'' (JStr (''out_'' @ hx 2))) reasoning] else []) @
                     tools @ finish)))))"

subsection \<open>Model lists\<close>

definition model_id_of :: "dict \<Rightarrow> json" where
  "model_id_of m = py_or (dget m ''id'' JNull) (dget m ''name'' (JStr ''''))"

definition models_to_openai :: "int \<Rightarrow> dict list \<Rightarrow> dict" where
  "models_to_openai created models =
     [str_item ''object'' ''list'',
      (''data'', JList (map (\<lambda>m. JObj [(''id'', model_id_of m), str_item ''object'' ''model'', (''created'', JInt created),
         (''owned_by'', dget m ''provider_type'' (JStr ''botflow''))]) models))]"

definition models_to_anthropic :: "dict list \<Rightarrow> dict" where
  "models_to_anthropic models =
     [(''data'', JList (map (\<lambda>m. JObj [str_item ''type'' ''model'', (''id'', model_id_of m),
         (''display_name'', py_or (dget m ''display_name'' JNull) (dget m ''name'' (JStr ''''))),
         (''created_at'', dget m ''created_at'' (JStr ''''))]) models))]"

end

