(* ===== verification/Serve.thy ===== *)
theory Serve
  imports Driver Protocol
begin

text \<open>
  The client endpoints of \<open>src/botflow/core.py\<close>: the serializers of the three stream formats, the cache of
  answers that deduplicates requests, and the handlers of the chat, completion, message, response and model
  list requests, composed from the protocol adapter and the drivers.

  A body is a dictionary. The driver works on requests whose messages are dictionaries, whose model is a
  text and whose \<open>max_tokens\<close> is an integer or null; a handler gives \<open>None\<close> on another body. \<open>json.loads\<close>, the
  rendering of an answer, the clock and the random texts are parameters (\<open>front\<close>): \<open>fr_wall\<close> reads the clock
  in a state of the outside world, \<open>fr_chunk_time\<close> and \<open>fr_chunk_hex\<close> give what the n-th chunk of a stream
  finds, \<open>fr_time\<close> and \<open>fr_hex\<close> what the formatting of an answer finds.
\<close>

record 'w front =
  fr_so :: "json \<Rightarrow> string"
  fr_loads :: "string \<Rightarrow> json option"
  fr_dumps_sorted :: "json \<Rightarrow> string"
  fr_sha :: "string \<Rightarrow> string"
  fr_render :: "dict \<Rightarrow> string"
  fr_wall :: "'w \<Rightarrow> real"
  fr_ttl :: int
  fr_chunk_time :: "nat \<Rightarrow> int"
  fr_chunk_hex :: "nat \<Rightarrow> nat \<Rightarrow> string"
  fr_time :: int
  fr_hex :: "nat \<Rightarrow> string"

subsection \<open>Serializers\<close>

text \<open>The state of a serializer is the number of chunks it has seen; the clock and the random texts of a
  chunk depend on it.\<close>

definition data_line :: "(json \<Rightarrow> string) \<Rightarrow> json \<Rightarrow> string" where
  "data_line dumps j = ''data: '' @ dumps j @ newline @ newline"

definition openai_serialize :: "(json \<Rightarrow> string) \<Rightarrow> (nat \<Rightarrow> int) \<Rightarrow> nat serializer" where
  "openai_serialize dumps ts n chunk =
     (bindE (internal_chunk_to_openai_sse (ts n) chunk) (\<lambda>sse.
        Inr ([data_line dumps (JObj sse)], dget sse ''usage'' JNull)), Suc n)"

definition event_lines :: "(json \<Rightarrow> string) \<Rightarrow> json \<Rightarrow> string list" where
  "event_lines dumps event =
     [''event: '' @ (case event of JObj d \<Rightarrow> (case dget d ''type'' JNull of JStr ty \<Rightarrow> ty | _ \<Rightarrow> '''') | _ \<Rightarrow> '''') @ newline,
      data_line dumps event]"

definition anthropic_serialize :: "(json \<Rightarrow> string) \<Rightarrow> (nat \<Rightarrow> nat \<Rightarrow> string) \<Rightarrow> nat serializer" where
  "anthropic_serialize dumps hx n chunk =
     (bindE (internal_chunk_to_anthropic_sse (hx n) chunk) (\<lambda>events.
        Inr (concat (map (event_lines dumps) events), dget chunk ''usage'' JNull)), Suc n)"

definition responses_serialize_raw :: "(json \<Rightarrow> string) \<Rightarrow> (nat \<Rightarrow> string) \<Rightarrow> bool \<Rightarrow> bool \<Rightarrow> string \<Rightarrow> int \<Rightarrow> dict \<Rightarrow> string list res" where
  "responses_serialize_raw dumps hx is_first is_last response_id created_at chunk =
     bindE (internal_chunk_to_responses_sse hx is_first is_last response_id created_at chunk) (\<lambda>events.
       Inr (concat (map (event_lines dumps) events)))"

text \<open>The first chunk is the one seen in the state 0.\<close>

definition responses_serialize :: "(json \<Rightarrow> string) \<Rightarrow> (nat \<Rightarrow> nat \<Rightarrow> string) \<Rightarrow> string \<Rightarrow> int \<Rightarrow> nat serializer" where
  "responses_serialize dumps hx response_id created_at n chunk =
     (case bindE (first_choice chunk) as_dict of
        Inl e \<Rightarrow> (Inl e, n)
      | Inr choice \<Rightarrow>
          (bindE (responses_serialize_raw dumps (hx n) (n = 0) (truthy (dget choice ''finish_reason'' JNull))
                    response_id created_at chunk) (\<lambda>lines.
             Inr (lines, dget chunk ''usage'' JNull)), Suc n))"

subsection \<open>Deduplication\<close>

definition dedup_key :: "(json \<Rightarrow> string) \<Rightarrow> json \<Rightarrow> string" where
  "dedup_key so request_id = ''dedup:'' @ fmt so request_id"

definition generate_request_id :: "'w front \<Rightarrow> dict \<Rightarrow> int option \<Rightarrow> string" where
  "generate_request_id F body api_key_id =
     py_take 16 (fr_sha F (fr_dumps_sorted F (JObj [(''body'', JObj body),
       (''api_key_id'', case api_key_id of Some i \<Rightarrow> JInt i | None \<Rightarrow> JNull)])))"

text \<open>Every exception counts as a miss; a time stamp that is not a number raises in the subtraction.\<close>

definition check_request_deduplication :: "'w front \<Rightarrow> json \<Rightarrow> 'w gw \<Rightarrow> json" where
  "check_request_deduplication F request_id g =
     (case get_config (dedup_key (fr_so F) request_id) (gw_db g) of
        None \<Rightarrow> JNull
      | Some cached \<Rightarrow>
          if cached = '''' then JNull
          else case fr_loads F cached of
            Some (JObj data) \<Rightarrow>
              (case dget data ''timestamp'' (JInt 0) of
                 JFloat t \<Rightarrow> if fr_wall F (gw_world g) - t < of_int (fr_ttl F) then dget data ''result'' JNull else JNull
               | JInt t \<Rightarrow> if fr_wall F (gw_world g) - of_int t < of_int (fr_ttl F) then dget data ''result'' JNull else JNull
               | JBool b \<Rightarrow> if fr_wall F (gw_world g) - of_bool b < of_int (fr_ttl F) then dget data ''result'' JNull else JNull
               | _ \<Rightarrow> JNull)
          | _ \<Rightarrow> JNull)"

definition dedup_row :: "string \<Rightarrow> real \<Rightarrow> json" where
  "dedup_row result time = JObj [str_item ''result'' result, (''timestamp'', JFloat time)]"

definition cache_request_result :: "'w front \<Rightarrow> (json \<Rightarrow> string) \<Rightarrow> json \<Rightarrow> string \<Rightarrow> 'w gw \<Rightarrow> 'w gw" where
  "cache_request_result F dumps request_id result g =
     (let now = fr_wall F (gw_world g)
      in g\<lparr>gw_db := set_config \<lfloor>now\<rfloor> (dedup_key (fr_so F) request_id) (dumps (dedup_row result now)) (gw_db g)\<rparr>)"

subsection \<open>Endpoints\<close>

text \<open>The internal dictionary as the driver's request.\<close>

fun all_dicts :: "json list \<Rightarrow> dict list option" where
  "all_dicts [] = Some []"
| "all_dicts (JObj d # js) = map_option (\<lambda>ds. d # ds) (all_dicts js)"
| "all_dicts (_ # js) = None"

definition max_tokens_of :: "json \<Rightarrow> int option option" where
  "max_tokens_of j = (case j of JNull \<Rightarrow> Some None | JInt i \<Rightarrow> Some (Some i) | _ \<Rightarrow> None)"

definition internal_of :: "dict \<Rightarrow> internal option" where
  "internal_of d =
     (case (dget d ''model'' JNull, dget d ''messages'' JNull, max_tokens_of (dget d ''max_tokens'' JNull), dget d ''extra'' JNull) of
        (JStr m, JList ms, Some mt, JObj extra) \<Rightarrow>
          map_option (\<lambda>ds. \<lparr>in_model = m, in_messages = ds, in_temperature = dget d ''temperature'' JNull, in_max_tokens = mt,
            in_stream = truthy (dget d ''stream'' JNull), in_extra = extra, in_json = d\<rparr>) (all_dicts ms)
      | _ \<Rightarrow> None)"

text \<open>What a client gets: the content of an answer, or the lines of a stream with the exception that ends it.\<close>

datatype reply = Answer json | Stream "string list" "exc option"

definition done_line :: string where
  "done_line = ''data: [DONE]'' @ newline @ newline"

definition stream_reply :: "(string list \<Rightarrow> string list) \<Rightarrow> ((string list \<times> exc option) \<times> 'w srv) option \<Rightarrow>
    (reply res \<times> 'w srv) option" where
  "stream_reply f r = map_option (\<lambda>((lines, e), s). (Inr (Stream (f lines) e), s)) r"

definition answer_reply :: "(dict res \<times> 'w srv) option \<Rightarrow> (reply res \<times> 'w srv) option" where
  "answer_reply r = map_option (\<lambda>(r, s). (bindE r (\<lambda>d. Inr (Answer (JObj d))), s)) r"

definition stream_openai :: "'w front \<Rightarrow> 'w drv \<Rightarrow> request_ctx \<Rightarrow> internal \<Rightarrow> 'w srv \<Rightarrow> (reply res \<times> 'w srv) option" where
  "stream_openai F D ctx req s =
     stream_reply id (drive_stream D ctx True (openai_serialize (dr_dumps D) (fr_chunk_time F)) 0 done_line req s)"

definition stream_anthropic :: "'w front \<Rightarrow> 'w drv \<Rightarrow> request_ctx \<Rightarrow> internal \<Rightarrow> 'w srv \<Rightarrow> (reply res \<times> 'w srv) option" where
  "stream_anthropic F D ctx req s =
     stream_reply id (drive_stream D ctx True (anthropic_serialize (dr_dumps D) (fr_chunk_hex F)) 0 done_line req s)"

text \<open>The empty end signal is dropped.\<close>

definition stream_responses :: "'w front \<Rightarrow> 'w drv \<Rightarrow> request_ctx \<Rightarrow> internal \<Rightarrow> 'w srv \<Rightarrow> (reply res \<times> 'w srv) option" where
  "stream_responses F D ctx req s =
     stream_reply (filter (\<lambda>l. l \<noteq> '''')) (drive_stream D ctx True
       (responses_serialize (dr_dumps D) (fr_chunk_hex F) (''resp_'' @ fr_hex F 0) (fr_time F)) 0 '''' req s)"

definition answer_openai :: "'w front \<Rightarrow> 'w drv \<Rightarrow> request_ctx \<Rightarrow> internal \<Rightarrow> 'w srv \<Rightarrow> (dict res \<times> 'w srv) option" where
  "answer_openai F D ctx req s = handle_chat_non_stream D ctx req (internal_to_openai (fr_time F)) s"

text \<open>The answer from the cache, \<open>None\<close> when the request has to be run. A result that is a text is parsed.\<close>

definition cached_answer :: "'w front \<Rightarrow> json \<Rightarrow> 'w srv \<Rightarrow> json res option" where
  "cached_answer F request_id s =
     (let cached = check_request_deduplication F request_id (sv_gw s) in
      if \<not> truthy cached then None
      else case cached of
        JStr text \<Rightarrow> (case fr_loads F text of Some v \<Rightarrow> Some (Inr v) | None \<Rightarrow> Some (Inl (raised_by_python ValueErrorExc)))
      | _ \<Rightarrow> Some (Inr cached))"

definition request_id_of :: "'w front \<Rightarrow> dict \<Rightarrow> int option \<Rightarrow> json" where
  "request_id_of F body api_key_id =
     py_or (dget body ''request_id'' JNull) (JStr (generate_request_id F body api_key_id))"

definition chat_completions :: "'w front \<Rightarrow> 'w drv \<Rightarrow> request_ctx \<Rightarrow> dict \<Rightarrow> 'w srv \<Rightarrow> (reply res \<times> 'w srv) option" where
  "chat_completions F D ctx body s =
     (let internal = openai_to_internal body; request_id = request_id_of F body (rc_api_key_id ctx) in
      if truthy (dget internal ''stream'' JNull) then
        (case internal_of internal of None \<Rightarrow> None | Some req \<Rightarrow> stream_openai F D ctx req s)
      else case cached_answer F request_id s of
        Some r \<Rightarrow> Some (bindE r (\<lambda>v. Inr (Answer v)), s)
      | None \<Rightarrow>
          (case internal_of internal of
             None \<Rightarrow> None
           | Some req \<Rightarrow>
               (case answer_openai F D ctx req s of
                  None \<Rightarrow> None
                | Some (Inl e, s1) \<Rightarrow> Some (Inl e, s1)
                | Some (Inr d, s1) \<Rightarrow>
                    Some (Inr (Answer (JObj d)),
                      s1\<lparr>sv_gw := cache_request_result F (dr_dumps D) request_id (fr_render F d) (sv_gw s1)\<rparr>))))"

text \<open>The legacy endpoint turns its prompt into one user message; a prompt that is a list of texts is joined.\<close>

definition prompt_message :: "dict \<Rightarrow> dict res" where
  "prompt_message body =
     (if \<not> truthy (dget body ''messages'' JNull) \<and> truthy (dget body ''prompt'' JNull) then
        bindE (case dget body ''prompt'' JNull of
                 JList ps \<Rightarrow> bindE (mapE need_str ps) (\<lambda>ts. Inr (JStr (join newline ts)))
               | p \<Rightarrow> Inr p) (\<lambda>prompt.
          Inr (dpop ''prompt'' (dset ''messages'' (JList [JObj [str_item ''role'' ''user'', (''content'', prompt)]]) body)))
      else Inr body)"

definition completions :: "'w front \<Rightarrow> 'w drv \<Rightarrow> request_ctx \<Rightarrow> dict \<Rightarrow> 'w srv \<Rightarrow> (reply res \<times> 'w srv) option" where
  "completions F D ctx body s =
     (case prompt_message body of
        Inl e \<Rightarrow> Some (Inl e, s)
      | Inr body1 \<Rightarrow>
          (case internal_of (openai_to_internal body1) of
             None \<Rightarrow> None
           | Some req \<Rightarrow>
               if in_stream req then stream_openai F D ctx req s else answer_reply (answer_openai F D ctx req s)))"

definition anthropic_messages :: "'w front \<Rightarrow> 'w drv \<Rightarrow> request_ctx \<Rightarrow> dict \<Rightarrow> 'w srv \<Rightarrow> (reply res \<times> 'w srv) option" where
  "anthropic_messages F D ctx body s =
     (case anthropic_to_internal (fr_so F) body of
        Inl e \<Rightarrow> Some (Inl e, s)
      | Inr internal \<Rightarrow>
          (case internal_of internal of
             None \<Rightarrow> None
           | Some req \<Rightarrow>
               if in_stream req then stream_anthropic F D ctx req s
               else answer_reply (handle_chat_non_stream D ctx req (internal_to_anthropic (fr_loads F) (fr_hex F)) s)))"

definition responses_create :: "'w front \<Rightarrow> 'w drv \<Rightarrow> request_ctx \<Rightarrow> dict \<Rightarrow> 'w srv \<Rightarrow> (reply res \<times> 'w srv) option" where
  "responses_create F D ctx body s =
     (case responses_to_internal (fr_so F) body of
        Inl e \<Rightarrow> Some (Inl e, s)
      | Inr internal \<Rightarrow>
          (case internal_of internal of
             None \<Rightarrow> None
           | Some req \<Rightarrow>
               if in_stream req then stream_responses F D ctx req s
               else answer_reply (handle_chat_non_stream D ctx req
                 (internal_to_responses (fr_time F) (\<lambda>k. fr_hex F (Suc k)) (fr_hex F 0)) s)))"

subsection \<open>The model list\<close>

definition model_entry :: "db \<Rightarrow> int \<times> model_group \<Rightarrow> dict res" where
  "model_entry db g =
     bindE (get_group_models (fst g) True db) (\<lambda>members.
       Inr [str_item ''id'' (g_name (snd g)), str_item ''name'' (g_name (snd g)),
            str_item ''display_name'' (if g_description (snd g) \<noteq> '''' then g_description (snd g) else g_name (snd g)),
            str_item ''provider_type'' ''botflow-group'', str_item ''created_at'' '''',
            (''models'', JList (map JStr (sort (remdups (map d_model_name members)))))])"

definition list_models_endpoint :: "int \<Rightarrow> string \<Rightarrow> db \<Rightarrow> dict res" where
  "list_models_endpoint ts accept db =
     bindE (mapE (model_entry db) (list_groups True db)) (\<lambda>models.
       Inr (if occurs_in ''anthropic'' (lower accept) then models_to_anthropic models else models_to_openai ts models))"

end
