(* ===== verification/Providers.thy ===== *)
theory Providers
  imports Context Protocol
begin

text \<open>
  What the upstream providers do to messages and answers, \<open>src/botflow/providers/\<close>: the unified response
  and the unified stream chunk of each provider, the parameters of its call, and the request headers. The
  calls themselves are those of third-party clients, which the gateway takes as parameters.

  An object of a client (an event, a usage record) is the dictionary of its attributes, so \<open>getattr\<close> with a
  default is \<open>dget\<close> and \<open>hasattr\<close> asks for the key; the objects built for the Gemini client are the
  dictionaries of their keyword arguments, whose validation by the client is not modelled. \<open>so\<close> is Python's
  \<open>str\<close> and \<open>sha\<close> the hexadecimal SHA-256.
\<close>

definition has_attr :: "dict \<Rightarrow> string \<Rightarrow> bool" where
  "has_attr d k \<longleftrightarrow> map_of d k \<noteq> None"

definition provider_tag :: "string \<Rightarrow> string \<times> json" where
  "provider_tag name = (''provider'', JStr name)"

subsection \<open>OpenAI-compatible\<close>

text \<open>\<open>_extract_text_from_content\<close> is \<open>extract_text\<close> of theory \<open>Context\<close>, which uses it too.\<close>

definition role_is :: "string \<Rightarrow> dict \<Rightarrow> bool" where
  "role_is r m \<longleftrightarrow> dget m ''role'' JNull = JStr r"

definition seed_text :: "(json \<Rightarrow> string) \<Rightarrow> dict option \<Rightarrow> string res" where
  "seed_text so m = (case m of Some d \<Rightarrow> extract_text so (dget d ''content'' JNull) | None \<Rightarrow> Inr '''')"

definition conversation_id :: "(json \<Rightarrow> string) \<Rightarrow> (string \<Rightarrow> string) \<Rightarrow> dict list \<Rightarrow> string res" where
  "conversation_id so sha messages =
     bindE (seed_text so (find (role_is ''system'') messages)) (\<lambda>system.
     bindE (seed_text so (find (role_is ''user'') messages)) (\<lambda>user.
       Inr (py_take 32 (sha (system @ [CHR 0x0A] @ user)))))"

text \<open>\<open>s.replace(old, new)\<close>, for a non-empty \<open>old\<close>.\<close>

function replace_all :: "string \<Rightarrow> string \<Rightarrow> string \<Rightarrow> string" where
  "replace_all old new [] = []"
| "replace_all old new (c # cs) =
     (if old \<noteq> [] \<and> prefix old (c # cs) then new @ replace_all old new (drop (length old) (c # cs))
      else c # replace_all old new cs)"
  by pat_completeness auto

termination
  by (relation "measure (\<lambda>(old, new, s). length s)") auto

definition conversation_placeholder :: string where
  "conversation_placeholder = ''{conversation_id}''"

definition apply_headers :: "(json \<Rightarrow> string) \<Rightarrow> (string \<Rightarrow> string) \<Rightarrow> dict \<Rightarrow> dict list \<Rightarrow> (string \<times> string) list option res" where
  "apply_headers so sha extra_config messages =
     (case dget extra_config ''headers'' JNull of
        JObj raw \<Rightarrow>
          if raw = [] then Inr None
          else
            let headers = map (\<lambda>(k, v). (k, fmt so v)) raw in
            if \<not> list_ex (\<lambda>(k, v). occurs_in conversation_placeholder v) headers then Inr (Some headers)
            else bindE (conversation_id so sha messages) (\<lambda>cid.
              Inr (Some (map (\<lambda>(k, v). (k, replace_all conversation_placeholder cid v)) headers)))
      | _ \<Rightarrow> Inr None)"

text \<open>The four counts of a unified usage record.\<close>

definition unified_usage :: "dict \<Rightarrow> dict res" where
  "unified_usage usage =
     bindE (as_dict (py_or (dget usage ''prompt_tokens_details'' (JObj [])) (JObj []))) (\<lambda>details.
       Inr [(''prompt_tokens'', dget usage ''prompt_tokens'' (JInt 0)),
            (''completion_tokens'', dget usage ''completion_tokens'' (JInt 0)),
            (''total_tokens'', dget usage ''total_tokens'' (JInt 0)),
            (''cache_tokens'', dget details ''cached_tokens'' (JInt 0))])"

definition openai_message :: "(json \<Rightarrow> string) \<Rightarrow> dict \<Rightarrow> dict res" where
  "openai_message so msg =
     bindE (extract_text so (py_or (dget msg ''content'' JNull) (JStr ''''))) (\<lambda>content.
       Inr ([(''role'', dget msg ''role'' (JStr ''assistant'')), str_item ''content'' content] @
            item_if (truthy (dget msg ''reasoning_content'' JNull)) ''reasoning_content'' (dget msg ''reasoning_content'' JNull) @
            item_if (truthy (dget msg ''tool_calls'' JNull)) ''tool_calls'' (dget msg ''tool_calls'' JNull) @
            item_if (truthy (dget msg ''function_call'' JNull)) ''function_call'' (dget msg ''function_call'' JNull)))"

definition openai_to_unified :: "(json \<Rightarrow> string) \<Rightarrow> dict \<Rightarrow> string \<Rightarrow> dict res" where
  "openai_to_unified so data model =
     bindE (item_zero (py_or (dget data ''choices'' JNull) (JList [JObj []]))) (\<lambda>c.
     bindE (as_dict c) (\<lambda>choice.
     bindE (as_dict (py_or (dget choice ''message'' (JObj [])) (JObj []))) (\<lambda>msg.
     bindE (as_dict (py_or (dget data ''usage'' (JObj [])) (JObj []))) (\<lambda>usage.
     bindE (openai_message so msg) (\<lambda>message.
     bindE (unified_usage usage) (\<lambda>counts.
       Inr [(''id'', dget data ''id'' (JStr '''')), str_item ''model'' model,
            (''choices'', JList [JObj [(''index'', dget choice ''index'' (JInt 0)), (''message'', JObj message),
               (''finish_reason'', dget choice ''finish_reason'' (JStr ''stop''))]]),
            (''usage'', JObj counts), provider_tag ''openai'']))))))"

definition openai_delta :: "(json \<Rightarrow> string) \<Rightarrow> dict \<Rightarrow> dict res" where
  "openai_delta so delta =
     bindE (extract_text so (dget delta ''content'' JNull)) (\<lambda>content.
       Inr ([(''role'', py_or (dget delta ''role'' JNull) (JStr ''assistant'')), str_item ''content'' content] @
            item_if (truthy (dget delta ''reasoning_content'' JNull)) ''reasoning_content'' (dget delta ''reasoning_content'' JNull) @
            item_if (truthy (dget delta ''tool_calls'' JNull)) ''tool_calls'' (dget delta ''tool_calls'' JNull) @
            item_if (truthy (dget delta ''function_call'' JNull)) ''function_call'' (dget delta ''function_call'' JNull)))"

definition unified_chunk :: "string \<Rightarrow> string \<Rightarrow> json \<Rightarrow> json \<Rightarrow> dict \<Rightarrow> json \<Rightarrow> json \<Rightarrow> dict" where
  "unified_chunk provider model i index delta finish_reason usage =
     [(''id'', i), str_item ''object'' ''chat.completion.chunk'', str_item ''model'' model,
      (''choices'', JList [JObj [(''index'', index), (''delta'', JObj delta), (''finish_reason'', finish_reason)]]),
      (''usage'', usage), provider_tag provider]"

definition openai_chunk_to_unified :: "(json \<Rightarrow> string) \<Rightarrow> dict \<Rightarrow> string \<Rightarrow> dict res" where
  "openai_chunk_to_unified so data model =
     bindE (first_choice data) (\<lambda>c.
     bindE (as_dict c) (\<lambda>choice.
     bindE (as_dict (py_or (dget choice ''delta'' JNull) (JObj []))) (\<lambda>delta.
     bindE (openai_delta so delta) (\<lambda>delta_out.
     bindE (if truthy (dget data ''usage'' JNull)
            then bindE (as_dict (dget data ''usage'' JNull)) (\<lambda>u. bindE (unified_usage u) (\<lambda>counts. Inr (JObj counts)))
            else Inr JNull) (\<lambda>usage.
       Inr (unified_chunk ''openai'' model (dget data ''id'' (JStr '''')) (dget choice ''index'' (JInt 0)) delta_out
              (dget choice ''finish_reason'' JNull) usage))))))"

subsection \<open>Anthropic\<close>

text \<open>\<open>_extract_text_content\<close>, and the same in the Gemini provider: the texts are joined by newlines.\<close>

definition extract_text_lines :: "(json \<Rightarrow> string) \<Rightarrow> json \<Rightarrow> string res" where
  "extract_text_lines so content =
     (case content of
        JStr s \<Rightarrow> Inr s
      | JList items \<Rightarrow> bindE (mapE need_str (concat (map text_part items))) (\<lambda>parts. Inr (join [CHR 0x0A] parts))
      | _ \<Rightarrow> Inr (if truthy content then so content else []))"

definition block_field :: "string \<Rightarrow> string \<Rightarrow> dict \<Rightarrow> json list" where
  "block_field ty k block = (if dget block ''type'' (JStr '''') = JStr ty then [dget block k (JStr '''')] else [])"

definition extract_response_content :: "json list \<Rightarrow> (string \<times> string) res" where
  "extract_response_content content_blocks =
     bindE (mapE as_dict content_blocks) (\<lambda>blocks.
     bindE (mapE need_str (concat (map (block_field ''text'' ''text'') blocks))) (\<lambda>texts.
     bindE (mapE need_str (concat (map (block_field ''thinking'' ''thinking'') blocks))) (\<lambda>thoughts.
       Inr (join [CHR 0x0A] texts, join [CHR 0x0A] thoughts))))"

definition anthropic_message :: "dict \<Rightarrow> dict res" where
  "anthropic_message msg =
     (case dget msg ''content'' (JStr '''') of
        JList items \<Rightarrow> bindE (openai_to_anthropic_content (JList items)) (\<lambda>blocks. Inr (dset ''content'' (JList blocks) msg))
      | _ \<Rightarrow> Inr msg)"

text \<open>The system text of the last system message, and the other messages.\<close>

fun extract_system :: "(json \<Rightarrow> string) \<Rightarrow> string \<Rightarrow> dict list \<Rightarrow> (string \<times> dict list) res" where
  "extract_system so system [] = Inr (system, [])"
| "extract_system so system (msg # ms) =
     (if role_is ''system'' msg
      then bindE (extract_text_lines so (dget msg ''content'' (JStr ''''))) (\<lambda>s. extract_system so s ms)
      else bindE (anthropic_message msg) (\<lambda>m.
           bindE (extract_system so system ms) (\<lambda>(s, rest). Inr (s, m # rest))))"

definition anthropic_params :: "(json \<Rightarrow> string) \<Rightarrow> string \<Rightarrow> dict list \<Rightarrow> json \<Rightarrow> json \<Rightarrow> dict \<Rightarrow> dict res" where
  "anthropic_params so model messages temperature max_tokens kwargs =
     bindE (extract_system so '''' messages) (\<lambda>(system, ms).
       Inr (fold (\<lambda>(k, v). dset k v) kwargs
         ([str_item ''model'' model, (''messages'', JList (map JObj ms)), (''max_tokens'', py_or max_tokens (JInt 4096))] @
          item_if (system \<noteq> '''') ''system'' (JStr system) @
          item_if (temperature \<noteq> JNull) ''temperature'' temperature)))"

text \<open>\<open>a + b\<close> on token counts.\<close>

fun as_number :: "json \<Rightarrow> json" where
  "as_number (JBool b) = JInt (of_bool b)"
| "as_number j = j"

definition json_plus :: "json \<Rightarrow> json \<Rightarrow> json res" where
  "json_plus a b =
     (case (as_number a, as_number b) of
        (JInt x, JInt y) \<Rightarrow> Inr (JInt (x + y))
      | (JFloat x, JFloat y) \<Rightarrow> Inr (JFloat (x + y))
      | (JInt x, JFloat y) \<Rightarrow> Inr (JFloat (of_int x + y))
      | (JFloat x, JInt y) \<Rightarrow> Inr (JFloat (x + of_int y))
      | (JStr x, JStr y) \<Rightarrow> Inr (JStr (x @ y))
      | (JList x, JList y) \<Rightarrow> Inr (JList (x @ y))
      | _ \<Rightarrow> Inl (raised_by_python TypeErrorExc))"

text \<open>The counts of an Anthropic usage record, a dictionary or the attributes of an object.\<close>

definition anthropic_usage :: "dict \<Rightarrow> dict res" where
  "anthropic_usage usage =
     (let input = dget usage ''input_tokens'' (JInt 0); output = dget usage ''output_tokens'' (JInt 0) in
      bindE (json_plus input output) (\<lambda>total.
        Inr [(''prompt_tokens'', input), (''completion_tokens'', output), (''total_tokens'', total),
             (''cache_tokens'', dget usage ''cache_read_input_tokens'' (JInt 0))]))"

definition anthropic_to_unified :: "dict \<Rightarrow> string \<Rightarrow> dict res" where
  "anthropic_to_unified data model =
     bindE (jiter (py_or (dget data ''content'' (JList [])) (JList []))) (\<lambda>blocks.
     bindE (extract_response_content blocks) (\<lambda>(content, reasoning).
     bindE (as_dict (py_or (dget data ''usage'' (JObj [])) (JObj []))) (\<lambda>usage.
     bindE (anthropic_usage usage) (\<lambda>counts.
       Inr [(''id'', dget data ''id'' (JStr '''')), str_item ''model'' model,
            (''choices'', JList [JObj [(''index'', JInt 0),
               (''message'', JObj ([str_item ''role'' ''assistant'', str_item ''content'' content] @
                  item_if (reasoning \<noteq> '''') ''reasoning_content'' (JStr reasoning))),
               (''finish_reason'', dget data ''stop_reason'' (JStr ''end_turn''))]]),
            (''usage'', JObj counts), provider_tag ''anthropic'']))))"

text \<open>A stream event. An attribute that holds an object is a \<open>JObj\<close> of its attributes; a plain value has none.\<close>

fun attrs :: "json \<Rightarrow> dict" where
  "attrs (JObj d) = d"
| "attrs _ = []"

definition text_delta_of :: "dict \<Rightarrow> dict" where
  "text_delta_of delta =
     (if has_attr delta ''text'' then [(''content'', dget delta ''text'' JNull)]
      else if has_attr delta ''thinking'' then [(''reasoning_content'', dget delta ''thinking'' JNull)] else [])"

definition tool_start_of :: "dict \<Rightarrow> dict" where
  "tool_start_of block =
     (if dget block ''type'' (JStr '''') = JStr ''tool_use''
      then [(''tool_calls'', JList [JObj [(''id'', dget block ''id'' (JStr '''')), str_item ''type'' ''function'',
              (''function'', JObj [(''name'', dget block ''name'' (JStr '''')), str_item ''arguments'' ''''])]])]
      else [])"

definition anthropic_event_to_chunk :: "dict \<Rightarrow> string \<Rightarrow> dict res" where
  "anthropic_event_to_chunk event model =
     (let ty = dget event ''type'' (JStr '''');
          chunk = (\<lambda>i delta finish usage. unified_chunk ''anthropic'' model i (JInt 0) delta finish usage)
      in if ty = JStr ''message_start'' \<and> has_attr event ''message'' then
           (let msg = attrs (dget event ''message'' JNull)
            in Inr (chunk (dget msg ''id'' (JStr '''')) [(''role'', dget msg ''role'' (JStr ''assistant'')), str_item ''content'' '''']
                      JNull JNull))
         else if ty = JStr ''content_block_delta'' \<and> has_attr event ''delta'' then
           Inr (chunk (JStr '''') (text_delta_of (attrs (dget event ''delta'' JNull))) JNull JNull)
         else if ty = JStr ''message_delta'' \<and> has_attr event ''delta'' then
           bindE (if has_attr event ''usage''
                  then bindE (anthropic_usage (attrs (dget event ''usage'' JNull))) (\<lambda>u. Inr (JObj u)) else Inr JNull) (\<lambda>usage.
             Inr (chunk (JStr '''') [] (dget (attrs (dget event ''delta'' JNull)) ''stop_reason'' JNull) usage))
         else if ty = JStr ''content_block_start'' \<and> has_attr event ''content_block'' then
           Inr (chunk (JStr '''') (tool_start_of (attrs (dget event ''content_block'' JNull))) JNull JNull)
         else Inr (chunk (JStr '''') [] JNull JNull))"

subsection \<open>Gemini\<close>

definition gemini_content :: "string \<Rightarrow> json list \<Rightarrow> json" where
  "gemini_content role parts = JObj [str_item ''role'' role, (''parts'', JList parts)]"

definition gemini_text :: "json \<Rightarrow> json" where
  "gemini_text t = JObj [(''text'', t)]"

definition gemini_image :: "string \<Rightarrow> json list" where
  "gemini_image url =
     (if prefix ''data:'' url then
        (case parse_data_uri url of
           Some (mime_type, b64) \<Rightarrow>
             if mime_type \<noteq> '''' \<and> b64 \<noteq> ''''
             then [JObj [(''inline_data'', JObj [str_item ''mime_type'' mime_type, str_item ''data'' b64])]] else []
         | None \<Rightarrow> [])
      else [JObj [(''file_data'', JObj [str_item ''file_uri'' url])]])"

definition convert_content_part :: "json \<Rightarrow> json list res" where
  "convert_content_part block =
     bindE (as_dict block) (\<lambda>b.
       let ty = dget b ''type'' (JStr '''') in
       if ty = JStr ''text'' then Inr [gemini_text (dget b ''text'' (JStr ''''))]
       else if ty = JStr ''image_url'' then
         bindE (as_dict (dget b ''image_url'' (JObj []))) (\<lambda>image_url.
         bindE (as_str (dget image_url ''url'' (JStr ''''))) (\<lambda>url. Inr (gemini_image url)))
       else Inr [])"

definition convert_content_parts :: "json list \<Rightarrow> json list res" where
  "convert_content_parts blocks = concat_mapE convert_content_part blocks"

definition gemini_role :: "dict \<Rightarrow> string" where
  "gemini_role msg = (if role_is ''assistant'' msg \<or> role_is ''model'' msg then ''model'' else ''user'')"

definition gemini_message :: "(json \<Rightarrow> string) \<Rightarrow> dict \<Rightarrow> json list res" where
  "gemini_message so msg =
     (case dget msg ''content'' (JStr '''') of
        JStr s \<Rightarrow> Inr [gemini_content (gemini_role msg) [gemini_text (JStr s)]]
      | JList blocks \<Rightarrow>
          bindE (convert_content_parts blocks) (\<lambda>parts.
            Inr (if parts \<noteq> [] then [gemini_content (gemini_role msg) parts] else []))
      | c \<Rightarrow> Inr [gemini_content (gemini_role msg) [gemini_text (JStr (fmt so c))]])"

fun gemini_messages :: "(json \<Rightarrow> string) \<Rightarrow> string \<Rightarrow> dict list \<Rightarrow> (json list \<times> string) res" where
  "gemini_messages so system [] = Inr ([], system)"
| "gemini_messages so system (msg # ms) =
     (if role_is ''system'' msg
      then bindE (extract_text_lines so (dget msg ''content'' (JStr ''''))) (\<lambda>s. gemini_messages so s ms)
      else bindE (gemini_message so msg) (\<lambda>c.
           bindE (gemini_messages so system ms) (\<lambda>(cs, s). Inr (c @ cs, s))))"

definition convert_messages :: "(json \<Rightarrow> string) \<Rightarrow> dict list \<Rightarrow> (json list \<times> string) res" where
  "convert_messages so messages =
     bindE (gemini_messages so '''' messages) (\<lambda>(contents, system).
       Inr (if contents = [] then [gemini_content ''user'' [gemini_text (JStr '''')]] else contents, system))"

text \<open>The keyword arguments of a request are accepted and not used.\<close>

definition build_config :: "json \<Rightarrow> json \<Rightarrow> string \<Rightarrow> dict \<Rightarrow> dict" where
  "build_config temperature max_tokens system kwargs =
     item_if (system \<noteq> '''') ''system_instruction'' (JStr system) @
     item_if (temperature \<noteq> JNull) ''temperature'' temperature @
     item_if (max_tokens \<noteq> JNull) ''max_output_tokens'' max_tokens"

definition gemini_usage :: "dict \<Rightarrow> dict" where
  "gemini_usage usage =
     [(''prompt_tokens'', py_or (dget usage ''prompt_token_count'' (JInt 0)) (JInt 0)),
      (''completion_tokens'', py_or (dget usage ''candidates_token_count'' (JInt 0)) (JInt 0)),
      (''total_tokens'', py_or (dget usage ''total_token_count'' (JInt 0)) (JInt 0)),
      (''cache_tokens'', py_or (dget usage ''cached_content_token_count'' (JInt 0)) (JInt 0))]"

text \<open>\<open>text\<close> is the attribute of that name; without usage the counts are 0.\<close>

definition google_to_unified :: "json \<Rightarrow> dict option \<Rightarrow> string \<Rightarrow> dict" where
  "google_to_unified text usage model =
     [str_item ''id'' '''', str_item ''model'' model,
      (''choices'', JList [JObj [(''index'', JInt 0),
         (''message'', JObj [str_item ''role'' ''assistant'', (''content'', py_or text (JStr ''''))]),
         str_item ''finish_reason'' ''stop'']]),
      (''usage'', JObj (gemini_usage (case usage of Some u \<Rightarrow> u | None \<Rightarrow> []))), provider_tag ''google'']"

definition google_chunk_to_unified :: "json \<Rightarrow> dict option \<Rightarrow> string \<Rightarrow> dict" where
  "google_chunk_to_unified text usage model =
     unified_chunk ''google'' model (JStr '''') (JInt 0) [(''content'', py_or text (JStr ''''))] JNull
       (case usage of
          Some u \<Rightarrow> if truthy (dget u ''total_token_count'' JNull) then JObj (gemini_usage u) else JNull
        | None \<Rightarrow> JNull)"

subsection \<open>DeepSeek\<close>

definition allowed_chat_kwargs :: "string list" where
  "allowed_chat_kwargs = [''frequency_penalty'', ''logit_bias'', ''max_tokens'', ''n'', ''presence_penalty'', ''stop'',
     ''temperature'', ''top_logprobs'', ''top_p'']"

definition build_chat_kwargs :: "string \<Rightarrow> dict list \<Rightarrow> json \<Rightarrow> json \<Rightarrow> bool \<Rightarrow> dict \<Rightarrow> dict" where
  "build_chat_kwargs model messages temperature max_tokens stream kwargs =
     fold (\<lambda>(k, v). dset k v)
       (filter (\<lambda>(k, v). k \<in> set allowed_chat_kwargs \<or>
          k \<in> {''stream_options'', ''tools'', ''tool_choice'', ''response_format''}) kwargs)
       ([str_item ''model'' model, (''messages'', JList (map JObj messages)), (''stream'', JBool stream)] @
        item_if (temperature \<noteq> JNull) ''temperature'' temperature @
        item_if (max_tokens \<noteq> JNull) ''max_tokens'' max_tokens)"

definition setdefault :: "string \<Rightarrow> json \<Rightarrow> dict \<Rightarrow> dict" where
  "setdefault k v d = (if has_attr d k then d else d @ [(k, v)])"

definition normalize_response :: "dict \<Rightarrow> dict" where
  "normalize_response data = setdefault ''choices'' (JList []) data"

definition normalize_stream_chunk :: "dict \<Rightarrow> dict option" where
  "normalize_stream_chunk data = (if truthy (dget data ''choices'' JNull) then Some data else None)"

definition normalize_stream_response :: "dict \<Rightarrow> string \<Rightarrow> dict" where
  "normalize_stream_response data model = setdefault ''model'' (JStr model) (setdefault ''id'' (JStr '''') data)"

text \<open>The message is changed in place: a message that is missing is not put into the answer.\<close>

definition normalize_message :: "dict \<Rightarrow> dict" where
  "normalize_message msg =
     (let reasoning = dget msg ''reasoning_content'' JNull in
      if \<not> truthy (dget msg ''content'' JNull) \<and> truthy reasoning
      then dset ''reasoning_content'' JNull (dset ''content'' reasoning msg) else msg)"

definition normalize_chat_response :: "dict \<Rightarrow> string \<Rightarrow> dict res" where
  "normalize_chat_response data0 model =
     (let data = setdefault ''model'' (JStr model) (setdefault ''id'' (JStr '''') (normalize_response data0));
          choices = dget data ''choices'' JNull
      in if \<not> truthy choices then Inr data
         else bindE (item_zero choices) (\<lambda>c.
              bindE (as_dict c) (\<lambda>choice.
              bindE (as_dict (dget choice ''message'' (JObj []))) (\<lambda>msg.
                case choices of
                  JList (_ # rest) \<Rightarrow>
                    Inr (if has_attr choice ''message''
                         then dset ''choices'' (JList (JObj (dset ''message'' (JObj (normalize_message msg)) choice) # rest)) data
                         else data)
                | _ \<Rightarrow> Inr data))))"

end
