(* ===== verification/Driver_Facts.thy ===== *)
theory Driver_Facts
  imports Driver Engine_Audit
begin

text \<open>
  Properties of the driver: a request ends after at most three groups; it leaves exactly one call log row,
  with the type of the error it raised; a stream sends the content of one upstream only and always ends
  with the end signal, unless loading a fallback group raises.
\<close>

subsection \<open>What a request leaves unchanged\<close>

lemma run_queue_fast_frame: "call_frame g (snd (run_queue_fast env gid msgs t mt kw idx eps attempts lm lp g))"
proof (induction eps arbitrary: idx attempts lm lp g)
  case (Cons ep eps)
  obtain r ms g1 where tc: "timed_call env gid msgs t mt kw ep g = ((r, ms), g1)" by (metis prod.collapse)
  then have fr: "call_frame g g1"
    by (auto simp: timed_call_def Let_def split: prod.splits) (metis call_llm_frame snd_conv)
  have "call_frame g (snd (run_queue_fast env gid msgs t mt kw (Suc idx) eps as lm' lp' g1))" for as lm' lp'
    using fr Cons.IH by (rule call_frame_trans)
  then show ?case using tc fr by (auto split: sum.splits option.splits)
qed simp

lemma run_chat_catalog: "same_catalog g (snd (run_chat env grp msgs t mt kw g))"
proof -
  obtain r g1 where sel: "select_for_group env grp msgs t mt kw g = (r, g1)" by (metis prod.collapse)
  have g1: "same_catalog g g1" using select_for_group_catalog [of g env grp msgs t mt kw] sel by simp
  have "same_catalog g (snd (run_one_fast env grp t mt kw rr g1))" for rr
    using same_catalog_trans [OF g1 call_frame_catalog] run_queue_fast_frame unfolding run_one_fast_def by blast
  then show ?thesis using g1 by (auto simp: run_chat_def sel split: sum.splits)
qed

lemma run_stream_catalog: "same_catalog g (snd (run_stream env grp msgs t mt kw g))"
  using select_for_group_catalog [of g env grp msgs t mt kw] by (auto simp: run_stream_def split: sum.splits prod.splits)

lemma poll_catalog [simp]: "poll env req g = (gone, h) \<Longrightarrow> same_catalog g0 h = same_catalog g0 g"
  by (auto simp: poll_def Let_def same_catalog_def split: if_splits prod.splits)

lemma holds_permit_catalog: "holds_permit g0 G g \<Longrightarrow> same_catalog g0 g"
  by (cases G) (auto simp: holds_permit_def same_catalog_def call_frame_def same_tables_def)

lemma send_lines_catalog [simp]: "same_catalog g0 (send_lines D ls g) = same_catalog g0 g"
  by (simp add: send_lines_def same_catalog_def)

lemma holds_permit_send [simp]: "holds_permit g0 G g \<Longrightarrow> holds_permit g0 G (send_lines D ls g)"
  by (simp add: send_lines_def holds_permit_world)

lemma pump_permits:
  "holds_permit g0 G g \<Longrightarrow> pump D req ser m G p g = (p', g') \<Longrightarrow>
   same_catalog g0 g' \<and> (pu_error p' = None \<longrightarrow> call_frame g0 g')"
proof (induction D req ser m G p g arbitrary: p' g' rule: pump.induct)
  case (1 D req ser m G p g)
  obtain ev G1 g1 where n: "gen_next (dr_env D) req G g = (ev, G1, g1)" by (metis prod.collapse)
  note h1 = gen_next_permit [OF "1.prems"(1) n]
  show ?case
  proof (cases ev)
    case None
    then have "G1 = GEnd" using n by (cases G) (auto simp: offer_chunk_def Let_def split: option.splits prod.splits acquired.splits list.splits if_splits)
    then show ?thesis using "1.prems"(2) n None h1 call_frame_catalog
      by (subst (asm) pump.simps) (auto simp: holds_permit_closed)
  next
    case (Some e)
    obtain gone g2 where pl: "poll (dr_env D) req g1 = (gone, g2)" by (metis prod.collapse)
    have h2: "holds_permit g0 G1 g2" using holds_permit_poll h1 pl by blast
    show ?thesis
    proof (cases gone)
      case True
      then have "g' = gen_close G1 g2" "p' = p" using "1.prems"(2) n Some pl by (subst (asm) pump.simps, simp)+
      then show ?thesis using h2 by (auto simp: holds_permit_def call_frame_catalog)
    next
      case False
      show ?thesis
      proof (cases e)
        case (StateEv f)
        have "pump D req ser m G1 (p\<lparr>pu_final := Some f\<rparr>) g2 = (p', g')"
          using "1.prems"(2) n Some pl False StateEv by (subst (asm) pump.simps) simp
        from "1.IH"(2) [OF n [symmetric] Some refl refl pl [symmetric] False StateEv h2 this] show ?thesis by simp
      next
        case (ChunkEv c)
        obtain r z where sr: "ser (pu_ser p) (dset ''model'' (JStr m) c) = (r, z)" by (metis prod.collapse)
        show ?thesis
        proof (cases r)
          case (Inl err)
          then show ?thesis using "1.prems"(2) n Some pl False ChunkEv sr holds_permit_catalog [OF h2]
            by (subst (asm) pump.simps) auto
        next
          case (Inr lu)
          obtain ls u where lu: "lu = (ls, u)" by (cases lu)
          have "pump D req ser m G1 (p\<lparr>pu_lines := pu_lines p @ ls, pu_ser := z,
              pu_usage := (if truthy u then u else pu_usage p)\<rparr>) (send_lines D ls g2) = (p', g')"
            using "1.prems"(2) n Some pl False ChunkEv sr Inr lu by (subst (asm) pump.simps) simp
          from "1.IH"(1) [OF n [symmetric] Some refl refl pl [symmetric] False ChunkEv sr [symmetric] Inr lu [symmetric] holds_permit_send [OF h2] this]
          show ?thesis by simp
        qed
      qed
    qed
  qed
qed


subsection \<open>The audit rows of a chat request\<close>

text \<open>The counts of a usage object can be stored.\<close>

definition storable_usage :: "json \<Rightarrow> bool" where
  "storable_usage u = (case usage_tokens u of Inl _ \<Rightarrow> True | Inr (p, c, h, t) \<Rightarrow> list_all binds [p, c, h, t])"

text \<open>A server whose log writer runs and holds only rows that can be stored.\<close>

definition writer_ok :: "'w srv \<Rightarrow> bool" where
  "writer_ok s \<longleftrightarrow> (case sv_writer s of None \<Rightarrow> False | Some w \<Rightarrow> list_all storable (lw_buffer w))"

definition recorded_of :: "'w srv \<Rightarrow> call_log list" where
  "recorded_of s = (case sv_writer s of None \<Rightarrow> [] | Some w \<Rightarrow> recorded w (gw_db (sv_gw s)))"

definition recorded_attempts_of :: "'w srv \<Rightarrow> call_attempt list" where
  "recorded_attempts_of s = (case sv_writer s of None \<Rightarrow> [] | Some w \<Rightarrow> recorded_attempts w (gw_db (sv_gw s)))"

text \<open>Two states of the server with the same call log rows.\<close>

definition same_records :: "'w srv \<Rightarrow> 'w srv \<Rightarrow> bool" where
  "same_records s s' \<longleftrightarrow> writer_ok s' = writer_ok s \<and> recorded_of s' = recorded_of s \<and>
     recorded_attempts_of s' = recorded_attempts_of s"

lemma same_records_gw: "gw_db g = gw_db (sv_gw s) \<Longrightarrow> same_records s (s\<lparr>sv_gw := g\<rparr>)"
  by (auto simp: same_records_def writer_ok_def recorded_of_def recorded_attempts_of_def same_catalog_def split: option.split)

lemma same_records_refl [simp]: "same_records s s"
  by (simp add: same_records_def)

lemma same_records_trans: "same_records s s' \<Longrightarrow> same_records s' s'' \<Longrightarrow> same_records s s''"
  by (simp add: same_records_def)

lemma log_one_attempt_records:
  assumes "writer_ok s"
  shows "writer_ok (log_one_attempt D ctx a s) \<and> recorded_of (log_one_attempt D ctx a s) = recorded_of s \<and>
    recorded_attempts_of (log_one_attempt D ctx a s) = recorded_attempts_of s @ [call_attempt_of ctx a]"
proof -
  obtain w where w: "sv_writer s = Some w" "list_all storable (lw_buffer w)"
    using assms by (auto simp: writer_ok_def split: option.splits)
  obtain w' db' where l: "log_attempt (stamp_now D s) (call_attempt_of ctx a) w (gw_db (sv_gw s)) = (w', db')"
    by (metis prod.collapse)
  have "unstamped_attempt (call_attempt_of ctx a) = call_attempt_of ctx a"
    by (simp add: unstamped_attempt_def call_attempt_of_def)
  then show ?thesis
    using log_attempt_recorded [OF w(2) l] w(1) l
    by (simp add: log_one_attempt_def writer_ok_def recorded_of_def recorded_attempts_of_def)
qed

lemma fold_log_attempt_records:
  "writer_ok s \<Longrightarrow> writer_ok (fold (log_one_attempt D ctx) as s) \<and>
   recorded_of (fold (log_one_attempt D ctx) as s) = recorded_of s \<and>
   recorded_attempts_of (fold (log_one_attempt D ctx) as s) = recorded_attempts_of s @ map (call_attempt_of ctx) as"
proof (induction as arbitrary: s)
  case (Cons a as)
  then show ?case using log_one_attempt_records [OF Cons.prems, of D ctx a] by simp
qed simp

lemma log_attempts_records:
  assumes "writer_ok s"
  shows "writer_ok (log_attempts D ctx as s) \<and> recorded_of (log_attempts D ctx as s) = recorded_of s \<and>
    recorded_attempts_of (log_attempts D ctx as s) = recorded_attempts_of s @ map (call_attempt_of ctx) as"
  using fold_log_attempt_records [OF assms, of D ctx as] assms
  by (auto simp: log_attempts_def writer_ok_def split: option.splits)

lemma unstamped_call_log_of [simp]: "unstamped (call_log_of ctx ci counts) = call_log_of ctx ci counts"
  by (simp add: call_log_of_def unstamped_def split: prod.splits)

lemma log_call_records:
  assumes "writer_ok s" "log_call D ctx ci s = (r, s')"
  shows "case r of
      Inl e \<Rightarrow> s' = s \<and> usage_tokens (ci_usage ci) = Inl e \<and> e = raised_by_python AttributeErrorExc
    | Inr _ \<Rightarrow> \<exists>counts. usage_tokens (ci_usage ci) = Inr counts \<and>
        (storable_usage (ci_usage ci) \<longrightarrow>
           writer_ok s' \<and> recorded_of s' = recorded_of s @ [call_log_of ctx ci counts] \<and>
           recorded_attempts_of s' = recorded_attempts_of s)"
proof (cases "usage_tokens (ci_usage ci)")
  case (Inl e)
  then show ?thesis using assms(2) by (auto simp: log_call_def usage_tokens_def split: if_splits json.splits)
next
  case (Inr counts)
  obtain w where w: "sv_writer s = Some w" "list_all storable (lw_buffer w)"
    using assms by (auto simp: writer_ok_def split: option.splits)
  obtain w' db' where l: "log_entry (stamp_now D s) (call_log_of ctx ci counts) w (gw_db (sv_gw s)) = (w', db')"
    by (metis prod.collapse)
  have s': "r = Inr ()" "s' = s\<lparr>sv_writer := Some w', sv_gw := (sv_gw s)\<lparr>gw_db := db'\<rparr>\<rparr>"
    using assms(2) Inr w l by (simp_all add: log_call_def Let_def)
  show ?thesis
  proof (cases "storable_usage (ci_usage ci)")
    case True
    then have "storable (call_log_of ctx ci counts)"
      using Inr by (auto simp: storable_usage_def storable_def call_log_of_def split: prod.splits)
    from log_entry_recorded [OF w(2) this l] show ?thesis
      using s' w Inr by (simp add: writer_ok_def recorded_of_def recorded_attempts_of_def)
  next
    case False
    then show ?thesis using s' Inr by (cases counts) simp
  qed
qed


lemma engine_chat_records:
  "engine_chat D grp req extra s = (r, s1) \<Longrightarrow>
   same_records s s1 \<and> gw_group_cache (sv_gw s1) = gw_group_cache (sv_gw s)"
  using run_chat_catalog [of "sv_gw s" "dr_env D" grp "in_messages req" "in_temperature req" "in_max_tokens req" extra]
  by (auto simp: engine_chat_def same_catalog_def intro!: same_records_gw split: if_splits prod.splits)

definition group_not_found :: "int \<Rightarrow> exc" where
  "group_not_found gid = mk_exc ConfigurationError (''Group '' @ str_int gid @ '' not found'')"

lemma load_fallback_records:
  "load_fallback D fb s = (r, s1) \<Longrightarrow>
   same_records s s1 \<and> (\<forall>e. r = Inl e \<longrightarrow> e = group_not_found fb)"
  by (auto simp: load_fallback_def load_group_def group_not_found_def intro!: same_records_gw
      split: option.splits prod.splits)

lemma log_failure_records:
  assumes "writer_ok s" "log_failure D ctx gid mid pid req attempts start e s = (r, s')"
  shows "\<exists>entry. r = Inr () \<and> writer_ok s' \<and> recorded_of s' = recorded_of s @ [entry] \<and>
    recorded_attempts_of s' = recorded_attempts_of s @ map (call_attempt_of ctx) attempts \<and>
    cl_group_id entry = Some gid \<and> cl_request_id entry = rc_request_id ctx \<and> cl_api_key_id entry = rc_api_key_id ctx \<and>
    cl_status entry = ''error'' \<and> cl_error_type entry = Some (exc_type_name e) \<and> cl_error_message entry = Some (exc_msg e)"
proof -
  let ?s1 = "log_attempts D ctx attempts s"
  have s1: "writer_ok ?s1 \<and> recorded_of ?s1 = recorded_of s \<and>
      recorded_attempts_of ?s1 = recorded_attempts_of s @ map (call_attempt_of ctx) attempts"
    using assms(1) by (rule log_attempts_records)
  have "usage_tokens JNull = Inr (JNull, JNull, JNull, JNull)" "storable_usage JNull"
    by (simp_all add: usage_tokens_def storable_usage_def)
  then show ?thesis
    using log_call_records [OF conjunct1 [OF s1] assms(2) [unfolded log_failure_def]] s1
    by (cases r) (auto simp: call_log_of_def)
qed

text \<open>The call log row that belongs to an outcome.\<close>

definition row_of_outcome :: "request_ctx \<Rightarrow> int \<Rightarrow> 'a res \<Rightarrow> call_log \<Rightarrow> bool" where
  "row_of_outcome ctx gid r entry \<longleftrightarrow>
     cl_group_id entry = Some gid \<and> cl_request_id entry = rc_request_id ctx \<and> cl_api_key_id entry = rc_api_key_id ctx \<and>
     (case r of
        Inr _ \<Rightarrow> cl_status entry = ''success'' \<and> cl_error_type entry = None
      | Inl e \<Rightarrow> cl_status entry = ''error'' \<and> cl_error_type entry = Some (exc_type_name e) \<and>
          cl_error_message entry = Some (exc_msg e))"

text \<open>The last attempt rows of a failed request: those of the error, or a row for the routing failure.\<close>

definition trail_of_error :: "exc \<Rightarrow> attempt list \<Rightarrow> bool" where
  "trail_of_error e trail \<longleftrightarrow>
     (if catches recoverable_classes e then suffix (case exc_attempts e of Some as \<Rightarrow> as | None \<Rightarrow> []) trail
      else trail \<noteq> [] \<and> at_stage (last trail) = ''route'' \<and> at_error_type (last trail) = exc_type_name e)"

definition one_row_more :: "request_ctx \<Rightarrow> int \<Rightarrow> 'w srv \<Rightarrow> 'a res \<Rightarrow> 'w srv \<Rightarrow> bool" where
  "one_row_more ctx gid s r s' \<longleftrightarrow> writer_ok s' \<and>
     (\<exists>entry trail. recorded_of s' = recorded_of s @ [entry] \<and> row_of_outcome ctx gid r entry \<and>
        recorded_attempts_of s' = recorded_attempts_of s @ map (call_attempt_of ctx) trail \<and>
        (case r of Inl e \<Rightarrow> trail_of_error e trail | Inr _ \<Rightarrow> True))"

lemma one_row_moreI:
  "writer_ok s' \<Longrightarrow> recorded_of s' = recorded_of s @ [entry] \<Longrightarrow> row_of_outcome ctx gid r entry \<Longrightarrow>
   recorded_attempts_of s' = recorded_attempts_of s @ map (call_attempt_of ctx) trail \<Longrightarrow>
   (\<And>e. r = Inl e \<Longrightarrow> trail_of_error e trail) \<Longrightarrow> one_row_more ctx gid s r s'"
  unfolding one_row_more_def by (cases r) auto

lemma one_row_more_from: "same_records s0 s \<Longrightarrow> one_row_more ctx gid s r s' \<Longrightarrow> one_row_more ctx gid s0 r s'"
  by (simp add: one_row_more_def same_records_def)

lemma chat_try_records:
  assumes "writer_ok s" "chat_try D ctx gid grp req extra attempts start s = ((r, attempts1), s1)"
    and "\<And>d. r = Inr d \<Longrightarrow> storable_usage (dget d ''usage'' (JObj []))"
  shows "case r of
      Inr d \<Rightarrow> one_row_more ctx gid s (Inr d) s1
    | Inl e \<Rightarrow> same_records s s1 \<and> attempts1 = attempts \<or>
        e = raised_by_python AttributeErrorExc \<and> writer_ok s1 \<and> recorded_of s1 = recorded_of s \<and>
          recorded_attempts_of s1 = recorded_attempts_of s @ map (call_attempt_of ctx) attempts1"
proof -
  obtain q s2 where eng: "engine_chat D grp req extra s = (q, s2)" by (metis prod.collapse)
  have same: "same_records s s2" using engine_chat_records [OF eng] by blast
  show ?thesis
  proof (cases q)
    case (Inl e)
    then show ?thesis using assms(2) eng same by (auto simp: chat_try_def)
  next
    case (Inr cr)
    let ?d = "client_response (in_model req) (cr_response cr)"
    let ?s3 = "log_attempts D ctx (attempts @ cr_attempts cr) s2"
    let ?ci = "success_info D gid req cr start s2"
    have ci: "ci_group_id ?ci = gid" "ci_status ?ci = ''success''" "ci_error ?ci = None"
        "ci_usage ?ci = dget ?d ''usage'' (JObj [])" by (simp_all add: success_info_def Let_def)
    have t: "chat_try D ctx gid grp req extra attempts start s =
        (case log_call D ctx ?ci ?s3 of (Inl e, s4) \<Rightarrow> ((Inl e, attempts @ cr_attempts cr), s4)
         | (Inr _, s4) \<Rightarrow> ((Inr ?d, attempts @ cr_attempts cr), s4))"
      using eng Inr by (simp add: chat_try_def Let_def)
    obtain lr s4 where lc: "log_call D ctx ?ci ?s3 = (lr, s4)" by (metis prod.collapse)
    have "writer_ok s2" using same assms(1) by (simp add: same_records_def)
    then have s3: "writer_ok ?s3 \<and> recorded_of ?s3 = recorded_of s \<and>
        recorded_attempts_of ?s3 = recorded_attempts_of s @ map (call_attempt_of ctx) (attempts @ cr_attempts cr)"
      using log_attempts_records [of s2 D ctx "attempts @ cr_attempts cr"] same by (simp add: same_records_def)
    note rec = log_call_records [OF conjunct1 [OF s3] lc]
    show ?thesis
    proof (cases lr)
      case (Inl e)
      then have "r = Inl e" "attempts1 = attempts @ cr_attempts cr" "s1 = s4" using assms(2) t lc by simp_all
      then show ?thesis using rec Inl s3 by simp
    next
      case (Inr u)
      then have r: "r = Inr ?d" "s1 = s4" using assms(2) t lc by simp_all
      then have "storable_usage (ci_usage ?ci)" using assms(3) ci by simp
      then obtain counts where "writer_ok s4" "recorded_of s4 = recorded_of s @ [call_log_of ctx ?ci counts]"
          "recorded_attempts_of s4 = recorded_attempts_of s @ map (call_attempt_of ctx) (attempts @ cr_attempts cr)"
        using rec Inr s3 by auto
      moreover have "row_of_outcome ctx gid (Inr ?d) (call_log_of ctx ?ci counts)"
        using ci by (simp add: row_of_outcome_def call_log_of_def split: prod.splits)
      ultimately have "one_row_more ctx gid s (Inr ?d) s4"
        by (intro one_row_moreI [where trail = "attempts @ cr_attempts cr"]) simp_all
      then show ?thesis unfolding r by simp
    qed
  qed
qed

lemma failure_row:
  assumes "writer_ok s1" "recorded_of s1 = recorded_of s"
    and "recorded_attempts_of s1 = recorded_attempts_of s @ map (call_attempt_of ctx) ts"
    and "log_failure D ctx gid mid pid req trail start e s1 = (u, s')" "trail_of_error e (ts @ trail)"
  shows "u = Inr () \<and> one_row_more ctx gid s (Inl e :: 'a res) s'"
proof -
  from log_failure_records [OF assms(1,4)] obtain entry where "u = Inr ()" "writer_ok s'"
    "recorded_of s' = recorded_of s1 @ [entry]"
    "recorded_attempts_of s' = recorded_attempts_of s1 @ map (call_attempt_of ctx) trail"
    "row_of_outcome ctx gid (Inl e :: 'a res) entry" by (auto simp: row_of_outcome_def)
  then show ?thesis using assms(2,3,5) by (auto intro!: one_row_moreI [where trail = "ts @ trail"])
qed

text \<open>What the rows of an attempt that did not end the request look like.\<close>

lemma chat_try_failure:
  assumes "writer_ok s" "chat_try D ctx gid grp req extra attempts start s = ((Inl e, attempts1), s1)"
  shows "writer_ok s1 \<and> recorded_of s1 = recorded_of s \<and>
    (\<exists>ts. recorded_attempts_of s1 = recorded_attempts_of s @ map (call_attempt_of ctx) ts \<and>
       (catches recoverable_classes e \<longrightarrow> same_records s s1))"
proof -
  have "same_records s s1 \<and> attempts1 = attempts \<or>
        e = raised_by_python AttributeErrorExc \<and> writer_ok s1 \<and> recorded_of s1 = recorded_of s \<and>
          recorded_attempts_of s1 = recorded_attempts_of s @ map (call_attempt_of ctx) attempts1"
    using chat_try_records [OF assms] by simp
  then show ?thesis
  proof
    assume "same_records s s1 \<and> attempts1 = attempts"
    then show ?thesis using assms(1) by (auto simp: same_records_def intro!: exI [of _ "[]"])
  next
    assume "e = raised_by_python AttributeErrorExc \<and> writer_ok s1 \<and> recorded_of s1 = recorded_of s \<and>
          recorded_attempts_of s1 = recorded_attempts_of s @ map (call_attempt_of ctx) attempts1"
    then show ?thesis by (auto simp: catches_def recoverable_classes_def is_subclass_def)
  qed
qed

lemma trail_of_route: "\<not> catches recoverable_classes e \<Longrightarrow> trail_of_error e (ts @ as @ [route_attempt gid e])"
  by (simp add: trail_of_error_def route_attempt_def)

lemma trail_of_recoverable:
  "catches recoverable_classes e \<Longrightarrow> trail_of_error e (ts @ (case exc_attempts e of Some as \<Rightarrow> as | None \<Rightarrow> []))"
  by (simp add: trail_of_error_def suffix_def)

lemma chat_groups_records:
  assumes "writer_ok s"
    and "chat_groups fuel D ctx gid req extra start grp visited attempts s = Some (r, s')"
    and "\<And>d. r = Inr d \<Longrightarrow> storable_usage (dget d ''usage'' (JObj []))"
  shows "one_row_more ctx gid s r s' \<or>
    writer_ok s' \<and> recorded_of s' = recorded_of s \<and> recorded_attempts_of s' = recorded_attempts_of s \<and>
    (\<exists>fb. r = Inl (group_not_found fb))"
  using assms
proof (induction fuel arbitrary: grp visited attempts s)
  case (Suc fuel)
  obtain q attempts1 s1 where t: "chat_try D ctx gid grp req extra attempts start s = ((q, attempts1), s1)"
    by (metis prod.collapse)
  show ?case
  proof (cases q)
    case (Inr d)
    then have "r = Inr d" "s' = s1" using Suc.prems(2) t by simp_all
    then show ?thesis using chat_try_records [OF Suc.prems(1) t] Suc.prems(3) Inr by auto
  next
    case (Inl e)
    from chat_try_failure [OF Suc.prems(1) t [unfolded Inl]] obtain ts where
      ok: "writer_ok s1" and rec: "recorded_of s1 = recorded_of s"
        "recorded_attempts_of s1 = recorded_attempts_of s @ map (call_attempt_of ctx) ts" and
      same: "catches recoverable_classes e \<Longrightarrow> same_records s s1" by blast
    show ?thesis
    proof (cases "catches recoverable_classes e")
      case False
      obtain u s2 where lf: "log_failure D ctx gid None None req (attempts1 @ [route_attempt (fst grp) e]) start e s1 = (u, s2)"
        by (metis prod.collapse)
      from failure_row [OF ok rec lf trail_of_route [OF False]]
      show ?thesis using Suc.prems(2) t Inl False lf by (auto simp: recoverable_classes_def)
    next
      case True
      let ?as = "attempts1 @ (case exc_attempts e of Some as \<Rightarrow> as | None \<Rightarrow> [])"
      show ?thesis
      proof (cases "next_group grp visited")
        case None
        obtain u s2 where lf: "log_failure D ctx gid (exc_used_model e) (exc_used_provider e) req ?as start e s1 = (u, s2)"
          by (metis prod.collapse)
        have "trail_of_error e (ts @ ?as)"
          using trail_of_recoverable [OF True, of "ts @ attempts1"] by simp
        from failure_row [OF ok rec lf this]
        show ?thesis using Suc.prems(2) t Inl True None lf by (auto simp: recoverable_classes_def Let_def)
      next
        case (Some fb)
        obtain lr s2 where ld: "load_fallback D fb s1 = (lr, s2)" by (metis prod.collapse)
        have same2: "same_records s s2" and err: "\<And>e. lr = Inl e \<Longrightarrow> e = group_not_found fb"
          using load_fallback_records [OF ld] same_records_trans [OF same [OF True]] by blast+
        show ?thesis
        proof (cases lr)
          case (Inl e2)
          then have "r = Inl (group_not_found fb)" "s' = s2"
            using Suc.prems(2) t \<open>q = Inl e\<close> True Some ld err by (simp_all add: recoverable_classes_def Let_def)
          then show ?thesis using same2 Suc.prems(1) by (auto simp: same_records_def)
        next
          case (Inr grp2)
          then have "chat_groups fuel D ctx gid req extra start grp2 (List.insert (fst grp2) visited) ?as s2 = Some (r, s')"
            using Suc.prems(2) t \<open>q = Inl e\<close> True Some ld by (simp add: recoverable_classes_def Let_def)
          from Suc.IH [OF _ this Suc.prems(3)] same2 Suc.prems(1) one_row_more_from [OF same2, of ctx gid r s']
          show ?thesis by (auto simp: same_records_def)
        qed
      qed
    qed
  qed
qed simp

text \<open>C2: one chat request, one call log row. With a running log writer, a chat request whose group was found adds
  exactly one row to the call log: for an answer a \<open>success\<close> row, for an error an \<open>error\<close> row with the
  class and the message of the very exception that the request raises, both under the group that was
  asked for and the ids of the request; the attempt rows end with those of the error, or with a routing row
  when the error allows no fallback. The one exception is a fallback group that does not exist: then
  its \<open>ConfigurationError\<close> escapes and nothing is recorded.\<close>

theorem chat_leaves_one_row:
  assumes "writer_ok s" "get_extra_route_params req (gw_db (sv_gw s)) = Inr (gid, grp, extra)"
    and "drive_chat D ctx req s = Some (r, s')"
    and "\<forall>d. r = Inr d \<longrightarrow> storable_usage (dget d ''usage'' (JObj []))"
  shows "one_row_more ctx gid s r s' \<or>
    writer_ok s' \<and> recorded_of s' = recorded_of s \<and> recorded_attempts_of s' = recorded_attempts_of s \<and>
    (\<exists>fb. r = Inl (group_not_found fb))"
proof -
  have "chat_groups max_fallback_groups D ctx gid req extra (clock_now D s) grp [fst grp] [] s = Some (r, s')"
    using assms(2,3) by (simp add: drive_chat_def)
  then show ?thesis using assms(4) by (intro chat_groups_records [OF assms(1)]) auto
qed

subsection \<open>Termination\<close>

abbreviation group_cache_of :: "'w srv \<Rightarrow> (int \<times> ((int \<times> model_group) \<times> real)) list" where
  "group_cache_of s \<equiv> gw_group_cache (sv_gw s)"

lemma log_call_cache: "log_call D ctx ci s = (r, s') \<Longrightarrow> group_cache_of s' = group_cache_of s"
  by (auto simp: log_call_def Let_def split: sum.splits option.splits prod.splits)

lemma log_one_attempt_cache [simp]: "group_cache_of (log_one_attempt D ctx a s) = group_cache_of s"
  by (simp add: log_one_attempt_def Let_def split: option.splits prod.splits)

lemma log_attempts_cache [simp]: "group_cache_of (log_attempts D ctx as s) = group_cache_of s"
proof -
  have "group_cache_of (fold (log_one_attempt D ctx) as s) = group_cache_of s" for s
    by (induction as arbitrary: s) simp_all
  then show ?thesis by (simp add: log_attempts_def)
qed

lemma chat_try_cache:
  "chat_try D ctx gid grp req extra attempts start s = ((r, attempts1), s1) \<Longrightarrow> group_cache_of s1 = group_cache_of s"
  by (auto simp: chat_try_def Let_def dest!: engine_chat_records log_call_cache split: prod.splits sum.splits)

lemma stream_try_cache:
  assumes "stream_try D ctx has_req ser gid grp req extra attempts start p s = ((r, attempts1, p1), s1)"
  shows "group_cache_of s1 = group_cache_of s"
proof (cases "repeats_parameter extra")
  case True
  then show ?thesis using assms by (simp add: stream_try_def)
next
  case False
  obtain q g1 where rs: "run_stream (dr_env D) grp (in_messages req) (in_temperature req) (in_max_tokens req) extra (sv_gw s) = (q, g1)"
    by (metis prod.collapse)
  have g1: "gw_group_cache g1 = group_cache_of s"
    using run_stream_catalog [of "sv_gw s" "dr_env D" grp "in_messages req" "in_temperature req" "in_max_tokens req" extra] rs
    by (simp add: same_catalog_def)
  show ?thesis
  proof (cases q)
    case (Inl e)
    then show ?thesis using assms False rs g1 by (auto simp: stream_try_def Let_def)
  next
    case (Inr G)
    let ?p1 = "p\<lparr>pu_error := None, pu_final := None, pu_usage := JNull\<rparr>"
    obtain p2 g2 where pm: "pump D has_req ser (in_model req) G ?p1 g1 = (p2, g2)" by (metis prod.collapse)
    have "holds_permit g1 G g1"
      using rs Inr by (auto simp: run_stream_def run_stream_fast_def holds_permit_def split: sum.splits prod.splits)
    from pump_permits [OF this pm] have "gw_group_cache g2 = group_cache_of s" using g1 by (simp add: same_catalog_def)
    then show ?thesis using assms False rs Inr pm
      by (auto simp: stream_try_def Let_def dest!: log_call_cache split: option.splits if_splits prod.splits)
  qed
qed

text \<open>The bound on the groups, shared by the two loops.\<close>

lemma next_group_bound:
  assumes "next_group grp visited = Some fb" "fst grp2 = fb"
  shows "length (List.insert (fst grp2) visited) = Suc (length visited) \<and> length visited < max_fallback_groups"
  using assms by (auto simp: next_group_def split: option.splits if_splits)

lemma load_fallback_keyed:
  assumes "groups_keyed (sv_gw s)" "load_fallback D fb s = (r, s1)"
  shows "groups_keyed (sv_gw s1) \<and> (\<forall>grp. r = Inr grp \<longrightarrow> fst grp = fb)"
  using assms load_group_keyed by (fastforce simp: load_fallback_def split: prod.splits)

lemma groups_keyed_of_cache: "group_cache_of s1 = group_cache_of s \<Longrightarrow> groups_keyed (sv_gw s1) = groups_keyed (sv_gw s)"
  by (simp add: groups_keyed_def)

lemma chat_groups_end:
  assumes "groups_keyed (sv_gw s)" "fuel + length visited \<ge> 4" "fuel > 0"
  shows "chat_groups fuel D ctx gid req extra start grp visited attempts s \<noteq> None"
  using assms
proof (induction fuel arbitrary: visited grp attempts s)
  case (Suc fuel)
  obtain q attempts1 s1 where t: "chat_try D ctx gid grp req extra attempts start s = ((q, attempts1), s1)"
    by (metis prod.collapse)
  have k1: "groups_keyed (sv_gw s1)" using Suc.prems(1) groups_keyed_of_cache [OF chat_try_cache [OF t]] by simp
  show ?case
  proof (cases "\<exists>e fb. q = Inl e \<and> catches recoverable_classes e \<and> next_group grp visited = Some fb")
    case False
    then show ?thesis using t by (auto simp: recoverable_classes_def Let_def split: sum.splits option.splits prod.splits)
  next
    case True
    then obtain e fb where e: "q = Inl e" "catches recoverable_classes e" "next_group grp visited = Some fb" by blast
    obtain lr s2 where ld: "load_fallback D fb s1 = (lr, s2)" by (metis prod.collapse)
    note k2 = load_fallback_keyed [OF k1 ld]
    show ?thesis
    proof (cases lr)
      case (Inl e2)
      then show ?thesis using t e ld by (simp add: recoverable_classes_def Let_def)
    next
      case (Inr grp2)
      note b = next_group_bound [OF e(3), of grp2]
      have "chat_groups fuel D ctx gid req extra start grp2 (List.insert (fst grp2) visited)
          (attempts1 @ (case exc_attempts e of Some as \<Rightarrow> as | None \<Rightarrow> [])) s2 \<noteq> None"
        using b k2 Inr Suc.prems by (intro Suc.IH) (auto simp: max_fallback_groups_def)
      then show ?thesis using t e ld Inr by (simp add: recoverable_classes_def Let_def)
    qed
  qed
qed simp

lemma stream_groups_end:
  assumes "groups_keyed (sv_gw s)" "fuel + length visited \<ge> 4" "fuel > 0"
  shows "stream_groups fuel D ctx has_req ser done_signal gid req extra start grp visited attempts p s \<noteq> None"
  using assms
proof (induction fuel arbitrary: visited grp attempts p s)
  case (Suc fuel)
  obtain q attempts1 p1 s1 where t: "stream_try D ctx has_req ser gid grp req extra attempts start p s = ((q, attempts1, p1), s1)"
    by (metis prod.collapse)
  have k1: "groups_keyed (sv_gw s1)" using Suc.prems(1) groups_keyed_of_cache [OF stream_try_cache [OF t]] by simp
  show ?case
  proof (cases "\<exists>e fb. q = Inl e \<and> catches recoverable_classes e \<and> next_group grp visited = Some fb")
    case False
    then show ?thesis using t
      by (cases q; cases "next_group grp visited") (auto simp: recoverable_classes_def Let_def simp del: not_None_eq)
  next
    case True
    then obtain e fb where e: "q = Inl e" "catches recoverable_classes e" "next_group grp visited = Some fb" by blast
    obtain lr s2 where ld: "load_fallback D fb s1 = (lr, s2)" by (metis prod.collapse)
    note k2 = load_fallback_keyed [OF k1 ld]
    show ?thesis
    proof (cases lr)
      case (Inl e2)
      then show ?thesis using t e ld by (simp add: recoverable_classes_def Let_def)
    next
      case (Inr grp2)
      note b = next_group_bound [OF e(3), of grp2]
      have "stream_groups fuel D ctx has_req ser done_signal gid req extra start grp2 (List.insert (fst grp2) visited)
          (attempts1 @ (case exc_attempts e of Some as \<Rightarrow> as | None \<Rightarrow> [])) p1 s2 \<noteq> None"
        using b k2 Inr Suc.prems by (intro Suc.IH) (auto simp: max_fallback_groups_def)
      then show ?thesis using t e ld Inr by (simp add: recoverable_classes_def Let_def)
    qed
  qed
qed simp

lemma drives_end:
  assumes "groups_keyed (sv_gw s)"
  shows "drive_chat D ctx req s \<noteq> None" "drive_stream D ctx has_req ser z done_signal req s \<noteq> None"
proof -
  show "drive_chat D ctx req s \<noteq> None"
  proof (cases "get_extra_route_params req (gw_db (sv_gw s))")
    case (Inr a)
    then show ?thesis
      using chat_groups_end [OF assms, of max_fallback_groups "[fst (fst (snd a))]" D ctx "fst a" req "snd (snd a)"
          "clock_now D s" "fst (snd a)" "[]"]
      by (simp add: drive_chat_def case_prod_beta max_fallback_groups_def del: not_None_eq)
  qed (simp add: drive_chat_def)
  show "drive_stream D ctx has_req ser z done_signal req s \<noteq> None"
  proof (cases "get_extra_route_params req (gw_db (sv_gw s))")
    case (Inr a)
    then show ?thesis
      using stream_groups_end [OF assms, of max_fallback_groups "[fst (fst (snd a))]" D ctx has_req ser done_signal "fst a" req
          "snd (snd a)" "clock_now D s" "fst (snd a)" "[]"
          "\<lparr>pu_error = None, pu_final = None, pu_usage = JNull, pu_lines = [], pu_ser = z\<rparr>"]
      by (simp add: drive_stream_def case_prod_beta max_fallback_groups_def del: not_None_eq)
  qed (simp add: drive_stream_def)
qed

text \<open>A server with one group that has no models, and one whose group has an endpoint.\<close>

definition sample_drv :: "int env \<Rightarrow> int drv" where
  "sample_drv env = \<lparr>dr_env = env, dr_stamp = (\<lambda>w. ''now''), dr_dumps = (\<lambda>v. ''{}''), dr_dumps_ascii = (\<lambda>v. ''{}''),
     dr_traceback = (\<lambda>e. ''tb''), dr_send = (\<lambda>l w. w)\<rparr>"

definition empty_writer :: log_writer where
  "empty_writer = \<lparr>lw_buffer = [], lw_attempts = [], lw_max_buffer = 100\<rparr>"

definition lone_group :: model_group where
  "lone_group = sample_group\<lparr>g_fallback_group_id := None\<rparr>"

definition one_group_db :: db where
  "one_group_db = empty_db\<lparr>model_groups := \<lparr>rows = [(1, lone_group)], seq = 1\<rparr>\<rparr>"

definition bare_srv :: "int srv" where
  "bare_srv = \<lparr>sv_gw = (empty_gw 0)\<lparr>gw_db := one_group_db\<rparr>, sv_writer = Some empty_writer\<rparr>"

definition sample_srv :: "int srv" where
  "sample_srv = \<lparr>sv_gw = sample_gw\<lparr>gw_db := one_group_db\<rparr>, sv_writer = Some empty_writer\<rparr>"

definition sample_ctx :: request_ctx where
  "sample_ctx = \<lparr>rc_api_key_id = Some 1, rc_request_id = Some ''r1''\<rparr>"

definition sample_request :: internal where
  "sample_request = \<lparr>in_model = ''g'', in_messages = [], in_temperature = JNull, in_max_tokens = None, in_stream = False,
     in_extra = [], in_json = []\<rparr>"

lemma sample_keyed: "groups_keyed (sv_gw sample_srv)" "groups_keyed (sv_gw bare_srv)"
  by (simp_all add: groups_keyed_def sample_srv_def bare_srv_def sample_gw_def empty_gw_def)

text \<open>C20: every request ends. Whatever fallback groups the database names, also in a cycle, and whatever the
  upstream does, a chat request and a stream request are finished after at most three groups.\<close>

theorem requests_end:
  assumes "groups_keyed (sv_gw s)"
  shows "(\<exists>r s'. drive_chat D ctx req s = Some (r, s')) \<and>
    (\<exists>r s'. drive_stream D ctx has_req ser z done_signal req s = Some (r, s'))"
  using drives_end(1) [OF assms, of D ctx req] drives_end(2) [OF assms, of D ctx has_req ser z done_signal req]
  by (metis not_None_eq surj_pair)

theorem requests_end_witness:
  "\<exists>r s'. drive_chat (sample_drv flaky_env) sample_ctx sample_request sample_srv = Some (r, s')"
  by (rule requests_end [OF sample_keyed(1), THEN conjunct1])

text \<open>A chat request for the group without models, step by step.\<close>

definition no_models :: exc where
  "no_models = mk_exc NoAvailableModelError (''Group '' @ str_int 1 @ '' has no enabled models'')"

lemma bare_params: "get_extra_route_params sample_request (gw_db (sv_gw bare_srv)) = Inr (1, (1, lone_group), [])"
  by (simp add: get_extra_route_params_def get_group_id_def list_groups_def bare_srv_def one_group_db_def sample_request_def
      lone_group_def sample_group_def get_group_def get_row_def lookup_row_def filter_safe_extra_def dfilter_def)

lemma bare_chat:
  "\<exists>s'. drive_chat (sample_drv flaky_env) sample_ctx sample_request bare_srv = Some (Inl no_models, s')"
proof -
  have "get_group_models 1 True one_group_db = Inr []"
    by (simp add: get_group_models_def joined_rows_def one_group_db_def empty_db_def empty_table_def)
  then have "\<exists>g. run_chat flaky_env (1, lone_group) [] JNull None [] (sv_gw bare_srv) = (Inl no_models, g)"
    by (simp add: run_chat_def select_for_group_def build_strategy_def lone_group_def sample_group_def strategy_registry_def
        available_endpoints_def load_endpoints_def ttl_get_def bare_srv_def empty_gw_def no_models_def
        select_random_weights_def select_sequential_def)
  then obtain g where g: "run_chat flaky_env (1, lone_group) [] JNull None [] (sv_gw bare_srv) = (Inl no_models, g)" by blast
  have t: "chat_try (sample_drv flaky_env) sample_ctx 1 (1, lone_group) sample_request [] [] start bare_srv =
      ((Inl no_models, []), bare_srv\<lparr>sv_gw := g\<rparr>)" for start
    using g by (simp add: chat_try_def engine_chat_def repeats_parameter_def sample_request_def sample_drv_def)
  have no: "exc_attempts no_models = None" "next_group (1, lone_group) [1] = None"
    "catches [AllModelsCooldownError, NoAvailableModelError, ProviderError] no_models"
    by (simp_all add: no_models_def next_group_def lone_group_def sample_group_def catches_def is_subclass_def)
  let ?s = "bare_srv\<lparr>sv_gw := g\<rparr>"
  have w: "writer_ok ?s" by (simp add: writer_ok_def bare_srv_def empty_writer_def)
  define after where "after mid pid as start e =
      snd (log_failure (sample_drv flaky_env) sample_ctx 1 mid pid sample_request as start e ?s)" for mid pid as start e
  have lf: "log_failure (sample_drv flaky_env) sample_ctx 1 mid pid sample_request as start e ?s =
      (Inr (), after mid pid as start e)" for mid pid as start e
  proof -
    obtain u s2 where l: "log_failure (sample_drv flaky_env) sample_ctx 1 mid pid sample_request as start e ?s = (u, s2)"
      by (metis prod.collapse)
    from log_failure_records [OF w l] show ?thesis by (auto simp: after_def l)
  qed
  show ?thesis
    using bare_params by (simp add: drive_chat_def max_fallback_groups_def numeral_3_eq_3 t no lf)
qed

theorem chat_leaves_one_row_witness:
  "\<exists>r s'. drive_chat (sample_drv flaky_env) sample_ctx sample_request bare_srv = Some (r, s') \<and>
     cl_status (last (recorded_of s')) = ''error''"
proof -
  obtain s' where d: "drive_chat (sample_drv flaky_env) sample_ctx sample_request bare_srv = Some (Inl no_models, s')"
    using bare_chat by blast
  have "writer_ok bare_srv" by (simp add: writer_ok_def bare_srv_def empty_writer_def)
  from chat_leaves_one_row [OF this bare_params d] have "one_row_more sample_ctx 1 bare_srv (Inl no_models :: dict res) s'"
    by (simp add: no_models_def group_not_found_def) (auto simp: mk_exc_def)
  then show ?thesis using d by (auto simp: one_row_more_def row_of_outcome_def)
qed

subsection \<open>What a client of a stream sees\<close>

text \<open>The lines of a list of chunks, up to the first one that cannot be serialized.\<close>

fun serialize_chunks :: "'z serializer \<Rightarrow> string \<Rightarrow> 'z \<Rightarrow> dict list \<Rightarrow> string list" where
  "serialize_chunks ser m z [] = []"
| "serialize_chunks ser m z (c # cs) =
     (case ser z (dset ''model'' (JStr m) c) of
        (Inl _, _) \<Rightarrow> []
      | (Inr (lines, _), z1) \<Rightarrow> lines @ serialize_chunks ser m z1 cs)"

lemma pump_GEnd: "pump D req ser m GEnd p g = (p, g)"
  by (subst pump.simps) simp

text \<open>A final state event ends the loop, whether the poll after it sees a disconnect or not.\<close>

lemma pump_final:
  assumes "gen_next (dr_env D) req G g = (Some (StateEv f), GEnd, g1)" "pump D req ser m G p g = (p', g')"
  shows "p' = p \<or> p' = p\<lparr>pu_final := Some f\<rparr>"
  using assms by (subst (asm) pump.simps) (auto simp: pump_GEnd split: prod.splits if_splits)

lemma pump_chunk:
  assumes "gen_next (dr_env D) req G g = (Some (ChunkEv c), G1, g1)" "pump D req ser m G p g = (p', g')"
  obtains "p' = p"
  | e z where "ser (pu_ser p) (dset ''model'' (JStr m) c) = (Inl e, z)" "p' = p\<lparr>pu_error := Some e, pu_ser := z\<rparr>"
  | lines u z us g2 where "ser (pu_ser p) (dset ''model'' (JStr m) c) = (Inr (lines, u), z)"
      "pump D req ser m G1 (p\<lparr>pu_lines := pu_lines p @ lines, pu_ser := z, pu_usage := us\<rparr>) g2 = (p', g')"
proof -
  obtain gone g2 where pl: "poll (dr_env D) req g1 = (gone, g2)" by (metis prod.collapse)
  obtain r z where sr: "ser (pu_ser p) (dset ''model'' (JStr m) c) = (r, z)" by (metis prod.collapse)
  show thesis
  proof (cases gone)
    case True
    then show thesis using that(1) assms(2) by (subst (asm) pump.simps) (simp add: assms(1) pl)
  next
    case False
    show thesis
    proof (cases r)
      case (Inl e)
      have "p' = p\<lparr>pu_error := Some e, pu_ser := z\<rparr>"
        using assms(2) False Inl by (subst (asm) pump.simps) (simp add: assms(1) pl sr)
      then show thesis using that(2) sr Inl by blast
    next
      case (Inr lu)
      obtain lines u where lu: "lu = (lines, u)" by (cases lu)
      have "pump D req ser m G1 (p\<lparr>pu_lines := pu_lines p @ lines, pu_ser := z,
          pu_usage := (if truthy u then u else pu_usage p)\<rparr>) (send_lines D lines g2) = (p', g')"
        using assms(2) False Inr lu by (subst (asm) pump.simps) (simp add: assms(1) pl sr)
      then show thesis using that(3) sr Inr lu by blast
    qed
  qed
qed

definition serializes_from :: "'z serializer \<Rightarrow> string \<Rightarrow> dict list \<Rightarrow> endpoint \<Rightarrow> attempt list \<Rightarrow> 'z pumped \<Rightarrow> 'z pumped \<Rightarrow> bool" where
  "serializes_from ser m sent ep att p p' \<longleftrightarrow>
     (\<exists>cs. prefix cs sent \<and> pu_lines p' = pu_lines p @ serialize_chunks ser m (pu_ser p) cs) \<and>
     (pu_final p' = pu_final p \<or> (\<exists>ok. pu_final p' = Some (committed ok ep att))) \<and>
     (pu_error p' = pu_error p \<or> (\<exists>z c e z'. ser z c = (Inl e, z') \<and> pu_error p' = Some e))"

lemma serializes_from_refl: "serializes_from ser m sent ep att p p"
  unfolding serializes_from_def by (auto intro!: exI [of _ "[]"])

lemma serializes_from_Cons:
  assumes "ser (pu_ser p) (dset ''model'' (JStr m) c) = (Inr (lines, u), z)"
    and "serializes_from ser m cs ep att (p\<lparr>pu_lines := pu_lines p @ lines, pu_ser := z, pu_usage := us\<rparr>) p'"
  shows "serializes_from ser m (c # cs) ep att p p'"
proof -
  from assms(2) obtain cs1 where "prefix cs1 cs" "pu_lines p' = pu_lines p @ lines @ serialize_chunks ser m z cs1"
    by (auto simp: serializes_from_def)
  then have "\<exists>cs2. prefix cs2 (c # cs) \<and> pu_lines p' = pu_lines p @ serialize_chunks ser m (pu_ser p) cs2"
    using assms(1) by (intro exI [of _ "c # cs1"]) simp
  moreover have "pu_final p' = pu_final p \<or> (\<exists>ok. pu_final p' = Some (committed ok ep att))"
    "pu_error p' = pu_error p \<or> (\<exists>z c e z'. ser z c = (Inl e, z') \<and> pu_error p' = Some e)"
    using assms(2) by (simp_all add: serializes_from_def)
  ultimately show ?thesis unfolding serializes_from_def by blast
qed

text \<open>An open stream, and a stream that has not been opened.\<close>

lemma pump_stream:
  "pump D req ser m (GStream ep rest en limited att) p g = (p', g') \<Longrightarrow> serializes_from ser m rest ep att p p'"
proof (induction rest arbitrary: p g)
  case Nil
  have "gen_next (dr_env D) req (GStream ep [] en limited att) g =
      (Some (StateEv (committed (en = None) ep att)), GEnd, release limited (ep_provider_id ep) (wait_chunk (dr_env D) g))"
    by simp
  from pump_final [OF this Nil] show ?case by (auto simp: serializes_from_def)
next
  case (Cons c rest)
  obtain ev G1 g1 where n: "gen_next (dr_env D) req (GStream ep (c # rest) en limited att) g = (ev, G1, g1)"
    by (metis prod.collapse)
  then consider "ev = Some (StateEv (committed False ep att))" "G1 = GEnd"
    | "ev = Some (ChunkEv c)" "G1 = GStream ep rest en limited att"
    by (auto simp: offer_chunk_def Let_def split: prod.splits if_splits)
  then show ?case
  proof cases
    case 1
    from pump_final [OF n [unfolded 1] Cons.prems] show ?thesis
      by (auto simp: serializes_from_def intro!: exI [of _ "[]"])
  next
    case 2
    from n [unfolded 2] Cons.prems show ?thesis
    proof (cases rule: pump_chunk)
      case 1
      then show ?thesis by (simp add: serializes_from_refl)
    next
      case (2 e z)
      then show ?thesis by (auto simp: serializes_from_def intro!: exI [of _ "[]"])
    next
      case (3 lines u z us g2)
      from serializes_from_Cons [OF 3(1) Cons.IH [OF 3(2)]] show ?thesis .
    qed
  qed
qed

lemma pump_start:
  assumes "pump D req ser m (GStart gid msgs t mt kw eps) p g = (p', g')"
  shows "p' = p \<or> (\<exists>lu att. p' = p\<lparr>pu_final := Some (group_failed lu att)\<rparr>) \<or>
    (\<exists>ep \<in> set eps. \<exists>args g1 g2 c rest en b att.
       open_stream (dr_env D) ep args g1 = ((FirstChunk c rest en b, None), g2) \<and>
       serializes_from ser m (c # rest) ep att p p')"
proof -
  obtain got att lu h where acq: "acquire_stream (dr_env D) gid msgs t mt kw eps [] None None g = (got, att, lu, h)"
    by (metis prod.collapse)
  show ?thesis
  proof (cases got)
    case None
    have "gen_next (dr_env D) req (GStart gid msgs t mt kw eps) g = (Some (StateEv (group_failed lu att)), GEnd, h)"
      by (simp add: acq None)
    from pump_final [OF this assms] show ?thesis by blast
  next
    case (Some a)
    obtain ep x where a: "a = (ep, x)" by (cases a)
    from acquire_stream_opened [OF acq [unfolded Some a]] obtain args g1 g2 c rest en b where
      op: "ep \<in> set eps" "x = FirstChunk c rest en b"
        "open_stream (dr_env D) ep args g1 = ((FirstChunk c rest en b, None), g2)" by blast
    obtain ev G1 h1 where n: "gen_next (dr_env D) req (GStart gid msgs t mt kw eps) g = (ev, G1, h1)" by (metis prod.collapse)
    then consider "ev = Some (StateEv (committed False ep att))" "G1 = GEnd"
      | "ev = Some (ChunkEv c)" "G1 = GStream ep rest en b att"
      by (auto simp: acq Some a op(2) offer_chunk_def Let_def split: prod.splits if_splits)
    then have "serializes_from ser m (c # rest) ep att p p'"
    proof cases
      case 1
      from pump_final [OF n [unfolded 1] assms] show ?thesis
        by (auto simp: serializes_from_def intro!: exI [of _ "[]"])
    next
      case 2
      from n [unfolded 2] assms show ?thesis
      proof (cases rule: pump_chunk)
        case 1
        then show ?thesis by (simp add: serializes_from_refl)
      next
        case (2 e z)
        then show ?thesis by (auto simp: serializes_from_def intro!: exI [of _ "[]"])
      next
        case (3 lines u z us g2)
        from serializes_from_Cons [OF 3(1) pump_stream [OF 3(2)]] show ?thesis .
      qed
    qed
    then show ?thesis using op by blast
  qed
qed

text \<open>The content of a stream comes from one upstream.\<close>

definition content_of_one :: "'w drv \<Rightarrow> 'z serializer \<Rightarrow> string \<Rightarrow> 'z \<Rightarrow> string list \<Rightarrow> bool" where
  "content_of_one D ser m z lines \<longleftrightarrow> lines = [] \<or>
     (\<exists>ep args g1 g2 c rest en b cs. open_stream (dr_env D) ep args g1 = ((FirstChunk c rest en b, None), g2) \<and>
        prefix cs (c # rest) \<and> lines = serialize_chunks ser m z cs)"

definition never_routing_error :: "'z serializer \<Rightarrow> bool" where
  "never_routing_error ser \<longleftrightarrow> (\<forall>z c e z'. ser z c = (Inl e, z') \<longrightarrow> \<not> catches recoverable_classes e)"

lemma log_call_error: "log_call D ctx ci s = (Inl e, s') \<Longrightarrow> \<not> catches recoverable_classes e"
  by (auto simp: log_call_def Let_def usage_tokens_def create_call_log_def bind_error_def catches_def recoverable_classes_def
      is_subclass_def split: sum.splits option.splits prod.splits if_splits json.splits)

lemma stream_try_content:
  assumes "never_routing_error ser" "pu_lines p = []"
    and "stream_try D ctx has_req ser gid grp req extra attempts start p s = ((r, attempts1, p1), s1)"
  shows "content_of_one D ser (in_model req) (pu_ser p) (pu_lines p1) \<and>
    (\<forall>e. r = Inl e \<and> catches recoverable_classes e \<longrightarrow> pu_lines p1 = [] \<and> pu_ser p1 = pu_ser p)"
proof -
  let ?p0 = "p\<lparr>pu_error := None, pu_final := None, pu_usage := JNull\<rparr>"
  show ?thesis
  proof (cases "\<not> repeats_parameter extra \<and> (\<exists>G g1. run_stream (dr_env D) grp (in_messages req) (in_temperature req)
        (in_max_tokens req) extra (sv_gw s) = (Inr G, g1))")
    case False
    then have "p1 = ?p0" using assms(3) by (auto simp: stream_try_def Let_def split: if_splits prod.splits sum.splits)
    then show ?thesis using assms(2) by (simp add: content_of_one_def)
  next
    case True
    then obtain G g1 where rs: "run_stream (dr_env D) grp (in_messages req) (in_temperature req)
        (in_max_tokens req) extra (sv_gw s) = (Inr G, g1)" and rep: "\<not> repeats_parameter extra" by blast
    obtain p2 g2 where pm: "pump D has_req ser (in_model req) G ?p0 g1 = (p2, g2)" by (metis prod.collapse)
    obtain gid' msgs t mt kw eps where G: "G = GStart gid' msgs t mt kw eps"
      using rs by (auto simp: run_stream_def run_stream_fast_def split: sum.splits prod.splits)
    have p1: "p1 = p2" and err: "\<And>e. r = Inl e \<Longrightarrow> catches recoverable_classes e \<Longrightarrow>
        pu_error p2 = Some e \<or> (\<exists>f. pu_final p2 = Some f \<and> sf_recoverable f)"
      using assms(3) rs rep pm
      by (auto simp: stream_try_def Let_def dest: log_call_error split: option.splits if_splits prod.splits)
    from pump_start [OF pm [unfolded G]]
    consider "p2 = ?p0 \<or> (\<exists>lu att. p2 = ?p0\<lparr>pu_final := Some (group_failed lu att)\<rparr>)"
      | ep args h1 h2 c rest en b att where "open_stream (dr_env D) ep args h1 = ((FirstChunk c rest en b, None), h2)"
          "serializes_from ser (in_model req) (c # rest) ep att ?p0 p2" by blast
    then show ?thesis
    proof cases
      case 1
      then show ?thesis using assms(2) p1 by (auto simp: content_of_one_def)
    next
      case 2
      then obtain cs where cs: "prefix cs (c # rest)" "pu_lines p2 = serialize_chunks ser (in_model req) (pu_ser p) cs"
        using assms(2) by (auto simp: serializes_from_def)
      have "\<not> sf_recoverable f" if "pu_final p2 = Some f" for f
        using that 2(2) by (auto simp: serializes_from_def committed_def)
      moreover have "\<not> catches recoverable_classes e" if "pu_error p2 = Some e" for e
        using that 2(2) assms(1) by (auto simp: serializes_from_def never_routing_error_def)
      ultimately have "\<not> (\<exists>e. r = Inl e \<and> catches recoverable_classes e)" using err by blast
      moreover have "content_of_one D ser (in_model req) (pu_ser p) (pu_lines p1)"
        unfolding content_of_one_def p1 using 2(1) cs by blast
      ultimately show ?thesis by blast
    qed
  qed
qed

definition stream_shape :: "'w drv \<Rightarrow> 'z serializer \<Rightarrow> string \<Rightarrow> 'z \<Rightarrow> string \<Rightarrow> string list \<Rightarrow> exc option \<Rightarrow> bool" where
  "stream_shape D ser m z done_signal lines err \<longleftrightarrow>
     (\<exists>body tail. lines = body @ tail \<and> content_of_one D ser m z body \<and>
        (case err of
           None \<Rightarrow> tail = [done_signal] \<or> (\<exists>e. tail = [error_line D e, done_signal])
         | Some e \<Rightarrow> tail = []))"

lemma close_with_error_shape:
  assumes "content_of_one D ser m z (pu_lines p)" "close_with_error D done_signal e p logged = ((lines, err), s')"
  shows "stream_shape D ser m z done_signal lines err"
  using assms by (auto simp: close_with_error_def stream_shape_def split: sum.splits prod.splits)

lemma stream_groups_shape:
  assumes "never_routing_error ser" "pu_lines p = []"
    and "stream_groups fuel D ctx has_req ser done_signal gid req extra start grp visited attempts p s = Some ((lines, err), s')"
  shows "stream_shape D ser (in_model req) (pu_ser p) done_signal lines err"
  using assms(2,3)
proof (induction fuel arbitrary: grp visited attempts p s)
  case (Suc fuel)
  obtain q attempts1 p1 s1 where t: "stream_try D ctx has_req ser gid grp req extra attempts start p s = ((q, attempts1, p1), s1)"
    by (metis prod.collapse)
  note content = stream_try_content [OF assms(1) Suc.prems(1) t]
  show ?case
  proof (cases "\<exists>e fb. q = Inl e \<and> catches recoverable_classes e \<and> next_group grp visited = Some fb")
    case False
    show ?thesis
    proof (cases q)
      case (Inr u)
      then have "lines = pu_lines p1 @ [done_signal]" "err = None" using Suc.prems(2) t by simp_all
      then show ?thesis using content by (auto simp: stream_shape_def)
    next
      case (Inl e)
      obtain logged where "close_with_error D done_signal e p1 logged = ((lines, err), s')"
        using Suc.prems(2) t Inl False
        by (cases "next_group grp visited") (auto simp: recoverable_classes_def Let_def split: if_splits)
      then show ?thesis using content by (intro close_with_error_shape) blast+
    qed
  next
    case True
    then obtain e fb where e: "q = Inl e" "catches recoverable_classes e" "next_group grp visited = Some fb" by blast
    have p1: "pu_lines p1 = []" "pu_ser p1 = pu_ser p" using content e by simp_all
    obtain lr s2 where ld: "load_fallback D fb s1 = (lr, s2)" by (metis prod.collapse)
    show ?thesis
    proof (cases lr)
      case (Inl e2)
      then have "lines = []" "err = Some e2"
        using Suc.prems(2) t e ld p1 by (simp_all add: recoverable_classes_def Let_def)
      then show ?thesis by (simp add: stream_shape_def content_of_one_def)
    next
      case (Inr grp2)
      then have "stream_groups fuel D ctx has_req ser done_signal gid req extra start grp2 (List.insert (fst grp2) visited)
          (attempts1 @ (case exc_attempts e of Some as \<Rightarrow> as | None \<Rightarrow> [])) p1 s2 = Some ((lines, err), s')"
        using Suc.prems(2) t e ld by (simp add: recoverable_classes_def Let_def)
      from Suc.IH [OF p1(1) this] show ?thesis by (simp add: p1)
    qed
  qed
qed simp

text \<open>C1: what a client of a stream receives. With a serializer that does not itself raise a routing error, the lines
  of a stream are the serialized chunks of one upstream stream, in order, from the first on and without a gap,
  or no chunk at all, and then the end signal, possibly after one error line. So no fallback happens
  after content was sent. Only an exception that escapes (the group cannot be resolved, a fallback group
  cannot be loaded) ends the stream without the end signal.\<close>

theorem stream_content_of_one_upstream:
  assumes "never_routing_error ser" "drive_stream D ctx has_req ser z done_signal req s = Some ((lines, err), s')"
  shows "stream_shape D ser (in_model req) z done_signal lines err"
proof (cases "get_extra_route_params req (gw_db (sv_gw s))")
  case (Inl e)
  then have "lines = []" "err = Some e" using assms(2) by (simp_all add: drive_stream_def)
  then show ?thesis by (simp add: stream_shape_def content_of_one_def)
next
  case (Inr a)
  let ?p = "\<lparr>pu_error = None, pu_final = None, pu_usage = JNull, pu_lines = [], pu_ser = z\<rparr>"
  obtain gid grp extra where a: "a = (gid, grp, extra)" by (cases a)
  have "stream_groups max_fallback_groups D ctx has_req ser done_signal gid req extra (clock_now D s) grp [fst grp] [] ?p s =
      Some ((lines, err), s')" using assms(2) Inr a by (simp add: drive_stream_def)
  from stream_groups_shape [OF assms(1) _ this] show ?thesis by simp
qed

definition plain_serializer :: "unit serializer" where
  "plain_serializer z c = (Inr ([''data''], dget c ''usage'' JNull), z)"

theorem stream_content_of_one_upstream_witness:
  "case drive_stream (sample_drv chatty_env) sample_ctx False plain_serializer () ''done'' sample_request sample_srv of
     Some ((lines, err), _) \<Rightarrow>
       stream_shape (sample_drv chatty_env) plain_serializer ''g'' () ''done'' lines err
   | None \<Rightarrow> False"
proof -
  obtain lines err s' where d: "drive_stream (sample_drv chatty_env) sample_ctx False plain_serializer () ''done''
      sample_request sample_srv = Some ((lines, err), s')"
    using drives_end(2) [OF sample_keyed(1)] by fastforce
  have "never_routing_error plain_serializer" by (simp add: never_routing_error_def plain_serializer_def)
  moreover have "in_model sample_request = ''g''" by (simp add: sample_request_def)
  ultimately show ?thesis using stream_content_of_one_upstream [OF _ d] by (simp add: d)
qed

end
