(* ===== verification/Serve_Facts.thy ===== *)
theory Serve_Facts
  imports Serve Providers Driver_Facts
begin

text \<open>
  What the front end promises: the three request formats say the same, the three stream formats carry the
  same text, a repeated request is answered from the cache; and where it breaks.
\<close>

subsection \<open>Requests\<close>

definition chat_message :: "string \<times> string \<Rightarrow> json" where
  "chat_message rt = user_message (JStr (fst rt)) (JStr (snd rt))"

text \<open>A conversation: the system text, if any, and the messages with their roles.\<close>

definition conversation :: "string \<Rightarrow> (string \<times> string) list \<Rightarrow> json list" where
  "conversation system rts = (if system = '''' then [] else [system_message (JStr system)]) @ map chat_message rts"

lemma convert_text_message: "convert_message so (chat_message rt) = Inr (chat_message rt)"
  by (simp add: convert_message_def chat_message_def user_message_def dset_def)

lemma convert_system_message: "convert_message so (system_message (JStr t)) = Inr (system_message (JStr t))"
  by (simp add: convert_message_def system_message_def str_item_def dset_def)

lemma responses_text_item: "responses_item so (chat_message rt) = Inr (chat_message rt)"
  by (simp add: responses_item_def chat_message_def user_message_def)

text \<open>C18: the three request formats agree. A conversation of texts sent to the chat endpoint as its
  messages, to the message endpoint with the system text apart, or to the response endpoint as instructions
  and input, reaches the router as the same list of messages for the same model.\<close>

theorem request_formats_agree:
  assumes "dget openai ''messages'' (JList []) = JList (conversation system rts)"
    and "dget anthropic ''system'' (JStr '''') = JStr system" "dget anthropic ''messages'' (JList []) = JList (map chat_message rts)"
    and "dget responses ''instructions'' (JStr '''') = JStr system" "dget responses ''input'' (JStr '''') = JList (map chat_message rts)"
    and "map (\<lambda>b. dget b ''model'' (JStr '''')) [openai, anthropic, responses] = [m, m, m]"
  shows "\<exists>a r. anthropic_to_internal so anthropic = Inr a \<and> responses_to_internal so responses = Inr r \<and>
    map (\<lambda>b. (dget b ''messages'' JNull, dget b ''model'' JNull)) [openai_to_internal openai, a, r] =
      replicate 3 (JList (conversation system rts), m)"
proof -
  have a: "mapE (convert_message so) (map chat_message rts) = Inr (map id (map chat_message rts))"
    by (rule mapE_Inr) (auto simp: convert_text_message)
  have r: "mapE (responses_item so) (map chat_message rts) = Inr (map id (map chat_message rts))"
    by (rule mapE_Inr) (auto simp: responses_text_item)
  show ?thesis
    using assms a r
    by (cases "system = ''''") (simp_all add: openai_to_internal_def anthropic_to_internal_def responses_to_internal_def
        responses_messages_def responses_input_to_messages_def conversation_def convert_system_message Let_def eval_nat_numeral)
qed

theorem request_formats_agree_witness:
  "\<exists>a r. anthropic_to_internal (\<lambda>j. '''')
        [str_item ''model'' ''fast'', str_item ''system'' ''Be brief.'', (''messages'', JList [chat_message (''user'', ''Hi'')])] = Inr a \<and>
    responses_to_internal (\<lambda>j. '''')
        [str_item ''model'' ''fast'', str_item ''instructions'' ''Be brief.'', (''input'', JList [chat_message (''user'', ''Hi'')])] = Inr r \<and>
    dget a ''messages'' JNull = dget r ''messages'' JNull"
proof -
  let ?o = "[str_item ''model'' ''fast'', (''messages'', JList (conversation ''Be brief.'' [(''user'', ''Hi'')]))]"
  let ?a = "[str_item ''model'' ''fast'', str_item ''system'' ''Be brief.'', (''messages'', JList [chat_message (''user'', ''Hi'')])]"
  let ?r = "[str_item ''model'' ''fast'', str_item ''instructions'' ''Be brief.'', (''input'', JList [chat_message (''user'', ''Hi'')])]"
  have "dget ?o ''messages'' (JList []) = JList (conversation ''Be brief.'' [(''user'', ''Hi'')])"
    "dget ?a ''system'' (JStr '''') = JStr ''Be brief.''" "dget ?a ''messages'' (JList []) = JList (map chat_message [(''user'', ''Hi'')])"
    "dget ?r ''instructions'' (JStr '''') = JStr ''Be brief.''" "dget ?r ''input'' (JStr '''') = JList (map chat_message [(''user'', ''Hi'')])"
    "map (\<lambda>b. dget b ''model'' (JStr '''')) [?o, ?a, ?r] = [JStr ''fast'', JStr ''fast'', JStr ''fast'']"
    by (simp_all add: str_item_def)
  from request_formats_agree [OF this, of "\<lambda>j. ''''"] show ?thesis by (auto simp: eval_nat_numeral)
qed


subsection \<open>The text of a stream\<close>

fun text_or_empty :: "json \<Rightarrow> string" where
  "text_or_empty (JStr s) = s"
| "text_or_empty _ = ''''"

text \<open>The text a client of each format takes from what it is sent.\<close>

definition openai_sse_text :: "dict \<Rightarrow> string" where
  "openai_sse_text sse =
     (case dget sse ''choices'' JNull of
        JList (JObj c # _) \<Rightarrow> text_or_empty (dget (attrs (dget c ''delta'' JNull)) ''content'' JNull)
      | _ \<Rightarrow> '''')"

definition anthropic_event_text :: "json \<Rightarrow> string" where
  "anthropic_event_text e =
     (let delta = attrs (dget (attrs e) ''delta'' JNull) in
      if dget (attrs e) ''type'' JNull = JStr ''content_block_delta'' \<and> dget delta ''type'' JNull = JStr ''text_delta''
      then text_or_empty (dget delta ''text'' JNull) else '''')"

definition responses_event_text :: "json \<Rightarrow> string" where
  "responses_event_text e =
     (if dget (attrs e) ''type'' JNull = JStr ''response.output_text.delta''
      then text_or_empty (dget (attrs e) ''delta'' JNull) else '''')"

text \<open>A chunk that carries the text \<open>t\<close>: its delta has no tool calls, and a finish reason comes with usage.\<close>

definition carries_text :: "string \<Rightarrow> dict \<Rightarrow> bool" where
  "carries_text t chunk \<longleftrightarrow>
     (\<exists>choice delta rest. dget chunk ''choices'' (JList []) = JList (JObj choice # rest) \<and>
        dget choice ''delta'' (JObj []) = JObj delta \<and>
        (dget delta ''content'' JNull = JStr t \<or> dget delta ''content'' (JStr '''') = JNull \<and> t = '''' \<or>
         map_of delta ''content'' = None \<and> t = '''') \<and>
        \<not> truthy (dget delta ''tool_calls'' JNull) \<and>
        (truthy (dget choice ''finish_reason'' JNull) \<longrightarrow>
           hashable (dget choice ''finish_reason'' JNull) \<and> (\<exists>u. dget chunk ''usage'' (JObj []) = JObj u)))"

lemma dget_default: "dget d k v = w \<Longrightarrow> w \<noteq> v \<Longrightarrow> dget d k v' = w"
  by (auto simp: dget_def split: option.splits)

lemma carries_textE:
  assumes "carries_text t chunk"
  obtains choice delta where "chunk_delta chunk = Inr (Some (choice, delta))"
    "dget chunk ''choices'' (JList []) \<noteq> JList []" "item_zero (dget chunk ''choices'' (JList [])) = Inr (JObj choice)"
    "dget choice ''delta'' (JObj []) = JObj delta"
    "text_or_empty (dget delta ''content'' (JStr '''')) = t"
    "py_or (dget delta ''content'' JNull) (JStr '''') = JStr t"
    "\<not> truthy (dget delta ''tool_calls'' JNull)"
    "truthy (dget choice ''finish_reason'' JNull) \<Longrightarrow>
       hashable (dget choice ''finish_reason'' JNull) \<and> (\<exists>u. dget chunk ''usage'' (JObj []) = JObj u)"
proof -
  obtain choice delta rest where c: "dget chunk ''choices'' (JList []) = JList (JObj choice # rest)"
      "dget choice ''delta'' (JObj []) = JObj delta"
      "dget delta ''content'' JNull = JStr t \<or> dget delta ''content'' (JStr '''') = JNull \<and> t = '''' \<or>
         map_of delta ''content'' = None \<and> t = ''''"
      "\<not> truthy (dget delta ''tool_calls'' JNull)"
      "truthy (dget choice ''finish_reason'' JNull) \<longrightarrow>
         hashable (dget choice ''finish_reason'' JNull) \<and> (\<exists>u. dget chunk ''usage'' (JObj []) = JObj u)"
    using assms by (auto simp: carries_text_def)
  have "dget chunk ''choices'' JNull = JList (JObj choice # rest)" using c(1) by (rule dget_default) simp
  moreover have "as_dict (py_or (dget choice ''delta'' JNull) (JObj [])) = Inr delta"
    using c(2) by (auto simp: dget_def py_or_def split: option.splits)
  ultimately have "chunk_delta chunk = Inr (Some (choice, delta))" by (simp add: chunk_delta_def py_or_def)
  moreover have "text_or_empty (dget delta ''content'' (JStr '''')) = t" "py_or (dget delta ''content'' JNull) (JStr '''') = JStr t"
    using c(3) by (auto simp: dget_def py_or_def split: option.splits)
  ultimately show thesis using that c by simp
qed

lemma openai_sse_carries:
  assumes "carries_text t chunk"
  shows "\<exists>sse. internal_chunk_to_openai_sse ts chunk = Inr sse \<and> openai_sse_text sse = t"
  using assms
proof (rule carries_textE)
  fix choice delta
  assume "dget chunk ''choices'' (JList []) \<noteq> JList []" "item_zero (dget chunk ''choices'' (JList [])) = Inr (JObj choice)"
    "dget choice ''delta'' (JObj []) = JObj delta" "text_or_empty (dget delta ''content'' (JStr '''')) = t"
    "chunk_delta chunk = Inr (Some (choice, delta))"
  moreover from this(1,2) have "truthy (dget chunk ''choices'' (JList []))"
    by (cases "dget chunk ''choices'' (JList [])") auto
  ultimately show ?thesis
    by (auto simp: internal_chunk_to_openai_sse_def Let_def openai_sse_text_def chunk_head_def str_item_def)
qed

lemma token_counts_dict [simp]: "\<exists>c. token_counts (JObj u) = Inr c"
  by (simp add: token_counts_def)

lemma anthropic_carries:
  assumes "carries_text t chunk"
  shows "\<exists>evs. internal_chunk_to_anthropic_sse hx chunk = Inr evs \<and> concat (map anthropic_event_text evs) = t"
  using assms
proof (rule carries_textE)
  fix choice delta
  assume c: "chunk_delta chunk = Inr (Some (choice, delta))" "py_or (dget delta ''content'' JNull) (JStr '''') = JStr t"
    "\<not> truthy (dget delta ''tool_calls'' JNull)"
    "truthy (dget choice ''finish_reason'' JNull) \<Longrightarrow>
       hashable (dget choice ''finish_reason'' JNull) \<and> (\<exists>u. dget chunk ''usage'' (JObj []) = JObj u)"
  have "\<exists>evs. anthropic_finish_event chunk (dget choice ''finish_reason'' JNull) = Inr evs \<and>
      concat (map anthropic_event_text evs) = ''''"
    using c(4) by (auto simp: anthropic_finish_event_def token_counts_def anthropic_event_text_def str_item_def Let_def)
  then obtain evs where "anthropic_finish_event chunk (dget choice ''finish_reason'' JNull) = Inr evs"
      "concat (map anthropic_event_text evs) = ''''" by blast
  then show ?thesis using c(1-3)
    by (auto simp: internal_chunk_to_anthropic_sse_def Let_def concat_mapE_def anthropic_event_text_def block_delta_def
        message_start_event_def str_item_def)
qed

lemma responses_carries:
  assumes "carries_text t chunk"
  shows "\<exists>evs. internal_chunk_to_responses_sse hx is_first False i created chunk = Inr evs \<and>
    concat (map responses_event_text evs) = t"
  using assms
proof (rule carries_textE)
  fix choice delta
  assume c: "chunk_delta chunk = Inr (Some (choice, delta))" "py_or (dget delta ''content'' JNull) (JStr '''') = JStr t"
    "\<not> truthy (dget delta ''tool_calls'' JNull)"
    "truthy (dget choice ''finish_reason'' JNull) \<Longrightarrow>
       hashable (dget choice ''finish_reason'' JNull) \<and> (\<exists>u. dget chunk ''usage'' (JObj []) = JObj u)"
  have "\<exists>evs. (if truthy (dget choice ''finish_reason'' JNull)
        then response_completed_events hx i (dget chunk ''usage'' (JObj [])) else Inr []) = Inr evs \<and>
      concat (map responses_event_text evs) = ''''"
    using c(4) by (auto simp: response_completed_events_def responses_usage_def token_counts_def responses_event_text_def str_item_def)
  then obtain evs where "(if truthy (dget choice ''finish_reason'' JNull)
        then response_completed_events hx i (dget chunk ''usage'' (JObj [])) else Inr []) = Inr evs"
      "concat (map responses_event_text evs) = ''''" by blast
  then show ?thesis using c(1-3)
    by (auto simp: internal_chunk_to_responses_sse_def Let_def concat_mapE_def responses_event_text_def responses_delta_def
        response_created_events_def str_item_def)
qed


lemma mapE_list_all2:
  assumes "list_all2 P ts cs" "\<And>t c. P t c \<Longrightarrow> \<exists>y. f c = Inr y \<and> g y = t"
  shows "\<exists>ys. mapE f cs = Inr ys \<and> map g ys = ts"
  using assms(1)
proof induction
  case (Cons t ts c cs)
  then obtain ys where "mapE f cs = Inr ys" "map g ys = ts" by blast
  moreover obtain y where "f c = Inr y" "g y = t" using assms(2) [OF Cons.hyps(1)] by blast
  ultimately show ?case by simp
qed simp

text \<open>The three stream formats carry the same text. For chunks with texts \<open>ts\<close> whose finish reason, when
  they have one, comes with usage, all three serializations succeed, and the text a client takes from the
  OpenAI chunks, from the Anthropic events and from the Responses events is the concatenation of \<open>ts\<close>.\<close>

lemma stream_formats_same_text:
  assumes "list_all2 carries_text ts chunks"
  shows "\<exists>sses a_events r_events.
    mapE (internal_chunk_to_openai_sse now) chunks = Inr sses \<and>
    concat_mapE (internal_chunk_to_anthropic_sse hx) chunks = Inr a_events \<and>
    concat_mapE (internal_chunk_to_responses_sse hx is_first False i created) chunks = Inr r_events \<and>
    concat (map openai_sse_text sses) = concat ts \<and> concat (map anthropic_event_text a_events) = concat ts \<and>
    concat (map responses_event_text r_events) = concat ts"
proof -
  obtain sses where o: "mapE (internal_chunk_to_openai_sse now) chunks = Inr sses" "map openai_sse_text sses = ts"
    using mapE_list_all2 [where f = "internal_chunk_to_openai_sse now" and g = openai_sse_text, OF assms openai_sse_carries]
    by blast
  obtain as where a: "mapE (internal_chunk_to_anthropic_sse hx) chunks = Inr as"
      "map (\<lambda>evs. concat (map anthropic_event_text evs)) as = ts"
    using mapE_list_all2 [where f = "internal_chunk_to_anthropic_sse hx" and g = "\<lambda>evs. concat (map anthropic_event_text evs)",
        OF assms anthropic_carries] by blast
  obtain rs where r: "mapE (internal_chunk_to_responses_sse hx is_first False i created) chunks = Inr rs"
      "map (\<lambda>evs. concat (map responses_event_text evs)) rs = ts"
    using mapE_list_all2 [where f = "internal_chunk_to_responses_sse hx is_first False i created"
        and g = "\<lambda>evs. concat (map responses_event_text evs)", OF assms responses_carries] by blast
  have "concat (map f (concat xss)) = concat (map (\<lambda>xs. concat (map f xs)) xss)" for f :: "json \<Rightarrow> string" and xss
    by (induction xss) simp_all
  then show ?thesis using o a r by (auto simp: concat_mapE_def)
qed

definition text_chunk :: "string \<Rightarrow> dict" where
  "text_chunk t = unified_chunk ''openai'' ''m'' (JStr ''c1'') (JInt 0) [str_item ''role'' ''assistant'', str_item ''content'' t] JNull JNull"

subsection \<open>Finish chunks without usage\<close>

lemma dget_item_if [simp, dict_simps]:
  "dget (item_if c k v @ d) k' w = (if c \<and> k' = k then v else dget d k' w)"
  "dget (item_if c k v) k' w = (if c \<and> k' = k then v else w)"
  by (simp_all add: item_if_def)

lemma py_or_not_null: "b \<noteq> JNull \<Longrightarrow> py_or a b \<noteq> JNull"
  by (auto simp: py_or_def)

lemma openai_chunk_shape:
  assumes "openai_chunk_to_unified so data model = Inr chunk" "first_choice data = Inr (JObj choice)" "\<not> truthy (dget data ''usage'' JNull)"
  obtains delta where "chunk = unified_chunk ''openai'' model (dget data ''id'' (JStr '''')) (dget choice ''index'' (JInt 0)) delta
      (dget choice ''finish_reason'' JNull) JNull"
    "\<exists>t. dget delta ''content'' JNull = JStr t" "dget delta ''role'' JNull \<noteq> JNull"
    "dget delta ''tool_calls'' JNull = JNull \<or>
     (\<exists>d. dget choice ''delta'' JNull = JObj d \<and> dget delta ''tool_calls'' JNull = dget d ''tool_calls'' JNull)"
proof -
  obtain d where d: "as_dict (py_or (dget choice ''delta'' JNull) (JObj [])) = Inr d"
    using assms(1,2) by (auto simp: openai_chunk_to_unified_def bindE_eq_Inr)
  obtain delta where delta: "openai_delta so d = Inr delta"
      "chunk = unified_chunk ''openai'' model (dget data ''id'' (JStr '''')) (dget choice ''index'' (JInt 0)) delta
         (dget choice ''finish_reason'' JNull) JNull"
    using assms d by (auto simp: openai_chunk_to_unified_def bindE_eq_Inr)
  obtain t where "extract_text so (dget d ''content'' JNull) = Inr t"
    using delta(1) by (auto simp: openai_delta_def bindE_eq_Inr)
  then have shape: "delta = [(''role'', py_or (dget d ''role'' JNull) (JStr ''assistant'')), str_item ''content'' t] @
      item_if (truthy (dget d ''reasoning_content'' JNull)) ''reasoning_content'' (dget d ''reasoning_content'' JNull) @
      item_if (truthy (dget d ''tool_calls'' JNull)) ''tool_calls'' (dget d ''tool_calls'' JNull) @
      item_if (truthy (dget d ''function_call'' JNull)) ''function_call'' (dget d ''function_call'' JNull)"
    using delta(1) by (simp add: openai_delta_def)
  have "dget choice ''delta'' JNull = JObj d \<or> d = []"
    using d by (cases "dget choice ''delta'' JNull") (auto simp: py_or_def split: if_splits)
  moreover have "dget delta ''content'' JNull = JStr t" "dget delta ''role'' JNull \<noteq> JNull"
    "dget delta ''tool_calls'' JNull = JNull \<or> dget delta ''tool_calls'' JNull = dget d ''tool_calls'' JNull"
    by (simp_all add: shape str_item_def py_or_not_null)
  ultimately show thesis using that [OF delta(2)] by (metis dget_Nil)
qed

text \<open>A finish chunk without usage breaks two of the three formats. When an OpenAI-compatible upstream
  sends the chunk that finishes an answer and sends the usage apart (or not at all), as the OpenAI API does,
  the unified chunk has a null usage: the OpenAI format serializes it, the Anthropic and the Responses
  format raise an \<open>AttributeError\<close>, so the stream ends with an error line after all of the text.\<close>

lemma finish_without_usage_raises:
  assumes "openai_chunk_to_unified so data model = Inr chunk"
    and "first_choice data = Inr (JObj choice)" "dget choice ''finish_reason'' JNull = JStr f" "f \<noteq> ''''"
    and "\<not> truthy (dget data ''usage'' JNull)" "\<not> truthy (dget (attrs (dget choice ''delta'' JNull)) ''tool_calls'' JNull)"
  shows "(\<exists>lines. fst (openai_serialize dumps ts n (dset ''model'' m chunk)) = Inr (lines, JNull)) \<and>
    fst (anthropic_serialize dumps hx n (dset ''model'' m chunk)) = Inl (raised_by_python AttributeErrorExc) \<and>
    fst (responses_serialize dumps hx i created n (dset ''model'' m chunk)) = Inl (raised_by_python AttributeErrorExc)"
  using assms(1,2,5)
proof (rule openai_chunk_shape)
  fix delta
  assume chunk: "chunk = unified_chunk ''openai'' model (dget data ''id'' (JStr '''')) (dget choice ''index'' (JInt 0)) delta
      (dget choice ''finish_reason'' JNull) JNull"
    and tools: "dget delta ''tool_calls'' JNull = JNull \<or>
     (\<exists>d. dget choice ''delta'' JNull = JObj d \<and> dget delta ''tool_calls'' JNull = dget d ''tool_calls'' JNull)"
  let ?c = "dset ''model'' m chunk"
  let ?choice = "[(''index'', dget choice ''index'' (JInt 0)), (''delta'', JObj delta), (''finish_reason'', JStr f)]"
  have c: "dget chunk ''choices'' v = JList [JObj ?choice]" "dget chunk ''usage'' v = JNull" for v
    by (simp_all add: chunk unified_chunk_def str_item_def provider_tag_def assms(3))
  have no_tools: "\<not> truthy (dget delta ''tool_calls'' JNull)" using tools assms(6) by auto
  have delta: "chunk_delta ?c = Inr (Some (?choice, delta))"
    by (simp add: chunk_delta_def c py_or_def)
  have first: "bindE (first_choice ?c) as_dict = Inr ?choice"
    by (simp add: first_choice_def c py_or_def)
  show ?thesis
    using assms(4) no_tools
    by (simp add: openai_serialize_def internal_chunk_to_openai_sse_def anthropic_serialize_def
        internal_chunk_to_anthropic_sse_def responses_serialize_def responses_serialize_raw_def
        internal_chunk_to_responses_sse_def c delta first concat_mapE_def anthropic_finish_event_def
        response_completed_events_def responses_usage_def token_counts_def Let_def chunk_head_def str_item_def item_if_def)
qed

definition upstream_finish :: dict where
  "upstream_finish = [str_item ''id'' ''c1'', (''choices'', JList [JObj [(''index'', JInt 0), (''delta'', JObj []),
     str_item ''finish_reason'' ''stop'']]), (''usage'', JNull)]"

text \<open>Every unified chunk of an OpenAI-compatible upstream has a role and a content, so each of them gives
  another \<open>message_start\<close> event.\<close>

lemma every_chunk_starts_message:
  assumes "openai_chunk_to_unified so data model = Inr chunk" "first_choice data = Inr (JObj choice)"
    "\<not> truthy (dget data ''usage'' JNull)" "py_or (dget (attrs (dget choice ''delta'' JNull)) ''role'' JNull) (JStr ''assistant'') = JStr ''assistant''"
    "internal_chunk_to_anthropic_sse hx chunk = Inr evs"
  shows "hd evs = message_start_event hx chunk"
proof -
  obtain d where d: "as_dict (py_or (dget choice ''delta'' JNull) (JObj [])) = Inr d"
    using assms(1,2) by (auto simp: openai_chunk_to_unified_def bindE_eq_Inr)
  then have "attrs (dget choice ''delta'' JNull) = d"
    by (cases "dget choice ''delta'' JNull") (auto simp: py_or_def split: if_splits)
  moreover obtain delta where delta: "openai_delta so d = Inr delta"
      "chunk = unified_chunk ''openai'' model (dget data ''id'' (JStr '''')) (dget choice ''index'' (JInt 0)) delta
         (dget choice ''finish_reason'' JNull) JNull"
    using assms(1-3) d by (auto simp: openai_chunk_to_unified_def bindE_eq_Inr)
  ultimately have "dget delta ''role'' JNull = JStr ''assistant''" "dget delta ''content'' JNull \<noteq> JNull"
    using assms(4) by (auto simp: openai_delta_def bindE_eq_Inr str_item_def)
  moreover have "chunk_delta chunk = Inr (Some ([(''index'', dget choice ''index'' (JInt 0)), (''delta'', JObj delta),
      (''finish_reason'', dget choice ''finish_reason'' JNull)], delta))"
    by (simp add: delta(2) unified_chunk_def chunk_delta_def py_or_def str_item_def)
  ultimately show ?thesis using assms(5)
    by (auto simp: internal_chunk_to_anthropic_sse_def Let_def bindE_eq_Inr)
qed

subsection \<open>Deduplication\<close>

lemma cached_answer_of_row:
  assumes "get_config (dedup_key (fr_so F) rid) (gw_db (sv_gw s)) = Some (dumps (dedup_row text t))"
    "fr_loads F (dumps (dedup_row text t)) = Some (dedup_row text t)" "dumps (dedup_row text t) \<noteq> ''''"
    "fr_loads F text = Some v" "text \<noteq> ''''"
  shows "cached_answer F rid s = (if fr_wall F (gw_world (sv_gw s)) - t < of_int (fr_ttl F) then Some (Inr v) else None)"
  using assms by (simp add: cached_answer_def check_request_deduplication_def dedup_row_def str_item_def Let_def)

text \<open>C17: a repeated request is answered from the cache. When a request that does not stream was run and
  answered with \<open>d\<close>, then within the time to live every later request with the same id that does not stream,
  whatever its client key, its model and its messages are, gets \<open>d\<close> again, with no call, no log row and no
  other effect, as long as the row is there; after the time to live it is run. The id is the text the client
  put into the body, and only without one a hash that depends on the key.\<close>

theorem repeated_request_is_replayed:
  assumes "chat_completions F D ctx body s = Some (Inr (Answer (JObj d)), s1)"
    and "\<not> truthy (dget body ''stream'' (JBool False))" "cached_answer F (request_id_of F body (rc_api_key_id ctx)) s = None"
    and "\<not> truthy (dget body2 ''stream'' (JBool False))"
    and "request_id_of F body2 (rc_api_key_id ctx2) = request_id_of F body (rc_api_key_id ctx)"
    and "row = dr_dumps D (dedup_row (fr_render F d) (fr_wall F (gw_world (sv_gw s1))))"
      "fr_loads F row = Some (dedup_row (fr_render F d) (fr_wall F (gw_world (sv_gw s1))))" "row \<noteq> ''''"
    and "fr_loads F (fr_render F d) = Some (JObj d)" "fr_render F d \<noteq> ''''"
    and "get_config (dedup_key (fr_so F) (request_id_of F body (rc_api_key_id ctx))) (gw_db (sv_gw s2)) =
      get_config (dedup_key (fr_so F) (request_id_of F body (rc_api_key_id ctx))) (gw_db (sv_gw s1))"
  shows "if fr_wall F (gw_world (sv_gw s2)) - fr_wall F (gw_world (sv_gw s1)) < of_int (fr_ttl F)
    then chat_completions F D ctx2 body2 s2 = Some (Inr (Answer (JObj d)), s2)
    else cached_answer F (request_id_of F body2 (rc_api_key_id ctx2)) s2 = None"
proof -
  let ?rid = "request_id_of F body (rc_api_key_id ctx)"
  have stream: "\<not> truthy (dget (openai_to_internal b) ''stream'' JNull)" if "\<not> truthy (dget b ''stream'' (JBool False))" for b
    using that by (simp add: openai_to_internal_def)
  obtain s0 where s1: "s1 = s0\<lparr>sv_gw := cache_request_result F (dr_dumps D) ?rid (fr_render F d) (sv_gw s0)\<rparr>"
    using assms(1,3) stream [OF assms(2)]
    by (auto simp: chat_completions_def Let_def bindE_eq_Inr split: option.splits sum.splits)
  then have "gw_world (sv_gw s1) = gw_world (sv_gw s0)" by (simp add: cache_request_result_def Let_def)
  then have "get_config (dedup_key (fr_so F) ?rid) (gw_db (sv_gw s2)) = Some row"
    using assms(11) by (simp add: s1 cache_request_result_def Let_def get_config_def set_config_def update_conv' assms(6))
  then have "cached_answer F ?rid s2 = (if fr_wall F (gw_world (sv_gw s2)) - fr_wall F (gw_world (sv_gw s1)) < of_int (fr_ttl F)
      then Some (Inr (JObj d)) else None)"
    using cached_answer_of_row [where dumps = "dr_dumps D"] assms(6-10) by blast
  then show ?thesis using stream [OF assms(4)] assms(5) by (simp add: chat_completions_def Let_def)
qed


text \<open>Two tenants that send different bodies with the same \<open>request_id\<close>: the second gets the first one's answer.\<close>

definition tenant_answer :: dict where
  "tenant_answer = [str_item ''id'' '''', str_item ''object'' ''chat.completion'', (''created'', JInt 0), str_item ''model'' ''g'',
     (''choices'', JList []), (''usage'', JObj [])]"

definition toy_front :: "int front" where
  "toy_front = \<lparr>fr_so = (\<lambda>j. ''''), fr_loads = (\<lambda>s. Some (if s = ''{}'' then dedup_row ''R'' 1 else JObj tenant_answer)),
     fr_dumps_sorted = (\<lambda>j. ''j''), fr_sha = (\<lambda>s. s), fr_render = (\<lambda>d. ''R''), fr_wall = of_int, fr_ttl = 300,
     fr_chunk_time = int, fr_chunk_hex = (\<lambda>n k. ''''), fr_time = 0, fr_hex = (\<lambda>k. '''')\<rparr>"

definition ok_env :: "int env" where
  "ok_env = flaky_env\<lparr>e_chat := (\<lambda>inst args w. (Inr [], w + 1))\<rparr>"

definition tenant_body :: dict where
  "tenant_body = [str_item ''model'' ''g'', str_item ''request_id'' ''q1'']"

definition other_body :: dict where
  "other_body = [str_item ''model'' ''h'', str_item ''request_id'' ''q1'', (''messages'', JList [chat_message (''user'', ''Hi'')])]"

definition other_ctx :: request_ctx where
  "other_ctx = \<lparr>rc_api_key_id = Some 2, rc_request_id = Some ''r2''\<rparr>"

lemma tenant_run:
  "case chat_completions toy_front (sample_drv ok_env) sample_ctx tenant_body sample_srv of
     Some (Inr (Answer (JObj d)), s) \<Rightarrow> d = tenant_answer \<and> gw_world (sv_gw s) = 1 | _ \<Rightarrow> False"
  by code_simp

lemma tenant_first: "cached_answer toy_front (request_id_of toy_front tenant_body (rc_api_key_id sample_ctx)) sample_srv = None"
  by (simp add: cached_answer_def check_request_deduplication_def get_config_def sample_srv_def one_group_db_def empty_db_def)

theorem repeated_request_is_replayed_witness:
  "\<exists>s1. chat_completions toy_front (sample_drv ok_env) sample_ctx tenant_body sample_srv = Some (Inr (Answer (JObj tenant_answer)), s1) \<and>
     chat_completions toy_front (sample_drv ok_env) other_ctx other_body s1 = Some (Inr (Answer (JObj tenant_answer)), s1)"
proof -
  obtain s1 where s1: "chat_completions toy_front (sample_drv ok_env) sample_ctx tenant_body sample_srv =
      Some (Inr (Answer (JObj tenant_answer)), s1)" and w: "gw_world (sv_gw s1) = 1"
    using tenant_run by (auto split: option.splits prod.splits sum.splits reply.splits json.splits)
  have stream: "\<not> truthy (dget tenant_body ''stream'' (JBool False))" "\<not> truthy (dget other_body ''stream'' (JBool False))"
    by (simp_all add: tenant_body_def other_body_def str_item_def)
  have rid: "request_id_of toy_front other_body (rc_api_key_id other_ctx) = request_id_of toy_front tenant_body (rc_api_key_id sample_ctx)"
    by (simp add: request_id_of_def tenant_body_def other_body_def str_item_def py_or_def)
  let ?row = "dr_dumps (sample_drv ok_env) (dedup_row (fr_render toy_front tenant_answer) (fr_wall toy_front (gw_world (sv_gw s1))))"
  have json: "fr_loads toy_front ?row = Some (dedup_row (fr_render toy_front tenant_answer) (fr_wall toy_front (gw_world (sv_gw s1))))"
    "?row \<noteq> ''''" "fr_loads toy_front (fr_render toy_front tenant_answer) = Some (JObj tenant_answer)" "fr_render toy_front tenant_answer \<noteq> ''''"
    by (simp_all add: sample_drv_def toy_front_def w)
  from repeated_request_is_replayed [OF s1 stream(1) tenant_first stream(2) rid refl json refl] s1 show ?thesis
    by (auto simp: toy_front_def)
qed

end
