(* ===== verification/Admin.thy ===== *)
theory Admin
  imports Gateway Auth Logs
begin

text \<open>
  The management API of \<open>src/botflow/admin_api.py\<close>, lines 364 to 894 without the statistics (theory
  \<open>Stats\<close>) and the settings (theory \<open>Settings\<close>), with the \<open>_raw\<close> operations of
  \<open>src/botflow/storage/db.py\<close> it calls and the model synchronisation of \<open>src/botflow/core.py\<close>.

  A handler returns the payload of its answer; the envelope \<open>{"success": True, ...}\<close> around it is left
  out, and of the \<open>detail\<close> of an error its text is kept. The dependency \<open>verify_admin_key\<close> that guards
  each handler is in theory \<open>Auth\<close>. A PATCH body is a record of optional fields, \<open>None\<close> for a key that
  was not sent. The rows that a list handler dumps are given as they are.
\<close>

subsection \<open>The operations with scalar arguments\<close>

definition create_provider_raw :: "string \<Rightarrow> string \<Rightarrow> string \<Rightarrow> string \<Rightarrow> bool \<Rightarrow> dict option \<Rightarrow> db \<Rightarrow> (int \<times> db) res" where
  "create_provider_raw name ptype base_url key is_enabled extra db =
     create_provider \<lparr>p_name = name, p_provider_type = ptype, p_api_key = key, p_base_url = base_url,
       p_extra_config = (case extra of None \<Rightarrow> [] | Some d \<Rightarrow> d), p_is_enabled = is_enabled,
       p_created_at = sql_now db, p_updated_at = sql_now db\<rparr> db"

definition get_provider_raw :: "int \<Rightarrow> db \<Rightarrow> (int \<times> provider) option" where
  "get_provider_raw pid db = get_row (providers db) pid"

definition list_providers_raw :: "db \<Rightarrow> (int \<times> provider) list" where
  "list_providers_raw db = list_providers False db"

text \<open>The \<open>_raw\<close> updates do not set \<open>updated_at\<close>.\<close>

definition update_provider_raw :: "int \<Rightarrow> string \<Rightarrow> string \<Rightarrow> string \<Rightarrow> string \<Rightarrow> bool \<Rightarrow> dict option \<Rightarrow> db \<Rightarrow> db res" where
  "update_provider_raw pid name ptype base_url key is_enabled extra db =
     (let t = update_rows (\<lambda>ir. fst ir = pid)
            (\<lambda>p. \<lparr>p_name = name, p_provider_type = ptype, p_api_key = key, p_base_url = base_url,
                   p_extra_config = (case extra of None \<Rightarrow> p_extra_config p | Some d \<Rightarrow> d),
                   p_is_enabled = is_enabled, p_created_at = p_created_at p, p_updated_at = p_updated_at p\<rparr>) (providers db)
      in check_constraint (unique_on p_name t) (db\<lparr>providers := t\<rparr>))"

definition delete_provider_raw :: "int \<Rightarrow> db \<Rightarrow> nat \<times> db" where
  "delete_provider_raw pid db = delete_provider pid db"

definition create_model_raw :: "model \<Rightarrow> db \<Rightarrow> (int \<times> db) res" where
  "create_model_raw m db = create_model m db"

definition get_model_raw :: "int \<Rightarrow> db \<Rightarrow> (int \<times> model) option" where
  "get_model_raw mid db = get_row (models db) mid"

definition list_models_raw :: "int option \<Rightarrow> bool \<Rightarrow> db \<Rightarrow> (int \<times> model) list" where
  "list_models_raw pid enabled_only db = list_models pid enabled_only db"

text \<open>The provider of a model is no argument; \<open>extra\<close> is \<open>None\<close> to keep the column.\<close>

definition update_model_raw :: "int \<Rightarrow> string \<Rightarrow> int \<Rightarrow> bool \<Rightarrow> string \<Rightarrow> string \<Rightarrow> int \<Rightarrow> int \<Rightarrow> int \<Rightarrow> dict option \<Rightarrow>
    db \<Rightarrow> db res" where
  "update_model_raw mid name window is_enabled display_name api_format max_retries seconds threshold extra db =
     (let db' = db\<lparr>models := update_rows (\<lambda>ir. fst ir = mid)
            (\<lambda>m. \<lparr>m_name = name, m_provider_id = m_provider_id m, m_display_name = display_name,
                   m_api_format = api_format, m_max_retries = max_retries, m_cooldown_seconds = seconds,
                   m_cooldown_failure_threshold = threshold,
                   m_extra_config = (case extra of None \<Rightarrow> m_extra_config m | Some d \<Rightarrow> d),
                   m_is_enabled = is_enabled, m_context_window = window,
                   m_created_at = m_created_at m, m_updated_at = m_updated_at m\<rparr>) (models db)\<rparr>
      in check_constraint (models_ok db') db')"

definition delete_model_raw :: "int \<Rightarrow> db \<Rightarrow> nat \<times> db" where
  "delete_model_raw mid db = delete_model mid db"

definition create_group_raw :: "string \<Rightarrow> string \<Rightarrow> bool \<Rightarrow> int option \<Rightarrow> string \<Rightarrow> dict option \<Rightarrow> db \<Rightarrow> (int \<times> db) res" where
  "create_group_raw name description is_enabled fallback gtype params db =
     create_group \<lparr>g_name = name, g_description = description, g_type = gtype,
       g_params = (case params of None \<Rightarrow> [] | Some d \<Rightarrow> d), g_is_enabled = is_enabled,
       g_fallback_group_id = fallback, g_created_at = sql_now db, g_updated_at = sql_now db\<rparr> db"

definition get_group_raw :: "int \<Rightarrow> db \<Rightarrow> (int \<times> model_group) option" where
  "get_group_raw gid db = get_row (model_groups db) gid"

definition list_groups_raw :: "bool \<Rightarrow> db \<Rightarrow> (int \<times> model_group) list" where
  "list_groups_raw enabled_only db = list_groups enabled_only db"

text \<open>Without \<open>params\<close> the column is reset to the empty object.\<close>

definition update_group_raw :: "int \<Rightarrow> string \<Rightarrow> string \<Rightarrow> bool \<Rightarrow> int option \<Rightarrow> string \<Rightarrow> dict option \<Rightarrow> db \<Rightarrow> db res" where
  "update_group_raw gid name description is_enabled fallback gtype params db =
     (let t = update_rows (\<lambda>ir. fst ir = gid)
            (\<lambda>g. \<lparr>g_name = name, g_description = description, g_type = gtype,
                   g_params = (case params of None \<Rightarrow> [] | Some d \<Rightarrow> d), g_is_enabled = is_enabled,
                   g_fallback_group_id = fallback, g_created_at = g_created_at g, g_updated_at = g_updated_at g\<rparr>) (model_groups db)
      in check_constraint (unique_on g_name t) (db\<lparr>model_groups := t\<rparr>))"

definition delete_group_raw :: "int \<Rightarrow> db \<Rightarrow> nat \<times> db" where
  "delete_group_raw gid db = delete_group gid db"

definition add_model_to_group_raw :: "int \<Rightarrow> int \<Rightarrow> real \<Rightarrow> db \<Rightarrow> (int \<times> db) res" where
  "add_model_to_group_raw gid mid weight db = add_model_to_group gid mid weight db"

definition remove_model_from_group_raw :: "int \<Rightarrow> int \<Rightarrow> db \<Rightarrow> db" where
  "remove_model_from_group_raw gid mid db = remove_model_from_group gid mid db"

text \<open>The column \<open>weight\<close> is \<open>NOT NULL\<close>: a \<open>NULL\<close> fails when there is a row to write it to.\<close>

definition update_model_weight_raw :: "int \<Rightarrow> int \<Rightarrow> real option \<Rightarrow> db \<Rightarrow> db res" where
  "update_model_weight_raw gid mid weight db =
     (case weight of
        Some w \<Rightarrow> Inr (update_model_weight gid mid w db)
      | None \<Rightarrow>
          check_constraint (count_rows (\<lambda>gm. gm_group_id (snd gm) = gid \<and> gm_model_id (snd gm) = mid) (group_models db) = 0) db)"

definition get_group_models_raw :: "int \<Rightarrow> db \<Rightarrow> model_detail list res" where
  "get_group_models_raw gid db = get_group_models gid False db"

subsection \<open>Handlers\<close>

definition not_found :: "string \<Rightarrow> int \<Rightarrow> exc" where
  "not_found what i = http_error 404 (what @ '' '' @ str_int i @ '' not found'')"

definition or_else :: "'a option \<Rightarrow> 'a \<Rightarrow> 'a" where
  "or_else x y = (case x of Some v \<Rightarrow> v | None \<Rightarrow> y)"

text \<open>A database operation that gives a value, one that only changes the state, and what is done next.\<close>

definition run_db :: "('a \<times> db) res \<Rightarrow> 'w gw \<Rightarrow> 'a res \<times> 'w gw" where
  "run_db r g = (case r of Inl e \<Rightarrow> (Inl e, g) | Inr (x, db) \<Rightarrow> (Inr x, g\<lparr>gw_db := db\<rparr>))"

definition write_db :: "db res \<Rightarrow> ('w gw \<Rightarrow> 'w gw) \<Rightarrow> 'w gw \<Rightarrow> unit res \<times> 'w gw" where
  "write_db r after g = (case r of Inl e \<Rightarrow> (Inl e, g) | Inr db \<Rightarrow> (Inr (), after (g\<lparr>gw_db := db\<rparr>)))"

text \<open>A \<open>DELETE\<close> that removed nothing is a 404.\<close>

definition delete_db :: "string \<Rightarrow> int \<Rightarrow> nat \<times> db \<Rightarrow> ('w gw \<Rightarrow> 'w gw) \<Rightarrow> 'w gw \<Rightarrow> unit res \<times> 'w gw" where
  "delete_db what i r after g =
     (if fst r = 0 then (Inl (not_found what i), g\<lparr>gw_db := snd r\<rparr>) else (Inr (), after (g\<lparr>gw_db := snd r\<rparr>)))"

subsubsection \<open>Providers\<close>

record provider_patch =
  pp_name :: "string option"
  pp_base_url :: "string option"
  pp_api_key :: "string option"
  pp_type :: "string option"
  pp_is_enabled :: "bool option"
  pp_extra_config :: "dict option"

definition api_create_provider :: "provider \<Rightarrow> 'w gw \<Rightarrow> int res \<times> 'w gw" where
  "api_create_provider p g =
     run_db (create_provider_raw (p_name p) (p_provider_type p) (p_base_url p) (p_api_key p) (p_is_enabled p)
       (Some (p_extra_config p)) (gw_db g)) g"

definition api_list_providers :: "'w gw \<Rightarrow> (int \<times> provider) list" where
  "api_list_providers g = list_providers_raw (gw_db g)"

definition api_get_provider :: "int \<Rightarrow> 'w gw \<Rightarrow> (int \<times> provider) res" where
  "api_get_provider pid g =
     (case get_provider_raw pid (gw_db g) of None \<Rightarrow> Inl (not_found ''Provider'' pid) | Some p \<Rightarrow> Inr p)"

definition api_update_provider :: "'w env \<Rightarrow> int \<Rightarrow> provider_patch \<Rightarrow> 'w gw \<Rightarrow> unit res \<times> 'w gw" where
  "api_update_provider env pid req g =
     (case get_provider_raw pid (gw_db g) of
        None \<Rightarrow> (Inl (not_found ''Provider'' pid), g)
      | Some (_, p) \<Rightarrow>
          write_db (update_provider_raw pid (or_else (pp_name req) (p_name p)) (or_else (pp_type req) (p_provider_type p))
              (or_else (pp_base_url req) (p_base_url p)) (or_else (pp_api_key req) (p_api_key p))
              (or_else (pp_is_enabled req) (p_is_enabled p)) (Some (or_else (pp_extra_config req) (p_extra_config p)))
              (gw_db g))
            (invalidate_all_caches env) g)"

definition api_delete_provider :: "'w env \<Rightarrow> int \<Rightarrow> 'w gw \<Rightarrow> unit res \<times> 'w gw" where
  "api_delete_provider env pid g =
     delete_db ''Provider'' pid (delete_provider_raw pid (gw_db g)) (invalidate_all_caches env) g"

subsubsection \<open>Models\<close>

record model_patch =
  mp_name :: "string option"
  mp_context_window :: "int option"
  mp_display_name :: "string option"
  mp_api_format :: "string option"
  mp_max_retries :: "int option"
  mp_cooldown_seconds :: "int option"
  mp_cooldown_failure_threshold :: "int option"
  mp_is_enabled :: "bool option"
  mp_extra_config :: "dict option"

record create_model_req =
  cm_provider_id :: int
  cm_name :: string
  cm_context_window :: int
  cm_api_format :: string
  cm_is_enabled :: bool
  cm_extra_config :: dict

text \<open>Each model with the state of its provider; \<open>False\<close> for a provider that does not exist.\<close>

definition models_with_provider_enabled :: "db \<Rightarrow> (int \<times> model) list \<Rightarrow> ((int \<times> model) \<times> bool) list" where
  "models_with_provider_enabled db ms =
     map (\<lambda>m. (m, case map_of (map (\<lambda>ip. (fst ip, p_is_enabled (snd ip))) (list_providers_raw db)) (m_provider_id (snd m)) of
                    Some b \<Rightarrow> b | None \<Rightarrow> False)) ms"

definition api_create_model :: "create_model_req \<Rightarrow> 'w gw \<Rightarrow> int res \<times> 'w gw" where
  "api_create_model req g =
     (case get_provider_raw (cm_provider_id req) (gw_db g) of
        None \<Rightarrow> (Inl (not_found ''Provider'' (cm_provider_id req)), g)
      | Some _ \<Rightarrow>
          run_db (create_model_raw \<lparr>m_name = cm_name req, m_provider_id = cm_provider_id req, m_display_name = '''',
            m_api_format = cm_api_format req, m_max_retries = 3, m_cooldown_seconds = 60,
            m_cooldown_failure_threshold = 3, m_extra_config = cm_extra_config req, m_is_enabled = cm_is_enabled req,
            m_context_window = cm_context_window req, m_created_at = sql_now (gw_db g), m_updated_at = sql_now (gw_db g)\<rparr> (gw_db g)) g)"

definition api_list_models :: "int option \<Rightarrow> bool \<Rightarrow> 'w gw \<Rightarrow> ((int \<times> model) \<times> bool) list" where
  "api_list_models pid enabled_only g =
     models_with_provider_enabled (gw_db g) (list_models_raw pid enabled_only (gw_db g))"

definition api_get_model :: "int \<Rightarrow> 'w gw \<Rightarrow> ((int \<times> model) \<times> bool) res" where
  "api_get_model mid g =
     (case get_model_raw mid (gw_db g) of
        None \<Rightarrow> Inl (not_found ''Model'' mid)
      | Some m \<Rightarrow> Inr (hd (models_with_provider_enabled (gw_db g) [m])))"

definition api_update_model :: "'w env \<Rightarrow> int \<Rightarrow> model_patch \<Rightarrow> 'w gw \<Rightarrow> unit res \<times> 'w gw" where
  "api_update_model env mid req g =
     (case get_model_raw mid (gw_db g) of
        None \<Rightarrow> (Inl (not_found ''Model'' mid), g)
      | Some (_, m) \<Rightarrow>
          write_db (update_model_raw mid (or_else (mp_name req) (m_name m))
              (or_else (mp_context_window req) (m_context_window m)) (or_else (mp_is_enabled req) (m_is_enabled m))
              (or_else (mp_display_name req) (m_display_name m)) (or_else (mp_api_format req) (m_api_format m))
              (or_else (mp_max_retries req) (m_max_retries m)) (or_else (mp_cooldown_seconds req) (m_cooldown_seconds m))
              (or_else (mp_cooldown_failure_threshold req) (m_cooldown_failure_threshold m))
              (Some (or_else (mp_extra_config req) (m_extra_config m))) (gw_db g))
            (invalidate_all_caches env) g)"

definition api_delete_model :: "'w env \<Rightarrow> int \<Rightarrow> 'w gw \<Rightarrow> unit res \<times> 'w gw" where
  "api_delete_model env mid g =
     delete_db ''Model'' mid (delete_model_raw mid (gw_db g)) (invalidate_all_caches env) g"

subsubsection \<open>Groups\<close>

record group_patch =
  gp_name :: "string option"
  gp_description :: "string option"
  gp_is_enabled :: "bool option"
  gp_fallback_group_id :: "int option"
  gp_type :: "string option"
  gp_params :: "dict option"

record create_group_req =
  cg_name :: string
  cg_description :: string
  cg_is_enabled :: bool
  cg_fallback_group_id :: "int option"
  cg_type :: string
  cg_params :: "dict option"

definition api_create_group :: "create_group_req \<Rightarrow> 'w gw \<Rightarrow> int res \<times> 'w gw" where
  "api_create_group req g =
     run_db (create_group_raw (cg_name req) (cg_description req) (cg_is_enabled req) (cg_fallback_group_id req)
       (cg_type req) (cg_params req) (gw_db g)) g"

definition api_list_groups :: "bool \<Rightarrow> 'w gw \<Rightarrow> (int \<times> model_group) list" where
  "api_list_groups enabled_only g = list_groups_raw enabled_only (gw_db g)"

definition api_get_group :: "int \<Rightarrow> 'w gw \<Rightarrow> (int \<times> model_group) res" where
  "api_get_group gid g =
     (case get_group_raw gid (gw_db g) of None \<Rightarrow> Inl (not_found ''Group'' gid) | Some grp \<Rightarrow> Inr grp)"

definition api_update_group :: "int \<Rightarrow> group_patch \<Rightarrow> 'w gw \<Rightarrow> unit res \<times> 'w gw" where
  "api_update_group gid req g =
     (case get_group_raw gid (gw_db g) of
        None \<Rightarrow> (Inl (not_found ''Group'' gid), g)
      | Some (_, grp) \<Rightarrow>
          write_db (update_group_raw gid (or_else (gp_name req) (g_name grp))
              (or_else (gp_description req) (g_description grp)) (or_else (gp_is_enabled req) (g_is_enabled grp))
              (case gp_fallback_group_id req of Some fb \<Rightarrow> Some fb | None \<Rightarrow> g_fallback_group_id grp)
              (or_else (gp_type req) (g_type grp)) (Some (or_else (gp_params req) (g_params grp))) (gw_db g))
            (invalidate_endpoint_cache gid) g)"

definition api_delete_group :: "int \<Rightarrow> 'w gw \<Rightarrow> unit res \<times> 'w gw" where
  "api_delete_group gid g =
     delete_db ''Group'' gid (delete_group_raw gid (gw_db g)) (invalidate_endpoint_cache gid) g"

definition api_add_model_to_group :: "int \<Rightarrow> int \<Rightarrow> int \<Rightarrow> 'w gw \<Rightarrow> unit res \<times> 'w gw" where
  "api_add_model_to_group gid mid weight g =
     (case get_group_raw gid (gw_db g) of
        None \<Rightarrow> (Inl (not_found ''Group'' gid), g)
      | Some _ \<Rightarrow>
          (case get_model_raw mid (gw_db g) of
             None \<Rightarrow> (Inl (not_found ''Model'' mid), g)
           | Some _ \<Rightarrow>
               write_db (bindE (add_model_to_group_raw gid mid (of_int weight) (gw_db g)) (\<lambda>(_, db). Inr db))
                 (invalidate_endpoint_cache gid) g))"

definition api_remove_model_from_group :: "int \<Rightarrow> int \<Rightarrow> 'w gw \<Rightarrow> unit res \<times> 'w gw" where
  "api_remove_model_from_group gid mid g =
     write_db (Inr (remove_model_from_group_raw gid mid (gw_db g))) (invalidate_endpoint_cache gid) g"

definition api_update_model_weight :: "int \<Rightarrow> int \<Rightarrow> int option \<Rightarrow> 'w gw \<Rightarrow> unit res \<times> 'w gw" where
  "api_update_model_weight gid mid weight g =
     write_db (update_model_weight_raw gid mid (map_option of_int weight) (gw_db g)) (invalidate_endpoint_cache gid) g"

definition api_get_group_details :: "int \<Rightarrow> 'w gw \<Rightarrow> ((int \<times> model_group) \<times> model_detail list) res" where
  "api_get_group_details gid g =
     (case get_group_raw gid (gw_db g) of
        None \<Rightarrow> Inl (not_found ''Group'' gid)
      | Some grp \<Rightarrow> bindE (get_group_models_raw gid (gw_db g)) (\<lambda>ms. Inr (grp, ms)))"

subsubsection \<open>Logs and client keys\<close>

definition api_query_logs :: "call_log order_by \<Rightarrow> int option \<Rightarrow> int option \<Rightarrow> int option \<Rightarrow> string option \<Rightarrow> int \<Rightarrow> int \<Rightarrow>
    'w gw \<Rightarrow> (int \<times> call_log) list" where
  "api_query_logs order gid mid kid status limit offset g =
     query_call_logs order \<lparr>lf_group_id = gid, lf_model_id = mid, lf_provider_id = None, lf_api_key_id = kid,
       lf_status = status, lf_error_type = None\<rparr> limit offset (gw_db g)"

definition api_query_attempts :: "call_attempt order_by \<Rightarrow> attempt_filter \<Rightarrow> int \<Rightarrow> int \<Rightarrow> 'w gw \<Rightarrow> call_attempt list" where
  "api_query_attempts order f limit offset g = query_call_attempts order f limit offset (gw_db g)"

text \<open>What is shown of a key: its id, the first eight characters of its hash and an ellipsis, label and state.\<close>

record shown_key =
  sk_id :: int
  sk_key_hash_prefix :: string
  sk_label :: string
  sk_is_enabled :: bool

definition ellipsis :: string where
  "ellipsis = [char_of (226::nat), char_of (128::nat), char_of (166::nat)]"

definition shown_key_of :: "int \<times> api_key \<Rightarrow> shown_key" where
  "shown_key_of ik = \<lparr>sk_id = fst ik, sk_key_hash_prefix = py_take 8 (ak_key_hash (snd ik)) @ ellipsis,
     sk_label = ak_label (snd ik), sk_is_enabled = ak_is_enabled (snd ik)\<rparr>"

definition api_create_api_key :: "(string \<Rightarrow> string) \<Rightarrow> string \<Rightarrow> string \<Rightarrow> 'w gw \<Rightarrow> shown_key res \<times> 'w gw" where
  "api_create_api_key sha raw label g =
     (case create_api_key sha raw label (gw_db g) of
        Inl e \<Rightarrow> (Inl e, g)
      | Inr (None, db) \<Rightarrow> (Inl (raised_by_python AttributeErrorExc), g\<lparr>gw_db := db\<rparr>)
      | Inr (Some k, db) \<Rightarrow> (Inr (shown_key_of k), g\<lparr>gw_db := db\<rparr>))"

definition api_list_api_keys :: "'w gw \<Rightarrow> shown_key list" where
  "api_list_api_keys g = map shown_key_of (list_api_keys (gw_db g))"

definition api_set_api_key_enabled :: "int \<Rightarrow> bool \<Rightarrow> 'w gw \<Rightarrow> unit res \<times> 'w gw" where
  "api_set_api_key_enabled kid b g =
     (let (ok, db) = set_api_key_enabled kid b (gw_db g)
      in (if ok then Inr () else Inl (not_found ''API key'' kid), g\<lparr>gw_db := db\<rparr>))"

definition api_delete_api_key :: "int \<Rightarrow> 'w gw \<Rightarrow> unit res \<times> 'w gw" where
  "api_delete_api_key kid g =
     (let (ok, db) = delete_api_key kid (gw_db g)
      in (if ok then Inr () else Inl (not_found ''API key'' kid), g\<lparr>gw_db := db\<rparr>))"

end
