(* ===== verification/Sync.thy ===== *)
theory Sync
  imports Admin
begin

text \<open>
  The model synchronisation of \<open>src/botflow/core.py\<close> (lines 216 to 277) and its handler in
  \<open>src/botflow/admin_api.py\<close>.

  \<open>fetch url headers\<close> is the request to the provider: the text of the exception it fails with, or the
  body of the answer, \<open>None\<close> for a body that is not JSON (\<open>resp.json()\<close> raises outside the \<open>try\<close>). The
  rows that were created before an exception stay, as each of them was committed.
\<close>

record sync_summary =
  sy_added :: int
  sy_skipped :: int
  sy_errors :: "string list"

definition empty_summary :: sync_summary where
  "empty_summary = \<lparr>sy_added = 0, sy_skipped = 0, sy_errors = []\<rparr>"

type_synonym 'w fetch = "string \<Rightarrow> (string \<times> string) list \<Rightarrow> 'w \<Rightarrow> (string + json option) \<times> 'w"

text \<open>\<open>for item in x\<close> for the items the loop can see before it raises: a character of a string is no
  dictionary, so the first one ends the loop.\<close>

fun iterate :: "json \<Rightarrow> json list res" where
  "iterate (JList xs) = Inr xs"
| "iterate (JObj d) = Inr (map (\<lambda>kv. JStr (fst kv)) d)"
| "iterate (JStr s) = Inr (if s = [] then [] else [JStr s])"
| "iterate _ = Inl (raised_by_python TypeErrorExc)"

text \<open>The name of an item: \<open>None\<close> when it has none, an error when it is of another type.\<close>

fun item_name :: "json \<Rightarrow> string option res" where
  "item_name (JObj d) =
     (let v = dget d ''id'' (JStr '''') in
      if \<not> truthy v then Inr None
      else case v of
        JStr s \<Rightarrow> Inr (Some s)
      | JList _ \<Rightarrow> Inl (raised_by_python TypeErrorExc)
      | JObj _ \<Rightarrow> Inl (raised_by_python TypeErrorExc)
      | _ \<Rightarrow> Inl (raised_by_python (OtherException ''ValidationError'')))"
| "item_name _ = Inl (raised_by_python AttributeErrorExc)"

definition synced_model :: "int \<Rightarrow> int \<Rightarrow> string \<Rightarrow> model" where
  "synced_model now pid name =
     \<lparr>m_name = name, m_provider_id = pid, m_display_name = name, m_api_format = '''', m_max_retries = 3,
      m_cooldown_seconds = 60, m_cooldown_failure_threshold = 3, m_extra_config = [], m_is_enabled = True,
      m_context_window = 0, m_created_at = now, m_updated_at = now\<rparr>"

text \<open>The loop over the items; \<open>existing\<close> is read once, before it.\<close>

fun sync_items :: "int \<Rightarrow> string list \<Rightarrow> json list \<Rightarrow> sync_summary \<Rightarrow> db \<Rightarrow> sync_summary res \<times> db" where
  "sync_items pid existing [] sm db = (Inr sm, db)"
| "sync_items pid existing (item # items) sm db =
     (case item_name item of
        Inl e \<Rightarrow> (Inl e, db)
      | Inr None \<Rightarrow> sync_items pid existing items sm db
      | Inr (Some name) \<Rightarrow>
          if name \<in> set existing then sync_items pid existing items (sm\<lparr>sy_skipped := sy_skipped sm + 1\<rparr>) db
          else (case create_model (synced_model (sql_now db) pid name) db of
                  Inl e \<Rightarrow> (Inl e, db)
                | Inr (_, db') \<Rightarrow> sync_items pid existing items (sm\<lparr>sy_added := sy_added sm + 1\<rparr>) db'))"

text \<open>What is done with a parsed body.\<close>

definition sync_body :: "int \<Rightarrow> json \<Rightarrow> db \<Rightarrow> sync_summary res \<times> db" where
  "sync_body pid body db =
     (case body of
        JObj d \<Rightarrow>
          (case iterate (dget d ''data'' (JList [])) of
             Inl e \<Rightarrow> (Inl e, db)
           | Inr items \<Rightarrow>
               sync_items pid (map (\<lambda>im. m_name (snd im)) (list_models (Some pid) False db)) items empty_summary db)
      | _ \<Rightarrow> (Inl (raised_by_python AttributeErrorExc), db))"

definition sync_models_from_provider :: "'w fetch \<Rightarrow> int \<Rightarrow> 'w gw \<Rightarrow> sync_summary res \<times> 'w gw" where
  "sync_models_from_provider fetch pid g =
     (case get_provider pid (gw_db g) of
        None \<Rightarrow> (Inr (empty_summary\<lparr>sy_errors := [''Provider '' @ str_int pid @ '' not found'']\<rparr>), g)
      | Some (_, p) \<Rightarrow>
          let headers = (if p_api_key p \<noteq> '''' then [(''Authorization'', ''Bearer '' @ p_api_key p)] else []);
              (answer, w) = fetch (rstrip_slash (p_base_url p) @ ''/models'') headers (gw_world g);
              g1 = g\<lparr>gw_world := w\<rparr>
          in case answer of
               Inl text \<Rightarrow> (Inr (empty_summary\<lparr>sy_errors := [text]\<rparr>), g1)
             | Inr None \<Rightarrow> (Inl (raised_by_python ValueErrorExc), g1)
             | Inr (Some body) \<Rightarrow> (let (r, db) = sync_body pid body (gw_db g1) in (r, g1\<lparr>gw_db := db\<rparr>)))"

definition add_summary :: "sync_summary \<Rightarrow> sync_summary \<Rightarrow> sync_summary" where
  "add_summary a b =
     \<lparr>sy_added = sy_added a + sy_added b, sy_skipped = sy_skipped a + sy_skipped b, sy_errors = sy_errors a @ sy_errors b\<rparr>"

fun sync_providers :: "'w fetch \<Rightarrow> int list \<Rightarrow> sync_summary \<Rightarrow> 'w gw \<Rightarrow> sync_summary res \<times> 'w gw" where
  "sync_providers fetch [] sm g = (Inr sm, g)"
| "sync_providers fetch (pid # pids) sm g =
     (case sync_models_from_provider fetch pid g of
        (Inl e, g1) \<Rightarrow> (Inl e, g1)
      | (Inr sm1, g1) \<Rightarrow> sync_providers fetch pids (add_summary sm sm1) g1)"

definition sync_all_models :: "'w fetch \<Rightarrow> 'w gw \<Rightarrow> sync_summary res \<times> 'w gw" where
  "sync_all_models fetch g = sync_providers fetch (map fst (list_providers True (gw_db g))) empty_summary g"

text \<open>The handler; its \<open>success\<close> flag is the emptiness of the errors.\<close>

definition api_sync_provider :: "'w env \<Rightarrow> 'w fetch \<Rightarrow> int \<Rightarrow> 'w gw \<Rightarrow> sync_summary res \<times> 'w gw" where
  "api_sync_provider env fetch pid g =
     (case get_provider_raw pid (gw_db g) of
        None \<Rightarrow> (Inl (not_found ''Provider'' pid), g)
      | Some _ \<Rightarrow>
          (case sync_models_from_provider fetch pid g of
             (Inl e, g1) \<Rightarrow> (Inl e, g1)
           | (Inr sm, g1) \<Rightarrow> (Inr sm, invalidate_all_caches env g1)))"

end
