(* ===== verification/Admin_Facts.thy ===== *)
theory Admin_Facts
  imports Sync Strategy_Facts
begin

text \<open>
  What the management API promises to the routing: no handler leaves an endpoint in a cache that the
  database no longer describes.
\<close>

subsection \<open>Cached endpoints and the database\<close>

text \<open>An instance agrees with the provider row of its key, if that row exists.\<close>

definition inst_current :: "db \<Rightarrow> cache_key \<Rightarrow> provider_inst \<Rightarrow> bool" where
  "inst_current db key i \<longleftrightarrow>
     (\<forall>p. lookup_row (providers db) (fst key) = Some p \<longrightarrow>
        pi_api_key i = p_api_key p \<and> pi_base_url i = init_base_url (pi_class i) (p_base_url p) \<and>
        pi_extra_config i = (if snd (snd key) \<noteq> [] then dset ''proxy'' (JStr (snd (snd key))) (p_extra_config p)
                             else p_extra_config p) \<and>
        map_of provider_type_map (fst (snd key)) = Some (pi_class i))"

definition endpoint_key :: "provider \<Rightarrow> model_detail \<Rightarrow> cache_key" where
  "endpoint_key p m = (d_provider_id m, if d_api_format m \<noteq> [] then d_api_format m else p_provider_type p, d_proxy m)"

text \<open>An endpoint is current when its row is the member's and its instance has the provider's address and key.\<close>

definition endpoint_current :: "db \<Rightarrow> model_detail \<Rightarrow> endpoint \<Rightarrow> bool" where
  "endpoint_current db m ep \<longleftrightarrow> ep_detail ep = m \<and>
     (\<exists>p. lookup_row (providers db) (d_provider_id m) = Some p \<and> p_is_enabled p \<and>
        inst_current db (endpoint_key p m) (ep_provider ep))"

definition endpoints_current :: "db \<Rightarrow> int \<Rightarrow> endpoint list \<Rightarrow> bool" where
  "endpoints_current db gid eps \<longleftrightarrow>
     (\<exists>ms. get_group_models gid True db = Inr ms \<and> list_all2 (endpoint_current db) ms eps)"

definition caches_current :: "'w gw \<Rightarrow> bool" where
  "caches_current g \<longleftrightarrow>
     (\<forall>(key, i, t) \<in> set (provider_cache (gw_pool g)). fst key \<le> seq (providers (gw_db g)) \<and> inst_current (gw_db g) key i) \<and>
     (\<forall>(gid, eps, t) \<in> set (gw_endpoint_cache g). endpoints_current (gw_db g) gid eps)"

text \<open>A step of the running gateway that touches the tables or the caches: a handler of the management
  API, the synchronisation, the loading of a group's endpoints, or anything that leaves the five tables
  behind the routing and the two caches alone (a call, a log row, a configuration value).\<close>

definition same_routing_tables :: "db \<Rightarrow> db \<Rightarrow> bool" where
  "same_routing_tables db db' \<longleftrightarrow> providers db' = providers db \<and> models db' = models db \<and> model_groups db' = model_groups db \<and>
     group_models db' = group_models db"

inductive gw_step :: "'w env \<Rightarrow> 'w fetch \<Rightarrow> 'w gw \<Rightarrow> 'w gw \<Rightarrow> bool" for env fetch where
  create_provider_step: "gw_step env fetch g (snd (api_create_provider p g))"
| update_provider_step: "gw_step env fetch g (snd (api_update_provider env pid pp g))"
| delete_provider_step: "gw_step env fetch g (snd (api_delete_provider env pid g))"
| create_model_step: "gw_step env fetch g (snd (api_create_model cm g))"
| update_model_step: "gw_step env fetch g (snd (api_update_model env mid mp g))"
| delete_model_step: "gw_step env fetch g (snd (api_delete_model env mid g))"
| create_group_step: "gw_step env fetch g (snd (api_create_group cg g))"
| update_group_step: "gw_step env fetch g (snd (api_update_group gid gp g))"
| delete_group_step: "gw_step env fetch g (snd (api_delete_group gid g))"
| add_member_step: "gw_step env fetch g (snd (api_add_model_to_group gid mid w g))"
| remove_member_step: "gw_step env fetch g (snd (api_remove_model_from_group gid mid g))"
| weight_step: "gw_step env fetch g (snd (api_update_model_weight gid mid wo g))"
| sync_step: "gw_step env fetch g (snd (api_sync_provider env fetch pid g))"
| sync_all_step: "gw_step env fetch g (snd (sync_all_models fetch g))"
| load_step: "gw_step env fetch g (snd (load_endpoints env gid g))"
| other_step: "same_routing_tables (gw_db g) (gw_db g') \<Longrightarrow> gw_endpoint_cache g' = gw_endpoint_cache g \<Longrightarrow>
    provider_cache (gw_pool g') = provider_cache (gw_pool g) \<Longrightarrow> gw_step env fetch g g'"

subsection \<open>What the operations leave alone\<close>

lemma wf_update_provider_raw: "wf_db db \<Longrightarrow> update_provider_raw pid n t b k e x db = Inr db' \<Longrightarrow> wf_db db'"
  by (auto simp: wf_db_def models_ok_column group_models_ok_column update_provider_raw_def Let_def)

lemma wf_update_model_raw: "wf_db db \<Longrightarrow> update_model_raw mid n w e dn af mr s t x db = Inr db' \<Longrightarrow> wf_db db'"
  by (auto simp: wf_db_def update_model_raw_def Let_def group_models_ok_column)

lemma wf_update_group_raw: "wf_db db \<Longrightarrow> update_group_raw gid n d e f t p db = Inr db' \<Longrightarrow> wf_db db'"
  by (auto simp: wf_db_def models_ok_column group_models_ok_column update_group_raw_def Let_def)

text \<open>The rows the group query joins depend on the members of the group, their models and providers.\<close>

lemma joined_rows_cong:
  assumes "filter (\<lambda>gm. gm_group_id (snd gm) = gid) (rows (group_models db')) =
      filter (\<lambda>gm. gm_group_id (snd gm) = gid) (rows (group_models db))"
    and "\<And>gm. gm \<in> set (rows (group_models db)) \<Longrightarrow>
      lookup_row (models db') (gm_model_id (snd gm)) = lookup_row (models db) (gm_model_id (snd gm))"
    and "\<And>i m. lookup_row (models db) i = Some m \<Longrightarrow>
      lookup_row (providers db') (m_provider_id m) = lookup_row (providers db) (m_provider_id m)"
  shows "joined_rows gid b db' = joined_rows gid b db"
  unfolding joined_rows_def assms(1)
proof (rule arg_cong [of _ _ concat], rule map_cong [OF refl])
  fix gm
  assume "gm \<in> set (filter (\<lambda>gm. gm_group_id (snd gm) = gid) (rows (group_models db)))"
  then have gm: "gm \<in> set (rows (group_models db))" by simp
  show "join_row b db' gm = join_row b db gm"
    using assms(2) [OF gm] assms(3) [of "gm_model_id (snd gm)"]
    by (auto simp: join_row_def get_model_def get_provider_def get_row_def split: option.splits)
qed

lemma wf_model_provider: "wf_db db \<Longrightarrow> lookup_row (models db) i = Some m \<Longrightarrow> m_provider_id m \<in> ids (providers db)"
  by (auto simp: wf_db_def models_ok_column column_def lookup_in_rows)

lemma wf_member_model: "wf_db db \<Longrightarrow> gm \<in> set (rows (group_models db)) \<Longrightarrow> gm_model_id (snd gm) \<in> ids (models db)"
  by (auto simp: wf_db_def group_models_ok_column column_def)

lemma wf_member_group: "wf_db db \<Longrightarrow> gm \<in> set (rows (group_models db)) \<Longrightarrow> gm_group_id (snd gm) \<in> ids (model_groups db)"
  by (auto simp: wf_db_def group_models_ok_column column_def)

lemma id_le_seq: "wf_table t \<Longrightarrow> i \<in> ids t \<Longrightarrow> i \<le> seq t"
  by (auto simp: wf_table_def ids_def)

lemma lookup_insert_old: "wf_table t \<Longrightarrow> i \<le> seq t \<Longrightarrow> lookup_row (snd (insert_row r t)) i = lookup_row t i"
  by (simp add: lookup_insert_row) (simp add: insert_row_def)

lemma delete_rows_none: "count_rows p t = 0 \<Longrightarrow> delete_rows p t = t"
  by (simp add: count_rows_def delete_rows_def filter_empty_conv)

subsection \<open>The caches stay current\<close>

text \<open>What an operation must leave alone for cached endpoints to stay current: the known providers, and
  the joined rows of a group.\<close>

definition keeps_providers :: "db \<Rightarrow> db \<Rightarrow> bool" where
  "keeps_providers db db' \<longleftrightarrow> seq (providers db) \<le> seq (providers db') \<and>
     (\<forall>i \<le> seq (providers db). lookup_row (providers db') i = lookup_row (providers db) i)"

lemma keeps_providers_refl [simp]: "providers db' = providers db \<Longrightarrow> keeps_providers db db'"
  by (simp add: keeps_providers_def)

lemma keeps_providers_trans: "keeps_providers db db' \<Longrightarrow> keeps_providers db' db'' \<Longrightarrow> keeps_providers db db''"
  by (auto simp: keeps_providers_def)

lemma inst_current_keep:
  "keeps_providers db db' \<Longrightarrow> fst key \<le> seq (providers db) \<Longrightarrow> inst_current db key i \<Longrightarrow> inst_current db' key i"
  by (simp add: inst_current_def keeps_providers_def)

lemma lookup_le_seq: "wf_table t \<Longrightarrow> lookup_row t i = Some r \<Longrightarrow> i \<le> seq t"
  by (simp add: lookup_in_rows) (auto simp: wf_table_def)

lemma endpoint_current_keep:
  assumes "wf_db db" "keeps_providers db db'" "endpoint_current db m ep"
  shows "endpoint_current db' m ep"
proof -
  obtain p where p: "lookup_row (providers db) (d_provider_id m) = Some p" "p_is_enabled p"
      "inst_current db (endpoint_key p m) (ep_provider ep)" and m: "ep_detail ep = m"
    using assms(3) by (auto simp: endpoint_current_def)
  have le: "d_provider_id m \<le> seq (providers db)" using assms(1) p(1) lookup_le_seq by (auto simp: wf_db_def)
  then have "lookup_row (providers db') (d_provider_id m) = Some p" using assms(2) p(1) by (simp add: keeps_providers_def)
  moreover have "inst_current db' (endpoint_key p m) (ep_provider ep)"
    by (rule inst_current_keep [OF assms(2) _ p(3)]) (simp add: endpoint_key_def le)
  ultimately show ?thesis using p(2) m by (auto simp: endpoint_current_def)
qed

lemma endpoints_current_keep:
  assumes "wf_db db" "keeps_providers db db'" "joined_rows gid True db' = joined_rows gid True db"
    and "endpoints_current db gid eps"
  shows "endpoints_current db' gid eps"
  using assms(4) endpoint_current_keep [OF assms(1,2)]
  by (auto simp: endpoints_current_def get_group_models_def assms(3) intro: list_all2_mono)

lemma caches_current_keep:
  assumes "wf_db (gw_db g)" "keeps_providers (gw_db g) (gw_db g')" "caches_current g"
    and "set (provider_cache (gw_pool g')) \<subseteq> set (provider_cache (gw_pool g))"
    and "set (gw_endpoint_cache g') \<subseteq> set (gw_endpoint_cache g)"
    and "\<And>gid. gid \<in> fst ` set (gw_endpoint_cache g') \<Longrightarrow>
      joined_rows gid True (gw_db g') = joined_rows gid True (gw_db g)"
  shows "caches_current g'"
  unfolding caches_current_def
proof (intro conjI ballI)
  fix e
  assume "e \<in> set (provider_cache (gw_pool g'))"
  moreover obtain key i t where e: "e = (key, i, t)" by (cases e)
  ultimately have "fst key \<le> seq (providers (gw_db g))" "inst_current (gw_db g) key i"
    using assms(3,4) by (auto simp: caches_current_def)
  then show "case e of (key, i, t) \<Rightarrow> fst key \<le> seq (providers (gw_db g')) \<and> inst_current (gw_db g') key i"
    using inst_current_keep [OF assms(2)] assms(2) by (auto simp: e keeps_providers_def)
next
  fix e
  assume mem: "e \<in> set (gw_endpoint_cache g')"
  obtain gid eps t where e: "e = (gid, eps, t)" by (cases e)
  have "endpoints_current (gw_db g) gid eps" using assms(3,5) mem by (auto simp: caches_current_def e)
  moreover have "gid \<in> fst ` set (gw_endpoint_cache g')" using mem e by force
  ultimately have "endpoints_current (gw_db g') gid eps" using endpoints_current_keep [OF assms(1,2) assms(6)] by blast
  then show "case e of (gid, eps, t) \<Rightarrow> endpoints_current (gw_db g') gid eps" by (simp add: e)
qed

lemma caches_current_empty [simp]:
  "caches_current (g\<lparr>gw_endpoint_cache := [], gw_pool := invalidate_all_providers b t pl\<rparr>)"
  by (simp add: caches_current_def invalidate_all_providers_def)

lemma caches_current_invalidated [simp]: "caches_current (invalidate_all_caches env g)"
  by (simp add: caches_current_def invalidate_all_caches_def invalidate_all_providers_def)

text \<open>What an operation on the database keeps: everything, or everything but the members of one group.\<close>

definition keeps_all :: "db \<Rightarrow> db \<Rightarrow> bool" where
  "keeps_all db db' \<longleftrightarrow> wf_db db' \<and> keeps_providers db db' \<and> (\<forall>gid. joined_rows gid True db' = joined_rows gid True db)"

definition keeps_others :: "int \<Rightarrow> db \<Rightarrow> db \<Rightarrow> bool" where
  "keeps_others gid db db' \<longleftrightarrow> wf_db db' \<and> keeps_providers db db' \<and>
     (\<forall>gid'. gid' \<noteq> gid \<longrightarrow> joined_rows gid' True db' = joined_rows gid' True db)"

lemma keeps_all_trans: "keeps_all db db' \<Longrightarrow> keeps_all db' db'' \<Longrightarrow> keeps_all db db''"
  by (auto simp: keeps_all_def intro: keeps_providers_trans)

text \<open>The good states.\<close>

definition good :: "'w gw \<Rightarrow> bool" where
  "good g \<longleftrightarrow> wf_db (gw_db g) \<and> caches_current g"

lemma good_same_db: "wf_db (gw_db g) \<Longrightarrow> caches_current g \<Longrightarrow> good g"
  by (simp add: good_def)

text \<open>A handler that runs an operation which keeps everything, one that clears the caches, and one that
  drops the entry of one group.\<close>

lemma good_run_db:
  assumes "good g" "\<And>x db'. r = Inr (x, db') \<Longrightarrow> keeps_all (gw_db g) db'"
  shows "good (snd (run_db r g))"
proof (cases r)
  case (Inr xd)
  obtain x db' where xd: "xd = (x, db')" by (cases xd)
  have k: "wf_db db'" "keeps_providers (gw_db g) db'" "\<forall>gid. joined_rows gid True db' = joined_rows gid True (gw_db g)"
    using assms(2) Inr xd unfolding keeps_all_def by blast+
  have "caches_current (g\<lparr>gw_db := db'\<rparr>)"
    by (rule caches_current_keep [of g]) (use assms(1) k in \<open>auto simp: good_def\<close>)
  then show ?thesis using k by (simp add: run_db_def Inr xd good_def)
qed (simp add: run_db_def assms(1))

lemma good_write_all:
  assumes "good g" "\<And>db'. r = Inr db' \<Longrightarrow> wf_db db'"
  shows "good (snd (write_db r (invalidate_all_caches env) g))"
  using assms by (auto simp: write_db_def good_def split: sum.splits) (simp add: invalidate_all_caches_def)

lemma good_write_group:
  assumes "good g" "\<And>db'. r = Inr db' \<Longrightarrow> keeps_others gid (gw_db g) db'"
  shows "good (snd (write_db r (invalidate_endpoint_cache gid) g))"
proof (cases r)
  case (Inr db')
  have k: "wf_db db'" "keeps_providers (gw_db g) db'"
      "\<forall>gid'. gid' \<noteq> gid \<longrightarrow> joined_rows gid' True db' = joined_rows gid' True (gw_db g)"
    using assms(2) Inr unfolding keeps_others_def by blast+
  have "caches_current (invalidate_endpoint_cache gid (g\<lparr>gw_db := db'\<rparr>))"
    by (rule caches_current_keep [of g])
      (use assms(1) k in \<open>auto simp: good_def invalidate_endpoint_cache_def AList.delete_eq\<close>)
  then show ?thesis using k by (simp add: write_db_def Inr good_def) (simp add: invalidate_endpoint_cache_def)
qed (simp add: write_db_def assms(1))


subsection \<open>The handlers keep the caches current\<close>

lemma create_provider_keeps:
  assumes "wf_db db" "create_provider p db = Inr (i, db')"
  shows "keeps_all db db'"
  unfolding keeps_all_def
proof (intro conjI allI)
  have wf: "wf_table (providers db)" using assms(1) by (simp add: wf_db_def)
  have db': "db' = db\<lparr>providers := snd (insert_row (p\<lparr>p_created_at := sql_now db, p_updated_at := sql_now db\<rparr>) (providers db))\<rparr>"
    using assms(2) by (auto simp: create_provider_def case_prod_beta)
  have old: "lookup_row (providers db') j = lookup_row (providers db) j" if "j \<le> seq (providers db)" for j
    using lookup_insert_old [OF wf that] by (simp add: db')
  show "wf_db db'" by (rule wf_create_provider [OF assms])
  show "keeps_providers db db'" using old by (simp add: keeps_providers_def) (simp add: db' insert_row_def)
  show "joined_rows gid True db' = joined_rows gid True db" for gid
  proof (rule joined_rows_cong)
    fix j m
    assume "lookup_row (models db) j = Some m"
    then have "m_provider_id m \<in> ids (providers db)" by (rule wf_model_provider [OF assms(1)])
    then show "lookup_row (providers db') (m_provider_id m) = lookup_row (providers db) (m_provider_id m)"
      using old id_le_seq [OF wf] by blast
  qed (simp_all add: db')
qed

lemma create_model_keeps:
  assumes "wf_db db" "create_model m db = Inr (i, db')"
  shows "keeps_all db db'"
  unfolding keeps_all_def
proof (intro conjI allI)
  have wf: "wf_table (models db)" using assms(1) by (simp add: wf_db_def)
  have db': "db' = db\<lparr>models := snd (insert_row (m\<lparr>m_context_window := 0, m_created_at := sql_now db, m_updated_at := sql_now db\<rparr>) (models db))\<rparr>"
    using assms(2) by (auto simp: create_model_def case_prod_beta Let_def)
  show "wf_db db'" by (rule wf_create_model [OF assms])
  show "keeps_providers db db'" by (simp add: db')
  show "joined_rows gid True db' = joined_rows gid True db" for gid
  proof (rule joined_rows_cong)
    fix gm
    assume "gm \<in> set (rows (group_models db))"
    then have "gm_model_id (snd gm) \<le> seq (models db)"
      using wf_member_model [OF assms(1)] id_le_seq [OF wf] by blast
    then show "lookup_row (models db') (gm_model_id (snd gm)) = lookup_row (models db) (gm_model_id (snd gm))"
      using lookup_insert_old [OF wf] by (simp add: db')
  qed (simp_all add: db')
qed

text \<open>Operations on the groups themselves do not touch what the query joins.\<close>

lemma joined_rows_same:
  "group_models db' = group_models db \<Longrightarrow> models db' = models db \<Longrightarrow> providers db' = providers db \<Longrightarrow>
   joined_rows gid b db' = joined_rows gid b db"
  by (rule joined_rows_cong) simp_all

lemma create_group_keeps:
  assumes "wf_db db" "create_group grp db = Inr (i, db')"
  shows "keeps_all db db'"
  using assms wf_create_group [OF assms]
  by (auto simp: keeps_all_def create_group_def case_prod_beta intro!: joined_rows_same)

lemma update_group_raw_keeps:
  assumes "wf_db db" "update_group_raw gid n d e f t p db = Inr db'"
  shows "keeps_others gid db db'"
  using assms wf_update_group_raw [OF assms]
  by (auto simp: keeps_others_def update_group_raw_def Let_def intro!: joined_rows_same)

lemma filter_add_member:
  "gid' \<noteq> gid \<Longrightarrow> filter (\<lambda>gm. gm_group_id (snd gm) = gid')
     (rows (snd (insert_row \<lparr>gm_group_id = gid, gm_model_id = mid, gm_weight = w, gm_is_enabled = True\<rparr>
       (delete_rows (\<lambda>gm. gm_group_id (snd gm) = gid \<and> gm_model_id (snd gm) = mid) t)))) =
   filter (\<lambda>gm. gm_group_id (snd gm) = gid') (rows t)"
  by (auto simp: insert_row_def delete_rows_def intro!: filter_cong)

lemma add_member_keeps:
  assumes "wf_db db" "add_model_to_group gid mid w db = Inr (i, db')"
  shows "keeps_others gid db db'"
  unfolding keeps_others_def
proof (intro conjI allI impI)
  show "wf_db db'" by (rule wf_add_member [OF assms])
  have db': "db' = db\<lparr>group_models := snd (insert_row \<lparr>gm_group_id = gid, gm_model_id = mid, gm_weight = w, gm_is_enabled = True\<rparr>
       (delete_rows (\<lambda>gm. gm_group_id (snd gm) = gid \<and> gm_model_id (snd gm) = mid) (group_models db)))\<rparr>"
    using assms(2) by (auto simp: add_model_to_group_def case_prod_beta Let_def)
  show "keeps_providers db db'" by (simp add: db')
  fix gid'
  assume "gid' \<noteq> gid"
  then show "joined_rows gid' True db' = joined_rows gid' True db"
    by (intro joined_rows_cong) (simp_all add: db' filter_add_member)
qed

lemma remove_member_keeps:
  assumes "wf_db db"
  shows "keeps_others gid db (remove_model_from_group gid mid db)"
proof -
  have "joined_rows gid' True (remove_model_from_group gid mid db) = joined_rows gid' True db" if "gid' \<noteq> gid" for gid'
    by (rule joined_rows_cong) (use that in \<open>auto simp: remove_model_from_group_def delete_rows_def intro: filter_cong\<close>)
  then show ?thesis
    using wf_remove_member [OF assms] by (auto simp: keeps_others_def remove_model_from_group_def)
qed

lemma filter_update_other:
  assumes "\<And>ir. q ir \<Longrightarrow> \<not> p ir" "\<And>ir. p ir \<Longrightarrow> \<not> q (fst ir, f (snd ir))"
  shows "filter q (rows (update_rows p f t)) = filter q (rows t)"
proof -
  have "filter q (map (\<lambda>ir. if p ir then (fst ir, f (snd ir)) else ir) rs) = filter q rs" for rs
    using assms by (induction rs) auto
  then show ?thesis by (simp add: update_rows_def)
qed

lemma weight_keeps:
  assumes "wf_db db" "update_model_weight_raw gid mid w db = Inr db'"
  shows "keeps_others gid db db'"
proof (cases w)
  case None
  then have "db' = db" using assms(2) by (simp add: update_model_weight_raw_def)
  then show ?thesis using assms(1) by (simp add: keeps_others_def)
next
  case (Some x)
  then have db': "db' = update_model_weight gid mid x db" using assms(2) by (simp add: update_model_weight_raw_def)
  have "joined_rows gid' True db' = joined_rows gid' True db" if "gid' \<noteq> gid" for gid'
    by (rule joined_rows_cong) (use that in \<open>auto simp: db' update_model_weight_def intro!: filter_update_other\<close>)
  moreover have "keeps_providers db db'" by (simp add: db' update_model_weight_def)
  ultimately show ?thesis using wf_weight [OF assms(1)] by (auto simp: keeps_others_def db')
qed


lemma good_delete:
  assumes "good g" "wf_db (snd r)" "fst r = 0 \<Longrightarrow> snd r = gw_db g"
  shows "good (snd (delete_db what i r (invalidate_all_caches env) g))"
  using assms by (auto simp: delete_db_def good_def) (simp add: invalidate_all_caches_def)

lemma delete_models_none:
  "(\<And>im. im \<in> set (rows (models db)) \<Longrightarrow> \<not> p im) \<Longrightarrow> delete_models_where p db = db"
  by (auto simp: delete_models_where_def delete_rows_def filter_id_conv)

lemma count_zero_ids: "count_rows (\<lambda>ir. fst ir = i) t = 0 \<longleftrightarrow> i \<notin> ids t"
  by (auto simp: count_rows_def filter_empty_conv ids_def)

lemma delete_provider_none:
  assumes "wf_db db" "fst (delete_provider pid db) = 0"
  shows "snd (delete_provider pid db) = db"
proof -
  have "pid \<notin> ids (providers db)" using assms(2) by (simp add: delete_provider_def count_zero_ids)
  moreover have "m_provider_id (snd im) \<in> ids (providers db)" if "im \<in> set (rows (models db))" for im
    using assms(1) that provider_in_ids by (simp add: wf_db_def)
  ultimately have "delete_models_where (\<lambda>m. m_provider_id (snd m) = pid) db = db" by (intro delete_models_none) auto
  moreover have "delete_rows (\<lambda>ir. fst ir = pid) (providers db) = providers db"
    using assms(2) by (intro delete_rows_none) (simp add: delete_provider_def)
  ultimately show ?thesis by (simp add: delete_provider_def)
qed

lemma delete_model_none: "fst (delete_model mid db) = 0 \<Longrightarrow> snd (delete_model mid db) = db"
  by (auto simp: delete_model_def count_rows_def filter_empty_conv intro!: delete_models_none)

lemma delete_group_keeps:
  assumes "wf_db db"
  shows "keeps_others gid db (snd (delete_group gid db))"
proof -
  have "joined_rows gid' True (snd (delete_group gid db)) = joined_rows gid' True db" if "gid' \<noteq> gid" for gid'
    by (rule joined_rows_cong) (use that in \<open>auto simp: delete_group_def delete_rows_def intro: filter_cong\<close>)
  then show ?thesis using wf_delete_group [OF assms] by (auto simp: keeps_others_def delete_group_def)
qed

lemma delete_group_none:
  assumes "wf_db db" "fst (delete_group gid db) = 0"
  shows "snd (delete_group gid db) = db"
proof -
  have none: "gid \<notin> ids (model_groups db)" using assms(2) by (simp add: delete_group_def count_zero_ids)
  then have "delete_rows (\<lambda>gm. gm_group_id (snd gm) = gid) (group_models db) = group_models db"
    using wf_member_group [OF assms(1)] by (intro delete_rows_none) (auto simp: count_rows_def filter_empty_conv)
  moreover have "delete_rows (\<lambda>ir. fst ir = gid) (model_groups db) = model_groups db"
    using assms(2) by (intro delete_rows_none) (simp add: delete_group_def)
  ultimately show ?thesis by (simp add: delete_group_def)
qed

lemma good_delete_group:
  assumes "good g"
  shows "good (snd (api_delete_group gid g))"
proof (cases "fst (delete_group gid (gw_db g)) = 0")
  case True
  then show ?thesis
    using assms delete_group_none [of "gw_db g" gid] by (simp add: api_delete_group_def delete_db_def delete_group_raw_def good_def)
next
  case False
  have "snd (api_delete_group gid g) = snd (write_db (Inr (snd (delete_group gid (gw_db g)))) (invalidate_endpoint_cache gid) g)"
    using False by (simp add: api_delete_group_def delete_db_def delete_group_raw_def write_db_def)
  then show ?thesis
    using good_write_group [OF assms, of "Inr (snd (delete_group gid (gw_db g)))"] assms delete_group_keeps by (auto simp: good_def)
qed

text \<open>The synchronisation only adds models.\<close>

lemma sync_items_keeps:
  "sync_items pid ex items sm db = (r, db') \<Longrightarrow> wf_db db \<Longrightarrow> keeps_all db db'"
proof (induction pid ex items sm db rule: sync_items.induct)
  case (2 pid ex item items sm db)
  show ?case
  proof (cases "item_name item")
    case (Inr no)
    show ?thesis
    proof (cases no)
      case (Some name)
      show ?thesis
      proof (cases "name \<in> set ex")
        case False
        show ?thesis
        proof (cases "create_model (synced_model (sql_now db) pid name) db")
          case (Inr idb)
          then obtain i db1 where c: "create_model (synced_model (sql_now db) pid name) db = Inr (i, db1)" by (cases idb) auto
          have k: "keeps_all db db1" by (rule create_model_keeps [OF "2.prems"(2) c])
          have "sync_items pid ex items (sm\<lparr>sy_added := sy_added sm + 1\<rparr>) db1 = (r, db')"
            using "2.prems"(1) \<open>item_name item = Inr no\<close> Some False c by simp
          then have "keeps_all db1 db'"
            using "2.IH"(3) [OF \<open>item_name item = Inr no\<close> Some False c refl] k by (simp add: keeps_all_def)
          then show ?thesis by (rule keeps_all_trans [OF k])
        qed (use "2.prems" Inr Some False in \<open>auto simp: keeps_all_def\<close>)
      qed (use "2.IH"(2) "2.prems" Inr Some in auto)
    qed (use "2.IH"(1) "2.prems" Inr in auto)
  qed (use "2.prems" in \<open>auto simp: keeps_all_def\<close>)
qed (simp add: keeps_all_def)


subsection \<open>Loading keeps the caches current\<close>

lemma mapE_mem: "mapE f xs = Inr ys \<Longrightarrow> y \<in> set ys \<Longrightarrow> \<exists>x \<in> set xs. f x = Inr y"
  by (induction xs arbitrary: ys) (auto simp: bindE_eq_Inr)

lemma group_member_provider:
  assumes "get_group_models gid True db = Inr ms" "m \<in> set ms"
  shows "\<exists>p. lookup_row (providers db) (d_provider_id m) = Some p \<and> p_is_enabled p"
proof -
  obtain gm im ip where j: "(gm, im, ip) \<in> set (joined_rows gid True db)" and d: "detail_of gm im ip = Inr m"
    using mapE_mem [OF assms(1) [unfolded get_group_models_def] assms(2)] by auto
  have "d_provider_id m = m_provider_id (snd im)" using d by (auto simp: detail_of_def split: json.splits)
  then show ?thesis
    using j by (auto simp: joined_rows_def join_row_def get_provider_def get_row_def map_option_case split: option.splits if_splits)
qed

lemma set_update_subset: "set (AList.update k v al) \<subseteq> insert (k, v) (set al)"
  by (induction al) auto

definition pool_current :: "db \<Rightarrow> pool \<Rightarrow> bool" where
  "pool_current db pl \<longleftrightarrow>
     (\<forall>(key, i, t) \<in> set (provider_cache pl). fst key \<le> seq (providers db) \<and> inst_current db key i)"

lemma pool_current_update:
  assumes "pool_current db pl" "provider_cache pl' = AList.update key (i, t) (provider_cache pl)"
    and "fst key \<le> seq (providers db)" "inst_current db key i"
  shows "pool_current db pl'"
proof -
  have "set (provider_cache pl') \<subseteq> insert (key, i, t) (set (provider_cache pl))"
    unfolding assms(2) by (rule set_update_subset)
  then show ?thesis using assms(1,3,4) unfolding pool_current_def by blast
qed

lemma get_cached_provider_current:
  assumes "pool_current db pl" "lookup_row (providers db) pid = Some p" "pid \<le> seq (providers db)"
    and "get_cached_provider True now lt pid (p_provider_type p) (p_api_key p) (p_base_url p) (p_extra_config p) af px pl = (r, pl')"
  shows "pool_current db pl' \<and>
    (\<forall>i. r = Inr i \<longrightarrow> inst_current db (pid, if af \<noteq> [] then af else p_provider_type p, px) i)"
proof -
  let ?key = "(pid, if af \<noteq> [] then af else p_provider_type p, px)"
  let ?merged = "if px \<noteq> [] then dset ''proxy'' (JStr px) (p_extra_config p) else p_extra_config p"
  let ?create = "create_instance True now lt ?key (p_api_key p) (p_base_url p) ?merged pl"
  have create: "pool_current db pl'" "r = Inr i \<Longrightarrow> inst_current db ?key i" if c: "?create = (r, pl')" for i
  proof -
    show "r = Inr i \<Longrightarrow> inst_current db ?key i"
      using c assms(2) by (auto simp: create_instance_def Let_def inst_current_def split: option.splits)
    show "pool_current db pl'"
    proof (cases "map_of provider_type_map (fst (snd ?key))")
      case None
      then show ?thesis using c assms(1) by (auto simp: create_instance_def Let_def)
    next
      case (Some cls)
      show ?thesis
      proof (cases "init_error cls (p_api_key p)")
        case err: (Some e)
        then show ?thesis using c assms(1) Some by (auto simp: create_instance_def Let_def)
      next
        case None
        then obtain i where i: "r = Inr i" "pl' = store_instance True now lt ?key i pl"
          using c Some by (auto simp: create_instance_def Let_def)
        then have "inst_current db ?key i"
          using c assms(2) by (auto simp: create_instance_def Let_def inst_current_def split: option.splits)
        moreover have "provider_cache pl' = AList.update ?key (i, now) (provider_cache pl)"
          by (simp add: i store_instance_def Let_def split: option.splits)
        ultimately show ?thesis using pool_current_update [OF assms(1)] assms(3) by simp
      qed
    qed
  qed
  show ?thesis
  proof (cases "map_of (provider_cache pl) ?key")
    case None
    then have "?create = (r, pl')" using assms(4) by (simp add: get_cached_provider_def Let_def)
    then show ?thesis using create by blast
  next
    case (Some it)
    obtain i t where it: "it = (i, t)" by (cases it)
    have cur: "inst_current db ?key i"
      using map_of_SomeD [OF Some] assms(1) by (auto simp: pool_current_def it)
    show ?thesis
    proof (cases "now - t < provider_cache_ttl")
      case True
      then have "r = Inr i" "pl' = pl" using assms(4) Some it by (simp_all add: get_cached_provider_def Let_def)
      then show ?thesis using cur assms(1) by simp
    next
      case False
      then have "?create = (r, pl')" using assms(4) Some it by (simp add: get_cached_provider_def Let_def)
      then show ?thesis using create by blast
    qed
  qed
qed

lemma build_endpoints_current:
  assumes "wf_db (gw_db g)" "pool_current (gw_db g) (gw_pool g)" "build_endpoints env ms g = (r, g')"
    and "\<And>m. m \<in> set ms \<Longrightarrow> \<exists>p. lookup_row (providers (gw_db g)) (d_provider_id m) = Some p \<and> p_is_enabled p"
  shows "gw_db g' = gw_db g \<and> gw_endpoint_cache g' = gw_endpoint_cache g \<and> pool_current (gw_db g) (gw_pool g') \<and>
    (\<forall>eps. r = Inr eps \<longrightarrow> list_all2 (endpoint_current (gw_db g)) ms eps)"
  using assms
proof (induction ms arbitrary: g r g')
  case (Cons m ms)
  obtain p where p: "lookup_row (providers (gw_db g)) (d_provider_id m) = Some p" "p_is_enabled p"
    using Cons.prems(4) by auto
  have le: "d_provider_id m \<le> seq (providers (gw_db g))"
    using lookup_le_seq p(1) Cons.prems(1) by (auto simp: wf_db_def)
  obtain q pl where get: "get_cached_provider True (wall_now env g) (mono_now env g) (d_provider_id m) (p_provider_type p)
      (p_api_key p) (p_base_url p) (p_extra_config p) (d_api_format m) (d_proxy m) (gw_pool g) = (q, pl)"
    by (cases "get_cached_provider True (wall_now env g) (mono_now env g) (d_provider_id m) (p_provider_type p)
      (p_api_key p) (p_base_url p) (p_extra_config p) (d_api_format m) (d_proxy m) (gw_pool g)")
  note cur = get_cached_provider_current [OF Cons.prems(2) p(1) le get]
  have look: "get_provider (d_provider_id m) (gw_db g) = Some (d_provider_id m, p)"
    by (simp add: get_provider_def get_row_def p(1))
  show ?case
  proof (cases q)
    case (Inl e)
    then show ?thesis using Cons.prems(3) get cur look p(2) by auto
  next
    case (Inr i)
    let ?g = "g\<lparr>gw_pool := pl\<rparr>"
    obtain r1 g1 where rest: "build_endpoints env ms ?g = (r1, g1)" by (cases "build_endpoints env ms ?g")
    have IH: "gw_db g1 = gw_db g \<and> gw_endpoint_cache g1 = gw_endpoint_cache g \<and> pool_current (gw_db g) (gw_pool g1) \<and>
        (\<forall>eps. r1 = Inr eps \<longrightarrow> list_all2 (endpoint_current (gw_db g)) ms eps)"
      using Cons.IH [OF _ _ rest] Cons.prems(1,4) cur by simp
    have "endpoint_current (gw_db g) m \<lparr>ep_detail = m, ep_provider = i\<rparr>"
      using cur Inr p by (simp add: endpoint_current_def endpoint_key_def)
    then show ?thesis
      using Cons.prems(3) get look p(2) Inr rest IH by (auto split: sum.splits)
  qed
qed auto

lemma load_endpoints_current:
  assumes "good g" "load_endpoints env gid g = (r, g')"
  shows "good g' \<and> gw_db g' = gw_db g \<and> (\<forall>eps. r = Inr eps \<longrightarrow> endpoints_current (gw_db g) gid eps)"
proof (cases "ttl_get endpoint_cache_ttl (wall_now env g) gid (gw_endpoint_cache g)")
  case (Some eps)
  then obtain t where "(gid, eps, t) \<in> set (gw_endpoint_cache g)"
    by (auto simp: ttl_get_def split: option.splits if_splits dest: map_of_SomeD)
  then have "endpoints_current (gw_db g) gid eps" using assms(1) by (auto simp: good_def caches_current_def)
  then show ?thesis using assms Some by (auto simp: load_endpoints_def)
next
  case None
  show ?thesis
  proof (cases "get_group_models gid True (gw_db g)")
    case (Inl e)
    then show ?thesis using assms None by (auto simp: load_endpoints_def)
  next
    case (Inr ms)
    obtain q g1 where b: "build_endpoints env ms g = (q, g1)" by (cases "build_endpoints env ms g")
    have wf: "wf_db (gw_db g)" and pool: "pool_current (gw_db g) (gw_pool g)"
      using assms(1) by (auto simp: good_def caches_current_def pool_current_def)
    note cur = build_endpoints_current [OF wf pool b group_member_provider [OF Inr]]
    show ?thesis
    proof (cases q)
      case (Inl e)
      then show ?thesis using assms None Inr b cur by (auto simp: load_endpoints_def good_def caches_current_def pool_current_def)
    next
      case (Inr eps)
      then have eps: "endpoints_current (gw_db g) gid eps" using \<open>get_group_models gid True (gw_db g) = Inr ms\<close> cur by (simp add: endpoints_current_def)
      have g': "r = Inr eps" "g' = g1\<lparr>gw_endpoint_cache := AList.update gid (eps, wall_now env g) (gw_endpoint_cache g1)\<rparr>"
        using assms(2) None \<open>get_group_models gid True (gw_db g) = Inr ms\<close> b Inr by (auto simp: load_endpoints_def)
      have "set (gw_endpoint_cache g') \<subseteq> insert (gid, eps, wall_now env g) (set (gw_endpoint_cache g1))"
        using set_update_subset by (simp add: g'(2))
      then have "\<forall>(i, es, t) \<in> set (gw_endpoint_cache g'). endpoints_current (gw_db g) i es"
        using assms(1) cur eps by (fastforce simp: good_def caches_current_def)
      then show ?thesis using cur eps wf by (simp add: g' good_def caches_current_def pool_current_def)
    qed
  qed
qed


subsection \<open>Every step keeps the caches current\<close>

lemma good_world [simp]: "good (g\<lparr>gw_world := w\<rparr>) = good g"
  by (simp add: good_def caches_current_def)

lemma good_invalidated: "good g \<Longrightarrow> good (invalidate_all_caches env g)"
  by (simp add: good_def) (simp add: invalidate_all_caches_def)

lemma good_new_db:
  assumes "good g" "keeps_all (gw_db g) db'"
  shows "good (g\<lparr>gw_db := db'\<rparr>)"
  using good_run_db [OF assms(1), of "Inr (undefined, db')"] assms(2) by (simp add: run_db_def)

lemma sync_body_keeps:
  "sync_body pid body db = (r, db') \<Longrightarrow> wf_db db \<Longrightarrow> keeps_all db db'"
  by (auto simp: sync_body_def keeps_all_def split: json.splits sum.splits dest!: sync_items_keeps)

lemma good_sync:
  assumes "good g" "sync_models_from_provider fetch pid g = (r, g')"
  shows "good g'"
proof (cases "get_provider pid (gw_db g)")
  case (Some ip)
  define a where "a = fetch (rstrip_slash (p_base_url (snd ip)) @ ''/models'')
    (if p_api_key (snd ip) \<noteq> '''' then [(''Authorization'', ''Bearer '' @ p_api_key (snd ip))] else []) (gw_world g)"
  have good: "good (g\<lparr>gw_world := snd a\<rparr>)" using assms(1) by simp
  have g': "g' = g\<lparr>gw_world := snd a\<rparr> \<or>
      (\<exists>body. (r, g') = (fst (sync_body pid body (gw_db g)), g\<lparr>gw_world := snd a, gw_db := snd (sync_body pid body (gw_db g))\<rparr>))"
    using assms(2) Some by (cases ip) (auto simp: sync_models_from_provider_def a_def Let_def case_prod_beta split: sum.splits option.splits)
  then show ?thesis
  proof
    assume "\<exists>body. (r, g') = (fst (sync_body pid body (gw_db g)), g\<lparr>gw_world := snd a, gw_db := snd (sync_body pid body (gw_db g))\<rparr>)"
    then obtain body where "g' = g\<lparr>gw_world := snd a, gw_db := snd (sync_body pid body (gw_db g))\<rparr>" by blast
    then show ?thesis
      using good_new_db [OF good, of "snd (sync_body pid body (gw_db g))"] sync_body_keeps [of pid body "gw_db g"] assms(1)
      by (simp add: good_def) (metis prod.collapse)
  qed (use good in simp)
qed (use assms in \<open>simp add: sync_models_from_provider_def\<close>)

lemma good_sync_providers: "good g \<Longrightarrow> sync_providers fetch pids sm g = (r, g') \<Longrightarrow> good g'"
proof (induction pids arbitrary: sm g)
  case (Cons pid pids)
  obtain q g1 where q: "sync_models_from_provider fetch pid g = (q, g1)" by (cases "sync_models_from_provider fetch pid g")
  have g1: "good g1" by (rule good_sync [OF Cons.prems(1) q])
  show ?case using Cons.prems(2) Cons.IH [OF g1] g1 by (auto simp: q split: sum.splits)
qed simp

lemma good_wf: "good g \<Longrightarrow> wf_db (gw_db g)"
  by (simp add: good_def)

lemmas handler_defs = api_create_provider_def api_update_provider_def api_delete_provider_def api_create_model_def
  api_update_model_def api_delete_model_def api_create_group_def api_update_group_def api_add_model_to_group_def
  api_remove_model_from_group_def api_update_model_weight_def api_sync_provider_def sync_all_models_def
  create_provider_raw_def delete_provider_raw_def create_model_raw_def delete_model_raw_def create_group_raw_def
  add_model_to_group_raw_def remove_model_from_group_raw_def

lemma good_step: "gw_step env fetch g g' \<Longrightarrow> good g \<Longrightarrow> good g'"
proof (induction rule: gw_step.induct)
  case (create_provider_step g p)
  show ?case unfolding handler_defs by (rule good_run_db) (use create_provider_step good_wf create_provider_keeps in blast)+
next
  case (update_provider_step g pid pp)
  then show ?case
    unfolding handler_defs by (auto split: option.splits intro: good_write_all wf_update_provider_raw good_wf)
next
  case (delete_provider_step g pid)
  then show ?case
    unfolding handler_defs by (intro good_delete wf_delete_provider delete_provider_none good_wf)
next
  case (create_model_step g cm)
  then show ?case unfolding handler_defs by (auto split: option.splits intro: good_run_db create_model_keeps good_wf)
next
  case (update_model_step g mid mp)
  then show ?case unfolding handler_defs by (auto split: option.splits intro: good_write_all wf_update_model_raw good_wf)
next
  case (delete_model_step g mid)
  then show ?case unfolding handler_defs by (intro good_delete wf_delete_model delete_model_none good_wf)
next
  case (create_group_step g cg)
  show ?case unfolding handler_defs by (rule good_run_db) (use create_group_step good_wf create_group_keeps in blast)+
next
  case (update_group_step g gid gp)
  then show ?case
    unfolding handler_defs by (auto split: option.splits intro: good_write_group update_group_raw_keeps good_wf)
next
  case (delete_group_step g gid)
  then show ?case by (rule good_delete_group)
next
  case (add_member_step g gid mid w)
  then show ?case
    unfolding handler_defs
    by (auto simp: bindE_eq_Inr split: option.splits intro!: good_write_group) (blast intro: add_member_keeps good_wf)
next
  case (remove_member_step g gid mid)
  then show ?case unfolding handler_defs by (auto intro!: good_write_group intro: remove_member_keeps good_wf)
next
  case (weight_step g gid mid wo)
  then show ?case unfolding handler_defs by (auto intro!: good_write_group intro: weight_keeps good_wf)
next
  case (sync_step g pid)
  then show ?case
    unfolding handler_defs by (auto split: option.splits prod.splits sum.splits dest: good_sync intro!: good_invalidated)
next
  case (sync_all_step g)
  then show ?case unfolding handler_defs using good_sync_providers by (metis prod.collapse)
next
  case (load_step g gid)
  then show ?case using load_endpoints_current by (metis prod.collapse)
next
  case (other_step g g')
  have "wf_db (gw_db g')"
    using other_step(1,4) by (simp add: good_def wf_db_def models_ok_def group_models_ok_def same_routing_tables_def)
  moreover have "caches_current g'"
    by (rule caches_current_keep [of g]) (use other_step in \<open>auto simp: good_def same_routing_tables_def intro: joined_rows_same\<close>)
  ultimately show ?case by (simp add: good_def)
qed


subsection \<open>The cache as an interface\<close>

text \<open>What a consumer of cached values relies on: a load gives a value that is current, and neither a load
  nor a step of the rest of the program spoils the good states.\<close>

locale read_through_cache =
  fixes good_state :: "'s \<Rightarrow> bool"
    and current :: "'s \<Rightarrow> 'k \<Rightarrow> 'v \<Rightarrow> bool"
    and load :: "'k \<Rightarrow> 's \<Rightarrow> 'v res \<times> 's"
    and step_of :: "'s \<Rightarrow> 's \<Rightarrow> bool"
  assumes load_is_current: "good_state s \<Longrightarrow> load k s = (Inr v, s') \<Longrightarrow> current s k v"
    and load_is_good: "good_state s \<Longrightarrow> load k s = (r, s') \<Longrightarrow> good_state s'"
    and step_is_good: "step_of s s' \<Longrightarrow> good_state s \<Longrightarrow> good_state s'"
begin

lemma run_is_good: "step_of\<^sup>*\<^sup>* s s' \<Longrightarrow> good_state s \<Longrightarrow> good_state s'"
  by (induction rule: rtranclp_induct) (auto intro: step_is_good)

lemma never_stale: "step_of\<^sup>*\<^sup>* s s' \<Longrightarrow> good_state s \<Longrightarrow> load k s' = (Inr v, s'') \<Longrightarrow> current s' k v"
  using run_is_good load_is_current by blast

text \<open>Two loads without a step between them agree on what is current.\<close>

lemma load_twice: "good_state s \<Longrightarrow> load k s = (Inr v, s') \<Longrightarrow> load k s' = (Inr v', s'') \<Longrightarrow> current s' k v'"
  using load_is_good load_is_current by blast

end

interpretation endpoint_cache: read_through_cache good "\<lambda>g. endpoints_current (gw_db g)" "load_endpoints env" "gw_step env fetch"
  for env fetch
  by unfold_locales (auto dest: load_endpoints_current intro: good_step)

text \<open>C13: no change made through the management API is ever served from a cache. From a start with empty
  caches, after any sequence of provider, model, group and membership changes, synchronisations, loads and
  steps that leave those tables alone, the endpoints a group is loaded with are exactly the rows the query
  gives at this moment, and each instance carries the key, the address and the configuration (with the
  proxy of the model) that its provider has in the database at this moment.\<close>

theorem no_stale_endpoint:
  assumes "wf_db (gw_db g0)" "gw_endpoint_cache g0 = []" "provider_cache (gw_pool g0) = []"
    and "(gw_step env fetch)\<^sup>*\<^sup>* g0 g" "load_endpoints env gid g = (Inr eps, g')"
  shows "get_group_models gid True (gw_db g) = Inr (map ep_detail eps) \<and>
    list_all (\<lambda>ep. \<exists>p. lookup_row (providers (gw_db g)) (ep_provider_id ep) = Some p \<and> p_is_enabled p \<and>
      pi_api_key (ep_provider ep) = p_api_key p \<and>
      pi_base_url (ep_provider ep) = init_base_url (pi_class (ep_provider ep)) (p_base_url p) \<and>
      pi_extra_config (ep_provider ep) =
        (if d_proxy (ep_detail ep) \<noteq> [] then dset ''proxy'' (JStr (d_proxy (ep_detail ep))) (p_extra_config p)
         else p_extra_config p)) eps"
proof -
  have "good g0" using assms(1-3) by (simp add: good_def caches_current_def)
  with assms(4,5) have "endpoints_current (gw_db g) gid eps" by (metis endpoint_cache.never_stale)
  then obtain ms where ms: "get_group_models gid True (gw_db g) = Inr ms" "list_all2 (endpoint_current (gw_db g)) ms eps"
    by (auto simp: endpoints_current_def)
  have "map ep_detail eps = ms" using ms(2) by induction (auto simp: endpoint_current_def)
  moreover have "list_all (\<lambda>ep. endpoint_current (gw_db g) (ep_detail ep) ep) eps"
    using ms(2) by induction (auto simp: endpoint_current_def)
  ultimately show ?thesis
    using ms(1) by (auto simp: endpoint_current_def inst_current_def endpoint_key_def ep_provider_id_def elim!: list.pred_mono_strong)
qed

definition new_key_patch :: provider_patch where
  "new_key_patch = \<lparr>pp_name = None, pp_base_url = None, pp_api_key = Some ''new'', pp_type = None, pp_is_enabled = None,
     pp_extra_config = None\<rparr>"

definition stocked_gw :: "int gw" where
  "stocked_gw = (empty_gw 0)\<lparr>gw_db := sample_db\<rparr>"

definition patched_gw :: "int gw" where
  "patched_gw = snd (api_update_provider flaky_env 1 new_key_patch (snd (load_endpoints flaky_env 1 stocked_gw)))"

lemma patched_load: "(case load_endpoints flaky_env 1 patched_gw of
    (Inl _, _) \<Rightarrow> False | (Inr eps, _) \<Rightarrow> map ep_model_id eps = [2, 1] \<and> map ep_provider_id eps = [1, 1]) \<and>
  map_option p_api_key (lookup_row (providers (gw_db patched_gw)) 1) = Some ''new''"
  by code_simp

theorem no_stale_endpoint_witness:
  "\<exists>eps g'. load_endpoints flaky_env 1 patched_gw = (Inr eps, g') \<and> map ep_model_id eps = [2, 1] \<and>
    map (\<lambda>ep. pi_api_key (ep_provider ep)) eps = [''new'', ''new'']"
proof -
  have run: "(gw_step flaky_env (\<lambda>_ _ w. (Inl [], w)))\<^sup>*\<^sup>* stocked_gw patched_gw"
    unfolding patched_gw_def
    by (meson load_step update_provider_step rtranclp.rtrancl_into_rtrancl rtranclp.rtrancl_refl)
  obtain eps g' where load: "load_endpoints flaky_env 1 patched_gw = (Inr eps, g')"
      and eps: "map ep_model_id eps = [2, 1]" "map ep_provider_id eps = [1, 1]"
    using patched_load by (auto split: prod.splits sum.splits)
  have "list_all (\<lambda>ep. \<exists>p. lookup_row (providers (gw_db patched_gw)) (ep_provider_id ep) = Some p \<and>
      pi_api_key (ep_provider ep) = p_api_key p) eps"
    using no_stale_endpoint [OF _ _ _ run load] by (auto simp: stocked_gw_def empty_gw_def empty_pool_def elim!: list.pred_mono_strong)
  then have "map (\<lambda>ep. pi_api_key (ep_provider ep)) eps = [''new'', ''new'']"
    using eps patched_load by (auto simp: map_eq_Cons_conv)
  then show ?thesis using load eps by (intro exI [of _ eps] exI [of _ g']) simp
qed

end
