(* ===== verification/Sync_Facts.thy ===== *)
theory Sync_Facts
  imports Admin_Facts
begin

text \<open>
  What a synchronisation does with a well-formed answer of the provider: it adds the models that are
  missing, changes no row, and a second run adds nothing; a name that the answer repeats aborts it.
\<close>

definition model_key :: "model \<Rightarrow> string \<times> int" where
  "model_key m = (m_name m, m_provider_id m)"

lemma synced_key [simp]: "model_key (synced_model now pid n) = (n, pid)"
  by (simp add: model_key_def synced_model_def)

lemma models_ok_key: "models_ok db \<longleftrightarrow> distinct (column model_key (models db)) \<and>
     set (column m_provider_id (models db)) \<subseteq> ids (providers db)"
  by (simp add: models_ok_column model_key_def [abs_def])

lemma create_synced:
  assumes "wf_db db" "pid \<in> ids (providers db)"
  shows "create_model (synced_model (sql_now db) pid n) db =
    (if (n, pid) \<in> set (column model_key (models db)) then Inl integrity_error
     else Inr (seq (models db) + 1, db\<lparr>models := snd (insert_row (synced_model (sql_now db) pid n) (models db))\<rparr>))"
proof -
  have ok: "distinct (column model_key (models db))" "set (column m_provider_id (models db)) \<subseteq> ids (providers db)"
    using assms(1) by (simp_all add: wf_db_def models_ok_key)
  have row: "(synced_model (sql_now db) pid n)\<lparr>m_context_window := 0, m_created_at := sql_now db, m_updated_at := sql_now db\<rparr> = synced_model (sql_now db) pid n"
    and pid: "m_provider_id (synced_model (sql_now db) pid n) = pid" by (simp_all add: synced_model_def)
  have "models_ok (db\<lparr>models := snd (insert_row (synced_model (sql_now db) pid n) (models db))\<rparr>) \<longleftrightarrow>
      (n, pid) \<notin> set (column model_key (models db))"
    using ok assms(2) pid by (simp add: models_ok_key) (simp add: column_def insert_row_def)
  then show ?thesis by (simp add: create_model_def row case_prod_beta) (simp add: check_constraint_def insert_row_def)
qed

text \<open>The names an answer lists, and those that are not known.\<close>

definition listed_names :: "string option list \<Rightarrow> string list" where
  "listed_names nos = concat (map (\<lambda>no. case no of None \<Rightarrow> [] | Some n \<Rightarrow> [n]) nos)"

definition unknown_names :: "string list \<Rightarrow> string option list \<Rightarrow> string list" where
  "unknown_names ex nos = filter (\<lambda>n. n \<notin> set ex) (listed_names nos)"

lemma listed_names_simps [simp]:
  "listed_names [] = []" "listed_names (None # nos) = listed_names nos" "listed_names (Some n # nos) = n # listed_names nos"
  by (simp_all add: listed_names_def)

lemma unknown_names_simps [simp]:
  "unknown_names ex [] = []" "unknown_names ex (None # nos) = unknown_names ex nos"
  "unknown_names ex (Some n # nos) = (if n \<in> set ex then unknown_names ex nos else n # unknown_names ex nos)"
  by (simp_all add: unknown_names_def)

definition only_models_changed :: "db \<Rightarrow> db \<Rightarrow> bool" where
  "only_models_changed db db' \<longleftrightarrow> db' = db\<lparr>models := models db'\<rparr>"

definition sync_total :: "string list \<Rightarrow> string option list \<Rightarrow> sync_summary \<Rightarrow> sync_summary" where
  "sync_total ex nos sm =
     \<lparr>sy_added = sy_added sm + int (length (unknown_names ex nos)),
      sy_skipped = sy_skipped sm + int (length (listed_names nos)) - int (length (unknown_names ex nos)),
      sy_errors = sy_errors sm\<rparr>"

lemma sync_total_simps [simp]:
  "sync_total ex [] sm = sm" "sync_total ex (None # nos) sm = sync_total ex nos sm"
  "n \<in> set ex \<Longrightarrow> sync_total ex (Some n # nos) sm = sync_total ex nos (sm\<lparr>sy_skipped := sy_skipped sm + 1\<rparr>)"
  "n \<notin> set ex \<Longrightarrow> sync_total ex (Some n # nos) sm = sync_total ex nos (sm\<lparr>sy_added := sy_added sm + 1\<rparr>)"
  by (simp_all add: sync_total_def)

text \<open>The whole loop: either every unknown name is new and listed once, or it raises.\<close>

lemma sync_items_result:
  assumes "mapE item_name items = Inr nos" "wf_db db" "pid \<in> ids (providers db)"
  shows "if distinct (unknown_names ex nos) \<and> (\<forall>n \<in> set (unknown_names ex nos). (n, pid) \<notin> set (column model_key (models db)))
    then \<exists>db'. sync_items pid ex items sm db = (Inr (sync_total ex nos sm), db') \<and>
        map snd (rows (models db')) = map snd (rows (models db)) @ map (synced_model (sql_now db) pid) (unknown_names ex nos) \<and>
        only_models_changed db db'
    else fst (sync_items pid ex items sm db) = Inl integrity_error"
  using assms
proof (induction items arbitrary: nos sm db)
  case Nil
  then show ?case by (simp add: only_models_changed_def)
next
  case (Cons item items)
  obtain no nos' where i: "item_name item = Inr no" "mapE item_name items = Inr nos'" "nos = no # nos'"
    using Cons.prems(1) by (auto simp: bindE_eq_Inr)
  show ?case
  proof (cases no)
    case None
    then have go: "sync_items pid ex (item # items) sm db = sync_items pid ex items sm db"
      and un: "unknown_names ex nos = unknown_names ex nos'" "sync_total ex nos sm = sync_total ex nos' sm"
      using i by simp_all
    show ?thesis unfolding go un by (rule Cons.IH [OF i(2) Cons.prems(2,3)])
  next
    case (Some n)
    show ?thesis
    proof (cases "n \<in> set ex")
      case True
      then have go: "sync_items pid ex (item # items) sm db = sync_items pid ex items (sm\<lparr>sy_skipped := sy_skipped sm + 1\<rparr>) db"
        and un: "unknown_names ex nos = unknown_names ex nos'"
          "sync_total ex nos sm = sync_total ex nos' (sm\<lparr>sy_skipped := sy_skipped sm + 1\<rparr>)"
        using i Some by simp_all
      show ?thesis unfolding go un by (rule Cons.IH [OF i(2) Cons.prems(2,3)])
    next
      case False
      note new = create_synced [OF Cons.prems(2,3), of n]
      have un: "unknown_names ex nos = n # unknown_names ex nos'" "sync_total ex nos sm = sync_total ex nos' (sm\<lparr>sy_added := sy_added sm + 1\<rparr>)"
        using False i Some by simp_all
      show ?thesis
      proof (cases "(n, pid) \<in> set (column model_key (models db))")
        case True
        then show ?thesis using False i Some new by (simp add: un)
      next
        case fresh: False
        let ?db = "db\<lparr>models := snd (insert_row (synced_model (sql_now db) pid n) (models db))\<rparr>"
        have c: "create_model (synced_model (sql_now db) pid n) db = Inr (seq (models db) + 1, ?db)" using new fresh by simp
        have wf: "wf_db ?db" by (rule wf_create_model [OF Cons.prems(2) c])
        have pid: "pid \<in> ids (providers ?db)" using Cons.prems(3) by simp
        have col: "set (column model_key (models ?db)) = insert (n, pid) (set (column model_key (models db)))"
          by (auto simp: column_def insert_row_def)
        have rows: "map snd (rows (models ?db)) = map snd (rows (models db)) @ [synced_model (sql_now db) pid n]"
          by (simp add: insert_row_def)
        have go: "sync_items pid ex (item # items) sm db = sync_items pid ex items (sm\<lparr>sy_added := sy_added sm + 1\<rparr>) ?db"
          using i Some False c by simp
        define ok where "ok \<longleftrightarrow> distinct (unknown_names ex nos') \<and>
          (\<forall>m \<in> set (unknown_names ex nos'). (m, pid) \<notin> set (column model_key (models ?db)))"
        have dist: "(distinct (unknown_names ex nos) \<and>
            (\<forall>m \<in> set (unknown_names ex nos). (m, pid) \<notin> set (column model_key (models db)))) = ok"
          using fresh unfolding un ok_def col by auto
        note IH = Cons.IH [OF i(2) wf pid, of "sm\<lparr>sy_added := sy_added sm + 1\<rparr>", folded ok_def]
        show ?thesis
        proof (cases ok)
          case True
          then show ?thesis
            using IH unfolding go dist un(2) rows by (auto simp: un(1) only_models_changed_def)
        next
          case False
          then show ?thesis using IH unfolding go dist by simp
        qed
      qed
    qed
  qed
qed


lemma sync_items_none:
  "mapE item_name items = Inr nos \<Longrightarrow> unknown_names ex nos = [] \<Longrightarrow>
   sync_items pid ex items sm db = (Inr (sync_total ex nos sm), db)"
proof (induction items arbitrary: nos sm)
  case (Cons item items)
  obtain no nos' where i: "item_name item = Inr no" "mapE item_name items = Inr nos'" "nos = no # nos'"
    using Cons.prems(1) by (auto simp: bindE_eq_Inr)
  show ?case
  proof (cases no)
    case None
    then show ?thesis using Cons i by simp
  next
    case (Some n)
    then have "n \<in> set ex" "unknown_names ex nos' = []" using Cons.prems(2) i by (auto split: if_splits)
    then show ?thesis using Cons.IH [OF i(2)] i Some by simp
  qed
qed simp

lemma rows_models_column:
  "map snd (rows (models db')) = map snd (rows (models db)) @ ms \<Longrightarrow>
   column k (models db') = column k (models db) @ map k ms"
proof -
  have "column k t = map k (map snd (rows t))" for t by (simp add: column_def)
  then show "map snd (rows (models db')) = map snd (rows (models db)) @ ms \<Longrightarrow> ?thesis" by (metis map_append)
qed

definition known_names :: "int \<Rightarrow> db \<Rightarrow> string list" where
  "known_names pid db = map (\<lambda>im. m_name (snd im)) (list_models (Some pid) False db)"

lemma set_known_names: "set (known_names pid db) = {n. (n, pid) \<in> set (column model_key (models db))}"
  by (auto simp: known_names_def list_models_def column_def model_key_def)

text \<open>C21: what a synchronisation does. Let the provider exist and its answer list names (items without a
  name are passed over). If no name that is missing locally is listed twice, exactly the missing models are
  appended, in the order of the answer, each with the default settings and the provider's id; no other row
  of any table changes; the summary counts added and skipped names; and the same answer a second time adds
  nothing. If a missing name is listed twice, the run ends in an \<open>IntegrityError\<close>.\<close>

theorem sync_adds_missing_models:
  assumes "wf_db db" "lookup_row (providers db) pid \<noteq> None" "dget d ''data'' (JList []) = JList items"
    and "mapE item_name items = Inr nos" "missing = unknown_names (known_names pid db) nos"
  shows "if distinct missing
    then \<exists>db'. sync_body pid (JObj d) db =
          (Inr \<lparr>sy_added = int (length missing), sy_skipped = int (length (listed_names nos)) - int (length missing),
                sy_errors = []\<rparr>, db') \<and>
        map snd (rows (models db')) = map snd (rows (models db)) @ map (synced_model (sql_now db) pid) missing \<and>
        db' = db\<lparr>models := models db'\<rparr> \<and>
        sync_body pid (JObj d) db' =
          (Inr \<lparr>sy_added = 0, sy_skipped = int (length (listed_names nos)), sy_errors = []\<rparr>, db')
    else fst (sync_body pid (JObj d) db) = Inl integrity_error"
proof -
  have pid: "pid \<in> ids (providers db)" using assms(2) unfolding lookup_neq_None .
  have body: "sync_body pid (JObj d) db1 = sync_items pid (known_names pid db1) items empty_summary db1" for db1
    by (simp add: sync_body_def assms(3) known_names_def)
  have new: "\<forall>n \<in> set missing. (n, pid) \<notin> set (column model_key (models db))"
    by (auto simp: assms(5) unknown_names_def set_known_names)
  note result = sync_items_result [OF assms(4,1) pid, of "known_names pid db" empty_summary, folded assms(5)]
  show ?thesis
  proof (cases "distinct missing")
    case False
    then show ?thesis using result by (simp add: body)
  next
    case True
    then obtain db' where db': "sync_items pid (known_names pid db) items empty_summary db =
          (Inr (sync_total (known_names pid db) nos empty_summary), db')"
        "map snd (rows (models db')) = map snd (rows (models db)) @ map (synced_model (sql_now db) pid) missing"
        "only_models_changed db db'"
      using result new by auto
    have none: "unknown_names (known_names pid db') nos = []"
      using rows_models_column [OF db'(2), of model_key]
      by (force simp: unknown_names_def filter_empty_conv set_known_names assms(5))
    have "sync_items pid (known_names pid db') items empty_summary db' =
        (Inr (sync_total (known_names pid db') nos empty_summary), db')"
      by (rule sync_items_none [OF assms(4) none])
    then show ?thesis
      using True db' none by (auto simp: body sync_total_def empty_summary_def only_models_changed_def assms(5))
  qed
qed


definition sample_answer :: dict where
  "sample_answer = [(''data'', JList [JObj [(''id'', JStr ''z'')], JObj [(''id'', JStr ''a'')], JObj [], JObj [(''id'', JStr ''c'')]])]"

theorem sync_adds_missing_models_witness:
  "\<exists>db'. sync_body 1 (JObj sample_answer) sample_db = (Inr \<lparr>sy_added = 2, sy_skipped = 1, sy_errors = []\<rparr>, db') \<and>
    map snd (rows (models db')) = [sample_model ''a'', sample_model ''b'', synced_model 0 1 ''z'', synced_model 0 1 ''c'']"
proof -
  have known: "known_names 1 sample_db = [''a'', ''b'']" by code_simp
  have nos: "mapE item_name [JObj [(''id'', JStr ''z'')], JObj [(''id'', JStr ''a'')], JObj [], JObj [(''id'', JStr ''c'')]] =
      Inr [Some ''z'', Some ''a'', None, Some ''c'']" by simp
  have missing: "[''z'', ''c''] = unknown_names (known_names 1 sample_db) [Some ''z'', Some ''a'', None, Some ''c'']"
    by (simp add: known)
  have provider: "lookup_row (providers sample_db) 1 \<noteq> None" by code_simp
  have rows: "map snd (rows (models sample_db)) = [sample_model ''a'', sample_model ''b'']" by (simp add: sample_db_def)
  have clock: "sql_now sample_db = 0" by (simp add: sample_db_def empty_db_def)
  show ?thesis
    using sync_adds_missing_models [OF wf_sample_db provider _ nos missing, of sample_answer] rows
    by (auto simp: sample_answer_def clock)
qed

end
