(* ===== verification/Workflow.thy ===== *)
theory Workflow
  imports Strategies
begin

text \<open>
  The workflow strategy of \<open>src/botflow/pipeline/langgraph_strategy.py\<close>: a graph of prompts, each
  answered by one call, with edges that may depend on the answer.

  The parameters of the group are decoded into a record; \<open>flow_of\<close> is \<open>None\<close> when a member has another
  type than the module documents (nodes with a textual prompt and an integer or null group, textual
  conditions), and such a workflow is not run. The edges stay JSON, since the code checks their form.
  \<open>wl_dumps\<close> is \<open>json.dumps(..., ensure_ascii=False)\<close>, \<open>wl_repr\<close> is \<open>repr\<close> of a string, and
  \<open>wl_format messages state rest\<close> is \<open>rest.format(messages=..., state=...)\<close> for a rest that starts with a
  field that has a conversion, a format specification, an attribute or an index.
\<close>

record wf_lib =
  wl_dumps :: "json \<Rightarrow> string"
  wl_repr :: "string \<Rightarrow> string"
  wl_format :: "string \<Rightarrow> string \<Rightarrow> string \<Rightarrow> string res"

record node_cfg =
  nc_prompt :: string
  nc_group :: "int option"

record flow =
  fl_nodes :: "(string \<times> node_cfg) list"
  fl_edges :: "json list"
  fl_entry :: string
  fl_final :: "string option"

subsection \<open>Decoding the parameters\<close>

definition node_of :: "json \<Rightarrow> node_cfg option" where
  "node_of v =
     (case v of
        JObj d \<Rightarrow>
          (case (dget d ''prompt'' (JStr ''''), dget d ''group_id'' JNull) of
             (JStr p, JNull) \<Rightarrow> Some \<lparr>nc_prompt = p, nc_group = None\<rparr>
           | (JStr p, JInt i) \<Rightarrow> Some \<lparr>nc_prompt = p, nc_group = Some i\<rparr>
           | _ \<Rightarrow> None)
      | _ \<Rightarrow> None)"

fun nodes_of :: "dict \<Rightarrow> (string \<times> node_cfg) list option" where
  "nodes_of [] = Some []"
| "nodes_of ((k, v) # d) =
     (case (node_of v, nodes_of d) of (Some n, Some ns) \<Rightarrow> Some ((k, n) # ns) | _ \<Rightarrow> None)"

fun textual_condition :: "json \<Rightarrow> bool" where
  "textual_condition (JList (_ # _ # JStr _ # _)) = True"
| "textual_condition (JList (_ # _ # JNull # _)) = True"
| "textual_condition (JList (_ # _ # _ # _)) = False"
| "textual_condition _ = True"

definition flow_of :: "dict \<Rightarrow> flow option" where
  "flow_of params =
     (case (dget params ''nodes'' (JObj []), dget params ''edges'' (JList []), dget params ''entry'' (JStr ''''),
            dget params ''final'' JNull) of
        (JObj nodes, JList edges, JStr entry, final) \<Rightarrow>
          if list_all textual_condition edges
          then (case (nodes_of nodes, final) of
                  (Some ns, JNull) \<Rightarrow> Some \<lparr>fl_nodes = ns, fl_edges = edges, fl_entry = entry, fl_final = None\<rparr>
                | (Some ns, JStr f) \<Rightarrow> Some \<lparr>fl_nodes = ns, fl_edges = edges, fl_entry = entry, fl_final = Some f\<rparr>
                | _ \<Rightarrow> None)
          else None
      | _ \<Rightarrow> None)"

subsection \<open>The graph\<close>

type_synonym adjacency = "(string \<times> (string \<times> string option) list) list"

definition out_edges :: "adjacency \<Rightarrow> string \<Rightarrow> (string \<times> string option) list" where
  "out_edges adj n = (case map_of adj n of Some es \<Rightarrow> es | None \<Rightarrow> [])"

definition end_markers :: "string list" where
  "end_markers = [''__end__'', ''END'']"

text \<open>\<open>x in nodes_cfg\<close> for the JSON value of an edge: a list or an object is not hashable.\<close>

fun names_node :: "(string \<times> node_cfg) list \<Rightarrow> json \<Rightarrow> bool res" where
  "names_node ns (JStr s) = Inr (s \<in> fst ` set ns)"
| "names_node ns (JList _) = Inl (raised_by_python TypeErrorExc)"
| "names_node ns (JObj _) = Inl (raised_by_python TypeErrorExc)"
| "names_node ns _ = Inr False"

definition quoted :: "string \<Rightarrow> string" where
  "quoted s = [CHR 0x27] @ s @ [CHR 0x27]"

definition json_text :: "json \<Rightarrow> string" where
  "json_text v = (case v of JStr s \<Rightarrow> s | _ \<Rightarrow> [])"

fun edge_condition :: "json list \<Rightarrow> string option" where
  "edge_condition (_ # _ # JStr c # _) = Some c"
| "edge_condition _ = None"

text \<open>One edge, checked and added to the adjacency lists.\<close>

definition add_edge :: "(json \<Rightarrow> string) \<Rightarrow> (string \<times> node_cfg) list \<Rightarrow> json \<Rightarrow> adjacency \<Rightarrow> adjacency res" where
  "add_edge str_of ns e adj =
     (case e of
        JList (src # dst # others) \<Rightarrow>
          bindE (names_node ns src) (\<lambda>src_ok.
            if \<not> src_ok then Inl (mk_exc ConfigurationError (''Edge source '' @ quoted (text_of str_of src) @ '' not in nodes''))
            else bindE (names_node ns dst) (\<lambda>dst_ok.
              if \<not> dst_ok \<and> \<not> (\<exists>m \<in> set end_markers. dst = JStr m)
              then Inl (mk_exc ConfigurationError (''Edge target '' @ quoted (text_of str_of dst) @ '' not in nodes''))
              else Inr (AList.update (json_text src)
                     (out_edges adj (json_text src) @ [(json_text dst, edge_condition (src # dst # others))]) adj)))
      | _ \<Rightarrow> Inl (mk_exc ConfigurationError (''Invalid edge format: '' @ text_of str_of e)))"

fun add_edges :: "(json \<Rightarrow> string) \<Rightarrow> (string \<times> node_cfg) list \<Rightarrow> json list \<Rightarrow> adjacency \<Rightarrow> adjacency res" where
  "add_edges str_of ns [] adj = Inr adj"
| "add_edges str_of ns (e # es) adj = bindE (add_edge str_of ns e adj) (add_edges str_of ns es)"

definition build_graph :: "(json \<Rightarrow> string) \<Rightarrow> flow \<Rightarrow> adjacency res" where
  "build_graph str_of fl =
     (if fl_nodes fl = [] then Inl (mk_exc ConfigurationError (''LangGraph strategy requires '' @ quoted ''nodes'' @ '' in params''))
      else if fl_entry fl = [] \<or> fl_entry fl \<notin> fst ` set (fl_nodes fl)
      then Inl (mk_exc ConfigurationError (''Invalid entry node '' @ quoted (fl_entry fl) @ ''. Available: '' @
                  str_of (JList (map (\<lambda>kn. JStr (fst kn)) (fl_nodes fl)))))
      else add_edges str_of (fl_nodes fl) (fl_edges fl) (map (\<lambda>kn. (fst kn, [])) (fl_nodes fl)))"

text \<open>\<open>condition in content\<close> for a textual condition.\<close>

fun condition_holds :: "string option \<Rightarrow> json \<Rightarrow> bool" where
  "condition_holds None v = True"
| "condition_holds (Some c) (JStr s) = contains c s"
| "condition_holds (Some c) (JList xs) = (JStr c \<in> set xs)"
| "condition_holds (Some c) (JObj d) = (c \<in> fst ` set d)"
| "condition_holds (Some c) _ = False"

text \<open>The node after one whose answer had the content \<open>v\<close>; the first edge is the default.\<close>

definition next_of :: "(string \<times> string option) list \<Rightarrow> json \<Rightarrow> string option" where
  "next_of edges v =
     (case edges of
        [] \<Rightarrow> None
      | [e] \<Rightarrow> Some (fst e)
      | e # _ \<Rightarrow>
          (case find (\<lambda>tc. condition_holds (snd tc) v) edges of Some tc \<Rightarrow> Some (fst tc) | None \<Rightarrow> Some (fst e)))"

text \<open>The condition of the loop.\<close>

definition ends_flow :: "string option \<Rightarrow> bool" where
  "ends_flow current = (case current of None \<Rightarrow> True | Some n \<Rightarrow> n = [] \<or> n \<in> set end_markers)"

subsection \<open>Prompts\<close>

text \<open>\<open>_format_messages\<close>; a message whose role is no text is shown with \<open>str\<close>.\<close>

definition format_message :: "(json \<Rightarrow> string) \<Rightarrow> (json \<Rightarrow> string) \<Rightarrow> dict \<Rightarrow> string" where
  "format_message str_of dumps m =
     ''['' @ text_of str_of (dget m ''role'' (JStr ''unknown'')) @ '']: '' @
     (case dget m ''content'' (JStr '''') of JStr s \<Rightarrow> s | v \<Rightarrow> dumps v)"

definition format_messages :: "(json \<Rightarrow> string) \<Rightarrow> (json \<Rightarrow> string) \<Rightarrow> dict list \<Rightarrow> string" where
  "format_messages str_of dumps msgs = join [CHR 0x0A] (map (format_message str_of dumps) msgs)"

text \<open>The value of a plain field. Positional fields have no arguments to refer to.\<close>

definition field_value :: "string \<Rightarrow> string \<Rightarrow> string \<Rightarrow> string res" where
  "field_value messages state name =
     (if name = ''messages'' then Inr messages
      else if name = ''state'' then Inr state
      else if list_all is_digit name
      then (if int (nat_of_digits name) < 2 ^ 63 then Inl (raised_by_python IndexErrorExc) else Inl (raised_by_python ValueErrorExc))
      else Inl (mk_exc KeyErrorExc name))"

definition plain_field_char :: "char \<Rightarrow> bool" where
  "plain_field_char c \<longleftrightarrow> c \<notin> set ''{}[!:.''"

lemma length_dropWhile_tl: "dropWhile p cs = d # ds \<Longrightarrow> length ds < Suc (length cs)"
  using length_dropWhile_le [of p cs] by simp

text \<open>\<open>template.format(messages=..., state=...)\<close>, from left to right; \<open>KeyErrorExc\<close> carries the name.\<close>

function py_format :: "wf_lib \<Rightarrow> string \<Rightarrow> string \<Rightarrow> string \<Rightarrow> string res" where
  "py_format L messages state [] = Inr []"
| "py_format L messages state (c # cs) =
     (if c = CHR ''{'' then
        (if cs \<noteq> [] \<and> hd cs = CHR ''{'' then bindE (py_format L messages state (tl cs)) (\<lambda>s. Inr (CHR ''{'' # s))
         else let name = takeWhile plain_field_char cs; rest = dropWhile plain_field_char cs in
           case rest of
             [] \<Rightarrow> Inl (raised_by_python ValueErrorExc)
           | d # ds \<Rightarrow>
               if d = CHR ''}''
               then bindE (field_value messages state name) (\<lambda>v. bindE (py_format L messages state ds) (\<lambda>s. Inr (v @ s)))
               else wl_format L messages state (c # cs))
      else if c = CHR ''}'' then
        (if cs \<noteq> [] \<and> hd cs = CHR ''}'' then bindE (py_format L messages state (tl cs)) (\<lambda>s. Inr (CHR ''}'' # s))
         else Inl (raised_by_python ValueErrorExc))
      else bindE (py_format L messages state cs) (\<lambda>s. Inr (c # s)))"
  by pat_completeness auto

termination
  by (relation "measure (\<lambda>(L, m, s, t). length t)") (auto dest: length_dropWhile_tl sym)

declare py_format.simps [simp del]

subsection \<open>One node\<close>

definition message_of :: "json \<Rightarrow> dict res" where
  "message_of c =
     (case c of
        JObj d \<Rightarrow> (case dget d ''message'' (JObj []) of JObj m \<Rightarrow> Inr m | _ \<Rightarrow> Inl (raised_by_python AttributeErrorExc))
      | _ \<Rightarrow> Inl (raised_by_python AttributeErrorExc))"

text \<open>\<open>_extract_content\<close>.\<close>

definition extract_content :: "dict \<Rightarrow> json res" where
  "extract_content resp =
     (let choices = dget resp ''choices'' (JList []) in
      if \<not> truthy choices then Inr (JStr '''')
      else case choices of
        JList (c # _) \<Rightarrow> bindE (message_of c) (\<lambda>m. Inr (dget m ''content'' (JStr '''')))
      | JStr _ \<Rightarrow> Inl (raised_by_python AttributeErrorExc)
      | JObj _ \<Rightarrow> Inl (raised_by_python KeyErrorExc)
      | _ \<Rightarrow> Inl (raised_by_python TypeErrorExc))"

text \<open>\<open>len(content)\<close>, which the log line after each node evaluates.\<close>

fun has_len :: "json \<Rightarrow> bool" where
  "has_len (JStr _) = True" | "has_len (JList _) = True" | "has_len (JObj _) = True" | "has_len _ = False"

type_synonym endpoint_memo = "(int \<times> endpoint list) list"

definition get_endpoints :: "'w env \<Rightarrow> int \<Rightarrow> endpoint_memo \<Rightarrow> 'w gw \<Rightarrow> (endpoint list \<times> endpoint_memo) res \<times> 'w gw" where
  "get_endpoints env gid memo g =
     (case map_of memo gid of
        Some eps \<Rightarrow> (Inr (eps, memo), g)
      | None \<Rightarrow>
          (case load_endpoints env gid g of
             (Inl e, g1) \<Rightarrow> (Inl e, g1)
           | (Inr eps, g1) \<Rightarrow>
               if eps = [] then (Inl (mk_exc NoAvailableModelError (''Group '' @ str_int gid @ '' has no enabled models'')), g1)
               else (Inr (eps, (gid, eps) # memo), g1)))"

definition node_prompt :: "wf_lib \<Rightarrow> 'w env \<Rightarrow> dict list \<Rightarrow> dict \<Rightarrow> string \<Rightarrow> node_cfg \<Rightarrow> string res" where
  "node_prompt L env msgs state n nc =
     (case py_format L (format_messages (e_str env) (wl_dumps L) msgs) (wl_dumps L (JObj state)) (nc_prompt nc) of
        Inr p \<Rightarrow> Inr p
      | Inl e \<Rightarrow>
          if exc_class e = KeyErrorExc
          then Inl (mk_exc ConfigurationError (''Node '' @ quoted n @ '' prompt has unknown placeholder: '' @ wl_repr L (exc_msg e)))
          else Inl e)"

text \<open>The node \<open>n\<close>: its response with the content, and the endpoints remembered so far.\<close>

definition run_flow_node :: "wf_lib \<Rightarrow> 'w env \<Rightarrow> dict list \<Rightarrow> int \<Rightarrow> json \<Rightarrow> int option \<Rightarrow> dict \<Rightarrow> string \<Rightarrow> node_cfg \<Rightarrow>
    dict \<Rightarrow> endpoint_memo \<Rightarrow> 'w gw \<Rightarrow> (dict \<times> json \<times> endpoint_memo) res \<times> 'w gw" where
  "run_flow_node L env msgs group_id temperature max_tokens kwargs n nc state memo g =
     (let gid = (case nc_group nc of Some i \<Rightarrow> i | None \<Rightarrow> group_id) in
      case get_endpoints env gid memo g of
        (Inl e, g1) \<Rightarrow> (Inl e, g1)
      | (Inr (eps, memo1), g1) \<Rightarrow>
          (case filter_available env eps gid g1 of
             ([], g2) \<Rightarrow>
               (Inl (mk_exc NoAvailableModelError (''All models on cooldown for node '' @ quoted n @ '' (group '' @ str_int gid @ '')'')), g2)
           | (ep # rest, g2) \<Rightarrow>
               (case bindE (node_prompt L env msgs state n nc) (\<lambda>p.
                       truncate_messages env [[(''role'', JStr ''user''), (''content'', JStr p)]] (ep # rest) max_tokens) of
                  Inl e \<Rightarrow> (Inl e, g2)
                | Inr truncated \<Rightarrow>
                    (case call_llm env ep truncated gid temperature max_tokens kwargs g2 of
                       (Inl e, g3) \<Rightarrow> (Inl e, g3)
                     | (Inr (None, _), g3) \<Rightarrow>
                         (Inl (mk_exc NoAvailableModelError (''LLM call failed for node '' @ quoted n)), g3)
                     | (Inr (Some resp, _), g3) \<Rightarrow>
                         (bindE (extract_content resp) (\<lambda>v.
                            if has_len v then Inr (resp, v, memo1) else Inl (raised_by_python TypeErrorExc)), g3)))))"

subsection \<open>The loop and the result\<close>

text \<open>\<open>_build_response\<close> for a response there is.\<close>

definition build_response :: "json \<Rightarrow> dict \<Rightarrow> dict res" where
  "build_response final_content base =
     (let choices = dget base ''choices'' JNull in
      if \<not> truthy choices then Inr base
      else case choices of
        JList (JObj c # cs) \<Rightarrow>
          (case map_of c ''message'' of
             None \<Rightarrow> Inl (raised_by_python KeyErrorExc)
           | Some (JObj m) \<Rightarrow>
               Inr (dset ''choices'' (JList (JObj (dset ''message'' (JObj (dset ''content'' final_content m)) c) # cs)) base)
           | Some _ \<Rightarrow> Inl (raised_by_python TypeErrorExc))
      | _ \<Rightarrow> Inl (raised_by_python TypeErrorExc))"

definition flow_result :: "flow \<Rightarrow> dict \<Rightarrow> dict option \<Rightarrow> dict res" where
  "flow_result fl state last_resp =
     (case last_resp of
        None \<Rightarrow> Inl (mk_exc ProviderError ''LangGraph produced no response'')
      | Some resp \<Rightarrow>
          (case fl_final fl of
             Some f \<Rightarrow>
               (if f \<noteq> [] then (case map_of state f of Some v \<Rightarrow> build_response v resp | None \<Rightarrow> Inr resp) else Inr resp)
           | None \<Rightarrow> Inr resp))"

definition max_steps :: nat where
  "max_steps = 50"

text \<open>The loop, with the number of steps that are left.\<close>

fun flow_loop :: "nat \<Rightarrow> wf_lib \<Rightarrow> 'w env \<Rightarrow> flow \<Rightarrow> adjacency \<Rightarrow> dict list \<Rightarrow> int \<Rightarrow> json \<Rightarrow> int option \<Rightarrow> dict \<Rightarrow>
    string option \<Rightarrow> dict \<Rightarrow> dict option \<Rightarrow> endpoint_memo \<Rightarrow> 'w gw \<Rightarrow> dict res \<times> 'w gw" where
  "flow_loop left L env fl adj msgs gid temperature max_tokens kwargs current state last_resp memo g =
     (if ends_flow current then (flow_result fl state last_resp, g)
      else case left of
        0 \<Rightarrow> (Inl (mk_exc StrategyError (''LangGraph exceeded max steps ('' @ str_int (int max_steps) @ ''), possible cycle'')), g)
      | Suc left' \<Rightarrow>
          let n = the current in
          (case map_of (fl_nodes fl) n of
             None \<Rightarrow> (Inl (mk_exc ConfigurationError (''Node '' @ quoted n @ '' not found in nodes config'')), g)
           | Some nc \<Rightarrow>
               (case run_flow_node L env msgs gid temperature max_tokens kwargs n nc state memo g of
                  (Inl e, g1) \<Rightarrow> (Inl e, g1)
                | (Inr (resp, v, memo1), g1) \<Rightarrow>
                    flow_loop left' L env fl adj msgs gid temperature max_tokens kwargs (next_of (out_edges adj n) v)
                      (dset n v state) (Some resp) memo1 g1)))"

declare flow_loop.simps [simp del]

definition execute_flow :: "wf_lib \<Rightarrow> 'w env \<Rightarrow> flow \<Rightarrow> dict list \<Rightarrow> int \<Rightarrow> json \<Rightarrow> int option \<Rightarrow> dict \<Rightarrow>
    'w gw \<Rightarrow> dict res \<times> 'w gw" where
  "execute_flow L env fl msgs gid temperature max_tokens kwargs g =
     (case build_graph (e_str env) fl of
        Inl e \<Rightarrow> (Inl e, g)
      | Inr adj \<Rightarrow> flow_loop max_steps L env fl adj msgs gid temperature max_tokens kwargs (Some (fl_entry fl)) [] None [] g)"

end
