(* ===== verification/Workflow_Facts.thy ===== *)
theory Workflow_Facts
  imports Workflow Strategy_Facts
begin

text \<open>
  What a run of a workflow is: a walk through the graph of at most fifty calls of its nodes, each made where
  the one before left off, whose last answer, with the content of the final node, is the result; it takes
  no permit with it.
\<close>

subsection \<open>Runs\<close>

text \<open>The nodes that were run, each with the content of its answer.\<close>

type_synonym walk = "(string \<times> json) list"

text \<open>The variables of the loop: the next node, the contents so far, the last response, the endpoints
  remembered, and the gateway.\<close>

type_synonym 'w flow_point = "string option \<times> dict \<times> dict option \<times> endpoint_memo \<times> 'w gw"

text \<open>
  The edge of a run in terms of the graph: after a node, the first edge whose condition the content meets
  is taken, a single edge in any case, and the first edge when no condition is met.
\<close>

definition selects_edge :: "(string \<times> string option) list \<Rightarrow> json \<Rightarrow> string option \<Rightarrow> bool" where
  "selects_edge edges v next_node \<longleftrightarrow>
     (if edges = [] then next_node = None
      else \<exists>k < length edges. next_node = Some (fst (edges ! k)) \<and>
        (length edges = 1 \<or> (condition_holds (snd (edges ! k)) v \<and> (\<forall>j < k. \<not> condition_holds (snd (edges ! j)) v)) \<or>
         (k = 0 \<and> (\<forall>tc \<in> set edges. \<not> condition_holds (snd tc) v))))"

text \<open>
  A run visits a node by calling it on the contents, the endpoints and the gateway that the visits before
  left; the answer of that call is what the walk records, and it selects the edge.
\<close>

inductive flow_run :: "wf_lib \<Rightarrow> 'w env \<Rightarrow> flow \<Rightarrow> adjacency \<Rightarrow> dict list \<Rightarrow> int \<Rightarrow> json \<Rightarrow> int option \<Rightarrow> dict \<Rightarrow>
    'w flow_point \<Rightarrow> walk \<Rightarrow> 'w flow_point \<Rightarrow> bool" for L env fl adj msgs gid t mt kw where
  stop: "flow_run L env fl adj msgs gid t mt kw x [] x"
| visit: "\<not> ends_flow (Some n) \<Longrightarrow> map_of (fl_nodes fl) n = Some nc \<Longrightarrow>
    run_flow_node L env msgs gid t mt kw n nc state memo g = (Inr (resp, v, memo1), g1) \<Longrightarrow>
    selects_edge (out_edges adj n) v c \<Longrightarrow>
    flow_run L env fl adj msgs gid t mt kw (c, dset n v state, Some resp, memo1, g1) w z \<Longrightarrow>
    flow_run L env fl adj msgs gid t mt kw (Some n, state, last_resp, memo, g) ((n, v) # w) z"

lemma selects_next_of: "selects_edge edges v (next_of edges v)"
proof (cases edges rule: remdups_adj.cases)
  case (3 e1 e2 es)
  show ?thesis
  proof (cases "find (\<lambda>tc. condition_holds (snd tc) v) edges")
    case None
    then have "\<not> condition_holds (snd tc) v" if "tc \<in> set edges" for tc using that by (cases tc) (auto simp: find_None_iff)
    moreover have "next_of edges v = Some (fst e1)" unfolding next_of_def None by (simp add: 3)
    ultimately show ?thesis using 3 by (auto simp: selects_edge_def intro!: exI [of _ 0])
  next
    case (Some tc)
    then obtain k where "k < length edges" "condition_holds (snd (edges ! k)) v" "tc = edges ! k"
        "\<forall>j < k. \<not> condition_holds (snd (edges ! j)) v" by (auto simp: find_Some_iff)
    then show ?thesis using 3 Some by (auto simp: selects_edge_def next_of_def)
  qed
qed (auto simp: selects_edge_def next_of_def)

definition walk_state :: "walk \<Rightarrow> dict \<Rightarrow> dict" where
  "walk_state w state = fold (\<lambda>(n, v). dset n v) w state"

lemma walk_state_simps [simp]:
  "walk_state [] s = s" "walk_state ((n, v) # w) s = walk_state w (dset n v s)"
  by (simp_all add: walk_state_def)

lemma map_of_walk_state: "map_of (walk_state w s) f = (case map_of (rev w) f of Some v \<Rightarrow> Some v | None \<Rightarrow> map_of s f)"
  by (induction w arbitrary: s) (auto simp: dset_def update_conv map_add_def split: option.splits)

text \<open>The error of a walk that does not end.\<close>

definition too_many_steps :: exc where
  "too_many_steps = mk_exc StrategyError ''LangGraph exceeded max steps (50), possible cycle''"

subsection \<open>Nodes return what they take\<close>

lemma get_endpoints_frame:
  assumes "wf_gw g" "get_endpoints env gid memo g = (r, g')"
  shows "wf_gw g' \<and> same_permits g g' \<and> gw_db g' = gw_db g"
proof (cases "map_of memo gid")
  case None
  obtain q g1 where l: "load_endpoints env gid g = (q, g1)" by (cases "load_endpoints env gid g")
  then have "g' = g1" using assms(2) None by (auto simp: get_endpoints_def split: sum.splits if_splits)
  then show ?thesis using load_endpoints_spec [OF assms(1) l] by simp
next
  case (Some eps)
  then show ?thesis using assms by (auto simp: get_endpoints_def same_permits_def)
qed

definition kept :: "'w gw \<Rightarrow> 'w gw \<Rightarrow> bool" where
  "kept g g' \<longleftrightarrow> (wf_gw g \<longrightarrow> wf_gw g') \<and> same_permits g g' \<and> gw_db g' = gw_db g"

lemma kept_refl [simp]: "kept g g"
  by (simp add: kept_def)

lemma kept_trans: "kept g g' \<Longrightarrow> kept g' g'' \<Longrightarrow> kept g g''"
  by (auto simp: kept_def same_permits_def)

lemma kept_call: "call_frame g g' \<Longrightarrow> kept g g'"
  by (simp add: kept_def call_frame_def same_tables_def wf_gw_def)

lemma run_flow_node_frame:
  assumes "wf_gw g" "run_flow_node L env msgs gid t mt kw n nc state memo g = (r, g')"
  shows "kept g g' \<and> (\<forall>resp v memo'. r = Inr (resp, v, memo') \<longrightarrow> extract_content resp = Inr v)"
proof -
  define i where "i = (case nc_group nc of Some i \<Rightarrow> i | None \<Rightarrow> gid)"
  obtain q g1 where ge: "get_endpoints env i memo g = (q, g1)" by (cases "get_endpoints env i memo g")
  have k1: "kept g g1" using get_endpoints_frame [OF assms(1) ge] by (simp add: kept_def)
  show ?thesis
  proof (cases q)
    case (Inl e)
    then show ?thesis using assms(2) ge k1 by (auto simp: run_flow_node_def i_def [symmetric])
  next
    case (Inr em)
    obtain eps memo1 where em: "em = (eps, memo1)" by (cases em)
    obtain av g2 where fa: "filter_available env eps i g1 = (av, g2)" by (cases "filter_available env eps i g1")
    have k2: "kept g g2" using kept_trans [OF k1 kept_call] filter_available_frame [of g1 env eps i] by (simp add: fa)
    show ?thesis
    proof (cases av)
      case Nil
      then show ?thesis using assms(2) ge Inr em fa k2 by (auto simp: run_flow_node_def i_def [symmetric])
    next
      case (Cons ep rest)
      define tr where "tr = bindE (node_prompt L env msgs state n nc) (\<lambda>p.
        truncate_messages env [[(''role'', JStr ''user''), (''content'', JStr p)]] (ep # rest) mt)"
      show ?thesis
      proof (cases tr)
        case (Inl e)
        then show ?thesis
          using assms(2) ge Inr em fa Cons k2 by (auto simp: run_flow_node_def i_def [symmetric] tr_def)
      next
        case (Inr truncated)
        obtain a g3 where call: "call_llm env ep truncated i t mt kw g2 = (a, g3)" by (cases "call_llm env ep truncated i t mt kw g2")
        have "kept g g3"
          using kept_trans [OF k2 kept_call] call_llm_frame [of g2 env ep truncated i t mt kw] by (simp add: call)
        moreover have "(r, g') = (case a of Inl e \<Rightarrow> (Inl e, g3)
            | Inr (None, _) \<Rightarrow> (Inl (mk_exc NoAvailableModelError (''LLM call failed for node '' @ quoted n)), g3)
            | Inr (Some resp, _) \<Rightarrow> (bindE (extract_content resp) (\<lambda>v.
                if has_len v then Inr (resp, v, memo1) else Inl (raised_by_python TypeErrorExc)), g3))"
          using assms(2) ge \<open>q = Inr em\<close> em fa Cons Inr call
          by (simp add: run_flow_node_def i_def [symmetric] tr_def [symmetric] split: sum.splits prod.splits option.splits)
        moreover have "extract_content resp = Inr v"
          if "Inr (resp, v, memo') = bindE (extract_content x)
            (\<lambda>v. if has_len v then Inr (x, v, memo1) else Inl (raised_by_python TypeErrorExc))" for x resp v memo'
          using that [symmetric] by (auto simp: bindE_eq_Inr split: if_splits)
        ultimately show ?thesis by (auto split: sum.splits option.splits)
      qed
    qed
  qed
qed

subsection \<open>The graph\<close>

text \<open>Every edge of a valid graph leads to a node or to an end marker.\<close>

definition closed_graph :: "(string \<times> node_cfg) list \<Rightarrow> adjacency \<Rightarrow> bool" where
  "closed_graph ns adj \<longleftrightarrow> (\<forall>n. \<forall>tc \<in> set (out_edges adj n). fst tc \<in> fst ` set ns \<union> set end_markers)"

lemma out_edges_update: "out_edges (AList.update k es adj) n = (if n = k then es else out_edges adj n)"
  by (simp add: out_edges_def update_conv)

lemma names_nodeD: "names_node ns v = Inr True \<Longrightarrow> \<exists>s. v = JStr s \<and> s \<in> fst ` set ns"
  by (cases "(ns, v)" rule: names_node.cases) auto

lemma add_edge_closed:
  assumes "add_edge str_of ns e adj = Inr adj'" "closed_graph ns adj"
  shows "closed_graph ns adj'"
proof -
  obtain src dst others where e: "e = JList (src # dst # others)"
    using assms(1) by (auto simp: add_edge_def split: json.splits list.splits)
  obtain dst_ok where dst: "names_node ns dst = Inr dst_ok" "dst_ok \<or> (\<exists>m \<in> set end_markers. dst = JStr m)"
    and adj': "adj' = AList.update (json_text src) (out_edges adj (json_text src) @ [(json_text dst, edge_condition (src # dst # others))]) adj"
    using assms(1) by (auto simp: add_edge_def e bindE_eq_Inr split: if_splits)
  have "json_text dst \<in> fst ` set ns \<union> set end_markers"
    using dst names_nodeD [of ns dst] by (auto simp: json_text_def)
  then show ?thesis using assms(2) unfolding closed_graph_def adj' out_edges_update by auto
qed

lemma add_edges_closed: "add_edges str_of ns es adj = Inr adj' \<Longrightarrow> closed_graph ns adj \<Longrightarrow> closed_graph ns adj'"
  by (induction es arbitrary: adj) (auto simp: bindE_eq_Inr dest: add_edge_closed)

lemma no_edges_closed: "closed_graph ns (map (\<lambda>kn. (fst kn, [])) xs)"
proof -
  have "out_edges (map (\<lambda>kn. (fst kn, [])) xs) n = []" for n by (induction xs) (auto simp: out_edges_def)
  then show ?thesis by (simp add: closed_graph_def)
qed

lemma build_graph_closed:
  "build_graph str_of fl = Inr adj \<Longrightarrow> closed_graph (fl_nodes fl) adj \<and> fl_entry fl \<in> fst ` set (fl_nodes fl) \<and> fl_entry fl \<noteq> []"
  using add_edges_closed [OF _ no_edges_closed, of str_of "fl_nodes fl" "fl_edges fl" "fl_nodes fl" adj]
  by (simp add: build_graph_def split: if_splits)

text \<open>The node the loop is at is one of the graph, unless the run is at its end.\<close>

definition at_node :: "flow \<Rightarrow> string option \<Rightarrow> bool" where
  "at_node fl current \<longleftrightarrow> (\<not> ends_flow current \<longrightarrow> (\<exists>n nc. current = Some n \<and> map_of (fl_nodes fl) n = Some nc))"

lemma at_node_name: "n \<in> fst ` set (fl_nodes fl) \<union> set end_markers \<Longrightarrow> at_node fl (Some n)"
  using weak_map_of_SomeI [of n _ "fl_nodes fl"] by (force simp: at_node_def ends_flow_def)

lemma at_next_node: "closed_graph (fl_nodes fl) adj \<Longrightarrow> at_node fl (next_of (out_edges adj n) v)"
proof -
  assume closed: "closed_graph (fl_nodes fl) adj"
  show ?thesis
  proof (cases "next_of (out_edges adj n) v")
    case None
    then show ?thesis by (simp add: at_node_def ends_flow_def)
  next
    case (Some m)
    then obtain k where "k < length (out_edges adj n)" "m = fst (out_edges adj n ! k)"
      using selects_next_of [of "out_edges adj n" v] by (auto simp: selects_edge_def split: if_splits)
    then have "m \<in> fst ` set (fl_nodes fl) \<union> set end_markers"
      using closed nth_mem unfolding closed_graph_def by blast
    then show ?thesis using Some at_node_name by simp
  qed
qed

subsection \<open>The loop\<close>

text \<open>What follows a run that cannot go on: the result at an end, the error of a possible cycle when no
  step is left, and otherwise the error of the next node, called where the run stands.\<close>

definition flow_outcome :: "nat \<Rightarrow> wf_lib \<Rightarrow> 'w env \<Rightarrow> flow \<Rightarrow> dict list \<Rightarrow> int \<Rightarrow> json \<Rightarrow> int option \<Rightarrow> dict \<Rightarrow>
    walk \<Rightarrow> 'w flow_point \<Rightarrow> dict res \<Rightarrow> 'w gw \<Rightarrow> bool" where
  "flow_outcome left L env fl msgs gid t mt kw w z r g' \<longleftrightarrow>
     (case z of (current, state, last_resp, memo, g) \<Rightarrow>
        if ends_flow current then r = flow_result fl state last_resp \<and> g' = g
        else if length w = left then r = Inl too_many_steps \<and> g' = g
        else \<exists>n nc e. current = Some n \<and> map_of (fl_nodes fl) n = Some nc \<and>
          run_flow_node L env msgs gid t mt kw n nc state memo g = (Inl e, g') \<and> r = Inl e)"

lemma str_int_max_steps: "str_int (int max_steps) = ''50''"
  by code_simp

lemma flow_loop_run:
  assumes "closed_graph (fl_nodes fl) adj" "at_node fl current"
    and "flow_loop left L env fl adj msgs gid t mt kw current state last_resp memo g = (r, g')"
  shows "\<exists>w z. length w \<le> left \<and> flow_run L env fl adj msgs gid t mt kw (current, state, last_resp, memo, g) w z \<and>
    flow_outcome left L env fl msgs gid t mt kw w z r g'"
  using assms(2,3)
proof (induction left arbitrary: current state last_resp memo g)
  case 0
  then show ?case
    by (intro exI [of _ "[]"] exI [of _ "(current, state, last_resp, memo, g)"])
      (subst (asm) flow_loop.simps, auto simp: flow_outcome_def too_many_steps_def str_int_max_steps intro: flow_run.stop split: if_splits)
next
  case (Suc left)
  let ?here = "(current, state, last_resp, memo, g)"
  show ?case
  proof (cases "ends_flow current")
    case True
    then have "g' = g" "r = flow_result fl state last_resp"
      using Suc.prems(2) by (subst (asm) flow_loop.simps; simp)+
    then show ?thesis
      using True by (intro exI [of _ "[]"] exI [of _ ?here]) (auto simp: flow_outcome_def intro: flow_run.stop)
  next
    case False
    then obtain n nc where n: "current = Some n" "map_of (fl_nodes fl) n = Some nc"
      using Suc.prems(1) by (auto simp: at_node_def)
    obtain q g1 where q: "run_flow_node L env msgs gid t mt kw n nc state memo g = (q, g1)"
      by (cases "run_flow_node L env msgs gid t mt kw n nc state memo g")
    show ?thesis
    proof (cases q)
      case (Inl e)
      then have "r = Inl e" "g' = g1" using Suc.prems(2) False n q by (subst (asm) flow_loop.simps; simp)+
      then have "flow_outcome (Suc left) L env fl msgs gid t mt kw [] ?here r g'"
        using False n q Inl by (simp add: flow_outcome_def)
      then show ?thesis using flow_run.stop [of L env fl adj msgs gid t mt kw ?here]
        by (intro exI [of _ "[]"] exI [of _ ?here]) simp
    next
      case (Inr x)
      obtain resp v memo1 where x: "x = (resp, v, memo1)" by (cases x)
      have go: "flow_loop left L env fl adj msgs gid t mt kw (next_of (out_edges adj n) v) (dset n v state) (Some resp) memo1 g1 = (r, g')"
        using Suc.prems(2) False n q Inr x by (subst (asm) flow_loop.simps) simp
      from Suc.IH [OF at_next_node [OF assms(1)] go] obtain w z where w: "length w \<le> left"
        "flow_run L env fl adj msgs gid t mt kw (next_of (out_edges adj n) v, dset n v state, Some resp, memo1, g1) w z"
        "flow_outcome left L env fl msgs gid t mt kw w z r g'" by blast
      have "flow_run L env fl adj msgs gid t mt kw ?here ((n, v) # w) z"
        unfolding n(1) by (rule flow_run.visit [OF _ n(2) _ selects_next_of w(2)]) (use False n q Inr x in auto)
      moreover have "flow_outcome (Suc left) L env fl msgs gid t mt kw ((n, v) # w) z r g'"
        using w(3) by (auto simp: flow_outcome_def split: prod.splits if_splits)
      ultimately show ?thesis using w(1) by (intro exI [of _ "(n, v) # w"] exI [of _ z]) simp
    qed
  qed
qed

text \<open>What a run keeps: the gateway's permits and tables, the contents of the nodes, the last response.\<close>

lemma flow_run_keeps:
  "flow_run L env fl adj msgs gid t mt kw x w z \<Longrightarrow> wf_gw (snd (snd (snd (snd x)))) \<Longrightarrow>
   kept (snd (snd (snd (snd x)))) (snd (snd (snd (snd z)))) \<and> fst ` set w \<subseteq> fst ` set (fl_nodes fl) \<and>
   fst (snd z) = walk_state w (fst (snd x)) \<and>
   (if w = [] then z = x
    else \<exists>resp. fst (snd (snd z)) = Some resp \<and> extract_content resp = Inr (snd (List.last w)))"
proof (induction rule: flow_run.induct)
  case (stop x)
  then show ?case by simp
next
  case (visit n nc state memo g resp v memo1 g1 c w z last_resp)
  have g: "wf_gw g" using visit.prems by simp
  note node = run_flow_node_frame [OF g visit.hyps(3)]
  have "wf_gw g1" using node g by (simp add: kept_def)
  moreover have "n \<in> fst ` set (fl_nodes fl)" using map_of_SomeD [OF visit.hyps(2)] by force
  ultimately show ?case using visit.IH node kept_trans [of g g1] by (cases "w = []") auto
qed

subsection \<open>The result\<close>

lemma build_response_content:
  "build_response v resp = Inr d \<Longrightarrow> truthy (dget resp ''choices'' JNull) \<Longrightarrow> extract_content d = Inr v"
  by (auto simp: build_response_def extract_content_def message_of_def Let_def split: json.splits list.splits option.splits)

lemma flow_result_final:
  "flow_result fl state (Some resp) = Inr d \<Longrightarrow> fl_final fl = Some f \<Longrightarrow> f \<noteq> [] \<Longrightarrow> map_of state f = Some v \<Longrightarrow>
   truthy (dget resp ''choices'' JNull) \<Longrightarrow> extract_content d = Inr v"
  by (auto simp: flow_result_def dest: build_response_content)

text \<open>A single edge is followed whatever its condition says.\<close>

lemma single_edge_ignores_condition: "next_of [(n, Some c)] v = Some n"
  by (simp add: next_of_def)

lemma execute_flow_kept:
  assumes "wf_gw g" "execute_flow L env fl msgs gid t mt kw g = (r, g')"
  shows "kept g g'"
proof (cases "build_graph (e_str env) fl")
  case (Inl e)
  then show ?thesis using assms(2) by (simp add: execute_flow_def)
next
  case (Inr adj)
  then have loop: "flow_loop max_steps L env fl adj msgs gid t mt kw (Some (fl_entry fl)) [] None [] g = (r, g')"
    using assms(2) by (simp add: execute_flow_def)
  have graph: "closed_graph (fl_nodes fl) adj" "at_node fl (Some (fl_entry fl))"
    using build_graph_closed [OF Inr] at_node_name by auto
  from flow_loop_run [OF graph loop] obtain w current state last_resp memo g1 where
    w: "flow_run L env fl adj msgs gid t mt kw (Some (fl_entry fl), [], None, [], g) w (current, state, last_resp, memo, g1)"
    and out: "flow_outcome max_steps L env fl msgs gid t mt kw w (current, state, last_resp, memo, g1) r g'"
    by (metis prod_cases5)
  have k: "kept g g1" "wf_gw g1" using flow_run_keeps [OF w] assms(1) by (auto simp: kept_def)
  then show ?thesis
    using out kept_trans [OF k(1)] run_flow_node_frame [OF k(2)] by (auto simp: flow_outcome_def split: if_splits)
qed

text \<open>C14: a workflow is a walk of at most fifty calls. A run whose graph is valid visits nodes one after
  the other, from the entry: each visit calls the node on the contents, the endpoints and the gateway that
  the visits before it left, its answer selects the edge to the next node, and the content is stored under
  the node's name. If the walk comes to an end marker or to a node without edges, the result is the last
  answer, with the content of the last visit of the final node put in when that node was visited; an entry
  that is itself an end marker gives an error. Otherwise the run raises: after fifty visits, and only then,
  the error of a possible cycle, and before that the error which the call of the next node raised where
  the walk stands. All permits are returned and the database is not changed.\<close>

theorem workflow_walks_the_graph:
  assumes "wf_gw g" "build_graph (e_str env) fl = Inr adj"
    and "execute_flow L env fl msgs gid t mt kw g = (r, g')"
  shows "same_permits g g' \<and> gw_db g' = gw_db g \<and>
    (\<exists>w current last_resp memo g1. length w \<le> 50 \<and> fst ` set w \<subseteq> fst ` set (fl_nodes fl) \<and>
      flow_run L env fl adj msgs gid t mt kw (Some (fl_entry fl), [], None, [], g) w (current, walk_state w [], last_resp, memo, g1) \<and>
      (if \<not> ends_flow current
       then (if length w = 50 then r = Inl too_many_steps \<and> g' = g1
             else \<exists>n nc e. current = Some n \<and> map_of (fl_nodes fl) n = Some nc \<and>
               run_flow_node L env msgs gid t mt kw n nc (walk_state w []) memo g1 = (Inl e, g') \<and> r = Inl e)
       else g' = g1 \<and>
         (if w = [] then fl_entry fl \<in> set end_markers \<and> r = Inl (mk_exc ProviderError ''LangGraph produced no response'')
          else \<exists>resp. last_resp = Some resp \<and> extract_content resp = Inr (snd (List.last w)) \<and>
            r = flow_result fl (walk_state w []) (Some resp) \<and>
            (\<forall>d f v. r = Inr d \<and> fl_final fl = Some f \<and> f \<noteq> [] \<and> map_of (rev w) f = Some v \<and>
               truthy (dget resp ''choices'' JNull) \<longrightarrow> extract_content d = Inr v))))"
proof -
  have loop: "flow_loop max_steps L env fl adj msgs gid t mt kw (Some (fl_entry fl)) [] None [] g = (r, g')"
    using assms(2,3) by (simp add: execute_flow_def)
  have graph: "closed_graph (fl_nodes fl) adj" "fl_entry fl \<noteq> []" "at_node fl (Some (fl_entry fl))"
    using build_graph_closed [OF assms(2)] at_node_name by auto
  have frame: "same_permits g g' \<and> gw_db g' = gw_db g" if "kept g g'" using that by (simp add: kept_def)
  from flow_loop_run [OF graph(1,3) loop] obtain w current state last_resp memo g1 where w: "length w \<le> 50"
    "flow_run L env fl adj msgs gid t mt kw (Some (fl_entry fl), [], None, [], g) w (current, state, last_resp, memo, g1)"
    and out: "flow_outcome 50 L env fl msgs gid t mt kw w (current, state, last_resp, memo, g1) r g'"
    unfolding max_steps_def by (metis prod_cases5)
  from flow_run_keeps [OF w(2)] assms(1) have k: "kept g g1" "wf_gw g1" "fst ` set w \<subseteq> fst ` set (fl_nodes fl)"
    "state = walk_state w []" "w = [] \<Longrightarrow> current = Some (fl_entry fl) \<and> last_resp = None"
    "w \<noteq> [] \<Longrightarrow> \<exists>resp. last_resp = Some resp \<and> extract_content resp = Inr (snd (List.last w))"
    by (auto simp: kept_def split: if_splits)
  have "kept g g'" by (rule execute_flow_kept [OF assms(1,3)])
  moreover have st: "map_of (walk_state w []) f = map_of (rev w) f" for f
    by (simp add: map_of_walk_state split: option.splits)
  have "if \<not> ends_flow current
       then (if length w = 50 then r = Inl too_many_steps \<and> g' = g1
             else \<exists>n nc e. current = Some n \<and> map_of (fl_nodes fl) n = Some nc \<and>
               run_flow_node L env msgs gid t mt kw n nc (walk_state w []) memo g1 = (Inl e, g') \<and> r = Inl e)
       else g' = g1 \<and>
         (if w = [] then fl_entry fl \<in> set end_markers \<and> r = Inl (mk_exc ProviderError ''LangGraph produced no response'')
          else \<exists>resp. last_resp = Some resp \<and> extract_content resp = Inr (snd (List.last w)) \<and>
            r = flow_result fl (walk_state w []) (Some resp) \<and>
            (\<forall>d f v. r = Inr d \<and> fl_final fl = Some f \<and> f \<noteq> [] \<and> map_of (rev w) f = Some v \<and>
               truthy (dget resp ''choices'' JNull) \<longrightarrow> extract_content d = Inr v))"
  proof (cases "w = []")
    case True
    then show ?thesis using out k(4,5) graph(2) by (auto simp: flow_outcome_def ends_flow_def flow_result_def split: if_splits)
  next
    case False
    then obtain resp where "last_resp = Some resp" "extract_content resp = Inr (snd (List.last w))" using k(6) by blast
    then show ?thesis
      using out k(4) False flow_result_final [of fl "walk_state w []" resp] st by (auto simp: flow_outcome_def split: if_splits)
  qed
  ultimately show ?thesis using frame w k(3,4) by blast
qed

subsection \<open>An example\<close>

definition plain_lib :: wf_lib where
  "plain_lib = \<lparr>wl_dumps = (\<lambda>v. ''{}''), wl_repr = (\<lambda>s. s), wl_format = (\<lambda>m s r. Inl (raised_by_python ValueErrorExc))\<rparr>"

text \<open>An upstream that answers with the content \<open>yes\<close>.\<close>

definition yes_answer :: dict where
  "yes_answer = [(''choices'', JList [JObj [(''message'', JObj [(''content'', JStr ''yes'')])]])]"

definition yes_env :: "int env" where
  "yes_env = flaky_env\<lparr>e_chat := (\<lambda>inst args w. (Inr yes_answer, w + 1))\<rparr>"

definition sample_flow :: flow where
  "sample_flow = \<lparr>fl_nodes = map (\<lambda>n. (n, \<lparr>nc_prompt = ''{messages}'', nc_group = None\<rparr>)) [''a'', ''b'', ''c''],
     fl_edges = [JList [JStr ''a'', JStr ''b'', JStr ''no''], JList [JStr ''a'', JStr ''c'', JStr ''yes''], JList [JStr ''c'', JStr ''END'']],
     fl_entry = ''a'', fl_final = Some ''a''\<rparr>"

definition sample_graph :: adjacency where
  "sample_graph = [(''a'', [(''b'', Some ''no''), (''c'', Some ''yes'')]), (''b'', []), (''c'', [(''END'', None)])]"

lemma sample_graph: "build_graph (e_str yes_env) sample_flow = Inr sample_graph"
  by code_simp

lemma sample_run:
  "map_option extract_content (case fst (execute_flow plain_lib yes_env sample_flow [] 1 JNull None [] sample_gw) of Inr d \<Rightarrow> Some d | Inl _ \<Rightarrow> None) =
     Some (Inr (JStr ''yes''))"
  by code_simp

theorem workflow_walks_the_graph_witness:
  "\<exists>w current last_resp memo. length w \<le> 50 \<and> w \<noteq> [] \<and> ends_flow current \<and>
     flow_run plain_lib yes_env sample_flow sample_graph [] 1 JNull None [] (Some ''a'', [], None, [], sample_gw) w
       (current, walk_state w [], last_resp, memo, snd (execute_flow plain_lib yes_env sample_flow [] 1 JNull None [] sample_gw)) \<and>
     same_permits sample_gw (snd (execute_flow plain_lib yes_env sample_flow [] 1 JNull None [] sample_gw))"
proof -
  obtain d g' where run: "execute_flow plain_lib yes_env sample_flow [] 1 JNull None [] sample_gw = (Inr d, g')"
    using sample_run by (cases "execute_flow plain_lib yes_env sample_flow [] 1 JNull None [] sample_gw") (auto split: sum.splits)
  have entry: "fl_entry sample_flow = ''a''" by (simp add: sample_flow_def)
  from workflow_walks_the_graph [OF wf_sample_gw sample_graph run] show ?thesis
    unfolding entry by (auto simp: run split: if_splits)
qed

end
