(* ===== verification/Settings.thy ===== *)
theory Settings
  imports Accounts
begin

text \<open>
  The settings page: \<open>BotflowSettings\<close> and the white list of \<open>src/botflow/config.py\<close>, the endpoints of
  \<open>src/botflow/admin_api.py\<close> (lines 317 to 359) and the merge at start-up in \<open>create_app\<close> of
  \<open>src/botflow/core.py\<close>.

  The settings object is the dictionary of its fields. Its values are JSON values of any type: the
  merge assigns what the stored text holds with \<open>setattr\<close>, which does not validate. \<open>loads\<close> and \<open>dumps\<close>
  are \<open>json.loads\<close> (\<open>None\<close> for a \<open>ValueError\<close>) and \<open>json.dumps\<close>. Where the first values come from (the
  environment, \<open>.env\<close>, the command line) is a parameter: the dictionary \<open>env\<close>.
\<close>

type_synonym settings = dict

definition default_settings :: "string \<Rightarrow> settings" where
  "default_settings home =
     [(''workspace'', JStr (home @ ''/.botflow'')), (''host'', JStr ''0.0.0.0''), (''port'', JInt 8080),
      (''llm_key'', JStr ''''), (''admin_key'', JStr ''''), (''api_keys'', JStr ''''), (''setup_token_file'', JStr ''''),
      (''log_level'', JStr ''INFO''), (''cors_origins'', JStr ''*''), (''stream_timeout'', JFloat 30),
      (''upstream_semaphore_size'', JInt 0), (''rate_limit_max_requests'', JInt 300),
      (''rate_limit_window_seconds'', JInt 60), (''rate_limit_max_keys'', JInt 10000),
      (''dedup_ttl_seconds'', JInt 300), (''call_log_detail_days'', JInt 1), (''raw_session_retention_days'', JInt 7),
      (''call_logs_retention_days'', JInt 180), (''daily_summary_hour'', JInt 0), (''summary_group'', JStr ''''),
      (''model_sync_interval'', JInt 60)]"

definition admin_settings_fields :: "string list" where
  "admin_settings_fields =
     [''stream_timeout'', ''upstream_semaphore_size'', ''call_log_detail_days'', ''raw_session_retention_days'',
      ''call_logs_retention_days'', ''daily_summary_hour'', ''summary_group'', ''model_sync_interval'', ''log_level'']"

definition settings_key :: string where
  "settings_key = ''admin_settings''"

text \<open>\<open>setup_token_path\<close>: \<open>project\<close> is the directory of the project, \<open>env_file\<close> the variable read at call time.
  The path operators of \<open>pathlib\<close> are parameters.\<close>

definition setup_token_path :: "(string \<Rightarrow> bool) \<Rightarrow> (string \<Rightarrow> string \<Rightarrow> string) \<Rightarrow> string \<Rightarrow> string \<Rightarrow> string \<Rightarrow> string" where
  "setup_token_path is_absolute join_path project env_file field =
     (let raw = (if field \<noteq> [] then field else env_file) in
      if raw = [] then join_path project ''.setup_token''
      else if is_absolute raw then raw else join_path project raw)"

subsection \<open>The endpoints\<close>

definition settings_snapshot :: "settings \<Rightarrow> dict" where
  "settings_snapshot cfg = map (\<lambda>k. (k, dget cfg k JNull)) admin_settings_fields"

record settings_patch =
  sp_stream_timeout :: "real option"
  sp_upstream_semaphore_size :: "int option"
  sp_call_log_detail_days :: "int option"
  sp_raw_session_retention_days :: "int option"
  sp_call_logs_retention_days :: "int option"
  sp_daily_summary_hour :: "int option"
  sp_summary_group :: "string option"
  sp_model_sync_interval :: "int option"
  sp_log_level :: "string option"

definition log_levels :: "string list" where
  "log_levels = [''DEBUG'', ''INFO'', ''WARNING'', ''ERROR'', ''CRITICAL'']"

definition optional :: "('a \<Rightarrow> bool) \<Rightarrow> 'a option \<Rightarrow> bool" where
  "optional p x = (case x of None \<Rightarrow> True | Some v \<Rightarrow> p v)"

text \<open>The constraints of the body model; a body that violates one is a 422 and reaches no handler.\<close>

definition valid_patch :: "settings_patch \<Rightarrow> bool" where
  "valid_patch p \<longleftrightarrow>
     optional (\<lambda>x. 0 < x) (sp_stream_timeout p) \<and> optional (\<lambda>x. 0 \<le> x) (sp_upstream_semaphore_size p) \<and>
     optional (\<lambda>x. 0 \<le> x) (sp_call_log_detail_days p) \<and> optional (\<lambda>x. 0 \<le> x) (sp_raw_session_retention_days p) \<and>
     optional (\<lambda>x. 0 \<le> x) (sp_call_logs_retention_days p) \<and>
     optional (\<lambda>x. 0 \<le> x \<and> x \<le> 23) (sp_daily_summary_hour p) \<and> optional (\<lambda>x. 0 \<le> x) (sp_model_sync_interval p) \<and>
     optional (\<lambda>x. x \<in> set log_levels) (sp_log_level p)"

definition item_of :: "string \<Rightarrow> ('a \<Rightarrow> json) \<Rightarrow> 'a option \<Rightarrow> dict" where
  "item_of k f x = (case x of None \<Rightarrow> [] | Some v \<Rightarrow> [(k, f v)])"

text \<open>\<open>model_dump(exclude_unset=True, exclude_none=True)\<close>.\<close>

definition changed_of :: "settings_patch \<Rightarrow> dict" where
  "changed_of p =
     item_of ''stream_timeout'' JFloat (sp_stream_timeout p) @
     item_of ''upstream_semaphore_size'' JInt (sp_upstream_semaphore_size p) @
     item_of ''call_log_detail_days'' JInt (sp_call_log_detail_days p) @
     item_of ''raw_session_retention_days'' JInt (sp_raw_session_retention_days p) @
     item_of ''call_logs_retention_days'' JInt (sp_call_logs_retention_days p) @
     item_of ''daily_summary_hour'' JInt (sp_daily_summary_hour p) @
     item_of ''summary_group'' JStr (sp_summary_group p) @
     item_of ''model_sync_interval'' JInt (sp_model_sync_interval p) @
     item_of ''log_level'' JStr (sp_log_level p)"

definition dict_update :: "dict \<Rightarrow> dict \<Rightarrow> dict" where
  "dict_update d changes = fold (\<lambda>(k, v). dset k v) changes d"

text \<open>What is stored: nothing, a broken text and a value of another type all count as the empty object.\<close>

definition stored_settings :: "(string \<Rightarrow> json option) \<Rightarrow> db \<Rightarrow> dict" where
  "stored_settings loads db =
     (case get_config settings_key db of
        None \<Rightarrow> []
      | Some raw \<Rightarrow> if raw = [] then [] else case loads raw of Some (JObj d) \<Rightarrow> d | _ \<Rightarrow> [])"

definition get_settings :: "settings \<Rightarrow> dict" where
  "get_settings cfg = settings_snapshot cfg"

definition update_settings :: "(string \<Rightarrow> json option) \<Rightarrow> (json \<Rightarrow> string) \<Rightarrow> int \<Rightarrow> settings_patch \<Rightarrow> settings \<Rightarrow> db \<Rightarrow>
    dict \<times> settings \<times> db" where
  "update_settings loads dumps now req cfg db =
     (let changed = changed_of req in
      if changed = [] then (settings_snapshot cfg, cfg, db)
      else let stored = dict_update (stored_settings loads db) changed;
               db' = set_config now settings_key (dumps (JObj stored)) db;
               cfg' = dict_update cfg changed
           in (settings_snapshot cfg', cfg', db'))"

subsection \<open>Start-up\<close>

definition merge_settings :: "(string \<Rightarrow> json option) \<Rightarrow> db \<Rightarrow> settings \<Rightarrow> settings" where
  "merge_settings loads db cfg =
     fold (\<lambda>(k, v) c. if k \<in> set admin_settings_fields then dset k v c else c) (stored_settings loads db) cfg"

text \<open>\<open>create_app\<close>, on a database that is already initialised.\<close>

definition create_app :: "(string \<Rightarrow> json option) \<Rightarrow> string \<Rightarrow> db \<Rightarrow> settings \<Rightarrow> settings" where
  "create_app loads workspace db cfg = merge_settings loads db (dset ''workspace'' (JStr workspace) cfg)"

end
