(* ===== verification/Settings_Facts.thy ===== *)
theory Settings_Facts
  imports Settings Account_Facts
begin

text \<open>
  The settings page keeps its promise across restarts, and the stored values cannot reach a setting that
  is not on the white list.
\<close>

subsection \<open>Updating dictionaries\<close>

lemma item_subseq: "subseq (map fst (item_of k f x)) [k]"
  by (simp add: item_of_def split: option.split)

lemma changed_subseq: "subseq (map fst (changed_of p)) admin_settings_fields"
proof -
  have "subseq (map fst (changed_of p)) ([''stream_timeout''] @ [''upstream_semaphore_size''] @ [''call_log_detail_days''] @
      [''raw_session_retention_days''] @ [''call_logs_retention_days''] @ [''daily_summary_hour''] @ [''summary_group''] @
      [''model_sync_interval''] @ [''log_level''])"
    unfolding changed_of_def map_append by (intro list_emb_append_mono item_subseq)
  then show ?thesis by (simp add: admin_settings_fields_def)
qed

lemma changed_keys: "fst ` set (changed_of p) \<subseteq> set admin_settings_fields"
  using changed_subseq [of p] by (force dest: list_emb_set)

lemma distinct_changed: "distinct (map fst (changed_of p))"
  by (rule subseq_distinct [OF changed_subseq]) (simp add: admin_settings_fields_def)

text \<open>Updating with a dictionary whose keys are distinct.\<close>

lemma map_of_dict_update:
  "distinct (map fst ch) \<Longrightarrow> map_of (dict_update d ch) k = (case map_of ch k of Some x \<Rightarrow> Some x | None \<Rightarrow> map_of d k)"
proof (induction ch arbitrary: d)
  case (Cons kv ch)
  obtain k' x where kv: "kv = (k', x)" by fastforce
  have "map_of ch k' = None" using Cons.prems by (simp add: kv map_of_eq_None_iff)
  then show ?case using Cons by (simp add: dict_update_def kv dset_def update_conv split: option.split)
qed (simp add: dict_update_def)

lemma distinct_dict_update: "distinct (map fst d) \<Longrightarrow> distinct (map fst (dict_update d ch))"
  by (induction ch arbitrary: d) (auto simp: dict_update_def dset_def distinct_update)

definition white_listed :: "dict \<Rightarrow> dict" where
  "white_listed d = filter (\<lambda>kv. fst kv \<in> set admin_settings_fields) d"

lemma merge_settings_update: "merge_settings loads db cfg = dict_update cfg (white_listed (stored_settings loads db))"
proof -
  have "fold (\<lambda>(k, v) c. if k \<in> set admin_settings_fields then dset k v c else c) d c = dict_update c (white_listed d)" for d c
    by (induction d arbitrary: c) (auto simp: dict_update_def white_listed_def)
  then show ?thesis by (simp add: merge_settings_def)
qed

lemma map_of_white_listed: "map_of (white_listed d) k = (if k \<in> set admin_settings_fields then map_of d k else None)"
  by (induction d) (auto simp: white_listed_def)

lemma map_of_merge:
  assumes "distinct (map fst (stored_settings loads db))"
  shows "map_of (merge_settings loads db cfg) k =
     (if k \<in> set admin_settings_fields
      then case map_of (stored_settings loads db) k of Some x \<Rightarrow> Some x | None \<Rightarrow> map_of cfg k else map_of cfg k)"
proof -
  have "distinct (map fst (white_listed (stored_settings loads db)))"
    using assms unfolding white_listed_def by (rule distinct_map_filter)
  then show ?thesis unfolding merge_settings_update by (simp add: map_of_dict_update map_of_white_listed)
qed

subsection \<open>Updates and restarts\<close>

text \<open>A run of the settings page: each update with the second it happens in.\<close>

definition settings_run :: "(string \<Rightarrow> json option) \<Rightarrow> (json \<Rightarrow> string) \<Rightarrow> (int \<times> settings_patch) list \<Rightarrow> settings \<times> db \<Rightarrow> settings \<times> db" where
  "settings_run loads dumps ps s = fold (\<lambda>(now, p) (cfg, db). snd (update_settings loads dumps now p cfg db)) ps s"

text \<open>What the running process and the database agree on.\<close>

definition in_step :: "(string \<Rightarrow> json option) \<Rightarrow> settings \<Rightarrow> settings \<times> db \<Rightarrow> bool" where
  "in_step loads env s \<longleftrightarrow> distinct (map fst (stored_settings loads (snd s))) \<and>
     (\<forall>k. map_of (fst s) k = map_of (merge_settings loads (snd s) env) k)"

text \<open>A value that \<open>json.loads\<close> reads back as it was, and the values that a run stores.\<close>

definition reads_back :: "(string \<Rightarrow> json option) \<Rightarrow> (json \<Rightarrow> string) \<Rightarrow> json \<Rightarrow> bool" where
  "reads_back loads dumps v \<longleftrightarrow> loads (dumps v) = Some v \<and> dumps v \<noteq> []"

definition written :: "(string \<Rightarrow> json option) \<Rightarrow> settings_patch \<Rightarrow> settings \<times> db \<Rightarrow> json list" where
  "written loads p s =
     (if changed_of p = [] then [] else [JObj (dict_update (stored_settings loads (snd s)) (changed_of p))])"

fun all_written :: "(string \<Rightarrow> json option) \<Rightarrow> (json \<Rightarrow> string) \<Rightarrow> (int \<times> settings_patch) list \<Rightarrow> settings \<times> db \<Rightarrow> json list" where
  "all_written loads dumps [] s = []"
| "all_written loads dumps ((now, p) # ps) s =
     written loads p s @ all_written loads dumps ps (snd (update_settings loads dumps now p (fst s) (snd s)))"

lemma stored_after_update:
  "reads_back loads dumps (JObj d) \<Longrightarrow> stored_settings loads (set_config now settings_key (dumps (JObj d)) db) = d"
  by (simp add: reads_back_def stored_settings_def)

lemma update_in_step:
  assumes "list_all (reads_back loads dumps) (written loads p (cfg, db))" "in_step loads env (cfg, db)"
  shows "in_step loads env (snd (update_settings loads dumps now p cfg db))"
proof (cases "changed_of p = []")
  case False
  define d where "d = stored_settings loads db"
  define db' where "db' = set_config now settings_key (dumps (JObj (dict_update d (changed_of p)))) db"
  have stored: "stored_settings loads db' = dict_update d (changed_of p)" unfolding db'_def using assms(1) False
    by (intro stored_after_update) (simp add: written_def d_def)
  have d: "distinct (map fst d)" "\<And>k. map_of cfg k = map_of (merge_settings loads db env) k"
    using assms(2) by (simp_all add: in_step_def d_def)
  note d' = distinct_dict_update [OF d(1), of "changed_of p"]
  have "map_of (dict_update cfg (changed_of p)) k = map_of (merge_settings loads db' env) k" for k
  proof -
    have "k \<in> set admin_settings_fields" if "map_of (changed_of p) k = Some x" for x
      using changed_keys [of p] that by (force dest: map_of_SomeD)
    then show ?thesis
      using map_of_merge [of loads db' env k] map_of_merge [of loads db env k] d d'
      by (auto simp: stored map_of_dict_update [OF distinct_changed] d_def [symmetric] split: option.split)
  qed
  then show ?thesis using False d' by (simp add: update_settings_def in_step_def Let_def d_def [symmetric] db'_def [symmetric] stored)
qed (use assms in \<open>simp add: update_settings_def\<close>)

lemma run_in_step:
  "list_all (reads_back loads dumps) (all_written loads dumps ps s) \<Longrightarrow> in_step loads env s \<Longrightarrow>
   in_step loads env (settings_run loads dumps ps s)"
proof (induction ps arbitrary: s)
  case (Cons np ps)
  obtain now p where np: "np = (now, p)" by fastforce
  obtain cfg db where s: "s = (cfg, db)" by fastforce
  have "in_step loads env (snd (update_settings loads dumps now p cfg db))"
    using Cons.prems update_in_step by (simp add: np s)
  then show ?case using Cons by (simp add: settings_run_def np s)
qed (simp add: settings_run_def)

lemma settings_survive_restart_parts:
  assumes "list_all (reads_back loads dumps) (all_written loads dumps ps (create_app loads workspace db env, db))"
    "distinct (map fst (stored_settings loads db))"
    "settings_run loads dumps ps (create_app loads workspace db env, db) = (cfg, db')"
  shows "\<And>k v. dget (create_app loads workspace db' env) k v = dget cfg k v"
    "get_settings (create_app loads workspace db' env) = get_settings cfg"
    "k \<notin> set admin_settings_fields \<Longrightarrow> k \<noteq> ''workspace'' \<Longrightarrow> dget cfg k v = dget env k v"
    "map fst (get_settings cfg) = admin_settings_fields"
proof -
  define e where "e = dset ''workspace'' (JStr workspace) env"
  have "in_step loads e (create_app loads workspace db env, db)"
    using assms(2) by (simp add: in_step_def create_app_def e_def)
  from run_in_step [OF assms(1) this] have s: "in_step loads e (cfg, db')" by (simp add: assms(3))
  then have same: "map_of cfg k = map_of (create_app loads workspace db' env) k" for k
    by (simp add: in_step_def create_app_def e_def)
  then show same': "\<And>k v. dget (create_app loads workspace db' env) k v = dget cfg k v" by (simp add: dget_def)
  show "get_settings (create_app loads workspace db' env) = get_settings cfg"
    by (simp add: get_settings_def settings_snapshot_def same')
  show "dget cfg k v = dget env k v" if "k \<notin> set admin_settings_fields" "k \<noteq> ''workspace''"
    using s that map_of_merge [of loads db' e k] by (auto simp: in_step_def dget_def e_def dset_def update_conv)
  show "map fst (get_settings cfg) = admin_settings_fields"
    by (simp add: get_settings_def settings_snapshot_def comp_def)
qed

text \<open>C23: Settings survive a restart. A process that starts on a database merges the stored settings into those
  of its environment; after any sequence of updates through the settings page, a process that starts anew with
  the same environment has the same value for every setting as the running one. A setting that is not on
  the white list (the keys, the address, the rate limit) keeps the value of the environment, whatever the
  database holds, and the page shows exactly the nine settings of the list.\<close>

theorem settings_survive_restart:
  assumes "list_all (reads_back loads dumps) (all_written loads dumps ps (create_app loads workspace db env, db))"
    "distinct (map fst (stored_settings loads db))"
    "settings_run loads dumps ps (create_app loads workspace db env, db) = (cfg, db')"
  shows "(\<forall>k v. dget (create_app loads workspace db' env) k v = dget cfg k v) \<and>
    get_settings (create_app loads workspace db' env) = get_settings cfg \<and>
    (\<forall>k v. k \<notin> set admin_settings_fields \<longrightarrow> k \<noteq> ''workspace'' \<longrightarrow> dget cfg k v = dget env k v) \<and>
    map fst (get_settings cfg) = admin_settings_fields"
  using settings_survive_restart_parts [OF assms] by blast

definition hour_patch :: settings_patch where
  "hour_patch = \<lparr>sp_stream_timeout = None, sp_upstream_semaphore_size = None, sp_call_log_detail_days = None,
     sp_raw_session_retention_days = None, sp_call_logs_retention_days = None, sp_daily_summary_hour = Some 5,
     sp_summary_group = None, sp_model_sync_interval = None, sp_log_level = None\<rparr>"

definition hour_loads :: "string \<Rightarrow> json option" where
  "hour_loads text = (if text = ''5'' then Some (JObj [(''daily_summary_hour'', JInt 5)]) else None)"

definition hour_app :: "settings \<times> db" where
  "hour_app = (create_app hour_loads ''w'' empty_db (default_settings ''h''), empty_db)"

lemma hour_changed: "changed_of hour_patch = [(''daily_summary_hour'', JInt 5)]"
  by (simp add: changed_of_def item_of_def hour_patch_def)

lemma hour_none: "stored_settings hour_loads empty_db = []"
  by (simp add: stored_settings_def empty_db_def get_config_def)

lemma hour_written: "list_all (reads_back hour_loads (\<lambda>_. ''5'')) (all_written hour_loads (\<lambda>_. ''5'') [(0, hour_patch)] hour_app)"
  by (simp add: written_def hour_changed hour_none dict_update_def dset_def reads_back_def hour_loads_def hour_app_def)

theorem settings_survive_restart_witness:
  "dget (create_app hour_loads ''w'' (snd (settings_run hour_loads (\<lambda>_. ''5'') [(0, hour_patch)] hour_app))
     (default_settings ''h'')) ''daily_summary_hour'' JNull = JInt 5"
proof -
  have "dget (fst (settings_run hour_loads (\<lambda>_. ''5'') [(0, hour_patch)] hour_app)) ''daily_summary_hour'' JNull = JInt 5"
    by (simp add: settings_run_def update_settings_def hour_changed Let_def dict_update_def hour_app_def)
  then show ?thesis
    using settings_survive_restart [OF hour_written [unfolded hour_app_def] _ prod.collapse [symmetric]]
    by (simp add: hour_none hour_app_def)
qed

subsection \<open>Types\<close>

text \<open>The declared type and range of a setting of the page.\<close>

definition typed_setting :: "string \<Rightarrow> json \<Rightarrow> bool" where
  "typed_setting k v =
     (case v of
        JFloat x \<Rightarrow> k = ''stream_timeout'' \<and> 0 < x
      | JStr s \<Rightarrow> k = ''summary_group'' \<or> k = ''log_level'' \<and> s \<in> set log_levels
      | JInt i \<Rightarrow> 0 \<le> i \<and> (k = ''daily_summary_hour'' \<and> i \<le> 23 \<or>
          k \<in> {''upstream_semaphore_size'', ''call_log_detail_days'', ''raw_session_retention_days'',
                ''call_logs_retention_days'', ''model_sync_interval''})
      | _ \<Rightarrow> False)"

definition typed_settings :: "settings \<Rightarrow> bool" where
  "typed_settings cfg \<longleftrightarrow> list_all (\<lambda>k. typed_setting k (dget cfg k JNull)) admin_settings_fields"

definition typed_dict :: "dict \<Rightarrow> bool" where
  "typed_dict d \<longleftrightarrow> list_all (\<lambda>(k, v). k \<in> set admin_settings_fields \<longrightarrow> typed_setting k v) d"

lemma typed_item:
  "(\<And>v. x = Some v \<Longrightarrow> typed_setting k (f v)) \<Longrightarrow> list_all (\<lambda>(k, v). typed_setting k v) (item_of k f x)"
  by (simp add: item_of_def split: option.split)

lemma typed_changed: "valid_patch p \<Longrightarrow> list_all (\<lambda>(k, v). typed_setting k v) (changed_of p)"
  unfolding changed_of_def list_all_append
  by (intro conjI typed_item) (simp_all add: valid_patch_def optional_def typed_setting_def)

lemma typed_merge:
  assumes "typed_settings env" "typed_dict (stored_settings loads db)" "distinct (map fst (stored_settings loads db))"
  shows "typed_settings (merge_settings loads db env)"
proof -
  have "typed_setting k (dget (merge_settings loads db env) k JNull)" if "k \<in> set admin_settings_fields" for k
    using assms that
    by (fastforce simp: dget_def map_of_merge typed_settings_def typed_dict_def list_all_iff split: option.splits dest: map_of_SomeD)
  then show ?thesis by (simp add: typed_settings_def list_all_iff)
qed

lemma typed_dict_update: "typed_dict d \<Longrightarrow> list_all (\<lambda>(k, v). typed_setting k v) ch \<Longrightarrow> typed_dict (dict_update d ch)"
proof (induction ch arbitrary: d)
  case (Cons kv ch)
  have "typed_dict (AList.update k v d)" if "typed_setting k v" for k v
    using that Cons.prems(1) by (induction d) (auto simp: typed_dict_def)
  then show ?case using Cons by (auto simp: dict_update_def dset_def)
qed (simp add: dict_update_def)

lemma typed_run:
  "list_all (reads_back loads dumps) (all_written loads dumps ps s) \<Longrightarrow> list_all (\<lambda>np. valid_patch (snd np)) ps \<Longrightarrow>
   typed_dict (stored_settings loads (snd s)) \<Longrightarrow> typed_dict (stored_settings loads (snd (settings_run loads dumps ps s)))"
proof (induction ps arbitrary: s)
  case (Cons np ps)
  obtain now p where np: "np = (now, p)" by fastforce
  obtain cfg db where s: "s = (cfg, db)" by fastforce
  have "typed_dict (stored_settings loads (snd (snd (update_settings loads dumps now p cfg db))))"
  proof (cases "changed_of p = []")
    case False
    then have "reads_back loads dumps (JObj (dict_update (stored_settings loads db) (changed_of p)))"
      using Cons.prems(1) by (simp add: np s written_def)
    then show ?thesis using False Cons.prems(2,3) typed_changed typed_dict_update
      by (simp add: update_settings_def Let_def stored_after_update np s)
  qed (use Cons.prems(3) in \<open>simp add: update_settings_def s\<close>)
  then show ?case using Cons by (simp add: settings_run_def np s)
qed (simp add: settings_run_def)

text \<open>C24: The settings stay well typed. When the environment and the stored object give each of the nine settings
  a value of its declared type and range, then after any sequence of accepted updates so do the running
  process and every process that starts later: the timeout is positive, the sizes, intervals and retention
  periods are non-negative integers, the hour lies between 0 and 23 and the log level is one of the five.\<close>

theorem settings_stay_typed:
  assumes "list_all (reads_back loads dumps) (all_written loads dumps ps (create_app loads workspace db env, db))"
    "list_all (\<lambda>np. valid_patch (snd np)) ps" "distinct (map fst (stored_settings loads db))"
    "typed_settings env" "typed_dict (stored_settings loads db)"
    "settings_run loads dumps ps (create_app loads workspace db env, db) = (cfg, db')"
  shows "typed_settings cfg \<and> typed_settings (create_app loads workspace db' env)"
proof -
  define e where "e = dset ''workspace'' (JStr workspace) env"
  have e: "typed_settings e" using assms(4) by (simp add: e_def typed_settings_def admin_settings_fields_def)
  have "in_step loads e (create_app loads workspace db env, db)" using assms(3) by (simp add: in_step_def create_app_def e_def)
  from run_in_step [OF assms(1) this] have s: "in_step loads e (cfg, db')" by (simp add: assms(6))
  have "typed_dict (stored_settings loads db')" using typed_run [OF assms(1,2)] assms(5,6) by simp
  then have later: "typed_settings (merge_settings loads db' e)" using typed_merge [OF e] s by (simp add: in_step_def)
  moreover have "dget cfg k v = dget (merge_settings loads db' e) k v" for k v using s by (simp add: in_step_def dget_def)
  ultimately show ?thesis by (simp add: typed_settings_def create_app_def e_def)
qed

theorem settings_stay_typed_witness:
  "typed_settings (fst (settings_run hour_loads (\<lambda>_. ''5'') [(0, hour_patch)] hour_app))"
proof -
  have "valid_patch hour_patch" by (simp add: valid_patch_def optional_def hour_patch_def)
  moreover have "typed_settings (default_settings ''h'')"
    by (simp add: typed_settings_def admin_settings_fields_def default_settings_def dget_def typed_setting_def log_levels_def)
  ultimately show ?thesis
    using settings_stay_typed [OF hour_written [unfolded hour_app_def] _ _ _ _ prod.collapse [symmetric]]
    by (simp add: hour_none hour_app_def typed_dict_def)
qed

end
