(* ===== verification/Dates.thy ===== *)
theory Dates
  imports Prelude
begin

text \<open>
  The part of Python's \<open>datetime\<close> the program uses: the Gregorian calendar from 1970 on, the texts
  \<open>strftime("%Y-%m-%d")\<close>, \<open>strftime("%Y-%m-%d %H:%M:%S")\<close> (also SQLite's \<open>datetime('now')\<close>) and
  \<open>isoformat()\<close>, and the fact the queries of \<open>src/botflow/storage/db.py\<close> rest on: the order of two
  texts is the order of the times they stand for.

  A time is the number of seconds since 1970-01-01 00:00:00 UTC.
\<close>

subsection \<open>Numbers with leading zeros\<close>

fun pad :: "nat \<Rightarrow> nat \<Rightarrow> string" where
  "pad 0 n = []"
| "pad (Suc k) n = pad k (n div 10) @ [char_of (48 + n mod 10)]"

lemma length_pad [simp]: "length (pad k n) = k"
  by (induction k n rule: pad.induct) simp_all

lemma pad_numeral: "pad (numeral k) n = pad (pred_numeral k) (n div 10) @ [char_of (48 + n mod 10)]"
  by (simp only: numeral_eq_Suc [of k] pad.simps)

text \<open>The order of strings, block by block.\<close>

lemma less_append:
  "length xs = length ys \<Longrightarrow> (xs @ us < ys @ vs) = (xs < ys \<or> xs = ys \<and> us < (vs :: 'a :: linorder list))"
  by (induction xs ys rule: list_induct2) auto

lemma le_append:
  "length xs = length ys \<Longrightarrow> (xs @ us \<le> ys @ vs) = (xs < ys \<or> xs = ys \<and> us \<le> (vs :: 'a :: linorder list))"
  by (auto simp: less_append order.order_iff_strict)

lemma less_digit: "a < 10 \<Longrightarrow> b < 10 \<Longrightarrow> (char_of (48 + a) :: char) < char_of (48 + b) \<longleftrightarrow> (a :: nat) < b"
  by (simp add: less_char_def of_char_of)

lemma eq_digit: "a < 10 \<Longrightarrow> b < 10 \<Longrightarrow> (char_of (48 + a) :: char) = char_of (48 + b) \<longleftrightarrow> (a :: nat) = b"
  by (metis less_digit less_irrefl linorder_neqE_nat)

text \<open>Quotient and remainder give the order.\<close>

lemma less_div_mod: "(a :: nat) < b \<longleftrightarrow> a div k < b div k \<or> a div k = b div k \<and> a mod k < b mod k"
proof -
  have eq: "a div k = b div k \<Longrightarrow> a < b \<longleftrightarrow> a mod k < b mod k"
    using div_mult_mod_eq [of a k] div_mult_mod_eq [of b k] by (metis nat_add_left_cancel_less)
  have "a < b \<Longrightarrow> a div k \<le> b div k" by (simp add: div_le_mono)
  moreover have "a div k < b div k \<Longrightarrow> a < b" by (metis div_le_mono not_le)
  ultimately show ?thesis using eq by fastforce
qed

lemma eq_div_mod: "(a :: nat) = b \<longleftrightarrow> a div k = b div k \<and> a mod k = b mod k"
  by (metis div_mult_mod_eq)

lemma pad_less: "a < 10 ^ k \<Longrightarrow> b < 10 ^ k \<Longrightarrow> pad k a < pad k b \<longleftrightarrow> a < b"
  and pad_eq: "a < 10 ^ k \<Longrightarrow> b < 10 ^ k \<Longrightarrow> pad k a = pad k b \<longleftrightarrow> a = b"
proof (induction k arbitrary: a b)
  case (Suc k)
  have div: "x < 10 ^ Suc k \<Longrightarrow> x div 10 < 10 ^ k" for x :: nat
    by (simp add: less_mult_imp_div_less mult.commute)
  { case 1
    show ?case using Suc.IH div [OF 1(1)] div [OF 1(2)] unfolding less_div_mod [of a b 10] by (simp add: less_append less_digit) }
  { case 2
    show ?case using Suc.IH div [OF 2(1)] div [OF 2(2)] unfolding eq_div_mod [of a b 10] by (simp add: eq_digit) }
qed simp_all

subsection \<open>The calendar\<close>

definition is_leap :: "nat \<Rightarrow> bool" where
  "is_leap y \<longleftrightarrow> y mod 4 = 0 \<and> (y mod 100 \<noteq> 0 \<or> y mod 400 = 0)"

definition days_in_year :: "nat \<Rightarrow> nat" where
  "days_in_year y = (if is_leap y then 366 else 365)"

definition days_in_month :: "nat \<Rightarrow> nat \<Rightarrow> nat" where
  "days_in_month y m = (if m = 2 then if is_leap y then 29 else 28 else if m \<in> {4, 6, 9, 11} then 30 else 31)"

text \<open>The year that holds the \<open>n\<close>-th day from the first of January of the year \<open>y\<close>, and the day of that year.\<close>

function split_year :: "nat \<Rightarrow> nat \<Rightarrow> nat \<times> nat" where
  "split_year y n = (if n < days_in_year y then (y, n) else split_year (Suc y) (n - days_in_year y))"
  by pat_completeness auto

termination
  by (relation "measure snd") (auto simp: days_in_year_def)

declare split_year.simps [simp del]

text \<open>The month, from \<open>m\<close> on; December takes the rest.\<close>

function split_month :: "nat \<Rightarrow> nat \<Rightarrow> nat \<Rightarrow> nat \<times> nat" where
  "split_month y m n = (if 12 \<le> m \<or> n < days_in_month y m then (m, n) else split_month y (Suc m) (n - days_in_month y m))"
  by pat_completeness auto

termination
  by (relation "measure (\<lambda>(y, m, n). 12 - m)") auto

declare split_month.simps [simp del]

text \<open>Year, month and day of the month (from 0) of the \<open>n\<close>-th day after 1970-01-01.\<close>

definition civil :: "nat \<Rightarrow> nat \<times> nat \<times> nat" where
  "civil n = (let (y, d) = split_year 1970 n in (y, split_month y 1 d))"

lemma split_year_bound: "split_year y n = (y', d) \<Longrightarrow> y \<le> y' \<and> d < days_in_year y'"
  by (induction y n rule: split_year.induct) (subst (asm) (2) split_year.simps, force split: if_splits)

lemma split_year_less: "n < n' \<Longrightarrow> split_year y n = (a, d) \<Longrightarrow> split_year y n' = (a', d') \<Longrightarrow> a < a' \<or> a = a' \<and> d < d'"
proof (induction y n arbitrary: n' rule: split_year.induct)
  case (1 y n)
  show ?case
  proof (cases "n < days_in_year y")
    case True
    then have a: "a = y" "d = n" using "1.prems"(2) by (simp_all add: split_year.simps)
    show ?thesis
    proof (cases "n' < days_in_year y")
      case True
      then show ?thesis using a "1.prems"(1,3) by (simp add: split_year.simps)
    next
      case False
      then have "split_year (Suc y) (n' - days_in_year y) = (a', d')" using "1.prems"(3) by (simp add: split_year.simps)
      then show ?thesis using a split_year_bound by fastforce
    qed
  next
    case False
    then have "split_year (Suc y) (n - days_in_year y) = (a, d)" "split_year (Suc y) (n' - days_in_year y) = (a', d')"
      using "1.prems" by (simp_all add: split_year.simps)
    then show ?thesis using "1.IH" [OF False, of "n' - days_in_year y"] False "1.prems"(1) by simp
  qed
qed

lemma split_month_bound: "1 \<le> m \<Longrightarrow> m \<le> 12 \<Longrightarrow> split_month y m n = (m', d) \<Longrightarrow> m \<le> m' \<and> m' \<le> 12 \<and> d \<le> n"
proof (induction y m n rule: split_month.induct)
  case (1 y m n)
  show ?case
  proof (cases "12 \<le> m \<or> n < days_in_month y m")
    case True
    then show ?thesis using "1.prems" by (simp add: split_month.simps)
  next
    case False
    then have "split_month y (Suc m) (n - days_in_month y m) = (m', d)" using "1.prems"(3) by (simp add: split_month.simps)
    then show ?thesis using "1.IH" [OF False] False by fastforce
  qed
qed

lemma split_month_less:
  "n < n' \<Longrightarrow> 1 \<le> m \<Longrightarrow> m \<le> 12 \<Longrightarrow> split_month y m n = (a, d) \<Longrightarrow> split_month y m n' = (a', d') \<Longrightarrow> a < a' \<or> a = a' \<and> d < d'"
proof (induction y m n arbitrary: n' rule: split_month.induct)
  case (1 y m n)
  show ?case
  proof (cases "12 \<le> m \<or> n < days_in_month y m")
    case True
    then have a: "a = m" "d = n" using "1.prems"(4) by (simp_all add: split_month.simps)
    show ?thesis
    proof (cases "12 \<le> m \<or> n' < days_in_month y m")
      case True
      then show ?thesis using a "1.prems"(1,5) by (simp add: split_month.simps)
    next
      case False
      then have "split_month y (Suc m) (n' - days_in_month y m) = (a', d')" using "1.prems"(5) by (simp add: split_month.simps)
      then have "Suc m \<le> a'" using split_month_bound False by simp
      then show ?thesis using a by simp
    qed
  next
    case False
    then have "split_month y (Suc m) (n - days_in_month y m) = (a, d)" "split_month y (Suc m) (n' - days_in_month y m) = (a', d')"
      using "1.prems" by (simp_all add: split_month.simps)
    moreover have "n - days_in_month y m < n' - days_in_month y m" using False "1.prems"(1) by linarith
    ultimately show ?thesis using "1.IH" [OF False, of "n' - days_in_month y m"] False by simp
  qed
qed


text \<open>Days of a month stay below 31.\<close>

lemma days_in_month_le: "days_in_month y m \<le> 31"
  by (simp add: days_in_month_def)

lemma year_is_its_months: "days_in_year y = sum_list (map (days_in_month y) [1..<13])"
  by (simp add: days_in_year_def days_in_month_def upt_rec)

lemma split_month_day:
  "1 \<le> m \<Longrightarrow> m \<le> 12 \<Longrightarrow> n < sum_list (map (days_in_month y) [m..<13]) \<Longrightarrow> split_month y m n = (m', d) \<Longrightarrow>
   d < days_in_month y m'"
proof (induction y m n rule: split_month.induct)
  case (1 y m n)
  show ?case
  proof (cases "12 \<le> m \<or> n < days_in_month y m")
    case True
    then have "m' = m" "d = n" using "1.prems"(4) by (simp_all add: split_month.simps)
    then show ?thesis using True "1.prems"(2,3) by (auto simp: upt_rec)
  next
    case False
    have "split_month y (Suc m) (n - days_in_month y m) = (m', d)" using False "1.prems"(4) by (simp add: split_month.simps)
    moreover have "[m..<13] = m # [Suc m..<13]" using False by (simp add: upt_rec)
    moreover have "n - days_in_month y m < sum_list (map (days_in_month y) [Suc m..<13])"
      using "1.prems"(3) False unfolding \<open>[m..<13] = m # [Suc m..<13]\<close> by (simp del: upt_Suc) linarith
    ultimately show ?thesis using "1.IH" [OF False] False by simp
  qed
qed

lemma civil_bounds: "civil n = (y, m, d) \<Longrightarrow> 1 \<le> m \<and> m \<le> 12 \<and> d < 31"
proof -
  assume c: "civil n = (y, m, d)"
  obtain k where k: "split_year 1970 n = (y, k)" "split_month y 1 k = (m, d)"
    using c by (auto simp: civil_def Let_def split: prod.splits)
  have "d < days_in_month y m"
    using split_month_day [OF _ _ _ k(2)] split_year_bound [OF k(1)] by (simp add: year_is_its_months)
  then show ?thesis using split_month_bound [OF _ _ k(2)] days_in_month_le [of y m] by simp
qed

lemma civil_less:
  assumes "n < n'" "civil n = (y, m, d)" "civil n' = (y', m', d')"
  shows "y < y' \<or> y = y' \<and> (m < m' \<or> m = m' \<and> d < d')"
proof -
  obtain k k' where k: "split_year 1970 n = (y, k)" "split_month y 1 k = (m, d)"
      "split_year 1970 n' = (y', k')" "split_month y' 1 k' = (m', d')"
    using assms(2,3) by (auto simp: civil_def Let_def split: prod.splits)
  show ?thesis
    using split_year_less [OF assms(1) k(1,3)] split_month_less [of k k' 1 y m d m' d'] k by auto
qed

subsection \<open>Texts\<close>

definition date_text :: "nat \<Rightarrow> string" where
  "date_text n = (let (y, m, d) = civil n in pad 4 y @ ''-'' @ pad 2 m @ ''-'' @ pad 2 (d + 1))"

definition time_text :: "nat \<Rightarrow> string" where
  "time_text t = pad 2 (t div 3600) @ '':'' @ pad 2 (t div 60 mod 60) @ '':'' @ pad 2 (t mod 60)"

definition stamp_text :: "nat \<Rightarrow> string" where
  "stamp_text s = date_text (s div 86400) @ '' '' @ time_text (s mod 86400)"

text \<open>\<open>isoformat()\<close> of a time in UTC with \<open>us\<close> microseconds.\<close>

definition iso_text :: "nat \<Rightarrow> nat \<Rightarrow> string" where
  "iso_text s us = date_text (s div 86400) @ ''T'' @ time_text (s mod 86400) @
     (if us = 0 then [] else ''.'' @ pad 6 us) @ ''+00:00''"

text \<open>The years that four digits can hold.\<close>

definition in_range :: "nat \<Rightarrow> bool" where
  "in_range s \<longleftrightarrow> fst (civil (s div 86400)) < 10000"

lemma length_date_text [simp]: "length (date_text n) = 10"
  by (simp add: date_text_def case_prod_beta)

lemma length_time_text [simp]: "length (time_text t) = 8"
  by (simp add: time_text_def)

lemma date_text_mono:
  assumes "n < n'" "fst (civil n') < 10000"
  shows "date_text n < date_text n'"
proof -
  obtain y m d y' m' d' where c: "civil n = (y, m, d)" "civil n' = (y', m', d')" by (metis prod_cases3)
  note less = civil_less [OF assms(1) c]
  have y: "y < 10 ^ 4" "y' < 10 ^ 4" using less assms(2) c(2) by auto
  have m: "m < 10 ^ 2" "m' < 10 ^ 2" "d + 1 < 10 ^ 2" "d' + 1 < 10 ^ 2" using civil_bounds c by fastforce+
  show ?thesis
    using less pad_less [OF y] pad_eq [OF y] pad_less [OF m(1,2)] pad_eq [OF m(1,2)] pad_less [OF m(3,4)]
    by (auto simp: date_text_def c less_append)
qed

lemma date_text_inj:
  assumes "fst (civil n) < 10000" "fst (civil n') < 10000"
  shows "date_text n = date_text n' \<longleftrightarrow> n = n'"
  using date_text_mono [OF _ assms(1)] date_text_mono [OF _ assms(2)] by (metis less_irrefl linorder_neqE_nat)

lemma date_text_less:
  assumes "fst (civil n) < 10000" "fst (civil n') < 10000"
  shows "date_text n < date_text n' \<longleftrightarrow> n < n'"
  using date_text_mono [OF _ assms(1), of n'] date_text_mono [OF _ assms(2)] by (metis less_asym linorder_neqE_nat less_irrefl)

lemma time_text_less:
  assumes "t < 86400" "t' < 86400"
  shows "time_text t < time_text t' \<longleftrightarrow> t < t'"
proof -
  have h: "t div 3600 < 10 ^ 2" "t' div 3600 < 10 ^ 2" "t div 60 mod 60 < 10 ^ 2" "t' div 60 mod 60 < 10 ^ 2"
      "t mod 60 < 10 ^ 2" "t' mod 60 < 10 ^ 2" using assms by auto
  have "t mod 3600 div 60 = t div 60 mod 60" "t' mod 3600 div 60 = t' div 60 mod 60"
    "t mod 3600 mod 60 = t mod 60" "t' mod 3600 mod 60 = t' mod 60"
    using mod_mult2_eq [of t 60 60] mod_mult2_eq [of t' 60 60] by simp_all
  then have "t < t' \<longleftrightarrow> t div 3600 < t' div 3600 \<or> t div 3600 = t' div 3600 \<and>
      (t div 60 mod 60 < t' div 60 mod 60 \<or> t div 60 mod 60 = t' div 60 mod 60 \<and> t mod 60 < t' mod 60)"
    using less_div_mod [of t t' 3600] less_div_mod [of "t mod 3600" "t' mod 3600" 60] by simp
  then show ?thesis
    using pad_less [OF h(1,2)] pad_eq [OF h(1,2)] pad_less [OF h(3,4)] pad_eq [OF h(3,4)] pad_less [OF h(5,6)]
    by (auto simp: time_text_def less_append)
qed

text \<open>The order of the stamps is the order of the times.\<close>

lemma stamp_text_less:
  assumes "in_range s" "in_range s'"
  shows "stamp_text s < stamp_text s' \<longleftrightarrow> s < s'"
proof -
  have d: "fst (civil (s div 86400)) < 10000" "fst (civil (s' div 86400)) < 10000" using assms by (simp_all add: in_range_def)
  have t: "s mod 86400 < 86400" "s' mod 86400 < 86400" by simp_all
  show ?thesis
    using date_text_less [OF d] date_text_inj [OF d] time_text_less [OF t] less_div_mod [of s s' 86400]
    by (simp add: stamp_text_def less_append)
qed

lemma stamp_text_le: "in_range s \<Longrightarrow> in_range s' \<Longrightarrow> stamp_text s \<le> stamp_text s' \<longleftrightarrow> s \<le> s'"
  using stamp_text_less [of s' s] by (auto simp: not_less [symmetric])

text \<open>A stamp and an ISO text are ordered by their days: the blank of the stamp stands before the \<open>T\<close>.\<close>

lemma stamp_less_iso:
  assumes "in_range s" "in_range c"
  shows "stamp_text s < iso_text c us \<longleftrightarrow> s div 86400 \<le> c div 86400"
proof -
  have d: "fst (civil (s div 86400)) < 10000" "fst (civil (c div 86400)) < 10000" using assms by (simp_all add: in_range_def)
  have "'' '' @ xs < ''T'' @ ys" for xs ys by (simp add: less_char_def)
  then show ?thesis
    using date_text_less [OF d] date_text_inj [OF d] by (auto simp: stamp_text_def iso_text_def less_append)
qed


subsection \<open>Days before a day\<close>

lemma split_year_back: "split_year y n = (y', d) \<Longrightarrow> d \<le> n \<and> (k \<le> d \<longrightarrow> split_year y (n - k) = (y', d - k))"
proof (induction y n rule: split_year.induct)
  case (1 y n)
  show ?case
  proof (cases "n < days_in_year y")
    case True
    then show ?thesis using "1.prems" split_year.simps [of y n] split_year.simps [of y "n - k"] by auto
  next
    case False
    then have "split_year (Suc y) (n - days_in_year y) = (y', d)" using "1.prems" split_year.simps [of y n] by simp
    note ih = "1.IH" [OF False this]
    then have "d \<le> n" by linarith
    moreover have "split_year y (n - k) = (y', d - k)" if "k \<le> d"
    proof -
      have "\<not> n - k < days_in_year y" "n - k - days_in_year y = n - days_in_year y - k" using that ih False by auto
      then show ?thesis using ih that split_year.simps [of y "n - k"] by simp
    qed
    ultimately show ?thesis by simp
  qed
qed

lemma split_month_back: "split_month y m n = (m', d) \<Longrightarrow> d \<le> n \<and> (k \<le> d \<longrightarrow> split_month y m (n - k) = (m', d - k))"
proof (induction y m n rule: split_month.induct)
  case (1 y m n)
  show ?case
  proof (cases "12 \<le> m \<or> n < days_in_month y m")
    case True
    then show ?thesis using "1.prems" split_month.simps [of y m n] split_month.simps [of y m "n - k"] by auto
  next
    case False
    then have "split_month y (Suc m) (n - days_in_month y m) = (m', d)" using "1.prems" split_month.simps [of y m n] by simp
    note ih = "1.IH" [OF False this]
    then have "d \<le> n" by linarith
    moreover have "split_month y m (n - k) = (m', d - k)" if "k \<le> d"
    proof -
      have "\<not> (12 \<le> m \<or> n - k < days_in_month y m)" "n - k - days_in_month y m = n - days_in_month y m - k"
        using that ih False by auto
      then show ?thesis using ih that split_month.simps [of y m "n - k"] by simp
    qed
    ultimately show ?thesis by simp
  qed
qed

lemma civil_back:
  assumes "civil n = (y, m, d)" "k \<le> d"
  shows "d \<le> n" "civil (n - k) = (y, m, d - k)"
proof -
  obtain j where j: "split_year 1970 n = (y, j)" "split_month y 1 j = (m, d)"
    using assms(1) by (auto simp: civil_def Let_def split: prod.splits)
  have "d \<le> j" "split_month y 1 (j - k) = (m, d - k)" using split_month_back [OF j(2)] assms(2) by simp_all
  moreover have "j \<le> n" "split_year 1970 (n - k) = (y, j - k)" using split_year_back [OF j(1)] calculation(1) assms(2) by simp_all
  ultimately show "d \<le> n" "civil (n - k) = (y, m, d - k)" by (simp_all add: civil_def)
qed

lemma in_range_mono: "s \<le> s' \<Longrightarrow> in_range s' \<Longrightarrow> in_range s"
proof -
  assume h: "s \<le> s'" "in_range s'"
  obtain y m d y' m' d' where c: "civil (s div 86400) = (y, m, d)" "civil (s' div 86400) = (y', m', d')" by (metis prod_cases3)
  have "s div 86400 = s' div 86400 \<or> s div 86400 < s' div 86400" using div_le_mono [OF h(1)] by (auto simp: le_less)
  then have "y \<le> y'" using civil_less [OF _ c] c by auto
  then show ?thesis using h(2) c by (simp add: in_range_def)
qed

end
