(* ===== verification/Stats.thy ===== *)
theory Stats
  imports Admin Dates
begin

text \<open>
  The statistics of \<open>src/botflow/storage/db.py\<close> (lines 966 to 1141) and their endpoints in
  \<open>src/botflow/admin_api.py\<close> (lines 684 to 775).

  An aggregate query is a group of rows and the sums over it. Sums and averages are real numbers; a
  column of token counts holds what the upstream reported, and \<open>num\<close> is the number SQLite's \<open>SUM\<close> sees
  in a text. \<open>day_of h t\<close> is SQLite's \<open>date(t, '+h hours')\<close>. The order that \<open>ORDER BY total_calls DESC\<close>
  gives is a parameter, since_utc rows with equal totals may come in any order. Clocks are seconds since_utc
  1970-01-01 00:00:00 UTC.
\<close>

subsection \<open>Aggregates\<close>

text \<open>What \<open>SUM\<close> adds for a value of a column; \<open>NULL\<close> is skipped. Lists and objects are never stored.\<close>

fun sql_number :: "(string \<Rightarrow> real) \<Rightarrow> json \<Rightarrow> real" where
  "sql_number num (JInt i) = of_int i"
| "sql_number num (JBool b) = (if b then 1 else 0)"
| "sql_number num (JFloat x) = x"
| "sql_number num (JStr s) = num s"
| "sql_number num _ = 0"

definition sum_of :: "('a \<Rightarrow> real) \<Rightarrow> 'a list \<Rightarrow> real" where
  "sum_of f ls = sum_list (map f ls)"

definition cost_of :: "call_log \<Rightarrow> real" where
  "cost_of l = (case cl_cost l of None \<Rightarrow> 0 | Some x \<Rightarrow> x)"

definition count_status :: "string \<Rightarrow> call_log list \<Rightarrow> nat" where
  "count_status st ls = length (filter (\<lambda>l. cl_status l = st) ls)"

definition durations :: "call_log list \<Rightarrow> int list" where
  "durations ls = List.map_filter cl_duration_ms ls"

text \<open>\<open>AVG\<close>, \<open>MIN\<close> and \<open>MAX\<close>, which are \<open>NULL\<close> over no value.\<close>

definition average :: "int list \<Rightarrow> real option" where
  "average ds = (if ds = [] then None else Some (of_int (sum_list ds) / of_nat (length ds)))"

definition minimum :: "int list \<Rightarrow> real option" where
  "minimum ds = (if ds = [] then None else Some (of_int (fold min (tl ds) (hd ds))))"

definition maximum :: "int list \<Rightarrow> real option" where
  "maximum ds = (if ds = [] then None else Some (of_int (fold max (tl ds) (hd ds))))"

definition of_api_key :: "int option \<Rightarrow> call_log \<Rightarrow> bool" where
  "of_api_key kid l \<longleftrightarrow> matches kid (cl_api_key_id l)"

text \<open>A window of creation times, which is applied only when both ends are given.\<close>

definition in_window_of :: "string option \<Rightarrow> string option \<Rightarrow> call_log \<Rightarrow> bool" where
  "in_window_of since_utc until_utc l \<longleftrightarrow>
     (case (since_utc, until_utc) of (Some a, Some b) \<Rightarrow> a \<le> cl_created_at l \<and> cl_created_at l \<le> b | _ \<Rightarrow> True)"

definition logs_where :: "(call_log \<Rightarrow> bool) \<Rightarrow> db \<Rightarrow> call_log list" where
  "logs_where p db = filter p (map snd (rows (call_logs db)))"

subsection \<open>Statistics of one model and one group\<close>

record model_stats =
  ms_model_id :: int
  ms_model_name :: string
  ms_total_calls :: nat
  ms_success_calls :: nat
  ms_error_calls :: nat
  ms_avg_duration_ms :: "real option"
  ms_min_duration_ms :: "real option"
  ms_max_duration_ms :: "real option"
  ms_total_prompt_tokens :: real
  ms_total_completion_tokens :: real
  ms_total_cache_tokens :: real
  ms_total_tokens :: real
  ms_total_cost :: real

definition get_model_stats :: "(string \<Rightarrow> real) \<Rightarrow> int \<Rightarrow> int option \<Rightarrow> db \<Rightarrow> model_stats option" where
  "get_model_stats num mid kid db =
     (let ls = logs_where (\<lambda>l. cl_model_id l = Some mid \<and> of_api_key kid l) db;
          p = sum_of (\<lambda>l. sql_number num (cl_prompt_tokens l)) ls;
          c = sum_of (\<lambda>l. sql_number num (cl_completion_tokens l)) ls;
          h = sum_of (\<lambda>l. sql_number num (cl_cache_tokens l)) ls
      in case lookup_row (models db) mid of
           None \<Rightarrow> None
         | Some m \<Rightarrow>
             if ls = [] then None
             else Some \<lparr>ms_model_id = mid, ms_model_name = m_name m, ms_total_calls = length ls,
               ms_success_calls = count_status ''success'' ls, ms_error_calls = count_status ''error'' ls,
               ms_avg_duration_ms = average (durations ls), ms_min_duration_ms = minimum (durations ls),
               ms_max_duration_ms = maximum (durations ls), ms_total_prompt_tokens = p,
               ms_total_completion_tokens = c, ms_total_cache_tokens = h, ms_total_tokens = p + c + h,
               ms_total_cost = sum_of cost_of ls\<rparr>)"

record group_stats =
  gs_group_id :: int
  gs_group_name :: string
  gs_total_calls :: nat
  gs_success_calls :: nat
  gs_error_calls :: nat
  gs_avg_duration_ms :: "real option"
  gs_total_cost :: real

definition get_group_stats :: "int \<Rightarrow> int option \<Rightarrow> db \<Rightarrow> group_stats option" where
  "get_group_stats gid kid db =
     (let ls = logs_where (\<lambda>l. cl_group_id l = Some gid \<and> of_api_key kid l) db
      in case lookup_row (model_groups db) gid of
           None \<Rightarrow> None
         | Some g \<Rightarrow>
             if ls = [] then None
             else Some \<lparr>gs_group_id = gid, gs_group_name = g_name g, gs_total_calls = length ls,
               gs_success_calls = count_status ''success'' ls, gs_error_calls = count_status ''error'' ls,
               gs_avg_duration_ms = average (durations ls), gs_total_cost = sum_of cost_of ls\<rparr>)"

subsection \<open>Lists of statistics\<close>

record model_row =
  mr_model_id :: int
  mr_model_name :: string
  mr_total_calls :: nat
  mr_success_calls :: nat
  mr_error_calls :: nat
  mr_total_cost :: real
  mr_total_tokens :: real
  mr_avg_latency_ms :: "real option"
  mr_error_rate :: real

definition model_row_of :: "(string \<Rightarrow> real) \<Rightarrow> int \<Rightarrow> string \<Rightarrow> call_log list \<Rightarrow> model_row" where
  "model_row_of num mid name ls =
     \<lparr>mr_model_id = mid, mr_model_name = name, mr_total_calls = length ls,
      mr_success_calls = count_status ''success'' ls, mr_error_calls = count_status ''error'' ls,
      mr_total_cost = sum_of cost_of ls, mr_total_tokens = sum_of (\<lambda>l. sql_number num (cl_total_tokens l)) ls,
      mr_avg_latency_ms = average (durations (filter (\<lambda>l. cl_status l = ''success'') ls)),
      mr_error_rate = of_int (int (length ls) - int (count_status ''success'' ls)) / of_nat (length ls)\<rparr>"

text \<open>\<open>JOIN ... GROUP BY\<close> the id: a row for each joined row with at least one call.\<close>

definition joined :: "(call_log \<Rightarrow> int option) \<Rightarrow> (int \<Rightarrow> 'r \<Rightarrow> call_log list \<Rightarrow> 'a) \<Rightarrow> 'r table \<Rightarrow> call_log list \<Rightarrow> 'a list" where
  "joined key f t ls =
     List.map_filter (\<lambda>(i, r). let own = filter (\<lambda>l. key l = Some i) ls in if own = [] then None else Some (f i r own)) (rows t)"

definition list_model_stats :: "(string \<Rightarrow> real) \<Rightarrow> (model_row list \<Rightarrow> model_row list) \<Rightarrow> int \<Rightarrow> int option \<Rightarrow>
    string option \<Rightarrow> string option \<Rightarrow> db \<Rightarrow> model_row list" where
  "list_model_stats num order limit kid since_utc until_utc db =
     page limit 0 (order (joined cl_model_id (\<lambda>i m. model_row_of num i (m_name m)) (models db)
       (logs_where (\<lambda>l. of_api_key kid l \<and> in_window_of since_utc until_utc l) db)))"

record group_row =
  gr_group_id :: int
  gr_group_name :: string
  gr_total_calls :: nat
  gr_success_calls :: nat
  gr_error_calls :: nat
  gr_total_cost :: real

definition group_row_of :: "int \<Rightarrow> string \<Rightarrow> call_log list \<Rightarrow> group_row" where
  "group_row_of gid name ls =
     \<lparr>gr_group_id = gid, gr_group_name = name, gr_total_calls = length ls,
      gr_success_calls = count_status ''success'' ls, gr_error_calls = count_status ''error'' ls,
      gr_total_cost = sum_of cost_of ls\<rparr>"

definition list_group_stats :: "(group_row list \<Rightarrow> group_row list) \<Rightarrow> int \<Rightarrow> int option \<Rightarrow> db \<Rightarrow> group_row list" where
  "list_group_stats order limit kid db =
     page limit 0 (order (joined cl_group_id (\<lambda>i g. group_row_of i (g_name g)) (model_groups db)
       (logs_where (of_api_key kid) db)))"

record trend_row =
  tr_day :: string
  tr_group_id :: int
  tr_group_name :: string
  tr_calls :: nat
  tr_tokens :: real

definition days_of :: "(call_log \<Rightarrow> string) \<Rightarrow> call_log list \<Rightarrow> string list" where
  "days_of day ls = sort (remdups (map day ls))"

definition trend_rows_of_day :: "(string \<Rightarrow> real) \<Rightarrow> (call_log \<Rightarrow> string) \<Rightarrow> model_group table \<Rightarrow> call_log list \<Rightarrow> string \<Rightarrow> trend_row list" where
  "trend_rows_of_day num day t ls d =
     joined cl_group_id
       (\<lambda>i g own. \<lparr>tr_day = d, tr_group_id = i, tr_group_name = g_name g, tr_calls = length own,
          tr_tokens = sum_of (\<lambda>l. sql_number num (cl_total_tokens l)) own\<rparr>)
       t (filter (\<lambda>l. day l = d) ls)"

text \<open>The rows of a table are in the order of their ids.\<close>

definition list_group_trend :: "(string \<Rightarrow> real) \<Rightarrow> (int \<Rightarrow> string \<Rightarrow> string) \<Rightarrow> string \<Rightarrow> string \<Rightarrow> db \<Rightarrow> trend_row list" where
  "list_group_trend num day_of since_utc until_utc db =
     (let day = (\<lambda>l. day_of 8 (cl_created_at l));
          ls = logs_where (in_window_of (Some since_utc) (Some until_utc)) db
      in concat (map (trend_rows_of_day num day (model_groups db) ls) (days_of day ls)))"

record cost_row =
  cr_day :: string
  cr_total_calls :: nat
  cr_total_cost :: real
  cr_total_tokens :: real

text \<open>The cut-off is \<open>datetime.now(timezone.utc) - timedelta(days=days)\<close> in the form of \<open>isoformat()\<close>;
  \<open>us\<close> are the microseconds of the clock.\<close>

definition iso_cutoff :: "nat \<Rightarrow> nat \<Rightarrow> int \<Rightarrow> string" where
  "iso_cutoff now us days = iso_text (nat (int now - days * 86400)) us"

definition get_cost_summary :: "(string \<Rightarrow> real) \<Rightarrow> (int \<Rightarrow> string \<Rightarrow> string) \<Rightarrow> nat \<Rightarrow> nat \<Rightarrow> int \<Rightarrow> int option \<Rightarrow> db \<Rightarrow> cost_row list" where
  "get_cost_summary num day_of now us days kid db =
     (let day = (\<lambda>l. day_of 0 (cl_created_at l));
          ls = logs_where (\<lambda>l. iso_cutoff now us days \<le> cl_created_at l \<and> of_api_key kid l) db
      in map (\<lambda>d. let own = filter (\<lambda>l. day l = d) ls in
                \<lparr>cr_day = d, cr_total_calls = length own, cr_total_cost = sum_of cost_of own,
                 cr_total_tokens = sum_of (\<lambda>l. sql_number num (cl_total_tokens l)) own\<rparr>)
           (rev (days_of day ls)))"

subsection \<open>Windows\<close>

datatype range_value = HalfHour | Hour | Today | Week | Month | D90

definition range_default :: range_value where
  "range_default = Week"

text \<open>Seconds that Asia/Shanghai is ahead of UTC, and the weekday of a day, Monday being 0.\<close>

definition cn_offset :: nat where
  "cn_offset = 28800"

definition weekday :: "nat \<Rightarrow> nat" where
  "weekday n = (n + 3) mod 7"

definition month_day :: "nat \<Rightarrow> nat" where
  "month_day n = snd (snd (civil n))"

definition range_start :: "range_value \<Rightarrow> nat \<Rightarrow> nat" where
  "range_start r now =
     (let today = (now + cn_offset) div 86400 in
      case r of
        Today \<Rightarrow> today * 86400 - cn_offset
      | Week \<Rightarrow> (today - weekday today) * 86400 - cn_offset
      | Month \<Rightarrow> (today - month_day today) * 86400 - cn_offset
      | HalfHour \<Rightarrow> now - 1800
      | Hour \<Rightarrow> now - 3600
      | D90 \<Rightarrow> now - 90 * 86400)"

definition resolve_range :: "range_value \<Rightarrow> nat \<Rightarrow> string \<times> string" where
  "resolve_range r now = (stamp_text (range_start r now), stamp_text now)"

subsection \<open>Endpoints\<close>

definition api_model_stats :: "(string \<Rightarrow> real) \<Rightarrow> (model_row list \<Rightarrow> model_row list) \<Rightarrow> nat \<Rightarrow> int \<Rightarrow> int option \<Rightarrow>
    range_value option \<Rightarrow> 'w gw \<Rightarrow> model_row list" where
  "api_model_stats num order now limit kid rng g =
     (case rng of
        Some r \<Rightarrow>
          (let (since_utc, until_utc) = resolve_range r now
           in list_model_stats num order limit kid (Some since_utc) (Some until_utc) (gw_db g))
      | None \<Rightarrow> list_model_stats num order limit kid None None (gw_db g))"

definition api_group_stats :: "(group_row list \<Rightarrow> group_row list) \<Rightarrow> int \<Rightarrow> int option \<Rightarrow> 'w gw \<Rightarrow> group_row list" where
  "api_group_stats order limit kid g = list_group_stats order limit kid (gw_db g)"

definition api_cost_summary :: "(string \<Rightarrow> real) \<Rightarrow> (int \<Rightarrow> string \<Rightarrow> string) \<Rightarrow> nat \<Rightarrow> nat \<Rightarrow> int \<Rightarrow> int option \<Rightarrow>
    'w gw \<Rightarrow> cost_row list" where
  "api_cost_summary num day_of now us days kid g = get_cost_summary num day_of now us days kid (gw_db g)"

definition api_call_trend :: "(string \<Rightarrow> real) \<Rightarrow> (int \<Rightarrow> string \<Rightarrow> string) \<Rightarrow> nat \<Rightarrow> range_value \<Rightarrow> 'w gw \<Rightarrow>
    range_value \<times> trend_row list" where
  "api_call_trend num day_of now rng g =
     (let (since_utc, until_utc) = resolve_range rng now
      in (rng, list_group_trend num day_of since_utc until_utc (gw_db g)))"

end
