(* ===== verification/Stats_Facts.thy ===== *)
theory Stats_Facts
  imports Stats
begin

text \<open>
  The windows of the statistics and what the sums count.
\<close>

subsection \<open>Windows\<close>

text \<open>The day in Asia/Shanghai.\<close>

definition cn_day :: "nat \<Rightarrow> nat" where
  "cn_day s = (s + cn_offset) div 86400"

text \<open>What a range is meant to begin with: a distance, or a midnight in Asia/Shanghai.\<close>

definition begins :: "range_value \<Rightarrow> nat \<Rightarrow> nat \<Rightarrow> bool" where
  "begins r now start \<longleftrightarrow> start \<le> now \<and>
     (case r of
        HalfHour \<Rightarrow> now - start = 30 * 60
      | Hour \<Rightarrow> now - start = 60 * 60
      | D90 \<Rightarrow> now - start = 90 * 24 * 60 * 60
      | Today \<Rightarrow> (start + cn_offset) mod 86400 = 0 \<and> cn_day start = cn_day now
      | Week \<Rightarrow> (start + cn_offset) mod 86400 = 0 \<and> weekday (cn_day start) = 0 \<and> cn_day now < cn_day start + 7
      | Month \<Rightarrow> (start + cn_offset) mod 86400 = 0 \<and>
          (\<exists>y m d. civil (cn_day start) = (y, m, 0) \<and> civil (cn_day now) = (y, m, d)))"

lemma weekday_back: "3 < n \<Longrightarrow> weekday n \<le> n \<and> weekday (n - weekday n) = 0"
proof -
  assume "3 < n"
  moreover have "(n - (n + 3) mod 7 + 3) mod 7 = 0" if "(n + 3) mod 7 \<le> n"
  proof -
    have "n - (n + 3) mod 7 + 3 = (n + 3) div 7 * 7" using that div_mult_mod_eq [of "n + 3" 7] by linarith
    then show ?thesis by simp
  qed
  moreover have "(n + 3) mod 7 \<le> n" using \<open>3 < n\<close> by presburger
  ultimately show ?thesis by (simp add: weekday_def)
qed

text \<open>The midnight of a day that is not the first one.\<close>

lemma midnight:
  assumes "0 < n" "n \<le> cn_day now"
  shows "n * 86400 - cn_offset \<le> now" "n * 86400 - cn_offset + cn_offset = n * 86400" "cn_day (n * 86400 - cn_offset) = n"
proof -
  have "n * 86400 \<le> now + cn_offset" using assms(2) div_times_less_eq_dividend [of "now + cn_offset" 86400]
    by (metis (no_types) cn_day_def le_trans mult_le_mono1)
  then show "n * 86400 - cn_offset \<le> now" by simp
  show eq: "n * 86400 - cn_offset + cn_offset = n * 86400" using assms(1) by (simp add: cn_offset_def)
  show "cn_day (n * 86400 - cn_offset) = n" unfolding cn_day_def eq by simp
qed

lemma range_start_begins:
  assumes "90 * 86400 \<le> now"
  shows "begins r now (range_start r now)"
proof -
  have now: "90 \<le> cn_day now" using div_le_mono [of "90 * 86400" "now + cn_offset" 86400] assms by (simp add: cn_day_def)
  obtain y m d where c: "civil (cn_day now) = (y, m, d)" by (metis prod_cases3)
  have d: "d < 31" using civil_bounds [OF c] by simp
  note month = midnight [of "cn_day now - d" now] civil_back(2) [OF c, of d]
  have w: "weekday (cn_day now) \<le> 6" by (simp add: weekday_def)
  note week = midnight [of "cn_day now - weekday (cn_day now)" now] weekday_back [of "cn_day now"]
  note today = midnight [of "cn_day now" now]
  have e: "range_start r now = (case r of
        Today \<Rightarrow> cn_day now * 86400 - cn_offset
      | Week \<Rightarrow> (cn_day now - weekday (cn_day now)) * 86400 - cn_offset
      | Month \<Rightarrow> (cn_day now - d) * 86400 - cn_offset
      | HalfHour \<Rightarrow> now - 1800 | Hour \<Rightarrow> now - 3600 | D90 \<Rightarrow> now - 90 * 86400)"
    using c by (simp add: range_start_def cn_day_def month_day_def Let_def split: range_value.split)
  show ?thesis
  proof (cases r)
    case Today
    then show ?thesis using now today unfolding begins_def e by simp
  next
    case Week
    then show ?thesis using now w week unfolding begins_def e by (simp add: less_diff_conv)
  next
    case Month
    then show ?thesis using now d month c unfolding begins_def e by simp
  qed (use assms in \<open>unfold begins_def e, simp_all\<close>)
qed

text \<open>For every range value, and a clock at least 90 days after 1970 and before the year 10000, the two
  texts that \<open>_resolve_range\<close> gives select exactly the rows stored between two times: the clock's time and a
  start that is 30 minutes, 60 minutes or 90 days earlier, or the midnight in Asia/Shanghai of the same day,
  of the last Monday (at most six days back) or of the first of the same month.\<close>

lemma range_selects_window:
  assumes "90 * 86400 \<le> now" "in_range now" "in_range t" "cl_created_at l = stamp_text t"
    "resolve_range r now = (since_utc, until_utc)"
  shows "\<exists>start. begins r now start \<and> (in_window_of (Some since_utc) (Some until_utc) l \<longleftrightarrow> start \<le> t \<and> t \<le> now)"
proof (intro exI conjI)
  show b: "begins r now (range_start r now)" using assms(1) by (rule range_start_begins)
  then have "in_range (range_start r now)" using assms(2) in_range_mono by (auto simp: begins_def)
  then show "in_window_of (Some since_utc) (Some until_utc) l \<longleftrightarrow> range_start r now \<le> t \<and> t \<le> now"
    using assms by (auto simp: in_window_of_def resolve_range_def stamp_text_le)
qed

subsection \<open>What the sums count\<close>

lemma map_filter_Cons: "List.map_filter f (x # xs) = (case f x of None \<Rightarrow> List.map_filter f xs | Some y \<Rightarrow> y # List.map_filter f xs)"
  by (simp add: map_filter_simps)

lemma set_map_filter_iff: "x \<in> set (List.map_filter g xs) \<longleftrightarrow> (\<exists>y \<in> set xs. g y = Some x)"
  by (induction xs) (auto simp: map_filter_simps split: option.splits)

lemma joined_rows:
  "set (joined key f t ls) = {f i r (filter (\<lambda>l. key l = Some i) ls) |i r. (i, r) \<in> set (rows t) \<and> (\<exists>l \<in> set ls. key l = Some i)}"
proof -
  have "x \<in> set (joined key f t ls) \<longleftrightarrow>
      (\<exists>i r. (i, r) \<in> set (rows t) \<and> filter (\<lambda>l. key l = Some i) ls \<noteq> [] \<and> x = f i r (filter (\<lambda>l. key l = Some i) ls))" for x
    unfolding joined_def set_map_filter_iff Let_def by (auto simp: split_def intro!: bexI [of _ "(_, _)"]) blast
  then show ?thesis unfolding filter_empty_conv by blast
qed

text \<open>The counts of the joined rows add up to the number of calls that have a joined row.\<close>

lemma length_filter_split:
  "i \<notin> S \<Longrightarrow> length (filter (\<lambda>l. \<exists>j. key l = Some j \<and> (j = i \<or> j \<in> S)) ls) =
     length (filter (\<lambda>l. key l = Some i) ls) + length (filter (\<lambda>l. \<exists>j. key l = Some j \<and> j \<in> S) ls)"
  by (induction ls) auto

lemma joined_total:
  assumes "distinct (map fst (rows t))" "\<And>i r own. calls (f i r own) = length own"
  shows "sum_list (map calls (joined key f t ls)) = length (filter (\<lambda>l. \<exists>i. key l = Some i \<and> i \<in> fst ` set (rows t)) ls)"
proof -
  have "sum_list (map calls (joined key f \<lparr>rows = rs, seq = s\<rparr> ls)) =
      length (filter (\<lambda>l. \<exists>i. key l = Some i \<and> i \<in> fst ` set rs) ls)"
    if "distinct (map fst rs)" for rs s
    using that
  proof (induction rs)
    case (Cons ir rs)
    obtain i r where ir: "ir = (i, r)" by fastforce
    have i: "i \<notin> fst ` set rs" using Cons.prems by (simp add: ir)
    have "sum_list (map calls (joined key f \<lparr>rows = ir # rs, seq = s\<rparr> ls)) =
        length (filter (\<lambda>l. key l = Some i) ls) + sum_list (map calls (joined key f \<lparr>rows = rs, seq = s\<rparr> ls))"
      by (simp add: joined_def ir map_filter_Cons Let_def assms(2))
    then show ?case using Cons length_filter_split [OF i, of key ls] by (simp add: ir)
  qed (simp add: joined_def List.map_filter_def)
  from this [OF assms(1), of "seq t"] show ?thesis by (simp add: joined_def)
qed

lemma sum_indicator: "distinct ds \<Longrightarrow> x \<in> set ds \<Longrightarrow> sum_list (map (\<lambda>d. if x = d then k else 0) ds) = (k :: nat)"
  by (induction ds) (auto intro: sum_list_0 cong: map_cong)

lemma sum_over_days:
  "distinct ds \<Longrightarrow> set (map day ls) \<subseteq> set ds \<Longrightarrow> sum_list (map (\<lambda>d. length (filter (\<lambda>l. p l) (filter (\<lambda>l. day l = d) ls))) ds) =
     length (filter p ls)"
proof (induction ls)
  case (Cons l ls)
  have "length (filter p (filter (\<lambda>l'. day l' = d) (l # ls))) =
      (if day l = d then if p l then 1 else 0 else 0) + length (filter p (filter (\<lambda>l'. day l' = d) ls))" for d by simp
  then show ?case using Cons sum_indicator [of ds "day l"] by (simp add: sum_list_addf del: filter.simps) simp
qed simp

text \<open>The calls that a trend or a model statistic can show: those of a row that still exists.\<close>

definition of_group :: "db \<Rightarrow> call_log \<Rightarrow> bool" where
  "of_group db l \<longleftrightarrow> (\<exists>i. cl_group_id l = Some i \<and> i \<in> fst ` set (rows (model_groups db)))"

definition of_model :: "db \<Rightarrow> call_log \<Rightarrow> bool" where
  "of_model db l \<longleftrightarrow> (\<exists>i. cl_model_id l = Some i \<and> i \<in> fst ` set (rows (models db)))"

definition trend_before :: "trend_row \<Rightarrow> trend_row \<Rightarrow> bool" where
  "trend_before x y \<longleftrightarrow> tr_day x < tr_day y \<or> tr_day x = tr_day y \<and> tr_group_id x < tr_group_id y"

lemma days_of: "sorted_wrt (<) (days_of day ls)" "set (days_of day ls) = day ` set ls" "distinct (days_of day ls)"
  by (auto simp: days_of_def strict_sorted_iff)

lemma trend_rows_of_day_row:
  "r \<in> set (trend_rows_of_day num day t ls d) \<Longrightarrow> tr_day r = d \<and>
     tr_calls r = length (filter (\<lambda>l. day l = d \<and> cl_group_id l = Some (tr_group_id r)) ls) \<and> 0 < tr_calls r"
  unfolding trend_rows_of_day_def joined_rows by (auto simp: filter_empty_conv conj_commute)

lemma joined_sorted:
  assumes "sorted_wrt (<) (map fst (rows t))" "\<And>i r own i' r' own'. i < i' \<Longrightarrow> R (f i r own) (f i' r' own')"
  shows "sorted_wrt R (joined key f t ls)"
proof -
  have "sorted_wrt R (joined key f \<lparr>rows = rs, seq = s\<rparr> ls)" if "sorted_wrt (<) (map fst rs)" for rs s
    using that
  proof (induction rs)
    case (Cons ir rs)
    obtain i r where ir: "ir = (i, r)" by fastforce
    have "R (f i r own) y" if "y \<in> set (joined key f \<lparr>rows = rs, seq = s\<rparr> ls)" for y own
      using that Cons.prems unfolding joined_rows ir by (force intro: assms(2))
    then show ?case using Cons by (simp add: ir joined_def map_filter_Cons Let_def)
  qed (simp add: joined_def map_filter_simps)
  from this [OF assms(1), of "seq t"] show ?thesis by (simp add: joined_def)
qed

lemma trend_rows_of_day_sorted:
  "sorted_wrt (<) (map fst (rows t)) \<Longrightarrow> sorted_wrt trend_before (trend_rows_of_day num day t ls d)"
  unfolding trend_rows_of_day_def by (rule joined_sorted) (simp_all add: trend_before_def)

lemma trend_concat_sorted:
  "sorted_wrt (<) ds \<Longrightarrow> sorted_wrt (<) (map fst (rows t)) \<Longrightarrow> sorted_wrt trend_before (concat (map (trend_rows_of_day num day t ls) ds))"
  by (induction ds) (auto simp: sorted_wrt_append trend_rows_of_day_sorted trend_before_def dest!: trend_rows_of_day_row)

lemma statistics_count_every_call_parts:
  assumes "wf_table (model_groups db)" "wf_table (models db)" "\<forall>xs. mset (order xs) = mset xs"
  shows "sorted_wrt trend_before (list_group_trend num day_of a b db)"
    "r \<in> set (list_group_trend num day_of a b db) \<Longrightarrow> 0 < tr_calls r \<and> tr_calls r =
       length (logs_where (\<lambda>l. in_window_of (Some a) (Some b) l \<and> day_of 8 (cl_created_at l) = tr_day r \<and>
         cl_group_id l = Some (tr_group_id r)) db)"
    "sum_list (map tr_calls (list_group_trend num day_of a b db)) =
       length (logs_where (\<lambda>l. in_window_of (Some a) (Some b) l \<and> of_group db l) db)"
    "sum_list (map mr_total_calls (list_model_stats num order (-1) kid since_utc until_utc db)) =
       length (logs_where (\<lambda>l. of_api_key kid l \<and> in_window_of since_utc until_utc l \<and> of_model db l) db)"
proof -
  note ids = assms(1,2) [unfolded wf_table_def, THEN conjunct1]
  show "sorted_wrt trend_before (list_group_trend num day_of a b db)"
    unfolding list_group_trend_def Let_def by (rule trend_concat_sorted [OF days_of(1) ids(1)])
  show "r \<in> set (list_group_trend num day_of a b db) \<Longrightarrow> 0 < tr_calls r \<and> tr_calls r =
       length (logs_where (\<lambda>l. in_window_of (Some a) (Some b) l \<and> day_of 8 (cl_created_at l) = tr_day r \<and>
         cl_group_id l = Some (tr_group_id r)) db)"
    by (auto simp: list_group_trend_def Let_def logs_where_def conj_ac dest!: trend_rows_of_day_row)
  have d: "distinct (map fst (rows (model_groups db)))" "distinct (map fst (rows (models db)))"
    using ids by (simp_all add: strict_sorted_iff)
  have day: "sum_list (map tr_calls (trend_rows_of_day num day (model_groups db) ls d)) =
      length (filter (of_group db) (filter (\<lambda>l. day l = d) ls))" for num day ls d
    unfolding trend_rows_of_day_def by (subst joined_total [OF d(1)]) (simp_all add: of_group_def [abs_def])
  have concat: "sum_list (map tr_calls (concat (map (trend_rows_of_day num day (model_groups db) ls) ds))) =
      sum_list (map (\<lambda>d. length (filter (of_group db) (filter (\<lambda>l. day l = d) ls))) ds)" for day ls ds
    by (induction ds) (simp_all add: day del: filter_filter)
  have "logs_where (\<lambda>l. in_window_of (Some a) (Some b) l \<and> of_group db l) db =
      filter (of_group db) (logs_where (in_window_of (Some a) (Some b)) db)"
    by (simp add: logs_where_def conj_commute)
  then show "sum_list (map tr_calls (list_group_trend num day_of a b db)) =
       length (logs_where (\<lambda>l. in_window_of (Some a) (Some b) l \<and> of_group db l) db)"
    unfolding list_group_trend_def Let_def concat by (subst sum_over_days [OF days_of(3)]) (simp_all add: days_of(2))
  have perm: "sum_list (map f (order xs)) = sum_list (map f xs)" for f :: "model_row \<Rightarrow> nat" and xs
    by (metis assms(3) mset_map sum_mset_sum_list)
  show "sum_list (map mr_total_calls (list_model_stats num order (-1) kid since_utc until_utc db)) =
       length (logs_where (\<lambda>l. of_api_key kid l \<and> in_window_of since_utc until_utc l \<and> of_model db l) db)"
    unfolding list_model_stats_def page_def
    by (simp add: perm joined_total [OF d(2)] model_row_of_def logs_where_def of_model_def conj_ac)
qed

text \<open>C22: The trend has at most one row per day and group, in the order of the days and, within a day, of the
  group ids; each row counts exactly the calls of its day and group in the window and is never empty; and no
  call is counted twice or left out: the rows add up to the calls of the window whose group still exists. In the
  same way the statistics of the models add up to the calls in question whose model still exists, when the
  limit does not cut any row off.\<close>

theorem statistics_count_every_call:
  assumes "wf_table (model_groups db)" "wf_table (models db)" "\<forall>xs. mset (order xs) = mset xs"
  shows "sorted_wrt trend_before (list_group_trend num day_of a b db) \<and>
     (\<forall>r \<in> set (list_group_trend num day_of a b db). 0 < tr_calls r \<and> tr_calls r =
       length (logs_where (\<lambda>l. in_window_of (Some a) (Some b) l \<and> day_of 8 (cl_created_at l) = tr_day r \<and>
         cl_group_id l = Some (tr_group_id r)) db)) \<and>
     sum_list (map tr_calls (list_group_trend num day_of a b db)) =
       length (logs_where (\<lambda>l. in_window_of (Some a) (Some b) l \<and> of_group db l) db) \<and>
     sum_list (map mr_total_calls (list_model_stats num order (-1) kid since_utc until_utc db)) =
       length (logs_where (\<lambda>l. of_api_key kid l \<and> in_window_of since_utc until_utc l \<and> of_model db l) db)"
  using statistics_count_every_call_parts [OF assms] by blast

definition stat_db :: db where
  "stat_db = sample_db\<lparr>call_logs := \<lparr>rows =
     [(1, sample_log\<lparr>cl_created_at := ''2025-07-21 08:00:00''\<rparr>),
      (2, sample_log\<lparr>cl_model_id := Some 2, cl_created_at := ''2025-07-22 08:00:00''\<rparr>),
      (3, sample_log\<lparr>cl_group_id := Some 9, cl_created_at := ''2025-07-22 08:00:01''\<rparr>)], seq = 3\<rparr>\<rparr>"

theorem statistics_count_every_call_witness:
  "sum_list (map tr_calls (list_group_trend (\<lambda>_. 0) (\<lambda>_ t. take 10 t) ''2025-07-21 00:00:00'' ''2025-07-23 00:00:00'' stat_db)) = 2 \<and>
   sum_list (map mr_total_calls (list_model_stats (\<lambda>_. 0) (\<lambda>xs. xs) (-1) None None None stat_db)) = 1"
proof -
  have wf: "wf_table (model_groups stat_db)" "wf_table (models stat_db)" "\<forall>xs. mset ((\<lambda>xs. xs) xs) = mset xs"
    using wf_sample_db by (simp_all add: stat_db_def wf_db_def)
  show ?thesis
    using statistics_count_every_call [OF wf, of "\<lambda>_. 0" "\<lambda>_ t. take 10 t" "''2025-07-21 00:00:00''" "''2025-07-23 00:00:00''"]
      statistics_count_every_call [OF wf, where num = "\<lambda>_. 0" and kid = None and since_utc = None and until_utc = None]
    by (simp add: logs_where_def stat_db_def sample_db_def sample_log_def in_window_of_def of_group_def of_model_def
        of_api_key_def matches_def less_char_def)
qed

subsection \<open>Cut-offs in the ISO form\<close>

text \<open>A stored time is compared with an ISO text by its day alone: the blank of \<open>datetime('now')\<close> stands
  before the \<open>T\<close> of \<open>isoformat()\<close>.\<close>

lemma div_days:
  assumes "days * 86400 \<le> now"
  shows "(now - days * 86400) div 86400 = now div 86400 - (days :: nat)"
proof -
  have "now - days * 86400 + days * 86400 = now" using assms by simp
  then have "now div 86400 = days + (now - days * 86400) div 86400"
    using div_mult_self1 [of 86400 "now - days * 86400" days] by (metis add.commute mult.commute zero_neq_numeral)
  then show ?thesis by simp
qed

lemma iso_cutoff_le:
  assumes "in_range now" "days * 86400 \<le> now" "in_range t"
  shows "iso_cutoff now us (int days) \<le> stamp_text t \<longleftrightarrow> now div 86400 - days < t div 86400"
proof -
  have c: "nat (int now - int days * 86400) = now - days * 86400" by (simp add: nat_diff_distrib')
  moreover have "in_range (now - days * 86400)" using assms(1) in_range_mono diff_le_self by blast
  moreover note div_days [OF assms(2)]
  ultimately have "stamp_text t < iso_cutoff now us (int days) \<longleftrightarrow> t div 86400 \<le> now div 86400 - days"
    using stamp_less_iso [OF assms(3), of "now - days * 86400" us] by (simp add: iso_cutoff_def)
  then show ?thesis by (auto simp: not_less [symmetric])
qed

end
