(* ===== verification/Summary.thy ===== *)
theory Summary
  imports Workflow Stats
begin

text \<open>
  The daily maintenance of \<open>src/botflow/storage/daily_summary.py\<close>, with the tables of summaries and
  compressed sessions (\<open>src/botflow/storage/db.py\<close>, lines 1344 to 1405).

  Clocks are seconds since 1970-01-01 00:00:00 UTC, with \<open>us\<close> microseconds where \<open>isoformat()\<close> shows them.
  Token counts of the rows are integers or null. A summary row is its text and its statistics; the blob
  of a session is a string. \<open>sl_gzip\<close>, \<open>sl_round\<close>, \<open>sl_dumps\<close> and \<open>sl_loads\<close> are \<open>gzip.compress\<close>, \<open>round\<close>,
  \<open>json.dumps(..., ensure_ascii=False)\<close> and \<open>json.loads\<close>; \<open>sl_order\<close> is \<open>ORDER BY created_at\<close> and \<open>sl_day\<close>
  is \<open>date(t, '+h hours')\<close> of SQLite. \<open>sl_column\<close> is the text a \<open>TEXT\<close> column holds of a number, and
  \<open>sl_odd_flow\<close> what a workflow whose parameters have another type than its module documents does.
\<close>

record 'w summary_lib =
  sl_workflow :: wf_lib
  sl_loads :: "string \<Rightarrow> json option"
  sl_dumps :: "json \<Rightarrow> string"
  sl_round :: "real \<Rightarrow> nat \<Rightarrow> real"
  sl_gzip :: "string \<Rightarrow> string"
  sl_order :: "(int \<times> call_log) list \<Rightarrow> (int \<times> call_log) list"
  sl_day :: "int \<Rightarrow> string \<Rightarrow> string"
  sl_column :: "json \<Rightarrow> string"
  sl_odd_flow :: "dict \<Rightarrow> dict list \<Rightarrow> int \<Rightarrow> 'w gw \<Rightarrow> dict res \<times> 'w gw"

subsection \<open>The tables\<close>

definition upsert_daily_summary :: "string \<Rightarrow> string \<Rightarrow> string \<Rightarrow> db \<Rightarrow> db" where
  "upsert_daily_summary day md stats db = db\<lparr>daily_summaries := AList.update day (md, stats) (daily_summaries db)\<rparr>"

definition get_daily_summary :: "string \<Rightarrow> db \<Rightarrow> (string \<times> string) option" where
  "get_daily_summary day db = map_of (daily_summaries db) day"

definition get_call_logs_for_day :: "'w summary_lib \<Rightarrow> string \<Rightarrow> db \<Rightarrow> (int \<times> call_log) list" where
  "get_call_logs_for_day L day db = sl_order L (filter (\<lambda>r. sl_day L 0 (cl_created_at (snd r)) = day) (rows (call_logs db)))"

definition save_raw_session :: "string \<Rightarrow> string \<Rightarrow> db \<Rightarrow> db" where
  "save_raw_session day blob db = db\<lparr>raw_sessions := AList.update day blob (raw_sessions db)\<rparr>"

definition get_raw_session :: "string \<Rightarrow> db \<Rightarrow> string option" where
  "get_raw_session day db = map_of (raw_sessions db) day"

definition delete_old_raw_sessions :: "string \<Rightarrow> db \<Rightarrow> nat \<times> db" where
  "delete_old_raw_sessions cutoff db =
     (length (filter (\<lambda>r. fst r < cutoff) (raw_sessions db)),
      db\<lparr>raw_sessions := filter (\<lambda>r. \<not> fst r < cutoff) (raw_sessions db)\<rparr>)"

definition delete_old_daily_summaries :: "string \<Rightarrow> db \<Rightarrow> nat \<times> db" where
  "delete_old_daily_summaries cutoff db =
     (length (filter (\<lambda>r. fst r < cutoff) (daily_summaries db)),
      db\<lparr>daily_summaries := filter (\<lambda>r. \<not> fst r < cutoff) (daily_summaries db)\<rparr>)"

subsection \<open>Statistics of a day\<close>

text \<open>\<open>d[k] = d.get(k, 0) + 1\<close>.\<close>

definition bump :: "string \<Rightarrow> dict \<Rightarrow> dict" where
  "bump k d = dset k (case dget d k (JInt 0) of JInt n \<Rightarrow> JInt (n + 1) | v \<Rightarrow> v) d"

definition token_count :: "json \<Rightarrow> int" where
  "token_count v = (case v of JInt i \<Rightarrow> i | _ \<Rightarrow> 0)"

definition count_models :: "call_log list \<Rightarrow> dict" where
  "count_models ls = fold (\<lambda>l d. case cl_model_id l of Some i \<Rightarrow> if i \<noteq> 0 then bump (str_int i) d else d | None \<Rightarrow> d) ls []"

definition count_keys :: "call_log list \<Rightarrow> dict" where
  "count_keys ls = fold (\<lambda>l d. case cl_api_key_id l of Some i \<Rightarrow> bump (str_int i) d | None \<Rightarrow> d) ls []"

definition error_name :: "call_log \<Rightarrow> string" where
  "error_name l = (case cl_error_type l of Some t \<Rightarrow> if t \<noteq> [] then t else ''unknown'' | None \<Rightarrow> ''unknown'')"

definition count_errors :: "call_log list \<Rightarrow> dict" where
  "count_errors errors = fold (\<lambda>l d. bump (error_name l) d) errors []"

definition sum_tokens_of :: "(call_log \<Rightarrow> json) \<Rightarrow> call_log list \<Rightarrow> int" where
  "sum_tokens_of col ls = sum_list (map (\<lambda>l. token_count (col l)) ls)"

definition build_stats :: "(real \<Rightarrow> nat \<Rightarrow> real) \<Rightarrow> call_log list \<Rightarrow> dict" where
  "build_stats round_to ls =
     (let total = length ls; errors = filter (\<lambda>l. cl_status l = ''error'') ls in
      [(''total_calls'', JInt (int total)),
       (''error_calls'', JInt (int (length errors))),
       (''error_rate'', JFloat (if total \<noteq> 0 then round_to (of_nat (length errors) / of_nat total) 4 else 0)),
       (''by_model'', JObj (count_models ls)),
       (''by_api_key'', JObj (count_keys ls)),
       (''tokens'', JObj [(''prompt'', JInt (sum_tokens_of cl_prompt_tokens ls)),
                        (''completion'', JInt (sum_tokens_of cl_completion_tokens ls)),
                        (''total'', JInt (sum_tokens_of cl_total_tokens ls))]),
       (''cost'', JFloat (round_to (sum_of cost_of ls) 6)),
       (''error_types'', JObj (count_errors errors))])"

subsection \<open>The prompt\<close>

definition max_sample_for_summary :: nat where
  "max_sample_for_summary = 200"

text \<open>The text of the last message of the user.\<close>

fun last_user_text :: "json list \<Rightarrow> string" where
  "last_user_text [] = ''''"
| "last_user_text (JObj m # ms) =
     (if dget m ''role'' JNull = JStr ''user''
      then case dget m ''content'' (JStr '''') of JStr s \<Rightarrow> s | _ \<Rightarrow> ''''
      else last_user_text ms)"
| "last_user_text (_ # ms) = last_user_text ms"

text \<open>\<open>reversed(messages)\<close>; of a text or an object no item is a dictionary.\<close>

definition reversed_items :: "json \<Rightarrow> json list res" where
  "reversed_items v =
     (case v of JList ms \<Rightarrow> Inr (rev ms) | JStr _ \<Rightarrow> Inr [] | JObj _ \<Rightarrow> Inr [] | _ \<Rightarrow> Inl (raised_by_python TypeErrorExc))"

definition request_of :: "(string \<Rightarrow> json option) \<Rightarrow> call_log \<Rightarrow> json" where
  "request_of loads l =
     (case cl_request_body l of
        None \<Rightarrow> JObj []
      | Some body \<Rightarrow> if body = [] then JObj [] else case loads body of Some v \<Rightarrow> v | None \<Rightarrow> JObj [])"

text \<open>The samples a row gives: none when it shows no message of the user.\<close>

definition sample_of :: "(string \<Rightarrow> json option) \<Rightarrow> call_log \<Rightarrow> string list res" where
  "sample_of loads l =
     (case request_of loads l of
        JObj req \<Rightarrow>
          bindE (reversed_items (py_or (dget req ''messages'' JNull) (JList []))) (\<lambda>ms.
            let text = last_user_text ms in Inr (if text \<noteq> [] then [''- '' @ py_take 300 text] else []))
      | _ \<Rightarrow> Inl (raised_by_python AttributeErrorExc))"

definition line_break :: string where
  "line_break = [CHR 0x0A]"

definition summary_preamble :: string where
  "summary_preamble = ''You are maintaining an '' @ quoted ''LLM Wiki'' @ '' '' @
     [char_of (226::nat), char_of (128::nat), char_of (148::nat)] @ '' a daily knowledge log of how this '' @
     ''proxy'' @ [CHR 0x27] @ ''s users converse with the models. Below are today'' @ [CHR 0x27] @ ''s usage stats '' @
     ''and a sample of user prompts.'' @ line_break @ line_break"

definition summary_task :: string where
  "summary_task = ''Produce a concise Markdown wiki entry covering: recurring themes, '' @
     ''frequently asked questions, notable failure/error patterns, and any '' @
     ''observations useful for operators. Use headings and bullet lists. '' @
     ''Write in the same language as the user prompts.''"

definition build_summary_prompt :: "(string \<Rightarrow> json option) \<Rightarrow> (json \<Rightarrow> string) \<Rightarrow> call_log list \<Rightarrow> dict \<Rightarrow> string res" where
  "build_summary_prompt loads dumps ls stats =
     bindE (mapE (sample_of loads) (take max_sample_for_summary ls)) (\<lambda>samples.
       let lines = concat samples;
           sample_block = (if lines \<noteq> [] then join line_break lines else ''(no user messages captured)'');
           fence = [CHR 0x60, CHR 0x60, CHR 0x60]
       in Inr (summary_preamble @ ''## Usage stats'' @ line_break @ fence @ ''json'' @ line_break @ dumps (JObj stats) @
            line_break @ fence @ line_break @ line_break @ ''## Sample user prompts'' @ line_break @ sample_block @
            line_break @ line_break @ summary_task))"


subsection \<open>The wiki text\<close>

definition summary_group_of :: "string \<Rightarrow> db \<Rightarrow> (int \<times> model_group) option" where
  "summary_group_of wanted db =
     (let groups = list_groups True db; name = (if wanted \<noteq> [] then wanted else ''default'') in
      case find (\<lambda>ig. g_name (snd ig) = name) groups of
        Some grp \<Rightarrow> Some grp
      | None \<Rightarrow> (case groups of grp # _ \<Rightarrow> Some grp | [] \<Rightarrow> None))"

text \<open>A run of the strategy of a group with a cooldown manager of its own, which is dropped afterwards;
  \<open>None\<close> when no class is registered under its name.\<close>

definition run_group :: "'w summary_lib \<Rightarrow> 'w env \<Rightarrow> int \<times> model_group \<Rightarrow> dict list \<Rightarrow> 'w gw \<Rightarrow> (dict res \<times> 'w gw) option" where
  "run_group L env grp msgs g =
     (let name = (if g_type (snd grp) \<noteq> [] then g_type (snd grp) else ''random_weights''); g0 = g\<lparr>gw_cooldown := []\<rparr> in
      case map_of (strategy_registry env) name of
        None \<Rightarrow> None
      | Some select \<Rightarrow>
          let (r, g1) =
                (if name = ''langgraph''
                 then case flow_of (g_params (snd grp)) of
                        Some fl \<Rightarrow> execute_flow (sl_workflow L) env fl msgs (fst grp) (JFloat (3 / 10)) None [] g0
                      | None \<Rightarrow> sl_odd_flow L (g_params (snd grp)) msgs (fst grp) g0
                 else execute env select msgs (fst grp) (JFloat (3 / 10)) None [] g0)
          in Some (r, g1\<lparr>gw_cooldown := gw_cooldown g\<rparr>))"

definition generate_wiki :: "'w summary_lib \<Rightarrow> 'w env \<Rightarrow> string \<Rightarrow> string \<Rightarrow> 'w gw \<Rightarrow> json res \<times> 'w gw" where
  "generate_wiki L env prompt wanted g =
     (case summary_group_of wanted (gw_db g) of
        None \<Rightarrow> (Inr (JStr ''''), g)
      | Some grp \<Rightarrow>
          (case run_group L env grp [[(''role'', JStr ''user''), (''content'', JStr prompt)]] g of
             None \<Rightarrow> (Inr (JStr ''''), g)
           | Some (Inl e, g1) \<Rightarrow> (Inl e, g1)
           | Some (Inr result, g1) \<Rightarrow> (extract_content result, g1)))"

subsection \<open>The daily run\<close>

definition int_json :: "int option \<Rightarrow> json" where
  "int_json x = (case x of None \<Rightarrow> JNull | Some i \<Rightarrow> JInt i)"

definition str_json :: "string option \<Rightarrow> json" where
  "str_json x = (case x of None \<Rightarrow> JNull | Some s \<Rightarrow> JStr s)"

text \<open>\<open>CallLog.model_dump()\<close>; \<open>default=str\<close> turns the time into the text it was read from.\<close>

definition log_json :: "int \<times> call_log \<Rightarrow> json" where
  "log_json r = (case r of (i, l) \<Rightarrow> JObj
     [(''id'', JInt i), (''api_key_id'', int_json (cl_api_key_id l)), (''group_id'', int_json (cl_group_id l)),
      (''model_id'', int_json (cl_model_id l)), (''provider_id'', int_json (cl_provider_id l)),
      (''request_body'', str_json (cl_request_body l)), (''response_body'', str_json (cl_response_body l)),
      (''status'', JStr (cl_status l)), (''error_type'', str_json (cl_error_type l)),
      (''error_message'', str_json (cl_error_message l)), (''traceback'', str_json (cl_traceback l)),
      (''request_id'', str_json (cl_request_id l)), (''duration_ms'', int_json (cl_duration_ms l)),
      (''prompt_tokens'', cl_prompt_tokens l), (''completion_tokens'', cl_completion_tokens l),
      (''cache_tokens'', cl_cache_tokens l), (''total_tokens'', cl_total_tokens l),
      (''tool_calls'', str_json (cl_tool_calls l)),
      (''cost'', case cl_cost l of None \<Rightarrow> JNull | Some x \<Rightarrow> JFloat x), (''created_at'', JStr (cl_created_at l))])"

text \<open>Writing the summary: the column is \<open>NOT NULL\<close> and takes no list, and the log line after the write
  evaluates \<open>len\<close>, which fails for a number.\<close>

definition store_summary :: "'w summary_lib \<Rightarrow> string \<Rightarrow> json \<Rightarrow> string \<Rightarrow> db \<Rightarrow> unit res \<times> db" where
  "store_summary L day md stats db =
     (case md of
        JStr s \<Rightarrow> (Inr (), upsert_daily_summary day s stats db)
      | JNull \<Rightarrow> (Inl integrity_error, db)
      | _ \<Rightarrow> if binds md then (Inl (raised_by_python TypeErrorExc), upsert_daily_summary day (sl_column L md) stats db)
             else (Inl bind_error, db))"

definition yesterday_day :: "nat \<Rightarrow> string" where
  "yesterday_day now = date_text (now div 86400 - 1)"

definition run_daily_summary :: "'w summary_lib \<Rightarrow> 'w env \<Rightarrow> string \<Rightarrow> nat \<Rightarrow> string option \<Rightarrow> 'w gw \<Rightarrow> unit res \<times> 'w gw" where
  "run_daily_summary L env wanted now day g =
     (let d = (case day of Some d \<Rightarrow> if d \<noteq> [] then d else yesterday_day now | None \<Rightarrow> yesterday_day now);
          logs = get_call_logs_for_day L d (gw_db g) in
      if logs = [] then (Inr (), g)
      else
        let stats = build_stats (sl_round L) (map snd logs);
            g1 = g\<lparr>gw_db := save_raw_session d (sl_gzip L (sl_dumps L (JList (map log_json logs)))) (gw_db g)\<rparr>;
            (md, g2) = (case build_summary_prompt (sl_loads L) (sl_dumps L) (map snd logs) stats of
                          Inl e \<Rightarrow> (JStr '''', g1)
                        | Inr prompt \<Rightarrow>
                            (case generate_wiki L env prompt wanted g1 of
                               (Inl e, g2) \<Rightarrow> (JStr '''', g2)
                             | (Inr v, g2) \<Rightarrow> (v, g2)));
            (r, db) = store_summary L d md (sl_dumps L (JObj stats)) (gw_db g2)
        in (r, g2\<lparr>gw_db := db\<rparr>))"

subsection \<open>Retention\<close>

text \<open>Only a row that has a request body is touched.\<close>

definition purge_old_detail :: "nat \<Rightarrow> nat \<Rightarrow> db \<Rightarrow> nat \<times> db" where
  "purge_old_detail now days db =
     (let cutoff = stamp_text (now - days * 86400);
          old = (\<lambda>r. cl_created_at (snd r) < cutoff \<and> cl_request_body (snd r) \<noteq> None)
      in (count_rows old (call_logs db),
          db\<lparr>call_logs := update_rows old
               (\<lambda>l. l\<lparr>cl_request_body := None, cl_response_body := None, cl_traceback := None\<rparr>) (call_logs db)\<rparr>))"

definition purge_old_raw_sessions :: "nat \<Rightarrow> nat \<Rightarrow> db \<Rightarrow> nat \<times> db" where
  "purge_old_raw_sessions now days db =
     (let cutoff = date_text ((now - days * 86400) div 86400); (deleted, db1) = delete_old_raw_sessions cutoff db
      in (deleted, snd (delete_old_daily_summaries cutoff db1)))"

definition purge_old_call_logs :: "nat \<Rightarrow> nat \<Rightarrow> int \<Rightarrow> db \<Rightarrow> nat \<times> db" where
  "purge_old_call_logs now us days db = delete_old_call_logs (iso_cutoff now us days) db"

end
