(* ===== verification/Summary_Facts.thy ===== *)
theory Summary_Facts
  imports Summary Stats_Facts Workflow_Facts Engine_Audit
begin

text \<open>
  What the daily maintenance stores, and which rows its cut-offs reach.
\<close>

subsection \<open>The daily run\<close>

lemma execute_queue_db: "gw_db (snd (execute_queue env gid rr eps g)) = gw_db g"
proof (induction eps arbitrary: g)
  case (Cons ep eps)
  obtain r g1 where c: "call_llm env ep (rr_messages rr) gid (rr_temperature rr) (rr_max_tokens rr) (rr_extra_kwargs rr) g = (r, g1)"
    by (metis prod.collapse)
  have "gw_db g1 = gw_db g"
    using call_llm_frame [of g env ep "rr_messages rr" gid "rr_temperature rr" "rr_max_tokens rr" "rr_extra_kwargs rr"]
    by (simp add: c call_frame_def same_tables_def)
  then show ?case using Cons by (auto simp: c split: sum.splits option.splits prod.splits)
qed simp

lemma execute_db:
  assumes "map_of (strategy_registry env) name = Some select"
  shows "gw_db (snd (execute env select msgs gid t mt kw g)) = gw_db g"
proof -
  have "same_catalog g (snd (select msgs gid t mt kw g))"
    using assms select_catalog by (auto simp: strategy_registry_def split: if_splits)
  then show ?thesis
    by (auto simp: execute_def same_catalog_def execute_queue_db split: sum.splits prod.splits)
qed

text \<open>A workflow outside the documented form leaves the tables alone, as every strategy does.\<close>

definition odd_flows_keep_db :: "'w summary_lib \<Rightarrow> bool" where
  "odd_flows_keep_db L \<longleftrightarrow> (\<forall>ps msgs gid g. gw_db (snd (sl_odd_flow L ps msgs gid g)) = gw_db g)"

lemma execute_flow_db: "wf_gw g \<Longrightarrow> gw_db (snd (execute_flow L env fl msgs gid t mt kw g)) = gw_db g"
  using execute_flow_kept [of g L env fl msgs gid t mt kw] by (simp add: kept_def prod_eq_iff)

lemma run_group_db:
  assumes "wf_gw g" "odd_flows_keep_db L" "run_group L env grp msgs g = Some (r, g')"
  shows "gw_db g' = gw_db g"
proof -
  have "wf_gw (g\<lparr>gw_cooldown := []\<rparr>)" using assms(1) by simp
  then show ?thesis
    using assms(2,3) execute_flow_db [of "g\<lparr>gw_cooldown := []\<rparr>"]
    by (auto simp: run_group_def Let_def odd_flows_keep_db_def execute_db split_def split: option.splits if_splits)
qed

lemma generate_wiki_db:
  assumes "wf_gw g" "odd_flows_keep_db L" "generate_wiki L env prompt wanted g = (r, g')"
  shows "gw_db g' = gw_db g"
  using assms(3) run_group_db [OF assms(1,2)] by (auto simp: generate_wiki_def split: option.splits sum.splits prod.splits)

text \<open>The markdown text of a day: what the wiki text is, and the empty text when it cannot be made.\<close>

definition wiki_of :: "'w summary_lib \<Rightarrow> 'w env \<Rightarrow> string \<Rightarrow> call_log list \<Rightarrow> 'w gw \<Rightarrow> json" where
  "wiki_of L env wanted ls g =
     (case build_summary_prompt (sl_loads L) (sl_dumps L) ls (build_stats (sl_round L) ls) of
        Inl e \<Rightarrow> JStr ''''
      | Inr prompt \<Rightarrow> (case fst (generate_wiki L env prompt wanted g) of Inl e \<Rightarrow> JStr '''' | Inr v \<Rightarrow> v))"

definition with_session :: "'w summary_lib \<Rightarrow> string \<Rightarrow> (int \<times> call_log) list \<Rightarrow> 'w gw \<Rightarrow> 'w gw" where
  "with_session L d logs g = g\<lparr>gw_db := save_raw_session d (sl_gzip L (sl_dumps L (JList (map log_json logs)))) (gw_db g)\<rparr>"

lemma run_daily_summary_db:
  assumes "wf_gw g" "odd_flows_keep_db L" "d = (if day = None \<or> day = Some [] then yesterday_day now else the day)"
    "logs = get_call_logs_for_day L d (gw_db g)" "logs \<noteq> []" "run_daily_summary L env wanted now day g = (r, g')"
  shows "(r, gw_db g') = store_summary L d (wiki_of L env wanted (map snd logs) (with_session L d logs g))
    (sl_dumps L (JObj (build_stats (sl_round L) (map snd logs)))) (gw_db (with_session L d logs g))"
proof -
  have wf: "wf_gw (with_session L d logs g)"
    using assms(1) by (simp add: with_session_def save_raw_session_def wf_gw_def wf_db_def models_ok_def group_models_ok_def)
  have day: "(case day of Some d \<Rightarrow> if d \<noteq> [] then d else yesterday_day now | None \<Rightarrow> yesterday_day now) = d"
    using assms(3) by (auto split: option.split)
  show ?thesis
    using assms(4-6) generate_wiki_db [OF wf assms(2)]
    by (auto simp: run_daily_summary_def day Let_def wiki_of_def with_session_def [symmetric] split: sum.splits prod.splits)
qed

text \<open>What becomes of the statistics, by the content \<open>md\<close> of the model's answer.\<close>

definition summary_outcome :: "'w summary_lib \<Rightarrow> string \<Rightarrow> json \<Rightarrow> string \<Rightarrow> db \<Rightarrow> unit res \<Rightarrow> db \<Rightarrow> bool" where
  "summary_outcome L d md stats db r db' \<longleftrightarrow>
     (case md of
        JStr s \<Rightarrow> r = Inr () \<and> get_daily_summary d db' = Some (s, stats)
      | JNull \<Rightarrow> r = Inl integrity_error \<and> get_daily_summary d db' = get_daily_summary d db
      | JList _ \<Rightarrow> r = Inl bind_error \<and> get_daily_summary d db' = get_daily_summary d db
      | JObj _ \<Rightarrow> r = Inl bind_error \<and> get_daily_summary d db' = get_daily_summary d db
      | _ \<Rightarrow> (r = Inl (raised_by_python TypeErrorExc) \<and> get_daily_summary d db' = Some (sl_column L md, stats)) \<or>
            (\<not> binds md \<and> r = Inl bind_error \<and> get_daily_summary d db' = get_daily_summary d db))"

lemma store_summary_frame:
  "store_summary L d md stats db = (r, db') \<Longrightarrow>
   (\<exists>summaries. db' = db\<lparr>daily_summaries := summaries\<rparr>) \<and>
   (\<forall>d'. d' \<noteq> d \<longrightarrow> get_daily_summary d' db' = get_daily_summary d' db)"
  by (cases "\<exists>s. md = JStr s \<or> md \<noteq> JNull \<and> binds md")
    (auto simp: store_summary_def upsert_daily_summary_def get_daily_summary_def update_conv
      intro: exI [of _ "daily_summaries db"] split: json.splits if_splits)

lemma daily_summary_frame:
  assumes "wf_gw g" "odd_flows_keep_db L" "d = (if day = None \<or> day = Some [] then yesterday_day now else the day)"
    "logs = get_call_logs_for_day L d (gw_db g)" "logs \<noteq> []" "run_daily_summary L env wanted now day g = (r, g')"
  shows "(\<exists>summaries. gw_db g' = (gw_db g)\<lparr>
      raw_sessions := AList.update d (sl_gzip L (sl_dumps L (JList (map log_json logs)))) (raw_sessions (gw_db g)),
      daily_summaries := summaries\<rparr>) \<and>
    (\<forall>d'. d' \<noteq> d \<longrightarrow> get_daily_summary d' (gw_db g') = get_daily_summary d' (gw_db g))"
proof -
  let ?db = "gw_db (with_session L d logs g)"
  have db: "?db = (gw_db g)\<lparr>raw_sessions := AList.update d (sl_gzip L (sl_dumps L (JList (map log_json logs)))) (raw_sessions (gw_db g))\<rparr>"
    by (simp add: with_session_def save_raw_session_def)
  then have "get_daily_summary d' ?db = get_daily_summary d' (gw_db g)" for d'
    by (simp add: get_daily_summary_def)
  then show ?thesis
    using store_summary_frame [OF run_daily_summary_db [OF assms, symmetric]] by (simp add: db)
qed

lemma daily_summary_outcome:
  assumes "wf_gw g" "odd_flows_keep_db L" "d = (if day = None \<or> day = Some [] then yesterday_day now else the day)"
    "logs = get_call_logs_for_day L d (gw_db g)" "logs \<noteq> []" "run_daily_summary L env wanted now day g = (r, g')"
  shows "summary_outcome L d (wiki_of L env wanted (map snd logs) (with_session L d logs g))
    (sl_dumps L (JObj (build_stats (sl_round L) (map snd logs)))) (gw_db g) r (gw_db g')"
  using run_daily_summary_db [OF assms]
  by (auto simp: summary_outcome_def store_summary_def with_session_def save_raw_session_def update_conv
      upsert_daily_summary_def get_daily_summary_def split: json.splits if_splits)

lemma wiki_of_failed:
  "wiki_of L env wanted ls g = JStr '''' \<or>
   (\<exists>prompt v. build_summary_prompt (sl_loads L) (sl_dumps L) ls (build_stats (sl_round L) ls) = Inr prompt \<and>
      fst (generate_wiki L env prompt wanted g) = Inr v \<and> wiki_of L env wanted ls g = v)"
  by (auto simp: wiki_of_def split: sum.splits)


definition day_lib :: "int summary_lib" where
  "day_lib = \<lparr>sl_workflow = plain_lib, sl_loads = (\<lambda>_. None), sl_dumps = (\<lambda>_. ''{}''), sl_round = (\<lambda>x _. x),
     sl_gzip = (\<lambda>s. s), sl_order = (\<lambda>rs. rs), sl_day = (\<lambda>_ t. take 10 t), sl_column = (\<lambda>_. ''''),
     sl_odd_flow = (\<lambda>_ _ _ g. (Inl bind_error, g))\<rparr>"

definition day_log :: call_log where
  "day_log = sample_log\<lparr>cl_created_at := ''1970-07-19 16:00:00''\<rparr>"

definition day_db :: db where
  "day_db = empty_db\<lparr>call_logs := \<lparr>rows = [(1, day_log)], seq = 1\<rparr>\<rparr>"


subsection \<open>Retention\<close>

text \<open>The detail purge changes rows one by one.\<close>

definition without_detail :: "call_log \<Rightarrow> call_log" where
  "without_detail l = l\<lparr>cl_request_body := None, cl_response_body := None, cl_traceback := None\<rparr>"

definition purged :: "string \<Rightarrow> call_log \<Rightarrow> call_log" where
  "purged cutoff l = (if cl_created_at l < cutoff \<and> cl_request_body l \<noteq> None then without_detail l else l)"

lemma purged_columns [simp]:
  "cl_model_id (purged c l) = cl_model_id l" "cl_group_id (purged c l) = cl_group_id l"
  "cl_api_key_id (purged c l) = cl_api_key_id l" "cl_created_at (purged c l) = cl_created_at l"
  "cl_status (purged c l) = cl_status l" "cl_total_tokens (purged c l) = cl_total_tokens l"
  "cl_cost (purged c l) = cl_cost l" "cl_duration_ms (purged c l) = cl_duration_ms l"
  by (simp_all add: purged_def without_detail_def)

lemma purged_conditions [simp]:
  "in_window_of a b (purged c l) = in_window_of a b l" "of_api_key kid (purged c l) = of_api_key kid l"
  by (simp_all add: in_window_of_def of_api_key_def split: option.split)

lemma rows_purge_old_detail:
  "rows (call_logs (snd (purge_old_detail now days db))) =
     map (\<lambda>(i, l). (i, purged (stamp_text (now - days * 86400)) l)) (rows (call_logs db))"
  by (auto simp: purge_old_detail_def update_rows_def purged_def without_detail_def Let_def)

lemma logs_where_purged:
  "(\<And>l. p (purged (stamp_text (now - days * 86400)) l) = p l) \<Longrightarrow>
   logs_where p (snd (purge_old_detail now days db)) = map (purged (stamp_text (now - days * 86400))) (logs_where p db)"
  by (simp add: logs_where_def rows_purge_old_detail split_def filter_map comp_def)

lemma joined_map:
  "(\<And>l. key (u l) = key l) \<Longrightarrow> joined key f t (map u ls) = joined key (\<lambda>i r own. f i r (map u own)) t ls"
  by (simp add: joined_def Let_def filter_map comp_def cong: if_cong)

lemma sum_of_map: "(\<And>l. f (u l) = f l) \<Longrightarrow> sum_of f (map u ls) = sum_of f ls"
  by (simp add: sum_of_def comp_def)

lemma model_row_purged: "model_row_of num i name (map (purged c) ls) = model_row_of num i name ls"
proof -
  have "durations (map (purged c) ls) = durations ls" for ls by (induction ls) (simp_all add: durations_def map_filter_simps split: option.split)
  then show ?thesis
    by (simp add: model_row_of_def count_status_def sum_of_map cost_of_def filter_map comp_def)
qed

lemma map_of_not_less:
  "map_of (filter (\<lambda>r. \<not> fst r < c) xs) k = (if k < (c :: string) then None else map_of xs k)"
  by (induction xs) auto

lemma date_text_cutoff:
  assumes "in_range now" "days * 86400 \<le> now" "fst (civil n) < 10000"
  shows "date_text n < date_text ((now - days * 86400) div 86400) \<longleftrightarrow> n < now div 86400 - days"
proof -
  have "in_range (now - days * 86400)" using assms(1) in_range_mono diff_le_self by blast
  then show ?thesis using date_text_less [OF assms(3)] by (simp add: in_range_def div_days [OF assms(2)])
qed

lemma retention_cutoffs_parts:
  assumes "in_range now" "days * 86400 \<le> now" "in_range t" "cl_created_at l = stamp_text t"
  shows "(i, l) \<in> set (rows (call_logs db)) \<Longrightarrow>
      (i, if t < now - days * 86400 \<and> cl_request_body l \<noteq> None
          then l\<lparr>cl_request_body := None, cl_response_body := None, cl_traceback := None\<rparr> else l)
      \<in> set (rows (call_logs (snd (purge_old_detail now days db))))"
    "list_model_stats num order limit kid since_utc until_utc (snd (purge_old_detail now days db)) =
      list_model_stats num order limit kid since_utc until_utc db"
    "list_group_trend num day_of a b (snd (purge_old_detail now days db)) = list_group_trend num day_of a b db"
    "fst (civil n) < 10000 \<Longrightarrow> get_raw_session (date_text n) (snd (purge_old_raw_sessions now days db)) =
      (if now div 86400 - days \<le> n then get_raw_session (date_text n) db else None)"
    "fst (civil n) < 10000 \<Longrightarrow> get_daily_summary (date_text n) (snd (purge_old_raw_sessions now days db)) =
      (if now div 86400 - days \<le> n then get_daily_summary (date_text n) db else None)"
    "(i, l) \<in> set (rows (call_logs (snd (purge_old_call_logs now us (int days) db)))) \<longleftrightarrow>
      (i, l) \<in> set (rows (call_logs db)) \<and> now div 86400 - days < t div 86400"
proof -
  have "in_range (now - days * 86400)" using assms(1) in_range_mono diff_le_self by blast
  then have old: "cl_created_at l < stamp_text (now - days * 86400) \<longleftrightarrow> t < now - days * 86400"
    using assms(3,4) by (simp add: stamp_text_less)
  show "(i, l) \<in> set (rows (call_logs db)) \<Longrightarrow>
      (i, if t < now - days * 86400 \<and> cl_request_body l \<noteq> None
          then l\<lparr>cl_request_body := None, cl_response_body := None, cl_traceback := None\<rparr> else l)
      \<in> set (rows (call_logs (snd (purge_old_detail now days db))))"
    unfolding rows_purge_old_detail set_map by (rule image_eqI [of _ _ "(i, l)"]) (auto simp: purged_def without_detail_def old)
  have tables: "models (snd (purge_old_detail now days db)) = models db" "model_groups (snd (purge_old_detail now days db)) = model_groups db"
    by (simp_all add: purge_old_detail_def Let_def)
  show "list_model_stats num order limit kid since_utc until_utc (snd (purge_old_detail now days db)) =
      list_model_stats num order limit kid since_utc until_utc db"
    by (simp add: list_model_stats_def tables logs_where_purged joined_map model_row_purged)
  show "list_group_trend num day_of a b (snd (purge_old_detail now days db)) = list_group_trend num day_of a b db"
    by (simp add: list_group_trend_def tables logs_where_purged trend_rows_of_day_def [abs_def] days_of_def
        filter_map comp_def joined_map sum_of_map Let_def)
  show "fst (civil n) < 10000 \<Longrightarrow> get_raw_session (date_text n) (snd (purge_old_raw_sessions now days db)) =
      (if now div 86400 - days \<le> n then get_raw_session (date_text n) db else None)"
    by (simp add: purge_old_raw_sessions_def get_raw_session_def delete_old_raw_sessions_def delete_old_daily_summaries_def
        Let_def map_of_not_less date_text_cutoff [OF assms(1,2)])
  show "fst (civil n) < 10000 \<Longrightarrow> get_daily_summary (date_text n) (snd (purge_old_raw_sessions now days db)) =
      (if now div 86400 - days \<le> n then get_daily_summary (date_text n) db else None)"
    by (simp add: purge_old_raw_sessions_def get_daily_summary_def delete_old_raw_sessions_def delete_old_daily_summaries_def
        Let_def map_of_not_less date_text_cutoff [OF assms(1,2)])
  show "(i, l) \<in> set (rows (call_logs (snd (purge_old_call_logs now us (int days) db)))) \<longleftrightarrow>
      (i, l) \<in> set (rows (call_logs db)) \<and> now div 86400 - days < t div 86400"
    using iso_cutoff_le [OF assms(1-3)] by (auto simp: purge_old_call_logs_def delete_old_call_logs_def Let_def delete_rows_def assms(4) not_less)
qed

text \<open>How far the three cut-offs of the maintenance reach. The detail purge clears the request, the response
  and the traceback of exactly those rows that are older than the given number of days and have a request
  body, and keeps every other column; so no statistics of models or groups change. The session purge keeps
  exactly the sessions and summaries of the last days. The deletion of whole rows, whose cut-off is an ISO
  text, goes by the calendar day: a row goes when its day is not after the day of the cut-off, up to a day
  before its retention period ends.\<close>

lemma retention_cutoffs:
  assumes "in_range now" "days * 86400 \<le> now" "in_range t" "cl_created_at l = stamp_text t"
  shows "((i, l) \<in> set (rows (call_logs db)) \<longrightarrow>
      (i, if t < now - days * 86400 \<and> cl_request_body l \<noteq> None
          then l\<lparr>cl_request_body := None, cl_response_body := None, cl_traceback := None\<rparr> else l)
      \<in> set (rows (call_logs (snd (purge_old_detail now days db))))) \<and>
    list_model_stats num order limit kid since_utc until_utc (snd (purge_old_detail now days db)) =
      list_model_stats num order limit kid since_utc until_utc db \<and>
    list_group_trend num day_of a b (snd (purge_old_detail now days db)) = list_group_trend num day_of a b db \<and>
    (\<forall>n. fst (civil n) < 10000 \<longrightarrow> get_raw_session (date_text n) (snd (purge_old_raw_sessions now days db)) =
      (if now div 86400 - days \<le> n then get_raw_session (date_text n) db else None)) \<and>
    (\<forall>n. fst (civil n) < 10000 \<longrightarrow> get_daily_summary (date_text n) (snd (purge_old_raw_sessions now days db)) =
      (if now div 86400 - days \<le> n then get_daily_summary (date_text n) db else None)) \<and>
    ((i, l) \<in> set (rows (call_logs (snd (purge_old_call_logs now us (int days) db)))) \<longleftrightarrow>
      (i, l) \<in> set (rows (call_logs db)) \<and> now div 86400 - days < t div 86400)"
  by (intro conjI allI impI; rule retention_cutoffs_parts [OF assms]; assumption)

end
