(* ===== verification/Lifecycle.thy ===== *)
theory Lifecycle
  imports Summary Sync Accounts Driver
begin

text \<open>
  The life of the service, \<open>lifespan\<close> of \<open>src/botflow/core.py\<close> (lines 286 to 480): what is done at
  start-up, one round of each background task, and the shutdown.

  A round is what the task does between two sleeps; an exception is logged and the task goes on, so a
  round only gives the new state. \<open>start_env\<close> and \<open>site\<close> are those of theory \<open>Accounts\<close>: the database and
  the token file. A stored cooldown of another form than the program writes is outside the model: then
  the restored states are \<open>None\<close>. \<open>boot\<close> is the monotonic clock of the new process.
\<close>

subsection \<open>Start-up\<close>

text \<open>The environment's \<open>LLM_KEY\<close> goes to the database unless one is there.\<close>

definition stored_llm_key :: "db \<Rightarrow> string" where
  "stored_llm_key db = (case get_config ''llm_key'' db of None \<Rightarrow> '''' | Some k \<Rightarrow> k)"

definition sync_llm_key :: "int \<Rightarrow> string \<Rightarrow> db \<Rightarrow> db" where
  "sync_llm_key now env_key db =
     (if env_key \<noteq> '''' \<and> stored_llm_key db = '''' then set_config now ''llm_key'' env_key db else db)"

definition register_legacy_key :: "(string \<Rightarrow> string) \<Rightarrow> string \<Rightarrow> db \<Rightarrow> unit res \<times> db" where
  "register_legacy_key sha env_key db =
     (if list_api_keys db \<noteq> [] then (Inr (), db)
      else let key = (if stored_llm_key db \<noteq> '''' then stored_llm_key db else env_key) in
        if key = '''' then (Inr (), db)
        else case create_api_key sha key ''legacy:llm_key'' db of Inl e \<Rightarrow> (Inl e, db) | Inr (_, db') \<Rightarrow> (Inr (), db'))"

definition number_of_json :: "json \<Rightarrow> real option" where
  "number_of_json v = (case v of JInt i \<Rightarrow> Some (of_int i) | JFloat x \<Rightarrow> Some x | _ \<Rightarrow> None)"

fun decode_cooldowns :: "loaded_cooldown list \<Rightarrow> saved_cooldown list option" where
  "decode_cooldowns [] = Some []"
| "decode_cooldowns (s # ss) =
     (case (lc_failures s, number_of_json (lc_until s), decode_cooldowns ss) of
        (JInt n, Some t, Some rs) \<Rightarrow>
          Some (\<lparr>sc_group_id = lc_group_id s, sc_model_id = lc_model_id s, sc_failures = n, sc_until = t\<rparr> # rs)
      | _ \<Rightarrow> None)"

definition restore_cooldowns :: "(string \<Rightarrow> json option) \<Rightarrow> real \<Rightarrow> real \<Rightarrow> db \<Rightarrow> cooldown_mgr \<Rightarrow> cooldown_mgr option" where
  "restore_cooldowns loads boot wall db m =
     map_option (\<lambda>ss. restore_all boot wall ss m) (decode_cooldowns (load_cooldown_states loads db))"

text \<open>The whole start-up: the site, and the cooldown manager the process begins with.\<close>

definition start_up :: "(string \<Rightarrow> string) \<Rightarrow> (json \<Rightarrow> string) \<Rightarrow> (string \<Rightarrow> json option) \<Rightarrow> real \<Rightarrow> string \<Rightarrow> start_env \<Rightarrow>
    site \<Rightarrow> cooldown_mgr option res \<times> site" where
  "start_up sha dumps loads boot env_key env s =
     (let now = \<lfloor>se_time env\<rfloor>; s1 = s\<lparr>st_db := sync_llm_key now env_key (st_db s)\<rparr> in
      case ensure_setup_token sha dumps env s1 of
        (Inl e, s2) \<Rightarrow> (Inl e, s2)
      | (Inr _, s2) \<Rightarrow>
          (case register_legacy_key sha env_key (st_db s2) of
             (Inl e, db) \<Rightarrow> (Inl e, s2\<lparr>st_db := db\<rparr>)
           | (Inr _, db) \<Rightarrow> (Inr (restore_cooldowns loads boot (se_time env) db []), s2\<lparr>st_db := db\<rparr>)))"

subsection \<open>Background tasks\<close>

text \<open>Seconds until the first maintenance; the clock shows the second \<open>now\<close>.\<close>

definition seconds_until :: "int \<Rightarrow> int \<Rightarrow> int" where
  "seconds_until first_hour now =
     (let s = now mod 86400; d = (first_hour - s div 3600) * 3600 - (s div 60 mod 60) * 60 - s mod 60
      in if d \<le> 0 then d + 24 * 3600 else d)"

record maintenance_cfg =
  mc_summary_group :: string
  mc_detail_days :: nat
  mc_raw_days :: nat
  mc_logs_days :: int

text \<open>One round of \<open>_daily_maintenance\<close>; nothing is purged when the summary raises.\<close>

definition daily_maintenance :: "'w summary_lib \<Rightarrow> 'w env \<Rightarrow> maintenance_cfg \<Rightarrow> nat \<Rightarrow> nat \<Rightarrow> 'w gw \<Rightarrow> 'w gw" where
  "daily_maintenance L env cfg now us g =
     (case run_daily_summary L env (mc_summary_group cfg) now None g of
        (Inl e, g1) \<Rightarrow> g1
      | (Inr _, g1) \<Rightarrow>
          let db1 = snd (purge_old_detail now (mc_detail_days cfg) (gw_db g1));
              db2 = snd (purge_old_raw_sessions now (mc_raw_days cfg) db1)
          in g1\<lparr>gw_db := snd (purge_old_call_logs now us (mc_logs_days cfg) db2)\<rparr>)"

definition periodic_cooldown_save :: "'w env \<Rightarrow> (json \<Rightarrow> string) \<Rightarrow> 'w gw \<Rightarrow> 'w gw" where
  "periodic_cooldown_save env dumps g =
     (let active = get_all_active_cooldowns (mono_now env g) (wall_now env g) (gw_cooldown g) in
      if active = [] then g else g\<lparr>gw_db := save_cooldown_state dumps \<lfloor>wall_now env g\<rfloor> active (gw_db g)\<rparr>)"

definition periodic_dedup_cleanup :: "'w env \<Rightarrow> 'w gw \<Rightarrow> 'w gw" where
  "periodic_dedup_cleanup env g = g\<lparr>gw_db := snd (cleanup_config_by_prefix (wall_now env g) ''dedup:%'' 600 (gw_db g))\<rparr>"

text \<open>The model synchronisation ends at once when its interval is not positive.\<close>

definition periodic_model_sync :: "'w fetch \<Rightarrow> int \<Rightarrow> 'w gw \<Rightarrow> 'w gw" where
  "periodic_model_sync fetch interval g = (if interval \<le> 0 then g else snd (sync_all_models fetch g))"

subsection \<open>Shutdown\<close>

text \<open>
  The writer is stopped with a final flush; cooldowns are not saved. This is a shutdown while no flush is under
  way; what \<open>stop()\<close> loses of a batch that its task is writing is in \<open>writer_step\<close> of theory \<open>Logs\<close>.
\<close>

definition shut_down :: "'w drv \<Rightarrow> 'w srv \<Rightarrow> 'w srv" where
  "shut_down D s =
     (case sv_writer s of
        None \<Rightarrow> s
      | Some w \<Rightarrow>
          let (w', db) = flush (stamp_now D s) w (gw_db (sv_gw s))
          in s\<lparr>sv_writer := Some w', sv_gw := (sv_gw s)\<lparr>gw_db := db\<rparr>\<rparr>)"

end
