(* ===== verification/Lifecycle_Facts.thy ===== *)
theory Lifecycle_Facts
  imports Lifecycle Account_Facts
begin

text \<open>
  What survives the end of a process: cooldowns through the periodic save and the next start-up, buffered
  log rows through the shutdown; and when the maintenance runs for the first time.
\<close>

subsection \<open>Configuration rows that the start-up touches\<close>

definition cooldown_rows :: "db \<Rightarrow> (string \<times> (string \<times> int)) list" where
  "cooldown_rows db = filter (\<lambda>kv. sql_like ''cooldown:%'' (fst kv)) (config db)"

lemma load_cooldown_rows: "load_cooldown_states loads db = concat (map (\<lambda>(k, v, _). load_cooldown_row loads k v) (cooldown_rows db))"
  by (simp add: load_cooldown_states_def cooldown_rows_def split_def)

lemma filter_keys_update: "\<not> p k \<Longrightarrow> filter (\<lambda>kv. p (fst kv)) (AList.update k v d) = filter (\<lambda>kv. p (fst kv)) d"
  by (induction d) auto

lemma cooldown_rows_set [simp]: "\<not> sql_like ''cooldown:%'' k \<Longrightarrow> cooldown_rows (set_config now k v db) = cooldown_rows db"
  by (simp add: cooldown_rows_def set_config_def filter_keys_update [of "sql_like ''cooldown:%''"])

lemma cooldown_rows_delete [simp]: "\<not> sql_like ''cooldown:%'' k \<Longrightarrow> cooldown_rows (delete_config k db) = cooldown_rows db"
proof -
  assume "\<not> sql_like ''cooldown:%'' k"
  then have "filter (\<lambda>kv. sql_like ''cooldown:%'' (fst kv)) (filter (\<lambda>kv. fst kv \<noteq> k) c) =
      filter (\<lambda>kv. sql_like ''cooldown:%'' (fst kv)) c" for c :: "(string \<times> (string \<times> int)) list"
    by (induction c) auto
  then show ?thesis by (simp add: cooldown_rows_def delete_config_def)
qed

lemma not_cooldown_keys [simp]: "\<not> sql_like ''cooldown:%'' ''llm_key''" "\<not> sql_like ''cooldown:%'' setup_token_key"
  by (simp_all add: setup_token_key_def) code_simp+

lemma cooldown_rows_site:
  "cooldown_rows (sync_llm_key now k db) = cooldown_rows db"
  "cooldown_rows (snd (register_legacy_key sha k db)) = cooldown_rows db"
  "cooldown_rows (st_db (snd (ensure_setup_token sha dumps env s))) = cooldown_rows (st_db s)"
proof -
  show "cooldown_rows (sync_llm_key now k db) = cooldown_rows db" by (simp add: sync_llm_key_def)
  show "cooldown_rows (snd (register_legacy_key sha k db)) = cooldown_rows db"
    by (auto simp: register_legacy_key_def create_api_key_def cooldown_rows_def Let_def check_constraint_def
        split: sum.splits prod.splits if_splits)
  show "cooldown_rows (st_db (snd (ensure_setup_token sha dumps env s))) = cooldown_rows (st_db s)"
    by (simp add: ensure_setup_token_def clean_setup_token_def renew_setup_token_def Let_def split: sum.split prod.split)
qed

lemma start_up_cooldowns:
  "start_up sha dumps loads boot env_key env s = (Inr r, s') \<Longrightarrow> r = restore_cooldowns loads boot (se_time env) (st_db s) []"
proof -
  assume h: "start_up sha dumps loads boot env_key env s = (Inr r, s')"
  define s1 where "s1 = s\<lparr>st_db := sync_llm_key \<lfloor>se_time env\<rfloor> env_key (st_db s)\<rparr>"
  obtain r2 s2 where e: "ensure_setup_token sha dumps env s1 = (r2, s2)" by fastforce
  obtain r3 db where l: "register_legacy_key sha env_key (st_db s2) = (r3, db)" by fastforce
  have "r = restore_cooldowns loads boot (se_time env) db []"
    using h by (auto simp: start_up_def Let_def s1_def [symmetric] e l split: sum.splits)
  moreover have "cooldown_rows db = cooldown_rows (st_db s)"
    using cooldown_rows_site(2) [of sha env_key "st_db s2"] cooldown_rows_site(3) [of sha dumps env s1]
    unfolding e l snd_conv by (simp add: s1_def cooldown_rows_site(1))
  ultimately show ?thesis by (simp add: restore_cooldowns_def load_cooldown_rows)
qed

lemma start_up_rows:
  "start_up sha dumps loads boot env_key env s = (Inr r, s') \<Longrightarrow> cooldown_rows (st_db s') = cooldown_rows (st_db s)"
proof -
  assume h: "start_up sha dumps loads boot env_key env s = (Inr r, s')"
  define s1 where "s1 = s\<lparr>st_db := sync_llm_key \<lfloor>se_time env\<rfloor> env_key (st_db s)\<rparr>"
  obtain r2 s2 where e: "ensure_setup_token sha dumps env s1 = (r2, s2)" by fastforce
  obtain r3 db where l: "register_legacy_key sha env_key (st_db s2) = (r3, db)" by fastforce
  have "st_db s' = db" using h by (auto simp: start_up_def Let_def s1_def [symmetric] e l split: sum.splits)
  then show ?thesis
    using cooldown_rows_site(2) [of sha env_key "st_db s2"] cooldown_rows_site(3) [of sha dumps env s1]
    unfolding e l snd_conv by (simp add: s1_def cooldown_rows_site(1))
qed

text \<open>Decoding gives back the rows that were saved.\<close>

lemma decode_saved:
  "decode_cooldowns (map (\<lambda>s. \<lparr>lc_group_id = sc_group_id s, lc_model_id = sc_model_id s, lc_failures = JInt (sc_failures s),
     lc_until = JFloat (sc_until s)\<rparr>) ss) = Some ss"
  by (induction ss) (simp_all add: number_of_json_def)


text \<open>
  The cooldown rows of the database as the saves before left them: one row for each model that was active in
  one of them, since \<open>clear_cooldown_states\<close> is never called.
\<close>

definition saved_row :: "(json \<Rightarrow> string) \<Rightarrow> saved_cooldown \<Rightarrow> string \<times> string" where
  "saved_row dumps c = (cooldown_row_key c, dumps (cooldown_row_value c))"

definition saved_in :: "(json \<Rightarrow> string) \<Rightarrow> saved_cooldown list \<Rightarrow> db \<Rightarrow> bool" where
  "saved_in dumps cs db \<longleftrightarrow> distinct (map sc_key cs) \<and> map (\<lambda>(k, v, _). (k, v)) (cooldown_rows db) = map (saved_row dumps) cs"

definition keyed :: "saved_cooldown list \<Rightarrow> (model_key \<times> saved_cooldown) list" where
  "keyed cs = map (\<lambda>c. (sc_key c, c)) cs"

text \<open>One more saved cooldown: it takes the place of the row of its model.\<close>

fun put_cooldown :: "saved_cooldown \<Rightarrow> saved_cooldown list \<Rightarrow> saved_cooldown list" where
  "put_cooldown c [] = [c]"
| "put_cooldown c (c' # cs) = (if sc_key c' = sc_key c then c # cs else c' # put_cooldown c cs)"

lemma cooldown_row_key_eq [simp]: "cooldown_row_key c = cooldown_row_key c' \<longleftrightarrow> sc_key c = sc_key c'"
  using cooldown_row_key_inj by (auto simp: sc_key_def cooldown_row_key_def)

lemma update_saved_row: "AList.update (cooldown_row_key c) (dumps (cooldown_row_value c)) (map (saved_row dumps) cs) =
    map (saved_row dumps) (put_cooldown c cs)"
  by (induction cs) (auto simp: saved_row_def)

lemma keys_put_cooldown: "sc_key ` set (put_cooldown c cs) = insert (sc_key c) (sc_key ` set cs)"
  by (induction cs) auto

lemma distinct_put_cooldown: "distinct (map sc_key cs) \<Longrightarrow> distinct (map sc_key (put_cooldown c cs))"
  by (induction cs) (auto simp: keys_put_cooldown)

lemma keyed_put_cooldown: "map_of (keyed (put_cooldown c cs)) = (map_of (keyed cs))(sc_key c \<mapsto> c)"
  by (induction cs) (auto simp: keyed_def)

lemma put_cooldown_set: "set (put_cooldown c cs) \<subseteq> insert c (set cs)"
  by (induction cs) auto

lemma filter_update_key: "p k \<Longrightarrow> filter (\<lambda>kv. p (fst kv)) (AList.update k v d) = AList.update k v (filter (\<lambda>kv. p (fst kv)) d)"
  by (induction d) auto

lemma map_update_value: "map (\<lambda>(k, v, _). (k, v)) (AList.update k (v, t) d) = AList.update k v (map (\<lambda>(k, v, _). (k, v)) d)"
  by (induction d) auto

lemma saved_in_set_config:
  "saved_in dumps cs db \<Longrightarrow> saved_in dumps (put_cooldown c cs) (set_config now (cooldown_row_key c) (dumps (cooldown_row_value c)) db)"
  by (simp add: saved_in_def cooldown_rows_def set_config_def filter_update_key [of "sql_like ''cooldown:%''"] cooldown_row_like
      map_update_value update_saved_row distinct_put_cooldown)

lemma saved_in_save:
  "saved_in dumps cs db \<Longrightarrow>
   \<exists>cs'. saved_in dumps cs' (save_cooldown_state dumps now active db) \<and> set cs' \<subseteq> set cs \<union> set active \<and>
     map_of (keyed cs') = map_of (keyed cs) ++ map_of (rev (keyed active))"
proof (induction active arbitrary: cs db)
  case Nil
  then show ?case by (auto simp: save_cooldown_state_def keyed_def)
next
  case (Cons c active)
  have "save_cooldown_state dumps now (c # active) db =
      save_cooldown_state dumps now active (set_config now (cooldown_row_key c) (dumps (cooldown_row_value c)) db)"
    by (simp add: save_cooldown_state_def)
  moreover have "map_of (rev (keyed (c # active))) = [sc_key c \<mapsto> c] ++ map_of (rev (keyed active))"
    by (simp add: keyed_def)
  ultimately show ?case
    using Cons.IH [OF saved_in_set_config [OF Cons.prems, of c now]] put_cooldown_set [of c cs]
    by (fastforce simp: keyed_put_cooldown)
qed

lemma load_saved:
  assumes "saved_in dumps cs db"
    "list_all (\<lambda>c. loads (dumps (cooldown_row_value c)) = Some (cooldown_row_value c) \<and> row_ids c) cs"
  shows "decode_cooldowns (load_cooldown_states loads db) = Some cs"
proof -
  have "load_cooldown_states loads db = concat (map (\<lambda>(k, v). load_cooldown_row loads k v) (map (saved_row dumps) cs))"
    using assms(1) unfolding saved_in_def load_cooldown_rows by (auto simp: split_def comp_def dest!: arg_cong [of _ _ "map (\<lambda>(k, v). load_cooldown_row loads k v)"])
  also have "\<dots> = map (\<lambda>c. \<lparr>lc_group_id = sc_group_id c, lc_model_id = sc_model_id c, lc_failures = JInt (sc_failures c),
      lc_until = JFloat (sc_until c)\<rparr>) cs"
    using assms(2) by (induction cs) (auto simp: saved_row_def load_written_row)
  finally show ?thesis by (simp add: decode_saved)
qed

lemma find_keyed:
  "distinct (map sc_key cs) \<Longrightarrow>
   find (\<lambda>c. sc_key c = key \<and> p c) cs = (case map_of (keyed cs) key of None \<Rightarrow> None | Some c \<Rightarrow> if p c then Some c else None)"
proof (induction cs)
  case (Cons c cs)
  moreover have "map_of (keyed cs) (sc_key c) = None"
    using Cons.prems by (auto simp: keyed_def map_of_eq_None_iff comp_def)
  ultimately show ?case by (auto simp: keyed_def)
qed (simp add: keyed_def)

text \<open>A restored manager blocks a model until the wall clock shows the time of its row.\<close>

lemma restored_blocks:
  assumes "distinct (map sc_key cs)" "0 \<le> d" "0 < boot"
  shows "fst (is_on_cooldown (boot + d) (restore_all boot wall cs []) key) \<longleftrightarrow>
    (\<exists>c. map_of (keyed cs) key = Some c \<and> wall + d < sc_until c)"
  using assms(2,3)
  by (auto simp: fst_is_on_cooldown blocked_def map_of_restore_all [OF assms(1)] find_keyed [OF assms(1)] split: option.splits)

lemma map_of_rev_keys: "distinct (map fst xs) \<Longrightarrow> map_of (rev xs) = map_of xs"
proof (induction xs)
  case (Cons x xs)
  then have "map_of xs (fst x) = None" by (auto simp: map_of_eq_None_iff)
  with Cons show ?case by (cases x) (auto simp: map_add_def fun_eq_iff split: option.split)
qed simp

lemma map_of_rev_active:
  assumes "wf_mgr m"
  shows "map_of (rev (keyed (get_all_active_cooldowns tm wall m))) key =
    (case map_of m key of None \<Rightarrow> None
     | Some st \<Rightarrow> if cooldown_until st > tm then Some (saved tm wall (key, st)) else None)"
proof -
  let ?a = "get_all_active_cooldowns tm wall m"
  have "map_of (rev (keyed ?a)) = map_of (keyed ?a)"
    using distinct_saved_keys [OF assms, of tm wall] by (intro map_of_rev_keys) (simp add: keyed_def comp_def)
  moreover have "map_of (keyed ?a) key = (case map_of m key of None \<Rightarrow> None
     | Some st \<Rightarrow> if cooldown_until st > tm then Some (saved tm wall (key, st)) else None)"
    using assms unfolding get_all_active_cooldowns_saved keyed_def
    by (induction m) (auto simp: wf_mgr_def image_iff map_of_eq_None_iff split: option.splits)
  ultimately show ?thesis by simp
qed

text \<open>C26: Cooldowns survive the process. Let the database hold the rows of earlier saves. A round of the
  periodic save writes the active cooldowns of a process to it; a process that starts up on it later blocks,
  after any time in the new process, each model that was on cooldown at the save exactly when the old process
  would have blocked it at that time. A model that was not on cooldown then is blocked just as long as a row
  an earlier save left for it says, even when it has recovered since, because rows are never deleted. The
  database holds rows of saves again. The setup token and the key handling of the start-up do not disturb
  the rows.\<close>

theorem cooldowns_survive_process:
  assumes "wf_mgr (gw_cooldown g)" "saved_in dumps earlier (gw_db g)"
    "active = get_all_active_cooldowns (mono_now env g) (wall_now env g) (gw_cooldown g)"
    "list_all (\<lambda>c. loads (dumps (cooldown_row_value c)) = Some (cooldown_row_value c) \<and> row_ids c) (earlier @ active)"
    "st_db s = gw_db (periodic_cooldown_save env dumps g)"
    "start_up sha tdumps loads boot env_key senv s = (Inr r, s')"
    "0 \<le> d" "0 < mono_now env g" "0 < boot"
  shows "(\<exists>m. r = Some m \<and> (\<forall>gid mid. fst (is_on_cooldown (boot + d) m (gid, mid)) \<longleftrightarrow>
      (if fst (is_on_cooldown (mono_now env g) (gw_cooldown g) (gid, mid))
       then fst (is_on_cooldown (mono_now env g + (se_time senv + d - wall_now env g)) (gw_cooldown g) (gid, mid))
       else \<exists>c \<in> set earlier. sc_group_id c = gid \<and> sc_model_id c = mid \<and> se_time senv + d < sc_until c))) \<and>
    (\<exists>cs. saved_in dumps cs (st_db s') \<and> set cs \<subseteq> set earlier \<union> set active)"
proof -
  have db: "st_db s = save_cooldown_state dumps \<lfloor>wall_now env g\<rfloor> active (gw_db g)"
    using assms(3,5) by (simp add: periodic_cooldown_save_def Let_def save_cooldown_state_def)
  from saved_in_save [OF assms(2), of "\<lfloor>wall_now env g\<rfloor>" active] obtain cs where
    cs: "saved_in dumps cs (st_db s)" "set cs \<subseteq> set earlier \<union> set active"
      "map_of (keyed cs) = map_of (keyed earlier) ++ map_of (rev (keyed active))" unfolding db by blast
  have "list_all (\<lambda>c. loads (dumps (cooldown_row_value c)) = Some (cooldown_row_value c) \<and> row_ids c) cs"
    using assms(4) cs(2) by (auto simp: list_all_iff)
  then have r: "r = Some (restore_all boot (se_time senv) cs [])"
    using start_up_cooldowns [OF assms(6)] load_saved [OF cs(1)] by (simp add: restore_cooldowns_def)
  have distinct: "distinct (map sc_key cs)" "distinct (map sc_key earlier)"
    using cs(1) assms(2) by (simp_all add: saved_in_def)
  have row: "map_of (keyed earlier) (gid, mid) = Some c \<longleftrightarrow> c \<in> set earlier \<and> sc_group_id c = gid \<and> sc_model_id c = mid"
    for gid mid c
  proof -
    have "distinct (map fst (keyed earlier))" using distinct(2) by (simp add: keyed_def comp_def)
    then have "map_of (keyed earlier) (gid, mid) = Some c \<longleftrightarrow> ((gid, mid), c) \<in> set (keyed earlier)" by (rule map_of_eq_Some_iff)
    then show ?thesis by (auto simp: keyed_def sc_key_def)
  qed
  have "fst (is_on_cooldown (boot + d) (restore_all boot (se_time senv) cs []) (gid, mid)) \<longleftrightarrow>
      (if fst (is_on_cooldown (mono_now env g) (gw_cooldown g) (gid, mid))
       then fst (is_on_cooldown (mono_now env g + (se_time senv + d - wall_now env g)) (gw_cooldown g) (gid, mid))
       else \<exists>c \<in> set earlier. sc_group_id c = gid \<and> sc_model_id c = mid \<and> se_time senv + d < sc_until c)" for gid mid
  proof (cases "fst (is_on_cooldown (mono_now env g) (gw_cooldown g) (gid, mid))")
    case True
    then obtain st where st: "map_of (gw_cooldown g) (gid, mid) = Some st" "mono_now env g < cooldown_until st"
      by (auto simp: fst_is_on_cooldown blocked_def split: option.splits)
    have "map_of (keyed cs) (gid, mid) = Some (saved (mono_now env g) (wall_now env g) ((gid, mid), st))"
      by (simp add: cs(3) map_add_def assms(3) map_of_rev_active [OF assms(1)] st)
    then show ?thesis
      using True assms(8) unfolding restored_blocks [OF distinct(1) assms(7,9)]
      by (auto simp: fst_is_on_cooldown blocked_def st saved_def)
  next
    case False
    then have "map_of (rev (keyed active)) (gid, mid) = None"
      using assms(8) by (auto simp: assms(3) map_of_rev_active [OF assms(1)] fst_is_on_cooldown blocked_def split: option.splits)
    then have "map_of (keyed cs) (gid, mid) = map_of (keyed earlier) (gid, mid)" by (simp add: cs(3) map_add_def)
    then show ?thesis
      using False row unfolding restored_blocks [OF distinct(1) assms(7,9)] by auto
  qed
  moreover have "saved_in dumps cs (st_db s')"
    using cs(1) start_up_rows [OF assms(6)] by (simp add: saved_in_def)
  ultimately show ?thesis using r cs(2) by blast
qed

definition old_process :: "int gw" where
  "old_process = (empty_gw 0)\<lparr>gw_cooldown := fail_at 1 7 3 60 [10, 20, 30] []\<rparr>"

definition clock_env :: "int env" where
  "clock_env = flaky_env\<lparr>e_wall := \<lambda>_. 1000, e_mono := \<lambda>_. 40\<rparr>"

definition row_loads :: "string \<Rightarrow> json option" where
  "row_loads text = (if text = ''c'' then Some (cooldown_row_value \<lparr>sc_group_id = 1, sc_model_id = 7, sc_failures = 3, sc_until = 1050\<rparr>) else None)"

definition new_start :: start_env where
  "new_start = \<lparr>se_random = '''', se_time = 1030, se_read_fails = False, se_unlink_fails = False, se_write = OpenFails, se_kv_fails = False\<rparr>"

definition old_site :: site where
  "old_site = \<lparr>st_db = gw_db (periodic_cooldown_save clock_env (\<lambda>_. ''c'') old_process), st_file = None\<rparr>"

lemma old_active:
  "get_all_active_cooldowns (mono_now clock_env old_process) (wall_now clock_env old_process) (gw_cooldown old_process) =
     [\<lparr>sc_group_id = 1, sc_model_id = 7, sc_failures = 3, sc_until = 1050\<rparr>]"
  by (simp add: get_all_active_cooldowns_def clock_env_def old_process_def record_failure_def Let_def fresh_state_def)

lemma old_site_db:
  "account_configured (st_db old_site) = False" "get_config setup_token_key (st_db old_site) = None"
  "stored_llm_key (st_db old_site) = ''''"
proof -
  have "get_config k (st_db old_site) = (if k = ''cooldown:1:7'' then Some ''c'' else None)" for k
    unfolding old_site_def periodic_cooldown_save_def Let_def old_active
    by (simp add: save_cooldown_state_def cooldown_row_key_def old_process_def empty_gw_def empty_db_def get_config_def set_config_def
        str_int_def nat_digits.simps char_of_def bit_0)
  then show "account_configured (st_db old_site) = False" "get_config setup_token_key (st_db old_site) = None"
    "stored_llm_key (st_db old_site) = ''''"
    by (simp_all add: account_configured_def setup_token_key_def stored_llm_key_def)
qed

theorem cooldowns_survive_process_witness:
  "\<exists>m. fst (start_up (\<lambda>s. s) (\<lambda>_. ''t'') row_loads 5 '''' new_start old_site) = Inr (Some m) \<and>
     fst (is_on_cooldown (5 + 10) m (1, 7))"
proof -
  have wf: "wf_mgr (gw_cooldown old_process)" by (simp add: old_process_def)
  have none: "saved_in (\<lambda>_. ''c'') [] (gw_db old_process)"
    by (simp add: saved_in_def old_process_def empty_gw_def cooldown_rows_def empty_db_def)
  have json: "list_all (\<lambda>c. row_loads ((\<lambda>_. ''c'') (cooldown_row_value c)) = Some (cooldown_row_value c) \<and> row_ids c)
      ([] @ [\<lparr>sc_group_id = 1, sc_model_id = 7, sc_failures = 3, sc_until = 1050\<rparr>])"
    by (simp add: row_loads_def row_ids_def)
  obtain r s' where up: "start_up (\<lambda>s. s) (\<lambda>_. ''t'') row_loads 5 '''' new_start old_site = (Inr r, s')"
    by (cases "start_up (\<lambda>s. s) (\<lambda>_. ''t'') row_loads 5 '''' new_start old_site")
      (auto simp: start_up_def Let_def sync_llm_key_def ensure_setup_token_def old_site_db renew_setup_token_def new_start_def
        register_legacy_key_def split: sum.splits if_splits)
  have "fst (is_on_cooldown (40 + (1030 + 10 - 1000)) (gw_cooldown old_process) (1, 7))"
    by (simp add: fst_is_on_cooldown blocked_def old_process_def record_failure_def Let_def fresh_state_def)
  then have blocked: "fst (is_on_cooldown 40 (gw_cooldown old_process) (1, 7))" "fst (is_on_cooldown 80 (gw_cooldown old_process) (1, 7))"
    by (simp_all add: fst_is_on_cooldown blocked_def old_process_def record_failure_def Let_def fresh_state_def)
  have clocks: "mono_now clock_env old_process = 40" "wall_now clock_env old_process = 1000" "se_time new_start = 1030"
    by (simp_all add: clock_env_def new_start_def)
  have db: "st_db old_site = gw_db (periodic_cooldown_save clock_env (\<lambda>_. ''c'') old_process)" by (simp add: old_site_def)
  obtain m where m: "r = Some m" "fst (is_on_cooldown (5 + 10) m (1, 7)) \<longleftrightarrow> True"
    using cooldowns_survive_process [OF wf none old_active [symmetric] json db up, of 10] blocked by (auto simp: clocks)
  then show ?thesis by (auto simp: up)
qed

subsection \<open>The other tasks\<close>

text \<open>The first maintenance runs within a day, at the full hour that is set.\<close>

lemma seconds_until_hour:
  assumes "0 \<le> h" "h \<le> 23"
  shows "0 < seconds_until h now" "seconds_until h now \<le> 86400" "(now + seconds_until h now) mod 86400 = h * 3600"
proof -
  define s where "s = now mod 86400"
  have s: "0 \<le> s" "s < 86400" by (simp_all add: s_def)
  have parts: "s div 60 * 60 + s mod 60 = s" "s div 3600 * 60 + s div 60 mod 60 = s div 60"
    using div_mult_mod_eq [of "s div 60" 60] zdiv_zmult2_eq [of 60 s 60] by simp_all
  have "s = hh * 3600 + mm * 60 + x" if "q * 60 + x = s" "hh * 60 + mm = q" for q x hh mm using that by linarith
  from this [OF parts] have "s = s div 3600 * 3600 + s div 60 mod 60 * 60 + s mod 60" .
  then have d: "seconds_until h now = (if h * 3600 - s \<le> 0 then h * 3600 - s + 86400 else h * 3600 - s)"
    by (simp add: seconds_until_def s_def [symmetric] Let_def algebra_simps)
  show "0 < seconds_until h now" "seconds_until h now \<le> 86400" using assms s by (simp_all add: d)
  have "now + (h * 3600 - s) = h * 3600 + now div 86400 * 86400"
    "now + (h * 3600 - s + 86400) = h * 3600 + (now div 86400 + 1) * 86400"
    using div_mult_mod_eq [of now 86400] unfolding s_def [symmetric] by (linarith, simp add: algebra_simps)
  then have "(now + (h * 3600 - s)) mod 86400 = h * 3600" "(now + (h * 3600 - s + 86400)) mod 86400 = h * 3600"
    using assms by (simp_all only: mod_mult_self1) simp_all
  then show "(now + seconds_until h now) mod 86400 = h * 3600" by (simp add: d)
qed

text \<open>The shutdown writes every buffered row that can be stored.\<close>

lemma shut_down_stores:
  assumes "sv_writer s = Some w" "list_all storable (lw_buffer w)"
  shows "stored_logs (gw_db (sv_gw (shut_down D s))) = stored_logs (gw_db (sv_gw s)) @ map unstamped (lw_buffer w)"
  using assms by (auto simp: shut_down_def flush_def Let_def create_call_attempts_stored write_logs_stored)

text \<open>A key in the environment opens a fresh installation.\<close>

lemma environment_key_opens:
  assumes "api_keys db = empty_table" "stored_llm_key db = ''''" "key \<noteq> ''''"
  shows "\<exists>k. resolve_api_key sha key (snd (register_legacy_key sha key (sync_llm_key now key db))) = Inr (Some k)"
proof -
  have "stored_llm_key (set_config now ''llm_key'' key db) = key" by (simp add: stored_llm_key_def)
  moreover have "api_keys (set_config now ''llm_key'' key db) = empty_table" by (simp add: set_config_def assms(1))
  ultimately show ?thesis
    by (simp add: sync_llm_key_def assms(2,3) register_legacy_key_def list_api_keys_def create_api_key_def insert_row_def
        empty_table_def check_constraint_def unique_on_def resolve_api_key_def Let_def)
qed

end
