(* ===== verification/Schema.thy ===== *)
theory Schema
  imports Exceptions
begin

text \<open>
  The schema of the database file and its set-up at every start, \<open>CREATE_TABLES_SQL\<close>,
  \<open>CREATE_INDEXES_SQL\<close>, \<open>ALTER_CALL_LOGS_COLUMNS\<close> and \<open>Database.initialize\<close> of
  \<open>src/botflow/storage/db.py\<close>.

  A file is the list of its tables and of its indexes. A table has its column declarations, its
  table-level \<open>UNIQUE\<close> constraints and its rows, each a list of named cells. The statements are those the
  code uses: \<open>CREATE TABLE IF NOT EXISTS\<close>, \<open>CREATE INDEX IF NOT EXISTS\<close>, \<open>SELECT <column> FROM <table> LIMIT 1\<close>
  as the probe for a column, and \<open>ALTER TABLE ADD COLUMN\<close>; what they reject is an \<open>OperationalError\<close>.
  Theory \<open>Store\<close> works on the tables once they have this form.
\<close>

subsection \<open>Declarations\<close>

datatype default_value = NoDefault | DefaultText string | DefaultInt int | DefaultReal real | DefaultNow

datatype mark = PrimaryKey | Autoincrement | NotNull | UniqueColumn | CascadeTo string string

record column =
  cl_name :: string
  cl_type :: string
  cl_marks :: "mark list"
  cl_default :: default_value

definition col :: "string \<Rightarrow> string \<Rightarrow> mark list \<Rightarrow> default_value \<Rightarrow> column" where
  "col n t ms d = \<lparr>cl_name = n, cl_type = t, cl_marks = ms, cl_default = d\<rparr>"

definition id_column :: column where
  "id_column = col ''id'' ''INTEGER'' [PrimaryKey, Autoincrement] NoDefault"

definition text_column :: "string \<Rightarrow> string \<Rightarrow> column" where
  "text_column n d = col n ''TEXT'' [NotNull] (DefaultText d)"

definition int_column :: "string \<Rightarrow> int \<Rightarrow> column" where
  "int_column n d = col n ''INTEGER'' [NotNull] (DefaultInt d)"

definition stamp_column :: "string \<Rightarrow> column" where
  "stamp_column n = col n ''TEXT'' [NotNull] DefaultNow"

definition plain_column :: "string \<Rightarrow> string \<Rightarrow> column" where
  "plain_column n t = col n t [] NoDefault"

record table_decl =
  td_name :: string
  td_columns :: "column list"
  td_unique :: "string list list"

definition providers_table :: table_decl where
  "providers_table = \<lparr>td_name = ''providers'', td_columns =
     [id_column, col ''name'' ''TEXT'' [NotNull, UniqueColumn] NoDefault, col ''provider_type'' ''TEXT'' [NotNull] NoDefault,
      text_column ''api_key'' '''', text_column ''base_url'' '''', text_column ''extra_config'' ''{}'',
      int_column ''is_enabled'' 1, stamp_column ''created_at'', stamp_column ''updated_at''], td_unique = []\<rparr>"

definition models_table :: table_decl where
  "models_table = \<lparr>td_name = ''models'', td_columns =
     [id_column, col ''name'' ''TEXT'' [NotNull] NoDefault,
      col ''provider_id'' ''INTEGER'' [NotNull, CascadeTo ''providers'' ''id''] NoDefault,
      text_column ''display_name'' '''', text_column ''api_format'' '''', int_column ''max_retries'' 3,
      int_column ''cooldown_seconds'' 60, int_column ''cooldown_failure_threshold'' 3, text_column ''extra_config'' ''{}'',
      int_column ''is_enabled'' 1, int_column ''context_window'' 0, stamp_column ''created_at'', stamp_column ''updated_at''],
     td_unique = [[''name'', ''provider_id'']]\<rparr>"

definition model_groups_table :: table_decl where
  "model_groups_table = \<lparr>td_name = ''model_groups'', td_columns =
     [id_column, col ''name'' ''TEXT'' [NotNull, UniqueColumn] NoDefault, text_column ''description'' '''',
      text_column ''type'' ''random_weights'', text_column ''params'' ''{}'', int_column ''is_enabled'' 1,
      plain_column ''fallback_group_id'' ''INTEGER'', stamp_column ''created_at'', stamp_column ''updated_at''], td_unique = []\<rparr>"

definition group_models_table :: table_decl where
  "group_models_table = \<lparr>td_name = ''group_models'', td_columns =
     [id_column, col ''group_id'' ''INTEGER'' [NotNull, CascadeTo ''model_groups'' ''id''] NoDefault,
      col ''model_id'' ''INTEGER'' [NotNull, CascadeTo ''models'' ''id''] NoDefault,
      col ''weight'' ''REAL'' [NotNull] (DefaultReal 1), int_column ''is_enabled'' 1, stamp_column ''created_at''],
     td_unique = [[''group_id'', ''model_id'']]\<rparr>"

definition call_logs_table :: table_decl where
  "call_logs_table = \<lparr>td_name = ''call_logs'', td_columns =
     id_column # map (\<lambda>n. plain_column n ''INTEGER'') [''group_id'', ''model_id'', ''provider_id''] @
     map (\<lambda>n. plain_column n ''TEXT'') [''request_body'', ''response_body''] @
     [text_column ''status'' '''', plain_column ''duration_ms'' ''INTEGER''] @
     map (\<lambda>n. col n ''INTEGER'' [] (DefaultInt 0)) [''prompt_tokens'', ''completion_tokens'', ''cache_tokens'', ''total_tokens''] @
     [plain_column ''tool_calls'' ''TEXT'', col ''cost'' ''REAL'' [] (DefaultReal 0), plain_column ''error_message'' ''TEXT'',
      plain_column ''api_key_id'' ''INTEGER''] @
     map (\<lambda>n. plain_column n ''TEXT'') [''error_type'', ''traceback'', ''request_id''] @ [stamp_column ''created_at''], td_unique = []\<rparr>"

definition config_table :: table_decl where
  "config_table = \<lparr>td_name = ''config'', td_columns =
     [col ''key'' ''TEXT'' [PrimaryKey] NoDefault, col ''value'' ''TEXT'' [NotNull] NoDefault, stamp_column ''updated_at''], td_unique = []\<rparr>"

definition api_keys_table :: table_decl where
  "api_keys_table = \<lparr>td_name = ''api_keys'', td_columns =
     [id_column, col ''key_hash'' ''TEXT'' [UniqueColumn, NotNull] NoDefault, text_column ''label'' '''',
      int_column ''is_enabled'' 1, stamp_column ''created_at''], td_unique = []\<rparr>"

definition daily_summaries_table :: table_decl where
  "daily_summaries_table = \<lparr>td_name = ''daily_summaries'', td_columns =
     [id_column, col ''day'' ''TEXT'' [UniqueColumn, NotNull] NoDefault, text_column ''summary_md'' '''',
      text_column ''stats_json'' ''{}'', stamp_column ''created_at''], td_unique = []\<rparr>"

definition raw_sessions_table :: table_decl where
  "raw_sessions_table = \<lparr>td_name = ''raw_sessions'', td_columns =
     [id_column, col ''day'' ''TEXT'' [UniqueColumn, NotNull] NoDefault, col ''blob'' ''BLOB'' [NotNull] NoDefault,
      stamp_column ''created_at''], td_unique = []\<rparr>"

definition call_attempts_table :: table_decl where
  "call_attempts_table = \<lparr>td_name = ''call_attempts'', td_columns =
     [id_column, plain_column ''request_id'' ''TEXT''] @
     map (\<lambda>n. plain_column n ''INTEGER'') [''group_id'', ''model_id'', ''provider_id''] @
     [col ''stage'' ''TEXT'' [NotNull] NoDefault] @
     map (\<lambda>n. plain_column n ''INTEGER'') [''endpoint_idx'', ''attempt_no''] @
     map (\<lambda>n. plain_column n ''TEXT'') [''error_type'', ''error_message''] @
     [plain_column ''duration_ms'' ''INTEGER'', stamp_column ''created_at''], td_unique = []\<rparr>"

definition create_tables :: "table_decl list" where
  "create_tables = [providers_table, models_table, model_groups_table, group_models_table, call_logs_table, config_table,
     api_keys_table, daily_summaries_table, raw_sessions_table]"

text \<open>The second script: an index is a name, a table and a column; the last table stands between them.\<close>

definition first_indexes :: "(string \<times> string \<times> string) list" where
  "first_indexes =
     [(''idx_call_logs_created_at'', ''call_logs'', ''created_at''), (''idx_call_logs_model_id'', ''call_logs'', ''model_id''),
      (''idx_call_logs_group_id'', ''call_logs'', ''group_id''), (''idx_call_logs_api_key_id'', ''call_logs'', ''api_key_id''),
      (''idx_call_logs_status'', ''call_logs'', ''status''), (''idx_group_models_group_id'', ''group_models'', ''group_id''),
      (''idx_group_models_model_id'', ''group_models'', ''model_id''), (''idx_models_provider_id'', ''models'', ''provider_id''),
      (''idx_api_keys_key_hash'', ''api_keys'', ''key_hash''), (''idx_daily_summaries_day'', ''daily_summaries'', ''day''),
      (''idx_raw_sessions_day'', ''raw_sessions'', ''day'')]"

definition last_index :: "string \<times> string \<times> string" where
  "last_index = (''idx_call_attempts_request'', ''call_attempts'', ''request_id'')"

definition alter_call_logs_columns :: "column list" where
  "alter_call_logs_columns =
     [plain_column ''api_key_id'' ''INTEGER'', plain_column ''error_type'' ''TEXT'', plain_column ''traceback'' ''TEXT'',
      plain_column ''request_id'' ''TEXT'']"

subsection \<open>The file and its statements\<close>

record stored_table =
  tb_columns :: "column list"
  tb_unique :: "string list list"
  tb_rows :: "dict list"

record db_file =
  df_tables :: "(string \<times> stored_table) list"
  df_indexes :: "(string \<times> string \<times> string) list"

definition operational_error :: exc where
  "operational_error = raised_by_python (OtherException ''OperationalError'')"

definition column_names :: "stored_table \<Rightarrow> string set" where
  "column_names t = cl_name ` set (tb_columns t)"

definition has_column :: "string \<Rightarrow> string \<Rightarrow> db_file \<Rightarrow> bool" where
  "has_column n c f = (case map_of (df_tables f) n of None \<Rightarrow> False | Some t \<Rightarrow> c \<in> column_names t)"

definition create_table :: "table_decl \<Rightarrow> db_file \<Rightarrow> db_file" where
  "create_table d f =
     (if map_of (df_tables f) (td_name d) \<noteq> None then f
      else f\<lparr>df_tables := df_tables f @ [(td_name d, \<lparr>tb_columns = td_columns d, tb_unique = td_unique d, tb_rows = []\<rparr>)]\<rparr>)"

definition create_index :: "string \<times> string \<times> string \<Rightarrow> db_file \<Rightarrow> unit res \<times> db_file" where
  "create_index i f =
     (if fst i \<in> fst ` set (df_indexes f) then (Inr (), f)
      else if has_column (fst (snd i)) (snd (snd i)) f then (Inr (), f\<lparr>df_indexes := df_indexes f @ [i]\<rparr>)
      else (Inl operational_error, f))"

text \<open>The cell an old row gets in a new column.\<close>

fun default_cell :: "default_value \<Rightarrow> json" where
  "default_cell NoDefault = JNull"
| "default_cell (DefaultText s) = JStr s"
| "default_cell (DefaultInt i) = JInt i"
| "default_cell (DefaultReal x) = JFloat x"
| "default_cell DefaultNow = JNull"

text \<open>\<open>ADD COLUMN\<close> refuses a name that is there, a default that is no constant, and \<open>NOT NULL\<close> without a default.\<close>

definition addable :: "column \<Rightarrow> bool" where
  "addable c \<longleftrightarrow> cl_default c \<noteq> DefaultNow \<and> (NotNull \<in> set (cl_marks c) \<longrightarrow> cl_default c \<noteq> NoDefault)"

definition extend_table :: "column list \<Rightarrow> stored_table \<Rightarrow> stored_table" where
  "extend_table cs t = t\<lparr>tb_columns := tb_columns t @ cs,
     tb_rows := map (\<lambda>r. r @ map (\<lambda>c. (cl_name c, default_cell (cl_default c))) cs) (tb_rows t)\<rparr>"

definition alter_add_column :: "string \<Rightarrow> column \<Rightarrow> db_file \<Rightarrow> unit res \<times> db_file" where
  "alter_add_column n c f =
     (case map_of (df_tables f) n of
        None \<Rightarrow> (Inl operational_error, f)
      | Some t \<Rightarrow>
          if cl_name c \<in> column_names t \<or> \<not> addable c then (Inl operational_error, f)
          else (Inr (), f\<lparr>df_tables := map (\<lambda>nt. if fst nt = n then (n, extend_table [c] (snd nt)) else nt) (df_tables f)\<rparr>))"

subsection \<open>Initialisation\<close>

text \<open>Statements one after the other; the first error ends them, what was done before stays.\<close>

fun run_script :: "(db_file \<Rightarrow> unit res \<times> db_file) list \<Rightarrow> db_file \<Rightarrow> unit res \<times> db_file" where
  "run_script [] f = (Inr (), f)"
| "run_script (s # ss) f = (case s f of (Inl e, f') \<Rightarrow> (Inl e, f') | (Inr _, f') \<Rightarrow> run_script ss f')"

text \<open>The columns are added when the first of them cannot be selected.\<close>

definition migrate :: "string \<Rightarrow> column list \<Rightarrow> db_file \<Rightarrow> unit res \<times> db_file" where
  "migrate n cs f = (if has_column n (cl_name (hd cs)) f then (Inr (), f) else run_script (map (alter_add_column n) cs) f)"

definition create_tables_script :: "(db_file \<Rightarrow> unit res \<times> db_file) list" where
  "create_tables_script = map (\<lambda>d f. (Inr (), create_table d f)) create_tables"

definition migrations :: "(string \<times> column list) list" where
  "migrations =
     [(''models'', [int_column ''context_window'' 0]), (''models'', [text_column ''api_format'' ''''])] @
     map (\<lambda>c. (''call_logs'', [c])) alter_call_logs_columns @
     [(''model_groups'', [text_column ''type'' ''random_weights'', text_column ''params'' ''{}''])]"

definition create_indexes_script :: "(db_file \<Rightarrow> unit res \<times> db_file) list" where
  "create_indexes_script =
     map create_index first_indexes @ [\<lambda>f. (Inr (), create_table call_attempts_table f), create_index last_index]"

definition initialize :: "db_file \<Rightarrow> unit res \<times> db_file" where
  "initialize = run_script (create_tables_script @ map (\<lambda>(n, cs). migrate n cs) migrations @ create_indexes_script)"

end
