(* ===== verification/Schema_Facts.thy ===== *)
theory Schema_Facts
  imports Schema
begin

text \<open>
  What opening a database file does to it: every file an older version wrote gets all tables, columns and
  indexes of the present schema, keeps its rows, and is left alone the next time.
\<close>

subsection \<open>Files only grow\<close>

definition grows :: "db_file \<Rightarrow> db_file \<Rightarrow> bool" where
  "grows f g \<longleftrightarrow> (\<forall>n t. map_of (df_tables f) n = Some t \<longrightarrow> (\<exists>cs. map_of (df_tables g) n = Some (extend_table cs t))) \<and>
     (\<forall>n t. map_of (df_tables f) n = None \<and> map_of (df_tables g) n = Some t \<longrightarrow> tb_rows t = [])"

lemma extend_table_nil [simp]: "extend_table [] t = t"
  by (simp add: extend_table_def)

lemma extend_table_twice [simp]: "extend_table ds (extend_table cs t) = extend_table (cs @ ds) t"
  by (simp add: extend_table_def)

lemma column_names_extend [simp]: "column_names (extend_table cs t) = column_names t \<union> cl_name ` set cs"
  by (auto simp: column_names_def extend_table_def)

lemma rows_extend_empty [simp]: "tb_rows (extend_table cs t) = [] \<longleftrightarrow> tb_rows t = []"
  by (simp add: extend_table_def)

lemma growsI:
  assumes "\<And>n t. map_of (df_tables f) n = Some t \<Longrightarrow> \<exists>cs. map_of (df_tables g) n = Some (extend_table cs t)"
    and "\<And>n t. map_of (df_tables f) n = None \<Longrightarrow> map_of (df_tables g) n = Some t \<Longrightarrow> tb_rows t = []"
  shows "grows f g"
  using assms by (auto simp: grows_def)

lemma growsD:
  assumes "grows f g" "map_of (df_tables f) n = Some t"
  obtains cs where "map_of (df_tables g) n = Some (extend_table cs t)"
  using assms unfolding grows_def by blast

lemma grows_same: "df_tables g = df_tables f \<Longrightarrow> grows f g"
  by (rule growsI) (auto intro: exI [of _ "[]"])

lemma grows_refl [simp]: "grows f f"
  by (rule grows_same) simp

lemma grows_trans: assumes "grows f g" "grows g h" shows "grows f h"
proof (rule growsI)
  fix n t assume "map_of (df_tables f) n = Some t"
  from growsD [OF assms(1) this] obtain cs where "map_of (df_tables g) n = Some (extend_table cs t)" .
  from growsD [OF assms(2) this] obtain ds where "map_of (df_tables h) n = Some (extend_table ds (extend_table cs t))" .
  then show "\<exists>cs. map_of (df_tables h) n = Some (extend_table cs t)" by auto
next
  fix n t assume f: "map_of (df_tables f) n = None" and h: "map_of (df_tables h) n = Some t"
  show "tb_rows t = []"
  proof (cases "map_of (df_tables g) n")
    case None
    then show ?thesis using h assms(2) by (auto simp: grows_def)
  next
    case (Some u)
    then have "tb_rows u = []" using f assms(1) by (auto simp: grows_def)
    moreover obtain cs where "t = extend_table cs u" using growsD [OF assms(2) Some] h by auto
    ultimately show ?thesis by simp
  qed
qed

lemma has_columnI: "map_of (df_tables f) n = Some t \<Longrightarrow> c \<in> column_names t \<Longrightarrow> has_column n c f"
  by (simp add: has_column_def)

lemma grows_has_column: "grows f g \<Longrightarrow> has_column n c f \<Longrightarrow> has_column n c g"
  by (cases "map_of (df_tables f) n") (auto simp: has_column_def elim!: growsD)

lemma map_of_alter:
  "map_of (map (\<lambda>nt. if fst nt = n then (n, F (snd nt)) else nt) xs) k = (if k = n then map_option F (map_of xs n) else map_of xs k)"
  by (induction xs) auto

definition new_table :: "table_decl \<Rightarrow> stored_table" where
  "new_table d = \<lparr>tb_columns = td_columns d, tb_unique = td_unique d, tb_rows = []\<rparr>"

lemma map_of_create_table:
  "map_of (df_tables (create_table d f)) n =
     (if map_of (df_tables f) n = None \<and> n = td_name d then Some (new_table d) else map_of (df_tables f) n)"
  by (auto simp: create_table_def new_table_def map_add_def split: option.splits)

lemma column_names_new [simp]: "column_names (new_table d) = cl_name ` set (td_columns d)"
  by (simp add: column_names_def new_table_def)

lemma has_column_create_table:
  "has_column n c (create_table d f) \<longleftrightarrow>
     (if map_of (df_tables f) n = None \<and> n = td_name d then c \<in> cl_name ` set (td_columns d) else has_column n c f)"
  by (auto simp: has_column_def map_of_create_table split: option.splits)

lemma grows_create_table: "grows f (create_table d f)"
  by (rule growsI) (auto simp: map_of_create_table new_table_def intro: exI [of _ "[]"] split: if_splits)

lemma grows_create_index: "grows f (snd (create_index i f))"
  by (rule grows_same) (simp add: create_index_def)

lemma grows_alter: "grows f (snd (alter_add_column n c f))"
  by (rule growsI) (auto simp: alter_add_column_def map_of_alter intro: exI [of _ "[]"] split: option.splits if_splits)

lemma grows_script: "(\<And>s f. s \<in> set ss \<Longrightarrow> grows f (snd (s f))) \<Longrightarrow> grows f (snd (run_script ss f))"
proof (induction ss arbitrary: f)
  case (Cons s ss)
  obtain r g where s: "s f = (r, g)" by (cases "s f")
  have "grows f g" using Cons.prems [of s f] s by simp
  moreover have "grows g (snd (run_script ss g))" by (rule Cons.IH) (simp add: Cons.prems)
  ultimately show ?case using s by (auto intro: grows_trans split: sum.splits)
qed simp

lemma names_alter: "map fst (df_tables (snd (alter_add_column n c f))) = map fst (df_tables f)"
  by (auto simp: alter_add_column_def split: option.splits)

lemma names_script:
  "(\<And>s f. s \<in> set ss \<Longrightarrow> map fst (df_tables (snd (s f))) = map fst (df_tables f)) \<Longrightarrow>
    map fst (df_tables (snd (run_script ss f))) = map fst (df_tables f)"
proof (induction ss arbitrary: f)
  case (Cons s ss)
  obtain r g where s: "s f = (r, g)" by (cases "s f")
  have "map fst (df_tables g) = map fst (df_tables f)" using Cons.prems [of s f] s by simp
  moreover have "map fst (df_tables (snd (run_script ss g))) = map fst (df_tables g)" by (rule Cons.IH) (simp add: Cons.prems)
  ultimately show ?case using s by (auto split: sum.splits)
qed simp

lemma names_migrate: "map fst (df_tables (snd (migrate n cs f))) = map fst (df_tables f)"
  by (auto simp: migrate_def names_alter intro!: names_script)

lemma grows_migrate: "grows f (snd (migrate n cs f))"
  by (auto simp: migrate_def intro!: grows_script grows_alter)

lemma run_script_append:
  "run_script (ss @ us) f = (case run_script ss f of (Inl e, g) \<Rightarrow> (Inl e, g) | (Inr _, g) \<Rightarrow> run_script us g)"
  by (induction ss arbitrary: f) (auto split: prod.splits sum.splits)

lemma run_script_id: "(\<And>s. s \<in> set ss \<Longrightarrow> s f = (Inr (), f)) \<Longrightarrow> run_script ss f = (Inr (), f)"
  by (induction ss) force+

subsection \<open>Old files\<close>

definition schema :: "table_decl list" where
  "schema = create_tables @ [call_attempts_table]"

definition migrated :: "string \<Rightarrow> string set" where
  "migrated n = (\<Union>(m, cs) \<in> set migrations. if m = n then cl_name ` set cs else {})"

text \<open>
  What an older version left: any of the tables may be missing; one that is there has the columns of the
  schema except those that the migrations bring, and the two columns of a group's strategy came together.
\<close>

definition upgradable :: "db_file \<Rightarrow> bool" where
  "upgradable f \<longleftrightarrow>
     (\<forall>d \<in> set schema. case map_of (df_tables f) (td_name d) of None \<Rightarrow> True
        | Some t \<Rightarrow> cl_name ` set (td_columns d) - migrated (td_name d) \<subseteq> column_names t) \<and>
     (has_column ''model_groups'' ''params'' f \<longleftrightarrow> has_column ''model_groups'' ''type'' f)"

lemma upgradable_iff: "upgradable f \<longleftrightarrow>
     (\<forall>d \<in> set schema. \<forall>t. map_of (df_tables f) (td_name d) = Some t \<longrightarrow>
        cl_name ` set (td_columns d) - migrated (td_name d) \<subseteq> column_names t) \<and>
     (has_column ''model_groups'' ''params'' f \<longleftrightarrow> has_column ''model_groups'' ''type'' f)"
  by (simp add: upgradable_def split: option.splits)

definition table_complete :: "db_file \<Rightarrow> table_decl \<Rightarrow> bool" where
  "table_complete f d \<longleftrightarrow> (\<forall>c \<in> set (td_columns d). has_column (td_name d) (cl_name c) f)"

definition index_names :: "string set" where
  "index_names = fst ` set (first_indexes @ [last_index])"

subsection \<open>Each part of the script\<close>

text \<open>A script whose every statement keeps an invariant and succeeds under it.\<close>

lemma run_script_ok:
  assumes "\<And>s f. s \<in> set ss \<Longrightarrow> I f \<Longrightarrow> fst (s f) = Inr () \<and> I (snd (s f))" "I f"
  obtains g where "run_script ss f = (Inr (), g)" "I g"
  using assms
proof (induction ss arbitrary: f thesis)
  case (Cons s ss)
  obtain g where s: "s f = (Inr (), g)" "I g" using Cons.prems(2) [of s f] Cons.prems(3) by (cases "s f") auto
  obtain h where "run_script ss g = (Inr (), h)" "I h" using Cons.IH [of g] Cons.prems(2) s(2) by auto
  then show ?case using Cons.prems(1) s by simp
qed simp

lemma grows_run:
  assumes "run_script ss f = (r, g)" "\<And>s f. s \<in> set ss \<Longrightarrow> grows f (snd (s f))"
  shows "grows f g"
  using grows_script [where ss = ss and f = f] assms by simp

definition has_tables :: "table_decl list \<Rightarrow> db_file \<Rightarrow> bool" where
  "has_tables ds f \<longleftrightarrow> (\<forall>d \<in> set ds. map_of (df_tables f) (td_name d) \<noteq> None)"

lemma distinct_schema: "distinct (map td_name schema)"
  by code_simp

lemma upgradable_create_table:
  assumes "upgradable f" "d \<in> set schema"
  shows "upgradable (create_table d f)"
proof -
  have same: "d' = d" if "d' \<in> set schema" "td_name d' = td_name d" for d'
    using that assms(2) distinct_schema by (metis distinct_map inj_on_def)
  have "''type'' \<in> cl_name ` set (td_columns d) \<and> ''params'' \<in> cl_name ` set (td_columns d)" if "''model_groups'' = td_name d"
  proof -
    have "model_groups_table = d"
      using that same [of model_groups_table] by (simp add: schema_def create_tables_def model_groups_table_def)
    then show ?thesis by (auto simp: model_groups_table_def text_column_def col_def)
  qed
  moreover have "cl_name ` set (td_columns e) - migrated (td_name e) \<subseteq> column_names t"
    if "e \<in> set schema" "map_of (df_tables (create_table d f)) (td_name e) = Some t" for e t
    using that assms(1) same [of e] by (auto simp: map_of_create_table upgradable_iff split: if_splits)
  ultimately show ?thesis using assms(1) unfolding upgradable_iff has_column_create_table
    by (cases "map_of (df_tables f) (td_name d)") auto
qed

lemma has_tables_grows: "grows f g \<Longrightarrow> has_tables ds f \<Longrightarrow> has_tables ds g"
  unfolding has_tables_def by (metis growsD option.distinct(1) option.exhaust)

lemma create_tables_run:
  assumes "upgradable f"
  obtains g where "run_script create_tables_script f = (Inr (), g)" "upgradable g" "has_tables create_tables g"
proof -
  have step: "run_script (map (\<lambda>d f. (Inr (), create_table d f)) ds) f = (Inr (), fold create_table ds f)" for ds f
    by (induction ds arbitrary: f) auto
  have "upgradable (fold create_table ds f)" if "set ds \<subseteq> set schema" for ds
    using that assms by (induction ds arbitrary: f) (auto intro: upgradable_create_table)
  from this [of create_tables] have "upgradable (fold create_table create_tables f)" by (simp add: schema_def subset_insertI)
  moreover have "has_tables ds (fold create_table ds f)" for ds f
  proof (induction ds rule: rev_induct)
    case (snoc d ds)
    have "has_tables ds (create_table d (fold create_table ds f))" using snoc grows_create_table has_tables_grows by blast
    then show ?case by (auto simp: has_tables_def map_of_create_table)
  qed (simp add: has_tables_def)
  ultimately show ?thesis using that step by (simp add: create_tables_script_def)
qed

lemma alter_run:
  assumes "map_of (df_tables f) n = Some t" "cl_name c \<notin> column_names t" "addable c"
  obtains g where "alter_add_column n c f = (Inr (), g)"
    "\<And>m. map_of (df_tables g) m = (if m = n then Some (extend_table [c] t) else map_of (df_tables f) m)"
  using assms by (auto simp: alter_add_column_def map_of_alter)

lemma migrate_one:
  assumes "map_of (df_tables f) n \<noteq> None" "addable c"
  obtains g where "migrate n [c] f = (Inr (), g)" "has_column n (cl_name c) g" "grows f g"
    "\<And>m. m \<noteq> n \<Longrightarrow> map_of (df_tables g) m = map_of (df_tables f) m"
proof (cases "has_column n (cl_name c) f")
  case True
  then show ?thesis by (intro that [of f]) (simp_all add: migrate_def)
next
  case False
  obtain t where t: "map_of (df_tables f) n = Some t" using assms(1) by auto
  moreover have "cl_name c \<notin> column_names t" using False t by (auto intro: has_columnI)
  ultimately obtain g where g: "alter_add_column n c f = (Inr (), g)"
    "\<And>m. map_of (df_tables g) m = (if m = n then Some (extend_table [c] t) else map_of (df_tables f) m)"
    using assms(2) by (rule alter_run) blast
  then have run: "migrate n [c] f = (Inr (), g)" using False by (simp add: migrate_def)
  show ?thesis
  proof (rule that [OF run])
    show "has_column n (cl_name c) g" using g(2) [of n] by (auto intro: has_columnI)
    show "grows f g" using grows_migrate [of f n "[c]"] run by simp
  qed (simp add: g(2))
qed

lemma migrate_each:
  assumes "\<forall>nc \<in> set ms. map_of (df_tables f) (fst nc) \<noteq> None \<and> addable (snd nc)"
  obtains g where "run_script (map (\<lambda>(n, c). migrate n [c]) ms) f = (Inr (), g)"
    "\<forall>nc \<in> set ms. has_column (fst nc) (cl_name (snd nc)) g" "grows f g"
    "\<And>m. m \<notin> fst ` set ms \<Longrightarrow> map_of (df_tables g) m = map_of (df_tables f) m"
  using assms
proof (induction ms arbitrary: f thesis)
  case Nil
  show ?case by (rule Nil(1) [of f]) simp_all
next
  case (Cons nc ms)
  obtain n c where nc: "nc = (n, c)" by (cases nc)
  have "map_of (df_tables f) n \<noteq> None" "addable c" using Cons.prems(2) nc by auto
  then obtain g where g: "migrate n [c] f = (Inr (), g)" "has_column n (cl_name c) g" "grows f g"
      "\<And>m. m \<noteq> n \<Longrightarrow> map_of (df_tables g) m = map_of (df_tables f) m" by (rule migrate_one) blast
  have "\<forall>nc \<in> set ms. map_of (df_tables g) (fst nc) \<noteq> None \<and> addable (snd nc)"
    using Cons.prems(2) growsD [OF g(3)] by (metis list.set_intros(2) option.distinct(1) option.exhaust)
  then obtain h where h: "run_script (map (\<lambda>(n, c). migrate n [c]) ms) g = (Inr (), h)"
      "\<forall>nc \<in> set ms. has_column (fst nc) (cl_name (snd nc)) h" "grows g h"
      "\<And>m. m \<notin> fst ` set ms \<Longrightarrow> map_of (df_tables h) m = map_of (df_tables g) m" using Cons.IH [of g] by blast
  show ?case
  proof (rule Cons.prems(1) [of h])
    show "run_script (map (\<lambda>(n, c). migrate n [c]) (nc # ms)) f = (Inr (), h)" using g(1) h(1) by (simp add: nc)
    show "\<forall>nc \<in> set (nc # ms). has_column (fst nc) (cl_name (snd nc)) h"
      using h(2) grows_has_column [OF h(3) g(2)] by (simp add: nc)
    show "grows f h" by (rule grows_trans [OF g(3) h(3)])
  qed (use g(4) h(4) nc in auto)
qed

text \<open>The two columns of the strategy.\<close>

lemma migrate_groups:
  assumes "map_of (df_tables f) n \<noteq> None" "addable c" "addable d" "cl_name c \<noteq> cl_name d"
    "has_column n (cl_name d) f \<longleftrightarrow> has_column n (cl_name c) f"
  obtains g where "migrate n [c, d] f = (Inr (), g)" "has_column n (cl_name c) g" "has_column n (cl_name d) g" "grows f g"
proof (cases "has_column n (cl_name c) f")
  case True
  then show ?thesis using assms(5) by (intro that [of f]) (simp_all add: migrate_def)
next
  case False
  obtain t where t: "map_of (df_tables f) n = Some t" using assms(1) by auto
  have out: "cl_name c \<notin> column_names t" "cl_name d \<notin> column_names t" using False t assms(5) by (auto intro: has_columnI)
  obtain g where g: "alter_add_column n c f = (Inr (), g)" "map_of (df_tables g) n = Some (extend_table [c] t)"
    using alter_run [OF t out(1) assms(2)] by (metis (no_types, lifting))
  have "cl_name d \<notin> column_names (extend_table [c] t)" using out assms(4) by auto
  then obtain h where h: "alter_add_column n d g = (Inr (), h)" "map_of (df_tables h) n = Some (extend_table [c, d] t)"
    using alter_run [OF g(2) _ assms(3)] by (metis (no_types, lifting) append_Cons append_Nil extend_table_twice)
  have run: "migrate n [c, d] f = (Inr (), h)" using False g h by (simp add: migrate_def)
  show ?thesis
  proof (rule that [OF run])
    show "has_column n (cl_name c) h" "has_column n (cl_name d) h" using h(2) by (auto intro: has_columnI)
    show "grows f h" using grows_migrate [of f n "[c, d]"] run by simp
  qed
qed

lemma create_index_run:
  assumes "has_column (fst (snd i)) (snd (snd i)) f"
  obtains g where "create_index i f = (Inr (), g)" "df_tables g = df_tables f"
    "insert (fst i) (fst ` set (df_indexes f)) \<subseteq> fst ` set (df_indexes g)"
proof (cases "fst i \<in> fst ` set (df_indexes f)")
  case True
  then show ?thesis using that [of f] by (simp add: create_index_def)
next
  case False
  then show ?thesis using that [of "f\<lparr>df_indexes := df_indexes f @ [i]\<rparr>"] assms by (auto simp: create_index_def)
qed

lemma create_indexes_run:
  assumes "\<forall>i \<in> set is. has_column (fst (snd i)) (snd (snd i)) f"
  obtains g where "run_script (map create_index is) f = (Inr (), g)" "df_tables g = df_tables f"
    "fst ` set is \<union> fst ` set (df_indexes f) \<subseteq> fst ` set (df_indexes g)"
  using assms
proof (induction "is" arbitrary: f thesis)
  case Nil
  show ?case by (rule Nil(1) [of f]) simp_all
next
  case (Cons i "is")
  obtain g where g: "create_index i f = (Inr (), g)" "df_tables g = df_tables f" "insert (fst i) (fst ` set (df_indexes f)) \<subseteq> fst ` set (df_indexes g)"
    using create_index_run [of i f] Cons.prems(2) by auto
  have "\<forall>i \<in> set is. has_column (fst (snd i)) (snd (snd i)) g" using Cons.prems(2) g(2) by (simp add: has_column_def)
  then obtain h where h: "run_script (map create_index is) g = (Inr (), h)" "df_tables h = df_tables g"
      "fst ` set is \<union> fst ` set (df_indexes g) \<subseteq> fst ` set (df_indexes h)" using Cons.IH [of g] by blast
  show ?case
  proof (rule Cons.prems(1) [of h])
    show "fst ` set (i # is) \<union> fst ` set (df_indexes f) \<subseteq> fst ` set (df_indexes h)"
      using subset_trans [OF g(3), of "fst ` set (df_indexes h)"] h(3) by simp
  qed (use g h in simp_all)
qed

definition single_migrations :: "(string \<times> column) list" where
  "single_migrations = map (\<lambda>(n, cs). (n, hd cs)) (butlast migrations)"

lemma migrations_split:
  "map (\<lambda>(n, cs). migrate n cs) migrations = map (\<lambda>(n, c). migrate n [c]) single_migrations @
     [migrate ''model_groups'' [text_column ''type'' ''random_weights'', text_column ''params'' ''{}'']]"
  by (simp add: migrations_def single_migrations_def alter_call_logs_columns_def)

lemma single_migrations_ok:
  "\<forall>nc \<in> set single_migrations. fst nc \<in> td_name ` set create_tables \<and> addable (snd nc) \<and> fst nc \<noteq> ''model_groups''"
  by (simp add: single_migrations_def migrations_def alter_call_logs_columns_def addable_def int_column_def text_column_def
      plain_column_def col_def create_tables_def models_table_def call_logs_table_def)

lemma migrated_column:
  assumes "c \<in> migrated n"
  shows "(\<exists>nc \<in> set single_migrations. fst nc = n \<and> cl_name (snd nc) = c) \<or> (n = ''model_groups'' \<and> (c = ''type'' \<or> c = ''params''))"
  using assms by (auto simp: migrated_def single_migrations_def migrations_def alter_call_logs_columns_def text_column_def col_def split: if_splits)

lemma migrations_run:
  assumes "upgradable f" "has_tables create_tables f"
  obtains g where "run_script (map (\<lambda>(n, cs). migrate n cs) migrations) f = (Inr (), g)" "grows f g"
    "\<forall>d \<in> set create_tables. table_complete g d"
proof -
  have "map_of (df_tables f) (fst nc) \<noteq> None \<and> addable (snd nc)" if "nc \<in> set single_migrations" for nc
    using single_migrations_ok that assms(2) by (force simp: has_tables_def)
  then have "\<forall>nc \<in> set single_migrations. map_of (df_tables f) (fst nc) \<noteq> None \<and> addable (snd nc)" by blast
  then obtain g where g: "run_script (map (\<lambda>(n, c). migrate n [c]) single_migrations) f = (Inr (), g)"
      "\<forall>nc \<in> set single_migrations. has_column (fst nc) (cl_name (snd nc)) g" "grows f g"
      "\<And>m. m \<notin> fst ` set single_migrations \<Longrightarrow> map_of (df_tables g) m = map_of (df_tables f) m"
    by (rule migrate_each) blast
  have same: "map_of (df_tables g) ''model_groups'' = map_of (df_tables f) ''model_groups''"
    using single_migrations_ok by (intro g(4)) auto
  have "has_column ''model_groups'' ''params'' g \<longleftrightarrow> has_column ''model_groups'' ''type'' g"
    using assms(1) same by (simp add: upgradable_iff has_column_def)
  moreover have "map_of (df_tables g) ''model_groups'' \<noteq> None"
    using assms(2) same by (simp add: has_tables_def create_tables_def model_groups_table_def)
  ultimately obtain h where h: "migrate ''model_groups'' [text_column ''type'' ''random_weights'', text_column ''params'' ''{}''] g = (Inr (), h)"
      "has_column ''model_groups'' ''type'' h" "has_column ''model_groups'' ''params'' h" "grows g h"
    using migrate_groups [of g "''model_groups''" "text_column ''type'' ''random_weights''" "text_column ''params'' ''{}''"]
    by (auto simp: addable_def text_column_def col_def)
  have grown: "grows f h" by (rule grows_trans [OF g(3) h(4)])
  have "table_complete h d" if d: "d \<in> set create_tables" for d
    unfolding table_complete_def
  proof
    fix c assume c: "c \<in> set (td_columns d)"
    show "has_column (td_name d) (cl_name c) h"
    proof (cases "cl_name c \<in> migrated (td_name d)")
      case True
      from migrated_column [OF this] show ?thesis using h g(2) grows_has_column [OF h(4)] by metis
    next
      case False
      obtain t where t: "map_of (df_tables f) (td_name d) = Some t" using assms(2) d by (auto simp: has_tables_def)
      then have "cl_name ` set (td_columns d) - migrated (td_name d) \<subseteq> column_names t"
        using assms(1) d by (simp add: upgradable_iff schema_def)
      then have "cl_name c \<in> column_names t" using c False by blast
      then show ?thesis using t grows_has_column [OF grown] has_columnI by blast
    qed
  qed
  moreover have "run_script (map (\<lambda>(n, cs). migrate n cs) migrations) f = (Inr (), h)"
    unfolding migrations_split run_script_append g(1) by (simp add: h(1))
  ultimately show ?thesis using that grown by blast
qed

subsection \<open>Opening a file\<close>

definition up_to_date :: "db_file \<Rightarrow> bool" where
  "up_to_date g \<longleftrightarrow> (\<forall>d \<in> set schema. table_complete g d) \<and> index_names \<subseteq> fst ` set (df_indexes g)"

lemma first_indexes_covered:
  "\<forall>i \<in> set first_indexes. \<exists>d \<in> set create_tables. td_name d = fst (snd i) \<and> snd (snd i) \<in> cl_name ` set (td_columns d)"
  by (simp add: first_indexes_def create_tables_def models_table_def group_models_table_def call_logs_table_def
      api_keys_table_def daily_summaries_table_def raw_sessions_table_def stamp_column_def plain_column_def text_column_def col_def)

lemma initialize_run:
  assumes "upgradable f"
  obtains g where "initialize f = (Inr (), g)" "grows f g" "up_to_date g"
proof -
  obtain f1 where f1: "run_script create_tables_script f = (Inr (), f1)" "upgradable f1" "has_tables create_tables f1"
    using create_tables_run [OF assms] .
  have g1: "grows f f1"
    by (rule grows_run [OF f1(1)]) (auto simp: create_tables_script_def grows_create_table)
  obtain f2 where f2: "run_script (map (\<lambda>(n, cs). migrate n cs) migrations) f1 = (Inr (), f2)" "grows f1 f2"
      "\<forall>d \<in> set create_tables. table_complete f2 d" using migrations_run [OF f1(2,3)] .
  have "\<forall>i \<in> set first_indexes. has_column (fst (snd i)) (snd (snd i)) f2"
    using first_indexes_covered f2(3) by (fastforce simp: table_complete_def)
  then obtain f3 where f3: "run_script (map create_index first_indexes) f2 = (Inr (), f3)" "df_tables f3 = df_tables f2"
      "fst ` set first_indexes \<union> fst ` set (df_indexes f2) \<subseteq> fst ` set (df_indexes f3)" by (rule create_indexes_run)
  define f4 where "f4 = create_table call_attempts_table f3"
  have g4: "grows f2 f4" unfolding f4_def by (rule grows_trans [OF grows_same [OF f3(2)] grows_create_table])
  have all: "grows f f4" by (rule grows_trans [OF g1 grows_trans [OF f2(2) g4]])
  have attempts: "table_complete f4 call_attempts_table"
  proof (cases "map_of (df_tables f1) (td_name call_attempts_table)")
    case None
    have "map fst (df_tables f2) = map fst (df_tables f1)"
      using names_script [of "map (\<lambda>(n, cs). migrate n cs) migrations" f1] f2(1) by (fastforce simp: names_migrate)
    then have "map_of (df_tables f3) (td_name call_attempts_table) = None" using None f3(2) by (metis map_of_eq_None_iff list.set_map)
    then show ?thesis by (simp add: table_complete_def f4_def has_column_create_table)
  next
    case (Some t)
    moreover have "migrated (td_name call_attempts_table) = {}"
      by (simp add: migrated_def migrations_def alter_call_logs_columns_def call_attempts_table_def)
    ultimately have "cl_name ` set (td_columns call_attempts_table) \<subseteq> column_names t"
      using f1(2) by (simp add: upgradable_iff schema_def)
    then show ?thesis using grows_has_column [OF grows_trans [OF f2(2) g4]] has_columnI [OF Some] by (auto simp: table_complete_def)
  qed
  then have "has_column (fst (snd last_index)) (snd (snd last_index)) f4"
    by (simp add: table_complete_def call_attempts_table_def last_index_def plain_column_def col_def)
  then obtain g where g: "create_index last_index f4 = (Inr (), g)" "df_tables g = df_tables f4"
      "insert (fst last_index) (fst ` set (df_indexes f4)) \<subseteq> fst ` set (df_indexes g)" by (rule create_index_run)
  have "df_indexes f4 = df_indexes f3" by (simp add: f4_def create_table_def)
  then have "fst ` set (df_indexes f3) \<subseteq> fst ` set (df_indexes g)" using g(3) by simp
  moreover have "fst ` set first_indexes \<subseteq> fst ` set (df_indexes f3)" using f3(3) by simp
  ultimately have "fst ` set first_indexes \<subseteq> fst ` set (df_indexes g)" by (rule order_trans [rotated])
  then have "index_names \<subseteq> fst ` set (df_indexes g)" using g(3) by (simp add: index_names_def)
  moreover have "table_complete g d" if "d \<in> set schema" for d
    using that attempts f2(3) grows_has_column [OF g4] g(2) by (auto simp: schema_def table_complete_def has_column_def)
  ultimately have "up_to_date g" by (simp add: up_to_date_def)
  moreover have "grows f g" by (rule grows_trans [OF all grows_same [OF g(2)]])
  moreover have "initialize f = (Inr (), g)"
    unfolding initialize_def create_indexes_script_def run_script_append f1(1) by (simp add: f2(1) f3(1) run_script_append f4_def [symmetric] g(1))
  ultimately show ?thesis using that by blast
qed

text \<open>Nothing is left to do in a file that is up to date.\<close>

lemma initialize_up_to_date:
  assumes "up_to_date g"
  shows "initialize g = (Inr (), g)"
proof -
  have there: "map_of (df_tables g) (td_name d) \<noteq> None" if "d \<in> set schema" for d
  proof -
    have "td_columns d \<noteq> []" using that
      by (auto simp: schema_def create_tables_def providers_table_def models_table_def model_groups_table_def group_models_table_def
          call_logs_table_def config_table_def api_keys_table_def daily_summaries_table_def raw_sessions_table_def call_attempts_table_def)
    then show ?thesis using assms that
      by (cases "td_columns d") (fastforce simp: up_to_date_def table_complete_def has_column_def split: option.splits)+
  qed
  have old_table: "create_table d g = g" if "d \<in> set schema" for d using there [OF that] by (simp add: create_table_def)
  have old_index: "create_index i g = (Inr (), g)" if "i \<in> set (first_indexes @ [last_index])" for i
    using assms that by (auto simp: up_to_date_def index_names_def create_index_def)
  have old_columns: "migrate n cs g = (Inr (), g)" if "(n, cs) \<in> set migrations" for n cs
  proof -
    have "has_column n (cl_name (hd cs)) g"
      using that assms by (auto simp: up_to_date_def schema_def create_tables_def table_complete_def migrations_def alter_call_logs_columns_def
          models_table_def call_logs_table_def model_groups_table_def plain_column_def text_column_def int_column_def col_def)
    then show ?thesis by (simp add: migrate_def)
  qed
  show ?thesis unfolding initialize_def
    by (rule run_script_id) (auto simp: create_tables_script_def create_indexes_script_def old_columns schema_def
        intro!: old_table old_index)
qed

text \<open>C32: opening a database upgrades it. A file of any older version, whose tables lack at most the columns
  that were added since, is brought up to date by the start of the program: every table of the schema is
  there with every column, and every index; tables that were there keep their rows, each with the defaults
  of the added columns, and new tables are empty. A second start changes nothing.\<close>

theorem initialize_upgrades:
  assumes "upgradable f"
  shows "\<exists>g. initialize f = (Inr (), g) \<and> up_to_date g \<and>
    (\<forall>n t. map_of (df_tables f) n = Some t \<longrightarrow> (\<exists>cs. map_of (df_tables g) n = Some (extend_table cs t))) \<and>
    (\<forall>n t. map_of (df_tables f) n = None \<and> map_of (df_tables g) n = Some t \<longrightarrow> tb_rows t = []) \<and>
    initialize g = (Inr (), g)"
  using initialize_run [OF assms] initialize_up_to_date unfolding grows_def by metis

text \<open>A file of the first version: no formats and windows of models, no audit columns, no strategies.\<close>

definition first_version :: db_file where
  "first_version = \<lparr>df_tables =
     [(''models'', \<lparr>tb_columns = filter (\<lambda>c. cl_name c \<notin> {''api_format'', ''context_window''}) (td_columns models_table),
         tb_unique = td_unique models_table, tb_rows = [[(''id'', JInt 1), (''name'', JStr ''m'')]]\<rparr>),
      (''call_logs'', \<lparr>tb_columns = filter (\<lambda>c. cl_name c \<notin> {''api_key_id'', ''error_type'', ''traceback'', ''request_id''})
         (td_columns call_logs_table), tb_unique = [], tb_rows = []\<rparr>)], df_indexes = []\<rparr>"

theorem initialize_upgrades_witness:
  "\<exists>g cs. initialize first_version = (Inr (), g) \<and> has_column ''model_groups'' ''params'' g \<and>
     map_of (df_tables g) ''models'' = Some (extend_table cs (snd (hd (df_tables first_version))))"
proof -
  have "upgradable first_version" by code_simp
  then obtain g where g: "initialize first_version = (Inr (), g)" "up_to_date g"
      "\<forall>n t. map_of (df_tables first_version) n = Some t \<longrightarrow> (\<exists>cs. map_of (df_tables g) n = Some (extend_table cs t))"
    using initialize_upgrades by blast
  have "map_of (df_tables first_version) ''models'' = Some (snd (hd (df_tables first_version)))" by (simp add: first_version_def)
  moreover have "has_column ''model_groups'' ''params'' g"
    using g(2) by (auto simp: up_to_date_def schema_def create_tables_def table_complete_def model_groups_table_def text_column_def col_def)
  ultimately show ?thesis using g(1,3) by blast
qed

end
