(* ===== verification/Service.thy ===== *)
theory Service
  imports Auth
begin

text \<open>
  The process management of the command line, \<open>src/botflow/cli/service.py\<close>: the file with the process
  id, stopping with a signal and a deadline, restarting, the status and the tail of the log.

  The operating system is the record \<open>'w os\<close>: \<open>os.kill\<close>, the clock, sleeping, spawning and the files are
  functions on its state. \<open>sent\<close> lists the signals the program sent and what the system answered, first to
  last. An id outside the range of a C \<open>int\<close> makes \<open>os.kill\<close> raise an \<open>OverflowError\<close>. The em dash of a
  message is written in UTF-8. The Windows branches are not modelled.
\<close>

datatype signal = Probe | Terminate | Kill

datatype kill_answer = Delivered | NoSuchProcess | OtherOSError

record 'w os =
  os_kill :: "int \<Rightarrow> signal \<Rightarrow> 'w \<Rightarrow> kill_answer \<times> 'w"
  os_time :: "'w \<Rightarrow> real"
  os_sleep :: "real \<Rightarrow> 'w \<Rightarrow> 'w"
  os_pid_file :: "'w \<Rightarrow> string option"
  os_set_pid_file :: "string option \<Rightarrow> 'w \<Rightarrow> 'w"
  os_spawn :: "string list \<Rightarrow> 'w \<Rightarrow> int \<times> 'w"
  os_wait :: "int \<Rightarrow> real \<Rightarrow> 'w \<Rightarrow> int option \<times> 'w"
  os_health :: "string \<Rightarrow> 'w \<Rightarrow> (nat \<times> json option) option \<times> 'w"
  os_error_log :: "'w \<Rightarrow> (string + string) option"

record 'w host =
  world :: 'w
  sent :: "(int \<times> signal \<times> kill_answer) list"

subsection \<open>The file with the process id\<close>

definition write_pid :: "'w os \<Rightarrow> int \<Rightarrow> 'w host \<Rightarrow> 'w host" where
  "write_pid E pid h = h\<lparr>world := os_set_pid_file E (Some (str_int pid)) (world h)\<rparr>"

definition read_pid :: "'w os \<Rightarrow> 'w host \<Rightarrow> int option" where
  "read_pid E h = (case os_pid_file E (world h) of None \<Rightarrow> None | Some text \<Rightarrow> py_int (strip text))"

definition clear_pid :: "'w os \<Rightarrow> 'w host \<Rightarrow> 'w host" where
  "clear_pid E h =
     (if os_pid_file E (world h) = None then h else h\<lparr>world := os_set_pid_file E None (world h)\<rparr>)"

subsection \<open>Signals\<close>

definition kill :: "'w os \<Rightarrow> int \<Rightarrow> signal \<Rightarrow> 'w host \<Rightarrow> kill_answer res \<times> 'w host" where
  "kill E pid s h =
     (if pid < - (2 ^ 31) \<or> 2 ^ 31 \<le> pid then (Inl (raised_by_python (OtherException ''OverflowError'')), h)
      else let (a, w) = os_kill E pid s (world h) in (Inr a, h\<lparr>world := w, sent := sent h @ [(pid, s, a)]\<rparr>))"

text \<open>Every \<open>OSError\<close> of the probe counts as not running, also the refused permission.\<close>

definition is_running :: "'w os \<Rightarrow> int \<Rightarrow> 'w host \<Rightarrow> bool res \<times> 'w host" where
  "is_running E pid h = (case kill E pid Probe h of (Inl e, h') \<Rightarrow> (Inl e, h') | (Inr a, h') \<Rightarrow> (Inr (a = Delivered), h'))"

record status =
  ss_pid :: "int option"
  ss_running :: bool
  ss_health :: json

definition health_url :: "int \<Rightarrow> string" where
  "health_url port = ''http://127.0.0.1:'' @ str_int port @ ''/health''"

text \<open>The answer to the health request: \<open>None\<close> when it raised, also because the body is no JSON.\<close>

definition health_of :: "(nat \<times> json option) option \<Rightarrow> json" where
  "health_of answer =
     (case answer of
        None \<Rightarrow> JObj [(''status'', JStr ''unreachable'')]
      | Some (code, body) \<Rightarrow>
          if code \<noteq> 200 then JNull else (case body of None \<Rightarrow> JObj [(''status'', JStr ''unreachable'')] | Some v \<Rightarrow> v))"

definition get_status :: "'w os \<Rightarrow> int \<Rightarrow> 'w host \<Rightarrow> status res \<times> 'w host" where
  "get_status E port h =
     (let pid = read_pid E h; off = \<lparr>ss_pid = pid, ss_running = False, ss_health = JNull\<rparr> in
      case pid of
        None \<Rightarrow> (Inr off, h)
      | Some p \<Rightarrow>
          if p = 0 then (Inr off, h)
          else case is_running E p h of
            (Inl e, h1) \<Rightarrow> (Inl e, h1)
          | (Inr False, h1) \<Rightarrow> (Inr off, h1)
          | (Inr True, h1) \<Rightarrow>
              let (answer, w) = os_health E (health_url port) (world h1)
              in (Inr (off\<lparr>ss_running := True, ss_health := health_of answer\<rparr>), h1\<lparr>world := w\<rparr>))"

subsection \<open>Stopping\<close>

record report =
  rp_ok :: bool
  rp_message :: string
  rp_pid :: "int option"

definition em_dash :: string where
  "em_dash = map char_of [226, 128, 148 :: nat]"

definition no_pid_file :: report where
  "no_pid_file = \<lparr>rp_ok = False, rp_message = ''No PID file found '' @ em_dash @ '' service may not be running.'', rp_pid = None\<rparr>"

definition stopped_report :: "string \<Rightarrow> int \<Rightarrow> string \<Rightarrow> report" where
  "stopped_report before pid after = \<lparr>rp_ok = True, rp_message = before @ str_int pid @ after, rp_pid = None\<rparr>"

text \<open>The wait for the exit: the answer says whether the process was seen gone before the deadline.\<close>

partial_function (option) wait_exit :: "'w os \<Rightarrow> int \<Rightarrow> real \<Rightarrow> 'w host \<Rightarrow> (bool res \<times> 'w host) option" where
  "wait_exit E pid deadline h =
     (if os_time E (world h) < deadline
      then case is_running E pid h of
          (Inl e, h1) \<Rightarrow> Some (Inl e, h1)
        | (Inr running, h1) \<Rightarrow>
            if running then wait_exit E pid deadline (h1\<lparr>world := os_sleep E (1 / 2) (world h1)\<rparr>) else Some (Inr True, h1)
      else Some (Inr False, h))"

text \<open>\<open>os.kill\<close> where only \<open>ProcessLookupError\<close> is handled: the answer is whether the signal was delivered.\<close>

definition signal_process :: "'w os \<Rightarrow> int \<Rightarrow> signal \<Rightarrow> 'w host \<Rightarrow> bool res \<times> 'w host" where
  "signal_process E pid s h =
     (case kill E pid s h of
        (Inl e, h') \<Rightarrow> (Inl e, h')
      | (Inr Delivered, h') \<Rightarrow> (Inr True, h')
      | (Inr NoSuchProcess, h') \<Rightarrow> (Inr False, h')
      | (Inr OtherOSError, h') \<Rightarrow> (Inl (raised_by_python (OtherException ''PermissionError'')), h'))"

text \<open>After the request to terminate was delivered: the wait, then the kill.\<close>

definition await_stop :: "'w os \<Rightarrow> int \<Rightarrow> int \<Rightarrow> 'w host \<Rightarrow> (report res \<times> 'w host) option" where
  "await_stop E pid timeout h =
     (case wait_exit E pid (os_time E (world h) + of_int timeout) h of
        None \<Rightarrow> None
      | Some (Inl e, h1) \<Rightarrow> Some (Inl e, h1)
      | Some (Inr True, h1) \<Rightarrow> Some (Inr (stopped_report ''Service (PID '' pid '') stopped.''), clear_pid E h1)
      | Some (Inr False, h1) \<Rightarrow>
          (case signal_process E pid Kill h1 of
             (Inl e, h2) \<Rightarrow> Some (Inl e, h2)
           | (Inr _, h2) \<Rightarrow> Some (Inr (stopped_report ''Service (PID '' pid '') killed after timeout.''), clear_pid E h2)))"

definition stop_service :: "'w os \<Rightarrow> int \<Rightarrow> 'w host \<Rightarrow> (report res \<times> 'w host) option" where
  "stop_service E timeout h =
     (case read_pid E h of
        None \<Rightarrow> Some (Inr no_pid_file, h)
      | Some pid \<Rightarrow>
          if pid = 0 then Some (Inr no_pid_file, h)
          else case is_running E pid h of
            (Inl e, h1) \<Rightarrow> Some (Inl e, h1)
          | (Inr False, h1) \<Rightarrow> Some (Inr (stopped_report ''Process '' pid '' not running (stale PID cleaned).''), clear_pid E h1)
          | (Inr True, h1) \<Rightarrow>
              (case signal_process E pid Terminate h1 of
                 (Inl e, h2) \<Rightarrow> Some (Inl e, h2)
               | (Inr False, h2) \<Rightarrow> Some (Inr (stopped_report ''Process '' pid '' already gone.''), clear_pid E h2)
               | (Inr True, h2) \<Rightarrow> await_stop E pid timeout h2))"

subsection \<open>Restarting\<close>

definition restart_command :: "string \<Rightarrow> string \<Rightarrow> string \<Rightarrow> int \<Rightarrow> string option \<Rightarrow> string list" where
  "restart_command python workspace bind_host port config_path =
     [python, ''-m'', ''botflow'', ''--workspace'', workspace, ''run'', ''--host'', bind_host, ''--port'', str_int port] @
     (case config_path of None \<Rightarrow> [] | Some p \<Rightarrow> if p = '''' then [] else [''--config'', p])"

definition error_log_path :: "string \<Rightarrow> string" where
  "error_log_path workspace = workspace @ ''/logs/botflow.err.log''"

definition restart_service ::
  "'w os \<Rightarrow> string \<Rightarrow> string \<Rightarrow> string \<Rightarrow> int \<Rightarrow> string option \<Rightarrow> real \<Rightarrow> 'w host \<Rightarrow> (report res \<times> 'w host) option" where
  "restart_service E python workspace bind_host port config_path grace h =
     (case stop_service E 10 h of
        None \<Rightarrow> None
      | Some (Inl e, h1) \<Rightarrow> Some (Inl e, h1)
      | Some (Inr _, h1) \<Rightarrow>
          let (pid, w1) = os_spawn E (restart_command python workspace bind_host port config_path) (world h1);
              (exit_code, w2) = os_wait E pid grace w1; h2 = h1\<lparr>world := w2\<rparr>
          in (case exit_code of
                None \<Rightarrow>
                  Some (Inr (stopped_report ''Service restarted (PID '' pid '').''\<lparr>rp_pid := Some pid\<rparr>), write_pid E pid h2)
              | Some c \<Rightarrow>
                  Some (Inr \<lparr>rp_ok = False, rp_message = ''Service failed to start (exit code '' @ str_int c @ ''). Check logs: '' @
                     error_log_path workspace, rp_pid = None\<rparr>, h2)))"

subsection \<open>The tail of the log\<close>

text \<open>\<open>str.splitlines\<close>: the length of the line break a text begins with, in bytes.\<close>

definition break_length :: "string \<Rightarrow> nat" where
  "break_length s =
     (let b = map of_char s :: nat list in
      if take 2 b \<in> {[13, 10], [194, 133]} then 2
      else if take 3 b \<in> {[226, 128, 168], [226, 128, 169]} then 3
      else if b \<noteq> [] \<and> hd b \<in> {10, 11, 12, 13, 28, 29, 30} then 1 else 0)"

function split_lines :: "string \<Rightarrow> string \<Rightarrow> string list" where
  "split_lines line [] = (if line = [] then [] else [rev line])"
| "split_lines line (c # cs) =
     (if break_length (c # cs) = 0 then split_lines (c # line) cs
      else rev line # split_lines [] (drop (break_length (c # cs)) (c # cs)))"
  by pat_completeness auto
termination by (relation "measure (\<lambda>(_, s). length s)") auto

definition splitlines :: "string \<Rightarrow> string list" where
  "splitlines s = split_lines [] s"

text \<open>\<open>xs[i:]\<close>\<close>

definition slice_from :: "int \<Rightarrow> 'a list \<Rightarrow> 'a list" where
  "slice_from i xs = drop (nat (if i < 0 then max 0 (int (length xs) + i) else i)) xs"

text \<open>The bytes that are read: at most 64 for each line asked for.\<close>

definition tail_bytes :: "int \<Rightarrow> string \<Rightarrow> string" where
  "tail_bytes lines content =
     (let size = int (length content); read_size = min size (lines * 64) in drop (nat (max 0 (size - read_size))) content)"

text \<open>\<open>decode\<close> is \<open>bytes.decode\<close> with replacement; \<open>Inl\<close> is the text of an error of reading.\<close>

definition tail_logs :: "'w os \<Rightarrow> (string \<Rightarrow> string) \<Rightarrow> string \<Rightarrow> int \<Rightarrow> 'w host \<Rightarrow> string" where
  "tail_logs E decode workspace lines h =
     (case os_error_log E (world h) of
        None \<Rightarrow> ''No log file found at '' @ error_log_path workspace
      | Some (Inl e) \<Rightarrow> ''Error reading log: '' @ e
      | Some (Inr content) \<Rightarrow>
          let text = join [CHR 0x0A] (slice_from (- lines) (splitlines (decode (tail_bytes lines content))))
          in if text = '''' then ''(empty log)'' else text)"

end
