(* ===== verification/Service_Facts.thy ===== *)
theory Service_Facts
  imports Service
begin

text \<open>
  Stopping comes to an end and is polite: one process gets signals, first the request to terminate, and it is
  killed only after the deadline; the file with the process id is gone when success is reported.
\<close>

subsection \<open>The operating system\<close>

text \<open>
  What is used of it: files keep what was written. That the wait comes to its end needs more: sleeping lasts as
  long as asked, and nobody sets the wall clock back in the meantime (\<open>clock_not_set_back\<close>), which
  \<open>time.time()\<close> does not promise; only the end of the wait is stated under this assumption.
\<close>

definition clock_not_set_back :: "'w os \<Rightarrow> bool" where
  "clock_not_set_back E \<longleftrightarrow> (\<forall>d w. 0 \<le> d \<longrightarrow> os_time E w + d \<le> os_time E (os_sleep E d w)) \<and>
     (\<forall>p s w. os_time E w \<le> os_time E (snd (os_kill E p s w)))"

definition file_keeps :: "'w os \<Rightarrow> bool" where
  "file_keeps E \<longleftrightarrow> (\<forall>x w. os_pid_file E (os_set_pid_file E x w) = x)"

lemma clear_pid_clears: "file_keeps E \<Longrightarrow> os_pid_file E (world (clear_pid E h)) = None"
  by (simp add: clear_pid_def file_keeps_def)

lemma sent_clear_pid [simp]: "sent (clear_pid E h) = sent h"
  by (simp add: clear_pid_def)

lemma sent_write_pid [simp]: "sent (write_pid E pid h) = sent h"
  by (simp add: write_pid_def)

text \<open>A signal adds itself to the list, or raises at once and changes nothing.\<close>

lemma kill_cases:
  obtains (raised) e where "kill E pid s h = (Inl e, h)"
  | (answered) a w where "kill E pid s h = (Inr a, h\<lparr>world := w, sent := sent h @ [(pid, s, a)]\<rparr>)"
      "os_kill E pid s (world h) = (a, w)"
proof (cases "pid < - (2 ^ 31) \<or> 2 ^ 31 \<le> pid")
  case True
  then show ?thesis using raised by (auto simp: kill_def)
next
  case False
  obtain a w where "os_kill E pid s (world h) = (a, w)" by (cases "os_kill E pid s (world h)")
  then show ?thesis using answered [of a w] False by (simp add: kill_def)
qed

lemma is_running_cases:
  obtains (raised) e where "is_running E pid h = (Inl e, h)"
  | (answered) a w where "is_running E pid h = (Inr (a = Delivered), h\<lparr>world := w, sent := sent h @ [(pid, Probe, a)]\<rparr>)"
      "os_kill E pid Probe (world h) = (a, w)"
  by (cases E pid Probe h rule: kill_cases) (auto simp: is_running_def)

definition probes :: "int \<Rightarrow> (int \<times> signal \<times> kill_answer) list \<Rightarrow> bool" where
  "probes pid xs \<longleftrightarrow> list_all (\<lambda>(p, s, a). p = pid \<and> s = Probe) xs"

lemma probes_simps [simp]:
  "probes pid []" "probes pid (x # xs) \<longleftrightarrow> fst x = pid \<and> fst (snd x) = Probe \<and> probes pid xs"
  "probes pid (xs @ ys) \<longleftrightarrow> probes pid xs \<and> probes pid ys"
  by (auto simp: probes_def split: prod.splits)

subsection \<open>The wait\<close>

text \<open>What a wait that ends has done, whatever the clock shows.\<close>

definition waited :: "'w os \<Rightarrow> int \<Rightarrow> real \<Rightarrow> 'w host \<Rightarrow> bool res \<times> 'w host \<Rightarrow> bool" where
  "waited E pid deadline h y \<longleftrightarrow> (\<exists>new. sent (snd y) = sent h @ new \<and> probes pid new \<and>
     (fst y = Inr True \<longrightarrow> (\<exists>a. a \<noteq> Delivered \<and> new \<noteq> [] \<and> List.last new = (pid, Probe, a))) \<and>
     (fst y = Inr False \<longrightarrow> deadline \<le> os_time E (world (snd y))))"

lemma waited_more:
  assumes "waited E pid deadline h2 y" "sent h2 = sent h @ [(pid, Probe, a)]"
  shows "waited E pid deadline h y"
proof -
  obtain new where "sent (snd y) = sent h @ (pid, Probe, a) # new" "probes pid new"
      "fst y = Inr True \<longrightarrow> (\<exists>a. a \<noteq> Delivered \<and> new \<noteq> [] \<and> List.last new = (pid, Probe, a))"
      "fst y = Inr False \<longrightarrow> deadline \<le> os_time E (world (snd y))"
    using assms by (auto simp: waited_def)
  then show ?thesis unfolding waited_def by (intro exI [of _ "(pid, Probe, a) # new"]) auto
qed

lemma wait_exit_waited: "wait_exit E pid deadline h = Some y \<Longrightarrow> waited E pid deadline h y"
proof (induction rule: wait_exit.raw_induct [rotated 1, consumes 1])
  case (1 wait E pid deadline h y)
  note ih = 1(1) and eq = 1(2)
  show ?case
  proof (cases "os_time E (world h) < deadline")
    case False
    then show ?thesis using eq by (auto simp: waited_def intro!: exI [of _ "[]"])
  next
    case before: True
    show ?thesis
    proof (cases E pid h rule: is_running_cases)
      case (raised e)
      then have "y = (Inl e, h)" using eq before by simp
      then show ?thesis by (auto simp: waited_def)
    next
      case (answered a w)
      show ?thesis
      proof (cases "a = Delivered")
        case True
        then have "wait E pid deadline (h\<lparr>sent := sent h @ [(pid, Probe, a)], world := os_sleep E (1 / 2) w\<rparr>) = Some y"
          using eq before answered(1) by simp
        from ih [OF this] show ?thesis by (rule waited_more) simp
      next
        case False
        then have "y = (Inr True, h\<lparr>world := w, sent := sent h @ [(pid, Probe, a)]\<rparr>)" using eq before answered(1) by simp
        then show ?thesis using False by (auto simp: waited_def intro!: exI [of _ "[(pid, Probe, a)]"])
      qed
    qed
  qed
qed

lemma wait_exit_ends:
  assumes "clock_not_set_back E"
  shows "wait_exit E pid deadline h \<noteq> None"
proof (induction "nat \<lceil>2 * (deadline - os_time E (world h))\<rceil>" arbitrary: h rule: less_induct)
  case less
  show ?case
  proof (cases "os_time E (world h) < deadline")
    case False
    then show ?thesis by (subst wait_exit.simps) simp
  next
    case before: True
    show ?thesis
    proof (cases E pid h rule: is_running_cases)
      case (raised e)
      then show ?thesis using before by (subst wait_exit.simps) simp
    next
      case (answered a w)
      define h2 where "h2 = h\<lparr>sent := sent h @ [(pid, Probe, a)], world := os_sleep E (1 / 2) w\<rparr>"
      have "os_time E (world h) \<le> os_time E w" using assms answered(2) unfolding clock_not_set_back_def by (metis snd_conv)
      moreover have "os_time E w + 1 / 2 \<le> os_time E (os_sleep E (1 / 2) w)" using assms by (simp add: clock_not_set_back_def)
      ultimately have "os_time E (world h) + 1 / 2 \<le> os_time E (world h2)" by (simp add: h2_def)
      then have "\<lceil>2 * (deadline - os_time E (world h2))\<rceil> \<le> \<lceil>2 * (deadline - os_time E (world h)) - 1\<rceil>"
        by (intro ceiling_mono) argo
      moreover have "0 < \<lceil>2 * (deadline - os_time E (world h))\<rceil>" using before by simp
      ultimately have "wait_exit E pid deadline h2 \<noteq> None" by (intro less) simp
      then show ?thesis using before answered(1) by (subst wait_exit.simps) (auto simp: h2_def)
    qed
  qed
qed

subsection \<open>The stop\<close>

text \<open>Signals by their severity.\<close>

fun severity :: "signal \<Rightarrow> nat" where
  "severity Probe = 0"
| "severity Terminate = 1"
| "severity Kill = 2"

instantiation signal :: linorder
begin

definition less_eq_signal :: "signal \<Rightarrow> signal \<Rightarrow> bool" where
  "less_eq_signal a b \<longleftrightarrow> severity a \<le> severity b"

definition less_signal :: "signal \<Rightarrow> signal \<Rightarrow> bool" where
  "less_signal a b \<longleftrightarrow> severity a < severity b"

instance
proof
  fix a b :: signal
  show "a \<le> b \<Longrightarrow> b \<le> a \<Longrightarrow> a = b" by (cases a; cases b) (simp_all add: less_eq_signal_def)
qed (auto simp: less_eq_signal_def less_signal_def)

end

text \<open>The signals of a stop: only to the process, probes apart at most \<open>Terminate\<close> and then \<open>Kill\<close>.\<close>

definition polite :: "int \<Rightarrow> (int \<times> signal \<times> kill_answer) list \<Rightarrow> bool" where
  "polite pid xs \<longleftrightarrow> (\<forall>x \<in> set xs. fst x = pid) \<and>
     map (\<lambda>x. fst (snd x)) (filter (\<lambda>x. fst (snd x) \<noteq> Probe) xs) \<in> {[], [Terminate], [Terminate, Kill]}"

lemma polite_escalates: "polite pid xs \<Longrightarrow> sorted_wrt (<) (map (\<lambda>x. fst (snd x)) (filter (\<lambda>x. Probe < fst (snd x)) xs))"
proof -
  assume "polite pid xs"
  moreover have "Probe < s \<longleftrightarrow> s \<noteq> Probe" for s by (cases s) (simp_all add: less_signal_def)
  ultimately show ?thesis by (auto simp: polite_def less_signal_def)
qed

text \<open>
  The last signal shows why the process counts as stopped: it was killed; the system said that there is no such
  process; or a probe failed with another error, of which the code concludes the same, although the process
  lives when the error is that the probe is not permitted.
\<close>

definition killed :: "int \<Rightarrow> (int \<times> signal \<times> kill_answer) list \<Rightarrow> bool" where
  "killed pid xs \<longleftrightarrow> xs \<noteq> [] \<and> List.last xs = (pid, Kill, Delivered)"

definition not_there :: "int \<Rightarrow> (int \<times> signal \<times> kill_answer) list \<Rightarrow> bool" where
  "not_there pid xs \<longleftrightarrow> xs \<noteq> [] \<and> (\<exists>s. List.last xs = (pid, s, NoSuchProcess))"

definition probe_failed :: "int \<Rightarrow> (int \<times> signal \<times> kill_answer) list \<Rightarrow> bool" where
  "probe_failed pid xs \<longleftrightarrow> xs \<noteq> [] \<and> List.last xs = (pid, Probe, OtherOSError)"

definition settled :: "int \<Rightarrow> (int \<times> signal \<times> kill_answer) list \<Rightarrow> bool" where
  "settled pid xs \<longleftrightarrow> killed pid xs \<or> not_there pid xs \<or> probe_failed pid xs"

lemmas settled_defs = settled_def killed_def not_there_def probe_failed_def

lemma settled_probe: "a \<noteq> Delivered \<Longrightarrow> xs \<noteq> [] \<Longrightarrow> List.last xs = (pid, Probe, a) \<Longrightarrow> settled pid xs"
  by (cases a) (auto simp: settled_defs)

lemma settled_kill: "c \<noteq> OtherOSError \<Longrightarrow> settled pid (xs @ [(pid, Kill, c)])"
  by (cases c) (auto simp: settled_defs)

lemma probes_polite: "probes pid xs \<Longrightarrow> filter (\<lambda>x. fst (snd x) \<noteq> Probe) xs = [] \<and> (\<forall>x \<in> set xs. fst x = pid)"
  by (induction xs) auto

lemma signal_process_cases:
  obtains (raised) e h' new where "signal_process E pid s h = (Inl e, h')" "sent h' = sent h @ new"
      "new \<in> {[], [(pid, s, OtherOSError)]}"
  | (answered) a h' where "signal_process E pid s h = (Inr (a = Delivered), h')" "sent h' = sent h @ [(pid, s, a)]" "a \<noteq> OtherOSError"
proof (cases E pid s h rule: kill_cases)
  case (raised e)
  then show ?thesis using that(1) [of e h "[]"] by (simp add: signal_process_def)
next
  case (answered a w)
  then show ?thesis
    by (cases a) (auto simp: signal_process_def intro: that)
qed

text \<open>What is promised of the result and of the signals.\<close>

definition stops :: "'w os \<Rightarrow> int \<Rightarrow> (int \<times> signal \<times> kill_answer) list \<Rightarrow> report res \<Rightarrow> 'w host \<Rightarrow> bool" where
  "stops E pid new r h' \<longleftrightarrow> polite pid new \<and>
     (\<forall>rep. r = Inr rep \<and> rp_ok rep \<longrightarrow> os_pid_file E (world h') = None \<and> settled pid new)"

lemma stops_raised: "polite pid new \<Longrightarrow> stops E pid new (Inl e) h'"
  by (simp add: stops_def)

lemma stops_cleared: "file_keeps E \<Longrightarrow> polite pid new \<Longrightarrow> settled pid new \<Longrightarrow> stops E pid new r (clear_pid E h')"
  by (simp add: stops_def clear_pid_clears)

lemma await_stop_spec:
  assumes "file_keeps E" "await_stop E pid timeout h = Some (r, h')"
  shows "\<exists>new. sent h' = sent h @ new \<and> stops E pid ((pid, Probe, Delivered) # (pid, Terminate, Delivered) # new) r h'"
proof -
  obtain q h3 where w: "wait_exit E pid (os_time E (world h) + of_int timeout) h = Some (q, h3)"
    using assms(2) by (auto simp: await_stop_def split: option.splits)
  from wait_exit_waited [OF w] obtain new where new: "sent h3 = sent h @ new" "probes pid new"
      "q = Inr True \<longrightarrow> (\<exists>a. a \<noteq> Delivered \<and> new \<noteq> [] \<and> List.last new = (pid, Probe, a))"
    by (auto simp: waited_def)
  define sofar where "sofar = (pid, Probe, Delivered) # (pid, Terminate, Delivered) # new"
  have polite: "polite pid sofar" "polite pid (sofar @ [(pid, Kill, c)])" for c
    using probes_polite [OF new(2)] by (auto simp: polite_def sofar_def)
  consider (error) e where "q = Inl e" | (seen) "q = Inr True" | (late) "q = Inr False"
    by (cases q) auto
  then show ?thesis
  proof cases
    case error
    then show ?thesis using assms(2) w new polite(1) by (auto simp: await_stop_def sofar_def intro!: stops_raised)
  next
    case seen
    then obtain a where "a \<noteq> Delivered" "new \<noteq> []" "List.last new = (pid, Probe, a)" using new(3) by blast
    then have "settled pid sofar" using settled_probe [of a sofar pid] by (simp add: sofar_def)
    then show ?thesis using assms seen w new polite(1) by (auto simp: await_stop_def sofar_def intro!: stops_cleared)
  next
    case late
    show ?thesis
    proof (rule signal_process_cases [where E = E and pid = pid and s = Kill and h = h3])
      fix e h4 k
      assume raised: "signal_process E pid Kill h3 = (Inl e, h4)" "sent h4 = sent h3 @ k" "k \<in> {[], [(pid, Kill, OtherOSError)]}"
      then have "stops E pid (sofar @ k) (Inl e) h4" using polite by (auto intro: stops_raised)
      then show ?thesis using assms(2) late w new raised by (auto simp: await_stop_def sofar_def)
    next
      fix c h4
      assume asked: "signal_process E pid Kill h3 = (Inr (c = Delivered), h4)" "sent h4 = sent h3 @ [(pid, Kill, c)]" "c \<noteq> OtherOSError"
      have "stops E pid (sofar @ [(pid, Kill, c)]) x (clear_pid E h4)" for x
        by (rule stops_cleared [OF assms(1) polite(2) settled_kill [OF asked(3)]])
      then show ?thesis using assms(2) late w new asked by (auto simp: await_stop_def sofar_def)
    qed
  qed
qed

lemma stop_running:
  assumes "file_keeps E" "read_pid E h = Some pid" "pid \<noteq> 0" "stop_service E timeout h = Some (r, h')"
  shows "\<exists>new. sent h' = sent h @ new \<and> stops E pid new r h'"
proof (cases E pid h rule: is_running_cases)
  case (raised e)
  then show ?thesis using assms(2-4) by (auto simp: stop_service_def polite_def intro!: stops_raised)
next
  case (answered a w)
  define h1 where "h1 = h\<lparr>world := w, sent := sent h @ [(pid, Probe, a)]\<rparr>"
  have run: "is_running E pid h = (Inr (a = Delivered), h1)" and sent1: "sent h1 = sent h @ [(pid, Probe, a)]"
    using answered(1) by (simp_all add: h1_def)
  show ?thesis
  proof (cases "a = Delivered")
    case False
    then have "stops E pid [(pid, Probe, a)] x (clear_pid E h1)" for x
      by (intro stops_cleared [OF assms(1)] settled_probe [of a]) (simp_all add: polite_def)
    then show ?thesis using False run sent1 assms(2-4) by (auto simp: stop_service_def)
  next
    case True
    show ?thesis
    proof (rule signal_process_cases [where E = E and pid = pid and s = Terminate and h = h1])
      fix e h2 new
      assume raised: "signal_process E pid Terminate h1 = (Inl e, h2)" "sent h2 = sent h1 @ new" "new \<in> {[], [(pid, Terminate, OtherOSError)]}"
      then have "stops E pid ((pid, Probe, a) # new) (Inl e) h2" by (auto intro!: stops_raised simp: polite_def)
      then show ?thesis using True run sent1 raised(1,2) assms(2-4) by (auto simp: stop_service_def)
    next
      fix b h2
      assume asked: "signal_process E pid Terminate h1 = (Inr (b = Delivered), h2)" "sent h2 = sent h1 @ [(pid, Terminate, b)]" "b \<noteq> OtherOSError"
      show ?thesis
      proof (cases "b = Delivered")
        case False
        then have "b = NoSuchProcess" using asked(3) by (cases b) auto
        then have "stops E pid [(pid, Probe, a), (pid, Terminate, b)] x (clear_pid E h2)" for x
          by (intro stops_cleared [OF assms(1)]) (simp_all add: polite_def settled_defs)
        then show ?thesis using False True run sent1 asked(1,2) assms(2-4) by (auto simp: stop_service_def)
      next
        case delivered: True
        then have "await_stop E pid timeout h2 = Some (r, h')" using True run asked(1) assms(2-4) by (simp add: stop_service_def)
        from await_stop_spec [OF assms(1) this] show ?thesis using sent1 asked(2) True delivered by auto
      qed
    qed
  qed
qed

lemma stop_service_ends:
  assumes "clock_not_set_back E"
  shows "\<exists>r h'. stop_service E timeout h = Some (r, h')"
proof -
  have "await_stop E pid timeout h' \<noteq> None" for pid h'
  proof -
    obtain y where "wait_exit E pid (os_time E (world h') + of_int timeout) h' = Some y" using wait_exit_ends [OF assms] by blast
    then show ?thesis by (auto simp: await_stop_def split: prod.split sum.split bool.split)
  qed
  then have "stop_service E timeout h \<noteq> None"
    by (auto simp: stop_service_def split: option.split prod.split sum.split bool.split)
  then show ?thesis by (cases "stop_service E timeout h") auto
qed

text \<open>C31: stopping the service. With files that keep their content: whenever \<open>stop_service\<close> ends, the process
  named in the file is the only one that got signals, and besides the probes it got at most a request to
  terminate and after that a kill. When success is reported the file is gone, there was a process id in it, and
  the last signal shows the reason: a kill was delivered, or the system said that there is no such process, or a
  probe failed with another error (as \<open>EPERM\<close> for a process of another user, which goes on running). And when
  nobody sets the clock back during the wait, \<open>stop_service\<close> ends.\<close>

theorem stop_service_settles:
  assumes "file_keeps E"
  shows "(\<forall>r h'. stop_service E timeout h = Some (r, h') \<longrightarrow> (\<exists>new. sent h' = sent h @ new \<and>
      (case read_pid E h of None \<Rightarrow> new = [] | Some pid \<Rightarrow> polite pid new) \<and>
      (\<forall>rep. r = Inr rep \<and> rp_ok rep \<longrightarrow> os_pid_file E (world h') = None \<and>
         (\<exists>pid. read_pid E h = Some pid \<and> pid \<noteq> 0 \<and> (killed pid new \<or> not_there pid new \<or> probe_failed pid new))))) \<and>
    (clock_not_set_back E \<longrightarrow> (\<exists>r h'. stop_service E timeout h = Some (r, h')))"
proof (intro conjI allI impI)
  fix r h'
  assume stop: "stop_service E timeout h = Some (r, h')"
  show "\<exists>new. sent h' = sent h @ new \<and>
      (case read_pid E h of None \<Rightarrow> new = [] | Some pid \<Rightarrow> polite pid new) \<and>
      (\<forall>rep. r = Inr rep \<and> rp_ok rep \<longrightarrow> os_pid_file E (world h') = None \<and>
         (\<exists>pid. read_pid E h = Some pid \<and> pid \<noteq> 0 \<and> (killed pid new \<or> not_there pid new \<or> probe_failed pid new)))"
  proof (cases "read_pid E h")
    case None
    then show ?thesis using stop by (auto simp: stop_service_def no_pid_file_def)
  next
    case (Some pid)
    show ?thesis
    proof (cases "pid = 0")
      case True
      then show ?thesis using Some stop by (auto simp: stop_service_def no_pid_file_def polite_def)
    next
      case False
      then show ?thesis using stop_running [OF assms Some False stop] Some by (auto simp: stops_def settled_def)
    qed
  qed
qed (rule stop_service_ends)

text \<open>A process that ignores the request, on a machine whose state is the time and the file.\<close>

definition stubborn_os :: "(real \<times> string option) os" where
  "stubborn_os = \<lparr>os_kill = (\<lambda>p s w. (Delivered, w)), os_time = fst, os_sleep = (\<lambda>d w. (fst w + d, snd w)),
     os_pid_file = snd, os_set_pid_file = (\<lambda>x w. (fst w, x)), os_spawn = (\<lambda>c w. (1, w)), os_wait = (\<lambda>p d w. (None, w)),
     os_health = (\<lambda>u w. (None, w)), os_error_log = (\<lambda>w. None)\<rparr>"

theorem stop_service_settles_witness:
  "\<exists>r h' new. stop_service stubborn_os 10 \<lparr>world = (0, Some ''77''), sent = []\<rparr> = Some (r, h') \<and> polite 77 new \<and> sent h' = new"
proof -
  have "read_pid stubborn_os \<lparr>world = (0, Some ''77''), sent = []\<rparr> = Some 77"
    by (simp add: read_pid_def stubborn_os_def py_int_def Let_def strip_def lstrip_def is_space_def is_digit_def nat_of_digits_def digit_val_def)
  then show ?thesis
    using stop_service_settles [of stubborn_os 10 "\<lparr>world = (0, Some ''77''), sent = []\<rparr>"]
    by (auto simp: clock_not_set_back_def file_keeps_def stubborn_os_def)
qed

end
