(* ===== verification/Cli_Args.thy ===== *)
theory Cli_Args
  imports Service
begin

text \<open>
  The command line, \<open>build_parser\<close> and \<open>_bool_arg\<close> of \<open>src/botflow/cli/main.py\<close>, with the part of
  \<open>argparse\<close> it uses: commands and actions, positional arguments, options with a type and a default, flags.

  A namespace maps attribute names to values. Parsing gives \<open>None\<close> for forms of an option that are not
  modelled: abbreviated and unknown options, options joined with their value, and the separator of two dashes. \<open>float_of\<close> is Python's \<open>float\<close>.
  Every error exits with code 2, help and version with code 0; the texts are not modelled.
\<close>

subsection \<open>Values and types\<close>

datatype arg_value = NoValue | TextValue string | IntValue int | RealValue real | BoolValue bool

type_synonym namespace = "(string \<times> arg_value) list"

definition arg :: "namespace \<Rightarrow> string \<Rightarrow> arg_value" where
  "arg ns k = (case map_of ns k of None \<Rightarrow> NoValue | Some v \<Rightarrow> v)"

datatype arg_type = TextArg | IntArg | RealArg | BoolArg | ChoiceArg "string list"

definition bool_arg :: "string \<Rightarrow> bool option" where
  "bool_arg v =
     (if lower v \<in> {''true'', ''1'', ''yes''} then Some True
      else if lower v \<in> {''false'', ''0'', ''no''} then Some False else None)"

definition convert :: "(string \<Rightarrow> real option) \<Rightarrow> arg_type \<Rightarrow> string \<Rightarrow> arg_value option" where
  "convert float_of t v =
     (case t of
        TextArg \<Rightarrow> Some (TextValue v)
      | IntArg \<Rightarrow> map_option IntValue (py_int v)
      | RealArg \<Rightarrow> map_option RealValue (float_of v)
      | BoolArg \<Rightarrow> map_option BoolValue (bool_arg v)
      | ChoiceArg cs \<Rightarrow> if v \<in> set cs then Some (TextValue v) else None)"

subsection \<open>Declarations\<close>

datatype opt_kind = Takes arg_type arg_value | StoreTrue

record opt =
  op_flags :: "string list"
  op_dest :: string
  op_kind :: opt_kind
  op_required :: bool

record leaf =
  lf_positionals :: "(string \<times> arg_type) list"
  lf_options :: "opt list"

text \<open>The attribute of a long flag: its name with underscores.\<close>

definition dest_of :: "string \<Rightarrow> string" where
  "dest_of flag = map (\<lambda>c. if c = CHR ''-'' then CHR ''_'' else c) (drop 2 flag)"

definition opt_of :: "string \<Rightarrow> arg_type \<Rightarrow> arg_value \<Rightarrow> opt" where
  "opt_of flag t d = \<lparr>op_flags = [flag], op_dest = dest_of flag, op_kind = Takes t d, op_required = False\<rparr>"

definition required_opt :: "string \<Rightarrow> arg_type \<Rightarrow> opt" where
  "required_opt flag t = (opt_of flag t NoValue)\<lparr>op_required := True\<rparr>"

definition flag_opt :: "string \<Rightarrow> opt" where
  "flag_opt flag = \<lparr>op_flags = [flag], op_dest = dest_of flag, op_kind = StoreTrue, op_required = False\<rparr>"

definition short_opt :: "string \<Rightarrow> string \<Rightarrow> arg_type \<Rightarrow> arg_value \<Rightarrow> opt" where
  "short_opt short flag t d = (opt_of flag t d)\<lparr>op_flags := [short, flag]\<rparr>"

definition leaf_of :: "(string \<times> arg_type) list \<Rightarrow> opt list \<Rightarrow> leaf" where
  "leaf_of ps os = \<lparr>lf_positionals = ps, lf_options = os\<rparr>"

definition service_parsers :: "((string \<times> string) \<times> leaf) list" where
  "service_parsers =
     [((''run'', ''''), leaf_of [] [opt_of ''--host'' TextArg (TextValue ''0.0.0.0''), opt_of ''--port'' IntArg (IntValue 8080),
        opt_of ''--config'' TextArg NoValue]),
      ((''stop'', ''''), leaf_of [] []),
      ((''restart'', ''''), leaf_of [] [opt_of ''--host'' TextArg NoValue, opt_of ''--port'' IntArg NoValue, opt_of ''--config'' TextArg NoValue]),
      ((''status'', ''''), leaf_of [] [opt_of ''--port'' IntArg (IntValue 8080)]),
      ((''logs'', ''''), leaf_of [] [short_opt ''-n'' ''--lines'' IntArg (IntValue 50)])]"

definition config_parsers :: "((string \<times> string) \<times> leaf) list" where
  "config_parsers =
     [((''set'', ''''), leaf_of [(''key'', TextArg), (''value'', TextArg)] []),
      ((''get'', ''''), leaf_of [(''key'', TextArg)] []),
      ((''config'', ''''), leaf_of [] []),
      ((''cleanup'', ''''), leaf_of [] [opt_of ''--days'' IntArg (IntValue 180)])]"

definition apikey_parsers :: "((string \<times> string) \<times> leaf) list" where
  "apikey_parsers =
     [((''apikey'', ''list''), leaf_of [] []),
      ((''apikey'', ''add''), leaf_of [(''key'', TextArg)] [opt_of ''--label'' TextArg (TextValue '''')]),
      ((''apikey'', ''disable''), leaf_of [(''id'', IntArg)] []),
      ((''apikey'', ''enable''), leaf_of [(''id'', IntArg)] []),
      ((''apikey'', ''update''), leaf_of [(''id'', IntArg)] [opt_of ''--label'' TextArg NoValue,
         opt_of ''--enabled'' (ChoiceArg [''true'', ''false'']) NoValue]),
      ((''apikey'', ''delete''), leaf_of [(''id'', IntArg)] [])]"

definition summary_parsers :: "((string \<times> string) \<times> leaf) list" where
  "summary_parsers = [((''summary'', ''''), leaf_of [] [opt_of ''--day'' TextArg NoValue])]"

definition provider_parsers :: "((string \<times> string) \<times> leaf) list" where
  "provider_parsers =
     [((''provider'', ''list''), leaf_of [] [flag_opt ''--enabled'']),
      ((''provider'', ''get''), leaf_of [(''id'', IntArg)] []),
      ((''provider'', ''add''), leaf_of [(''name'', TextArg)] [required_opt ''--type'' TextArg, opt_of ''--api-key'' TextArg NoValue,
         opt_of ''--base-url'' TextArg NoValue]),
      ((''provider'', ''update''), leaf_of [(''id'', IntArg)] [opt_of ''--name'' TextArg NoValue, opt_of ''--api-key'' TextArg NoValue,
         opt_of ''--base-url'' TextArg NoValue, opt_of ''--enabled'' BoolArg NoValue]),
      ((''provider'', ''delete''), leaf_of [(''id'', IntArg)] [])]"

definition model_parsers :: "((string \<times> string) \<times> leaf) list" where
  "model_parsers =
     [((''model'', ''list''), leaf_of [] [flag_opt ''--enabled'']),
      ((''model'', ''get''), leaf_of [(''id'', IntArg)] []),
      ((''model'', ''add''), leaf_of [(''name'', TextArg)] [required_opt ''--provider-id'' IntArg, opt_of ''--display-name'' TextArg NoValue,
         opt_of ''--api-format'' TextArg NoValue, opt_of ''--max-retries'' IntArg NoValue, opt_of ''--cooldown'' IntArg NoValue,
         opt_of ''--proxy'' TextArg NoValue]),
      ((''model'', ''update''), leaf_of [(''id'', IntArg)] [opt_of ''--name'' TextArg NoValue, opt_of ''--display-name'' TextArg NoValue,
         opt_of ''--api-format'' TextArg NoValue, opt_of ''--max-retries'' IntArg NoValue, opt_of ''--cooldown'' IntArg NoValue,
         opt_of ''--enabled'' BoolArg NoValue, opt_of ''--proxy'' TextArg NoValue]),
      ((''model'', ''delete''), leaf_of [(''id'', IntArg)] []),
      ((''model'', ''sync''), leaf_of [] [opt_of ''--provider-id'' IntArg NoValue])]"

definition group_parsers :: "((string \<times> string) \<times> leaf) list" where
  "group_parsers =
     [((''group'', ''list''), leaf_of [] [flag_opt ''--enabled'']),
      ((''group'', ''get''), leaf_of [(''id'', IntArg)] []),
      ((''group'', ''add''), leaf_of [(''name'', TextArg)] [opt_of ''--description'' TextArg NoValue]),
      ((''group'', ''update''), leaf_of [(''id'', IntArg)] [opt_of ''--name'' TextArg NoValue, opt_of ''--description'' TextArg NoValue,
         opt_of ''--enabled'' BoolArg NoValue, opt_of ''--fallback'' IntArg NoValue]),
      ((''group'', ''delete''), leaf_of [(''id'', IntArg)] []),
      ((''group'', ''add-model''), leaf_of [(''id'', IntArg), (''model_id'', IntArg)] [opt_of ''--weight'' RealArg NoValue]),
      ((''group'', ''remove-model''), leaf_of [(''id'', IntArg), (''model_id'', IntArg)] []),
      ((''group'', ''set-weight''), leaf_of [(''id'', IntArg), (''model_id'', IntArg), (''weight'', RealArg)] [])]"

definition stats_parsers :: "((string \<times> string) \<times> leaf) list" where
  "stats_parsers =
     [((''stats'', ''cost''), leaf_of [] [opt_of ''--days'' IntArg (IntValue 30)]),
      ((''stats'', ''model''), leaf_of [(''id'', IntArg)] []),
      ((''stats'', ''group''), leaf_of [(''id'', IntArg)] []),
      ((''stats'', ''recent''), leaf_of [] [short_opt ''-n'' ''--limit'' IntArg (IntValue 20)])]"

text \<open>All leaves under their command and action.\<close>

definition build_parser :: "((string \<times> string) \<times> leaf) list" where
  "build_parser = service_parsers @ config_parsers @ apikey_parsers @ summary_parsers @ provider_parsers @ model_parsers @
     group_parsers @ stats_parsers @ [((''version'', ''''), leaf_of [] [])]"

subsection \<open>Parsing\<close>

datatype parsed = Parsed namespace | ParseExit int

text \<open>\<open>^-\\d+$|^-\\d*\\.\\d+$\<close>\<close>

definition negative_number :: "string \<Rightarrow> bool" where
  "negative_number t \<longleftrightarrow> t \<noteq> '''' \<and> hd t = CHR ''-'' \<and>
     (let whole = takeWhile is_digit (tl t); tail = dropWhile is_digit (tl t) in
      (whole \<noteq> '''' \<and> tail = '''') \<or> (tail \<noteq> '''' \<and> hd tail = CHR ''.'' \<and> tl tail \<noteq> '''' \<and> list_all is_digit (tl tail)))"

text \<open>What a token is taken for: no option looks like a negative number.\<close>

datatype token_class = Argument | Option | Unclear

definition classify :: "string \<Rightarrow> token_class" where
  "classify t =
     (if t = '''' \<or> hd t \<noteq> CHR ''-'' \<or> t = ''-'' \<or> negative_number t then Argument
      else if t = ''--'' \<or> CHR ''='' \<in> set t then Unclear
      else if take 2 t = ''--'' then if CHR '' '' \<in> set t then Argument else Option
      else if length t = 2 then Option else Unclear)"

definition find_opt :: "opt list \<Rightarrow> string \<Rightarrow> opt option" where
  "find_opt os flag = find (\<lambda>o1. flag \<in> set (op_flags o1)) os"

definition help_flag :: "string \<Rightarrow> bool" where
  "help_flag t \<longleftrightarrow> t = ''-h'' \<or> t = ''--help''"

text \<open>The tokens of a leaf: positionals in order, options anywhere; \<open>extra\<close> is a surplus argument seen.\<close>

fun parse_tokens :: "(string \<Rightarrow> real option) \<Rightarrow> opt list \<Rightarrow> string list \<Rightarrow> (string \<times> arg_type) list \<Rightarrow> bool \<Rightarrow> namespace \<Rightarrow>
    (parsed \<times> (string \<times> arg_type) list \<times> bool) option" where
  "parse_tokens F os [] ps extra ns = Some (Parsed ns, ps, extra)"
| "parse_tokens F os (t # ts) ps extra ns =
     (case classify t of
        Unclear \<Rightarrow> None
      | Argument \<Rightarrow>
          (case ps of
             [] \<Rightarrow> parse_tokens F os ts [] True ns
           | (n, ty) # ps' \<Rightarrow>
               (case convert F ty t of None \<Rightarrow> Some (ParseExit 2, ps, extra) | Some v \<Rightarrow> parse_tokens F os ts ps' extra ((n, v) # ns)))
      | Option \<Rightarrow>
          if help_flag t then Some (ParseExit 0, ps, extra)
          else case find_opt os t of
            None \<Rightarrow> None
          | Some o1 \<Rightarrow>
              (case op_kind o1 of
                 StoreTrue \<Rightarrow> parse_tokens F os ts ps extra ((op_dest o1, BoolValue True) # ns)
               | Takes ty _ \<Rightarrow>
                   (case ts of
                      [] \<Rightarrow> Some (ParseExit 2, ps, extra)
                    | v # ts' \<Rightarrow>
                        (case classify v of
                           Unclear \<Rightarrow> None
                         | Option \<Rightarrow> Some (ParseExit 2, ps, extra)
                         | Argument \<Rightarrow>
                             (case convert F ty v of
                                None \<Rightarrow> Some (ParseExit 2, ps, extra)
                              | Some x \<Rightarrow> parse_tokens F os ts' ps extra ((op_dest o1, x) # ns))))))"

text \<open>Afterwards the required options and positionals must be there; defaults fill the rest.\<close>

definition opt_default :: "opt \<Rightarrow> string \<times> arg_value" where
  "opt_default o1 = (op_dest o1, case op_kind o1 of Takes _ d \<Rightarrow> d | StoreTrue \<Rightarrow> BoolValue False)"

definition parse_leaf :: "(string \<Rightarrow> real option) \<Rightarrow> leaf \<Rightarrow> string list \<Rightarrow> parsed option" where
  "parse_leaf F l ts =
     (case parse_tokens F (lf_options l) ts (lf_positionals l) False [] of
        None \<Rightarrow> None
      | Some (ParseExit c, _) \<Rightarrow> Some (ParseExit c)
      | Some (Parsed ns, ps, extra) \<Rightarrow>
          if extra \<or> ps \<noteq> [] \<or> list_ex (\<lambda>o1. op_required o1 \<and> op_dest o1 \<notin> fst ` set ns) (lf_options l) then Some (ParseExit 2)
          else Some (Parsed (ns @ map opt_default (lf_options l))))"

text \<open>The action of a command that has actions; without one the namespace has no handler.\<close>

definition action_attribute :: "string \<Rightarrow> string" where
  "action_attribute cmd = cmd @ ''_action''"

definition parse_command :: "(string \<Rightarrow> real option) \<Rightarrow> string \<Rightarrow> string list \<Rightarrow> parsed option" where
  "parse_command F cmd ts =
     (case map_of build_parser (cmd, '''') of
        Some l \<Rightarrow> parse_leaf F l ts
      | None \<Rightarrow>
          (case ts of
             [] \<Rightarrow> Some (Parsed [(action_attribute cmd, NoValue)])
           | a # us \<Rightarrow>
               if help_flag a then Some (ParseExit 0)
               else if classify a \<noteq> Argument then None
               else case map_of build_parser (cmd, a) of
                 None \<Rightarrow> Some (ParseExit 2)
               | Some l \<Rightarrow>
                   (case parse_leaf F l us of
                      Some (Parsed ns) \<Rightarrow> Some (Parsed ((action_attribute cmd, TextValue a) # ns))
                    | r \<Rightarrow> r)))"

definition is_command :: "string \<Rightarrow> bool" where
  "is_command cmd \<longleftrightarrow> cmd \<in> (fst \<circ> fst) ` set build_parser"

fun parse_args :: "(string \<Rightarrow> real option) \<Rightarrow> arg_value \<Rightarrow> string list \<Rightarrow> parsed option" where
  "parse_args F ws [] = Some (Parsed [(''workspace'', ws), (''command'', NoValue)])"
| "parse_args F ws (t # ts) =
     (case classify t of
        Unclear \<Rightarrow> None
      | Argument \<Rightarrow>
          if is_command t
          then (case parse_command F t ts of
                  Some (Parsed ns) \<Rightarrow> Some (Parsed ((''workspace'', ws) # (''command'', TextValue t) # ns))
                | r \<Rightarrow> r)
          else Some (ParseExit 2)
      | Option \<Rightarrow>
          if help_flag t \<or> t = ''--version'' then Some (ParseExit 0)
          else if t = ''--workspace''
               then (case ts of
                       [] \<Rightarrow> Some (ParseExit 2)
                     | w # us \<Rightarrow>
                         (case classify w of
                            Unclear \<Rightarrow> None
                          | Option \<Rightarrow> Some (ParseExit 2)
                          | Argument \<Rightarrow> parse_args F (TextValue w) us))
               else None)"

end
