(* ===== verification/Operations.thy ===== *)
theory Operations
  imports Lifecycle
begin

text \<open>
  The operations by which the running service writes to its database: the writing methods of the class
  \<open>Database\<close> (\<open>src/botflow/storage/db.py\<close>) and the statements that other modules run through its
  \<open>execute_write\<close> (\<open>auth.py\<close> 278, \<open>admin_api.py\<close> 214, 216 and 267, \<open>storage/daily_summary.py\<close> 179). There
  is one connection, and a method ends with its commit, so the requests and the background tasks, however
  the event loop interleaves them, come to the database as a list of operations. \<open>Clock\<close> is the time that
  passes between two of them. An operation that raises leaves the database as it is.
\<close>

datatype db_op =
    Clock int
  | Set_config int string string
  | Delete_config string
  | Delete_config_like string
  | Cleanup_config real string int
  | Save_cooldowns int "saved_cooldown list"
  | Clear_cooldowns
  | Create_provider provider
  | Update_provider int "provider_update list"
  | Rewrite_provider int string string string string bool "dict option"
  | Delete_provider int
  | Create_model model
  | Update_model int "model_update list"
  | Upsert_model model
  | Rewrite_model int string int bool string string int int int "dict option"
  | Delete_model int
  | Create_group model_group
  | Update_group int "group_update list"
  | Rewrite_group int string string bool "int option" string "dict option"
  | Delete_group int
  | Add_member int int real
  | Remove_member int int
  | Set_weight int int real
  | Write_log string call_log
  | Write_attempts string "call_attempt list"
  | Delete_logs string
  | Purge_detail nat nat
  | Create_key string string
  | Update_key int "string option" "bool option"
  | Enable_key int bool
  | Delete_key int
  | Store_summary string string string
  | Save_session string string
  | Delete_sessions string
  | Delete_summaries string

definition delete_config_like :: "string \<Rightarrow> db \<Rightarrow> db" where
  "delete_config_like pat db = db\<lparr>config := filter (\<lambda>kv. \<not> sql_like pat (fst kv)) (config db)\<rparr>"

text \<open>What the database is after an operation that may raise.\<close>

definition after_write :: "db res \<Rightarrow> db \<Rightarrow> db" where
  "after_write r db = (case r of Inl _ \<Rightarrow> db | Inr db' \<Rightarrow> db')"

definition after_insert :: "('a \<times> db) res \<Rightarrow> db \<Rightarrow> db" where
  "after_insert r db = (case r of Inl _ \<Rightarrow> db | Inr (_, db') \<Rightarrow> db')"

fun apply_op :: "(string \<Rightarrow> string) \<Rightarrow> (json \<Rightarrow> string) \<Rightarrow> db_op \<Rightarrow> db \<Rightarrow> db" where
  "apply_op sha dumps (Clock t) db = db\<lparr>sql_now := t\<rparr>"
| "apply_op sha dumps (Set_config now k v) db = set_config now k v db"
| "apply_op sha dumps (Delete_config k) db = delete_config k db"
| "apply_op sha dumps (Delete_config_like pat) db = delete_config_like pat db"
| "apply_op sha dumps (Cleanup_config now pat age) db = snd (cleanup_config_by_prefix now pat age db)"
| "apply_op sha dumps (Save_cooldowns now ss) db = save_cooldown_state dumps now ss db"
| "apply_op sha dumps Clear_cooldowns db = clear_cooldown_states db"
| "apply_op sha dumps (Create_provider p) db = after_insert (create_provider p db) db"
| "apply_op sha dumps (Update_provider i us) db = after_write (update_provider i us db) db"
| "apply_op sha dumps (Rewrite_provider i name kind url key on extra) db =
     after_write (update_provider_raw i name kind url key on extra db) db"
| "apply_op sha dumps (Delete_provider i) db = snd (delete_provider i db)"
| "apply_op sha dumps (Create_model m) db = after_insert (create_model m db) db"
| "apply_op sha dumps (Update_model i us) db = after_write (update_model i us db) db"
| "apply_op sha dumps (Upsert_model m) db = after_insert (upsert_model m db) db"
| "apply_op sha dumps (Rewrite_model i name window on shown format retries secs threshold extra) db =
     after_write (update_model_raw i name window on shown format retries secs threshold extra db) db"
| "apply_op sha dumps (Delete_model i) db = snd (delete_model i db)"
| "apply_op sha dumps (Create_group g) db = after_insert (create_group g db) db"
| "apply_op sha dumps (Update_group i us) db = after_write (update_group i us db) db"
| "apply_op sha dumps (Rewrite_group i name descr on fallback kind params) db =
     after_write (update_group_raw i name descr on fallback kind params db) db"
| "apply_op sha dumps (Delete_group i) db = snd (delete_group i db)"
| "apply_op sha dumps (Add_member gid mid w) db = after_insert (add_model_to_group gid mid w db) db"
| "apply_op sha dumps (Remove_member gid mid) db = remove_model_from_group gid mid db"
| "apply_op sha dumps (Set_weight gid mid w) db = update_model_weight gid mid w db"
| "apply_op sha dumps (Write_log now l) db = after_insert (create_call_log now l db) db"
| "apply_op sha dumps (Write_attempts now as) db = snd (create_call_attempts now as db)"
| "apply_op sha dumps (Delete_logs cutoff) db = snd (delete_old_call_logs cutoff db)"
| "apply_op sha dumps (Purge_detail now days) db = snd (purge_old_detail now days db)"
| "apply_op sha dumps (Create_key key label) db = after_insert (create_api_key sha key label db) db"
| "apply_op sha dumps (Update_key i label on) db = snd (update_api_key i label on db)"
| "apply_op sha dumps (Enable_key i on) db = snd (set_api_key_enabled i on db)"
| "apply_op sha dumps (Delete_key i) db = snd (delete_api_key i db)"
| "apply_op sha dumps (Store_summary day md st) db = upsert_daily_summary day md st db"
| "apply_op sha dumps (Save_session day blob) db = save_raw_session day blob db"
| "apply_op sha dumps (Delete_sessions cutoff) db = snd (delete_old_raw_sessions cutoff db)"
| "apply_op sha dumps (Delete_summaries cutoff) db = snd (delete_old_daily_summaries cutoff db)"

definition apply_ops :: "(string \<Rightarrow> string) \<Rightarrow> (json \<Rightarrow> string) \<Rightarrow> db_op list \<Rightarrow> db \<Rightarrow> db" where
  "apply_ops sha dumps = fold (apply_op sha dumps)"

end
