(* ===== verification/Cli.thy ===== *)
theory Cli
  imports Cli_Args Summary Sync Operations
begin

text \<open>
  The commands of \<open>src/botflow/cli/main.py\<close>. A command gets the namespace and the state of its process, a
  gateway that has just been created on the database of the workspace, and gives the lines it prints, how it
  ends and the new state. An exception ends the process with a traceback.

  \<open>cli_lib\<close> holds what is not the program's own: the JSON text of a pydantic model, the text of a float,
  the clock, the hash, and what the other components take as parameters. Integers fit SQLite's 64 bits and
  weights are real numbers. The arrow and the ellipsis are written in UTF-8.
\<close>

record 'w cli_lib =
  li_dumps :: "json \<Rightarrow> string"
  li_provider :: "int \<times> provider \<Rightarrow> string"
  li_model :: "int \<times> model \<Rightarrow> string"
  li_group :: "int \<times> model_group \<Rightarrow> string"
  li_model_stats :: "model_stats \<Rightarrow> string"
  li_group_stats :: "group_stats \<Rightarrow> string"
  li_float :: "real \<Rightarrow> string"
  li_sum :: "real \<Rightarrow> string"
  li_cents :: "real \<Rightarrow> string"
  li_stamp :: "string \<Rightarrow> string"
  li_number :: "json \<Rightarrow> string"
  li_error :: "exc \<Rightarrow> string"
  li_errors :: "string list \<Rightarrow> string"
  li_now :: nat
  li_us :: nat
  li_sha :: "string \<Rightarrow> string"
  li_retention :: int
  li_default_retention :: int
  li_summary_group :: string
  li_fetch :: "'w fetch"
  li_summary :: "'w summary_lib"
  li_num :: "string \<Rightarrow> real"
  li_day_of :: "int \<Rightarrow> string \<Rightarrow> string"
  li_order :: "call_log order_by"

datatype ending = Done | Exits int | Raises exc

type_synonym 'w run = "string list \<times> ending \<times> 'w gw"

definition say :: "string list \<Rightarrow> 'w gw \<Rightarrow> 'w run" where
  "say ls g = (ls, Done, g)"

definition fail :: "string list \<Rightarrow> 'w gw \<Rightarrow> 'w run" where
  "fail ls g = (ls, Exits 1, g)"

definition put_db :: "db \<Rightarrow> 'w gw \<Rightarrow> 'w gw" where
  "put_db db g = g\<lparr>gw_db := db\<rparr>"

text \<open>A write that may raise, and what is printed after it.\<close>

definition write_then :: "db res \<Rightarrow> string list \<Rightarrow> 'w gw \<Rightarrow> 'w run" where
  "write_then r ls g = (case r of Inl e \<Rightarrow> ([], Raises e, g) | Inr db \<Rightarrow> say ls (put_db db g))"

definition created :: "(int \<times> db) res \<Rightarrow> (int \<Rightarrow> string list) \<Rightarrow> 'w gw \<Rightarrow> 'w run" where
  "created r ls g = (case r of Inl e \<Rightarrow> ([], Raises e, g) | Inr (i, db) \<Rightarrow> say (ls i) (put_db db g))"

subsection \<open>Attributes of the namespace\<close>

fun text_value :: "arg_value \<Rightarrow> string" where
  "text_value (TextValue s) = s"
| "text_value _ = ''''"

fun int_value :: "arg_value \<Rightarrow> int" where
  "int_value (IntValue i) = i"
| "int_value _ = 0"

fun real_value :: "arg_value \<Rightarrow> real" where
  "real_value (RealValue x) = x"
| "real_value _ = 0"

fun bool_value :: "arg_value \<Rightarrow> bool" where
  "bool_value (BoolValue b) = b"
| "bool_value _ = False"

definition arg_text :: "namespace \<Rightarrow> string \<Rightarrow> string" where
  "arg_text ns k = text_value (arg ns k)"

definition arg_int :: "namespace \<Rightarrow> string \<Rightarrow> int" where
  "arg_int ns k = int_value (arg ns k)"

definition arg_real :: "namespace \<Rightarrow> string \<Rightarrow> real" where
  "arg_real ns k = real_value (arg ns k)"

definition arg_flag :: "namespace \<Rightarrow> string \<Rightarrow> bool" where
  "arg_flag ns k = bool_value (arg ns k)"

definition given :: "namespace \<Rightarrow> string \<Rightarrow> bool" where
  "given ns k \<longleftrightarrow> arg ns k \<noteq> NoValue"

definition int_or :: "int \<Rightarrow> int \<Rightarrow> int" where
  "int_or i d = (if i \<noteq> 0 then i else d)"

definition real_or :: "real \<Rightarrow> real \<Rightarrow> real" where
  "real_or x d = (if x \<noteq> 0 then x else d)"

definition enabled_text :: "bool \<Rightarrow> string" where
  "enabled_text b = (if b then ''enabled'' else ''disabled'')"

definition arrow :: string where
  "arrow = map char_of [226, 134, 146 :: nat]"

subsection \<open>Configuration\<close>

definition legacy_label :: string where
  "legacy_label = ''legacy:llm_key''"

definition cmd_set :: "'w cli_lib \<Rightarrow> namespace \<Rightarrow> 'w gw \<Rightarrow> 'w run" where
  "cmd_set L ns g =
     (let k = arg_text ns ''key''; v = arg_text ns ''value''; db = set_config (int (li_now L)) k v (gw_db g);
          line = ''Config set: '' @ k @ '' = '' @ v in
      if k = ''llm_key'' \<and> v \<noteq> '''' \<and> list_api_keys db = []
      then case create_api_key (li_sha L) v legacy_label db of
             Inl e \<Rightarrow> ([], Raises e, put_db db g)
           | Inr (_, db') \<Rightarrow>
               say [line, ''  '' @ arrow @ '' Auto-registered as API key (label: legacy:llm_key) for backward compatibility.'']
                 (put_db db' g)
      else say [line] (put_db db g))"

definition apostrophe :: string where
  "apostrophe = [CHR 0x27]"

definition cmd_get :: "namespace \<Rightarrow> 'w gw \<Rightarrow> 'w run" where
  "cmd_get ns g =
     (let k = arg_text ns ''key''; v = (case get_config k (gw_db g) of None \<Rightarrow> '''' | Some v \<Rightarrow> v) in
      if v \<noteq> '''' then say [k @ '' = '' @ v] g
      else fail [''Config '' @ apostrophe @ k @ apostrophe @ '' not set.''] g)"

definition cmd_config :: "'w gw \<Rightarrow> 'w run" where
  "cmd_config g =
     (let entries = sort_key fst (config (gw_db g)) in
      if entries = [] then say [''No config values set.''] g
      else say (map (\<lambda>(k, v, _). k @ '' = '' @ v) entries) g)"

text \<open>The days given are those of the namespace; the purge that is called without them uses the settings
  that are loaded without the workspace.\<close>

definition cmd_cleanup :: "'w cli_lib \<Rightarrow> namespace \<Rightarrow> 'w gw \<Rightarrow> 'w run" where
  "cmd_cleanup L ns g =
     (let days = int_or (arg_int ns ''days'') (li_retention L);
          (deleted, db) =
            (if \<not> given ns ''days'' then purge_old_call_logs (li_now L) (li_us L) (li_default_retention L) (gw_db g)
             else delete_old_call_logs (iso_cutoff (li_now L) (li_us L) days) (gw_db g))
      in say [''Cleaned up '' @ str_int (int deleted) @ '' records older than '' @ str_int days @ '' days.''] (put_db db g))"

subsection \<open>Client keys\<close>

definition key_line :: "int \<times> api_key \<Rightarrow> string" where
  "key_line k = ''  ['' @ str_int (fst k) @ ''] '' @ py_take 8 (ak_key_hash (snd k)) @ ellipsis @ '' (label='' @
     (if ak_label (snd k) \<noteq> '''' then ak_label (snd k) else ''-'') @ '') ['' @ enabled_text (ak_is_enabled (snd k)) @ '']''"

text \<open>\<open>s[-n:]\<close> in characters.\<close>

definition py_last :: "nat \<Rightarrow> string \<Rightarrow> string" where
  "py_last n s = drop (length (py_take (py_len s - n) s)) s"

definition masked_key :: "string \<Rightarrow> string" where
  "masked_key k = (if py_len k > 8 then py_take 4 k @ ellipsis @ py_last 4 k else ''****'')"

definition key_result :: "bool \<Rightarrow> int \<Rightarrow> string \<Rightarrow> string list" where
  "key_result ok i text = [''API key '' @ str_int i @ (if ok then text else '' not found.'')]"

definition cmd_apikey :: "'w cli_lib \<Rightarrow> namespace \<Rightarrow> 'w gw \<Rightarrow> 'w run" where
  "cmd_apikey L ns g =
     (let act = arg_text ns ''apikey_action''; i = arg_int ns ''id''; db = gw_db g in
      if act = ''list'' then
        (if list_api_keys db = [] then say [''No API keys registered.''] g else say (map key_line (list_api_keys db)) g)
      else if act = ''add'' then
        (case create_api_key (li_sha L) (arg_text ns ''key'') (arg_text ns ''label'') db of
           Inl e \<Rightarrow> ([], Raises e, g)
         | Inr (None, db') \<Rightarrow> ([], Raises (raised_by_python AttributeErrorExc), put_db db' g)
         | Inr (Some k, db') \<Rightarrow>
             say [''API key created: id='' @ str_int (fst k) @ '' (raw key shown once: '' @ masked_key (arg_text ns ''key'') @ '')'']
               (put_db db' g))
      else if act = ''disable'' \<or> act = ''enable'' then
        (let (ok, db') = set_api_key_enabled i (act = ''enable'') db
         in say (key_result ok i ('' '' @ act @ ''d.'')) (put_db db' g))
      else if act = ''update'' then
        (let label = (if given ns ''label'' then Some (arg_text ns ''label'') else None);
             enabled = (if given ns ''enabled'' then Some (arg_text ns ''enabled'' = ''true'') else None);
             (ok, db') = update_api_key i label enabled db;
             parts = (case label of None \<Rightarrow> [] | Some l \<Rightarrow> [''label='' @ l]) @
               (case enabled of None \<Rightarrow> [] | Some b \<Rightarrow> [''enabled='' @ (if b then ''True'' else ''False'')])
         in say (key_result ok i ('' updated: '' @ join '', '' parts @ ''.'')) (put_db db' g))
      else if act = ''delete'' then
        (let (ok, db') = delete_api_key i db in say (key_result ok i '' deleted.'') (put_db db' g))
      else say [] g)"

subsection \<open>Daily summary\<close>

definition cmd_summary :: "'w cli_lib \<Rightarrow> 'w env \<Rightarrow> namespace \<Rightarrow> 'w gw \<Rightarrow> 'w run" where
  "cmd_summary L env ns g =
     (let day = (if given ns ''day'' then Some (arg_text ns ''day'') else None) in
      case run_daily_summary (li_summary L) env (li_summary_group L) (li_now L) day g of
        (Inl e, g1) \<Rightarrow> ([], Raises e, g1)
      | (Inr _, g1) \<Rightarrow>
          (case day of
             None \<Rightarrow> say [] g1
           | Some d \<Rightarrow>
               if d = '''' then say [] g1
               else case get_daily_summary d (gw_db g1) of
                 None \<Rightarrow> say [] g1
               | Some (md, _) \<Rightarrow> say [if md \<noteq> '''' then md else ''(no wiki text; stats only)''] g1))"

subsection \<open>Providers\<close>

definition provider_line :: "int \<times> provider \<Rightarrow> string" where
  "provider_line p = ''  ['' @ str_int (fst p) @ ''] '' @ p_name (snd p) @ '' ('' @ p_provider_type (snd p) @ '') ['' @
     enabled_text (p_is_enabled (snd p)) @ '']''"

definition provider_updates :: "namespace \<Rightarrow> provider_update list" where
  "provider_updates ns =
     (if arg_text ns ''name'' \<noteq> '''' then [SetPName (arg_text ns ''name'')] else []) @
     (if arg_text ns ''api_key'' \<noteq> '''' then [SetPApiKey (arg_text ns ''api_key'')] else []) @
     (if arg_text ns ''base_url'' \<noteq> '''' then [SetPBaseUrl (arg_text ns ''base_url'')] else []) @
     (if given ns ''enabled'' then [SetPIsEnabled (arg_flag ns ''enabled'')] else [])"

definition cmd_provider :: "'w cli_lib \<Rightarrow> namespace \<Rightarrow> 'w gw \<Rightarrow> 'w run" where
  "cmd_provider L ns g =
     (let act = arg_text ns ''provider_action''; i = arg_int ns ''id''; db = gw_db g in
      if act = ''list'' then
        (let ps = list_providers (arg_flag ns ''enabled'') db
         in if ps = [] then say [''No providers found.''] g else say (map provider_line ps) g)
      else if act = ''get'' then
        (case get_provider i db of
           None \<Rightarrow> fail [''Provider '' @ str_int i @ '' not found.''] g
         | Some p \<Rightarrow> say [li_provider L p] g)
      else if act = ''add'' then
        created (create_provider \<lparr>p_name = arg_text ns ''name'', p_provider_type = arg_text ns ''type'',
            p_api_key = arg_text ns ''api_key'', p_base_url = arg_text ns ''base_url'', p_extra_config = [],
            p_is_enabled = True, p_created_at = sql_now db, p_updated_at = sql_now db\<rparr> db)
          (\<lambda>pid. [''Provider created: id='' @ str_int pid]) g
      else if act = ''update'' then
        (if provider_updates ns = [] then fail [''No updates specified.''] g
         else write_then (update_provider i (provider_updates ns) db) [''Provider '' @ str_int i @ '' updated.''] g)
      else if act = ''delete'' then
        say [''Provider '' @ str_int i @ '' deleted.''] (put_db (snd (delete_provider i db)) g)
      else say [] g)"

subsection \<open>Models\<close>

definition model_line :: "int \<times> model \<Rightarrow> string" where
  "model_line m = ''  ['' @ str_int (fst m) @ ''] '' @ m_name (snd m) @ '' (provider='' @ str_int (m_provider_id (snd m)) @ '')'' @
     (if m_api_format (snd m) \<noteq> '''' then '' api_format='' @ m_api_format (snd m) else '''') @
     '' ['' @ enabled_text (m_is_enabled (snd m)) @ '']''"

definition model_updates :: "namespace \<Rightarrow> db \<Rightarrow> model_update list" where
  "model_updates ns db =
     (if arg_text ns ''name'' \<noteq> '''' then [SetMName (arg_text ns ''name'')] else []) @
     (if arg_text ns ''display_name'' \<noteq> '''' then [SetMDisplayName (arg_text ns ''display_name'')] else []) @
     (if given ns ''api_format'' then [SetMApiFormat (arg_text ns ''api_format'')] else []) @
     (if given ns ''max_retries'' then [SetMMaxRetries (arg_int ns ''max_retries'')] else []) @
     (if given ns ''cooldown'' then [SetMCooldownSeconds (arg_int ns ''cooldown'')] else []) @
     (if given ns ''enabled'' then [SetMIsEnabled (arg_flag ns ''enabled'')] else []) @
     (if given ns ''proxy''
      then [SetMExtraConfig (dset ''proxy'' (JStr (arg_text ns ''proxy''))
              (case get_model (arg_int ns ''id'') db of None \<Rightarrow> [] | Some (_, m) \<Rightarrow> m_extra_config m))] else [])"

definition new_model :: "int \<Rightarrow> namespace \<Rightarrow> model" where
  "new_model now ns =
     \<lparr>m_name = arg_text ns ''name'', m_provider_id = arg_int ns ''provider_id'', m_display_name = arg_text ns ''display_name'',
      m_api_format = arg_text ns ''api_format'', m_max_retries = int_or (arg_int ns ''max_retries'') 3,
      m_cooldown_seconds = int_or (arg_int ns ''cooldown'') 60, m_cooldown_failure_threshold = 3,
      m_extra_config = (if arg_text ns ''proxy'' \<noteq> '''' then [(''proxy'', JStr (arg_text ns ''proxy''))] else []),
      m_is_enabled = True, m_context_window = 0, m_created_at = now, m_updated_at = now\<rparr>"

text \<open>One provider after the other; an exception is printed and the next one follows. The numbers are the totals.\<close>

definition sync_line :: "'w cli_lib \<Rightarrow> sync_summary \<Rightarrow> string" where
  "sync_line L s =
     (let parts = (if sy_added s \<noteq> 0 then [''added='' @ str_int (sy_added s)] else []) @
            (if sy_skipped s \<noteq> 0 then [''skipped='' @ str_int (sy_skipped s)] else []) @
            (if sy_errors s \<noteq> [] then [''errors='' @ li_errors L (sy_errors s)] else [])
      in ''  Result: '' @ (if parts = [] then ''no changes'' else join '', '' parts))"

fun cli_sync :: "'w cli_lib \<Rightarrow> int list \<Rightarrow> int \<Rightarrow> int \<Rightarrow> 'w gw \<Rightarrow> string list \<times> int \<times> int \<times> 'w gw" where
  "cli_sync L [] added skipped g = ([], added, skipped, g)"
| "cli_sync L (pid # pids) added skipped g =
     (let pname = (case get_provider pid (gw_db g) of Some (_, p) \<Rightarrow> p_name p | None \<Rightarrow> ''#'' @ str_int pid);
          head = ''Syncing models from provider ['' @ str_int pid @ ''] '' @ pname @ '' ...'' in
      case sync_models_from_provider (li_fetch L) pid g of
        (Inl e, g1) \<Rightarrow>
          (let (ls, r) = cli_sync L pids added skipped g1 in (head # (''  Error: '' @ li_error L e) # ls, r))
      | (Inr s, g1) \<Rightarrow>
          (let (ls, r) = cli_sync L pids (added + sy_added s) (skipped + sy_skipped s) g1 in (head # sync_line L s # ls, r)))"

definition sync_command :: "'w cli_lib \<Rightarrow> namespace \<Rightarrow> 'w gw \<Rightarrow> 'w run" where
  "sync_command L ns g =
     (let chosen = arg_int ns ''provider_id'';
          pids = (if chosen \<noteq> 0 then [chosen] else map fst (list_providers True (gw_db g))) in
      if pids = [] then fail [''No enabled providers found.''] g
      else let (ls, added, skipped, g1) = cli_sync L pids 0 0 g
           in say (ls @ ['''', ''Sync complete: total added='' @ str_int added @ '' skipped='' @ str_int skipped]) g1)"

definition cmd_model :: "'w cli_lib \<Rightarrow> namespace \<Rightarrow> 'w gw \<Rightarrow> 'w run" where
  "cmd_model L ns g =
     (let act = arg_text ns ''model_action''; i = arg_int ns ''id''; db = gw_db g in
      if act = ''list'' then
        (let ms = list_models None (arg_flag ns ''enabled'') db
         in if ms = [] then say [''No models found.''] g else say (map model_line ms) g)
      else if act = ''get'' then
        (case get_model i db of
           None \<Rightarrow> fail [''Model '' @ str_int i @ '' not found.''] g
         | Some m \<Rightarrow> say [li_model L m] g)
      else if act = ''add'' then
        created (create_model (new_model (sql_now db) ns) db)
          (\<lambda>mid. (''Model created: id='' @ str_int mid) #
             (if arg_text ns ''proxy'' \<noteq> '''' then [''  proxy='' @ arg_text ns ''proxy''] else [])) g
      else if act = ''update'' then
        (if model_updates ns db = [] then fail [''No updates specified.''] g
         else write_then (update_model i (model_updates ns db) db) [''Model '' @ str_int i @ '' updated.''] g)
      else if act = ''delete'' then
        say [''Model '' @ str_int i @ '' deleted.''] (put_db (snd (delete_model i db)) g)
      else if act = ''sync'' then sync_command L ns g
      else say [] g)"

subsection \<open>Groups\<close>

definition group_line :: "int \<times> model_group \<Rightarrow> string" where
  "group_line ig = ''  ['' @ str_int (fst ig) @ ''] '' @ g_name (snd ig) @ '' ['' @ enabled_text (g_is_enabled (snd ig)) @ '']'' @
     (case g_fallback_group_id (snd ig) of
        None \<Rightarrow> ''''
      | Some f \<Rightarrow> if f = 0 then '''' else '' fallback'' @ arrow @ str_int f)"

definition member_line :: "'w cli_lib \<Rightarrow> model_detail \<Rightarrow> string" where
  "member_line L d = ''  ['' @ str_int (d_model_id d) @ ''] '' @ d_model_name d @ '' (weight='' @ li_float L (d_weight d) @
     '', provider='' @ d_provider_name d @ '')''"

definition group_updates :: "namespace \<Rightarrow> group_update list" where
  "group_updates ns =
     (if arg_text ns ''name'' \<noteq> '''' then [SetGName (arg_text ns ''name'')] else []) @
     (if arg_text ns ''description'' \<noteq> '''' then [SetGDescription (arg_text ns ''description'')] else []) @
     (if given ns ''enabled'' then [SetGIsEnabled (arg_flag ns ''enabled'')] else []) @
     (if given ns ''fallback'' then [SetGFallback (Some (arg_int ns ''fallback''))] else [])"

definition show_group :: "'w cli_lib \<Rightarrow> int \<Rightarrow> 'w gw \<Rightarrow> 'w run" where
  "show_group L i g =
     (case get_group i (gw_db g) of
        None \<Rightarrow> fail [''Group '' @ str_int i @ '' not found.''] g
      | Some ig \<Rightarrow>
          (case get_group_models i False (gw_db g) of
             Inl e \<Rightarrow> ([li_group L ig], Raises e, g)
           | Inr ds \<Rightarrow> say (li_group L ig # (if ds = [] then [] else '''' # ''Models:'' # map (member_line L) ds)) g))"

definition cmd_group :: "'w cli_lib \<Rightarrow> namespace \<Rightarrow> 'w gw \<Rightarrow> 'w run" where
  "cmd_group L ns g =
     (let act = arg_text ns ''group_action''; i = arg_int ns ''id''; m = arg_int ns ''model_id''; db = gw_db g;
          here = '' group '' @ str_int i in
      if act = ''list'' then
        (let gs = list_groups (arg_flag ns ''enabled'') db
         in if gs = [] then say [''No groups found.''] g else say (map group_line gs) g)
      else if act = ''get'' then show_group L i g
      else if act = ''add'' then
        created (create_group \<lparr>g_name = arg_text ns ''name'', g_description = arg_text ns ''description'', g_type = ''random_weights'',
            g_params = [], g_is_enabled = True, g_fallback_group_id = None, g_created_at = sql_now db, g_updated_at = sql_now db\<rparr> db)
          (\<lambda>gid. [''Group created: id='' @ str_int gid]) g
      else if act = ''update'' then
        (if group_updates ns = [] then fail [''No updates specified.''] g
         else write_then (update_group i (group_updates ns) db) [''Group '' @ str_int i @ '' updated.''] g)
      else if act = ''delete'' then
        say [''Group '' @ str_int i @ '' deleted.''] (put_db (snd (delete_group i db)) g)
      else if act = ''add-model'' then
        (let w = real_or (arg_real ns ''weight'') 1
         in created (add_model_to_group i m w db)
              (\<lambda>_. [''Model '' @ str_int m @ '' added to'' @ here @ '' (weight='' @ li_float L w @ '').'']) g)
      else if act = ''remove-model'' then
        say [''Model '' @ str_int m @ '' removed from'' @ here @ ''.''] (put_db (remove_model_from_group i m db) g)
      else if act = ''set-weight'' then
        say [''Model '' @ str_int m @ '' weight in'' @ here @ '' set to '' @ li_float L (arg_real ns ''weight'') @ ''.'']
          (put_db (update_model_weight i m (arg_real ns ''weight'') db) g)
      else say [] g)"

subsection \<open>Statistics\<close>

definition cost_line :: "'w cli_lib \<Rightarrow> cost_row \<Rightarrow> string" where
  "cost_line L r = ''  '' @ cr_day r @ '': '' @ str_int (int (cr_total_calls r)) @ '' calls, '' @ li_sum L (cr_total_tokens r) @
     '' tokens, $'' @ li_cents L (cr_total_cost r)"

text \<open>A number of a call, or what stands for a missing one.\<close>

definition shown_number :: "'w cli_lib \<Rightarrow> json \<Rightarrow> string" where
  "shown_number L v = (if truthy v then li_number L v else ''0'')"

definition log_line :: "'w cli_lib \<Rightarrow> int \<times> call_log \<Rightarrow> string" where
  "log_line L r = (let l = snd r;
       model = (case cl_model_id l of Some i \<Rightarrow> if i \<noteq> 0 then str_int i else ''?'' | None \<Rightarrow> ''?'');
       dur = (case cl_duration_ms l of Some d \<Rightarrow> if d \<noteq> 0 then str_int d @ ''ms'' else ''?'' | None \<Rightarrow> ''?'')
     in ''  ['' @ cl_status l @ ''] model='' @ model @ '' '' @ dur @ '' '' @ shown_number L (cl_total_tokens l) @ ''tokens '' @ li_stamp L (cl_created_at l))"

definition cmd_stats :: "'w cli_lib \<Rightarrow> namespace \<Rightarrow> 'w gw \<Rightarrow> 'w run" where
  "cmd_stats L ns g =
     (let act = arg_text ns ''stats_action''; i = arg_int ns ''id''; db = gw_db g in
      if act = ''cost'' then
        (let days = int_or (arg_int ns ''days'') 30;
             cs = get_cost_summary (li_num L) (li_day_of L) (li_now L) (li_us L) days None db in
         if cs = [] then say [''No cost data found.''] g
         else say ((''Cost summary (last '' @ str_int days @ '' days):'') # map (cost_line L) cs) g)
      else if act = ''model'' then
        (case get_model_stats (li_num L) i None db of
           None \<Rightarrow> say [''No stats for model '' @ str_int i @ ''.''] g
         | Some s \<Rightarrow> say [li_model_stats L s] g)
      else if act = ''group'' then
        (case get_group_stats i None db of
           None \<Rightarrow> say [''No stats for group '' @ str_int i @ ''.''] g
         | Some s \<Rightarrow> say [li_group_stats L s] g)
      else if act = ''recent'' then
        (let logs = query_call_logs (li_order L)
               \<lparr>lf_group_id = None, lf_model_id = None, lf_provider_id = None, lf_api_key_id = None, lf_status = None, lf_error_type = None\<rparr>
               (int_or (arg_int ns ''limit'') 20) 0 db in
         if logs = [] then say [''No call logs found.''] g
         else say ((''Recent '' @ str_int (int (length logs)) @ '' calls:'') # map (log_line L) logs) g)
      else say [] g)"

subsection \<open>Service commands\<close>

text \<open>
  What the service commands need besides: the interpreter, the settings, and what \<open>run\<close> hands to \<open>uvicorn\<close>.

  \<open>sl_serve\<close> is the server between start-up and shutdown, with the clients and the clock: which operations the
  requests, the background tasks and the last flush of the log writer run on the database, how the server
  ends, and what it leaves of the host. \<open>sl_no_start\<close> is how it ends when the application does not start.
  \<open>sl_start\<close> and the token file are the inputs of the start-up in theory \<open>Accounts\<close>, \<open>sl_llm_key\<close> is the
  environment variable and \<open>sl_boot\<close> the monotonic clock of the new process.
\<close>

record ('w, 'o) service_lib =
  sl_os :: "'o os"
  sl_python :: string
  sl_workspace :: "arg_value \<Rightarrow> string"
  sl_decode :: "string \<Rightarrow> string"
  sl_config_host :: string
  sl_config_port :: int
  sl_pid :: int
  sl_sha :: "string \<Rightarrow> string"
  sl_loads :: "string \<Rightarrow> json option"
  sl_llm_key :: string
  sl_boot :: real
  sl_start :: "'o host \<Rightarrow> start_env"
  sl_token_file :: "'o \<Rightarrow> string option"
  sl_put_token_file :: "string option \<Rightarrow> 'o \<Rightarrow> 'o"
  sl_no_start :: "exc \<Rightarrow> ending"
  sl_serve :: "string \<Rightarrow> int \<Rightarrow> 'o host \<Rightarrow> db_op list \<times> ending \<times> 'o host"
  sl_json :: "json \<Rightarrow> string"
  sl_short :: "json \<Rightarrow> string"

type_synonym 'o service_run = "string list \<times> ending \<times> 'o host"

definition report_json :: "report \<Rightarrow> json" where
  "report_json r = JObj ([(''ok'', JBool (rp_ok r)), (''message'', JStr (rp_message r))] @
     (case rp_pid r of None \<Rightarrow> [] | Some p \<Rightarrow> [(''pid'', JInt p)]))"

definition print_report :: "('w, 'o) service_lib \<Rightarrow> report res \<times> 'o host \<Rightarrow> 'o service_run" where
  "print_report S rh = (case rh of
       (Inl e, h) \<Rightarrow> ([], Raises e, h)
     | (Inr r, h) \<Rightarrow> ([sl_json S (report_json r)], Exits (if rp_ok r then 0 else 1), h))"

text \<open>
  The application on the database of the workspace: the start-up of \<open>lifespan\<close>, and what is served after it.
  \<open>create_app\<close> only reads from the database, and nothing of the manager with the restored cooldowns is left
  when the process ends.
\<close>

definition serve_app :: "('w, 'o) service_lib \<Rightarrow> string \<Rightarrow> int \<Rightarrow> 'w gw \<Rightarrow> 'o host \<Rightarrow> ending \<times> 'w gw \<times> 'o host" where
  "serve_app S bind_host port g h =
     (let (r, s) = start_up (sl_sha S) (sl_short S) (sl_loads S) (sl_boot S) (sl_llm_key S) (sl_start S h)
            \<lparr>st_db = gw_db g, st_file = sl_token_file S (world h)\<rparr>;
          h1 = h\<lparr>world := sl_put_token_file S (st_file s) (world h)\<rparr>
      in case r of
           Inl e \<Rightarrow> (sl_no_start S e, put_db (st_db s) g, h1)
         | Inr _ \<Rightarrow>
             (let (ops, e, h2) = sl_serve S bind_host port h1
              in (e, put_db (apply_ops (sl_sha S) (sl_short S) ops (st_db s)) g, h2)))"

text \<open>The host and the port of the namespace replace those of the settings; the file is removed at the end.\<close>

definition cmd_run :: "('w, 'o) service_lib \<Rightarrow> namespace \<Rightarrow> 'w gw \<Rightarrow> 'o host \<Rightarrow> string list \<times> ending \<times> 'w gw \<times> 'o host" where
  "cmd_run S ns g h =
     (let bind_host = (if arg_text ns ''host'' \<noteq> '''' then arg_text ns ''host'' else sl_config_host S);
          port = int_or (arg_int ns ''port'') (sl_config_port S);
          (e, g1, h1) = serve_app S bind_host port g (write_pid (sl_os S) (sl_pid S) h)
      in ([], e, g1, clear_pid (sl_os S) h1))"

definition cmd_stop :: "('w, 'o) service_lib \<Rightarrow> 'o host \<Rightarrow> 'o service_run option" where
  "cmd_stop S h = map_option (print_report S) (stop_service (sl_os S) 10 h)"

definition cmd_restart :: "('w, 'o) service_lib \<Rightarrow> namespace \<Rightarrow> 'o host \<Rightarrow> 'o service_run option" where
  "cmd_restart S ns h =
     map_option (print_report S)
       (restart_service (sl_os S) (sl_python S) (sl_workspace S (arg ns ''workspace''))
          (if arg_text ns ''host'' \<noteq> '''' then arg_text ns ''host'' else ''0.0.0.0'') (int_or (arg_int ns ''port'') 8080)
          (if given ns ''config'' then Some (arg_text ns ''config'') else None) 2 h)"

definition cmd_status :: "('w, 'o) service_lib \<Rightarrow> namespace \<Rightarrow> 'o host \<Rightarrow> 'o service_run" where
  "cmd_status S ns h =
     (case get_status (sl_os S) (int_or (arg_int ns ''port'') 8080) h of
        (Inl e, h1) \<Rightarrow> ([], Raises e, h1)
      | (Inr s, h1) \<Rightarrow>
          ([''PID:      '' @ (case ss_pid s of None \<Rightarrow> ''N/A'' | Some p \<Rightarrow> if p = 0 then ''N/A'' else str_int p),
            ''Running:  '' @ (if ss_running s then ''yes'' else ''no''),
            if truthy (ss_health s) then ''Health:   '' @ sl_short S (ss_health s) else ''Health:   (not reachable)''], Done, h1))"

definition cmd_logs :: "('w, 'o) service_lib \<Rightarrow> namespace \<Rightarrow> 'o host \<Rightarrow> 'o service_run" where
  "cmd_logs S ns h =
     ([tail_logs (sl_os S) (sl_decode S) (sl_workspace S (arg ns ''workspace'')) (int_or (arg_int ns ''lines'') 50) h], Done, h)"

subsection \<open>The program\<close>

definition cmd_version :: "'w gw \<Rightarrow> 'w run" where
  "cmd_version g = say [''botflow v3.1.0''] g"

text \<open>The handler of a namespace: only leaves have one, so a command with actions that is given none raises.\<close>

definition db_command :: "'w cli_lib \<Rightarrow> 'w env \<Rightarrow> namespace \<Rightarrow> 'w gw \<Rightarrow> 'w run option" where
  "db_command L env ns g =
     (let cmd = arg_text ns ''command'' in
      if cmd = ''set'' then Some (cmd_set L ns g)
      else if cmd = ''get'' then Some (cmd_get ns g)
      else if cmd = ''config'' then Some (cmd_config g)
      else if cmd = ''cleanup'' then Some (cmd_cleanup L ns g)
      else if cmd = ''summary'' then Some (cmd_summary L env ns g)
      else if cmd = ''version'' then Some (cmd_version g)
      else if cmd \<in> {''apikey'', ''provider'', ''model'', ''group'', ''stats''} then
        Some (if \<not> given ns (action_attribute cmd) then ([], Raises (raised_by_python AttributeErrorExc), g)
              else if cmd = ''apikey'' then cmd_apikey L ns g
              else if cmd = ''provider'' then cmd_provider L ns g
              else if cmd = ''model'' then cmd_model L ns g
              else if cmd = ''group'' then cmd_group L ns g
              else cmd_stats L ns g)
      else None)"

definition service_command :: "('w, 'o) service_lib \<Rightarrow> namespace \<Rightarrow> 'o host \<Rightarrow> 'o service_run option" where
  "service_command S ns h =
     (let cmd = arg_text ns ''command'' in
      if cmd = ''stop'' then cmd_stop S h
      else if cmd = ''restart'' then cmd_restart S ns h
      else if cmd = ''status'' then Some (cmd_status S ns h)
      else if cmd = ''logs'' then Some (cmd_logs S ns h)
      else None)"

text \<open>The whole program on the arguments of the command line; \<open>None\<close> when parsing is outside the model or a
  stop does not end. Without a command the help is printed.\<close>

definition main :: "(string \<Rightarrow> real option) \<Rightarrow> 'w cli_lib \<Rightarrow> ('w, 'o) service_lib \<Rightarrow> 'w env \<Rightarrow> string list \<Rightarrow> 'w gw \<Rightarrow> 'o host \<Rightarrow>
    (string list \<times> ending \<times> 'w gw \<times> 'o host) option" where
  "main F L S env argv g h =
     (case parse_args F NoValue argv of
        None \<Rightarrow> None
      | Some (ParseExit c) \<Rightarrow> Some ([], Exits c, g, h)
      | Some (Parsed ns) \<Rightarrow>
          if \<not> given ns ''command'' then Some ([], Exits 0, g, h)
          else case db_command L env ns g of
            Some (ls, e, g') \<Rightarrow> Some (ls, e, g', h)
          | None \<Rightarrow>
              if arg_text ns ''command'' = ''run'' then Some (cmd_run S ns g h)
              else map_option (\<lambda>(ls, e, h'). (ls, e, g, h')) (service_command S ns h))"

end
