(* ===== verification/Cli_Facts.thy ===== *)
theory Cli_Facts
  imports Cli Service_Facts Sync_Facts Summary_Facts Admin_Facts
begin

text \<open>
  What the command line promises: the command that a restart runs is understood as the one meant, no command
  breaks the schema, and a change made on the command line is the change the management API would make.
\<close>

subsection \<open>Numbers on the command line\<close>

lemma classify_digit: "s \<noteq> [] \<Longrightarrow> is_digit (hd s) \<Longrightarrow> classify s = Argument"
  using digit_facts [of "hd s"] by (simp add: classify_def)

lemma classify_str_int: assumes "0 \<le> i" shows "classify (str_int i) = Argument"
proof (rule classify_digit)
  have "is_digit (hd s)" if "list_all is_digit s" "s \<noteq> []" for s using that by (cases s) auto
  then show "is_digit (hd (str_int i))" using assms nat_digits_all [of "nat i"] by (simp add: str_int_def)
qed (use assms in \<open>simp add: str_int_def\<close>)

subsection \<open>The command of a restart\<close>

lemma fixed_tokens:
  "classify ''--workspace'' = Option" "classify ''run'' = Argument" "classify ''--host'' = Option"
  "classify ''--port'' = Option" "classify ''--config'' = Option"
  "\<not> help_flag ''--workspace''" "\<not> help_flag ''--host''" "\<not> help_flag ''--port''" "\<not> help_flag ''--config''" "is_command ''run''"
  by code_simp+

definition run_options :: "opt list" where
  "run_options = [opt_of ''--host'' TextArg (TextValue ''0.0.0.0''), opt_of ''--port'' IntArg (IntValue 8080), opt_of ''--config'' TextArg NoValue]"

lemma run_leaf: "map_of build_parser (''run'', '''') = Some (leaf_of [] run_options)"
  by (simp add: build_parser_def service_parsers_def run_options_def)

lemma run_flags:
  "find_opt run_options ''--host'' = Some (opt_of ''--host'' TextArg (TextValue ''0.0.0.0''))"
  "find_opt run_options ''--port'' = Some (opt_of ''--port'' IntArg (IntValue 8080))"
  "find_opt run_options ''--config'' = Some (opt_of ''--config'' TextArg NoValue)"
  by code_simp+

lemma run_dests [simp]: "op_kind (opt_of f t d) = Takes t d" "op_dest (opt_of f t d) = dest_of f"
  by (simp_all add: opt_of_def)

lemma run_dest_names: "dest_of ''--host'' = ''host''" "dest_of ''--port'' = ''port''" "dest_of ''--config'' = ''config''"
  by code_simp+

lemma run_tokens_last:
  "classify cfg = Argument \<Longrightarrow> cfg \<noteq> '''' \<Longrightarrow>
    parse_tokens F run_options [''--config'', cfg] [] False ns = Some (Parsed ((''config'', TextValue cfg) # ns), [], False)"
  by (simp add: fixed_tokens run_flags run_dest_names convert_def)

lemma run_tokens:
  assumes "classify h = Argument" "classify p = Argument" "py_int p = Some port"
  shows "parse_tokens F run_options (''--host'' # h # ''--port'' # p # ts) [] False ns =
    parse_tokens F run_options ts [] False ((''port'', IntValue port) # (''host'', TextValue h) # ns)"
  by (simp add: fixed_tokens run_flags run_dest_names convert_def assms)

lemma run_parses:
  assumes "classify bind_host = Argument" "0 \<le> port" "port \<le> 65535" "classify cfg = Argument"
  shows "parse_leaf F (leaf_of [] run_options)
      (''--host'' # bind_host # ''--port'' # str_int port # (if cfg = [] then [] else [''--config'', cfg])) =
    Some (Parsed ((if cfg = [] then [] else [(''config'', TextValue cfg)]) @
      [(''port'', IntValue port), (''host'', TextValue bind_host)] @ map opt_default run_options))"
proof -
  have port: "py_int (str_int port) = Some port" "classify (str_int port) = Argument"
    using assms(2,3) by (simp_all add: py_int_str_int classify_str_int)
  have optional: "list_ex (\<lambda>o1. op_required o1 \<and> P o1) run_options = False" for P
    by (simp add: run_options_def opt_of_def)
  have none: "parse_tokens F run_options [] [] False ns = Some (Parsed ns, [], False)" for ns by simp
  note tokens = run_tokens [OF assms(1) port(2,1)]
  show ?thesis
  proof (cases "cfg = []")
    case True
    then show ?thesis unfolding parse_leaf_def leaf_of_def by (simp add: tokens optional del: parse_tokens.simps) (simp add: optional)
  next
    case False
    then show ?thesis unfolding parse_leaf_def leaf_of_def
      by (simp add: tokens run_tokens_last [OF assms(4)] optional del: parse_tokens.simps)
  qed
qed

lemma opt_default_of [simp]: "opt_default (opt_of f t d) = (dest_of f, d)"
  by (simp add: opt_default_def opt_of_def)

text \<open>C34: a restart starts what it means to start. The command line that \<open>restart_service\<close> runs, after the
  interpreter and the module, is accepted by the parser: it is the command \<open>run\<close> on the same workspace, host,
  port and configuration, provided that these do not look like options.\<close>

theorem restart_command_parses:
  assumes "classify ws = Argument" "classify bind_host = Argument" "0 \<le> port" "port \<le> 65535" "classify cfg = Argument"
  shows "\<exists>ns. parse_args F NoValue (drop 3 (restart_command python ws bind_host port (Some cfg))) = Some (Parsed ns) \<and>
    arg ns ''workspace'' = TextValue ws \<and> arg ns ''command'' = TextValue ''run'' \<and> arg ns ''host'' = TextValue bind_host \<and>
    arg ns ''port'' = IntValue port \<and> arg ns ''config'' = (if cfg = [] then NoValue else TextValue cfg)"
proof -
  have "drop 3 (restart_command python ws bind_host port (Some cfg)) =
      ''--workspace'' # ws # ''run'' # ''--host'' # bind_host # ''--port'' # str_int port # (if cfg = [] then [] else [''--config'', cfg])"
    by (simp add: restart_command_def)
  moreover have "parse_command F ''run'' (''--host'' # bind_host # ''--port'' # str_int port # (if cfg = [] then [] else [''--config'', cfg])) =
      Some (Parsed ((if cfg = [] then [] else [(''config'', TextValue cfg)]) @
        [(''port'', IntValue port), (''host'', TextValue bind_host)] @ map opt_default run_options))"
    unfolding parse_command_def run_leaf by (simp add: run_parses [OF assms(2-5)])
  ultimately show ?thesis
    using assms(1) by (auto simp: fixed_tokens arg_def run_options_def run_dest_names)
qed

theorem restart_command_parses_witness:
  "\<exists>ns. parse_args (\<lambda>_. None) NoValue (drop 3 (restart_command ''python'' ''/srv/bot'' ''0.0.0.0'' 8080 (Some ''/etc/bot.env''))) = Some (Parsed ns) \<and>
     arg ns ''port'' = IntValue 8080"
proof -
  have "classify ''/srv/bot'' = Argument" "classify ''0.0.0.0'' = Argument" "classify ''/etc/bot.env'' = Argument" by code_simp+
  note run = restart_command_parses [OF this(1,2) _ _ this(3), of _ "\<lambda>_. None" "''python''"]
  have "(0::int) \<le> 8080" "(8080::int) \<le> 65535" by simp_all
  from run [OF this] show ?thesis by blast
qed

subsection \<open>The schema\<close>

text \<open>A run whose result has a well-formed database; the rules follow the shape of the commands.\<close>

definition keeps :: "'w run \<Rightarrow> bool" where
  "keeps r \<longleftrightarrow> wf_db (gw_db (snd (snd r)))"

named_theorems keeps_rules

lemma wf_other_tables [simp]:
  "wf_db (db\<lparr>api_keys := t\<rparr>) = wf_db db" "wf_db (db\<lparr>call_logs := l\<rparr>) = wf_db db"
  "wf_db (db\<lparr>daily_summaries := d\<rparr>) = wf_db db" "wf_db (db\<lparr>raw_sessions := r\<rparr>) = wf_db db"
  by (simp_all add: wf_db_def models_ok_column group_models_ok_column)

lemma gw_db_put [simp]: "gw_db (put_db db g) = db"
  by (simp add: put_db_def)

lemma keeps_if [keeps_rules]: "keeps a \<Longrightarrow> keeps b \<Longrightarrow> keeps (if c then a else b)"
  by simp

lemma keeps_say [keeps_rules]: "wf_db (gw_db g) \<Longrightarrow> keeps (say ls g)"
  by (simp add: keeps_def say_def)

lemma keeps_fail [keeps_rules]: "wf_db (gw_db g) \<Longrightarrow> keeps (fail ls g)"
  by (simp add: keeps_def fail_def)

lemma keeps_raises [keeps_rules]: "wf_db (gw_db g) \<Longrightarrow> keeps (ls, Raises e, g)"
  by (simp add: keeps_def)

lemma keeps_write_then [keeps_rules]: "wf_db (gw_db g) \<Longrightarrow> (\<And>db. r = Inr db \<Longrightarrow> wf_db db) \<Longrightarrow> keeps (write_then r ls g)"
  by (simp add: write_then_def keeps_say keeps_raises split: sum.splits)

lemma keeps_created [keeps_rules]: "wf_db (gw_db g) \<Longrightarrow> (\<And>i db. r = Inr (i, db) \<Longrightarrow> wf_db db) \<Longrightarrow> keeps (created r ls g)"
  by (simp add: created_def keeps_say keeps_raises split: sum.splits)

lemma keeps_option [keeps_rules]:
  "keeps a \<Longrightarrow> (\<And>y. x = Some y \<Longrightarrow> keeps (b y)) \<Longrightarrow> keeps (case x of None \<Rightarrow> a | Some y \<Rightarrow> b y)"
  by (cases x) simp_all

lemma keeps_res [keeps_rules]:
  "(\<And>e. x = Inl e \<Longrightarrow> keeps (a e)) \<Longrightarrow> (\<And>y. x = Inr y \<Longrightarrow> keeps (b y)) \<Longrightarrow> keeps (case x of Inl e \<Rightarrow> a e | Inr y \<Rightarrow> b y)"
  by (cases x) simp_all

lemma keeps_pair [keeps_rules]: "(\<And>a b. p = (a, b) \<Longrightarrow> keeps (f a b)) \<Longrightarrow> keeps (case p of (a, b) \<Rightarrow> f a b)"
  by (cases p) simp

lemma wf_create_api_key: "create_api_key sha raw label db = Inr (k, db') \<Longrightarrow> wf_db db' = wf_db db"
  by (auto simp: create_api_key_def case_prod_beta Let_def)

lemma wf_set_config [simp]: "wf_db (set_config now k v db) = wf_db db"
  by (simp add: set_config_def)

lemma cmd_set_keeps: "wf_db (gw_db g) \<Longrightarrow> keeps (cmd_set L ns g)"
  unfolding cmd_set_def Let_def by (intro keeps_rules) (auto dest: wf_create_api_key)

lemma cmd_cleanup_keeps: "wf_db (gw_db g) \<Longrightarrow> keeps (cmd_cleanup L ns g)"
  unfolding cmd_cleanup_def Let_def
  by (intro keeps_rules) (auto simp: purge_old_call_logs_def delete_old_call_logs_def Let_def split: if_splits)

lemma cmd_apikey_keeps: "wf_db (gw_db g) \<Longrightarrow> keeps (cmd_apikey L ns g)"
  unfolding cmd_apikey_def Let_def
  by (intro keeps_rules) (auto dest: wf_create_api_key simp: set_api_key_enabled_def update_api_key_def delete_api_key_def split: if_splits)

lemma cmd_provider_keeps: "wf_db (gw_db g) \<Longrightarrow> keeps (cmd_provider L ns g)"
  unfolding cmd_provider_def Let_def
  by (intro keeps_rules) (auto intro: wf_create_provider wf_update_provider wf_delete_provider)

lemma cmd_group_keeps: "wf_db (gw_db g) \<Longrightarrow> keeps (cmd_group L ns g)"
  unfolding cmd_group_def show_group_def Let_def
  by (intro keeps_rules) (auto intro: wf_create_group wf_update_group wf_delete_group wf_add_member wf_remove_member wf_weight)

lemma wf_sync_items: "wf_db db \<Longrightarrow> wf_db (snd (sync_items pid ex items sm db))"
proof (induction pid ex items sm db rule: sync_items.induct)
  case (2 pid ex item items sm db)
  then show ?case using wf_create_model [OF "2.prems"] by (auto split: sum.splits option.splits)
qed simp

lemma wf_sync_provider: "wf_db (gw_db g) \<Longrightarrow> wf_db (gw_db (snd (sync_models_from_provider fetch pid g)))"
  by (simp add: sync_models_from_provider_def sync_body_def Let_def wf_sync_items split_def
      split: option.splits sum.splits json.splits)

lemma wf_cli_sync: "wf_db (gw_db g) \<Longrightarrow> wf_db (gw_db (snd (snd (snd (cli_sync L pids a s g)))))"
proof (induction pids arbitrary: a s g)
  case (Cons pid pids)
  have "wf_db (gw_db (snd (sync_models_from_provider (li_fetch L) pid g)))" using Cons.prems by (rule wf_sync_provider)
  then show ?case using Cons.IH by (cases "sync_models_from_provider (li_fetch L) pid g") (simp add: Let_def split_def split: sum.splits)
qed simp

lemma wf_cli_sync_run: "cli_sync L pids a s g = (ls, a', s', g') \<Longrightarrow> wf_db (gw_db g) \<Longrightarrow> wf_db (gw_db g')"
  using wf_cli_sync [of g L pids a s] by simp

lemma sync_command_keeps: "wf_db (gw_db g) \<Longrightarrow> keeps (sync_command L ns g)"
  unfolding sync_command_def Let_def
  by (intro keeps_rules) (auto intro: wf_cli_sync_run)

lemma cmd_model_keeps: "wf_db (gw_db g) \<Longrightarrow> keeps (cmd_model L ns g)"
  unfolding cmd_model_def Let_def
  by (intro keeps_rules sync_command_keeps) (auto intro: wf_create_model wf_update_model wf_delete_model)

lemma cmd_stats_same [simp]: "snd (snd (cmd_stats L ns g)) = g"
  unfolding cmd_stats_def Let_def by (simp add: say_def split: option.split)

lemma cmd_get_same [simp]: "snd (snd (cmd_get ns g)) = g"
  by (simp add: cmd_get_def Let_def say_def fail_def)

lemma cmd_config_same [simp]: "snd (snd (cmd_config g)) = g"
  by (simp add: cmd_config_def Let_def say_def)

lemma wf_store_summary: "store_summary L day md st db = (r, db') \<Longrightarrow> wf_db db' = wf_db db"
  by (auto simp: store_summary_def upsert_daily_summary_def split: json.splits if_splits)

lemma wf_run_daily_summary:
  assumes "wf_gw g" "odd_flows_keep_db K"
  shows "wf_db (gw_db (snd (run_daily_summary K env wanted now day g)))"
proof -
  define d where "d = (case day of Some d \<Rightarrow> if d \<noteq> [] then d else yesterday_day now | None \<Rightarrow> yesterday_day now)"
  have wf: "wf_db (gw_db g)" using assms(1) by (simp add: wf_gw_def)
  have session: "wf_db (save_raw_session d b (gw_db g))" for b using wf by (simp add: save_raw_session_def)
  have wiki: "wf_db (gw_db g2)" if "generate_wiki K env p w (g\<lparr>gw_db := save_raw_session d b (gw_db g)\<rparr>) = (r, g2)" for p w b r g2
  proof -
    have "wf_gw (g\<lparr>gw_db := save_raw_session d b (gw_db g)\<rparr>)" using assms(1) session by (simp add: wf_gw_def)
    from generate_wiki_db [OF this assms(2) that] show ?thesis using session by simp
  qed
  show ?thesis
    using wf session unfolding run_daily_summary_def d_def [symmetric] Let_def
    by (auto split: prod.splits sum.splits dest!: wf_store_summary dest: wiki)
qed

lemma cmd_summary_keeps:
  assumes "wf_gw g" "odd_flows_keep_db (li_summary L)"
  shows "keeps (cmd_summary L env ns g)"
proof -
  have "wf_db (gw_db g1)" if "run_daily_summary (li_summary L) env (li_summary_group L) (li_now L) day g = (r, g1)" for day r g1
    using wf_run_daily_summary [OF assms, of env "li_summary_group L" "li_now L" day] that by simp
  then show ?thesis unfolding cmd_summary_def Let_def by (intro keeps_rules) auto
qed

lemma db_command_keeps:
  assumes "wf_gw g" "odd_flows_keep_db (li_summary L)" "db_command L env ns g = Some r"
  shows "keeps r"
proof -
  have wf: "wf_db (gw_db g)" using assms(1) by (simp add: wf_gw_def)
  have "keeps (cmd_get ns g)" "keeps (cmd_config g)" "keeps (cmd_stats L ns g)" "keeps (cmd_version g)"
    using wf by (simp_all add: keeps_def cmd_version_def say_def)
  note kept = this cmd_set_keeps [OF wf] cmd_cleanup_keeps [OF wf] cmd_apikey_keeps [OF wf] cmd_provider_keeps [OF wf]
    cmd_model_keeps [OF wf] cmd_group_keeps [OF wf] cmd_summary_keeps [OF assms(1,2)] keeps_raises [OF wf] keeps_if
  show ?thesis using assms(3) unfolding db_command_def Let_def by (auto intro!: kept split: if_split_asm)
qed

subsection \<open>The schema while the service runs\<close>

lemma wf_after_write: "wf_db db \<Longrightarrow> (\<And>db'. r = Inr db' \<Longrightarrow> wf_db db') \<Longrightarrow> wf_db (after_write r db)"
  by (simp add: after_write_def split: sum.splits)

lemma wf_after_insert: "wf_db db \<Longrightarrow> (\<And>i db'. r = Inr (i, db') \<Longrightarrow> wf_db db') \<Longrightarrow> wf_db (after_insert r db)"
  by (auto simp: after_insert_def split: sum.splits)

lemma wf_save_cooldowns: "wf_db (save_cooldown_state dumps now ss db) = wf_db db"
  by (induction ss arbitrary: db) (simp_all add: save_cooldown_state_def)

lemma wf_log_rows:
  "wf_db (snd (create_call_attempts now as db)) = wf_db db" "create_call_log now l db = Inr (i, db') \<Longrightarrow> wf_db db' = wf_db db"
  by (auto simp: create_call_attempts_def create_call_log_def Let_def wf_db_def models_ok_column group_models_ok_column
      split: prod.splits if_splits)

lemma wf_apply_op: assumes "wf_db db" shows "wf_db (apply_op sha dumps op db)"
proof (cases op)
  case (Cleanup_config now pat age)
  with assms show ?thesis by (simp add: cleanup_config_by_prefix_def Let_def)
next
  case (Save_cooldowns now ss)
  with assms show ?thesis by (simp add: wf_save_cooldowns)
next
  case (Create_key key label)
  with assms show ?thesis by (auto intro!: wf_after_insert dest: wf_create_api_key)
next
  case (Write_log now l)
  with assms show ?thesis by (auto intro!: wf_after_insert dest: wf_log_rows(2))
next
  case (Delete_sessions c)
  with assms show ?thesis by (simp add: delete_old_raw_sessions_def Let_def)
next
  case (Delete_summaries c)
  with assms show ?thesis by (simp add: delete_old_daily_summaries_def Let_def)
qed (use assms in \<open>simp_all add: delete_config_def delete_config_like_def clear_cooldown_states_def wf_log_rows
      delete_old_call_logs_def purge_old_detail_def update_api_key_def set_api_key_enabled_def delete_api_key_def
      upsert_daily_summary_def save_raw_session_def Let_def wf_delete_provider wf_delete_model wf_delete_group wf_remove_member
      wf_weight\<close>,
    auto intro!: wf_after_insert wf_after_write intro: wf_create_provider wf_update_provider wf_update_provider_raw wf_create_model
      wf_update_model wf_upsert_model wf_update_model_raw wf_create_group wf_update_group wf_update_group_raw wf_add_member)

lemma wf_apply_ops: "wf_db db \<Longrightarrow> wf_db (apply_ops sha dumps ops db)"
  by (induction ops arbitrary: db) (simp_all add: apply_ops_def wf_apply_op)

lemma wf_start_up:
  assumes "wf_db (st_db s)"
  shows "wf_db (st_db (snd (start_up sha dumps loads boot env_key env s)))"
proof -
  have key: "wf_db (sync_llm_key now env_key db) = wf_db db" for now db by (simp add: sync_llm_key_def)
  have legacy: "wf_db (snd (register_legacy_key sha env_key db)) = wf_db db" for db
    by (auto simp: register_legacy_key_def Let_def dest: wf_create_api_key split: sum.splits)
  have token: "wf_db (st_db (snd (ensure_setup_token sha dumps env s))) = wf_db (st_db s)" for s
    by (auto simp: ensure_setup_token_def clean_setup_token_def renew_setup_token_def Let_def delete_config_def
        split: sum.splits prod.splits)
  define s1 where "s1 = s\<lparr>st_db := sync_llm_key \<lfloor>se_time env\<rfloor> env_key (st_db s)\<rparr>"
  obtain r2 s2 where two: "ensure_setup_token sha dumps env s1 = (r2, s2)" by fastforce
  obtain r3 db3 where three: "register_legacy_key sha env_key (st_db s2) = (r3, db3)" by fastforce
  have "wf_db (st_db s2)" using token [of s1] two key assms by (simp add: s1_def)
  moreover have "wf_db db3 = wf_db (st_db s2)" using legacy [of "st_db s2"] three by simp
  ultimately show ?thesis using two three by (simp add: start_up_def Let_def s1_def [symmetric] split: sum.splits)
qed

lemma wf_serve_app:
  assumes "wf_db (gw_db g)" "serve_app S bind_host port g h = (e, g', h')"
  shows "wf_db (gw_db g')"
proof -
  obtain r s where up: "start_up (sl_sha S) (sl_short S) (sl_loads S) (sl_boot S) (sl_llm_key S) (sl_start S h)
      \<lparr>st_db = gw_db g, st_file = sl_token_file S (world h)\<rparr> = (r, s)" by fastforce
  have "wf_db (st_db s)"
    using wf_start_up [of "\<lparr>st_db = gw_db g, st_file = sl_token_file S (world h)\<rparr>" "sl_sha S" "sl_short S" "sl_loads S" "sl_boot S"
        "sl_llm_key S" "sl_start S h"] assms(1) up by simp
  then show ?thesis using assms(2) up
    by (auto simp: serve_app_def Let_def wf_apply_ops split: sum.splits prod.splits)
qed

text \<open>C33: the command line keeps the database in order. Whatever the arguments are, a run of the program on a
  database with a valid schema leaves one: ids, unique names and foreign keys. This includes the server that
  \<open>run\<close> starts: its start-up, and whatever operations the requests and the background tasks perform in whatever
  order. The commands that show something, and those that stop, restart or look at a server, leave the database
  as it is; the server that a restart starts is a \<open>run\<close> of its own.\<close>

theorem cli_keeps_schema:
  assumes "wf_gw g" "odd_flows_keep_db (li_summary L)" "main F L S env argv g h = Some (ls, e, g', h')"
  shows "wf_db (gw_db g') \<and>
    (\<forall>ns. parse_args F NoValue argv = Some (Parsed ns) \<and>
       arg_text ns ''command'' \<in> {''get'', ''config'', ''stats'', ''version'', ''stop'', ''restart'', ''status'', ''logs''} \<longrightarrow> g' = g)"
proof (cases "parse_args F NoValue argv")
  case (Some p)
  show ?thesis
  proof (cases p)
    case (Parsed ns)
    show ?thesis
    proof (cases "db_command L env ns g")
      case None
      show ?thesis
      proof (cases "given ns ''command'' \<and> arg_text ns ''command'' = ''run''")
        case True
        then obtain e1 h1 bind_host port h0 where "serve_app S bind_host port g h0 = (e1, g', h1)"
          using assms(3) Some Parsed None by (auto simp: main_def cmd_run_def Let_def split: prod.splits)
        then show ?thesis using wf_serve_app assms(1) Some Parsed True by (auto simp: wf_gw_def)
      next
        case False
        then show ?thesis using assms(1,3) Some Parsed None by (auto simp: main_def wf_gw_def split: if_splits)
      qed
    next
      case run: (Some r)
      obtain ls1 e1 g1 where r: "r = (ls1, e1, g1)" by (cases r)
      have "g' = g \<or> g' = g1" using assms(3) Some Parsed run r by (auto simp: main_def split: if_splits)
      moreover have "wf_db (gw_db g1)" using db_command_keeps [OF assms(1,2) run] r by (simp add: keeps_def)
      moreover have "g1 = g" if "arg_text ns ''command'' \<in> {''get'', ''config'', ''stats'', ''version'', ''stop'', ''restart'', ''status'', ''logs''}"
      proof -
        have "g1 = snd (snd r)" by (simp add: r)
        also have "\<dots> = g" using that run unfolding db_command_def Let_def
          by (elim insertE emptyE) (simp_all add: cmd_version_def say_def split: if_splits, auto)
        finally show ?thesis .
      qed
      ultimately show ?thesis using assms(1) Some Parsed by (auto simp: wf_gw_def)
    qed
  next
    case (ParseExit c)
    then show ?thesis using assms(1,3) Some by (auto simp: main_def wf_gw_def)
  qed
qed (use assms in \<open>simp add: main_def\<close>)

definition plain_cli :: "int cli_lib" where
  "plain_cli = \<lparr>li_dumps = (\<lambda>_. ''{}''), li_provider = (\<lambda>_. ''p''), li_model = (\<lambda>_. ''m''), li_group = (\<lambda>_. ''g''), li_model_stats = (\<lambda>_. ''''),
     li_group_stats = (\<lambda>_. ''''), li_float = (\<lambda>_. ''1.0''), li_sum = (\<lambda>_. ''0''), li_cents = (\<lambda>_. ''0.0000''), li_stamp = (\<lambda>s. s),
     li_number = (\<lambda>_. ''1''), li_error = (\<lambda>_. ''error''), li_errors = (\<lambda>_. ''[]''), li_now = 0, li_us = 0, li_sha = (\<lambda>s. s),
     li_retention = 180, li_default_retention = 180, li_summary_group = '''', li_fetch = (\<lambda>u hs w. (Inl ''down'', w)),
     li_summary = day_lib, li_num = (\<lambda>_. 0), li_day_of = (\<lambda>_ s. s), li_order = (\<lambda>rs. rs)\<rparr>"

text \<open>A server that deletes a provider and makes a key for a client, on a host without a token file.\<close>

definition plain_start :: start_env where
  "plain_start = \<lparr>se_random = '''', se_time = 0, se_read_fails = False, se_unlink_fails = False, se_write = OpenFails, se_kv_fails = False\<rparr>"

definition plain_service :: "(int, real \<times> string option) service_lib" where
  "plain_service = \<lparr>sl_os = stubborn_os, sl_python = ''python'', sl_workspace = text_value, sl_decode = (\<lambda>s. s), sl_config_host = ''0.0.0.0'',
     sl_config_port = 8080, sl_pid = 1, sl_sha = (\<lambda>s. s), sl_loads = (\<lambda>_. None), sl_llm_key = '''', sl_boot = 0,
     sl_start = (\<lambda>_. plain_start), sl_token_file = (\<lambda>_. None), sl_put_token_file = (\<lambda>_ w. w), sl_no_start = (\<lambda>_. Done),
     sl_serve = (\<lambda>_ _ h. ([Delete_provider 1, Create_key ''k'' ''client''], Done, h)), sl_json = (\<lambda>_. ''{}''), sl_short = (\<lambda>_. ''{}'')\<rparr>"

definition stocked_gw :: "int gw" where
  "stocked_gw = (empty_gw 0)\<lparr>gw_db := sample_db\<rparr>"

lemma wf_stocked_gw: "wf_gw stocked_gw"
  by (simp add: wf_gw_def stocked_gw_def empty_gw_def)

lemma parse_run:
  "parse_args (\<lambda>_. None) NoValue [''run''] =
     Some (Parsed [(''workspace'', NoValue), (''command'', TextValue ''run''), (''host'', TextValue ''0.0.0.0''), (''port'', IntValue 8080), (''config'', NoValue)])"
  by code_simp

theorem cli_keeps_schema_witness:
  "wf_db (apply_ops (\<lambda>s. s) (\<lambda>_. ''{}'') [Delete_provider 1, Create_key ''k'' ''client''] sample_db)"
proof -
  have flows: "odd_flows_keep_db (li_summary plain_cli)" by (simp add: plain_cli_def odd_flows_keep_db_def day_lib_def)
  have no_token: "ensure_setup_token (\<lambda>s. s) (\<lambda>_. ''{}'') plain_start \<lparr>st_db = sample_db, st_file = None\<rparr> =
      (Inr (), \<lparr>st_db = sample_db, st_file = None\<rparr>)"
    by (simp add: ensure_setup_token_def account_configured_def get_config_def sample_db_def empty_db_def renew_setup_token_def
        plain_start_def generate_setup_token_def)
  have no_key: "sync_llm_key t '''' sample_db = sample_db" "register_legacy_key (\<lambda>s. s) '''' sample_db = (Inr (), sample_db)" for t
    by (simp_all add: sync_llm_key_def register_legacy_key_def stored_llm_key_def get_config_def sample_db_def empty_db_def Let_def)
  obtain r where up: "start_up (\<lambda>s. s) (\<lambda>_. ''{}'') (\<lambda>_. None) 0 '''' plain_start \<lparr>st_db = sample_db, st_file = None\<rparr> =
      (Inr r, \<lparr>st_db = sample_db, st_file = None\<rparr>)"
    by (simp add: start_up_def no_key no_token Let_def)
  have db: "gw_db stocked_gw = sample_db" by (simp add: stocked_gw_def)
  obtain h :: "(real \<times> string option) host" where "h = \<lparr>world = (0, None), sent = []\<rparr>" by simp
  obtain h' where "main (\<lambda>_. None) plain_cli plain_service flaky_env [''run''] stocked_gw h =
      Some ([], Done, put_db (apply_ops (\<lambda>s. s) (\<lambda>_. ''{}'') [Delete_provider 1, Create_key ''k'' ''client''] sample_db) stocked_gw, h')"
    unfolding main_def parse_run
    by (simp add: given_def arg_def db_command_def service_command_def Let_def arg_text_def cmd_run_def serve_app_def arg_int_def db
        plain_service_def up)
  from cli_keeps_schema [OF wf_stocked_gw flows this] show ?thesis by simp
qed

subsection \<open>Two ways to the same change\<close>

text \<open>The change that the command line asks for, as a request of the management API.\<close>

definition nonempty :: "namespace \<Rightarrow> string \<Rightarrow> string option" where
  "nonempty ns k = (if arg_text ns k \<noteq> '''' then Some (arg_text ns k) else None)"

definition provider_patch_of :: "namespace \<Rightarrow> provider_patch" where
  "provider_patch_of ns = \<lparr>pp_name = nonempty ns ''name'', pp_base_url = nonempty ns ''base_url'', pp_api_key = nonempty ns ''api_key'',
     pp_type = None, pp_is_enabled = (if given ns ''enabled'' then Some (arg_flag ns ''enabled'') else None), pp_extra_config = None\<rparr>"

definition group_patch_of :: "namespace \<Rightarrow> group_patch" where
  "group_patch_of ns = \<lparr>gp_name = nonempty ns ''name'', gp_description = nonempty ns ''description'',
     gp_is_enabled = (if given ns ''enabled'' then Some (arg_flag ns ''enabled'') else None),
     gp_fallback_group_id = (if given ns ''fallback'' then Some (arg_int ns ''fallback'') else None), gp_type = None, gp_params = None\<rparr>"

definition model_patch_of :: "namespace \<Rightarrow> db \<Rightarrow> model_patch" where
  "model_patch_of ns db = \<lparr>mp_name = nonempty ns ''name'', mp_context_window = None, mp_display_name = nonempty ns ''display_name'',
     mp_api_format = (if given ns ''api_format'' then Some (arg_text ns ''api_format'') else None),
     mp_max_retries = (if given ns ''max_retries'' then Some (arg_int ns ''max_retries'') else None),
     mp_cooldown_seconds = (if given ns ''cooldown'' then Some (arg_int ns ''cooldown'') else None), mp_cooldown_failure_threshold = None,
     mp_is_enabled = (if given ns ''enabled'' then Some (arg_flag ns ''enabled'') else None),
     mp_extra_config = (if given ns ''proxy''
       then map_option (\<lambda>im. dset ''proxy'' (JStr (arg_text ns ''proxy'')) (m_extra_config (snd im))) (get_model (arg_int ns ''id'') db) else None)\<rparr>"

text \<open>The time stamp of the row \<open>i\<close>, set to now.\<close>

definition touch_provider :: "int \<Rightarrow> db \<Rightarrow> db" where
  "touch_provider i db = db\<lparr>providers := update_rows (\<lambda>ir. fst ir = i) (\<lambda>p. p\<lparr>p_updated_at := sql_now db\<rparr>) (providers db)\<rparr>"

definition touch_model :: "int \<Rightarrow> db \<Rightarrow> db" where
  "touch_model i db = db\<lparr>models := update_rows (\<lambda>ir. fst ir = i) (\<lambda>m. m\<lparr>m_updated_at := sql_now db\<rparr>) (models db)\<rparr>"

definition touch_group :: "int \<Rightarrow> db \<Rightarrow> db" where
  "touch_group i db = db\<lparr>model_groups := update_rows (\<lambda>ir. fst ir = i) (\<lambda>g. g\<lparr>g_updated_at := sql_now db\<rparr>) (model_groups db)\<rparr>"

text \<open>
  The same change on both ways: either both raise the same exception and leave the database alone, or the
  command prints that it is done, and its database is the one of the request with the time stamp touched,
  while the request leaves all time stamps (\<open>stamps\<close>) as they were.
\<close>

definition agrees :: "(db \<Rightarrow> db) \<Rightarrow> (db \<Rightarrow> (int \<times> int \<times> int) list) \<Rightarrow> 'w gw \<Rightarrow> 'w run \<Rightarrow> unit res \<times> 'w gw \<Rightarrow> bool" where
  "agrees touch stamps g r q \<longleftrightarrow>
     (case fst q of
        Inl e \<Rightarrow> fst (snd r) = Raises e \<and> gw_db (snd (snd r)) = gw_db g \<and> gw_db (snd q) = gw_db g
      | Inr _ \<Rightarrow> fst (snd r) = Done \<and> gw_db (snd (snd r)) = touch (gw_db (snd q)) \<and> stamps (gw_db (snd q)) = stamps (gw_db g))"

definition provider_stamps :: "db \<Rightarrow> (int \<times> int \<times> int) list" where
  "provider_stamps db = map (\<lambda>ir. (fst ir, p_created_at (snd ir), p_updated_at (snd ir))) (rows (providers db))"

definition model_stamps :: "db \<Rightarrow> (int \<times> int \<times> int) list" where
  "model_stamps db = map (\<lambda>ir. (fst ir, m_created_at (snd ir), m_updated_at (snd ir))) (rows (models db))"

definition group_stamps :: "db \<Rightarrow> (int \<times> int \<times> int) list" where
  "group_stamps db = map (\<lambda>ir. (fst ir, g_created_at (snd ir), g_updated_at (snd ir))) (rows (model_groups db))"

text \<open>Both ways check the same constraint, which does not look at the time stamps.\<close>

lemma agrees_write:
  assumes "\<And>g. gw_db (after g) = gw_db g" "r = check_constraint c (touch db')" "r' = check_constraint c db'"
    "stamps db' = stamps (gw_db g)"
  shows "agrees touch stamps g (write_then r ls g) (write_db r' after g)"
  using assms by (auto simp: agrees_def write_then_def write_db_def say_def check_constraint_def split: sum.splits)

lemma update_rows_twice: "update_rows (\<lambda>ir. fst ir = i) h (update_rows (\<lambda>ir. fst ir = i) f t) = update_rows (\<lambda>ir. fst ir = i) (\<lambda>r. h (f r)) t"
  by (simp add: update_rows_def comp_def)

lemma invalidated_db: "gw_db (invalidate_all_caches env g) = gw_db g"
  by (simp add: invalidate_all_caches_def)

lemma invalidated_group_db: "gw_db (invalidate_endpoint_cache gid g) = gw_db g"
  by (simp add: invalidate_endpoint_cache_def)

lemma update_rows_one:
  assumes "wf_table t" "get_row t i = Some (j, r)" "f r = g' r"
  shows "update_rows (\<lambda>ir. fst ir = i) f t = update_rows (\<lambda>ir. fst ir = i) g' t"
proof -
  have "s = r" if "(i, s) \<in> set (rows t)" for s
    using that assms(2) lookup_in_rows [OF assms(1), of i s] by (auto simp: get_row_def)
  then have "(if fst ir = i then (fst ir, f (snd ir)) else ir) = (if fst ir = i then (fst ir, g' (snd ir)) else ir)"
    if "ir \<in> set (rows t)" for ir
    using that assms(3) by (cases ir) auto
  then show ?thesis unfolding update_rows_def by (simp cong: map_cong)
qed

lemma no_other_updates [simp]:
  "first_other (provider_updates ns) = None" "first_other_group (group_updates ns) = None" "first_other_model (model_updates ns db) = None"
  by (simp_all add: provider_updates_def group_updates_def model_updates_def)

lemma provider_agrees:
  assumes "wf_db (gw_db g)" "get_provider i (gw_db g) = Some (j, p)" "arg_text ns ''provider_action'' = ''update''" "arg_int ns ''id'' = i"
    "provider_updates ns \<noteq> []"
  shows "agrees (touch_provider i) provider_stamps g (cmd_provider L ns g) (api_update_provider env i (provider_patch_of ns) g)"
proof -
  let ?db = "gw_db g"
  have row: "get_row (providers ?db) i = Some (j, p)" using assms(2) by (simp add: get_provider_def)
  have wf: "wf_table (providers ?db)" using assms(1) by (simp add: wf_db_def)
  define q where "q = provider_patch_of ns"
  define F where "F = (\<lambda>p' :: provider. \<lparr>p_name = or_else (pp_name q) (p_name p), p_provider_type = or_else (pp_type q) (p_provider_type p),
       p_api_key = or_else (pp_api_key q) (p_api_key p), p_base_url = or_else (pp_base_url q) (p_base_url p),
       p_extra_config = or_else (pp_extra_config q) (p_extra_config p), p_is_enabled = or_else (pp_is_enabled q) (p_is_enabled p),
       p_created_at = p_created_at p', p_updated_at = p_updated_at p'\<rparr>)"
  define raw where "raw = ?db\<lparr>providers := update_rows (\<lambda>ir. fst ir = i) F (providers ?db)\<rparr>"
  have "(fold apply_provider_update (provider_updates ns) p)\<lparr>p_updated_at := sql_now ?db\<rparr> = (F p)\<lparr>p_updated_at := sql_now ?db\<rparr>"
    by (simp add: F_def provider_updates_def q_def provider_patch_of_def nonempty_def or_else_def)
  then have "update_rows (\<lambda>ir. fst ir = i) (\<lambda>p. (fold apply_provider_update (provider_updates ns) p)\<lparr>p_updated_at := sql_now ?db\<rparr>) (providers ?db) =
      update_rows (\<lambda>ir. fst ir = i) (\<lambda>p. (F p)\<lparr>p_updated_at := sql_now ?db\<rparr>) (providers ?db)"
    by (rule update_rows_one [OF wf row])
  then have cli: "update_provider i (provider_updates ns) ?db =
      check_constraint (unique_on p_name (providers raw)) (touch_provider i raw)"
    by (simp add: update_provider_def Let_def touch_provider_def raw_def update_rows_twice unique_on_column)
      (simp add: column_def update_rows_def comp_def if_distrib cong: if_cong)
  have api: "update_provider_raw i (or_else (pp_name q) (p_name p)) (or_else (pp_type q) (p_provider_type p))
      (or_else (pp_base_url q) (p_base_url p)) (or_else (pp_api_key q) (p_api_key p)) (or_else (pp_is_enabled q) (p_is_enabled p))
      (Some (or_else (pp_extra_config q) (p_extra_config p))) ?db = check_constraint (unique_on p_name (providers raw)) raw"
    by (simp add: update_provider_raw_def Let_def raw_def F_def)
  have "provider_stamps raw = provider_stamps ?db"
    by (simp add: provider_stamps_def raw_def update_rows_def F_def)
  then show ?thesis
    unfolding cmd_provider_def api_update_provider_def get_provider_raw_def row Let_def q_def [symmetric]
    using assms(3-5) by (simp add: agrees_write [where touch = "touch_provider i" and db' = raw, OF _ cli api] invalidated_db)
qed

lemma group_agrees:
  assumes "wf_db (gw_db g)" "get_group i (gw_db g) = Some (j, p)" "arg_text ns ''group_action'' = ''update''" "arg_int ns ''id'' = i"
    "group_updates ns \<noteq> []"
  shows "agrees (touch_group i) group_stamps g (cmd_group L ns g) (api_update_group i (group_patch_of ns) g)"
proof -
  let ?db = "gw_db g"
  have row: "get_row (model_groups ?db) i = Some (j, p)" using assms(2) by (simp add: get_group_def)
  have wf: "wf_table (model_groups ?db)" using assms(1) by (simp add: wf_db_def)
  define q where "q = group_patch_of ns"
  define F where "F = (\<lambda>p' :: model_group. \<lparr>g_name = or_else (gp_name q) (g_name p), g_description = or_else (gp_description q) (g_description p),
      g_type = or_else (gp_type q) (g_type p), g_params = or_else (gp_params q) (g_params p),
      g_is_enabled = or_else (gp_is_enabled q) (g_is_enabled p),
      g_fallback_group_id = (case gp_fallback_group_id q of Some fb \<Rightarrow> Some fb | None \<Rightarrow> g_fallback_group_id p),
      g_created_at = g_created_at p', g_updated_at = g_updated_at p'\<rparr>)"
  define raw where "raw = ?db\<lparr>model_groups := update_rows (\<lambda>ir. fst ir = i) F (model_groups ?db)\<rparr>"
  have "(fold apply_group_update (group_updates ns) p)\<lparr>g_updated_at := sql_now ?db\<rparr> = (F p)\<lparr>g_updated_at := sql_now ?db\<rparr>"
    by (simp add: F_def group_updates_def q_def group_patch_of_def nonempty_def or_else_def)
  then have "update_rows (\<lambda>ir. fst ir = i) (\<lambda>p. (fold apply_group_update (group_updates ns) p)\<lparr>g_updated_at := sql_now ?db\<rparr>) (model_groups ?db) =
      update_rows (\<lambda>ir. fst ir = i) (\<lambda>p. (F p)\<lparr>g_updated_at := sql_now ?db\<rparr>) (model_groups ?db)"
    by (rule update_rows_one [OF wf row])
  then have cli: "update_group i (group_updates ns) ?db = check_constraint (unique_on g_name (model_groups raw)) (touch_group i raw)"
    by (simp add: update_group_def Let_def touch_group_def raw_def update_rows_twice unique_on_column)
      (simp add: column_def update_rows_def comp_def if_distrib cong: if_cong)
  have api: "update_group_raw i (or_else (gp_name q) (g_name p)) (or_else (gp_description q) (g_description p))
      (or_else (gp_is_enabled q) (g_is_enabled p)) (case gp_fallback_group_id q of Some fb \<Rightarrow> Some fb | None \<Rightarrow> g_fallback_group_id p)
      (or_else (gp_type q) (g_type p)) (Some (or_else (gp_params q) (g_params p))) ?db =
      check_constraint (unique_on g_name (model_groups raw)) raw"
    by (simp add: update_group_raw_def Let_def raw_def F_def)
  have "group_stamps raw = group_stamps ?db"
    by (simp add: group_stamps_def raw_def update_rows_def F_def)
  then show ?thesis
    unfolding cmd_group_def api_update_group_def get_group_raw_def row Let_def q_def [symmetric]
    using assms(3-5) by (simp add: agrees_write [where touch = "touch_group i" and db' = raw, OF _ cli api] invalidated_group_db)
qed

lemma model_agrees:
  assumes "wf_db (gw_db g)" "get_model i (gw_db g) = Some (j, p)" "arg_text ns ''model_action'' = ''update''" "arg_int ns ''id'' = i"
    "model_updates ns (gw_db g) \<noteq> []"
  shows "agrees (touch_model i) model_stamps g (cmd_model L ns g) (api_update_model env i (model_patch_of ns (gw_db g)) g)"
proof -
  let ?db = "gw_db g"
  have row: "get_row (models ?db) i = Some (j, p)" using assms(2) by (simp add: get_model_def)
  have wf: "wf_table (models ?db)" using assms(1) by (simp add: wf_db_def)
  define q where "q = model_patch_of ns ?db"
  define F where "F = (\<lambda>m :: model. \<lparr>m_name = or_else (mp_name q) (m_name p), m_provider_id = m_provider_id m,
      m_display_name = or_else (mp_display_name q) (m_display_name p), m_api_format = or_else (mp_api_format q) (m_api_format p),
      m_max_retries = or_else (mp_max_retries q) (m_max_retries p),
      m_cooldown_seconds = or_else (mp_cooldown_seconds q) (m_cooldown_seconds p),
      m_cooldown_failure_threshold = or_else (mp_cooldown_failure_threshold q) (m_cooldown_failure_threshold p),
      m_extra_config = or_else (mp_extra_config q) (m_extra_config p),
      m_is_enabled = or_else (mp_is_enabled q) (m_is_enabled p),
      m_context_window = or_else (mp_context_window q) (m_context_window p),
      m_created_at = m_created_at m, m_updated_at = m_updated_at m\<rparr>)"
  define raw where "raw = ?db\<lparr>models := update_rows (\<lambda>ir. fst ir = i) F (models ?db)\<rparr>"
  have "(fold apply_model_update (model_updates ns ?db) p)\<lparr>m_updated_at := sql_now ?db\<rparr> = (F p)\<lparr>m_updated_at := sql_now ?db\<rparr>"
    using assms(2,4) by (simp add: F_def model_updates_def q_def model_patch_of_def nonempty_def or_else_def)
  then have "update_rows (\<lambda>ir. fst ir = i) (\<lambda>m. (fold apply_model_update (model_updates ns ?db) m)\<lparr>m_updated_at := sql_now ?db\<rparr>) (models ?db) =
      update_rows (\<lambda>ir. fst ir = i) (\<lambda>m. (F m)\<lparr>m_updated_at := sql_now ?db\<rparr>) (models ?db)"
    by (rule update_rows_one [OF wf row])
  then have "update_model i (model_updates ns ?db) ?db = check_constraint (models_ok (touch_model i raw)) (touch_model i raw)"
    by (simp add: update_model_def Let_def touch_model_def raw_def update_rows_twice)
  moreover have "models_ok (touch_model i raw) = models_ok raw"
    by (simp add: models_ok_column touch_model_def)
  ultimately have cli: "update_model i (model_updates ns ?db) ?db = check_constraint (models_ok raw) (touch_model i raw)" by simp
  have api: "update_model_raw i (or_else (mp_name q) (m_name p)) (or_else (mp_context_window q) (m_context_window p))
      (or_else (mp_is_enabled q) (m_is_enabled p)) (or_else (mp_display_name q) (m_display_name p))
      (or_else (mp_api_format q) (m_api_format p)) (or_else (mp_max_retries q) (m_max_retries p))
      (or_else (mp_cooldown_seconds q) (m_cooldown_seconds p))
      (or_else (mp_cooldown_failure_threshold q) (m_cooldown_failure_threshold p))
      (Some (or_else (mp_extra_config q) (m_extra_config p))) ?db = check_constraint (models_ok raw) raw"
    by (simp add: update_model_raw_def Let_def raw_def F_def)
  have "model_stamps raw = model_stamps ?db"
    by (simp add: model_stamps_def raw_def update_rows_def F_def)
  then show ?thesis
    unfolding cmd_model_def api_update_model_def get_model_raw_def row Let_def q_def [symmetric]
    using assms(3-5) by (simp add: agrees_write [where touch = "touch_model i" and db' = raw, OF _ cli api] invalidated_db)
qed

text \<open>C27: the command line and the management API make the same change, except for one time stamp. In a valid
  database, an \<open>update\<close> of an existing provider, model or group on the command line, with something to change,
  and the request of the API with the same values either raise the same exception, when the change breaks a
  constraint, and change nothing, or both succeed. Then the database of the command is that of the request with
  \<open>updated_at\<close> of the row set to now; the request leaves all time stamps as they were, so it does not record
  that the row was changed. Otherwise only the service differs: the API also drops what it has cached.\<close>

theorem cli_agrees_with_api:
  assumes "wf_db (gw_db g)" "arg_int ns ''id'' = i"
  shows "(get_provider i (gw_db g) \<noteq> None \<and> arg_text ns ''provider_action'' = ''update'' \<and> provider_updates ns \<noteq> [] \<longrightarrow>
      agrees (touch_provider i) provider_stamps g (cmd_provider L ns g) (api_update_provider env i (provider_patch_of ns) g)) \<and>
    (get_model i (gw_db g) \<noteq> None \<and> arg_text ns ''model_action'' = ''update'' \<and> model_updates ns (gw_db g) \<noteq> [] \<longrightarrow>
      agrees (touch_model i) model_stamps g (cmd_model L ns g) (api_update_model env i (model_patch_of ns (gw_db g)) g)) \<and>
    (get_group i (gw_db g) \<noteq> None \<and> arg_text ns ''group_action'' = ''update'' \<and> group_updates ns \<noteq> [] \<longrightarrow>
      agrees (touch_group i) group_stamps g (cmd_group L ns g) (api_update_group i (group_patch_of ns) g))"
  using assms provider_agrees [of g i _ _ ns L env] model_agrees [of g i _ _ ns L env] group_agrees [of g i _ _ ns L] by fast

definition rename_args :: namespace where
  "rename_args = [(''provider_action'', TextValue ''update''), (''id'', IntValue 1), (''name'', TextValue ''other'')]"

theorem cli_agrees_with_api_witness:
  "gw_db (snd (snd (cmd_provider plain_cli rename_args stocked_gw))) =
    touch_provider 1 (gw_db (snd (api_update_provider flaky_env 1 (provider_patch_of rename_args) stocked_gw)))"
proof -
  have "arg_int rename_args ''id'' = 1" "arg_text rename_args ''provider_action'' = ''update''" "provider_updates rename_args \<noteq> []"
    by code_simp+
  moreover have "get_provider 1 (gw_db stocked_gw) \<noteq> None"
    by (simp add: stocked_gw_def sample_db_def get_provider_def get_row_def lookup_row_def)
  moreover have "wf_db (gw_db stocked_gw)" using wf_stocked_gw by (simp add: wf_gw_def)
  ultimately have "agrees (touch_provider 1) provider_stamps stocked_gw (cmd_provider plain_cli rename_args stocked_gw)
      (api_update_provider flaky_env 1 (provider_patch_of rename_args) stocked_gw)"
    using cli_agrees_with_api [of stocked_gw rename_args 1 plain_cli flaky_env] by simp
  moreover have "fst (api_update_provider flaky_env 1 (provider_patch_of rename_args) stocked_gw) = Inr ()"
    by (simp add: api_update_provider_def get_provider_raw_def get_row_def lookup_row_def stocked_gw_def sample_db_def
        write_db_def update_provider_raw_def unique_on_def update_rows_def check_constraint_def)
  ultimately show ?thesis by (simp add: agrees_def)
qed

end
