(* ===== verification/Clients.thy ===== *)
theory Clients
  imports Providers Gateway
begin

text \<open>
  The provider classes of \<open>src/botflow/providers/\<close> around the clients of the vendors' packages: how an
  instance gets its client, calls it, reads a stream from it, lists models, and closes it.

  The packages are the record \<open>'w sdk\<close>: constructing a client, a request, a stream, a list of models and
  closing, each of which may raise. An answer is the dictionary of \<open>model_dump()\<close>, or of the attributes of
  the object. The state \<open>'w net\<close> has the attributes of each instance (\<open>_client\<close>, \<open>_azure_client\<close>, \<open>_closed\<close>),
  the clients constructed so far, those with an open connection pool, and the state of the packages.
  A stream is read as theory \<open>Gateway\<close> describes it. The \<open>httpx\<close> client of a proxy is a value that the vendor's
  client takes over and closes with itself; it opens its first connection with its first request, so one that
  the constructor of the vendor's client refuses holds nothing and is not counted among the open clients.
\<close>

datatype client_kind = AsyncOpenAI | AsyncAzureOpenAI | AsyncAnthropic | GenaiClient

record handles =
  hd_client :: "nat option"
  hd_azure :: "nat option"
  hd_closed :: bool

record 'w net =
  nt_handles :: "nat \<Rightarrow> handles"
  nt_next :: nat
  nt_open :: "nat list"
  nt_world :: 'w

text \<open>\<open>sk_httpx\<close> is \<open>httpx.AsyncClient\<close>, \<open>None\<close> when the package is missing; \<open>sk_validate\<close> the validation of the
  objects built for the Gemini client.\<close>

record 'w sdk =
  sk_httpx :: "dict \<Rightarrow> json res option"
  sk_construct :: "client_kind \<Rightarrow> dict \<Rightarrow> nat \<Rightarrow> 'w \<Rightarrow> exc option \<times> 'w"
  sk_close :: "nat \<Rightarrow> 'w \<Rightarrow> exc option \<times> 'w"
  sk_create :: "nat \<Rightarrow> dict \<Rightarrow> 'w \<Rightarrow> dict res \<times> 'w"
  sk_stream :: "nat \<Rightarrow> dict \<Rightarrow> 'w \<Rightarrow> (dict list \<times> exc option) \<times> 'w"
  sk_models :: "nat \<Rightarrow> 'w \<Rightarrow> dict list res \<times> 'w"
  sk_validate :: "json list \<Rightarrow> dict \<Rightarrow> exc option"
  sk_str :: "json \<Rightarrow> string"
  sk_sha :: "string \<Rightarrow> string"

subsection \<open>Clients and the base class\<close>

definition no_handles :: handles where
  "no_handles = \<lparr>hd_client = None, hd_azure = None, hd_closed = False\<rparr>"

definition on_handles :: "nat \<Rightarrow> (handles \<Rightarrow> handles) \<Rightarrow> 'w net \<Rightarrow> 'w net" where
  "on_handles i f n = n\<lparr>nt_handles := (nt_handles n)(i := f (nt_handles n i))\<rparr>"

definition timeout_of :: "dict \<Rightarrow> json" where
  "timeout_of cfg = dget cfg ''timeout'' (JFloat 120)"

definition make_http_client :: "'w sdk \<Rightarrow> dict \<Rightarrow> json res" where
  "make_http_client S cfg =
     (let proxy = dget cfg ''proxy'' (JStr '''') in
      if truthy proxy
      then (case sk_httpx S [(''proxy'', proxy), (''timeout'', timeout_of cfg)] of None \<Rightarrow> Inr JNull | Some r \<Rightarrow> r)
      else Inr JNull)"

definition construct :: "'w sdk \<Rightarrow> client_kind \<Rightarrow> dict \<Rightarrow> 'w net \<Rightarrow> nat res \<times> 'w net" where
  "construct S kind kwargs n =
     (let c = nt_next n; (err, w) = sk_construct S kind kwargs c (nt_world n) in
      case err of
        Some e \<Rightarrow> (Inl e, n\<lparr>nt_world := w\<rparr>)
      | None \<Rightarrow> (Inr c, n\<lparr>nt_next := c + 1, nt_open := nt_open n @ [c], nt_world := w\<rparr>))"

definition set_client :: "nat option \<Rightarrow> handles \<Rightarrow> handles" where
  "set_client c h = h\<lparr>hd_client := c\<rparr>"

definition set_azure :: "nat option \<Rightarrow> handles \<Rightarrow> handles" where
  "set_azure c h = h\<lparr>hd_azure := c\<rparr>"

text \<open>The property \<open>client\<close>: the client the instance has, or a new one that it keeps.\<close>

definition lazy_client :: "'w sdk \<Rightarrow> client_kind \<Rightarrow> dict res \<Rightarrow> (handles \<Rightarrow> nat option) \<Rightarrow>
    (nat option \<Rightarrow> handles \<Rightarrow> handles) \<Rightarrow> nat \<Rightarrow> 'w net \<Rightarrow> nat res \<times> 'w net" where
  "lazy_client S kind kwargs held keep i n =
     (case held (nt_handles n i) of
        Some c \<Rightarrow> (Inr c, n)
      | None \<Rightarrow>
          (case kwargs of
             Inl e \<Rightarrow> (Inl e, n)
           | Inr kw \<Rightarrow>
               (case construct S kind kw n of
                  (Inl e, n1) \<Rightarrow> (Inl e, n1)
                | (Inr c, n1) \<Rightarrow> (Inr c, on_handles i (keep (Some c)) n1))))"

text \<open>Clients are closed one after the other, up to the first that raises.\<close>

fun close_all :: "'w sdk \<Rightarrow> nat option list \<Rightarrow> 'w net \<Rightarrow> exc option \<times> 'w net" where
  "close_all S [] n = (None, n)"
| "close_all S (None # cs) n = close_all S cs n"
| "close_all S (Some c # cs) n =
     (case sk_close S c (nt_world n) of
        (Some e, w) \<Rightarrow> (Some e, n\<lparr>nt_world := w\<rparr>)
      | (None, w) \<Rightarrow> close_all S cs (n\<lparr>nt_open := remove1 c (nt_open n), nt_world := w\<rparr>))"

definition close_held ::
    "'w sdk \<Rightarrow> nat option list \<Rightarrow> (handles \<Rightarrow> handles) \<Rightarrow> nat \<Rightarrow> 'w net \<Rightarrow> exc option \<times> 'w net" where
  "close_held S cs forget i n =
     (case close_all S cs n of
        (Some e, n1) \<Rightarrow> (Some e, n1)
      | (None, n1) \<Rightarrow> (None, on_handles i forget n1))"

definition close_client :: "'w sdk \<Rightarrow> provider_inst \<Rightarrow> 'w net \<Rightarrow> exc option \<times> 'w net" where
  "close_client S inst n =
     (let h = nt_handles n (pi_id inst) in
      case pi_class inst of
        OpenAICompatProvider \<Rightarrow>
          close_held S [hd_client h, hd_azure h] (\<lambda>h. set_azure None (set_client None h)) (pi_id inst) n
      | DeepSeekProvider \<Rightarrow>
          if hd_client h = None then (Some (raised_by_python AttributeErrorExc), n)
          else close_held S [hd_client h] (set_client None) (pi_id inst) n
      | AnthropicProvider \<Rightarrow> close_held S [hd_client h] (set_client None) (pi_id inst) n
      | GoogleProvider \<Rightarrow> close_held S [hd_client h] (set_client None) (pi_id inst) n)"

definition aclose :: "'w sdk \<Rightarrow> provider_inst \<Rightarrow> 'w net \<Rightarrow> exc option \<times> 'w net" where
  "aclose S inst n =
     (if hd_closed (nt_handles n (pi_id inst)) then (None, n)
      else close_client S inst (on_handles (pi_id inst) (\<lambda>h. h\<lparr>hd_closed := True\<rparr>) n))"

text \<open>A call with keyword arguments of its own and those of the request: a name given twice is an error.\<close>

definition with_kwargs :: "dict \<Rightarrow> dict \<Rightarrow> dict res" where
  "with_kwargs own kwargs =
     (if list_ex (\<lambda>(k, v). has_attr own k) kwargs then Inl (raised_by_python TypeErrorExc) else Inr (own @ kwargs))"

text \<open>\<open>except Exception as e: raise ProviderError(f"... failed: {e}")\<close>.\<close>

definition provider_error :: "string \<Rightarrow> exc \<Rightarrow> exc" where
  "provider_error what e = mk_exc ProviderError (what @ exc_msg e)"

definition wrap_call :: "string \<Rightarrow> 'a res \<times> 'w net \<Rightarrow> 'a res \<times> 'w net" where
  "wrap_call what rn = (case rn of (Inl e, n) \<Rightarrow> (Inl (provider_error what e), n) | (Inr x, n) \<Rightarrow> (Inr x, n))"

definition wrap_stream :: "string \<Rightarrow> (dict list \<times> exc option) \<times> 'w net \<Rightarrow> (dict list \<times> exc option) \<times> 'w net" where
  "wrap_stream what r = (case r of ((chunks, err), n) \<Rightarrow> ((chunks, map_option (provider_error what) err), n))"

definition request :: "'w sdk \<Rightarrow> nat \<Rightarrow> dict res \<Rightarrow> (dict \<Rightarrow> dict res) \<Rightarrow> 'w net \<Rightarrow> dict res \<times> 'w net" where
  "request S c params convert n =
     (case params of
        Inl e \<Rightarrow> (Inl e, n)
      | Inr p \<Rightarrow> (let (r, w) = sk_create S c p (nt_world n) in (bindE r convert, n\<lparr>nt_world := w\<rparr>)))"

text \<open>The chunks as they are handed on: the loop ends at a chunk whose conversion raises, or as the upstream ends.\<close>

fun convert_chunks :: "(dict \<Rightarrow> dict list res) \<Rightarrow> exc option \<Rightarrow> dict list \<Rightarrow> dict list \<times> exc option" where
  "convert_chunks convert err [] = ([], err)"
| "convert_chunks convert err (c # cs) =
     (case convert c of
        Inl e \<Rightarrow> ([], Some e)
      | Inr out \<Rightarrow> (let (rest, e) = convert_chunks convert err cs in (out @ rest, e)))"

definition request_stream ::
    "'w sdk \<Rightarrow> nat \<Rightarrow> dict res \<Rightarrow> (dict \<Rightarrow> dict list res) \<Rightarrow> 'w net \<Rightarrow> (dict list \<times> exc option) \<times> 'w net" where
  "request_stream S c params convert n =
     (case params of
        Inl e \<Rightarrow> (([], Some e), n)
      | Inr p \<Rightarrow>
          (let ((chunks, err), w) = sk_stream S c p (nt_world n)
           in (convert_chunks convert err chunks, n\<lparr>nt_world := w\<rparr>)))"

definition max_tokens_json :: "call_args \<Rightarrow> json" where
  "max_tokens_json args = (case ca_max_tokens args of None \<Rightarrow> JNull | Some k \<Rightarrow> JInt k)"

subsection \<open>OpenAI-compatible\<close>

definition azure_mode :: "dict \<Rightarrow> bool res" where
  "azure_mode cfg =
     (case dget cfg ''mode'' (JStr '''') of
        JStr s \<Rightarrow> Inr (occurs_in ''azure'' s)
      | JList xs \<Rightarrow> Inr (JStr ''azure'' \<in> set xs)
      | JObj d \<Rightarrow> Inr (has_attr d ''azure'')
      | _ \<Rightarrow> Inl (raised_by_python TypeErrorExc))"

definition openai_kwargs :: "'w sdk \<Rightarrow> bool \<Rightarrow> provider_inst \<Rightarrow> dict res" where
  "openai_kwargs S azure inst =
     (let cfg = pi_extra_config inst in
      bindE (make_http_client S cfg) (\<lambda>http.
        Inr ((if azure
              then [str_item ''api_key'' (pi_api_key inst), str_item ''azure_endpoint'' (pi_base_url inst),
                    (''api_version'', dget cfg ''api_version'' (JStr ''2024-02-01''))]
              else [str_item ''api_key'' (if pi_api_key inst = [] then ''dummy'' else pi_api_key inst),
                    str_item ''base_url'' (pi_base_url inst)]) @
             [(''timeout'', timeout_of cfg), (''http_client'', http)])))"

definition openai_client :: "'w sdk \<Rightarrow> provider_inst \<Rightarrow> 'w net \<Rightarrow> nat res \<times> 'w net" where
  "openai_client S inst n =
     (case azure_mode (pi_extra_config inst) of
        Inl e \<Rightarrow> (Inl e, n)
      | Inr True \<Rightarrow> lazy_client S AsyncAzureOpenAI (openai_kwargs S True inst) hd_azure set_azure (pi_id inst) n
      | Inr False \<Rightarrow> lazy_client S AsyncOpenAI (openai_kwargs S False inst) hd_client set_client (pi_id inst) n)"

definition headers_json :: "(string \<times> string) list option \<Rightarrow> json" where
  "headers_json h = (case h of None \<Rightarrow> JNull | Some kvs \<Rightarrow> JObj (map (\<lambda>(k, v). str_item k v) kvs))"

definition openai_params :: "'w sdk \<Rightarrow> provider_inst \<Rightarrow> call_args \<Rightarrow> bool \<Rightarrow> dict \<Rightarrow> dict \<Rightarrow> dict res" where
  "openai_params S inst args stream options kwargs =
     bindE (apply_headers (sk_str S) (sk_sha S) (pi_extra_config inst) (ca_messages args)) (\<lambda>headers.
       with_kwargs ([str_item ''model'' (ca_model args), (''messages'', JList (map JObj (ca_messages args))),
           (''temperature'', ca_temperature args), (''max_tokens'', max_tokens_json args), (''stream'', JBool stream)] @
           options @ [(''extra_headers'', headers_json headers)])
         kwargs)"

definition openai_chat :: "'w sdk \<Rightarrow> provider_inst \<Rightarrow> call_args \<Rightarrow> 'w net \<Rightarrow> dict res \<times> 'w net" where
  "openai_chat S inst args n =
     wrap_call ''OpenAICompat request failed: ''
       (case openai_client S inst n of
          (Inl e, n1) \<Rightarrow> (Inl e, n1)
        | (Inr c, n1) \<Rightarrow>
            request S c (openai_params S inst args False [] (ca_kwargs args))
              (\<lambda>d. openai_to_unified (sk_str S) d (ca_model args)) n1)"

text \<open>The stream asks for the usage, unless the request decided otherwise.\<close>

definition stream_options :: "dict \<Rightarrow> json" where
  "stream_options kwargs =
     (case dget kwargs ''stream_options'' (JObj [(''include_usage'', JBool True)]) of
        JObj d \<Rightarrow> JObj (setdefault ''include_usage'' (JBool True) d)
      | j \<Rightarrow> j)"

definition openai_chat_stream ::
    "'w sdk \<Rightarrow> provider_inst \<Rightarrow> call_args \<Rightarrow> 'w net \<Rightarrow> (dict list \<times> exc option) \<times> 'w net" where
  "openai_chat_stream S inst args n =
     wrap_stream ''OpenAICompat stream failed: ''
       (case openai_client S inst n of
          (Inl e, n1) \<Rightarrow> (([], Some e), n1)
        | (Inr c, n1) \<Rightarrow>
            request_stream S c
              (openai_params S inst args True [(''stream_options'', stream_options (ca_kwargs args))]
                 (dfilter (\<lambda>k. k \<noteq> ''stream_options'') (ca_kwargs args)))
              (\<lambda>d. bindE (openai_chunk_to_unified (sk_str S) d (ca_model args)) (\<lambda>u. Inr [u])) n1)"

text \<open>A failure gives no models.\<close>

definition no_models_on_error :: "dict list res \<Rightarrow> dict list" where
  "no_models_on_error r = (case r of Inl _ \<Rightarrow> [] | Inr ms \<Rightarrow> ms)"

definition openai_list_models :: "'w sdk \<Rightarrow> provider_inst \<Rightarrow> 'w net \<Rightarrow> dict list \<times> 'w net" where
  "openai_list_models S inst n =
     (case openai_client S inst n of
        (Inl e, n1) \<Rightarrow> ([], n1)
      | (Inr c, n1) \<Rightarrow>
          (let (r, w) = sk_models S c (nt_world n1) in (no_models_on_error r, n1\<lparr>nt_world := w\<rparr>)))"

subsection \<open>DeepSeek\<close>

text \<open>The constructor builds the client at once; \<open>deepseek_client\<close> is the attribute, \<open>None\<close> after a close.\<close>

definition deepseek_init :: "'w sdk \<Rightarrow> provider_inst \<Rightarrow> 'w net \<Rightarrow> exc option \<times> 'w net" where
  "deepseek_init S inst n =
     (case init_error DeepSeekProvider (pi_api_key inst) of
        Some e \<Rightarrow> (Some e, n)
      | None \<Rightarrow>
          (case make_http_client S (pi_extra_config inst) of
             Inl e \<Rightarrow> (Some e, n)
           | Inr http \<Rightarrow>
               (case construct S AsyncOpenAI
                       [str_item ''api_key'' (pi_api_key inst), str_item ''base_url'' (pi_base_url inst),
                        (''timeout'', timeout_of (pi_extra_config inst)), (''http_client'', http)] n of
                  (Inl e, n1) \<Rightarrow> (Some e, n1)
                | (Inr c, n1) \<Rightarrow> (None, on_handles (pi_id inst) (set_client (Some c)) n1))))"

definition deepseek_client :: "provider_inst \<Rightarrow> 'w net \<Rightarrow> nat res" where
  "deepseek_client inst n =
     (case hd_client (nt_handles n (pi_id inst)) of
        None \<Rightarrow> Inl (raised_by_python AttributeErrorExc) | Some c \<Rightarrow> Inr c)"

definition deepseek_params :: "call_args \<Rightarrow> bool \<Rightarrow> dict" where
  "deepseek_params args stream =
     build_chat_kwargs (ca_model args) (ca_messages args) (ca_temperature args) (max_tokens_json args) stream
       (ca_kwargs args)"

definition deepseek_chat :: "'w sdk \<Rightarrow> provider_inst \<Rightarrow> call_args \<Rightarrow> 'w net \<Rightarrow> dict res \<times> 'w net" where
  "deepseek_chat S inst args n =
     wrap_call ''DeepSeek request failed: ''
       (case deepseek_client inst n of
          Inl e \<Rightarrow> (Inl e, n)
        | Inr c \<Rightarrow>
            request S c (Inr (deepseek_params args False)) (\<lambda>d. normalize_chat_response d (ca_model args)) n)"

definition deepseek_chunk :: "string \<Rightarrow> dict \<Rightarrow> dict list res" where
  "deepseek_chunk model data =
     Inr (case normalize_stream_chunk data of None \<Rightarrow> [] | Some d \<Rightarrow> [normalize_stream_response d model])"

definition deepseek_chat_stream ::
    "'w sdk \<Rightarrow> provider_inst \<Rightarrow> call_args \<Rightarrow> 'w net \<Rightarrow> (dict list \<times> exc option) \<times> 'w net" where
  "deepseek_chat_stream S inst args n =
     wrap_stream ''DeepSeek stream failed: ''
       (case deepseek_client inst n of
          Inl e \<Rightarrow> (([], Some e), n)
        | Inr c \<Rightarrow> request_stream S c (Inr (deepseek_params args True)) (deepseek_chunk (ca_model args)) n)"

text \<open>A model of the list with the attribute that names it.\<close>

definition listed_model :: "string \<Rightarrow> dict \<Rightarrow> dict res" where
  "listed_model attr m =
     (case map_of m attr of
        None \<Rightarrow> Inl (raised_by_python AttributeErrorExc) | Some i \<Rightarrow> Inr [(''id'', i), str_item ''object'' ''model''])"

definition deepseek_list_models :: "'w sdk \<Rightarrow> provider_inst \<Rightarrow> 'w net \<Rightarrow> dict list \<times> 'w net" where
  "deepseek_list_models S inst n =
     (case deepseek_client inst n of
        Inl _ \<Rightarrow> ([], n)
      | Inr c \<Rightarrow>
          (let (r, w) = sk_models S c (nt_world n)
           in (no_models_on_error (bindE r (mapE (listed_model ''id''))), n\<lparr>nt_world := w\<rparr>)))"

text \<open>\<open>list_models\<close> raises nothing, so the error branch of the check is never taken.\<close>

definition health_check :: "'w sdk \<Rightarrow> provider_inst \<Rightarrow> 'w net \<Rightarrow> dict \<times> 'w net" where
  "health_check S inst n =
     (let (models, n1) = deepseek_list_models S inst n
      in ([str_item ''status'' ''ok'', (''models'', JInt (int (length models)))], n1))"

subsection \<open>Anthropic\<close>

definition anthropic_client :: "'w sdk \<Rightarrow> provider_inst \<Rightarrow> 'w net \<Rightarrow> nat res \<times> 'w net" where
  "anthropic_client S inst n =
     lazy_client S AsyncAnthropic
       (Inr [str_item ''api_key'' (pi_api_key inst), str_item ''base_url'' (pi_base_url inst),
             (''timeout'', timeout_of (pi_extra_config inst))])
       hd_client set_client (pi_id inst) n"

text \<open>The messages are converted before the \<open>try\<close>: what that raises is not wrapped.\<close>

definition anthropic_request :: "'w sdk \<Rightarrow> call_args \<Rightarrow> dict res" where
  "anthropic_request S args =
     anthropic_params (sk_str S) (ca_model args) (ca_messages args) (ca_temperature args) (max_tokens_json args) (ca_kwargs args)"

definition anthropic_chat :: "'w sdk \<Rightarrow> provider_inst \<Rightarrow> call_args \<Rightarrow> 'w net \<Rightarrow> dict res \<times> 'w net" where
  "anthropic_chat S inst args n =
     (case anthropic_request S args of
        Inl e \<Rightarrow> (Inl e, n)
      | Inr params \<Rightarrow>
          wrap_call ''Anthropic request failed: ''
            (case anthropic_client S inst n of
               (Inl e, n1) \<Rightarrow> (Inl e, n1)
             | (Inr c, n1) \<Rightarrow> request S c (Inr params) (\<lambda>d. anthropic_to_unified d (ca_model args)) n1))"

definition anthropic_chat_stream ::
    "'w sdk \<Rightarrow> provider_inst \<Rightarrow> call_args \<Rightarrow> 'w net \<Rightarrow> (dict list \<times> exc option) \<times> 'w net" where
  "anthropic_chat_stream S inst args n =
     (case anthropic_request S args of
        Inl e \<Rightarrow> (([], Some e), n)
      | Inr params \<Rightarrow>
          wrap_stream ''Anthropic stream failed: ''
            (case anthropic_client S inst n of
               (Inl e, n1) \<Rightarrow> (([], Some e), n1)
             | (Inr c, n1) \<Rightarrow>
                 request_stream S c (Inr params)
                   (\<lambda>event. bindE (anthropic_event_to_chunk event (ca_model args)) (\<lambda>u. Inr [u])) n1))"

definition anthropic_list_models :: "provider_inst \<Rightarrow> dict list" where
  "anthropic_list_models inst =
     [[(''id'', dget (pi_extra_config inst) ''default_model'' (JStr ''claude-sonnet-4-20250514'')), str_item ''object'' ''model'']]"

subsection \<open>Gemini\<close>

definition google_client :: "'w sdk \<Rightarrow> provider_inst \<Rightarrow> 'w net \<Rightarrow> nat res \<times> 'w net" where
  "google_client S inst n =
     lazy_client S GenaiClient (Inr [str_item ''api_key'' (pi_api_key inst)]) hd_client set_client (pi_id inst) n"

text \<open>The contents and the configuration are built, and validated, before the \<open>try\<close>.\<close>

definition google_request :: "'w sdk \<Rightarrow> call_args \<Rightarrow> dict res" where
  "google_request S args =
     bindE (convert_messages (sk_str S) (ca_messages args)) (\<lambda>(contents, system).
       if has_attr (ca_kwargs args) ''system'' then Inl (raised_by_python TypeErrorExc)
       else
         let config = build_config (ca_temperature args) (max_tokens_json args) system (ca_kwargs args) in
         case sk_validate S contents config of
           Some e \<Rightarrow> Inl e
         | None \<Rightarrow> Inr [str_item ''model'' (ca_model args), (''contents'', JList contents), (''config'', JObj config)])"

definition usage_metadata :: "dict \<Rightarrow> dict option" where
  "usage_metadata d = (case dget d ''usage_metadata'' JNull of JObj u \<Rightarrow> Some u | _ \<Rightarrow> None)"

definition google_chat :: "'w sdk \<Rightarrow> provider_inst \<Rightarrow> call_args \<Rightarrow> 'w net \<Rightarrow> dict res \<times> 'w net" where
  "google_chat S inst args n =
     (case google_request S args of
        Inl e \<Rightarrow> (Inl e, n)
      | Inr params \<Rightarrow>
          wrap_call ''Google Gemini request failed: ''
            (case google_client S inst n of
               (Inl e, n1) \<Rightarrow> (Inl e, n1)
             | (Inr c, n1) \<Rightarrow>
                 request S c (Inr params)
                   (\<lambda>d. Inr (google_to_unified (dget d ''text'' JNull) (usage_metadata d) (ca_model args))) n1))"

definition google_chat_stream ::
    "'w sdk \<Rightarrow> provider_inst \<Rightarrow> call_args \<Rightarrow> 'w net \<Rightarrow> (dict list \<times> exc option) \<times> 'w net" where
  "google_chat_stream S inst args n =
     (case google_request S args of
        Inl e \<Rightarrow> (([], Some e), n)
      | Inr params \<Rightarrow>
          wrap_stream ''Google Gemini stream failed: ''
            (case google_client S inst n of
               (Inl e, n1) \<Rightarrow> (([], Some e), n1)
             | (Inr c, n1) \<Rightarrow>
                 request_stream S c (Inr params)
                   (\<lambda>d. Inr [google_chunk_to_unified (dget d ''text'' JNull) (usage_metadata d) (ca_model args)]) n1))"

definition google_list_models :: "'w sdk \<Rightarrow> provider_inst \<Rightarrow> 'w net \<Rightarrow> dict list \<times> 'w net" where
  "google_list_models S inst n =
     (case google_client S inst n of
        (Inl e, n1) \<Rightarrow> ([], n1)
      | (Inr c, n1) \<Rightarrow>
          (let (r, w) = sk_models S c (nt_world n1)
           in (no_models_on_error (bindE r (mapE (listed_model ''name''))), n1\<lparr>nt_world := w\<rparr>)))"

subsection \<open>The upstream calls of the gateway\<close>

text \<open>\<open>ep.provider.chat(...)\<close> and \<open>ep.provider.chat_stream(...)\<close>. The keyword arguments of a request are among
  the safe names of theory \<open>Driver\<close>; those for which the methods have parameters are not among them, since a
  request has fields of its own for them.\<close>

definition provider_chat :: "'w sdk \<Rightarrow> provider_inst \<Rightarrow> call_args \<Rightarrow> 'w net \<Rightarrow> dict res \<times> 'w net" where
  "provider_chat S inst =
     (case pi_class inst of
        OpenAICompatProvider \<Rightarrow> openai_chat S inst
      | DeepSeekProvider \<Rightarrow> deepseek_chat S inst
      | AnthropicProvider \<Rightarrow> anthropic_chat S inst
      | GoogleProvider \<Rightarrow> google_chat S inst)"

definition provider_chat_stream ::
    "'w sdk \<Rightarrow> provider_inst \<Rightarrow> call_args \<Rightarrow> 'w net \<Rightarrow> (dict list \<times> exc option) \<times> 'w net" where
  "provider_chat_stream S inst =
     (case pi_class inst of
        OpenAICompatProvider \<Rightarrow> openai_chat_stream S inst
      | DeepSeekProvider \<Rightarrow> deepseek_chat_stream S inst
      | AnthropicProvider \<Rightarrow> anthropic_chat_stream S inst
      | GoogleProvider \<Rightarrow> google_chat_stream S inst)"

definition provider_list_models :: "'w sdk \<Rightarrow> provider_inst \<Rightarrow> 'w net \<Rightarrow> dict list \<times> 'w net" where
  "provider_list_models S inst n =
     (case pi_class inst of
        OpenAICompatProvider \<Rightarrow> openai_list_models S inst n
      | DeepSeekProvider \<Rightarrow> deepseek_list_models S inst n
      | AnthropicProvider \<Rightarrow> (anthropic_list_models inst, n)
      | GoogleProvider \<Rightarrow> google_list_models S inst n)"

text \<open>The environment of the routing whose upstream calls are these.\<close>

definition over_sdk :: "'w sdk \<Rightarrow> 'w net env \<Rightarrow> 'w net env" where
  "over_sdk S env = env\<lparr>e_chat := provider_chat S, e_stream := provider_chat_stream S\<rparr>"

end
