(* ===== verification/Clients_Facts.thy ===== *)
theory Clients_Facts
  imports Clients Driver
begin

text \<open>
  What the provider classes do to errors, and to the clients they hold: the status of an upstream error is
  lost on its way to the retry rule, a header sent by a client blocks a model, and no open client is lost.
\<close>

subsection \<open>Status codes\<close>

definition set_status :: "(exc \<Rightarrow> int option) \<Rightarrow> exc \<Rightarrow> exc" where
  "set_status f e = e\<lparr>exc_status := f e\<rparr>"

text \<open>The packages with other status codes on the errors they raise, and the same in everything else.\<close>

definition with_status :: "(exc \<Rightarrow> int option) \<Rightarrow> 'w sdk \<Rightarrow> 'w sdk" where
  "with_status f S = S\<lparr>
     sk_construct := \<lambda>kind kw c w. apfst (map_option (set_status f)) (sk_construct S kind kw c w),
     sk_create := \<lambda>c p w. apfst (map_sum (set_status f) id) (sk_create S c p w),
     sk_stream := \<lambda>c p w. apfst (apsnd (map_option (set_status f))) (sk_stream S c p w)\<rparr>"

lemma provider_error_set_status [simp]: "provider_error what (set_status f e) = provider_error what e"
  by (simp add: provider_error_def set_status_def)

lemma with_status_keeps [simp]:
  "sk_str (with_status f S) = sk_str S" "sk_sha (with_status f S) = sk_sha S"
  "sk_httpx (with_status f S) = sk_httpx S" "sk_validate (with_status f S) = sk_validate S"
  by (simp_all add: with_status_def)

lemma make_http_client_with_status [simp]: "make_http_client (with_status f S) = make_http_client S"
  by (rule ext) (simp add: make_http_client_def Let_def)

lemma openai_kwargs_with_status [simp]: "openai_kwargs (with_status f S) = openai_kwargs S"
  by (intro ext) (simp add: openai_kwargs_def Let_def)

lemma openai_params_with_status [simp]: "openai_params (with_status f S) = openai_params S"
  by (intro ext) (simp add: openai_params_def)

lemma requests_with_status [simp]:
  "anthropic_request (with_status f S) = anthropic_request S" "google_request (with_status f S) = google_request S"
  by (rule ext, simp add: anthropic_request_def google_request_def Let_def case_prod_unfold cong: if_cong)+

lemma construct_with_status:
  "construct (with_status f S) kind kw n = apfst (map_sum (set_status f) id) (construct S kind kw n)"
  by (auto simp: construct_def with_status_def Let_def split: prod.splits option.splits)

text \<open>Up to the status of an error, a client is the same.\<close>

definition same_client :: "nat res \<times> 'w net \<Rightarrow> nat res \<times> 'w net \<Rightarrow> bool" where
  "same_client a b \<longleftrightarrow> snd a = snd b \<and> (fst a = fst b \<or> (\<exists>e e'. fst a = Inl e \<and> fst b = Inl e' \<and> exc_msg e = exc_msg e'))"

lemma same_client_refl [simp]: "same_client a a"
  by (simp add: same_client_def)

lemma lazy_client_with_status:
  "same_client (lazy_client (with_status f S) kind kw held keep i n) (lazy_client S kind kw held keep i n)"
  by (auto simp: lazy_client_def construct_with_status same_client_def set_status_def
      split: option.splits sum.splits prod.splits)

lemma clients_with_status:
  "same_client (openai_client (with_status f S) inst n) (openai_client S inst n)"
  "same_client (anthropic_client (with_status f S) inst n) (anthropic_client S inst n)"
  "same_client (google_client (with_status f S) inst n) (google_client S inst n)"
  by (simp_all add: openai_client_def anthropic_client_def google_client_def lazy_client_with_status
      split: sum.splits bool.splits)

text \<open>A wrapped request on the two clients.\<close>

lemma wrap_request_with_status:
  "same_client a b \<Longrightarrow>
   wrap_call what (case a of (Inl e, n1) \<Rightarrow> (Inl e, n1) | (Inr c, n1) \<Rightarrow> request (with_status f S) c params conv n1) =
   wrap_call what (case b of (Inl e, n1) \<Rightarrow> (Inl e, n1) | (Inr c, n1) \<Rightarrow> request S c params conv n1)"
  by (cases a; cases b; cases params)
    (auto simp: same_client_def wrap_call_def request_def with_status_def Let_def provider_error_def set_status_def
      map_sum_def split: sum.splits prod.splits)

lemma convert_chunks_text:
  "fst (convert_chunks conv (map_option (set_status f) err) cs) = fst (convert_chunks conv err cs) \<and>
   map_option (provider_error what) (snd (convert_chunks conv (map_option (set_status f) err) cs)) =
   map_option (provider_error what) (snd (convert_chunks conv err cs))"
  by (induction cs) (auto simp: option.map_comp comp_def split: sum.splits prod.splits)

lemma request_stream_with_status:
  "wrap_stream what (request_stream (with_status f S) c params conv n) = wrap_stream what (request_stream S c params conv n)"
  using convert_chunks_text [of conv f _ _ what]
  by (cases params) (simp_all add: wrap_stream_def request_stream_def with_status_def Let_def case_prod_beta apfst_def apsnd_def map_prod_def)

lemma request_with_status:
  "wrap_call what (request (with_status f S) c params conv n) = wrap_call what (request S c params conv n)"
  by (cases params) (auto simp: wrap_call_def request_def with_status_def Let_def map_sum_def split: sum.splits prod.splits)

lemma provider_error_msg: "exc_msg e = exc_msg e' \<Longrightarrow> provider_error what e = provider_error what e'"
  by (simp add: provider_error_def)

lemma wrapped_with_status:
  assumes "same_client a b"
  shows "wrap_call what (case a of (Inl e, n1) \<Rightarrow> (Inl e, n1) | (Inr c, n1) \<Rightarrow> request (with_status f S) c params conv n1) =
      wrap_call what (case b of (Inl e, n1) \<Rightarrow> (Inl e, n1) | (Inr c, n1) \<Rightarrow> request S c params conv n1)"
    and "wrap_stream what (case a of (Inl e, n1) \<Rightarrow> (([], Some e), n1)
          | (Inr c, n1) \<Rightarrow> request_stream (with_status f S) c params conv' n1) =
      wrap_stream what (case b of (Inl e, n1) \<Rightarrow> (([], Some e), n1) | (Inr c, n1) \<Rightarrow> request_stream S c params conv' n1)"
  using assms
  by (cases a; cases b; auto simp: same_client_def request_with_status request_stream_with_status wrap_call_def [of what "(Inl e, n)" for e n]
      wrap_stream_def [of what "(([], Some e), n)" for e n] intro: provider_error_msg split: sum.splits)+

lemma provider_chat_with_status: "provider_chat (with_status f S) = provider_chat S"
  by (intro ext) (simp add: provider_chat_def openai_chat_def deepseek_chat_def anthropic_chat_def google_chat_def
      wrapped_with_status [OF clients_with_status(1)] wrapped_with_status [OF clients_with_status(2)]
      wrapped_with_status [OF clients_with_status(3)] request_with_status wrap_call_def [of _ "(Inl e, n)" for e n]
      split: provider_class.splits sum.splits cong del: sum.case_cong_weak prod.case_cong_weak)

lemma provider_chat_stream_with_status: "provider_chat_stream (with_status f S) = provider_chat_stream S"
  by (intro ext) (simp add: provider_chat_stream_def openai_chat_stream_def deepseek_chat_stream_def
      anthropic_chat_stream_def google_chat_stream_def
      wrapped_with_status [OF clients_with_status(1)] wrapped_with_status [OF clients_with_status(2)]
      wrapped_with_status [OF clients_with_status(3)] request_stream_with_status
      split: provider_class.splits sum.splits cong del: sum.case_cong_weak prod.case_cong_weak)

text \<open>C28: the status code of an upstream error does not matter. Whatever codes the vendors' packages attach to
  the errors they raise, and however they are changed, every call, retry, wait and cooldown of the gateway is
  the same: the wrapping into a \<open>ProviderError\<close> keeps the text only. So the first rule of
  \<open>is_retryable_error\<close>, which prefers a status code, never applies to an answer of an upstream.\<close>

theorem status_codes_do_not_matter:
  "call_llm (over_sdk (with_status f S) env) ep msgs gid temperature max_tokens kwargs =
   call_llm (over_sdk S env) ep msgs gid temperature max_tokens kwargs"
  by (simp add: over_sdk_def provider_chat_with_status provider_chat_stream_with_status)

subsection \<open>Headers of the client\<close>

lemma with_kwargs_twice:
  assumes "has_attr own k" "has_attr kwargs k"
  shows "with_kwargs own kwargs = Inl (raised_by_python TypeErrorExc)"
proof -
  obtain v where "(k, v) \<in> set kwargs" using assms(2) by (auto simp: has_attr_def dest: map_of_SomeD)
  then show ?thesis using assms(1) by (auto simp: with_kwargs_def list_ex_iff)
qed

lemma openai_params_headers:
  assumes "has_attr kwargs ''extra_headers''"
  shows "\<exists>e. openai_params S inst args stream options kwargs = Inl e"
proof (cases "apply_headers (sk_str S) (sk_sha S) (pi_extra_config inst) (ca_messages args)")
  case (Inr h)
  have own: "has_attr (xs @ [(''extra_headers'', headers_json h)]) ''extra_headers''" for xs :: dict
    by (simp add: has_attr_def map_of_append map_add_def split: option.splits)
  have "with_kwargs (xs @ [(''extra_headers'', headers_json h)]) kwargs = Inl (raised_by_python TypeErrorExc)" for xs
    by (rule with_kwargs_twice [OF own assms])
  note twice = this [of "[str_item ''model'' (ca_model args), (''messages'', JList (map JObj (ca_messages args))),
      (''temperature'', ca_temperature args), (''max_tokens'', max_tokens_json args), (''stream'', JBool stream)] @ options"]
  show ?thesis using twice by (simp add: openai_params_def Inr)
qed (simp add: openai_params_def)

lemma openai_chat_headers:
  assumes "has_attr (ca_kwargs args) ''extra_headers''"
  shows "\<exists>e n'. openai_chat S inst args n = (Inl e, n')"
  using openai_params_headers [OF assms, of S inst args False "[]"]
  by (auto simp: openai_chat_def wrap_call_def request_def split: sum.splits prod.splits)

lemma attempt_chat_always_fails:
  assumes "\<And>w. \<exists>e w'. e_chat env (ep_provider ep) args w = (Inl e, w')"
  shows "fst (fst (attempt_chat env b ep args gid n k err g)) = None"
proof (induction n arbitrary: k err g)
  case (Suc n)
  obtain e g1 where "upstream_chat env b ep args g = (Inl e, g1)"
    using assms [of "gw_world (acquire b (ep_provider_id ep) g)"] by (auto simp: upstream_chat_def Let_def)
  then show ?case using Suc.IH by simp
qed simp

lemma call_llm_always_fails:
  assumes kw: "apply_model_extra_config kwargs (d_extra_config (ep_detail ep)) = Inr kw"
    and fails: "\<And>args w. ca_kwargs args = kw \<Longrightarrow> \<exists>e w'. e_chat env (ep_provider ep) args w = (Inl e, w')"
  shows "\<exists>err. fst (call_llm env ep msgs gid temperature max_tokens kwargs g) = Inr (None, err)"
    and "gw_cooldown (snd (call_llm env ep msgs gid temperature max_tokens kwargs g)) =
      record_failure (mono_now env (snd (call_llm env ep msgs gid temperature max_tokens kwargs g))) gid (ep_model_id ep)
        (ep_cooldown_threshold ep) (ep_cooldown_seconds ep) (gw_cooldown g)"
proof -
  obtain limited g0 where sem: "ensure_semaphore env (ep_provider_id ep) g = (limited, g0)"
    by (cases "ensure_semaphore env (ep_provider_id ep) g")
  let ?args = "\<lparr>ca_messages = msgs, ca_model = d_model_name (ep_detail ep), ca_temperature = temperature,
                ca_max_tokens = max_tokens, ca_kwargs = kw\<rparr>"
  let ?r = "attempt_chat env limited ep ?args gid (nat (ep_max_retries ep)) 0 None g0"
  obtain d err g1 where r: "?r = ((d, err), g1)" by (metis prod.collapse)
  have "d = None" using attempt_chat_always_fails [OF fails, of ?args limited gid] r by (metis call_args.select_convs(5) fst_conv)
  moreover from this have "gw_cooldown g1 = gw_cooldown g"
    using attempt_chat_cooldown [of env limited ep ?args gid "nat (ep_max_retries ep)" 0 None g0] r
      ensure_semaphore_frame [OF sem] by simp
  ultimately have call: "call_llm env ep msgs gid temperature max_tokens kwargs g = (Inr (None, err), on_cooldown_failure env gid ep g1)"
      "gw_cooldown g1 = gw_cooldown g"
    using r by (simp_all add: call_llm_def kw sem Let_def)
  show "\<exists>err. fst (call_llm env ep msgs gid temperature max_tokens kwargs g) = Inr (None, err)" by (simp add: call)
  show "gw_cooldown (snd (call_llm env ep msgs gid temperature max_tokens kwargs g)) =
      record_failure (mono_now env (snd (call_llm env ep msgs gid temperature max_tokens kwargs g))) gid (ep_model_id ep)
        (ep_cooldown_threshold ep) (ep_cooldown_seconds ep) (gw_cooldown g)"
    by (simp add: call on_cooldown_failure_def)
qed

text \<open>The state after \<open>k\<close> chat calls of the same kind to one endpoint.\<close>

fun calls_in_a_row :: "nat \<Rightarrow> ('w gw \<Rightarrow> 'w gw) \<Rightarrow> 'w gw \<Rightarrow> 'w gw" where
  "calls_in_a_row 0 call g = g"
| "calls_in_a_row (Suc k) call g = call (calls_in_a_row k call g)"

lemma failures_in_a_row:
  assumes "\<And>g. \<exists>t. gw_cooldown (call g) = record_failure t gid mid threshold seconds (gw_cooldown g)"
  shows "get_failure_count (gw_cooldown (calls_in_a_row k call g)) (gid, mid) =
    get_failure_count (gw_cooldown g) (gid, mid) + int k"
proof (induction k)
  case (Suc k)
  then show ?case using assms [of "calls_in_a_row k call g"] by (auto simp: failure_count_record_failure)
qed simp

lemma openai_call_fails:
  assumes "pi_class (ep_provider ep) = OpenAICompatProvider"
    and "apply_model_extra_config kwargs (d_extra_config (ep_detail ep)) = Inr kw" "has_attr kw ''extra_headers''"
  shows "\<exists>err. fst (call_llm (over_sdk S env) ep msgs gid temperature max_tokens kwargs g) = Inr (None, err)"
    and "gw_cooldown (snd (call_llm (over_sdk S env) ep msgs gid temperature max_tokens kwargs g)) =
      record_failure (mono_now env (snd (call_llm (over_sdk S env) ep msgs gid temperature max_tokens kwargs g))) gid
        (ep_model_id ep) (ep_cooldown_threshold ep) (ep_cooldown_seconds ep) (gw_cooldown g)"
proof -
  have fails: "\<exists>e w'. e_chat (over_sdk S env) (ep_provider ep) args w = (Inl e, w')" if "ca_kwargs args = kw" for args w
    using openai_chat_headers [of args S "ep_provider ep" w] assms(1,3) that by (simp add: over_sdk_def provider_chat_def)
  have "e_mono (over_sdk S env) = e_mono env" by (simp add: over_sdk_def)
  then show "\<exists>err. fst (call_llm (over_sdk S env) ep msgs gid temperature max_tokens kwargs g) = Inr (None, err)"
    and "gw_cooldown (snd (call_llm (over_sdk S env) ep msgs gid temperature max_tokens kwargs g)) =
      record_failure (mono_now env (snd (call_llm (over_sdk S env) ep msgs gid temperature max_tokens kwargs g))) gid
        (ep_model_id ep) (ep_cooldown_threshold ep) (ep_cooldown_seconds ep) (gw_cooldown g)"
    using call_llm_always_fails [OF assms(2) fails] by simp_all
qed

lemma map_of_dfilter: "map_of (dfilter p d) k = (if p k then map_of d k else None)"
  by (simp add: dfilter_def map_of_filter_fst)

lemma extra_headers_are_safe:
  "has_attr extra ''extra_headers'' \<Longrightarrow> has_attr (filter_safe_extra extra) ''extra_headers''"
  by (simp add: has_attr_def filter_safe_extra_def map_of_dfilter safe_extra_keys_def)

lemma safe_extra_unchanged: "apply_model_extra_config (filter_safe_extra extra) [] = Inr (filter_safe_extra extra)"
proof -
  have "dget (filter_safe_extra extra) ''reasoning_mode'' JNull = JNull"
    by (simp add: dget_def filter_safe_extra_def map_of_dfilter safe_extra_keys_def)
  then show ?thesis by (simp add: apply_model_extra_config_def dfilter_def)
qed

text \<open>C29: a client can block a model for everybody. The field \<open>extra_headers\<close> of a request is among the
  arguments handed to the provider, which passes an argument of this name itself: the call fails before the
  upstream is asked, whatever the upstream would answer, and counts as a failure of the model. After as many
  such requests as the model's threshold allows failures, the model is on cooldown.\<close>

theorem client_headers_block_model:
  assumes "pi_class (ep_provider ep) = OpenAICompatProvider" "has_attr extra ''extra_headers''"
    and "d_extra_config (ep_detail ep) = []" "0 < ep_cooldown_seconds ep"
    and "\<And>w. 0 \<le> e_mono env w" "0 \<le> get_failure_count (gw_cooldown g) (gid, ep_model_id ep)"
    and "0 < k" "ep_cooldown_threshold ep \<le> int k"
    and "g' = calls_in_a_row k (\<lambda>g. snd (call_llm (over_sdk S env) ep msgs gid temperature max_tokens (filter_safe_extra extra) g)) g"
  shows "blocked (mono_now env g') (gw_cooldown g') (gid, ep_model_id ep)"
proof -
  let ?call = "\<lambda>g. snd (call_llm (over_sdk S env) ep msgs gid temperature max_tokens (filter_safe_extra extra) g)"
  have rec: "gw_cooldown (?call g) = record_failure (mono_now env (?call g)) gid (ep_model_id ep)
      (ep_cooldown_threshold ep) (ep_cooldown_seconds ep) (gw_cooldown g)" for g
    by (rule openai_call_fails(2) [OF assms(1) _ extra_headers_are_safe [OF assms(2)]]) (simp add: assms(3) safe_extra_unchanged)
  obtain j where k: "k = Suc j" using assms(7) by (cases k) auto
  let ?g = "calls_in_a_row j ?call g"
  have "get_failure_count (gw_cooldown ?g) (gid, ep_model_id ep) = get_failure_count (gw_cooldown g) (gid, ep_model_id ep) + int j"
    by (rule failures_in_a_row) (use rec in blast)
  then have "ep_cooldown_threshold ep \<le> get_failure_count (gw_cooldown ?g) (gid, ep_model_id ep) + 1"
    using assms(6,8) k by simp
  moreover have "g' = ?call ?g" using assms(9) k by simp
  ultimately show ?thesis
    using rec [of ?g] assms(4) assms(5) [of "gw_world g'"] by (simp add: blocked_def map_of_record_failure Let_def)
qed

definition idle_handles :: "unit net" where
  "idle_handles = \<lparr>nt_handles = \<lambda>_. no_handles, nt_next = 0, nt_open = [], nt_world = ()\<rparr>"

text \<open>Packages that answer every request.\<close>

definition willing_sdk :: "unit sdk" where
  "willing_sdk = \<lparr>sk_httpx = \<lambda>_. None, sk_construct = \<lambda>_ _ _ w. (None, w), sk_close = \<lambda>_ w. (None, w),
     sk_create = \<lambda>_ _ w. (Inr [], w), sk_stream = \<lambda>_ _ w. (([], None), w), sk_models = \<lambda>_ w. (Inr [], w),
     sk_validate = \<lambda>_ _. None, sk_str = \<lambda>_. [], sk_sha = id\<rparr>"

definition calm_env :: "unit net env" where
  "calm_env = \<lparr>e_wall = \<lambda>_. 5, e_mono = \<lambda>_. 5, e_uniform = (\<lambda>a b w. (a, w)), e_sleep = (\<lambda>t w. w),
     e_chat = (\<lambda>inst args w. (Inr [], w)), e_stream = (\<lambda>inst args w. (([], None), w)), e_wait = id,
     e_disconnected = (\<lambda>w. (False, w)), e_encode = (\<lambda>s. []), e_str = (\<lambda>v. []), e_sem_size = 0\<rparr>"

theorem client_headers_block_model_witness:
  "blocked 5 (gw_cooldown (calls_in_a_row 3 (\<lambda>g. snd (call_llm (over_sdk willing_sdk calm_env) sample_endpoint
       [] 1 JNull None (filter_safe_extra [(''extra_headers'', JNull)]) g)) (empty_gw idle_handles))) (1, 7)"
proof -
  have mono: "e_mono calm_env w = 5" for w by (simp add: calm_env_def)
  have "blocked (e_mono calm_env (gw_world (calls_in_a_row 3 (\<lambda>g. snd (call_llm (over_sdk willing_sdk calm_env) sample_endpoint
       [] 1 JNull None (filter_safe_extra [(''extra_headers'', JNull)]) g)) (empty_gw idle_handles))))
     (gw_cooldown (calls_in_a_row 3 (\<lambda>g. snd (call_llm (over_sdk willing_sdk calm_env) sample_endpoint
       [] 1 JNull None (filter_safe_extra [(''extra_headers'', JNull)]) g)) (empty_gw idle_handles)))
     (1, ep_model_id sample_endpoint)"
    by (rule client_headers_block_model [OF _ _ _ _ _ _ _ _ refl])
      (simp_all add: mono sample_endpoint_def with_weight_def sample_inst_def has_attr_def ep_cooldown_seconds_def
        ep_cooldown_threshold_def get_failure_count_def empty_gw_def)
  then show ?thesis by (simp add: mono ep_model_id_def sample_endpoint_def with_weight_def)
qed

subsection \<open>The clients that are open\<close>

definition held :: "handles \<Rightarrow> nat set" where
  "held h = {c. hd_client h = Some c \<or> hd_azure h = Some c}"

text \<open>The instances do what the gateway makes them do, in any order; \<open>insts i\<close> is the instance with number \<open>i\<close>,
  constructed once.\<close>

inductive client_step :: "'w sdk \<Rightarrow> (nat \<Rightarrow> provider_inst) \<Rightarrow> 'w net \<Rightarrow> 'w net \<Rightarrow> bool" for S insts where
  step_init: "pi_class (insts i) = DeepSeekProvider \<Longrightarrow> nt_handles n i = no_handles \<Longrightarrow>
     client_step S insts n (snd (deepseek_init S (insts i) n))"
| step_chat: "client_step S insts n (snd (provider_chat S (insts i) args n))"
| step_stream: "client_step S insts n (snd (provider_chat_stream S (insts i) args n))"
| step_models: "client_step S insts n (snd (provider_list_models S (insts i) n))"
| step_close: "client_step S insts n (snd (aclose S (insts i) n))"

text \<open>Every open client is held by an instance, and only an OpenAI-compatible instance has an Azure client.\<close>

definition clients_held :: "(nat \<Rightarrow> provider_inst) \<Rightarrow> 'w net \<Rightarrow> bool" where
  "clients_held insts n \<longleftrightarrow> distinct (nt_open n) \<and> (\<forall>c \<in> set (nt_open n). c < nt_next n) \<and>
     set (nt_open n) \<subseteq> (\<Union>i. held (nt_handles n i)) \<and>
     (\<forall>i. hd_azure (nt_handles n i) \<noteq> None \<longrightarrow> pi_class (insts i) = OpenAICompatProvider)"

lemma clients_held_world [simp]: "clients_held insts (n\<lparr>nt_world := w\<rparr>) = clients_held insts n"
  by (simp add: clients_held_def)

lemma handles_on [simp]:
  "nt_handles (on_handles i f n) j = (if j = i then f (nt_handles n i) else nt_handles n j)"
  "nt_open (on_handles i f n) = nt_open n" "nt_next (on_handles i f n) = nt_next n"
  by (simp_all add: on_handles_def)

lemma held_keep [simp]:
  "held (set_client (Some c) h) = insert c {a. hd_azure h = Some a}"
  "held (set_azure (Some c) h) = insert c {a. hd_client h = Some a}"
  "held (h\<lparr>hd_closed := b\<rparr>) = held h"
  by (auto simp: held_def set_client_def set_azure_def)

lemma handles_fields [simp]:
  "hd_client (set_client c h) = c" "hd_azure (set_client c h) = hd_azure h"
  "hd_azure (set_azure c h) = c" "hd_client (set_azure c h) = hd_client h"
  by (simp_all add: set_client_def set_azure_def)

text \<open>A new client goes to a place that was empty.\<close>

lemma keep_new_client:
  assumes "clients_held insts n" "construct S kind kw n = (Inr c, n1)"
    and "held (nt_handles n i) \<subseteq> held (keep (nt_handles n i))" "c \<in> held (keep (nt_handles n i))"
    and "hd_azure (keep (nt_handles n i)) \<noteq> None \<Longrightarrow> pi_class (insts i) = OpenAICompatProvider"
  shows "clients_held insts (on_handles i keep n1)"
proof -
  have n1: "nt_handles n1 = nt_handles n" "nt_open n1 = nt_open n @ [nt_next n]" "nt_next n1 = Suc (nt_next n)" "c = nt_next n"
    using assms(2) by (auto simp: construct_def Let_def split: prod.splits option.splits)
  have "held (nt_handles n j) \<subseteq> held (nt_handles (on_handles i keep n1) j)" for j using assms(3) by (simp add: n1)
  moreover have "c \<in> held (nt_handles (on_handles i keep n1) i)" using assms(4) by (simp add: n1)
  ultimately have "set (nt_open n1) \<subseteq> (\<Union>j. held (nt_handles (on_handles i keep n1) j))"
    using assms(1) unfolding clients_held_def n1(2,4) by (simp del: handles_on) blast
  moreover have "hd_azure (nt_handles (on_handles i keep n1) j) \<noteq> None \<Longrightarrow> pi_class (insts j) = OpenAICompatProvider" for j
    using assms(1,5) by (simp add: clients_held_def n1(1) split: if_splits)
  moreover have "distinct (nt_open n1)" "\<forall>c \<in> set (nt_open n1). c < nt_next n1"
    using assms(1) by (auto simp: clients_held_def n1)
  ultimately show ?thesis by (simp add: clients_held_def del: handles_on(1))
qed

lemma lazy_client_held:
  assumes "clients_held insts n" "lazy_client S kind kw get keep i n = (r, n')"
    and "\<And>c h. get h = None \<Longrightarrow> held h \<subseteq> held (keep (Some c) h) \<and> c \<in> held (keep (Some c) h)"
    and "\<And>c h. hd_azure (keep (Some c) h) \<noteq> None \<Longrightarrow> hd_azure h \<noteq> None \<or> pi_class (insts i) = OpenAICompatProvider"
  shows "clients_held insts n'"
proof (cases "get (nt_handles n i)")
  case (Some c)
  then show ?thesis using assms(1,2) by (simp add: lazy_client_def)
next
  case None
  have azure: "hd_azure (keep (Some c) (nt_handles n i)) \<noteq> None \<Longrightarrow> pi_class (insts i) = OpenAICompatProvider" for c
    using assms(1,4) unfolding clients_held_def by blast
  have failed: "clients_held insts n1" if "construct S kind k n = (Inl e, n1)" for k e n1
    using that assms(1) by (auto simp: construct_def Let_def split: prod.splits option.splits)
  have kept: "clients_held insts (on_handles i (keep (Some c)) n1)" if "construct S kind k n = (Inr c, n1)" for k c n1
    using keep_new_client [OF assms(1) that] assms(3) [OF None] azure by blast
  show ?thesis
    using assms(1,2) None failed kept by (auto simp: lazy_client_def split: sum.splits prod.splits)
qed

lemma held_set_client: "hd_client h = None \<Longrightarrow> held h \<subseteq> held (set_client (Some c) h) \<and> c \<in> held (set_client (Some c) h)"
  by (auto simp: held_def)

lemma held_set_azure: "hd_azure h = None \<Longrightarrow> held h \<subseteq> held (set_azure (Some c) h) \<and> c \<in> held (set_azure (Some c) h)"
  by (auto simp: held_def)

lemma clients_are_held:
  assumes "clients_held insts n"
  shows "pi_class (insts (pi_id inst)) = OpenAICompatProvider \<Longrightarrow> clients_held insts (snd (openai_client S inst n))"
    and "clients_held insts (snd (anthropic_client S inst n))" "clients_held insts (snd (google_client S inst n))"
  using lazy_client_held [OF assms, of S _ _ hd_client set_client "pi_id inst"] held_set_client
    lazy_client_held [OF assms, of S _ _ hd_azure set_azure "pi_id inst"] held_set_azure
  by (auto simp: openai_client_def anthropic_client_def google_client_def assms split: sum.splits bool.splits)
    (metis handles_fields prod.collapse)+

lemma request_held [simp]: "clients_held insts (snd (request S c params conv n)) = clients_held insts n"
  by (auto simp: request_def Let_def split: sum.splits prod.splits)

lemma request_stream_held [simp]: "clients_held insts (snd (request_stream S c params conv n)) = clients_held insts n"
  by (auto simp: request_stream_def Let_def split: sum.splits prod.splits)

lemma wrapped_net [simp]: "snd (wrap_call what rn) = snd rn" "snd (wrap_stream what rs) = snd rs"
  by (auto simp: wrap_call_def wrap_stream_def split: prod.splits sum.splits)

lemma calls_keep_clients:
  assumes "clients_held insts n" "insts (pi_id inst) = inst"
  shows "clients_held insts (snd (provider_chat S inst args n))"
    and "clients_held insts (snd (provider_chat_stream S inst args n))"
    and "clients_held insts (snd (provider_list_models S inst n))"
  using clients_are_held [OF assms(1), where inst = inst and S = S] assms
  by (auto simp: provider_chat_def provider_chat_stream_def provider_list_models_def openai_chat_def deepseek_chat_def
      anthropic_chat_def google_chat_def openai_chat_stream_def deepseek_chat_stream_def anthropic_chat_stream_def
      google_chat_stream_def openai_list_models_def deepseek_list_models_def google_list_models_def Let_def case_prod_beta
      split: provider_class.splits sum.splits)

lemma close_all_open:
  assumes "close_all S cs n = (err, n')" "distinct (nt_open n)"
  shows "nt_handles n' = nt_handles n \<and> nt_next n' = nt_next n \<and> distinct (nt_open n') \<and> set (nt_open n') \<subseteq> set (nt_open n) \<and>
    (err = None \<longrightarrow> set (nt_open n') = set (nt_open n) - {c. Some c \<in> set cs})"
  using assms
proof (induction S cs n rule: close_all.induct)
  case (3 S c cs n)
  obtain e w where close: "sk_close S c (nt_world n) = (e, w)" by (cases "sk_close S c (nt_world n)")
  show ?case
  proof (cases e)
    case None
    have "distinct (remove1 c (nt_open n))" using 3(3) by simp
    with 3 None close have "nt_handles n' = nt_handles n \<and> nt_next n' = nt_next n \<and> distinct (nt_open n') \<and>
        set (nt_open n') \<subseteq> set (remove1 c (nt_open n)) \<and>
        (err = None \<longrightarrow> set (nt_open n') = set (remove1 c (nt_open n)) - {c. Some c \<in> set cs})"
      by simp
    then show ?thesis using 3(3) by (auto simp: set_remove1_eq)
  qed (use 3 close in auto)
qed auto

lemma close_held_open:
  assumes "clients_held insts n" "close_held S cs forget i n = (err, n')"
    and "{c. Some c \<in> set cs} = held (nt_handles n i)" "held (forget (nt_handles n i)) = {}"
  shows "clients_held insts n' \<and> (err = None \<longrightarrow> set (nt_open n') = set (nt_open n) - held (nt_handles n i))"
proof -
  obtain e n1 where all: "close_all S cs n = (e, n1)" by (cases "close_all S cs n")
  have n1: "nt_handles n1 = nt_handles n" "nt_next n1 = nt_next n" "distinct (nt_open n1)" "set (nt_open n1) \<subseteq> set (nt_open n)"
      "e = None \<Longrightarrow> set (nt_open n1) = set (nt_open n) - held (nt_handles n i)"
    using close_all_open [OF all] assms(1,3) by (simp_all add: clients_held_def)
  have kept: "clients_held insts n1" using assms(1) n1(1-4) by (auto simp: clients_held_def)
  show ?thesis
  proof (cases e)
    case None
    have n': "err = None" "n' = on_handles i forget n1" using assms(2) all None by (simp_all add: close_held_def)
    have "hd_azure (forget (nt_handles n i)) = None" using assms(4) by (cases "hd_azure (forget (nt_handles n i))") (auto simp: held_def)
    moreover have "set (nt_open n1) \<subseteq> (\<Union>j. held (nt_handles n' j))"
    proof
      fix c assume c: "c \<in> set (nt_open n1)"
      then obtain j where j: "c \<in> held (nt_handles n j)" using kept n1(1) by (auto simp: clients_held_def)
      then have "j \<noteq> i" using c n1(5) None by auto
      then show "c \<in> (\<Union>j. held (nt_handles n' j))" using j by (auto simp: n' n1(1))
    qed
    ultimately have "clients_held insts n'" using kept by (simp add: clients_held_def n' n1(1))
    then show ?thesis using n1(5) None by (simp add: n')
  next
    case (Some x)
    then have "err = Some x" "n' = n1" using assms(2) all by (simp_all add: close_held_def)
    then show ?thesis using kept by simp
  qed
qed

lemma aclose_open:
  assumes "clients_held insts n" "aclose S inst n = (err, n')" "insts (pi_id inst) = inst"
  shows "clients_held insts n' \<and>
    (err = None \<and> \<not> hd_closed (nt_handles n (pi_id inst)) \<longrightarrow>
      set (nt_open n') = set (nt_open n) - held (nt_handles n (pi_id inst)))"
proof (cases "hd_closed (nt_handles n (pi_id inst))")
  case True
  then show ?thesis using assms by (simp add: aclose_def)
next
  case False
  let ?i = "pi_id inst"
  let ?n = "on_handles ?i (\<lambda>h. h\<lparr>hd_closed := True\<rparr>) n"
  let ?h = "nt_handles ?n ?i"
  have "held (nt_handles ?n j) = held (nt_handles n j)" "hd_azure (nt_handles ?n j) = hd_azure (nt_handles n j)" for j by simp_all
  then have kept: "clients_held insts ?n" using assms(1) unfolding clients_held_def by (simp del: handles_on(1))
  have close: "close_client S inst ?n = (err, n')" using assms(2) False by (simp add: aclose_def)
  have goal: ?thesis
    if "close_held S cs forget ?i ?n = (err, n')" "{c. Some c \<in> set cs} = held ?h" "held (forget ?h) = {}" for cs forget
    using close_held_open [OF kept that] by simp
  show ?thesis
  proof (cases "pi_class inst = OpenAICompatProvider")
    case True
    have "close_held S [hd_client ?h, hd_azure ?h] (\<lambda>h. set_azure None (set_client None h)) ?i ?n = (err, n')"
      using close True by (simp add: close_client_def)
    then show ?thesis by (rule goal) (auto simp: held_def)
  next
    case other: False
    have azure: "hd_azure ?h = None" using kept assms(3) other unfolding clients_held_def by metis
    then have cs: "{c. Some c \<in> set [hd_client ?h]} = held ?h" and none: "held (set_client None ?h) = {}"
      by (auto simp: held_def)
    consider "close_held S [hd_client ?h] (set_client None) ?i ?n = (err, n')" | "err \<noteq> None" "n' = ?n"
      using close other by (cases "pi_class inst") (auto simp: close_client_def split: if_splits)
    then show ?thesis by cases (use goal cs none kept in auto)
  qed
qed

lemma deepseek_init_held:
  assumes "clients_held insts n" "nt_handles n (pi_id inst) = no_handles"
  shows "clients_held insts (snd (deepseek_init S inst n))"
proof -
  have failed: "clients_held insts n1" if "construct S kind k n = (Inl e, n1)" for kind k e n1
    using that assms(1) by (auto simp: construct_def Let_def split: prod.splits option.splits)
  have kept: "clients_held insts (on_handles (pi_id inst) (set_client (Some c)) n1)" if "construct S kind k n = (Inr c, n1)" for kind k c n1
    by (rule keep_new_client [OF assms(1) that]) (use assms(2) in \<open>auto simp: no_handles_def held_def\<close>)
  show ?thesis
    using assms(1) failed kept by (auto simp: deepseek_init_def split: option.splits sum.splits prod.splits)
qed

lemma client_step_held:
  assumes "client_step S insts n n'" "\<And>i. pi_id (insts i) = i" "clients_held insts n"
  shows "clients_held insts n'"
  using assms(1)
proof cases
  case (step_init i)
  then show ?thesis using deepseek_init_held [OF assms(3)] assms(2) by simp
next
  case (step_close i)
  then show ?thesis using aclose_open [OF assms(3), of S "insts i"] assms(2) by (metis prod.collapse)
qed (use calls_keep_clients [OF assms(3)] assms(2) in simp_all)

text \<open>C30: no connection pool is lost. Whatever the instances do, in any order and with whatever errors of the
  vendors' packages, every client that is open is one an instance still holds; and when an instance that was
  not closed before is closed without an error, all its clients are closed, and nobody else's.\<close>

theorem no_open_client_is_lost:
  assumes "\<And>i. pi_id (insts i) = i" "nt_open n0 = []" "\<And>i. nt_handles n0 i = no_handles"
    and "(client_step S insts)\<^sup>*\<^sup>* n0 n"
    and "\<not> hd_closed (nt_handles n i)" "aclose S (insts i) n = (None, n')"
  shows "set (nt_open n) \<subseteq> (\<Union>j. held (nt_handles n j)) \<and>
    set (nt_open n') = set (nt_open n) - held (nt_handles n i)"
proof -
  have "clients_held insts n0" using assms(2,3) by (simp add: clients_held_def no_handles_def)
  with assms(4) have "clients_held insts n" by (induction rule: rtranclp_induct) (auto intro: client_step_held assms(1))
  then show ?thesis using aclose_open [OF _ assms(6)] assms(1,5) by (auto simp: clients_held_def)
qed

definition numbered :: "nat \<Rightarrow> provider_inst" where
  "numbered i = \<lparr>pi_id = i, pi_class = AnthropicProvider, pi_api_key = ''k'', pi_base_url = ''u'', pi_extra_config = []\<rparr>"

definition hello_call :: call_args where
  "hello_call = \<lparr>ca_messages = [], ca_model = ''m'', ca_temperature = JNull, ca_max_tokens = None, ca_kwargs = []\<rparr>"

definition one_client :: "unit net" where
  "one_client = \<lparr>nt_handles = (\<lambda>_. no_handles)(0 := set_client (Some 0) no_handles), nt_next = 1, nt_open = [0], nt_world = ()\<rparr>"

lemma first_call_opens: "snd (provider_chat willing_sdk (numbered 0) hello_call idle_handles) = one_client"
  by (simp add: provider_chat_def numbered_def anthropic_chat_def anthropic_request_def anthropic_params_def hello_call_def
      anthropic_client_def lazy_client_def construct_def request_def Let_def willing_sdk_def idle_handles_def no_handles_def
      on_handles_def one_client_def split: sum.splits prod.splits)

theorem no_open_client_is_lost_witness:
  "nt_open one_client = [0] \<and> set (nt_open (snd (aclose willing_sdk (numbered 0) one_client))) = {}"
proof -
  have "client_step willing_sdk numbered idle_handles (snd (provider_chat willing_sdk (numbered 0) hello_call idle_handles))"
    by (rule step_chat)
  then have run: "(client_step willing_sdk numbered)\<^sup>*\<^sup>* idle_handles one_client" by (simp add: first_call_opens)
  have close: "aclose willing_sdk (numbered 0) one_client = (None, snd (aclose willing_sdk (numbered 0) one_client))"
    by (simp add: aclose_def close_client_def close_held_def numbered_def willing_sdk_def one_client_def no_handles_def
        on_handles_def set_client_def)
  show ?thesis
    using no_open_client_is_lost [OF _ _ _ run _ close]
    by (simp add: numbered_def idle_handles_def one_client_def no_handles_def held_def set_client_def)
qed

text \<open>An instance that is called again after its close opens a client that no close will ever reach.\<close>

lemma call_after_close_leaks:
  "let n = snd (provider_chat willing_sdk (numbered 0) hello_call (snd (aclose willing_sdk (numbered 0) one_client)))
   in nt_open n = [1] \<and> aclose willing_sdk (numbered 0) n = (None, n)"
  by (simp add: provider_chat_def numbered_def anthropic_chat_def anthropic_request_def anthropic_params_def hello_call_def
      anthropic_client_def lazy_client_def construct_def request_def Let_def willing_sdk_def no_handles_def one_client_def
      on_handles_def aclose_def close_client_def close_held_def set_client_def split: sum.splits prod.splits)

text \<open>The health check of DeepSeek never reports an error.\<close>

lemma health_check_is_ok: "dget (fst (health_check S inst n)) ''status'' JNull = JStr ''ok''"
  by (simp add: health_check_def case_prod_beta Let_def str_item_def)

end
