(* ===== verification/Front.thy ===== *)
theory Front
  imports Serve Limiter Auth
begin

text \<open>
  A request on its way to an endpoint: the middlewares of \<open>src/botflow/core.py\<close> in the order the application
  runs them, and the routes of the client endpoints. The middleware that is added last is the outermost: the
  authentication, then the rate limiter, then CORS, which belongs to the framework.

  \<open>wb_cors\<close> is the answer of the framework's CORS middleware to a preflight request, \<open>None\<close> when it passes the
  request on. \<open>wb_other\<close> stands for all other routes, those of the management among them. \<open>hq_body\<close> is the body
  after \<open>request.json()\<close>, \<open>None\<close> when it is not JSON; a body that is no dictionary is outside the model.
\<close>

record http_request =
  hq_method :: string
  hq_scope :: scope
  hq_body :: "dict option"

datatype response =
    Rejected int string | Limit_exceeded int | Replied reply | Failed exc | Other_response json

record 'w web =
  wb_front :: "'w front"
  wb_drv :: "'w drv"
  wb_sha :: "string \<Rightarrow> string"
  wb_parse_qsl :: "string \<Rightarrow> (string \<times> string) list"
  wb_limits :: limiter_config
  wb_uuid :: "'w \<Rightarrow> string"
  wb_cors :: "http_request \<Rightarrow> response option"
  wb_other :: "http_request \<Rightarrow> int option \<Rightarrow> 'w srv \<Rightarrow> response \<times> 'w srv"

record 'w web_state =
  ws_limiter :: limiter
  ws_srv :: "'w srv"

subsection \<open>Endpoints by their route\<close>

text \<open>The request id is the one of the header, or a random one.\<close>

definition request_id :: "'w web \<Rightarrow> scope \<Rightarrow> 'w srv \<Rightarrow> string" where
  "request_id W sc s =
     (let given = asgi_header (sc_headers sc) ''x-request-id''
      in if given \<noteq> '''' then given else wb_uuid W (gw_world (sv_gw s)))"

definition request_ctx_of :: "'w web \<Rightarrow> scope \<Rightarrow> int option \<Rightarrow> 'w srv \<Rightarrow> request_ctx" where
  "request_ctx_of W sc key s = \<lparr>rc_api_key_id = key, rc_request_id = Some (request_id W sc s)\<rparr>"

definition replied :: "(reply res \<times> 'w srv) option \<Rightarrow> (response \<times> 'w srv) option" where
  "replied r = map_option (\<lambda>(q, s). (case q of Inl e \<Rightarrow> Failed e | Inr a \<Rightarrow> Replied a, s)) r"

text \<open>An endpoint that reads a JSON body.\<close>

definition with_body :: "http_request \<Rightarrow> (dict \<Rightarrow> 'w srv \<Rightarrow> (reply res \<times> 'w srv) option) \<Rightarrow> 'w srv \<Rightarrow>
    (response \<times> 'w srv) option" where
  "with_body rq endpoint s =
     (case hq_body rq of
        None \<Rightarrow> Some (Failed (raised_by_python ValueErrorExc), s)
      | Some body \<Rightarrow> replied (endpoint body s))"

definition health_answer :: json where
  "health_answer = JObj [str_item ''status'' ''ok'', str_item ''service'' ''botflow'']"

definition client_app :: "'w web \<Rightarrow> http_request \<Rightarrow> int option \<Rightarrow> 'w srv \<Rightarrow> (response \<times> 'w srv) option" where
  "client_app W rq key s =
     (let sc = hq_scope rq; F = wb_front W; D = wb_drv W; ctx = request_ctx_of W sc key s;
          route = (hq_method rq, sc_path sc)
      in if route = (''POST'', ''/v1/chat/completions'') then with_body rq (chat_completions F D ctx) s
         else if route = (''POST'', ''/v1/completions'') then with_body rq (completions F D ctx) s
         else if route = (''POST'', ''/v1/messages'') then with_body rq (anthropic_messages F D ctx) s
         else if route = (''POST'', ''/v1/responses'') then with_body rq (responses_create F D ctx) s
         else if route = (''GET'', ''/v1/models'') then
           Some (case list_models_endpoint (fr_time F) (asgi_header (sc_headers sc) ''accept'') (gw_db (sv_gw s)) of
                   Inl e \<Rightarrow> Failed e | Inr d \<Rightarrow> Replied (Answer (JObj d)), s)
         else if route = (''GET'', ''/health'') then Some (Other_response health_answer, s)
         else Some (wb_other W rq key s))"

subsection \<open>The middlewares\<close>

text \<open>The gate: who is let through to the application, with the key id of the client, or the answer.\<close>

definition limit_gate :: "'w web \<Rightarrow> real \<Rightarrow> http_request \<Rightarrow> int option \<Rightarrow> limiter \<Rightarrow> (response + int option) \<times> limiter" where
  "limit_gate W now rq key l =
     (case rate_limit_middleware (wb_parse_qsl W) (wb_limits W) now (hq_scope rq) l of
        (Inl e, l1) \<Rightarrow> (Inl (Failed e), l1)
      | (Inr (Some (Limited n)), l1) \<Rightarrow> (Inl (Limit_exceeded n), l1)
      | (Inr _, l1) \<Rightarrow> (Inr key, l1))"

definition gate :: "'w web \<Rightarrow> real \<Rightarrow> http_request \<Rightarrow> db \<Rightarrow> limiter \<Rightarrow> (response + int option) \<times> limiter" where
  "gate W now rq db l =
     (case auth_middleware (wb_sha W) (hq_scope rq) db of
        Inl e \<Rightarrow> (Inl (Failed e), l)
      | Inr (Unauthorized msg) \<Rightarrow> (Inl (Rejected 401 msg), l)
      | Inr Bypassed \<Rightarrow> limit_gate W now rq None l
      | Inr (Authenticated i) \<Rightarrow> limit_gate W now rq (Some i) l)"

definition serve_http :: "'w web \<Rightarrow> real \<Rightarrow> http_request \<Rightarrow> 'w web_state \<Rightarrow> (response \<times> 'w web_state) option" where
  "serve_http W now rq st =
     (case gate W now rq (gw_db (sv_gw (ws_srv st))) (ws_limiter st) of
        (Inl r, l) \<Rightarrow> Some (r, st\<lparr>ws_limiter := l\<rparr>)
      | (Inr key, l) \<Rightarrow>
          (case wb_cors W rq of
             Some r \<Rightarrow> Some (r, st\<lparr>ws_limiter := l\<rparr>)
           | None \<Rightarrow>
               map_option (\<lambda>(r, s). (r, \<lparr>ws_limiter = l, ws_srv = s\<rparr>)) (client_app W rq key (ws_srv st))))"

text \<open>The gate for one request after the other, each with the time it arrives.\<close>

fun gates :: "'w web \<Rightarrow> db \<Rightarrow> (real \<times> http_request) list \<Rightarrow> limiter \<Rightarrow> (response + int option) list" where
  "gates W db [] l = []"
| "gates W db ((now, rq) # rqs) l = (let (d, l1) = gate W now rq db l in d # gates W db rqs l1)"

end
