(* ===== verification/Front_Facts.thy ===== *)
theory Front_Facts
  imports Front Driver_Facts Auth_Facts
begin

text \<open>
  What the front door does as a whole: a request without a valid key is stopped at the first middleware, a
  client with a valid key can avoid the rate limit, and a call is charged to the key that was let in.
\<close>

subsection \<open>Stopped at the door\<close>

text \<open>A request to an endpoint of the clients that presents no valid key is answered with 401 at once, and
  nothing is changed: not the limiter, which never counts it, and not the state of the service. This holds
  for every method and for whatever the CORS middleware would answer, so also for the preflight requests of
  a browser, which carry no key.\<close>

lemma stopped_at_the_door:
  assumes "sc_type (hq_scope rq) = ''http''" "sc_path (hq_scope rq) \<noteq> ''/health''" "\<not> prefix ''/admin/'' (sc_path (hq_scope rq))"
    and "scope_token (hq_scope rq) = '''' \<or>
      resolve_api_key (wb_sha W) (scope_token (hq_scope rq)) (gw_db (sv_gw (ws_srv st))) = Inr None"
  shows "\<exists>msg. serve_http W now rq st = Some (Rejected 401 msg, st)"
  using assms by (auto simp: serve_http_def gate_def auth_middleware_def Let_def)

subsection \<open>The limit avoided\<close>

text \<open>A request with the client's key in one header and another text as a bearer token.\<close>

definition disguised :: "string \<Rightarrow> string \<Rightarrow> string \<Rightarrow> http_request" where
  "disguised path key b =
     \<lparr>hq_method = ''POST'',
      hq_scope = \<lparr>sc_type = ''http'', sc_path = path, sc_headers = [(''x-api-key'', key), (''authorization'', bearer @ b)],
                  sc_query = '''', sc_client = None\<rparr>,
      hq_body = None\<rparr>"

lemma latin1_append: "latin1 (a @ b) = latin1 a @ latin1 b"
  by (simp add: latin1_def)

lemma latin1_bearer: "latin1 bearer = bearer"
  by code_simp

lemma length_bearer: "length bearer = 7"
  by (simp add: bearer_def)

lemma lower_headers: "lower ''x-api-key'' = ''x-api-key''" "lower ''authorization'' = ''authorization''"
  by code_simp+

lemma disguised_key: "rate_limit_key parse_qsl (hq_scope (disguised path key b)) = latin1 b"
  using length_bearer by (simp add: rate_limit_key_def disguised_def lower_headers latin1_append latin1_bearer Let_def)

lemma disguised_scope: "sc_type (hq_scope (disguised path key b)) = ''http''" "sc_path (hq_scope (disguised path key b)) = path"
  by (simp_all add: disguised_def)

lemma disguised_token: "latin1 key \<noteq> [] \<Longrightarrow> scope_token (hq_scope (disguised path key b)) = strip_latin1 (latin1 key)"
  by (simp add: scope_token_def disguised_def lower_headers)

lemma keys_update: "fst ` set (AList.update k v al) = insert k (fst ` set al)"
  by (simp add: update_conv' flip: dom_map_of_conv_image_fst)

lemma fresh_key_admitted:
  assumes "2 \<le> max_requests cfg" "map_of (rl_requests l) key = None" "limit_request cfg now key l = (r, l1)"
  shows "r = Inr Admitted \<and> fst ` set (rl_requests l1) \<subseteq> insert key (fst ` set (rl_requests l))"
proof -
  have sub: "fst ` set (rl_requests (count_request cfg now l)) \<subseteq> fst ` set (rl_requests l)"
    by (auto simp: count_request_def cleanup_old_keys_def Let_def)
  then have none: "map_of (rl_requests (count_request cfg now l)) key = None"
    using assms(2) by (auto simp: map_of_eq_None_iff)
  then have "deque_of cfg now key (count_request cfg now l) = [now - 1]" using assms(1) by (simp add: deque_of_def)
  then have "r = Inr Admitted" and "rl_requests l1 =
      AList.update key [now - 1, now] (AList.update key [now - 1] (rl_requests (count_request cfg now l)))"
    using assms(1,3) by (auto simp: limit_request_def check_window_def Let_def)
  then show ?thesis using sub by (simp only: keys_update) blast
qed

lemma disguised_admitted:
  assumes "resolve_api_key (wb_sha W) (strip_latin1 (latin1 key)) db = Inr (Some (i, row))" "strip_latin1 (latin1 key) \<noteq> []"
    and "path \<noteq> ''/health''" "\<not> prefix ''/admin/'' path" "2 \<le> max_requests (wb_limits W)"
    and "map_of (rl_requests l) (latin1 b) = None" "gate W now (disguised path key b) db l = (d, l1)"
  shows "d = Inr (Some i) \<and> fst ` set (rl_requests l1) \<subseteq> insert (latin1 b) (fst ` set (rl_requests l))"
proof -
  have "latin1 key \<noteq> []" using assms(2) by (auto simp: strip_latin1_def)
  then have "auth_middleware (wb_sha W) (hq_scope (disguised path key b)) db = Inr (Authenticated i)"
    using assms(1-4) by (simp add: auth_middleware_def disguised_token disguised_scope Let_def)
  moreover obtain r l2 where lim: "limit_request (wb_limits W) now (latin1 b) l = (r, l2)" by (metis prod.collapse)
  ultimately show ?thesis
    using fresh_key_admitted [OF assms(5,6) lim] assms(3,7) lim
    by (auto simp: gate_def limit_gate_def rate_limit_middleware_def disguised_key disguised_scope Let_def)
qed

text \<open>C9: the rate limit can be avoided. The authentication looks for the key in \<open>x-api-key\<close> first, the limiter
  counts by the bearer token first. So a client with one valid key, that adds a bearer token it never used
  before to every request, is let through every time: however many requests it sends in however little time,
  and however low the limit is, as long as it is at least two.\<close>

theorem rate_limit_avoided:
  assumes "resolve_api_key (wb_sha W) (strip_latin1 (latin1 key)) db = Inr (Some (i, row))" "strip_latin1 (latin1 key) \<noteq> []"
    and "path \<noteq> ''/health''" "\<not> prefix ''/admin/'' path" "2 \<le> max_requests (wb_limits W)"
    and "distinct (map latin1 bs)" "latin1 ` set bs \<inter> fst ` set (rl_requests l) = {}" "length clock = length bs"
  shows "gates W db (zip clock (map (disguised path key) bs)) l = replicate (length bs) (Inr (Some i))"
  using assms(6-8)
proof (induction bs arbitrary: clock l)
  case (Cons b bs)
  obtain t ts where clock: "clock = t # ts" using Cons.prems(3) by (cases clock) auto
  obtain d l1 where g: "gate W t (disguised path key b) db l = (d, l1)" by (metis prod.collapse)
  have "map_of (rl_requests l) (latin1 b) = None" using Cons.prems(2) by (auto simp: map_of_eq_None_iff)
  from disguised_admitted [OF assms(1-5) this g]
  have d: "d = Inr (Some i)" and l1: "fst ` set (rl_requests l1) \<subseteq> insert (latin1 b) (fst ` set (rl_requests l))" by auto
  have "latin1 ` set bs \<inter> insert (latin1 b) (fst ` set (rl_requests l)) = {}"
    using Cons.prems(1,2) by (simp add: Int_insert_left split: if_splits)
  then have "latin1 ` set bs \<inter> fst ` set (rl_requests l1) = {}"
    using Int_mono [OF subset_refl l1, of "latin1 ` set bs"] by simp
  then have "gates W db (zip ts (map (disguised path key) bs)) l1 = replicate (length bs) (Inr (Some i))"
    using Cons.IH [of l1 ts] Cons.prems(1,3) clock by simp
  then show ?case by (simp add: clock g d)
qed simp

subsection \<open>Charged to the key\<close>

lemma recorded_of_cached [simp]:
  "recorded_of (s\<lparr>sv_gw := cache_request_result F dumps rid body (sv_gw s)\<rparr>) = recorded_of s"
  by (simp add: recorded_of_def recorded_def cache_request_result_def Let_def set_config_def stored_logs_def split: option.splits)

text \<open>Whose key a request may use: an enabled key with the hash of its token, or the legacy key.\<close>

definition key_admitted :: "(string \<Rightarrow> string) \<Rightarrow> scope \<Rightarrow> db \<Rightarrow> int \<Rightarrow> bool" where
  "key_admitted sha sc db i \<longleftrightarrow>
     (if rows (api_keys db) \<noteq> []
      then \<exists>r. (i, r) \<in> set (rows (api_keys db)) \<and> ak_is_enabled r \<and> ak_key_hash r = sha (scope_token sc)
      else i = 0 \<and> get_config ''llm_key'' db = Some (scope_token sc))"

lemma resolved_key_admitted:
  "unique_on ak_key_hash (api_keys db) \<Longrightarrow> resolve_api_key sha (scope_token sc) db = Inr (Some (i, r)) \<Longrightarrow>
   key_admitted sha sc db i"
  by (auto simp: resolve_api_key_Some key_admitted_def split: if_splits)

lemma gate_admits:
  assumes "gate W now rq db l = (Inr key, l1)" "sc_type (hq_scope rq) = ''http''" "sc_path (hq_scope rq) \<noteq> ''/health''"
    and "\<not> prefix ''/admin/'' (sc_path (hq_scope rq))" "unique_on ak_key_hash (api_keys db)"
  shows "\<exists>i. key = Some i \<and> key_admitted (wb_sha W) (hq_scope rq) db i"
proof -
  have key: "limit_gate W now rq k l = (Inr key, l1) \<Longrightarrow> key = k" for k
    by (auto simp: limit_gate_def split: prod.splits sum.splits option.splits decision.splits)
  obtain k where k: "auth_middleware (wb_sha W) (hq_scope rq) db = Inr (Authenticated k)" "limit_gate W now rq (Some k) l = (Inr key, l1)"
    using assms(1-4) by (auto simp: gate_def auth_middleware_def Let_def bindE_eq_Inr
        split: sum.splits auth_decision.splits if_splits option.splits)
  then obtain r where "resolve_api_key (wb_sha W) (scope_token (hq_scope rq)) db = Inr (Some (k, r))"
    using assms(2-4) by (auto simp: auth_middleware_def Let_def bindE_eq_Inr split: if_splits option.splits)
  then show ?thesis using key [OF k(2)] resolved_key_admitted [OF assms(5)] by blast
qed

text \<open>An answer that is kept in the cache of answers.\<close>

definition answered_before :: "'w web \<Rightarrow> dict \<Rightarrow> 'w srv \<Rightarrow> reply \<Rightarrow> bool" where
  "answered_before W body s a \<longleftrightarrow>
     (\<exists>i v. cached_answer (wb_front W) (request_id_of (wb_front W) body i) s = Some (Inr v) \<and> a = Answer v)"

definition only_from_cache :: "'w web \<Rightarrow> dict \<Rightarrow> 'w srv \<Rightarrow> response \<Rightarrow> bool" where
  "only_from_cache W body s resp \<longleftrightarrow> (case resp of Replied a \<Rightarrow> answered_before W body s a | _ \<Rightarrow> True)"

text \<open>One new row in the call log, under a group and the key of the client.\<close>

definition charged :: "int \<Rightarrow> int \<Rightarrow> 'w srv \<Rightarrow> 'w srv \<Rightarrow> bool" where
  "charged gid i s s' \<longleftrightarrow> (\<exists>entry. recorded_of s' = recorded_of s @ [entry] \<and> cl_api_key_id entry = Some i \<and>
     cl_group_id entry = Some gid)"

lemma chat_is_charged:
  assumes "writer_ok s" "internal_of (openai_to_internal body) = Some req" "\<not> truthy (dget (openai_to_internal body) ''stream'' JNull)"
    and "get_extra_route_params req (gw_db (sv_gw s)) = Inr (gid, grp, extra)"
    and "\<And>d s1. drive_chat D ctx req s = Some (Inr d, s1) \<Longrightarrow> storable_usage (dget d ''usage'' (JObj []))"
    and "chat_completions F D ctx body s = Some (q, s')" "rc_api_key_id ctx = Some i"
  shows "charged gid i s s' \<or> recorded_of s' = recorded_of s \<and>
    (\<forall>a. q = Inr a \<longrightarrow> (\<exists>v. cached_answer F (request_id_of F body (Some i)) s = Some (Inr v) \<and> a = Answer v))"
proof (cases "cached_answer F (request_id_of F body (Some i)) s")
  case (Some r)
  then have "s' = s" "q = bindE r (\<lambda>v. Inr (Answer v))"
    using assms(3,6,7) by (simp_all add: chat_completions_def Let_def)
  then show ?thesis using Some by (auto simp: bindE_eq_Inr)
next
  case None
  obtain p s1 where run: "drive_chat D ctx req s = Some (p, s1)" and
      rec: "recorded_of s' = recorded_of s1" and err: "\<And>e. p = Inl e \<Longrightarrow> \<exists>e. q = Inl e"
    using assms(2,3,6,7) None
    by (auto simp: chat_completions_def answer_openai_def handle_chat_non_stream_def Let_def
        split: option.splits sum.splits prod.splits)
  have "one_row_more ctx gid s p s1 \<or> recorded_of s1 = recorded_of s \<and> (\<exists>fb. p = Inl (group_not_found fb))"
  proof -
    have "chat_groups max_fallback_groups D ctx gid req extra (clock_now D s) grp [fst grp] [] s = Some (p, s1)"
      using assms(4) run by (simp add: drive_chat_def)
    from chat_groups_records [OF assms(1) this] show ?thesis using assms(5) run by auto
  qed
  then show ?thesis
  proof
    assume "one_row_more ctx gid s p s1"
    then show ?thesis using assms(7) rec by (auto simp: one_row_more_def row_of_outcome_def charged_def)
  next
    assume "recorded_of s1 = recorded_of s \<and> (\<exists>fb. p = Inl (group_not_found fb))"
    then show ?thesis using rec err by auto
  qed
qed

text \<open>C3: from the front door to the ledger. A chat request that is not streamed comes in, with whatever
  headers: either exactly one row is added to the call log, under the group the request names and the id of
  a key that is registered and enabled and has the hash of the token presented (or the legacy key); or no row is added, and
  then the client gets an answer only if that answer was in the cache of answers before.\<close>

theorem call_is_charged_to_its_key:
  assumes "unique_on ak_key_hash (api_keys (gw_db (sv_gw (ws_srv st))))" "writer_ok (ws_srv st)"
    and "hq_method rq = ''POST''" "sc_type (hq_scope rq) = ''http''" "sc_path (hq_scope rq) = ''/v1/chat/completions''"
    and "hq_body rq = Some body" "wb_cors W rq = None"
    and "internal_of (openai_to_internal body) = Some req" "\<not> truthy (dget (openai_to_internal body) ''stream'' JNull)"
    and "get_extra_route_params req (gw_db (sv_gw (ws_srv st))) = Inr (gid, grp, extra)"
    and "\<And>ctx d s1. drive_chat (wb_drv W) ctx req (ws_srv st) = Some (Inr d, s1) \<Longrightarrow> storable_usage (dget d ''usage'' (JObj []))"
    and "serve_http W now rq st = Some (resp, st')"
  shows "(\<exists>i. key_admitted (wb_sha W) (hq_scope rq) (gw_db (sv_gw (ws_srv st))) i \<and> charged gid i (ws_srv st) (ws_srv st')) \<or>
    recorded_of (ws_srv st') = recorded_of (ws_srv st) \<and> only_from_cache W body (ws_srv st) resp"
proof -
  let ?s = "ws_srv st"
  obtain d l1 where g: "gate W now rq (gw_db (sv_gw ?s)) (ws_limiter st) = (d, l1)" by (metis prod.collapse)
  show ?thesis
  proof (cases d)
    case (Inl r)
    then have "resp = r" "st' = st\<lparr>ws_limiter := l1\<rparr>" using assms(12) g by (simp_all add: serve_http_def)
    moreover have "\<forall>a. r \<noteq> Replied a"
      using g Inl by (auto simp: gate_def limit_gate_def split: sum.splits auth_decision.splits prod.splits option.splits decision.splits)
    ultimately show ?thesis by (simp add: only_from_cache_def split: response.split)
  next
    case (Inr key)
    obtain i where i: "key = Some i" "key_admitted (wb_sha W) (hq_scope rq) (gw_db (sv_gw ?s)) i"
      using gate_admits [of W now rq "gw_db (sv_gw ?s)" "ws_limiter st" key l1] g Inr assms(1,4,5) by auto
    let ?ctx = "request_ctx_of W (hq_scope rq) key ?s"
    obtain q s' where q: "chat_completions (wb_front W) (wb_drv W) ?ctx body ?s = Some (q, s')" "ws_srv st' = s'"
        "resp = (case q of Inl e \<Rightarrow> Failed e | Inr a \<Rightarrow> Replied a)"
      using assms(3,5-7,12) g Inr by (auto simp: serve_http_def client_app_def with_body_def replied_def Let_def)
    have "rc_api_key_id ?ctx = Some i" by (simp add: request_ctx_of_def i)
    moreover have "drive_chat (wb_drv W) ?ctx req ?s = Some (Inr d, s1) \<Longrightarrow> storable_usage (dget d ''usage'' (JObj []))" for d s1
      by (rule assms(11))
    ultimately show ?thesis
      using chat_is_charged [OF assms(2,8-10) _ q(1)]
      i(2) q(2,3) by (auto simp: only_from_cache_def answered_before_def split: sum.splits)
  qed
qed

definition toy_body :: dict where
  "toy_body = [(''model'', JStr ''g''), (''messages'', JList [])]"

definition toy_http :: http_request where
  "toy_http = \<lparr>hq_method = ''POST'', hq_scope = sample_scope ''k1'', hq_body = Some toy_body\<rparr>"

definition keyed_srv :: "int srv" where
  "keyed_srv = bare_srv\<lparr>sv_gw := (sv_gw bare_srv)\<lparr>gw_db := one_group_db\<lparr>api_keys := api_keys one_key_db\<rparr>\<rparr>\<rparr>"

definition plain_front :: "int front" where
  "plain_front = \<lparr>fr_so = (\<lambda>j. ''''), fr_loads = (\<lambda>s. None), fr_dumps_sorted = (\<lambda>j. ''''), fr_sha = id, fr_render = (\<lambda>d. ''''),
     fr_wall = (\<lambda>w. 0), fr_ttl = 5, fr_chunk_time = (\<lambda>n. 0), fr_chunk_hex = (\<lambda>n k. ''''), fr_time = 0, fr_hex = (\<lambda>k. '''')\<rparr>"

definition toy_web :: "int web" where
  "toy_web = \<lparr>wb_front = plain_front, wb_drv = sample_drv flaky_env, wb_sha = (\<lambda>t. ''h:'' @ t), wb_parse_qsl = (\<lambda>q. []),
     wb_limits = \<lparr>max_requests = 3, window_seconds = 60, max_keys = 10\<rparr>, wb_uuid = (\<lambda>w. ''u''), wb_cors = (\<lambda>rq. None),
     wb_other = (\<lambda>rq k s. (Other_response JNull, s))\<rparr>"

definition toy_state :: "int web_state" where
  "toy_state = \<lparr>ws_limiter = fresh_limiter, ws_srv = keyed_srv\<rparr>"

definition toy_request :: internal where
  "toy_request = sample_request\<lparr>in_json := openai_to_internal toy_body\<rparr>"

lemma toy_internal: "internal_of (openai_to_internal toy_body) = Some toy_request"
    "\<not> truthy (dget (openai_to_internal toy_body) ''stream'' JNull)"
  by (simp_all add: toy_body_def openai_to_internal_def internal_of_def max_tokens_of_def toy_request_def sample_request_def
      str_item_def dfilter_def)

lemma toy_params: "get_extra_route_params toy_request (gw_db (sv_gw keyed_srv)) = Inr (1, (1, lone_group), [])"
  by (simp add: get_extra_route_params_def get_group_id_def list_groups_def keyed_srv_def one_group_db_def toy_request_def
      sample_request_def lone_group_def sample_group_def get_group_def get_row_def lookup_row_def filter_safe_extra_def dfilter_def)

lemma toy_never_answers: "drive_chat (sample_drv flaky_env) ctx toy_request keyed_srv \<noteq> Some (Inr d, s1)"
proof -
  have "get_group_models 1 True (gw_db (sv_gw keyed_srv)) = Inr []"
    by (simp add: get_group_models_def joined_rows_def keyed_srv_def one_group_db_def empty_db_def empty_table_def)
  then have "\<exists>g. run_chat flaky_env (1, lone_group) [] JNull None [] (sv_gw keyed_srv) = (Inl no_models, g)"
    by (simp add: run_chat_def select_for_group_def build_strategy_def lone_group_def sample_group_def strategy_registry_def
        available_endpoints_def load_endpoints_def ttl_get_def bare_srv_def keyed_srv_def empty_gw_def no_models_def
        select_random_weights_def select_sequential_def)
  then obtain g where g: "run_chat flaky_env (1, lone_group) [] JNull None [] (sv_gw keyed_srv) = (Inl no_models, g)" by blast
  have t: "chat_try (sample_drv flaky_env) ctx 1 (1, lone_group) toy_request [] [] start keyed_srv =
      ((Inl no_models, []), keyed_srv\<lparr>sv_gw := g\<rparr>)" for start
    using g by (simp add: chat_try_def engine_chat_def repeats_parameter_def toy_request_def sample_request_def sample_drv_def)
  have no: "exc_attempts no_models = None" "next_group (1, lone_group) [1] = None"
    "catches [AllModelsCooldownError, NoAvailableModelError, ProviderError] no_models"
    by (simp_all add: no_models_def next_group_def lone_group_def sample_group_def catches_def is_subclass_def)
  show ?thesis
    using toy_params by (auto simp: drive_chat_def max_fallback_groups_def numeral_3_eq_3 t no split: sum.splits prod.splits)
qed

lemma toy_served: "\<exists>resp st'. serve_http toy_web 100 toy_http toy_state = Some (resp, st')"
proof -
  have keyed: "groups_keyed (sv_gw keyed_srv)"
    by (simp add: groups_keyed_def keyed_srv_def bare_srv_def empty_gw_def)
  obtain d l where g: "gate toy_web 100 toy_http (gw_db (sv_gw keyed_srv)) fresh_limiter = (d, l)" by (metis prod.collapse)
  have "chat_completions plain_front (sample_drv flaky_env) ctx toy_body keyed_srv \<noteq> None" for ctx
    using drives_end(1) [OF keyed, of "sample_drv flaky_env" ctx toy_request] toy_internal
    by (auto simp: chat_completions_def Let_def answer_openai_def handle_chat_non_stream_def split: option.splits sum.splits prod.splits)
  then have "client_app toy_web toy_http key keyed_srv \<noteq> None" for key
    by (simp add: client_app_def toy_http_def sample_scope_def with_body_def replied_def toy_web_def Let_def)
  then show ?thesis
    using g by (cases d) (auto simp: serve_http_def toy_state_def toy_web_def)
qed

theorem call_is_charged_to_its_key_witness:
  "\<exists>resp st'. serve_http toy_web 100 toy_http toy_state = Some (resp, st') \<and>
    ((\<exists>i. key_admitted (\<lambda>t. ''h:'' @ t) (sample_scope ''k1'') (gw_db (sv_gw keyed_srv)) i \<and> charged 1 i keyed_srv (ws_srv st')) \<or>
     recorded_of (ws_srv st') = recorded_of keyed_srv \<and> only_from_cache toy_web toy_body keyed_srv resp)"
proof -
  obtain resp st' where run: "serve_http toy_web 100 toy_http toy_state = Some (resp, st')" using toy_served by blast
  have srv: "ws_srv toy_state = keyed_srv" by (simp add: toy_state_def)
  have sha: "wb_sha toy_web = (\<lambda>t. ''h:'' @ t)" and sc: "hq_scope toy_http = sample_scope ''k1''" and drv: "wb_drv toy_web = sample_drv flaky_env"
    by (simp_all add: toy_web_def toy_http_def)
  have ok: "unique_on ak_key_hash (api_keys (gw_db (sv_gw keyed_srv)))" "writer_ok keyed_srv"
    by (simp_all add: keyed_srv_def one_key_db_def unique_on_def writer_ok_def bare_srv_def empty_writer_def)
  have rq: "hq_method toy_http = ''POST''" "sc_type (sample_scope ''k1'') = ''http''" "hq_body toy_http = Some toy_body"
      "sc_path (sample_scope ''k1'') = ''/v1/chat/completions''" "wb_cors toy_web toy_http = None"
    by (simp_all add: toy_http_def sample_scope_def toy_web_def)
  have "(\<exists>i. key_admitted (wb_sha toy_web) (hq_scope toy_http) (gw_db (sv_gw (ws_srv toy_state))) i \<and>
      charged 1 i (ws_srv toy_state) (ws_srv st')) \<or>
     recorded_of (ws_srv st') = recorded_of (ws_srv toy_state) \<and> only_from_cache toy_web toy_body (ws_srv toy_state) resp"
    by (rule call_is_charged_to_its_key [OF _ _ _ _ _ _ _ toy_internal _ _ run])
      (simp_all add: srv sc drv ok rq toy_params toy_never_answers)
  then show ?thesis using run by (simp only: srv sha sc) blast
qed

theorem rate_limit_avoided_witness:
  "gates toy_web one_key_db (zip [100, 100, 100, 100] (map (disguised ''/v1/messages'' ''k1'') [''a'', ''b'', ''c'', ''d''])) fresh_limiter =
     [Inr (Some 1), Inr (Some 1), Inr (Some 1), Inr (Some 1)]"
proof -
  have key: "strip_latin1 (latin1 ''k1'') = ''k1''" by code_simp
  have "distinct (map latin1 [''a'', ''b'', ''c'', ''d''])" by code_simp
  then show ?thesis
    using rate_limit_avoided [of toy_web "''k1''" one_key_db 1 _ "''/v1/messages''" "[''a'', ''b'', ''c'', ''d'']" fresh_limiter "[100, 100, 100, 100]"]
    by (simp add: key resolve_api_key_def one_key_db_def list_api_keys_def hash_key_def toy_web_def fresh_limiter_def)
qed

end
