(* ===== verification/Spec2Isabelle.thy ===== *)
theory Spec2Isabelle
  imports Context Converters Engine_Audit Account_Facts Serve_Facts Sync_Facts Workflow_Facts Settings_Facts Stats_Facts Summary_Facts Lifecycle_Facts Schema_Facts Service_Facts Cli_Facts Clients_Facts Front_Facts
begin
text \<open>
  A model of BotFlow (\<open>src/botflow/\<close>), a gateway between clients that speak the OpenAI, Anthropic or
  Responses protocol and several providers of language models, and the theorems that make it correct. Paths
  below are relative to \<open>src/botflow/\<close>.

  \<^bold>\<open>The program.\<close> A client's request passes the middlewares (rate limiter, authentication), is brought to one
  internal form by the protocol adapter, and is resolved to a \<^emph>\<open>group\<close> of models by the driver. A routing
  strategy orders the available endpoints of the group into a queue; the engine calls them one after the
  other, with retries and cooldowns, until one answers; the driver goes on with the fallback group, at most
  three groups in all, writes one call log row and gives the answer back in the client's protocol. The
  tables of the groups, models and providers are edited over the management API or the command line; background
  tasks save cooldowns, flush logs and summarise the calls of a day.

  \<^bold>\<open>Theories, bottom up.\<close> A theory \<open>X_Facts\<close> holds the lemmas and theorems about the theory \<open>X\<close>.

  \<^item> \<open>Prelude\<close>: texts, JSON values, dictionaries, the operations of Python on them; \<open>Exceptions\<close>
    (\<open>common/exceptions.py\<close>): the exceptions of the program and the result type \<open>'a res\<close>, \<open>Inl\<close> an exception,
    \<open>Inr\<close> a value; \<open>Tables\<close>: SQLite tables with row ids; \<open>Dates\<close>: calendar dates and their texts.
  \<^item> \<open>Context\<close> (\<open>common/context.py\<close>): truncation of a conversation to the context window.
    \<open>Converters\<close> (\<open>common/content_converters.py\<close>): multimodal contents between three provider formats; what a
    block says is a list of \<open>part\<close> (\<open>said\<close>), and going to Anthropic and back keeps it.
  \<^item> \<open>Store\<close> (\<open>storage/models.py\<close>, \<open>storage/db.py\<close>): configuration, providers, models, groups, members and
    stored cooldowns, each operation of \<open>Database\<close> a function on the record \<open>db\<close>, with the time stamps of
    providers, models and groups; \<open>sql_now\<close> is the clock that \<open>datetime('now')\<close> reads. \<open>Store_Facts\<close>: the
    invariant of the schema (keys, uniqueness, foreign keys) and the steps that keep it. \<open>Schema\<close>
    (\<open>Database.initialize\<close>): the tables, columns, indexes and migrations of the database file as statements on
    a typed file; \<open>Schema_Facts\<close>: what opening an old file does.
  \<^item> \<open>Cooldown\<close>, \<open>Selection\<close>, \<open>Pool\<close>, \<open>Gateway\<close> (\<open>router.py\<close>, \<open>pipeline/_shared.py\<close>): the cooldown manager,
    the weighted draw and the retry rule, the provider instances and their deferred close, the
    endpoint cache, the semaphores of the providers and \<open>call_llm\<close>, the call of one endpoint. The state of the
    running process is the record \<open>'w gw\<close>.
  \<^item> \<open>Strategies\<close> (\<open>pipeline/strategies.py\<close>, \<open>pipeline/base.py\<close>): the three routing strategies.
    \<open>Engine\<close> and \<open>Graph\<close> (\<open>pipeline/langgraph_engine.py\<close>): the direct path and the LangGraph path of the engine;
    an asynchronous generator is a value \<open>gen\<close> with the operations \<open>gen_next\<close> and \<open>gen_close\<close>. The code has the
    loop for the first chunk twice, and so does the model (\<open>first_chunk\<close> and \<open>node_first_chunk\<close>). \<open>Engine_Facts\<close>
    compares the two paths; \<open>Engine_Audit\<close> follows a whole request, and a stream under every consumer
    (\<open>stream_step\<close>). \<open>Workflow\<close> (\<open>pipeline/langgraph_strategy.py\<close>): the strategy that walks a graph of prompts;
    \<open>Workflow_Facts\<close> has its walks as a relation whose steps are the calls of the nodes (\<open>flow_run\<close>).
  \<^item> \<open>Logs\<close>, \<open>Driver\<close>, \<open>Lifecycle\<close> (\<open>core.py\<close>): the buffered log writer with its interleavings and the
    cancellation of its tasks (\<open>writer_step\<close>), the chat and stream drivers over groups, start-up, background
    rounds and shutdown of the service. \<open>Operations\<close>: all writing operations of the running service as values.
  \<^item> \<open>Limiter\<close>, \<open>Auth\<close>, \<open>Accounts\<close> (\<open>core.py\<close>, \<open>auth.py\<close>, \<open>admin_api.py\<close>): the sliding window of each key, who gets
    past the middleware and to the management API, the management account with its set-up token and sessions.
  \<^item> \<open>Protocol\<close>, \<open>Providers\<close>, \<open>Serve\<close> (\<open>protocol_adapter.py\<close>, \<open>providers/\<close>, \<open>core.py\<close>): the conversions at the two
    ends, the stream serializers, the cache of answers by request id, and the client endpoints. \<open>Clients\<close>
    (\<open>providers/\<close>): the provider classes around the vendors' packages; \<open>over_sdk\<close> is the environment of the
    routing whose upstream calls are those of these classes. \<open>Front\<close> (\<open>core.py\<close>): the middlewares around the
    client endpoints, in the order they run, and the routes.
  \<^item> \<open>Admin\<close>, \<open>Sync\<close>, \<open>Stats\<close>, \<open>Settings\<close> (\<open>admin_api.py\<close>, \<open>core.py\<close>, \<open>config.py\<close>, \<open>storage/db.py\<close>): the management
    API with its cache invalidations, the synchronisation of model lists, the statistics, the settings page
    and its merge at start-up. \<open>Summary\<close> (\<open>storage/daily_summary.py\<close>): the daily run and the retention.
  \<^item> \<open>Service\<close>, \<open>Cli_Args\<close>, \<open>Cli\<close> (\<open>cli/service.py\<close>, \<open>cli/main.py\<close>): process id file, stop and restart; the argument
    parser; the commands, composed from the operations of the other theories. \<open>run\<close> performs the start-up of the
    application on the database and then the operations that the web server, a parameter, brings about.

  \<^bold>\<open>Interfaces.\<close> Three locales state what one component relies on in another. \<open>availability\<close> (\<open>Cooldown\<close>):
  asking whether a model is available only lifts expired cooldowns; interpreted on the cooldown manager.
  \<open>routing_strategy\<close> (\<open>Strategy_Facts\<close>): a selection yields a queue that is not empty, has no duplicates and
  no endpoint on cooldown, and gives back the permits it takes; interpreted on each of the three strategies.
  \<open>read_through_cache\<close> (\<open>Admin_Facts\<close>): a reader that fills a cache and writers that invalidate it never show a
  value the store contradicts; interpreted on the endpoint cache and the management operations.

  \<^bold>\<open>What the theorems show.\<close> The routing: the two paths of the engine are equivalent for chat calls and
  streams; a stream carries chunks of one upstream without a gap and ends properly; permits are always given back;
  one log row for a request and one audit row for a failed endpoint; a request ends; cooldowns block exactly
  after the failures and for the time the documentation says, and survive the process (as do stale rows of
  models that have recovered); round robin is fair; a workflow run is a walk of calls along the edges that the
  answers select. The front: the limiter lets at most its maximum through in any
  window and its \<open>Retry-After\<close> suffices; only registered keys pass; the account opens once; the three protocols
  deliver the same messages; repeated requests are replayed. The storage: the schema's invariant under every
  operation and every command, \<open>run\<close> included, every interleaving of the log writer conserves rows up to those it
  names (the rest of a batch after a row that cannot be stored, and the batch of a cancelled task), statistics
  count each call once, settings keep value, type and range over a restart, opening an old file upgrades it and
  keeps its rows. The management: no cached endpoint contradicts the tables; the command line makes the same
  change as the API up to \<open>updated_at\<close>, which the API does not set; a restart runs the command it means; stopping
  signals the process of the file only, and ends unless the clock is set back.
  The providers hold every client they opened until they close it. Some theorems state where the code breaks:
  status codes of upstream errors never reach the retry rule, a header field in a request puts models on
  cooldown, and a valid key can avoid the rate limit; as lemmas, a group with weights of zero, a finish chunk
  without usage, and preflight requests that are refused.

  \<^bold>\<open>Bounds and fuel.\<close> The drivers carry fuel for three groups, the limit of the code itself, and the
  retries of one endpoint recurse over the attempts left. A workflow stops after the fifty steps of the code.
  The wait for a process to exit is a \<open>partial_function (option)\<close>; that it returns is part of
  \<open>Service_Facts.stop_service_settles\<close>. Every other recursion is structural or has a measure.
  Python's integers are \<open>int\<close> and \<open>nat\<close>; where SQLite's 64 bits or a C \<open>int\<close> raise, the model raises.

  \<^bold>\<open>Parameters.\<close> What is not under \<open>src/\<close> is an argument: JSON text (\<open>dumps\<close>, \<open>loads\<close>), \<open>str\<close> and \<open>repr\<close> of values,
  clocks, random numbers and texts, hashes and key derivation, the tokenizer, the upstream calls (\<open>'w env\<close>) and
  the vendors' packages behind them (\<open>'w sdk\<close>), HTTP requests of the synchronisation (\<open>fetch\<close>), the executor of LangGraph (\<open>invoke\<close>, with the
  hypothesis \<open>executes_graph\<close>: it runs the nodes in the order of the edges), the operating system (\<open>'w os\<close>,
  \<open>start_env\<close>), gzip, rounding, and SQLite's order of ties and date functions. Each hypothesis on one of them is
  named where it is used and has a witness with a concrete function.

  \<^bold>\<open>Restrictions.\<close> One request runs at a time, except where a step relation interleaves tasks (\<open>Logs\<close>, \<open>Pool\<close>,
  consumers of streams); so a semaphore keeps its count of permits and never waits. Log lines are left
  out. Floats are real numbers. Strings that have no UTF-8 text (lone surrogates) are left out. The question
  whether the client is still connected does not raise. The argument parser knows exact options only. Windows
  branches of the process management are left out.

  \<^bold>\<open>Not modelled.\<close> \<open>admin_dashboard.py\<close> and the static page (HTML), \<open>common/logger.py\<close> (set-up of Python's logging),
  \<open>workspace.py\<close> and the loading of \<open>.env\<close> in \<open>config.py\<close> (paths and environment variables, read by pydantic),
  \<open>pipeline/engine.py\<close> (delegation only) and the assembly of the FastAPI application. They compute nothing the
  other parts rely on beyond the values that the model takes as arguments.
\<close>

end
